(* ===== verification/Prelude.thy ===== *)
theory Prelude
  imports Complex_Main "HOL-Library.AList" "HOL-Library.Char_ord" "HOL-Library.List_Lexorder"
    "HOL-Library.Product_Lexorder"
begin

text \<open>
  The prelude of the development: the theorem collections the component theories extend,
  Go's 64-bit integers with their wrap-around, the decimal printing and parsing of
  \<open>fmt\<close> and \<open>strconv\<close>, and the association lists that stand for Go maps.
\<close>

named_theorems go_simps "unfolding rules of the error, time and string helpers"
named_theorems tx_defs "definitions of the transactional operations of the store"
named_theorems frame_simps "what an operation leaves unchanged"

section \<open>Go integers\<close>

text \<open>
  Go's \<open>int\<close> (on the 64-bit platforms the program is built for), \<open>int64\<close>
  and \<open>time.Duration\<close> are values between \<open>min_int64\<close> and \<open>max_int64\<close>; arithmetic
  wraps. They are carried as \<open>int\<close>, and every operation that can leave the range goes
  through \<open>wrap64\<close>.
\<close>

definition max_int64 :: int where "max_int64 = 9223372036854775807"

definition min_int64 :: int where "min_int64 = - 9223372036854775808"

definition in_int64 :: "int \<Rightarrow> bool" where
  "in_int64 i \<longleftrightarrow> min_int64 \<le> i \<and> i \<le> max_int64"

definition wrap64 :: "int \<Rightarrow> int" where
  "wrap64 i = (i + 9223372036854775808) mod 18446744073709551616 - 9223372036854775808"

abbreviation incr64 :: "int \<Rightarrow> int" where "incr64 i \<equiv> wrap64 (i + 1)"

lemma wrap64_id: "in_int64 i \<Longrightarrow> wrap64 i = i"
  by (simp add: wrap64_def in_int64_def min_int64_def max_int64_def)

lemma in_int64_wrap64 [simp]: "in_int64 (wrap64 i)"
proof -
  have "0 \<le> (i + 9223372036854775808) mod 18446744073709551616"
    and "(i + 9223372036854775808) mod 18446744073709551616 < 18446744073709551616"
    by simp_all
  then show ?thesis
    unfolding in_int64_def wrap64_def min_int64_def max_int64_def by linarith
qed

lemma incr64_eq: "0 \<le> i \<Longrightarrow> i < max_int64 \<Longrightarrow> incr64 i = i + 1"
  by (rule wrap64_id) (simp add: in_int64_def min_int64_def max_int64_def)

lemma incr64_gt: "0 \<le> i \<Longrightarrow> i < max_int64 \<Longrightarrow> i < incr64 i"
  by (simp add: incr64_eq)

lemma wrap64_numeral_1 [simp]: "wrap64 1 = 1"
  by (simp add: wrap64_def)

section \<open>Decimal numbers\<close>

definition digit :: "nat \<Rightarrow> char" where "digit d = char_of (48 + d)"

definition is_digit :: "char \<Rightarrow> bool" where
  "is_digit c \<longleftrightarrow> 48 \<le> (of_char c :: nat) \<and> (of_char c :: nat) \<le> 57"

definition digit_val :: "char \<Rightarrow> nat" where "digit_val c = of_char c - 48"

fun show_nat :: "nat \<Rightarrow> string" where
  "show_nat n = (if n < 10 then [digit n] else show_nat (n div 10) @ [digit (n mod 10)])"

declare show_nat.simps [simp del]

definition show_int :: "int \<Rightarrow> string" where
  "show_int i = (if i < 0 then CHR ''-'' # show_nat (nat (- i)) else show_nat (nat i))"

definition digits_val :: "string \<Rightarrow> nat" where
  "digits_val s = foldl (\<lambda>a c. 10 * a + digit_val c) 0 s"

text \<open>
  \<open>strconv.Atoi\<close>: an optional sign, at least one decimal digit and nothing else, in the
  range of an \<open>int\<close>; anything else is an error.
\<close>

definition signed_val :: "bool \<Rightarrow> string \<Rightarrow> int option" where
  "signed_val neg s =
     (if s = [] \<or> \<not> list_all is_digit s then None
      else let i = (if neg then - int (digits_val s) else int (digits_val s))
           in if in_int64 i then Some i else None)"

fun Atoi :: "string \<Rightarrow> int option" where
  "Atoi [] = None"
| "Atoi (c # s) =
     (if c = CHR ''-'' then signed_val True s
      else if c = CHR ''+'' then signed_val False s
      else signed_val False (c # s))"

lemma of_char_digit: "d < 10 \<Longrightarrow> (of_char (digit d) :: nat) = 48 + d"
  unfolding digit_def by (simp add: of_char_of take_bit_eq_mod)

lemma is_digit_digit [simp]: "d < 10 \<Longrightarrow> is_digit (digit d)"
  by (simp add: is_digit_def of_char_digit)

lemma digit_val_digit [simp]: "d < 10 \<Longrightarrow> digit_val (digit d) = d"
  by (simp add: digit_val_def of_char_digit)

lemma show_nat_digits: "list_all is_digit (show_nat n)"
proof (induction n rule: show_nat.induct)
  case (1 n)
  then show ?case by (subst show_nat.simps) simp
qed

lemma show_nat_nonempty [simp]: "show_nat n \<noteq> []"
  by (subst show_nat.simps) simp

lemma digits_val_snoc: "digits_val (s @ [c]) = 10 * digits_val s + digit_val c"
  by (simp add: digits_val_def)

lemma digits_val_show_nat [simp]: "digits_val (show_nat n) = n"
proof (induction n rule: show_nat.induct)
  case (1 n)
  show ?case
  proof (cases "n < 10")
    case True
    then show ?thesis by (subst show_nat.simps) (simp add: digits_val_def)
  next
    case False
    with 1 have IH: "digits_val (show_nat (n div 10)) = n div 10" by simp
    from False show ?thesis
      by (subst show_nat.simps) (simp add: digits_val_snoc IH)
  qed
qed

lemma show_nat_inj [simp]: "show_nat m = show_nat n \<longleftrightarrow> m = n"
  by (metis digits_val_show_nat)

lemma is_digit_CHR [simp]:
  "\<not> is_digit CHR ''-''" "\<not> is_digit CHR ''+''" "\<not> is_digit CHR ''.''" "\<not> is_digit CHR '':''"
  "\<not> is_digit CHR '')''" "\<not> is_digit CHR '' ''"
  by (simp_all add: is_digit_def)

lemma notin_show_nat: "\<not> is_digit c \<Longrightarrow> c \<notin> set (show_nat n)"
  using show_nat_digits [of n] by (auto simp: list_all_iff)

lemma Atoi_show_nat: "int n \<le> max_int64 \<Longrightarrow> Atoi (show_nat n) = Some (int n)"
proof -
  assume n: "int n \<le> max_int64"
  obtain c s where cs: "show_nat n = c # s"
    by (cases "show_nat n") auto
  with show_nat_digits [of n] have "is_digit c" by simp
  then have sign: "c \<noteq> CHR ''-''" "c \<noteq> CHR ''+''"
    using is_digit_CHR by metis+
  have "signed_val False (show_nat n) = Some (int n)"
    using n show_nat_digits [of n]
    by (simp add: signed_val_def in_int64_def min_int64_def max_int64_def)
  with cs sign show ?thesis by simp
qed

section \<open>Strings\<close>

text \<open>\<open>strings.LastIndex (s, ".")\<close>, as the split it is used for: what is before the last
  occurrence of a character and what is after it.\<close>

fun split_last :: "char \<Rightarrow> string \<Rightarrow> (string \<times> string) option" where
  "split_last c [] = None"
| "split_last c (x # xs) =
     (case split_last c xs of
        Some (a, b) \<Rightarrow> Some (x # a, b)
      | None \<Rightarrow> (if x = c then Some ([], xs) else None))"

lemma split_last_None: "split_last c s = None \<longleftrightarrow> c \<notin> set s"
  by (induction s) (auto split: option.splits)

lemma split_last_absent [simp]: "c \<notin> set s \<Longrightarrow> split_last c s = None"
  by (simp add: split_last_None)

lemma split_last_append: "c \<notin> set b \<Longrightarrow> split_last c (a @ c # b) = Some (a, b)"
  by (induction a) simp_all

lemma split_last_Some: "split_last c s = Some (a, b) \<Longrightarrow> s = a @ c # b \<and> c \<notin> set b"
  by (induction s arbitrary: a b) (auto simp: split_last_None split: option.splits if_splits)

lemma append_sep_inject:
  "c \<notin> set a \<Longrightarrow> c \<notin> set a' \<Longrightarrow> a @ c # b = a' @ c # b' \<longleftrightarrow> a = a' \<and> b = b'"
proof (induction a arbitrary: a')
  case Nil
  then show ?case by (cases a') auto
next
  case (Cons x a)
  then show ?case by (cases a') auto
qed

section \<open>Maps of the program\<close>

text \<open>
  A Go map is an association list with distinct keys: \<open>map_of\<close> looks a key up,
  \<open>AList.update\<close> stores a value and \<open>AList.delete\<close> removes a key. Go's iteration order
  is unspecified; a range over a map goes over the list, and every query of the store sorts
  what it collected, so the order of the list does not reach a result.
\<close>

definition vals :: "('k \<times> 'v) list \<Rightarrow> 'v list" where "vals m = map snd m"

lemma map_of_update [simp]: "map_of (AList.update k v m) = (map_of m)(k \<mapsto> v)"
  by (simp add: update_conv')

lemma distinct_keys_update [simp]:
  "distinct (map fst m) \<Longrightarrow> distinct (map fst (AList.update k v m))"
  by (rule distinct_update)

lemma in_vals_iff: "distinct (map fst m) \<Longrightarrow> v \<in> set (vals m) \<longleftrightarrow> (\<exists>k. map_of m k = Some v)"
  by (force simp: vals_def)

text \<open>
  One map grows into another when no key is lost and every value has moved along \<open>P\<close>.
\<close>

definition grows :: "('v \<Rightarrow> 'v \<Rightarrow> bool) \<Rightarrow> ('k \<times> 'v) list \<Rightarrow> ('k \<times> 'v) list \<Rightarrow> bool" where
  "grows P m m' \<longleftrightarrow> (\<forall>k v. map_of m k = Some v \<longrightarrow> (\<exists>v'. map_of m' k = Some v' \<and> P v v'))"

lemma growsD: "grows P m m' \<Longrightarrow> map_of m k = Some v \<Longrightarrow> \<exists>v'. map_of m' k = Some v' \<and> P v v'"
  by (simp add: grows_def)

lemma grows_refl [simp]: "(\<And>v. P v v) \<Longrightarrow> grows P m m"
  by (simp add: grows_def)

lemma grows_trans: "grows P m m' \<Longrightarrow> grows P m' m'' \<Longrightarrow> (\<And>a b c. P a b \<Longrightarrow> P b c \<Longrightarrow> P a c) \<Longrightarrow> grows P m m''"
  unfolding grows_def by (metis (no_types))

lemma grows_insert: "map_of m k = None \<Longrightarrow> (\<And>v. P v v) \<Longrightarrow> grows P m (AList.update k v m)"
  by (auto simp: grows_def)

lemma grows_update: "map_of m k = Some v \<Longrightarrow> P v v' \<Longrightarrow> (\<And>v. P v v) \<Longrightarrow> grows P m (AList.update k v' m)"
  by (auto simp: grows_def)

lemma grows_update_any: "(\<And>v. map_of m k = Some v \<Longrightarrow> P v v') \<Longrightarrow> (\<And>v. P v v) \<Longrightarrow> grows P m (AList.update k v' m)"
  by (auto simp: grows_def)

text \<open>A map whose keys are distinct and whose values fit their keys.\<close>

definition keyed :: "('k \<Rightarrow> 'v \<Rightarrow> bool) \<Rightarrow> ('k \<times> 'v) list \<Rightarrow> bool" where
  "keyed P m \<longleftrightarrow> distinct (map fst m) \<and> (\<forall>k v. map_of m k = Some v \<longrightarrow> P k v)"

definition has :: "('k \<times> 'v) list \<Rightarrow> 'k \<Rightarrow> bool" where "has m k \<longleftrightarrow> map_of m k \<noteq> None"

lemma keyed_Nil [simp]: "keyed P []" by (simp add: keyed_def)

lemma keyed_update [intro]: "keyed P m \<Longrightarrow> P k v \<Longrightarrow> keyed P (AList.update k v m)"
  by (auto simp: keyed_def)

lemma keyed_mono: "keyed P m \<Longrightarrow> (\<And>k v. P k v \<Longrightarrow> Q k v) \<Longrightarrow> keyed Q m"
  by (auto simp: keyed_def)

lemma keyed_step: "keyed P m \<Longrightarrow> (\<And>k v. map_of m k = Some v \<Longrightarrow> P k v \<Longrightarrow> Q k v) \<Longrightarrow> keyed Q m"
  by (auto simp: keyed_def)

lemma keyed_put:
  "keyed P m \<Longrightarrow> (\<And>k' v'. map_of m k' = Some v' \<Longrightarrow> k' \<noteq> k \<Longrightarrow> P k' v' \<Longrightarrow> Q k' v') \<Longrightarrow> Q k v
     \<Longrightarrow> keyed Q (AList.update k v m)"
  by (auto simp: keyed_def)

lemma keyedD: "keyed P m \<Longrightarrow> map_of m k = Some v \<Longrightarrow> P k v"
  by (auto simp: keyed_def)

lemma keyed_vals: "keyed P m \<Longrightarrow> v \<in> set (vals m) \<longleftrightarrow> (\<exists>k. map_of m k = Some v)"
  by (simp add: keyed_def in_vals_iff)

lemma has_update [simp]: "has (AList.update k v m) k' \<longleftrightarrow> k' = k \<or> has m k'"
  by (simp add: has_def)

lemma has_grows: "grows P m m' \<Longrightarrow> has m k \<Longrightarrow> has m' k"
  by (auto simp: has_def dest: growsD)

text \<open>The clause \<open>if limit > 0 && len(out) > limit { out = out[:limit] }\<close> of the queries.\<close>

definition limited :: "int \<Rightarrow> 'a list \<Rightarrow> 'a list" where
  "limited limit xs = (if 0 < limit \<and> limit < int (length xs) then take (nat limit) xs else xs)"

lemma set_limited: "set (limited n xs) \<subseteq> set xs"
  by (auto simp: limited_def dest: in_set_takeD)

lemma limited_all: "n \<le> 0 \<Longrightarrow> limited n xs = xs"
  by (simp add: limited_def)

lemma sorted_limited: "sorted (map f xs) \<Longrightarrow> sorted (map f (limited n xs))"
  by (auto simp: limited_def take_map [symmetric] intro: sorted_wrt_take)

end
