(* ===== verification/GoBase.thy ===== *)
theory GoBase
  imports Prelude
begin

text \<open>
  What every component shares with the Go runtime: the sentinel errors of
  internal/core/errors.go and error wrapping, instants and durations, and the JSON
  documents that events and tool payloads carry.
\<close>

section \<open>Sentinel errors (internal/core/errors.go)\<close>

text \<open>
  One constructor per sentinel a caller compares with \<open>errors.Is\<close>. The last group are the
  sentinels of the packages that use core: \<open>errNotExecuted\<close> of effect.go, \<open>ErrProtocol\<close> of
  sdk/wire, \<open>ErrNoWorker\<close>, \<open>ErrAgentVersion\<close> and \<open>ErrWorkerGone\<close> of sdk/gateway, and
  the two context errors of the standard library. \<open>OwnSentinel m\<close> is one that a caller makes
  with \<open>errors.New (m)\<close> to recognise it again.
\<close>

datatype sentinel =
    ErrNotFound | ErrConflict | ErrTaskExists | ErrSeqConflict | ErrInvalidTransition
  | ErrUnknownPayloadVersion | ErrToolNotFound | ErrDispatcherClosed | ErrEffectExists
  | ErrSignalExists | ErrFenced | ErrLeaseHeld | ErrNeedsReconciliation | ErrEscalated
  | ErrUnavailable
  | errNotExecuted | ErrProtocol | ErrNoWorker | ErrAgentVersion | ErrWorkerGone
  | CtxCanceled | CtxDeadlineExceeded | OwnSentinel string

fun sentinel_text :: "sentinel \<Rightarrow> string" where
  "sentinel_text ErrNotFound = ''veya: not found''"
| "sentinel_text ErrConflict = ''veya: version conflict''"
| "sentinel_text ErrTaskExists = ''veya: task already exists for step''"
| "sentinel_text ErrSeqConflict = ''veya: event sequence already used''"
| "sentinel_text ErrInvalidTransition = ''veya: invalid status transition''"
| "sentinel_text ErrUnknownPayloadVersion = ''veya: unknown event payload version''"
| "sentinel_text ErrToolNotFound = ''veya: tool not registered''"
| "sentinel_text ErrDispatcherClosed = ''veya: dispatcher closed''"
| "sentinel_text ErrEffectExists = ''veya: effect already exists for idempotency key''"
| "sentinel_text ErrSignalExists = ''veya: signal already recorded''"
| "sentinel_text ErrFenced = ''veya: stale fencing token''"
| "sentinel_text ErrLeaseHeld = ''veya: lease is held by another worker''"
| "sentinel_text ErrNeedsReconciliation = ''veya: effect outcome is unknown''"
| "sentinel_text ErrEscalated = ''veya: effect requires human resolution''"
| "sentinel_text ErrUnavailable = ''veya: no decision can be made right now''"
| "sentinel_text errNotExecuted = ''veya: external action was not executed''"
| "sentinel_text ErrProtocol = ''veya: worker protocol violation''"
| "sentinel_text ErrNoWorker =
     ''veya: no decision can be made right now: no worker is registered for this agent''"
| "sentinel_text ErrAgentVersion =
     ''veya: no decision can be made right now: the run was started under a different agent version''"
| "sentinel_text ErrWorkerGone = ''veya: the worker disconnected before answering''"
| "sentinel_text CtxCanceled = ''context canceled''"
| "sentinel_text CtxDeadlineExceeded = ''context deadline exceeded''"
| "sentinel_text (OwnSentinel m) = m"

text \<open>
  An error value is its text and the sentinels its chain wraps; \<open>errors.Is\<close> asks for
  membership. \<open>ErrNoWorker\<close> and \<open>ErrAgentVersion\<close> wrap \<open>ErrUnavailable\<close> themselves.
\<close>

record go_error =
  err_text :: string
  err_chain :: "sentinel list"

definition Is :: "go_error \<Rightarrow> sentinel \<Rightarrow> bool" where
  "Is e s \<longleftrightarrow> s \<in> set (err_chain e)"

definition errors_New :: "string \<Rightarrow> go_error" where
  "errors_New m = \<lparr>err_text = m, err_chain = []\<rparr>"

definition sentinel_err :: "sentinel \<Rightarrow> go_error" where
  "sentinel_err s = \<lparr>err_text = sentinel_text s,
     err_chain = (if s = ErrNoWorker \<or> s = ErrAgentVersion then [s, ErrUnavailable] else [s])\<rparr>"

text \<open>\<open>fmt.Errorf ("<ctx>: %w", err)\<close>, and the same for a sentinel.\<close>

definition wrap_err :: "string \<Rightarrow> go_error \<Rightarrow> go_error" where
  "wrap_err ctx e = \<lparr>err_text = ctx @ '': '' @ err_text e, err_chain = err_chain e\<rparr>"

definition wrap :: "string \<Rightarrow> sentinel \<Rightarrow> go_error" where
  "wrap ctx s = wrap_err ctx (sentinel_err s)"

text \<open>\<open>fmt.Errorf ("<ctx>: %w: <rest>", err)\<close>.\<close>

definition wrap_mid :: "string \<Rightarrow> sentinel \<Rightarrow> string \<Rightarrow> go_error" where
  "wrap_mid ctx s rest = \<lparr>err_text = ctx @ sentinel_text s @ '': '' @ rest,
     err_chain = err_chain (sentinel_err s)\<rparr>"

lemma Is_simps [simp, go_simps]:
  "Is (errors_New m) s \<longleftrightarrow> False"
  "Is (wrap_err ctx e) s \<longleftrightarrow> Is e s"
  "Is (wrap ctx s') s \<longleftrightarrow> Is (sentinel_err s') s"
  "Is (wrap_mid ctx s' rest) s \<longleftrightarrow> Is (sentinel_err s') s"
  by (simp_all add: Is_def errors_New_def wrap_err_def wrap_def wrap_mid_def)

lemma Is_sentinel_err [simp, go_simps]:
  "Is (sentinel_err s') s \<longleftrightarrow>
     s = s' \<or> (s = ErrUnavailable \<and> (s' = ErrNoWorker \<or> s' = ErrAgentVersion))"
  by (auto simp: Is_def sentinel_err_def)

section \<open>Time\<close>

text \<open>
  An instant is the number of nanoseconds since Go's zero time (January 1, year 1, UTC), so
  \<open>IsZero\<close> is comparison with 0; a duration is an \<open>int64\<close> number of nanoseconds, and
  \<open>Sub\<close> saturates at its bounds, as \<open>time.Time.Sub\<close> does.
\<close>

type_synonym time = int
type_synonym duration = int

definition zero_time :: time where "zero_time = 0"

definition second :: duration where "second = 1000000000"

definition unix_epoch :: time where "unix_epoch = 62135596800 * 1000000000"

definition time_IsZero :: "time \<Rightarrow> bool" where "time_IsZero t \<longleftrightarrow> t = zero_time"

definition time_Add :: "time \<Rightarrow> duration \<Rightarrow> time" where "time_Add t d = t + d"

definition time_Sub :: "time \<Rightarrow> time \<Rightarrow> duration" where
  "time_Sub t u = max min_int64 (min max_int64 (t - u))"

text \<open>\<open>time.Unix (0, ns).UTC ()\<close> and \<open>Time.UnixNano\<close>, which wraps outside the range of an int64.\<close>

definition time_Unix :: "int \<Rightarrow> time" where "time_Unix ns = unix_epoch + ns"

definition time_UnixNano :: "time \<Rightarrow> int" where "time_UnixNano t = wrap64 (t - unix_epoch)"

text \<open>Years 0 to 9999, outside of which \<open>Time.MarshalJSON\<close> refuses.\<close>

definition time_marshalable :: "time \<Rightarrow> bool" where
  "time_marshalable t \<longleftrightarrow> - 31622400 * 1000000000 \<le> t \<and> t < 315537897600 * 1000000000"

section \<open>JSON\<close>

text \<open>
  JSON documents as trees. \<open>JTime t\<close> stands for the JSON string with the RFC 3339 rendering
  of an instant, which is how \<open>time.Time\<close> marshals; \<open>JLit\<close> is a number that is not an
  integer literal. A \<open>json.RawMessage\<close> (a byte slice the runtime does not interpret) is nil,
  the text of a document, or bytes that are not JSON. Strings are taken to be valid UTF-8,
  which \<open>encoding/json\<close> leaves as they are.
\<close>

datatype json =
    JNull | JBool bool | JNum int | JLit string | JStr string | JTime time
  | JArr "json list" | JObj "(string \<times> json) list"

datatype raw = RawNil | RawJSON json | RawBytes string

definition raw_empty :: "raw \<Rightarrow> bool" where
  "raw_empty r \<longleftrightarrow> r = RawNil \<or> r = RawBytes []"

text \<open>
  \<open>json.Marshal\<close> of a struct concatenates what each field contributes; \<open>None\<close> is a field
  that does not marshal (bytes that are not JSON, an instant past year 9999). An
  \<open>omitempty\<close> field contributes nothing when it is empty; on a \<open>time.Time\<close> it has no effect.
\<close>

type_synonym fields = "(string \<times> json) list option"

definition f_str :: "string \<Rightarrow> string \<Rightarrow> fields" where "f_str k s = Some [(k, JStr s)]"

definition f_str_oe :: "string \<Rightarrow> string \<Rightarrow> fields" where
  "f_str_oe k s = (if s = [] then Some [] else f_str k s)"

definition f_int :: "string \<Rightarrow> int \<Rightarrow> fields" where "f_int k i = Some [(k, JNum i)]"

definition f_bool :: "string \<Rightarrow> bool \<Rightarrow> fields" where "f_bool k b = Some [(k, JBool b)]"

definition f_time :: "string \<Rightarrow> time \<Rightarrow> fields" where
  "f_time k t = (if time_marshalable t then Some [(k, JTime t)] else None)"

definition f_strs :: "string \<Rightarrow> string list \<Rightarrow> fields" where
  "f_strs k ss = Some [(k, JArr (map JStr ss))]"

definition f_raw_oe :: "string \<Rightarrow> raw \<Rightarrow> fields" where
  "f_raw_oe k r = (if raw_empty r then Some []
     else case r of RawJSON j \<Rightarrow> Some [(k, j)] | _ \<Rightarrow> None)"

fun struct_fields :: "fields list \<Rightarrow> fields" where
  "struct_fields [] = Some []"
| "struct_fields (f # fs) =
     (case f of None \<Rightarrow> None
      | Some kvs \<Rightarrow> map_option (\<lambda>rest. kvs @ rest) (struct_fields fs))"

definition struct :: "fields list \<Rightarrow> json option" where
  "struct fs = map_option JObj (struct_fields fs)"

text \<open>
  \<open>json.Unmarshal\<close> into a struct: an absent field or a null keeps the zero value (a
  \<open>RawMessage\<close> takes the null), and a field of the wrong type is an error that does not stop
  the other fields from being set. Each reader returns its value and whether it is in order.
  Where a key repeats the last one counts.
\<close>

definition jget :: "(string \<times> json) list \<Rightarrow> string \<Rightarrow> json option" where
  "jget kvs k = map_of (rev kvs) k"

definition g_str :: "(string \<times> json) list \<Rightarrow> string \<Rightarrow> string \<times> bool" where
  "g_str kvs k = (case jget kvs k of None \<Rightarrow> ([], True) | Some JNull \<Rightarrow> ([], True)
     | Some (JStr s) \<Rightarrow> (s, True) | _ \<Rightarrow> ([], False))"

definition g_int :: "(string \<times> json) list \<Rightarrow> string \<Rightarrow> int \<times> bool" where
  "g_int kvs k = (case jget kvs k of None \<Rightarrow> (0, True) | Some JNull \<Rightarrow> (0, True)
     | Some (JNum i) \<Rightarrow> (if in_int64 i then (i, True) else (0, False)) | _ \<Rightarrow> (0, False))"

definition g_bool :: "(string \<times> json) list \<Rightarrow> string \<Rightarrow> bool \<times> bool" where
  "g_bool kvs k = (case jget kvs k of None \<Rightarrow> (False, True) | Some JNull \<Rightarrow> (False, True)
     | Some (JBool b) \<Rightarrow> (b, True) | _ \<Rightarrow> (False, False))"

definition g_time :: "(string \<times> json) list \<Rightarrow> string \<Rightarrow> time \<times> bool" where
  "g_time kvs k = (case jget kvs k of None \<Rightarrow> (zero_time, True) | Some JNull \<Rightarrow> (zero_time, True)
     | Some (JTime t) \<Rightarrow> (t, True) | _ \<Rightarrow> (zero_time, False))"

definition g_raw :: "(string \<times> json) list \<Rightarrow> string \<Rightarrow> raw" where
  "g_raw kvs k = (case jget kvs k of None \<Rightarrow> RawNil | Some j \<Rightarrow> RawJSON j)"

fun json_strs :: "json list \<Rightarrow> string list \<times> bool" where
  "json_strs [] = ([], True)"
| "json_strs (j # js) = (let (ss, ok) = json_strs js in
     case j of JStr s \<Rightarrow> (s # ss, ok) | JNull \<Rightarrow> ([] # ss, ok) | _ \<Rightarrow> ([] # ss, False))"

definition g_strs :: "(string \<times> json) list \<Rightarrow> string \<Rightarrow> string list \<times> bool" where
  "g_strs kvs k = (case jget kvs k of None \<Rightarrow> ([], True) | Some JNull \<Rightarrow> ([], True)
     | Some (JArr js) \<Rightarrow> json_strs js | _ \<Rightarrow> ([], False))"

text \<open>The fields of a document read into a struct: a null document changes nothing.\<close>

definition struct_of :: "json \<Rightarrow> (string \<times> json) list option" where
  "struct_of j = (case j of JObj kvs \<Rightarrow> Some kvs | JNull \<Rightarrow> Some [] | _ \<Rightarrow> None)"

lemma json_strs_map [simp]: "json_strs (map JStr ss) = (ss, True)"
  by (induction ss) auto

lemmas field_defs = f_str_def f_str_oe_def f_int_def f_bool_def f_time_def f_strs_def f_raw_oe_def
lemmas reader_defs = g_str_def g_int_def g_bool_def g_time_def g_raw_def g_strs_def jget_def

end
