(* ===== verification/Ids.thy ===== *)
theory Ids
  imports GoBase
begin

text \<open>
  Identities: internal/core/ids.go (runs, tasks, steps and the naming of fan-out children)
  and the idempotency key of internal/core/effect.go. The Go types are strings with a name of
  their own; the identities handed out by internal/idgen are at the end.
\<close>

type_synonym RunID = string
type_synonym TaskID = string
type_synonym StepID = string
type_synonym EffectID = string
type_synonym SignalID = string
type_synonym IdempotencyKey = string

section \<open>Steps and their children\<close>

definition Step :: "int \<Rightarrow> StepID" where
  "Step n = CHR ''S'' # show_int n"

definition StepID_Child :: "StepID \<Rightarrow> int \<Rightarrow> StepID" where
  "StepID_Child s n = s @ CHR ''.'' # show_int n"

definition StepID_Children :: "StepID \<Rightarrow> nat \<Rightarrow> StepID list" where
  "StepID_Children s n = map (\<lambda>i. StepID_Child s (int i)) [0..<n]"

text \<open>
  \<open>Parent\<close>: what is before the last dot, when something is, and when what follows it is a
  number to \<open>strconv.Atoi\<close>. \<open>None\<close> is the Go result \<open>("", false)\<close>.
\<close>

definition StepID_Parent :: "StepID \<Rightarrow> StepID option" where
  "StepID_Parent s =
     (case split_last CHR ''.'' s of
        None \<Rightarrow> None
      | Some (before, after) \<Rightarrow>
          if before = [] \<or> after = [] then None
          else (case Atoi after of None \<Rightarrow> None | Some _ \<Rightarrow> Some before))"

definition StepID_ChildIndex :: "StepID \<Rightarrow> int" where
  "StepID_ChildIndex s =
     (case StepID_Parent s of
        None \<Rightarrow> -1
      | Some _ \<Rightarrow>
          (case split_last CHR ''.'' s of
             None \<Rightarrow> -1
           | Some (_, after) \<Rightarrow> (case Atoi after of None \<Rightarrow> -1 | Some n \<Rightarrow> n)))"

lemma split_last_Child:
  "split_last CHR ''.'' (StepID_Child s (int n)) = Some (s, show_nat n)"
  unfolding StepID_Child_def show_int_def
  by (simp add: split_last_append notin_show_nat)

lemma Parent_Child:
  assumes "s \<noteq> []" and "int n \<le> max_int64"
  shows "StepID_Parent (StepID_Child s (int n)) = Some s"
    and "StepID_ChildIndex (StepID_Child s (int n)) = int n"
  using assms by (simp_all add: StepID_Parent_def StepID_ChildIndex_def split_last_Child Atoi_show_nat)

lemma Child_inject [simp]:
  "StepID_Child s (int m) = StepID_Child s (int n) \<longleftrightarrow> m = n"
  by (simp add: StepID_Child_def show_int_def)

lemma Child_inject_both:
  "StepID_Child s (int m) = StepID_Child t (int n) \<longleftrightarrow> s = t \<and> m = n"
proof
  assume "StepID_Child s (int m) = StepID_Child t (int n)"
  then have "Some (s, show_nat m) = Some (t, show_nat n)"
    by (metis split_last_Child)
  then show "s = t \<and> m = n" by simp
qed simp

lemma length_Children [simp]: "length (StepID_Children s n) = n"
  by (simp add: StepID_Children_def)

lemma nth_Children [simp]: "i < n \<Longrightarrow> StepID_Children s n ! i = StepID_Child s (int i)"
  by (simp add: StepID_Children_def)

lemma distinct_Children: "distinct (StepID_Children s n)"
  by (auto simp: StepID_Children_def distinct_map inj_on_def)

text \<open>The parent relation never moves a step to a longer name.\<close>

lemma Parent_length: "StepID_Parent s = Some p \<Longrightarrow> length p < length s"
  by (auto simp: StepID_Parent_def split: option.splits if_splits dest!: split_last_Some)

text \<open>A top-level step of the engine's own numbering is not a child.\<close>

lemma Parent_Step [simp]: "StepID_Parent (Step (int n)) = None"
proof -
  have "CHR ''.'' \<notin> set (Step (int n))"
    by (simp add: Step_def show_int_def notin_show_nat)
  then show ?thesis by (simp add: StepID_Parent_def)
qed

section \<open>Idempotency keys\<close>

definition NewIdempotencyKey :: "RunID \<Rightarrow> StepID \<Rightarrow> int \<Rightarrow> IdempotencyKey" where
  "NewIdempotencyKey run step seq = run @ CHR '':'' # step @ '':E'' @ show_int seq"

lemma show_int_nonneg: "show_int (int n) = show_nat n"
  by (simp add: show_int_def)

lemma key_tail_inject:
  "step @ '':E'' @ show_nat m = step' @ '':E'' @ show_nat n \<longleftrightarrow> step = step' \<and> m = n"
proof
  assume "step @ '':E'' @ show_nat m = step' @ '':E'' @ show_nat n"
  then have eq: "(step @ '':'') @ CHR ''E'' # show_nat m = (step' @ '':'') @ CHR ''E'' # show_nat n"
    by simp
  have "\<And>k. CHR ''E'' \<notin> set (show_nat k)"
    by (rule notin_show_nat) (simp add: is_digit_def)
  then have "Some (step @ '':'', show_nat m) = Some (step' @ '':'', show_nat n)"
    using eq by (metis split_last_append)
  then show "step = step' \<and> m = n" by simp
qed simp

lemma NewIdempotencyKey_inject:
  assumes "CHR '':'' \<notin> set run" and "CHR '':'' \<notin> set run'"
  shows "NewIdempotencyKey run step (int m) = NewIdempotencyKey run' step' (int n)
           \<longleftrightarrow> run = run' \<and> step = step' \<and> m = n"
  using assms using key_tail_inject [of step m step' n]
  by (simp add: NewIdempotencyKey_def show_int_nonneg append_sep_inject)

text \<open>
  The condition on the run matters: a run identity with a colon in it can share a key with
  another run. The identities of internal/idgen have none.
\<close>

lemma NewIdempotencyKey_collision:
  "NewIdempotencyKey ''a'' ''b:c'' 1 = NewIdempotencyKey ''a:b'' ''c'' 1"
  by (simp add: NewIdempotencyKey_def)

section \<open>internal/idgen\<close>

text \<open>
  \<open>Sequential\<close> numbers each kind of identity from 1: the counter is an atomic int64 that is
  incremented and then printed, so the identity depends on how many were drawn before.
\<close>

definition Sequential_NewRunID :: "int \<Rightarrow> RunID \<times> int" where
  "Sequential_NewRunID runs = (let n = incr64 runs in (''run-'' @ show_int n, n))"

definition Sequential_NewTaskID :: "int \<Rightarrow> TaskID \<times> int" where
  "Sequential_NewTaskID tasks = (let n = incr64 tasks in (''task-'' @ show_int n, n))"

definition Sequential_NewEffectID :: "int \<Rightarrow> EffectID \<times> int" where
  "Sequential_NewEffectID effects = (let n = incr64 effects in (''effect-'' @ show_int n, n))"

text \<open>
  \<open>uuidv4\<close> from the sixteen random bytes: the version and variant bits are forced and the
  bytes are printed in hexadecimal, in groups of 4, 2, 2, 2 and 6 bytes.
\<close>

definition hex_digit :: "nat \<Rightarrow> char" where
  "hex_digit d = (if d < 10 then char_of (48 + d) else char_of (87 + d))"

definition hex_byte :: "nat \<Rightarrow> string" where
  "hex_byte b = [hex_digit (b div 16), hex_digit (b mod 16)]"

definition hex_Encode :: "nat list \<Rightarrow> string" where
  "hex_Encode bs = concat (map hex_byte bs)"

definition uuid_bits :: "nat list \<Rightarrow> nat list" where
  "uuid_bits b = b[6 := (b ! 6) mod 16 + 64, 8 := (b ! 8) mod 64 + 128]"

definition uuidv4 :: "nat list \<Rightarrow> string" where
  "uuidv4 rnd = (let b = uuid_bits rnd in
     hex_Encode (take 4 b) @ ''-'' @ hex_Encode (take 2 (drop 4 b)) @ ''-''
     @ hex_Encode (take 2 (drop 6 b)) @ ''-'' @ hex_Encode (take 2 (drop 8 b)) @ ''-''
     @ hex_Encode (take 6 (drop 10 b)))"

lemma Sequential_colon_free:
  "0 \<le> n \<Longrightarrow> n < max_int64 \<Longrightarrow> CHR '':'' \<notin> set (fst (Sequential_NewRunID n))"
  by (simp add: Sequential_NewRunID_def Let_def incr64_eq show_int_def notin_show_nat)

lemma of_char_hex: "d < 16 \<Longrightarrow> (of_char (hex_digit d) :: nat) = (if d < 10 then 48 + d else 87 + d)"
  by (simp add: hex_digit_def of_char_of take_bit_eq_mod)

lemma hex_digit_not_colon: "d < 16 \<Longrightarrow> hex_digit d \<noteq> CHR '':''"
proof
  assume "d < 16" and "hex_digit d = CHR '':''"
  then have "(of_char CHR '':'' :: nat) = (if d < 10 then 48 + d else 87 + d)"
    using of_char_hex by fastforce
  then show False by (simp split: if_splits)
qed

lemma colon_hex_Encode: "\<forall>b \<in> set bs. b < 256 \<Longrightarrow> CHR '':'' \<notin> set (hex_Encode bs)"
proof (induction bs)
  case Nil
  then show ?case by (simp add: hex_Encode_def)
next
  case (Cons b bs)
  then have "b div 16 < 16" and "b mod 16 < 16" by auto
  from this [THEN hex_digit_not_colon]
  have "hex_digit (b div 16) \<noteq> CHR '':''" and "hex_digit (b mod 16) \<noteq> CHR '':''" .
  with Cons show ?case by (simp add: hex_Encode_def hex_byte_def)
qed

lemma uuid_bits_bytes: "\<forall>b \<in> set bs. b < 256 \<Longrightarrow> \<forall>b \<in> set (uuid_bits bs). b < 256"
proof -
  assume bs: "\<forall>b \<in> set bs. b < 256"
  have "set (uuid_bits bs) \<subseteq> insert (bs ! 8 mod 64 + 128) (insert (bs ! 6 mod 16 + 64) (set bs))"
    unfolding uuid_bits_def by (meson insert_mono set_update_subset_insert subset_trans)
  moreover have "bs ! 8 mod 64 + 128 < 256" and "bs ! 6 mod 16 + 64 < 256"
    by presburger+
  ultimately show ?thesis using bs by auto
qed

lemma colon_uuidv4:
  assumes "\<forall>b \<in> set bs. b < 256"
  shows "CHR '':'' \<notin> set (uuidv4 bs)"
proof -
  have "\<forall>b \<in> set (take n (drop m (uuid_bits bs))). b < 256" for n m
    using uuid_bits_bytes [OF assms] by (auto dest: in_set_takeD in_set_dropD)
  then have "CHR '':'' \<notin> set (hex_Encode (take n (drop m (uuid_bits bs))))" for n m
    by (rule colon_hex_Encode)
  from this [of _ 0] this show ?thesis by (simp add: uuidv4_def Let_def)
qed

lemma child_roundtrip:
  assumes "s \<noteq> []" and "int n \<le> max_int64"
  shows "StepID_Parent (StepID_Child s (int n)) = Some s \<and> StepID_ChildIndex (StepID_Child s (int n)) = int n"
  using Parent_Child [OF assms] by simp

end
