(* ===== verification/Domain.thy ===== *)
theory Domain
  imports Ids
begin

text \<open>
  The domain types of internal/core and their state machines: runs (run.go), tasks (task.go),
  the effect ledger and failure classification (effect.go), effect classes and tool calls
  (tool.go), leases, workers and the recovery table (lease.go), signals (signal.go) and
  deliveries (outbox.go). A Go status is a string type with named constants; its last
  constructor stands for every other string, which \<open>Valid\<close> refuses.
\<close>

section \<open>The contract of a status machine\<close>

text \<open>
  The three status types answer the same questions: which statuses are final and which moves
  are legal. The store and the components above it rely on two laws: no move leaves a final
  status, and a legal move ends in a valid status.
\<close>

locale status_machine =
  fixes final :: "'s \<Rightarrow> bool"
    and can :: "'s \<Rightarrow> 's \<Rightarrow> bool"
    and valid :: "'s \<Rightarrow> bool"
  assumes final_stuck: "final s \<Longrightarrow> \<not> can s t"
    and can_valid: "can s t \<Longrightarrow> valid t"
begin

lemma path_final: "can\<^sup>*\<^sup>* s t \<Longrightarrow> final s \<Longrightarrow> t = s"
  by (induction rule: converse_rtranclp_induct) (auto simp: final_stuck)

lemma path_valid: "can\<^sup>*\<^sup>* s t \<Longrightarrow> valid s \<Longrightarrow> valid t"
  by (induction rule: rtranclp_induct) (auto simp: can_valid)

lemma path_not_final: "can\<^sup>*\<^sup>* s t \<Longrightarrow> s \<noteq> t \<Longrightarrow> \<not> final s"
  using path_final by blast

end

section \<open>Runs (run.go)\<close>

datatype RunStatus = RunRunning | RunCompleted | RunFailed | RunCancelled | RunStatusOther string

fun RunStatus_text :: "RunStatus \<Rightarrow> string" where
  "RunStatus_text RunRunning = ''RUNNING''"
| "RunStatus_text RunCompleted = ''COMPLETED''"
| "RunStatus_text RunFailed = ''FAILED''"
| "RunStatus_text RunCancelled = ''CANCELLED''"
| "RunStatus_text (RunStatusOther s) = s"

definition RunStatus_IsTerminal :: "RunStatus \<Rightarrow> bool" where
  "RunStatus_IsTerminal s =
     (case s of RunCompleted \<Rightarrow> True | RunFailed \<Rightarrow> True | RunCancelled \<Rightarrow> True | _ \<Rightarrow> False)"

definition RunStatus_CanTransitionTo :: "RunStatus \<Rightarrow> RunStatus \<Rightarrow> bool" where
  "RunStatus_CanTransitionTo s nxt =
     (if RunStatus_IsTerminal s then False
      else case nxt of
        RunCompleted \<Rightarrow> s = RunRunning
      | RunFailed \<Rightarrow> s = RunRunning
      | RunCancelled \<Rightarrow> s = RunRunning
      | _ \<Rightarrow> False)"

definition RunStatus_Valid :: "RunStatus \<Rightarrow> bool" where
  "RunStatus_Valid s =
     (case s of RunRunning \<Rightarrow> True | RunCompleted \<Rightarrow> True | RunFailed \<Rightarrow> True
      | RunCancelled \<Rightarrow> True | _ \<Rightarrow> False)"

record Run =
  run_ID :: RunID
  run_AgentName :: string
  run_AgentVersion :: string
  run_Status :: RunStatus
  run_Version :: int
  run_Input :: raw
  run_Output :: raw
  run_LastError :: string
  run_AvailableAt :: "time option"
  run_CreatedAt :: time
  run_UpdatedAt :: time
  run_CompletedAt :: "time option"

definition Run_IsWaiting :: "Run \<Rightarrow> time \<Rightarrow> bool" where
  "Run_IsWaiting r now = (case run_AvailableAt r of None \<Rightarrow> False | Some t \<Rightarrow> now < t)"

text \<open>The part of a run that advancement writes.\<close>

record RunState =
  rs_Status :: RunStatus
  rs_Output :: raw
  rs_LastError :: string
  rs_AvailableAt :: "time option"

interpretation run_machine: status_machine RunStatus_IsTerminal RunStatus_CanTransitionTo RunStatus_Valid
  by unfold_locales
    (auto simp: RunStatus_CanTransitionTo_def RunStatus_Valid_def split: RunStatus.splits if_splits)

section \<open>Tasks (task.go)\<close>

datatype TaskStatus =
    TaskPending | TaskRunning | TaskCompleted | TaskFailed | TaskCancelled | TaskDeadLetter
  | TaskStatusOther string

fun TaskStatus_text :: "TaskStatus \<Rightarrow> string" where
  "TaskStatus_text TaskPending = ''PENDING''"
| "TaskStatus_text TaskRunning = ''RUNNING''"
| "TaskStatus_text TaskCompleted = ''COMPLETED''"
| "TaskStatus_text TaskFailed = ''FAILED''"
| "TaskStatus_text TaskCancelled = ''CANCELLED''"
| "TaskStatus_text TaskDeadLetter = ''DEAD_LETTER''"
| "TaskStatus_text (TaskStatusOther s) = s"

definition TaskStatus_IsTerminal :: "TaskStatus \<Rightarrow> bool" where
  "TaskStatus_IsTerminal s =
     (case s of TaskCompleted \<Rightarrow> True | TaskFailed \<Rightarrow> True | TaskCancelled \<Rightarrow> True
      | TaskDeadLetter \<Rightarrow> True | _ \<Rightarrow> False)"

definition TaskStatus_CanTransitionTo :: "TaskStatus \<Rightarrow> TaskStatus \<Rightarrow> bool" where
  "TaskStatus_CanTransitionTo s nxt =
     (if TaskStatus_IsTerminal s then False
      else case s of
        TaskPending \<Rightarrow> nxt = TaskRunning \<or> nxt = TaskCancelled
      | TaskRunning \<Rightarrow>
          (case nxt of TaskCompleted \<Rightarrow> True | TaskFailed \<Rightarrow> True | TaskCancelled \<Rightarrow> True
           | TaskDeadLetter \<Rightarrow> True | TaskPending \<Rightarrow> True | _ \<Rightarrow> False)
      | _ \<Rightarrow> False)"

definition TaskStatus_Valid :: "TaskStatus \<Rightarrow> bool" where
  "TaskStatus_Valid s = (case s of TaskStatusOther _ \<Rightarrow> False | _ \<Rightarrow> True)"

record Task =
  task_ID :: TaskID
  task_RunID :: RunID
  task_StepID :: StepID
  task_Type :: string
  task_Payload :: raw
  task_Status :: TaskStatus
  task_Attempt :: int
  task_MaxAttempts :: int
  task_LastError :: string
  task_CreatedAt :: time
  task_UpdatedAt :: time
  task_CompletedAt :: "time option"

record TaskOutcome = to_Error :: string

definition Task_Exhausted :: "Task \<Rightarrow> bool" where
  "Task_Exhausted t \<longleftrightarrow> task_MaxAttempts t \<le> task_Attempt t"

interpretation task_machine: status_machine TaskStatus_IsTerminal TaskStatus_CanTransitionTo TaskStatus_Valid
  by unfold_locales
    (auto simp: TaskStatus_CanTransitionTo_def TaskStatus_Valid_def split: TaskStatus.splits if_splits)

section \<open>Effects (effect.go)\<close>

datatype EffectStatus =
    EffectPending | EffectRunning | EffectCommitted | EffectFailed | EffectUnknown
  | EffectStatusOther string

fun EffectStatus_text :: "EffectStatus \<Rightarrow> string" where
  "EffectStatus_text EffectPending = ''PENDING''"
| "EffectStatus_text EffectRunning = ''RUNNING''"
| "EffectStatus_text EffectCommitted = ''COMMITTED''"
| "EffectStatus_text EffectFailed = ''FAILED''"
| "EffectStatus_text EffectUnknown = ''UNKNOWN''"
| "EffectStatus_text (EffectStatusOther s) = s"

definition EffectStatus_IsResolved :: "EffectStatus \<Rightarrow> bool" where
  "EffectStatus_IsResolved s \<longleftrightarrow> s = EffectCommitted \<or> s = EffectFailed"

definition EffectStatus_CanTransitionTo :: "EffectStatus \<Rightarrow> EffectStatus \<Rightarrow> bool" where
  "EffectStatus_CanTransitionTo s nxt =
     (case s of
        EffectPending \<Rightarrow> nxt = EffectRunning \<or> nxt = EffectFailed
      | EffectRunning \<Rightarrow> nxt = EffectCommitted \<or> nxt = EffectFailed \<or> nxt = EffectUnknown
      | EffectFailed \<Rightarrow> nxt = EffectRunning
      | EffectUnknown \<Rightarrow>
          nxt = EffectCommitted \<or> nxt = EffectFailed \<or> nxt = EffectRunning \<or> nxt = EffectUnknown
      | _ \<Rightarrow> False)"

definition EffectStatus_Valid :: "EffectStatus \<Rightarrow> bool" where
  "EffectStatus_Valid s = (case s of EffectStatusOther _ \<Rightarrow> False | _ \<Rightarrow> True)"

datatype EffectClass =
    ClassNone | ClassIdempotentByKey | ClassQueryable | ClassUnreconcilable
  | EffectClassOther string

fun EffectClass_text :: "EffectClass \<Rightarrow> string" where
  "EffectClass_text ClassNone = ''NONE''"
| "EffectClass_text ClassIdempotentByKey = ''IDEMPOTENT_BY_KEY''"
| "EffectClass_text ClassQueryable = ''QUERYABLE''"
| "EffectClass_text ClassUnreconcilable = ''UNRECONCILABLE''"
| "EffectClass_text (EffectClassOther s) = s"

definition EffectClass_HasConsequence :: "EffectClass \<Rightarrow> bool" where
  "EffectClass_HasConsequence c \<longleftrightarrow> c \<noteq> ClassNone"

definition EffectClass_CanAutoResolve :: "EffectClass \<Rightarrow> bool" where
  "EffectClass_CanAutoResolve c \<longleftrightarrow> c = ClassIdempotentByKey \<or> c = ClassQueryable"

definition EffectClass_Valid :: "EffectClass \<Rightarrow> bool" where
  "EffectClass_Valid c = (case c of EffectClassOther _ \<Rightarrow> False | _ \<Rightarrow> True)"

record Effect =
  eff_ID :: EffectID
  eff_TaskID :: TaskID
  eff_RunID :: RunID
  eff_Type :: string
  eff_Class :: EffectClass
  eff_Key :: IdempotencyKey
  eff_Status :: EffectStatus
  eff_Request :: raw
  eff_Response :: raw
  eff_ExternalRef :: string
  eff_LastError :: string
  eff_CreatedAt :: time
  eff_UpdatedAt :: time
  eff_CommittedAt :: "time option"

record EffectOutcome =
  eo_Response :: raw
  eo_ExternalRef :: string
  eo_Error :: string

text \<open>COMMITTED is the only status with no way out; FAILED may be executed again.\<close>

interpretation effect_machine: status_machine "\<lambda>s. s = EffectCommitted"
    EffectStatus_CanTransitionTo EffectStatus_Valid
  by unfold_locales
    (auto simp: EffectStatus_CanTransitionTo_def EffectStatus_Valid_def split: EffectStatus.splits)

text \<open>Failure classification. \<open>None\<close> is Go's nil error.\<close>

definition NotExecuted :: "go_error option \<Rightarrow> go_error option" where
  "NotExecuted err = (case err of None \<Rightarrow> None
     | Some e \<Rightarrow> Some \<lparr>err_text = sentinel_text errNotExecuted @ '': '' @ err_text e,
                        err_chain = errNotExecuted # err_chain e\<rparr>)"

definition IsNotExecuted :: "go_error option \<Rightarrow> bool" where
  "IsNotExecuted err = (case err of None \<Rightarrow> False | Some e \<Rightarrow> Is e errNotExecuted)"

definition ClassifyFailure :: "go_error option \<Rightarrow> EffectStatus" where
  "ClassifyFailure err =
     (case err of None \<Rightarrow> EffectCommitted
      | Some e \<Rightarrow>
          if IsNotExecuted err then EffectFailed
          else if Is e CtxDeadlineExceeded \<or> Is e CtxCanceled then EffectUnknown
          else EffectUnknown)"

lemma ClassifyFailure_Some:
  "ClassifyFailure (Some e) = (if Is e errNotExecuted then EffectFailed else EffectUnknown)"
  by (simp add: ClassifyFailure_def IsNotExecuted_def)

lemma IsNotExecuted_NotExecuted: "IsNotExecuted (NotExecuted err) \<longleftrightarrow> err \<noteq> None"
  by (simp add: IsNotExecuted_def NotExecuted_def Is_def split: option.split)

section \<open>Leases, workers and recovery (lease.go)\<close>

record Lease =
  lease_TaskID :: TaskID
  lease_WorkerID :: string
  lease_Token :: int
  lease_AcquiredAt :: time
  lease_ExpiresAt :: time
  lease_HeartbeatAt :: time

definition Lease_Expired :: "Lease \<Rightarrow> time \<Rightarrow> bool" where
  "Lease_Expired l now \<longleftrightarrow> \<not> now < lease_ExpiresAt l"

datatype WorkerStatus = WorkerActive | WorkerDraining | WorkerDead | WorkerStatusOther string

record Worker =
  worker_ID :: string
  worker_Type :: string
  worker_Status :: WorkerStatus
  worker_LastHeartbeat :: "time option"
  worker_RegisteredAt :: time

datatype RecoveryAction = RecoverExecute | RecoverReconcile | RecoverComplete | RecoverEscalate

definition RecoveryFor :: "bool \<Rightarrow> EffectStatus \<Rightarrow> EffectClass \<Rightarrow> RecoveryAction" where
  "RecoveryFor hasEffect status class =
     (if \<not> hasEffect then RecoverExecute
      else case status of
        EffectPending \<Rightarrow> RecoverExecute
      | EffectFailed \<Rightarrow> RecoverExecute
      | EffectCommitted \<Rightarrow> RecoverComplete
      | EffectRunning \<Rightarrow>
          if EffectClass_CanAutoResolve class then RecoverReconcile else RecoverEscalate
      | EffectUnknown \<Rightarrow>
          if EffectClass_CanAutoResolve class then RecoverReconcile else RecoverEscalate
      | EffectStatusOther _ \<Rightarrow> RecoverEscalate)"

section \<open>Signals and deliveries (signal.go, outbox.go)\<close>

record Signal =
  sig_RunID :: RunID
  sig_ID :: SignalID
  sig_Name :: string
  sig_Payload :: raw
  sig_CreatedAt :: time

record Delivery =
  del_ID :: int
  del_TaskID :: TaskID
  del_Attempts :: int
  del_LastError :: string
  del_CreatedAt :: time
  del_AvailableAt :: time

text \<open>
  The transport envelope of a delivery. \<open>EncodeDelivery\<close> cannot fail on a string, so its
  result is the document; \<open>DecodeDelivery\<close> reads bytes and refuses what it does not know.
\<close>

definition EncodeDelivery :: "TaskID \<Rightarrow> raw" where
  "EncodeDelivery tid = (case struct [f_int ''v'' 1, f_str ''task_id'' tid] of
     None \<Rightarrow> RawNil | Some j \<Rightarrow> RawJSON j)"

definition DecodeDelivery :: "raw \<Rightarrow> go_error + TaskID" where
  "DecodeDelivery b =
     (case (case b of RawJSON j \<Rightarrow> struct_of j | _ \<Rightarrow> None) of
        None \<Rightarrow> Inl (errors_New ''decode delivery: invalid JSON'')
      | Some kvs \<Rightarrow>
          let (v, v_ok) = g_int kvs ''v''; (tid, id_ok) = g_str kvs ''task_id'' in
          if \<not> (v_ok \<and> id_ok) then Inl (errors_New ''decode delivery: invalid field'')
          else if v \<noteq> 1 then Inl (wrap (''decode delivery: version '' @ show_int v) ErrUnknownPayloadVersion)
          else if tid = [] then Inl (wrap ''decode delivery: no task id'' ErrNotFound)
          else Inr tid)"

lemma DecodeDelivery_Encode: "tid \<noteq> [] \<Longrightarrow> DecodeDelivery (EncodeDelivery tid) = Inr tid"
  by (simp add: DecodeDelivery_def EncodeDelivery_def struct_def field_defs struct_of_def
      reader_defs in_int64_def min_int64_def max_int64_def)

section \<open>Tool calls (tool.go)\<close>

record ToolCall =
  call_RunID :: RunID
  call_TaskID :: TaskID
  call_StepID :: StepID
  call_Key :: IdempotencyKey
  call_Payload :: raw
  call_Attempt :: int

datatype ResolutionKind = ResolvedCommitted | ResolvedNotExecuted | ResolvedUnknown
  | ResolutionKindOther string

record Resolution =
  res_Kind :: ResolutionKind
  res_Response :: raw
  res_ExternalRef :: string
  res_Detail :: string

end
