(* ===== verification/Events.thy ===== *)
theory Events
  imports Domain
begin

text \<open>
  History: internal/core/event.go. The event types, the payload bodies with their JSON field
  names, the versioned envelope that \<open>NewEvent\<close> writes, and \<open>Decode\<close> for the bodies the
  program reads back.
\<close>

section \<open>Event types\<close>

datatype EventType =
    EventRunStarted | EventTaskCreated | EventTaskClaimed | EventTaskCompleted | EventTaskFailed
  | EventRunCompleted | EventRunFailed | EventRunCancelled | EventTaskRetryScheduled
  | EventTaskDeadLettered | EventEffectCreated | EventEffectCommitted | EventEffectFailed
  | EventEffectUnknown | EventEffectReconciled | EventEffectEscalated | EventLeaseExpired
  | EventTimerSet | EventTimerFired | EventSignalWaitStarted | EventSignalReceived
  | EventSignalWaitTimedOut | EventFanOutStarted | EventTypeOther string

fun EventType_text :: "EventType \<Rightarrow> string" where
  "EventType_text EventRunStarted = ''RUN_STARTED''"
| "EventType_text EventTaskCreated = ''TASK_CREATED''"
| "EventType_text EventTaskClaimed = ''TASK_CLAIMED''"
| "EventType_text EventTaskCompleted = ''TASK_COMPLETED''"
| "EventType_text EventTaskFailed = ''TASK_FAILED''"
| "EventType_text EventRunCompleted = ''RUN_COMPLETED''"
| "EventType_text EventRunFailed = ''RUN_FAILED''"
| "EventType_text EventRunCancelled = ''RUN_CANCELLED''"
| "EventType_text EventTaskRetryScheduled = ''TASK_RETRY_SCHEDULED''"
| "EventType_text EventTaskDeadLettered = ''TASK_DEAD_LETTERED''"
| "EventType_text EventEffectCreated = ''EFFECT_CREATED''"
| "EventType_text EventEffectCommitted = ''EFFECT_COMMITTED''"
| "EventType_text EventEffectFailed = ''EFFECT_FAILED''"
| "EventType_text EventEffectUnknown = ''EFFECT_UNKNOWN''"
| "EventType_text EventEffectReconciled = ''EFFECT_RECONCILED''"
| "EventType_text EventEffectEscalated = ''EFFECT_ESCALATED''"
| "EventType_text EventLeaseExpired = ''LEASE_EXPIRED''"
| "EventType_text EventTimerSet = ''TIMER_SET''"
| "EventType_text EventTimerFired = ''TIMER_FIRED''"
| "EventType_text EventSignalWaitStarted = ''SIGNAL_WAIT_STARTED''"
| "EventType_text EventSignalReceived = ''SIGNAL_RECEIVED''"
| "EventType_text EventSignalWaitTimedOut = ''SIGNAL_WAIT_TIMED_OUT''"
| "EventType_text EventFanOutStarted = ''FAN_OUT_STARTED''"
| "EventType_text (EventTypeOther s) = s"

record Event =
  ev_RunID :: RunID
  ev_Seq :: int
  ev_Type :: EventType
  ev_StepID :: StepID
  ev_Payload :: raw
  ev_CreatedAt :: time

section \<open>Payload bodies\<close>

text \<open>One constructor per payload struct, its arguments in the order of the struct's fields.\<close>

datatype EventData =
    RunStartedData string string raw
  | TaskCreatedData TaskID string raw
  | TaskClaimedData TaskID string int
  | TaskCompletedData TaskID raw
  | TaskFailedData TaskID string int bool
  | RunCompletedData raw
  | RunFailedData string
  | RunCancelledData string
  | TaskRetryScheduledData TaskID int string time
  | TimerSetData time
  | TimerFiredData time
  | FanOutStartedData "string list" string
  | SignalWaitStartedData string time
  | SignalReceivedData string SignalID raw
  | SignalWaitTimedOutData string time
  | LeaseExpiredData TaskID string int
  | EffectData TaskID IdempotencyKey string EffectClass EffectStatus string raw string string

fun EventData_fields :: "EventData \<Rightarrow> fields list" where
  "EventData_fields (RunStartedData agent version input) =
     [f_str ''agent_name'' agent, f_str ''agent_version'' version, f_raw_oe ''input'' input]"
| "EventData_fields (TaskCreatedData tid typ payload) =
     [f_str ''task_id'' tid, f_str ''task_type'' typ, f_raw_oe ''payload'' payload]"
| "EventData_fields (TaskClaimedData tid worker attempt) =
     [f_str ''task_id'' tid, f_str ''worker_id'' worker, f_int ''attempt'' attempt]"
| "EventData_fields (TaskCompletedData tid result) =
     [f_str ''task_id'' tid, f_raw_oe ''result'' result]"
| "EventData_fields (TaskFailedData tid error attempt final) =
     [f_str ''task_id'' tid, f_str ''error'' error, f_int ''attempt'' attempt, f_bool ''final'' final]"
| "EventData_fields (RunCompletedData output) = [f_raw_oe ''output'' output]"
| "EventData_fields (RunFailedData error) = [f_str ''error'' error]"
| "EventData_fields (RunCancelledData reason) = [f_str_oe ''reason'' reason]"
| "EventData_fields (TaskRetryScheduledData tid attempt reason notBefore) =
     [f_str ''task_id'' tid, f_int ''attempt'' attempt, f_str ''reason'' reason,
      f_time ''not_before'' notBefore]"
| "EventData_fields (TimerSetData wakeAt) = [f_time ''wake_at'' wakeAt]"
| "EventData_fields (TimerFiredData wakeAt) = [f_time ''wake_at'' wakeAt]"
| "EventData_fields (FanOutStartedData calls join) = [f_strs ''calls'' calls, f_str ''join'' join]"
| "EventData_fields (SignalWaitStartedData name deadline) =
     [f_str ''name'' name, f_time ''deadline'' deadline]"
| "EventData_fields (SignalReceivedData name sid payload) =
     [f_str ''name'' name, f_str ''signal_id'' sid, f_raw_oe ''payload'' payload]"
| "EventData_fields (SignalWaitTimedOutData name deadline) =
     [f_str ''name'' name, f_time ''deadline'' deadline]"
| "EventData_fields (LeaseExpiredData tid owner token) =
     [f_str ''task_id'' tid, f_str ''previous_owner'' owner, f_int ''previous_token'' token]"
| "EventData_fields (EffectData tid key typ class status ref response error detail) =
     [f_str ''task_id'' tid, f_str ''idempotency_key'' key, f_str ''effect_type'' typ,
      f_str ''effect_class'' (EffectClass_text class), f_str ''status'' (EffectStatus_text status),
      f_str_oe ''external_ref'' ref, f_raw_oe ''response'' response, f_str_oe ''error'' error,
      f_str_oe ''detail'' detail]"

definition marshal_data :: "EventData \<Rightarrow> json option" where
  "marshal_data d = struct (EventData_fields d)"

section \<open>The envelope\<close>

definition PayloadVersion :: int where "PayloadVersion = 1"

definition NewEvent :: "RunID \<Rightarrow> int \<Rightarrow> EventType \<Rightarrow> StepID \<Rightarrow> EventData \<Rightarrow> go_error + Event" where
  "NewEvent runID seq typ step data =
     (case marshal_data data of
        None \<Rightarrow> Inl (errors_New (''marshal '' @ EventType_text typ @ '' payload''))
      | Some body \<Rightarrow>
          (case struct [f_int ''v'' PayloadVersion, Some [(''data'', body)]] of
             None \<Rightarrow> Inl (errors_New (''wrap '' @ EventType_text typ @ '' payload''))
           | Some payload \<Rightarrow>
               Inr \<lparr>ev_RunID = runID, ev_Seq = seq, ev_Type = typ, ev_StepID = step,
                    ev_Payload = RawJSON payload, ev_CreatedAt = zero_time\<rparr>))"

text \<open>
  \<open>Decode\<close> up to the body: the payload must be a document that reads as an envelope of a
  version this build knows. The body readers below finish the job for each struct.
\<close>

definition Decode_body :: "Event \<Rightarrow> go_error + (string \<times> json) list" where
  "Decode_body e =
     (case (case ev_Payload e of RawJSON j \<Rightarrow> struct_of j | _ \<Rightarrow> None) of
        None \<Rightarrow> Inl (errors_New (''unwrap '' @ EventType_text (ev_Type e) @ '' payload''))
      | Some kvs \<Rightarrow>
          let (v, v_ok) = g_int kvs ''v'' in
          if \<not> v_ok then Inl (errors_New (''unwrap '' @ EventType_text (ev_Type e) @ '' payload''))
          else if v \<noteq> PayloadVersion then
            Inl (wrap_mid [] ErrUnknownPayloadVersion
              (''event '' @ EventType_text (ev_Type e) @ '' seq '' @ show_int (ev_Seq e)
               @ '' has payload version '' @ show_int v @ '', this build understands ''
               @ show_int PayloadVersion))
          else (case (case g_raw kvs ''data'' of RawJSON j \<Rightarrow> struct_of j | _ \<Rightarrow> None) of
                  None \<Rightarrow> Inl (errors_New (''decode '' @ EventType_text (ev_Type e) @ '' payload''))
                | Some body \<Rightarrow> Inr body))"

definition decode_err :: "Event \<Rightarrow> go_error" where
  "decode_err e = errors_New (''decode '' @ EventType_text (ev_Type e) @ '' payload'')"

text \<open>
  The bodies the program reads. A reader gives what \<open>Decode\<close> left in the struct and the
  error, if any: a field of the wrong type is an error, and the other fields are set.
\<close>

definition Decode_TimerSet :: "Event \<Rightarrow> time \<times> go_error option" where
  "Decode_TimerSet e = (case Decode_body e of Inl er \<Rightarrow> (zero_time, Some er)
     | Inr b \<Rightarrow> let (t, ok) = g_time b ''wake_at'' in (t, if ok then None else Some (decode_err e)))"

definition Decode_SignalWaitStarted :: "Event \<Rightarrow> (string \<times> time) \<times> go_error option" where
  "Decode_SignalWaitStarted e = (case Decode_body e of Inl er \<Rightarrow> (([], zero_time), Some er)
     | Inr b \<Rightarrow> let (n, n_ok) = g_str b ''name''; (t, t_ok) = g_time b ''deadline'' in
         ((n, t), if n_ok \<and> t_ok then None else Some (decode_err e)))"

definition Decode_SignalReceived :: "Event \<Rightarrow> (string \<times> SignalID \<times> raw) \<times> go_error option" where
  "Decode_SignalReceived e = (case Decode_body e of Inl er \<Rightarrow> (([], [], RawNil), Some er)
     | Inr b \<Rightarrow> let (n, n_ok) = g_str b ''name''; (i, i_ok) = g_str b ''signal_id'' in
         ((n, i, g_raw b ''payload''), if n_ok \<and> i_ok then None else Some (decode_err e)))"

definition Decode_FanOutStarted :: "Event \<Rightarrow> (string list \<times> string) \<times> go_error option" where
  "Decode_FanOutStarted e = (case Decode_body e of Inl er \<Rightarrow> (([], []), Some er)
     | Inr b \<Rightarrow> let (cs, c_ok) = g_strs b ''calls''; (j, j_ok) = g_str b ''join'' in
         ((cs, j), if c_ok \<and> j_ok then None else Some (decode_err e)))"

definition Decode_TaskCompleted :: "Event \<Rightarrow> (TaskID \<times> raw) \<times> go_error option" where
  "Decode_TaskCompleted e = (case Decode_body e of Inl er \<Rightarrow> (([], RawNil), Some er)
     | Inr b \<Rightarrow> let (i, i_ok) = g_str b ''task_id'' in
         ((i, g_raw b ''result''), if i_ok then None else Some (decode_err e)))"

definition Decode_TaskFailed :: "Event \<Rightarrow> (TaskID \<times> string \<times> int \<times> bool) \<times> go_error option" where
  "Decode_TaskFailed e = (case Decode_body e of Inl er \<Rightarrow> (([], [], 0, False), Some er)
     | Inr b \<Rightarrow> let (i, i_ok) = g_str b ''task_id''; (m, m_ok) = g_str b ''error'';
                    (a, a_ok) = g_int b ''attempt''; (f, f_ok) = g_bool b ''final'' in
         ((i, m, a, f), if i_ok \<and> m_ok \<and> a_ok \<and> f_ok then None else Some (decode_err e)))"

section \<open>Round trips\<close>

lemma NewEvent_fields:
  assumes "NewEvent runID seq typ step data = Inr e"
  shows "ev_RunID e = runID" "ev_Seq e = seq" "ev_Type e = typ" "ev_StepID e = step"
  using assms by (auto simp: NewEvent_def split: option.splits)

lemma NewEvent_iff_marshal:
  "(\<exists>e. NewEvent runID seq typ step data = Inr e) \<longleftrightarrow> marshal_data data \<noteq> None"
  by (auto simp: NewEvent_def struct_def f_int_def split: option.splits)

lemma Decode_body_NewEvent:
  assumes "NewEvent runID seq typ step data = Inr e" and "marshal_data data = Some (JObj kvs)"
  shows "Decode_body e = Inr kvs"
  using assms
  by (auto simp: NewEvent_def Decode_body_def struct_def field_defs struct_of_def reader_defs
      PayloadVersion_def in_int64_def min_int64_def max_int64_def)

text \<open>\<open>CreatedAt\<close> is set by the store; no reader looks at it.\<close>

lemma Decode_body_CreatedAt [simp]: "Decode_body (e\<lparr>ev_CreatedAt := t\<rparr>) = Decode_body e"
  by (cases e, hypsubst, unfold Decode_body_def Event.select_convs Event.update_convs, rule refl)

lemma decode_err_CreatedAt [simp]: "decode_err (e\<lparr>ev_CreatedAt := t\<rparr>) = decode_err e"
  by (simp add: decode_err_def)

lemmas decode_defs = Decode_TimerSet_def Decode_SignalWaitStarted_def Decode_SignalReceived_def
  Decode_FanOutStarted_def Decode_TaskCompleted_def Decode_TaskFailed_def

lemma Decode_CreatedAt [simp]:
  "Decode_TimerSet (e\<lparr>ev_CreatedAt := t\<rparr>) = Decode_TimerSet e"
  "Decode_SignalWaitStarted (e\<lparr>ev_CreatedAt := t\<rparr>) = Decode_SignalWaitStarted e"
  "Decode_SignalReceived (e\<lparr>ev_CreatedAt := t\<rparr>) = Decode_SignalReceived e"
  "Decode_FanOutStarted (e\<lparr>ev_CreatedAt := t\<rparr>) = Decode_FanOutStarted e"
  "Decode_TaskCompleted (e\<lparr>ev_CreatedAt := t\<rparr>) = Decode_TaskCompleted e"
  "Decode_TaskFailed (e\<lparr>ev_CreatedAt := t\<rparr>) = Decode_TaskFailed e"
  unfolding decode_defs decode_err_CreatedAt Decode_body_CreatedAt by (rule refl)+

text \<open>An omitted raw field reads back as nil: an empty slice and nil are not told apart.\<close>

definition raw_norm :: "raw \<Rightarrow> raw" where
  "raw_norm r = (if raw_empty r then RawNil else r)"

lemma Decode_TimerSet_NewEvent:
  "NewEvent r q typ s (TimerSetData t) = Inr e \<Longrightarrow> Decode_TimerSet e = (t, None)"
proof -
  assume e: "NewEvent r q typ s (TimerSetData t) = Inr e"
  then have "marshal_data (TimerSetData t) = Some (JObj [(''wake_at'', JTime t)])"
    by (auto simp: NewEvent_def marshal_data_def struct_def field_defs split: if_splits)
  with e have "Decode_body e = Inr [(''wake_at'', JTime t)]" by (rule Decode_body_NewEvent)
  then show ?thesis by (simp add: Decode_TimerSet_def reader_defs)
qed

lemma Decode_SignalWaitStarted_NewEvent:
  "NewEvent r q typ s (SignalWaitStartedData n t) = Inr e
     \<Longrightarrow> Decode_SignalWaitStarted e = ((n, t), None)"
proof -
  assume e: "NewEvent r q typ s (SignalWaitStartedData n t) = Inr e"
  then have "marshal_data (SignalWaitStartedData n t)
      = Some (JObj [(''name'', JStr n), (''deadline'', JTime t)])"
    by (auto simp: NewEvent_def marshal_data_def struct_def field_defs split: if_splits)
  with e have "Decode_body e = Inr [(''name'', JStr n), (''deadline'', JTime t)]"
    by (rule Decode_body_NewEvent)
  then show ?thesis by (simp add: Decode_SignalWaitStarted_def reader_defs)
qed

lemma Decode_FanOutStarted_NewEvent:
  "NewEvent r q typ s (FanOutStartedData cs j) = Inr e \<Longrightarrow> Decode_FanOutStarted e = ((cs, j), None)"
proof -
  assume e: "NewEvent r q typ s (FanOutStartedData cs j) = Inr e"
  have "marshal_data (FanOutStartedData cs j)
      = Some (JObj [(''calls'', JArr (map JStr cs)), (''join'', JStr j)])"
    by (simp add: marshal_data_def struct_def field_defs)
  with e have "Decode_body e = Inr [(''calls'', JArr (map JStr cs)), (''join'', JStr j)]"
    by (rule Decode_body_NewEvent)
  then show ?thesis by (simp add: Decode_FanOutStarted_def reader_defs)
qed

lemma Decode_TaskFailed_NewEvent:
  "NewEvent r q typ s (TaskFailedData i m a f) = Inr e \<Longrightarrow> in_int64 a
     \<Longrightarrow> Decode_TaskFailed e = ((i, m, a, f), None)"
proof -
  assume e: "NewEvent r q typ s (TaskFailedData i m a f) = Inr e" and a: "in_int64 a"
  have "marshal_data (TaskFailedData i m a f)
      = Some (JObj [(''task_id'', JStr i), (''error'', JStr m), (''attempt'', JNum a), (''final'', JBool f)])"
    by (simp add: marshal_data_def struct_def field_defs)
  with e have "Decode_body e
      = Inr [(''task_id'', JStr i), (''error'', JStr m), (''attempt'', JNum a), (''final'', JBool f)]"
    by (rule Decode_body_NewEvent)
  with a show ?thesis by (simp add: Decode_TaskFailed_def reader_defs)
qed

lemma Decode_TaskCompleted_NewEvent:
  "NewEvent r q typ s (TaskCompletedData i res) = Inr e
     \<Longrightarrow> Decode_TaskCompleted e = ((i, raw_norm res), None)"
proof -
  assume e: "NewEvent r q typ s (TaskCompletedData i res) = Inr e"
  then have "marshal_data (TaskCompletedData i res) = Some (JObj ((''task_id'', JStr i)
      # (case raw_norm res of RawJSON j \<Rightarrow> [(''result'', j)] | _ \<Rightarrow> [])))"
    by (auto simp: NewEvent_def marshal_data_def struct_def field_defs raw_norm_def
        split: if_splits raw.splits)
  with e have "Decode_body e = Inr ((''task_id'', JStr i)
      # (case raw_norm res of RawJSON j \<Rightarrow> [(''result'', j)] | _ \<Rightarrow> []))"
    by (rule Decode_body_NewEvent)
  moreover have "raw_norm res = RawNil \<or> (\<exists>j. raw_norm res = RawJSON j)"
    using e by (auto simp: NewEvent_def marshal_data_def struct_def field_defs raw_norm_def
        split: if_splits raw.splits)
  ultimately show ?thesis by (auto simp: Decode_TaskCompleted_def reader_defs)
qed

lemma Decode_SignalReceived_NewEvent:
  "NewEvent r q typ s (SignalReceivedData n i p) = Inr e
     \<Longrightarrow> Decode_SignalReceived e = ((n, i, raw_norm p), None)"
proof -
  assume e: "NewEvent r q typ s (SignalReceivedData n i p) = Inr e"
  then have "marshal_data (SignalReceivedData n i p) = Some (JObj ((''name'', JStr n)
      # (''signal_id'', JStr i) # (case raw_norm p of RawJSON j \<Rightarrow> [(''payload'', j)] | _ \<Rightarrow> [])))"
    by (auto simp: NewEvent_def marshal_data_def struct_def field_defs raw_norm_def
        split: if_splits raw.splits)
  with e have "Decode_body e = Inr ((''name'', JStr n)
      # (''signal_id'', JStr i) # (case raw_norm p of RawJSON j \<Rightarrow> [(''payload'', j)] | _ \<Rightarrow> []))"
    by (rule Decode_body_NewEvent)
  moreover have "raw_norm p = RawNil \<or> (\<exists>j. raw_norm p = RawJSON j)"
    using e by (auto simp: NewEvent_def marshal_data_def struct_def field_defs raw_norm_def
        split: if_splits raw.splits)
  ultimately show ?thesis by (auto simp: Decode_SignalReceived_def reader_defs)
qed

text \<open>A future writer's payload is refused, never decoded on a guess.\<close>

lemma Decode_body_other_version:
  assumes "ev_Payload e = RawJSON (JObj kvs)" and "jget kvs ''v'' = Some (JNum v)"
    and "in_int64 v" and "v \<noteq> PayloadVersion"
  shows "\<exists>er. Decode_body e = Inl er \<and> Is er ErrUnknownPayloadVersion"
  using assms by (simp add: Decode_body_def struct_of_def g_int_def)

end
