(* ===== verification/Decision.thy ===== *)
theory Decision
  imports Events
begin

text \<open>
  What an agent decides: internal/core/decision.go. A decision is a record with one group of
  fields per kind; \<open>zero_decision\<close> is Go's zero value, from which the literals are built.
\<close>

section \<open>Kinds\<close>

datatype DecisionKind =
    DecideCallTool | DecideComplete | DecideFail | DecideCallToolParallel | DecideSleep
  | DecideWaitForSignal | DecideCancel | DecisionKindOther string

fun DecisionKind_text :: "DecisionKind \<Rightarrow> string" where
  "DecisionKind_text DecideCallTool = ''CALL_TOOL''"
| "DecisionKind_text DecideComplete = ''COMPLETE''"
| "DecisionKind_text DecideFail = ''FAIL''"
| "DecisionKind_text DecideCallToolParallel = ''CALL_TOOL_PARALLEL''"
| "DecisionKind_text DecideSleep = ''SLEEP''"
| "DecisionKind_text DecideWaitForSignal = ''WAIT_FOR_SIGNAL''"
| "DecisionKind_text DecideCancel = ''CANCEL''"
| "DecisionKind_text (DecisionKindOther s) = s"

definition DecisionKind_IsSuspension :: "DecisionKind \<Rightarrow> bool" where
  "DecisionKind_IsSuspension k \<longleftrightarrow> k = DecideSleep \<or> k = DecideWaitForSignal"

record Call =
  c_TaskType :: string
  c_Payload :: raw

section \<open>Join policies\<close>

datatype JoinKind = JoinAll | JoinAny | JoinQuorum | JoinKindOther string

fun JoinKind_text :: "JoinKind \<Rightarrow> string" where
  "JoinKind_text JoinAll = ''ALL''"
| "JoinKind_text JoinAny = ''ANY''"
| "JoinKind_text JoinQuorum = ''QUORUM''"
| "JoinKind_text (JoinKindOther s) = s"

record JoinPolicy =
  jp_Kind :: JoinKind
  jp_Quorum :: int

text \<open>\<open>None\<close> is Go's nil error: the policy makes sense for \<open>n\<close> children.\<close>

definition JoinPolicy_Valid :: "JoinPolicy \<Rightarrow> int \<Rightarrow> go_error option" where
  "JoinPolicy_Valid p n =
     (if n \<le> 0 then
        Some (errors_New (''join policy '' @ JoinKind_text (jp_Kind p) @ '' over '' @ show_int n
          @ '' calls: a fan-out needs at least one call''))
      else case jp_Kind p of
        JoinAll \<Rightarrow> None
      | JoinAny \<Rightarrow> None
      | JoinQuorum \<Rightarrow>
          if jp_Quorum p \<le> 0 then
            Some (errors_New (''join policy QUORUM needs a positive quorum, got '' @ show_int (jp_Quorum p)))
          else if n < jp_Quorum p then
            Some (errors_New (''join policy QUORUM('' @ show_int (jp_Quorum p) @ '') over ''
              @ show_int n @ '' calls can never be satisfied''))
          else None
      | JoinKindOther s \<Rightarrow>
          Some (errors_New (''join policy '' @ s @ '' is not one this build knows'')))"

definition JoinPolicy_String :: "JoinPolicy \<Rightarrow> string" where
  "JoinPolicy_String p =
     (if jp_Kind p = JoinQuorum then ''QUORUM('' @ show_int (jp_Quorum p) @ '')''
      else JoinKind_text (jp_Kind p))"

lemma JoinPolicy_Valid_iff:
  "JoinPolicy_Valid p n = None \<longleftrightarrow>
     0 < n \<and> (jp_Kind p = JoinAll \<or> jp_Kind p = JoinAny
       \<or> (jp_Kind p = JoinQuorum \<and> 0 < jp_Quorum p \<and> jp_Quorum p \<le> n))"
  by (auto simp: JoinPolicy_Valid_def split: JoinKind.splits)

section \<open>Decisions\<close>

record SignalWait =
  sw_Name :: string
  sw_Deadline :: time

definition Indefinite :: time where
  "Indefinite = 315537897599 * 1000000000"

definition IsIndefinite :: "time \<Rightarrow> bool" where
  "IsIndefinite t \<longleftrightarrow> \<not> t < Indefinite"

record Decision =
  d_Kind :: DecisionKind
  d_StepID :: StepID
  d_TaskType :: string
  d_Payload :: raw
  d_Calls :: "Call list"
  d_Join :: JoinPolicy
  d_WakeAt :: time
  d_Signal :: SignalWait
  d_Output :: raw
  d_Error :: string
  d_Reason :: string

definition zero_join :: JoinPolicy where
  "zero_join = \<lparr>jp_Kind = JoinKindOther [], jp_Quorum = 0\<rparr>"

definition zero_decision :: Decision where
  "zero_decision = \<lparr>d_Kind = DecisionKindOther [], d_StepID = [], d_TaskType = [],
     d_Payload = RawNil, d_Calls = [], d_Join = zero_join, d_WakeAt = zero_time,
     d_Signal = \<lparr>sw_Name = [], sw_Deadline = zero_time\<rparr>, d_Output = RawNil, d_Error = [],
     d_Reason = []\<rparr>"

end
