(* ===== verification/Wait.thy ===== *)
theory Wait
  imports Decision
begin

text \<open>
  Suspensions read back from history: internal/core/wait.go. \<open>PendingWait\<close> is a loop over
  the events; the second half states declaratively which wait it finds.
\<close>

section \<open>PendingWait and ConsumedSignals\<close>

datatype WaitKind = WaitTimer | WaitSignal | WaitKindOther string

record Wait =
  wait_Kind :: WaitKind
  wait_StepID :: StepID
  wait_Until :: time
  wait_Signal :: string

text \<open>
  The loop body. The state is the pair \<open>(open, waiting)\<close> of the code with the dead value of
  \<open>open\<close> left out: \<open>None\<close> when \<open>waiting\<close> is false.
\<close>

definition timer_wait :: "Event \<Rightarrow> Wait" where
  "timer_wait e =
     (case Decode_TimerSet e of
        (_, Some _) \<Rightarrow> \<lparr>wait_Kind = WaitTimer, wait_StepID = ev_StepID e, wait_Until = Indefinite, wait_Signal = []\<rparr>
      | (wakeAt, None) \<Rightarrow> \<lparr>wait_Kind = WaitTimer, wait_StepID = ev_StepID e, wait_Until = wakeAt, wait_Signal = []\<rparr>)"

definition signal_wait :: "Event \<Rightarrow> Wait" where
  "signal_wait e =
     (case Decode_SignalWaitStarted e of
        (_, Some _) \<Rightarrow> \<lparr>wait_Kind = WaitSignal, wait_StepID = ev_StepID e, wait_Until = Indefinite, wait_Signal = []\<rparr>
      | ((name, deadline), None) \<Rightarrow>
          \<lparr>wait_Kind = WaitSignal, wait_StepID = ev_StepID e,
           wait_Until = (if time_IsZero deadline then Indefinite else deadline), wait_Signal = name\<rparr>)"

definition wait_step :: "Wait option \<Rightarrow> Event \<Rightarrow> Wait option" where
  "wait_step st e =
     (case ev_Type e of
        EventTimerSet \<Rightarrow> Some (timer_wait e)
      | EventSignalWaitStarted \<Rightarrow> Some (signal_wait e)
      | EventTimerFired \<Rightarrow> (case st of Some w \<Rightarrow> if ev_StepID e = wait_StepID w then None else st | None \<Rightarrow> None)
      | EventSignalReceived \<Rightarrow> (case st of Some w \<Rightarrow> if ev_StepID e = wait_StepID w then None else st | None \<Rightarrow> None)
      | EventSignalWaitTimedOut \<Rightarrow> (case st of Some w \<Rightarrow> if ev_StepID e = wait_StepID w then None else st | None \<Rightarrow> None)
      | _ \<Rightarrow> st)"

definition PendingWait :: "Event list \<Rightarrow> Wait option" where
  "PendingWait history = foldl wait_step None history"

text \<open>The set a Go map to true stands for, as the list of its keys.\<close>

fun ConsumedSignals :: "Event list \<Rightarrow> SignalID list" where
  "ConsumedSignals [] = []"
| "ConsumedSignals (e # es) =
     (if ev_Type e \<noteq> EventSignalReceived then ConsumedSignals es
      else case Decode_SignalReceived e of
        (_, Some _) \<Rightarrow> ConsumedSignals es
      | ((_, sid, _), None) \<Rightarrow> sid # ConsumedSignals es)"

definition Wait_Elapsed :: "Wait \<Rightarrow> time \<Rightarrow> bool" where
  "Wait_Elapsed w now \<longleftrightarrow> \<not> now < wait_Until w"

section \<open>What PendingWait finds\<close>

definition opens_wait :: "Event \<Rightarrow> bool" where
  "opens_wait e \<longleftrightarrow> ev_Type e = EventTimerSet \<or> ev_Type e = EventSignalWaitStarted"

definition opened_wait :: "Event \<Rightarrow> Wait" where
  "opened_wait e = (if ev_Type e = EventTimerSet then timer_wait e else signal_wait e)"

definition closes_wait :: "StepID \<Rightarrow> Event \<Rightarrow> bool" where
  "closes_wait s e \<longleftrightarrow> ev_StepID e = s \<and>
     (ev_Type e = EventTimerFired \<or> ev_Type e = EventSignalReceived \<or> ev_Type e = EventSignalWaitTimedOut)"

lemma wait_StepID_opened [simp]: "wait_StepID (opened_wait e) = ev_StepID e"
  by (simp add: opened_wait_def timer_wait_def signal_wait_def split: prod.splits option.splits)

lemma wait_step_opens: "opens_wait e \<Longrightarrow> wait_step st e = Some (opened_wait e)"
  by (auto simp: opens_wait_def opened_wait_def wait_step_def)

lemma wait_step_not_opens:
  "\<not> opens_wait e \<Longrightarrow> wait_step st e =
     (case st of None \<Rightarrow> None | Some w \<Rightarrow> if closes_wait (wait_StepID w) e then None else Some w)"
  by (auto simp: opens_wait_def closes_wait_def wait_step_def split: EventType.splits option.splits)

lemma PendingWait_Nil [simp]: "PendingWait [] = None"
  by (simp add: PendingWait_def)

lemma PendingWait_snoc: "PendingWait (h @ [e]) = wait_step (PendingWait h) e"
  by (simp add: PendingWait_def)

text \<open>
  The declarative reading: a wait is pending when it was opened by an event after which no
  other wait was opened and no event of the same step resolved one.
\<close>

definition pending_spec :: "Event list \<Rightarrow> Wait \<Rightarrow> bool" where
  "pending_spec h w \<longleftrightarrow> (\<exists>before e after. h = before @ e # after \<and> opens_wait e \<and> w = opened_wait e
     \<and> (\<forall>x \<in> set after. \<not> opens_wait x \<and> \<not> closes_wait (ev_StepID e) x))"

lemma pending_spec_snoc:
  "pending_spec (h @ [x]) w \<longleftrightarrow>
     (if opens_wait x then w = opened_wait x
      else pending_spec h w \<and> \<not> closes_wait (wait_StepID w) x)"
proof (cases "opens_wait x")
  case True
  have "pending_spec (h @ [x]) (opened_wait x)"
    unfolding pending_spec_def using True by (intro exI [of _ h] exI [of _ x] exI [of _ "[]"]) simp
  moreover have "w = opened_wait x" if "pending_spec (h @ [x]) w"
  proof -
    from that obtain b e a where "h @ [x] = b @ e # a" "w = opened_wait e"
      and a: "\<forall>y \<in> set a. \<not> opens_wait y" by (auto simp: pending_spec_def)
    then show ?thesis using True by (cases a rule: rev_cases) auto
  qed
  ultimately show ?thesis using True by auto
next
  case False
  have "pending_spec h w \<and> \<not> closes_wait (wait_StepID w) x" if "pending_spec (h @ [x]) w"
  proof -
    from that obtain b e a where h: "h @ [x] = b @ e # a" "opens_wait e" "w = opened_wait e"
      "\<forall>y \<in> set a. \<not> opens_wait y \<and> \<not> closes_wait (ev_StepID e) y" by (auto simp: pending_spec_def)
    with False obtain a' where "a = a' @ [x]" "h = b @ e # a'" by (cases a rule: rev_cases) auto
    with h show ?thesis by (auto simp: pending_spec_def)
  qed
  moreover have "pending_spec (h @ [x]) w" if p: "pending_spec h w" and c: "\<not> closes_wait (wait_StepID w) x"
  proof -
    from p obtain b e a where h: "h = b @ e # a" "opens_wait e" "w = opened_wait e"
      "\<forall>y \<in> set a. \<not> opens_wait y \<and> \<not> closes_wait (ev_StepID e) y" by (auto simp: pending_spec_def)
    with c False show ?thesis
      unfolding pending_spec_def by (intro exI [of _ b] exI [of _ e] exI [of _ "a @ [x]"]) auto
  qed
  ultimately show ?thesis using False by auto
qed

lemma PendingWait_spec: "PendingWait h = Some w \<longleftrightarrow> pending_spec h w"
proof (induction h arbitrary: w rule: rev_induct)
  case Nil
  then show ?case by (simp add: pending_spec_def)
next
  case (snoc x h)
  show ?case
  proof (cases "opens_wait x")
    case True
    then show ?thesis by (auto simp: PendingWait_snoc wait_step_opens pending_spec_snoc)
  next
    case False
    then show ?thesis
      by (auto simp: PendingWait_snoc wait_step_not_opens pending_spec_snoc snoc.IH [symmetric]
          split: option.splits)
  qed
qed

lemma PendingWait_after_open: "opens_wait e \<Longrightarrow> PendingWait (h @ [e]) = Some (opened_wait e)"
  by (simp add: PendingWait_snoc wait_step_opens)

lemma PendingWait_after_close:
  "PendingWait h = Some w \<Longrightarrow> closes_wait (wait_StepID w) e \<Longrightarrow> PendingWait (h @ [e]) = None"
proof -
  assume "PendingWait h = Some w" and c: "closes_wait (wait_StepID w) e"
  moreover from c have "\<not> opens_wait e" by (auto simp: closes_wait_def opens_wait_def)
  ultimately show ?thesis by (simp add: PendingWait_snoc wait_step_not_opens)
qed

text \<open>Events that are neither leave the pending wait alone.\<close>

lemma PendingWait_other:
  "\<not> opens_wait e \<Longrightarrow> (\<And>s. \<not> closes_wait s e) \<Longrightarrow> PendingWait (h @ [e]) = PendingWait h"
  by (simp add: PendingWait_snoc wait_step_not_opens split: option.splits)

lemma ConsumedSignals_append [simp]: "ConsumedSignals (h @ h') = ConsumedSignals h @ ConsumedSignals h'"
  by (induction h) (auto split: prod.splits option.splits)

end
