(* ===== verification/Join.thy ===== *)
theory Join
  imports Wait
begin

text \<open>
  Fan-outs read back from history: internal/core/join.go. First the outcome of a parallel
  decision and its join rule, then the scan of history that rebuilds it, then what the two
  guarantee: children stay in invocation order, a settled child stays settled, and a join
  stops waiting exactly when the children still running cannot change its verdict.
\<close>

section \<open>Outcomes and the join rule\<close>

record ChildOutcome =
  ch_StepID :: StepID
  ch_Index :: int
  ch_Tool :: string
  ch_Settled :: bool
  ch_Succeeded :: bool
  ch_Result :: raw
  ch_Error :: string

record FanOut =
  fo_StepID :: StepID
  fo_Join :: JoinPolicy
  fo_Children :: "ChildOutcome list"

fun FanOut_Counts :: "ChildOutcome list \<Rightarrow> int \<times> int \<times> int" where
  "FanOut_Counts [] = (0, 0, 0)"
| "FanOut_Counts (c # cs) =
     (let (succeeded, failed, settled) = FanOut_Counts cs in
      if \<not> ch_Settled c then (succeeded, failed, settled)
      else if ch_Succeeded c then (succeeded + 1, failed, settled + 1)
      else (succeeded, failed + 1, settled + 1))"

definition FanOut_Satisfied :: "FanOut \<Rightarrow> bool" where
  "FanOut_Satisfied f =
     (let (succeeded, failed, settled) = FanOut_Counts (fo_Children f);
          total = int (length (fo_Children f))
      in case jp_Kind (fo_Join f) of
           JoinAll \<Rightarrow> settled = total
         | JoinAny \<Rightarrow> 0 < succeeded \<or> failed = total
         | JoinQuorum \<Rightarrow> jp_Quorum (fo_Join f) \<le> succeeded \<or> total - failed < jp_Quorum (fo_Join f)
         | JoinKindOther _ \<Rightarrow> True)"

section \<open>The recorded policy\<close>

text \<open>
  \<open>fmt.Sscanf (s, "QUORUM(%d)", &n)\<close>: the literal, blanks, an optional sign, digits that fit
  an int64, and the closing parenthesis. What follows the parenthesis is not looked at.
\<close>

definition is_blank :: "char \<Rightarrow> bool" where
  "is_blank c \<longleftrightarrow> (of_char c :: nat) \<in> {9, 11, 12, 13, 32}"

fun drop_prefix :: "string \<Rightarrow> string \<Rightarrow> string option" where
  "drop_prefix [] s = Some s"
| "drop_prefix (p # ps) [] = None"
| "drop_prefix (p # ps) (c # cs) = (if p = c then drop_prefix ps cs else None)"

definition scan_int :: "string \<Rightarrow> (int \<times> string) option" where
  "scan_int s =
     (let s = dropWhile is_blank s;
          neg = (s \<noteq> [] \<and> hd s = CHR ''-'');
          signed = (s \<noteq> [] \<and> (hd s = CHR ''-'' \<or> hd s = CHR ''+''));
          s = (if signed then tl s else s);
          ds = takeWhile is_digit s
      in (case signed_val neg ds of None \<Rightarrow> None | Some n \<Rightarrow> Some (n, dropWhile is_digit s)))"

definition scan_quorum :: "string \<Rightarrow> int option" where
  "scan_quorum s =
     (case drop_prefix ''QUORUM('' s of
        None \<Rightarrow> None
      | Some s' \<Rightarrow>
          (case scan_int s' of
             None \<Rightarrow> None
           | Some (n, s'') \<Rightarrow> (case drop_prefix '')'' s'' of None \<Rightarrow> None | Some _ \<Rightarrow> Some n)))"

definition joinFrom :: "string \<Rightarrow> JoinPolicy" where
  "joinFrom s =
     (if s = JoinKind_text JoinAll then \<lparr>jp_Kind = JoinAll, jp_Quorum = 0\<rparr>
      else if s = JoinKind_text JoinAny then \<lparr>jp_Kind = JoinAny, jp_Quorum = 0\<rparr>
      else case scan_quorum s of
             Some n \<Rightarrow> if 0 < n then \<lparr>jp_Kind = JoinQuorum, jp_Quorum = n\<rparr> else zero_join
           | None \<Rightarrow> zero_join)"

section \<open>PendingFanOut\<close>

text \<open>
  The variables of the loop. \<open>index\<close> maps the children of the fan-out that is open to their
  positions; the loop stops early at a fan-out whose payload cannot be read.
\<close>

record fan_state =
  fs_open :: FanOut
  fs_found :: bool
  fs_index :: "(StepID \<times> nat) list"

definition fan_init :: fan_state where
  "fan_init = \<lparr>fs_open = \<lparr>fo_StepID = [], fo_Join = zero_join, fo_Children = []\<rparr>,
               fs_found = False, fs_index = []\<rparr>"

definition fresh_child :: "StepID \<Rightarrow> nat \<Rightarrow> string \<Rightarrow> ChildOutcome" where
  "fresh_child step i tool = \<lparr>ch_StepID = StepID_Child step (int i), ch_Index = int i, ch_Tool = tool,
     ch_Settled = False, ch_Succeeded = False, ch_Result = RawNil, ch_Error = []\<rparr>"

definition fan_open :: "Event \<Rightarrow> string list \<Rightarrow> string \<Rightarrow> fan_state" where
  "fan_open e calls join =
     \<lparr>fs_open = \<lparr>fo_StepID = ev_StepID e, fo_Join = joinFrom join,
        fo_Children = map (\<lambda>i. fresh_child (ev_StepID e) i (calls ! i)) [0..<length calls]\<rparr>,
      fs_found = True,
      fs_index = map (\<lambda>i. (StepID_Child (ev_StepID e) (int i), i)) [0..<length calls]\<rparr>"

definition set_child :: "fan_state \<Rightarrow> nat \<Rightarrow> (ChildOutcome \<Rightarrow> ChildOutcome) \<Rightarrow> fan_state" where
  "set_child st i f = st\<lparr>fs_open := (fs_open st)\<lparr>fo_Children :=
     (fo_Children (fs_open st))[i := f (fo_Children (fs_open st) ! i)]\<rparr>\<rparr>"

definition fan_completed :: "fan_state \<Rightarrow> Event \<Rightarrow> fan_state" where
  "fan_completed st e =
     (case map_of (fs_index st) (ev_StepID e) of
        None \<Rightarrow> st
      | Some i \<Rightarrow>
          if \<not> fs_found st then st
          else set_child st i (\<lambda>c. c\<lparr>ch_Settled := True, ch_Succeeded := True,
                 ch_Result := snd (fst (Decode_TaskCompleted e))\<rparr>))"

definition fan_failed :: "fan_state \<Rightarrow> Event \<Rightarrow> fan_state" where
  "fan_failed st e =
     (case map_of (fs_index st) (ev_StepID e) of
        None \<Rightarrow> st
      | Some i \<Rightarrow>
          if \<not> fs_found st then st
          else (case Decode_TaskFailed e of
                  (_, Some _) \<Rightarrow> st
                | ((_, error, _, final), None) \<Rightarrow>
                    set_child st i (\<lambda>c. if final
                      then c\<lparr>ch_Error := error, ch_Settled := True, ch_Succeeded := False\<rparr>
                      else c\<lparr>ch_Error := error\<rparr>)))"

fun fan_loop :: "fan_state \<Rightarrow> Event list \<Rightarrow> fan_state option" where
  "fan_loop st [] = Some st"
| "fan_loop st (e # es) =
     (if ev_Type e = EventFanOutStarted then
        (case Decode_FanOutStarted e of
           (_, Some _) \<Rightarrow> None
         | ((calls, join), None) \<Rightarrow> fan_loop (fan_open e calls join) es)
      else if ev_Type e = EventTaskCompleted then fan_loop (fan_completed st e) es
      else if ev_Type e = EventTaskFailed then fan_loop (fan_failed st e) es
      else fan_loop st es)"

definition PendingFanOut :: "Event list \<Rightarrow> FanOut option" where
  "PendingFanOut history =
     (case fan_loop fan_init history of
        None \<Rightarrow> None
      | Some st \<Rightarrow>
          if \<not> fs_found st \<or> FanOut_Satisfied (fs_open st) then None else Some (fs_open st))"

section \<open>When a join is satisfied\<close>

abbreviation successes :: "ChildOutcome list \<Rightarrow> int" where
  "successes cs \<equiv> fst (FanOut_Counts cs)"

abbreviation failures :: "ChildOutcome list \<Rightarrow> int" where
  "failures cs \<equiv> fst (snd (FanOut_Counts cs))"

abbreviation settlements :: "ChildOutcome list \<Rightarrow> int" where
  "settlements cs \<equiv> snd (snd (FanOut_Counts cs))"

lemma Counts_Cons [simp]:
  "successes (c # cs) = successes cs + (if ch_Settled c \<and> ch_Succeeded c then 1 else 0)"
  "failures (c # cs) = failures cs + (if ch_Settled c \<and> \<not> ch_Succeeded c then 1 else 0)"
  "settlements (c # cs) = settlements cs + (if ch_Settled c then 1 else 0)"
  by (auto simp: Let_def split: prod.splits)

declare FanOut_Counts.simps(2) [simp del]

lemma Counts_sum: "settlements cs = successes cs + failures cs"
  by (induction cs) auto

lemma Counts_bounds: "0 \<le> successes cs" "0 \<le> failures cs" "settlements cs \<le> int (length cs)"
  by (induction cs) auto

lemma settlements_all: "settlements cs = int (length cs) \<longleftrightarrow> (\<forall>c \<in> set cs. ch_Settled c)"
proof (induction cs)
  case (Cons c cs)
  then show ?case using Counts_bounds(3) [of cs] by auto
qed simp

lemma FanOut_Satisfied_alt:
  "FanOut_Satisfied f =
     (case jp_Kind (fo_Join f) of
        JoinAll \<Rightarrow> \<forall>c \<in> set (fo_Children f). ch_Settled c
      | JoinAny \<Rightarrow> 1 \<le> successes (fo_Children f) \<or> int (length (fo_Children f)) - failures (fo_Children f) < 1
      | JoinQuorum \<Rightarrow> jp_Quorum (fo_Join f) \<le> successes (fo_Children f)
          \<or> int (length (fo_Children f)) - failures (fo_Children f) < jp_Quorum (fo_Join f)
      | JoinKindOther _ \<Rightarrow> True)"
  using Counts_bounds [of "fo_Children f"] Counts_sum [of "fo_Children f"]
  by (auto simp: FanOut_Satisfied_def Let_def settlements_all [symmetric] split: prod.splits JoinKind.splits)

text \<open>A completion is one way the children that are still out can end.\<close>

definition completion :: "ChildOutcome list \<Rightarrow> ChildOutcome list \<Rightarrow> bool" where
  "completion cs cs' \<longleftrightarrow> list_all2 (\<lambda>c c'. ch_Settled c' \<and> (ch_Settled c \<longrightarrow> c' = c)) cs cs'"

definition settle_all :: "bool \<Rightarrow> ChildOutcome list \<Rightarrow> ChildOutcome list" where
  "settle_all ok = map (\<lambda>c. if ch_Settled c then c else c\<lparr>ch_Settled := True, ch_Succeeded := ok\<rparr>)"

lemma completion_settle_all: "completion cs (settle_all ok cs)"
  by (induction cs) (auto simp: completion_def settle_all_def)

lemma successes_settle_all:
  "successes (settle_all True cs) = int (length cs) - failures cs"
  "successes (settle_all False cs) = successes cs"
  by (induction cs) (auto simp: settle_all_def)

lemma successes_completion:
  "completion cs cs' \<Longrightarrow> successes cs \<le> successes cs' \<and> successes cs' \<le> int (length cs) - failures cs"
  unfolding completion_def by (induction rule: list_all2_induct) auto

text \<open>
  The verdict of a join that asks for \<open>q\<close> successes is settled exactly when no way for the
  remaining children to end could change it.
\<close>

lemma quorum_decided:
  "(q \<le> successes cs \<or> int (length cs) - failures cs < q) \<longleftrightarrow>
     (\<forall>a b. completion cs a \<longrightarrow> completion cs b \<longrightarrow> (q \<le> successes a \<longleftrightarrow> q \<le> successes b))"
proof
  assume "q \<le> successes cs \<or> int (length cs) - failures cs < q"
  then show "\<forall>a b. completion cs a \<longrightarrow> completion cs b \<longrightarrow> (q \<le> successes a \<longleftrightarrow> q \<le> successes b)"
    using successes_completion by (meson order_trans not_less)
next
  assume "\<forall>a b. completion cs a \<longrightarrow> completion cs b \<longrightarrow> (q \<le> successes a \<longleftrightarrow> q \<le> successes b)"
  then have "q \<le> successes (settle_all True cs) \<longleftrightarrow> q \<le> successes (settle_all False cs)"
    using completion_settle_all by blast
  then show "q \<le> successes cs \<or> int (length cs) - failures cs < q"
    by (auto simp: successes_settle_all)
qed

lemma Satisfied_all_settled: "\<forall>c \<in> set (fo_Children f). ch_Settled c \<Longrightarrow> FanOut_Satisfied f"
  using Counts_sum [of "fo_Children f"] settlements_all [of "fo_Children f"]
  by (auto simp: FanOut_Satisfied_alt split: JoinKind.splits)

text \<open>Outcomes only accumulate: what satisfies a join satisfies it for good.\<close>

definition more_settled :: "ChildOutcome list \<Rightarrow> ChildOutcome list \<Rightarrow> bool" where
  "more_settled cs cs' \<longleftrightarrow> list_all2 (\<lambda>c c'. ch_Settled c \<longrightarrow> ch_Settled c' \<and> ch_Succeeded c' = ch_Succeeded c) cs cs'"

lemma Counts_more_settled:
  "more_settled cs cs' \<Longrightarrow> successes cs \<le> successes cs' \<and> failures cs \<le> failures cs' \<and> length cs' = length cs
     \<and> ((\<forall>c \<in> set cs. ch_Settled c) \<longrightarrow> (\<forall>c \<in> set cs'. ch_Settled c))"
  unfolding more_settled_def by (induction rule: list_all2_induct) auto

lemma Satisfied_mono:
  "FanOut_Satisfied f \<Longrightarrow> more_settled (fo_Children f) cs' \<Longrightarrow> FanOut_Satisfied (f\<lparr>fo_Children := cs'\<rparr>)"
  by (drule Counts_more_settled) (auto simp: FanOut_Satisfied_alt split: JoinKind.splits)

section \<open>The policy survives its recording\<close>

lemma is_blank_digit: "is_digit c \<Longrightarrow> \<not> is_blank c"
  by (auto simp: is_digit_def is_blank_def)

lemma drop_prefix_append [simp]: "drop_prefix p (p @ s) = Some s"
  by (induction p) simp_all

lemma scan_int_show_nat:
  assumes "int n \<le> max_int64" and "r = [] \<or> \<not> is_digit (hd r)"
  shows "scan_int (show_nat n @ r) = Some (int n, r)"
proof -
  obtain c s where cs: "show_nat n = c # s" by (cases "show_nat n") auto
  with show_nat_digits [of n] have d: "is_digit c" by simp
  then have c: "\<not> is_blank c" "c \<noteq> CHR ''-''" "c \<noteq> CHR ''+''"
    using is_blank_digit is_digit_CHR by metis+
  have blank: "dropWhile is_blank (show_nat n @ r) = show_nat n @ r" using cs c by simp
  have "\<And>x. x \<in> set (show_nat n) \<Longrightarrow> is_digit x"
    using show_nat_digits [of n] by (simp add: list_all_iff)
  then have "takeWhile is_digit (show_nat n @ r) = show_nat n"
    and "dropWhile is_digit (show_nat n @ r) = r"
    using assms(2) by (cases r; simp add: takeWhile_append2 dropWhile_append2)+
  moreover have "hd (show_nat n @ r) = c" and "show_nat n @ r \<noteq> []" using cs by simp_all
  moreover have "signed_val False (show_nat n) = Some (int n)"
    using assms(1) show_nat_digits [of n]
    by (simp add: signed_val_def in_int64_def min_int64_def max_int64_def)
  ultimately show ?thesis
    using c unfolding scan_int_def Let_def blank by simp
qed

lemma scan_quorum_String: "0 < q \<Longrightarrow> q \<le> max_int64 \<Longrightarrow> scan_quorum (''QUORUM('' @ show_int q @ '')'') = Some q"
  using scan_int_show_nat [of "nat q" "'')''"]
  unfolding scan_quorum_def drop_prefix_append by (simp add: show_int_def)

lemma joinFrom_String:
  assumes "JoinPolicy_Valid p n = None" and "jp_Quorum p \<le> max_int64"
  shows "joinFrom (JoinPolicy_String p) =
    (if jp_Kind p = JoinQuorum then p else p\<lparr>jp_Quorum := 0\<rparr>)"
proof (cases "jp_Kind p = JoinQuorum")
  case True
  with assms have q: "0 < jp_Quorum p" by (auto simp: JoinPolicy_Valid_iff)
  have "JoinPolicy_String p = ''QUORUM('' @ show_int (jp_Quorum p) @ '')''"
    using True by (simp add: JoinPolicy_String_def)
  then show ?thesis
    using True q assms(2) scan_quorum_String [OF q assms(2)]
    by (simp add: joinFrom_def)
next
  case False
  with assms show ?thesis
    by (auto simp: JoinPolicy_Valid_iff JoinPolicy_String_def joinFrom_def)
qed

section \<open>What the scan finds\<close>

text \<open>
  After the last readable fan-out event the loop is a fold. An event settles a step when it
  says that the step's task completed, or failed for the last time.
\<close>

definition fan_step :: "fan_state \<Rightarrow> Event \<Rightarrow> fan_state" where
  "fan_step st e =
     (if ev_Type e = EventTaskCompleted then fan_completed st e
      else if ev_Type e = EventTaskFailed then fan_failed st e else st)"

lemma fan_loop_fold:
  "\<forall>x \<in> set es. ev_Type x \<noteq> EventFanOutStarted \<Longrightarrow> fan_loop st es = Some (foldl fan_step st es)"
  by (induction es arbitrary: st) (simp_all add: fan_step_def)

lemma fan_loop_append:
  "fan_loop st (xs @ ys) = (case fan_loop st xs of None \<Rightarrow> None | Some st' \<Rightarrow> fan_loop st' ys)"
  by (induction xs arbitrary: st) (auto split: prod.splits option.splits)

definition settles_ok :: "StepID \<Rightarrow> Event \<Rightarrow> bool" where
  "settles_ok s e \<longleftrightarrow> ev_StepID e = s \<and> ev_Type e = EventTaskCompleted"

definition settles_bad :: "StepID \<Rightarrow> Event \<Rightarrow> bool" where
  "settles_bad s e \<longleftrightarrow> ev_StepID e = s \<and> ev_Type e = EventTaskFailed
     \<and> (\<exists>t m a. Decode_TaskFailed e = ((t, m, a, True), None))"

definition fan_shape :: "StepID \<Rightarrow> string list \<Rightarrow> JoinPolicy \<Rightarrow> fan_state \<Rightarrow> bool" where
  "fan_shape step calls j st \<longleftrightarrow> fs_found st
     \<and> fs_index st = map (\<lambda>i. (StepID_Child step (int i), i)) [0..<length calls]
     \<and> fo_StepID (fs_open st) = step \<and> fo_Join (fs_open st) = j
     \<and> length (fo_Children (fs_open st)) = length calls
     \<and> (\<forall>i < length calls. let c = fo_Children (fs_open st) ! i in
          ch_StepID c = StepID_Child step (int i) \<and> ch_Index c = int i \<and> ch_Tool c = calls ! i)"

lemma fan_shape_open: "fan_shape (ev_StepID e) calls (joinFrom join) (fan_open e calls join)"
  by (simp add: fan_shape_def fan_open_def fresh_child_def Let_def)

lemma index_lookup:
  "map_of (map (\<lambda>i. (StepID_Child step (int i), i)) [0..<n]) s = Some i
     \<longleftrightarrow> i < n \<and> s = StepID_Child step (int i)"
proof -
  have "distinct (map fst (map (\<lambda>i. (StepID_Child step (int i), i)) [0..<n]))"
    by (auto simp: distinct_map inj_on_def comp_def)
  then show ?thesis by (subst map_of_eq_Some_iff) auto
qed

lemma set_child_simps [simp]:
  "fs_found (set_child st i f) = fs_found st"
  "fs_index (set_child st i f) = fs_index st"
  "fo_StepID (fs_open (set_child st i f)) = fo_StepID (fs_open st)"
  "fo_Join (fs_open (set_child st i f)) = fo_Join (fs_open st)"
  "fo_Children (fs_open (set_child st i f)) =
     (fo_Children (fs_open st))[i := f (fo_Children (fs_open st) ! i)]"
  by (simp_all add: set_child_def)

lemma fan_shape_set_child:
  assumes "fan_shape step calls j st"
    and "\<And>c. ch_StepID (f c) = ch_StepID c \<and> ch_Index (f c) = ch_Index c \<and> ch_Tool (f c) = ch_Tool c"
  shows "fan_shape step calls j (set_child st i f)"
proof -
  have "ch_StepID (cs[i := f (cs ! i)] ! k) = ch_StepID (cs ! k)
      \<and> ch_Index (cs[i := f (cs ! i)] ! k) = ch_Index (cs ! k)
      \<and> ch_Tool (cs[i := f (cs ! i)] ! k) = ch_Tool (cs ! k)" if "k < length cs" for cs k
    using assms(2) that by (cases "i = k") auto
  with assms(1) show ?thesis by (simp add: fan_shape_def Let_def)
qed

lemma fan_shape_step: "fan_shape step calls j st \<Longrightarrow> fan_shape step calls j (fan_step st e)"
  by (auto simp: fan_step_def fan_completed_def fan_failed_def intro!: fan_shape_set_child
      split: option.splits prod.splits)

lemma fan_shape_fold: "fan_shape step calls j st \<Longrightarrow> fan_shape step calls j (foldl fan_step st es)"
  by (induction es arbitrary: st) (simp_all add: fan_shape_step)

text \<open>One event at one child.\<close>

lemma settles_distinct: "\<not> (settles_ok s e \<and> settles_bad s e)"
  by (auto simp: settles_ok_def settles_bad_def)

lemma fan_step_child:
  fixes e :: Event
  assumes "fan_shape step calls j st" and i: "i < length calls"
  defines "c \<equiv> fo_Children (fs_open st) ! i"
  defines "c' \<equiv> fo_Children (fs_open (fan_step st e)) ! i"
  shows "ch_Settled c' \<longleftrightarrow> ch_Settled c \<or> settles_ok (StepID_Child step (int i)) e
           \<or> settles_bad (StepID_Child step (int i)) e"
    and "ch_Succeeded c' \<longleftrightarrow> settles_ok (StepID_Child step (int i)) e
           \<or> (ch_Succeeded c \<and> \<not> settles_bad (StepID_Child step (int i)) e)"
proof -
  from assms(1) have found: "fs_found st" and len: "length (fo_Children (fs_open st)) = length calls"
    and idx: "fs_index st = map (\<lambda>i. (StepID_Child step (int i), i)) [0..<length calls]"
    by (simp_all add: fan_shape_def)
  have "(ch_Settled c' \<longleftrightarrow> ch_Settled c \<or> settles_ok (StepID_Child step (int i)) e
           \<or> settles_bad (StepID_Child step (int i)) e)
      \<and> (ch_Succeeded c' \<longleftrightarrow> settles_ok (StepID_Child step (int i)) e
           \<or> (ch_Succeeded c \<and> \<not> settles_bad (StepID_Child step (int i)) e))"
  proof (cases "map_of (fs_index st) (ev_StepID e)")
    case None
    then have "ev_StepID e \<noteq> StepID_Child step (int i)"
      using i by (metis idx index_lookup option.distinct(1))
    then show ?thesis
      using None unfolding c_def c'_def
      by (simp add: fan_step_def fan_completed_def fan_failed_def settles_ok_def settles_bad_def)
  next
    case (Some k)
    then have k: "k < length calls" "ev_StepID e = StepID_Child step (int k)"
      by (simp_all add: idx index_lookup)
    show ?thesis
      using Some k found len i unfolding c_def c'_def
      by (auto simp: fan_step_def fan_completed_def fan_failed_def settles_ok_def settles_bad_def
          nth_list_update split: option.splits prod.splits)
  qed
  then show "ch_Settled c' \<longleftrightarrow> ch_Settled c \<or> settles_ok (StepID_Child step (int i)) e
           \<or> settles_bad (StepID_Child step (int i)) e"
    and "ch_Succeeded c' \<longleftrightarrow> settles_ok (StepID_Child step (int i)) e
           \<or> (ch_Succeeded c \<and> \<not> settles_bad (StepID_Child step (int i)) e)" by simp_all
qed

text \<open>The last event that settles a step decides how it ended.\<close>

definition settled_in :: "Event list \<Rightarrow> StepID \<Rightarrow> bool" where
  "settled_in es s \<longleftrightarrow> (\<exists>e \<in> set es. settles_ok s e \<or> settles_bad s e)"

definition succeeded_in :: "Event list \<Rightarrow> StepID \<Rightarrow> bool" where
  "succeeded_in es s \<longleftrightarrow> (\<exists>before e after. es = before @ e # after \<and> settles_ok s e
     \<and> (\<forall>x \<in> set after. \<not> settles_bad s x))"

lemma succeeded_in_Nil [simp]: "\<not> succeeded_in [] s"
  by (simp add: succeeded_in_def)

lemma succeeded_in_snoc:
  "succeeded_in (es @ [x]) s \<longleftrightarrow> settles_ok s x \<or> (succeeded_in es s \<and> \<not> settles_bad s x)"
proof
  assume "succeeded_in (es @ [x]) s"
  then obtain b e a where h: "es @ [x] = b @ e # a" "settles_ok s e" "\<forall>y \<in> set a. \<not> settles_bad s y"
    by (auto simp: succeeded_in_def)
  show "settles_ok s x \<or> (succeeded_in es s \<and> \<not> settles_bad s x)"
    using h by (cases a rule: rev_cases) (auto simp: succeeded_in_def)
next
  assume "settles_ok s x \<or> (succeeded_in es s \<and> \<not> settles_bad s x)"
  then show "succeeded_in (es @ [x]) s"
  proof
    assume "settles_ok s x"
    then show ?thesis unfolding succeeded_in_def by (intro exI [of _ es] exI [of _ x] exI [of _ "[]"]) simp
  next
    assume "succeeded_in es s \<and> \<not> settles_bad s x"
    then obtain b e a where "es = b @ e # a" "settles_ok s e" "\<forall>y \<in> set a. \<not> settles_bad s y"
      and "\<not> settles_bad s x" by (auto simp: succeeded_in_def)
    then show ?thesis
      unfolding succeeded_in_def by (intro exI [of _ b] exI [of _ e] exI [of _ "a @ [x]"]) auto
  qed
qed

lemma fan_fold_child:
  assumes "i < length calls"
  shows "(ch_Settled (fo_Children (fs_open (foldl fan_step (fan_open e calls join) es)) ! i)
           \<longleftrightarrow> settled_in es (StepID_Child (ev_StepID e) (int i)))
       \<and> (ch_Succeeded (fo_Children (fs_open (foldl fan_step (fan_open e calls join) es)) ! i)
           \<longleftrightarrow> succeeded_in es (StepID_Child (ev_StepID e) (int i)))"
proof (induction es rule: rev_induct)
  case Nil
  with assms show ?case by (simp add: settled_in_def fan_open_def fresh_child_def)
next
  case (snoc x es)
  have "fan_shape (ev_StepID e) calls (joinFrom join) (foldl fan_step (fan_open e calls join) es)"
    by (rule fan_shape_fold) (rule fan_shape_open)
  from fan_step_child [OF this assms, of x] snoc show ?case
    by (auto simp: settled_in_def succeeded_in_snoc)
qed

text \<open>
  The scan as a whole: with a fan-out that history can read and nothing newer, what is pending
  is that fan-out with its children's outcomes, unless its join is satisfied.
\<close>

definition fan_result :: "Event \<Rightarrow> string list \<Rightarrow> string \<Rightarrow> Event list \<Rightarrow> FanOut" where
  "fan_result e calls join es = fs_open (foldl fan_step (fan_open e calls join) es)"

lemma PendingFanOut_last:
  assumes "fan_loop fan_init before \<noteq> None" and "ev_Type e = EventFanOutStarted"
    and "Decode_FanOutStarted e = ((calls, join), None)"
    and "\<forall>x \<in> set es. ev_Type x \<noteq> EventFanOutStarted"
  shows "PendingFanOut (before @ e # es) =
    (if FanOut_Satisfied (fan_result e calls join es) then None else Some (fan_result e calls join es))"
proof -
  from assms(1) obtain st where "fan_loop fan_init before = Some st" by blast
  with assms have "fan_loop fan_init (before @ e # es) = Some (foldl fan_step (fan_open e calls join) es)"
    by (simp add: fan_loop_append fan_loop_fold)
  moreover have "fs_found (foldl fan_step (fan_open e calls join) es)"
    using fan_shape_fold [OF fan_shape_open] by (auto simp: fan_shape_def)
  ultimately show ?thesis by (simp add: PendingFanOut_def fan_result_def)
qed

lemma fan_result_shape:
  "fo_StepID (fan_result e calls join es) = ev_StepID e"
  "fo_Join (fan_result e calls join es) = joinFrom join"
  "map ch_StepID (fo_Children (fan_result e calls join es)) = StepID_Children (ev_StepID e) (length calls)"
  "map ch_Tool (fo_Children (fan_result e calls join es)) = calls"
  using fan_shape_fold [OF fan_shape_open, of e calls join es]
  by (auto simp: fan_result_def fan_shape_def Let_def intro: nth_equalityI)

lemma fan_result_child:
  fixes e :: Event and es :: "Event list" and join :: string
  assumes "i < length calls"
  defines "c \<equiv> fo_Children (fan_result e calls join es) ! i"
  shows "ch_Settled c \<longleftrightarrow> settled_in es (StepID_Child (ev_StepID e) (int i))"
    and "ch_Succeeded c \<longleftrightarrow> succeeded_in es (StepID_Child (ev_StepID e) (int i))"
  using fan_fold_child [OF assms(1), of e join es] by (simp_all add: c_def fan_result_def)

text \<open>A fan-out this build cannot read blocks nothing.\<close>

lemma PendingFanOut_unreadable:
  assumes "e \<in> set h" and "ev_Type e = EventFanOutStarted" and "snd (Decode_FanOutStarted e) \<noteq> None"
  shows "PendingFanOut h = None"
proof -
  from assms(1) obtain xs ys where h: "h = xs @ e # ys" by (auto simp: in_set_conv_decomp)
  have "fan_loop st (e # ys) = None" for st
    using assms(2, 3) by (auto split: prod.splits option.splits)
  then have "fan_loop fan_init h = None"
    unfolding h fan_loop_append by (cases "fan_loop fan_init xs") simp_all
  then show ?thesis by (simp add: PendingFanOut_def)
qed

lemma PendingFanOut_none:
  "\<forall>x \<in> set h. ev_Type x \<noteq> EventFanOutStarted \<Longrightarrow> PendingFanOut h = None"
proof -
  have found: "fs_found (foldl fan_step st es) = fs_found st" for st es
    by (induction es arbitrary: st)
      (auto simp: fan_step_def fan_completed_def fan_failed_def split: option.splits prod.splits)
  assume "\<forall>x \<in> set h. ev_Type x \<noteq> EventFanOutStarted"
  then show ?thesis
    by (simp add: PendingFanOut_def fan_loop_fold found) (simp add: fan_init_def)
qed

end
