(* ===== verification/Store.thy ===== *)
theory Store
  imports Join
begin

text \<open>
  The in-memory store: internal/store/memory/{memory,effects,signals,outbox,leases}.go and
  internal/core/append.go. The state, transactions, the operations of the transactional
  surface (core.Tx) and the reads of core.Store. The invariants are in theory StoreLaws.

  Every operation takes the instant that the injected clock shows; the clock does not move
  within one operation. Each is a function from the state to a result and the state after it.
\<close>

section \<open>Timestamps in messages\<close>

text \<open>\<open>Format (time.RFC3339)\<close> of a UTC instant, from the day count of the proleptic Gregorian calendar.\<close>

definition pad2 :: "nat \<Rightarrow> string" where
  "pad2 n = (if n < 10 then CHR ''0'' # show_nat n else show_nat n)"

definition pad4 :: "nat \<Rightarrow> string" where
  "pad4 n = replicate (4 - length (show_nat n)) CHR ''0'' @ show_nat n"

definition civil :: "int \<Rightarrow> int \<times> int \<times> int" where
  "civil days =
     (let z = days + 306; era = z div 146097; doe = z mod 146097;
          yoe = (doe - doe div 1460 + doe div 36524 - doe div 146096) div 365;
          doy = doe - (365 * yoe + yoe div 4 - yoe div 100);
          mp = (5 * doy + 2) div 153;
          d = doy - (153 * mp + 2) div 5 + 1;
          m = (if mp < 10 then mp + 3 else mp - 9)
      in (yoe + era * 400 + (if m \<le> 2 then 1 else 0), m, d))"

definition time_RFC3339 :: "time \<Rightarrow> string" where
  "time_RFC3339 t =
     (let secs = t div 1000000000; (y, m, d) = civil (secs div 86400); s = secs mod 86400
      in pad4 (nat y) @ ''-'' @ pad2 (nat m) @ ''-'' @ pad2 (nat d) @ ''T''
         @ pad2 (nat (s div 3600)) @ '':'' @ pad2 (nat (s mod 3600 div 60)) @ '':''
         @ pad2 (nat (s mod 60)) @ ''Z'')"

section \<open>State\<close>

record state =
  st_runs :: "(RunID \<times> Run) list"
  st_tasks :: "(TaskID \<times> Task) list"
  st_stepIndex :: "((RunID \<times> StepID) \<times> TaskID) list"
  st_events :: "(RunID \<times> Event list) list"
  st_effects :: "(IdempotencyKey \<times> Effect) list"
  st_leases :: "(TaskID \<times> Lease) list"
  st_workers :: "(string \<times> Worker) list"
  st_signals :: "((RunID \<times> SignalID) \<times> Signal) list"
  st_deliveries :: "(int \<times> Delivery) list"
  st_published :: "(int \<times> bool) list"
  st_deliverySeq :: int

definition newState :: state where
  "newState = \<lparr>st_runs = [], st_tasks = [], st_stepIndex = [], st_events = [], st_effects = [],
     st_leases = [], st_workers = [], st_signals = [], st_deliveries = [], st_published = [],
     st_deliverySeq = 0\<rparr>"

text \<open>Reading a slice from a map gives the nil slice where there is none; a bool, false.\<close>

definition events_of :: "state \<Rightarrow> RunID \<Rightarrow> Event list" where
  "events_of s r = (case map_of (st_events s) r of None \<Rightarrow> [] | Some es \<Rightarrow> es)"

definition is_published :: "state \<Rightarrow> int \<Rightarrow> bool" where
  "is_published s i = (case map_of (st_published s) i of None \<Rightarrow> False | Some b \<Rightarrow> b)"

section \<open>Transactions\<close>

text \<open>
  A transactional step returns an error or a value, and the state it worked on. Steps are
  chained the way the code chains them with \<open>if err != nil { return err }\<close>; \<open>tx_try\<close> is for
  the places where the caller looks at the error.
\<close>

type_synonym 'a tx = "state \<Rightarrow> (go_error + 'a) \<times> state"

definition tx_return :: "'a \<Rightarrow> 'a tx" where "tx_return x s = (Inr x, s)"

definition tx_error :: "go_error \<Rightarrow> 'a tx" where "tx_error e s = (Inl e, s)"

definition tx_bind :: "'a tx \<Rightarrow> ('a \<Rightarrow> 'b tx) \<Rightarrow> 'b tx" where
  "tx_bind m f s = (case m s of (Inl e, s') \<Rightarrow> (Inl e, s') | (Inr x, s') \<Rightarrow> f x s')"

definition tx_try :: "'a tx \<Rightarrow> (go_error + 'a \<Rightarrow> 'b tx) \<Rightarrow> 'b tx" where
  "tx_try m f s = (case m s of (r, s') \<Rightarrow> f r s')"

fun tx_seq :: "unit tx list \<Rightarrow> unit tx" where
  "tx_seq [] = tx_return ()"
| "tx_seq (m # ms) = tx_bind m (\<lambda>_. tx_seq ms)"

text \<open>
  \<open>RunInTx\<close>: the function works on a clone, which is published when it returns nil and dropped
  otherwise. The delivery sequence is shared with the clone, so it is not rolled back.
\<close>

definition RunInTx :: "'a tx \<Rightarrow> 'a tx" where
  "RunInTx f s =
     (case f s of
        (Inl err, working) \<Rightarrow> (Inl err, s\<lparr>st_deliverySeq := st_deliverySeq working\<rparr>)
      | (Inr x, working) \<Rightarrow> (Inr x, working))"

section \<open>Runs, tasks and events (memory.go)\<close>

definition GetTask :: "TaskID \<Rightarrow> Task tx" where
  "GetTask tid s =
     (case map_of (st_tasks s) tid of
        None \<Rightarrow> (Inl (wrap (''task '' @ tid) ErrNotFound), s)
      | Some t \<Rightarrow> (Inr t, s))"

definition CreateRun :: "time \<Rightarrow> Run \<Rightarrow> unit tx" where
  "CreateRun now r s =
     (if map_of (st_runs s) (run_ID r) \<noteq> None then
        (Inl (wrap (''run '' @ run_ID r) ErrConflict), s)
      else if \<not> RunStatus_Valid (run_Status r) then
        (Inl (wrap (''run '' @ run_ID r @ '' status '' @ RunStatus_text (run_Status r)) ErrInvalidTransition), s)
      else
        (Inr (), s\<lparr>st_runs := AList.update (run_ID r)
           (r\<lparr>run_CreatedAt := now, run_UpdatedAt := now\<rparr>) (st_runs s)\<rparr>))"

definition apply_state :: "time \<Rightarrow> RunState \<Rightarrow> Run \<Rightarrow> Run" where
  "apply_state now nxt r = r\<lparr>run_Status := rs_Status nxt, run_Output := rs_Output nxt,
     run_LastError := rs_LastError nxt, run_AvailableAt := rs_AvailableAt nxt,
     run_Version := incr64 (run_Version r), run_UpdatedAt := now,
     run_CompletedAt := (if RunStatus_IsTerminal (rs_Status nxt) then Some now else run_CompletedAt r)\<rparr>"

definition AdvanceRun :: "time \<Rightarrow> RunID \<Rightarrow> int \<Rightarrow> RunState \<Rightarrow> unit tx" where
  "AdvanceRun now rid expectedVersion nxt s =
     (case map_of (st_runs s) rid of
        None \<Rightarrow> (Inl (wrap (''run '' @ rid) ErrNotFound), s)
      | Some r \<Rightarrow>
          if run_Version r \<noteq> expectedVersion then
            (Inl (wrap (''run '' @ rid @ '' at version '' @ show_int (run_Version r) @ '', expected ''
                  @ show_int expectedVersion) ErrConflict), s)
          else if rs_Status nxt \<noteq> run_Status r \<and> \<not> RunStatus_CanTransitionTo (run_Status r) (rs_Status nxt) then
            (Inl (wrap (''run '' @ rid @ '' '' @ RunStatus_text (run_Status r) @ '' -> ''
                  @ RunStatus_text (rs_Status nxt)) ErrInvalidTransition), s)
          else (Inr (), s\<lparr>st_runs := AList.update rid (apply_state now nxt r) (st_runs s)\<rparr>))"

definition CreateTask :: "time \<Rightarrow> Task \<Rightarrow> unit tx" where
  "CreateTask now t s =
     (if map_of (st_runs s) (task_RunID t) = None then
        (Inl (wrap (''run '' @ task_RunID t) ErrNotFound), s)
      else if map_of (st_stepIndex s) (task_RunID t, task_StepID t) \<noteq> None then
        (Inl (wrap (''run '' @ task_RunID t @ '' step '' @ task_StepID t) ErrTaskExists), s)
      else if map_of (st_tasks s) (task_ID t) \<noteq> None then
        (Inl (wrap (''task '' @ task_ID t) ErrConflict), s)
      else
        (Inr (), s\<lparr>st_tasks := AList.update (task_ID t)
                    (t\<lparr>task_CreatedAt := now, task_UpdatedAt := now\<rparr>) (st_tasks s),
                  st_stepIndex := AList.update (task_RunID t, task_StepID t) (task_ID t) (st_stepIndex s)\<rparr>))"

definition move_task :: "time \<Rightarrow> TaskStatus \<Rightarrow> TaskOutcome \<Rightarrow> Task \<Rightarrow> Task" where
  "move_task now to out t = t\<lparr>task_Status := to, task_UpdatedAt := now,
     task_LastError := (if to_Error out \<noteq> [] then to_Error out else task_LastError t),
     task_Attempt := (if to = TaskRunning then incr64 (task_Attempt t) else task_Attempt t),
     task_CompletedAt := (if TaskStatus_IsTerminal to then Some now else task_CompletedAt t)\<rparr>"

definition TransitionTask ::
  "time \<Rightarrow> TaskID \<Rightarrow> TaskStatus \<Rightarrow> TaskStatus \<Rightarrow> TaskOutcome \<Rightarrow> unit tx" where
  "TransitionTask now tid frm to out s =
     (case map_of (st_tasks s) tid of
        None \<Rightarrow> (Inl (wrap (''task '' @ tid) ErrNotFound), s)
      | Some t \<Rightarrow>
          if task_Status t \<noteq> frm then
            (Inl (wrap (''task '' @ tid @ '' is '' @ TaskStatus_text (task_Status t) @ '', expected ''
                  @ TaskStatus_text frm) ErrConflict), s)
          else if \<not> TaskStatus_CanTransitionTo frm to then
            (Inl (wrap (''task '' @ tid @ '' '' @ TaskStatus_text frm @ '' -> '' @ TaskStatus_text to)
                  ErrInvalidTransition), s)
          else (Inr (), s\<lparr>st_tasks := AList.update tid (move_task now to out t) (st_tasks s)\<rparr>))"

fun max_seq :: "int \<Rightarrow> Event list \<Rightarrow> int" where
  "max_seq m [] = m"
| "max_seq m (e # es) = max_seq (if m < ev_Seq e then ev_Seq e else m) es"

definition NextSeq :: "RunID \<Rightarrow> int tx" where
  "NextSeq rid s =
     (case map_of (st_runs s) rid of
        None \<Rightarrow> (Inl (wrap (''run '' @ rid) ErrNotFound), s)
      | Some _ \<Rightarrow> (Inr (incr64 (max_seq 0 (events_of s rid))), s))"

definition AppendEvent :: "time \<Rightarrow> Event \<Rightarrow> unit tx" where
  "AppendEvent now e s =
     (case map_of (st_runs s) (ev_RunID e) of
        None \<Rightarrow> (Inl (wrap (''run '' @ ev_RunID e) ErrNotFound), s)
      | Some _ \<Rightarrow>
          if list_ex (\<lambda>x. ev_Seq x = ev_Seq e) (events_of s (ev_RunID e)) then
            (Inl (wrap (''run '' @ ev_RunID e @ '' seq '' @ show_int (ev_Seq e)) ErrSeqConflict), s)
          else (Inr (), s\<lparr>st_events := AList.update (ev_RunID e)
                 (events_of s (ev_RunID e) @ [e\<lparr>ev_CreatedAt := now\<rparr>]) (st_events s)\<rparr>))"

text \<open>internal/core/append.go.\<close>

definition Append :: "time \<Rightarrow> RunID \<Rightarrow> EventType \<Rightarrow> StepID \<Rightarrow> EventData \<Rightarrow> unit tx" where
  "Append now rid typ step data =
     tx_bind (NextSeq rid) (\<lambda>seq.
       case NewEvent rid seq typ step data of
         Inl err \<Rightarrow> tx_error err
       | Inr ev \<Rightarrow> AppendEvent now ev)"

section \<open>The effect ledger (effects.go)\<close>

definition ReserveEffect :: "time \<Rightarrow> Effect \<Rightarrow> unit tx" where
  "ReserveEffect now e s =
     (if map_of (st_runs s) (eff_RunID e) = None then
        (Inl (wrap (''run '' @ eff_RunID e) ErrNotFound), s)
      else if map_of (st_tasks s) (eff_TaskID e) = None then
        (Inl (wrap (''task '' @ eff_TaskID e) ErrNotFound), s)
      else if \<not> EffectStatus_Valid (eff_Status e) then
        (Inl (wrap (''effect '' @ eff_Key e @ '' status '' @ EffectStatus_text (eff_Status e)) ErrInvalidTransition), s)
      else if \<not> EffectClass_Valid (eff_Class e) then
        (Inl (wrap (''effect '' @ eff_Key e @ '' class '' @ EffectClass_text (eff_Class e)) ErrInvalidTransition), s)
      else if map_of (st_effects s) (eff_Key e) \<noteq> None then
        (Inl (wrap (''effect '' @ eff_Key e) ErrEffectExists), s)
      else
        (Inr (), s\<lparr>st_effects := AList.update (eff_Key e)
           (e\<lparr>eff_CreatedAt := now, eff_UpdatedAt := now\<rparr>) (st_effects s)\<rparr>))"

definition GetEffect :: "IdempotencyKey \<Rightarrow> Effect tx" where
  "GetEffect key s =
     (case map_of (st_effects s) key of
        None \<Rightarrow> (Inl (wrap (''effect '' @ key) ErrNotFound), s)
      | Some e \<Rightarrow> (Inr e, s))"

definition move_effect :: "time \<Rightarrow> EffectStatus \<Rightarrow> EffectOutcome \<Rightarrow> Effect \<Rightarrow> Effect" where
  "move_effect now to out e = e\<lparr>eff_Status := to, eff_UpdatedAt := now,
     eff_Response := (if eo_Response out \<noteq> RawNil then eo_Response out else eff_Response e),
     eff_ExternalRef := (if eo_ExternalRef out \<noteq> [] then eo_ExternalRef out else eff_ExternalRef e),
     eff_LastError := (if eo_Error out \<noteq> [] then eo_Error out else eff_LastError e),
     eff_CommittedAt := (if to = EffectCommitted then Some now else eff_CommittedAt e)\<rparr>"

definition TransitionEffect ::
  "time \<Rightarrow> IdempotencyKey \<Rightarrow> EffectStatus \<Rightarrow> EffectStatus \<Rightarrow> EffectOutcome \<Rightarrow> unit tx" where
  "TransitionEffect now key frm to out s =
     (case map_of (st_effects s) key of
        None \<Rightarrow> (Inl (wrap (''effect '' @ key) ErrNotFound), s)
      | Some e \<Rightarrow>
          if eff_Status e \<noteq> frm then
            (Inl (wrap (''effect '' @ key @ '' is '' @ EffectStatus_text (eff_Status e) @ '', expected ''
                  @ EffectStatus_text frm) ErrConflict), s)
          else if \<not> EffectStatus_CanTransitionTo frm to then
            (Inl (wrap (''effect '' @ key @ '' '' @ EffectStatus_text frm @ '' -> '' @ EffectStatus_text to)
                  ErrInvalidTransition), s)
          else (Inr (), s\<lparr>st_effects := AList.update key (move_effect now to out e) (st_effects s)\<rparr>))"

section \<open>Signals (signals.go)\<close>

definition RecordSignal :: "time \<Rightarrow> Signal \<Rightarrow> unit tx" where
  "RecordSignal now sg s =
     (if map_of (st_runs s) (sig_RunID sg) = None then
        (Inl (wrap (''run '' @ sig_RunID sg) ErrNotFound), s)
      else if map_of (st_signals s) (sig_RunID sg, sig_ID sg) \<noteq> None then
        (Inl (wrap (''run '' @ sig_RunID sg @ '' signal '' @ sig_ID sg) ErrSignalExists), s)
      else
        (Inr (), s\<lparr>st_signals := AList.update (sig_RunID sg, sig_ID sg)
           (sg\<lparr>sig_CreatedAt := now\<rparr>) (st_signals s)\<rparr>))"

definition ReleaseRun :: "time \<Rightarrow> RunID \<Rightarrow> unit tx" where
  "ReleaseRun now rid s =
     (case map_of (st_runs s) rid of
        None \<Rightarrow> (Inl (wrap (''run '' @ rid) ErrNotFound), s)
      | Some r \<Rightarrow> (Inr (), s\<lparr>st_runs := AList.update rid
          (r\<lparr>run_AvailableAt := None, run_UpdatedAt := now\<rparr>) (st_runs s)\<rparr>))"

section \<open>The outbox (outbox.go)\<close>

definition EnqueueDelivery :: "time \<Rightarrow> TaskID \<Rightarrow> time \<Rightarrow> unit tx" where
  "EnqueueDelivery now tid availableAt s =
     (case map_of (st_tasks s) tid of
        None \<Rightarrow> (Inl (wrap (''task '' @ tid) ErrNotFound), s)
      | Some _ \<Rightarrow>
          let did = incr64 (st_deliverySeq s) in
          (Inr (), s\<lparr>st_deliverySeq := did,
             st_deliveries := AList.update did
               \<lparr>del_ID = did, del_TaskID = tid, del_Attempts = 0, del_LastError = [],
                del_CreatedAt = now, del_AvailableAt = availableAt\<rparr> (st_deliveries s)\<rparr>))"

definition MarkDelivered :: "int list \<Rightarrow> unit tx" where
  "MarkDelivered ids s =
     (Inr (), s\<lparr>st_published := foldl (\<lambda>m did. AList.update did True m) (st_published s) ids\<rparr>)"

definition FailDelivery :: "int \<Rightarrow> string \<Rightarrow> unit tx" where
  "FailDelivery did cause s =
     (case map_of (st_deliveries s) did of
        None \<Rightarrow> (Inl (wrap (''delivery '' @ show_int did) ErrNotFound), s)
      | Some d \<Rightarrow> (Inr (), s\<lparr>st_deliveries := AList.update did
          (d\<lparr>del_Attempts := incr64 (del_Attempts d), del_LastError := cause\<rparr>) (st_deliveries s)\<rparr>))"

section \<open>Workers and leases (leases.go)\<close>

definition RegisterWorkerTx :: "time \<Rightarrow> Worker \<Rightarrow> unit tx" where
  "RegisterWorkerTx now w s =
     (if worker_ID w = [] then (Inl (wrap ''worker id is empty'' ErrInvalidTransition), s)
      else
        let registered = (case map_of (st_workers s) (worker_ID w) of
              Some existing \<Rightarrow> worker_RegisteredAt existing | None \<Rightarrow> now)
        in (Inr (), s\<lparr>st_workers := AList.update (worker_ID w)
             (w\<lparr>worker_RegisteredAt := registered, worker_LastHeartbeat := Some now\<rparr>) (st_workers s)\<rparr>))"

definition AcquireLease :: "TaskID \<Rightarrow> string \<Rightarrow> time \<Rightarrow> time \<Rightarrow> Lease tx" where
  "AcquireLease tid workerID now expiresAt s =
     (if map_of (st_tasks s) tid = None then (Inl (wrap (''task '' @ tid) ErrNotFound), s)
      else if map_of (st_workers s) workerID = None then
        (Inl (wrap (''worker '' @ workerID) ErrNotFound), s)
      else
        let grant = (\<lambda>token.
              let l = \<lparr>lease_TaskID = tid, lease_WorkerID = workerID, lease_Token = token,
                       lease_AcquiredAt = now, lease_ExpiresAt = expiresAt, lease_HeartbeatAt = now\<rparr>
              in (Inr l, s\<lparr>st_leases := AList.update tid l (st_leases s)\<rparr>))
        in case map_of (st_leases s) tid of
             None \<Rightarrow> grant 1
           | Some existing \<Rightarrow>
               if \<not> Lease_Expired existing now then
                 (Inl (wrap (''task '' @ tid @ '' held by '' @ lease_WorkerID existing @ '' until ''
                       @ time_RFC3339 (lease_ExpiresAt existing)) ErrLeaseHeld), s)
               else grant (incr64 (lease_Token existing)))"

definition GetLease :: "TaskID \<Rightarrow> Lease tx" where
  "GetLease tid s =
     (case map_of (st_leases s) tid of
        None \<Rightarrow> (Inl (wrap (''lease for task '' @ tid) ErrNotFound), s)
      | Some l \<Rightarrow> (Inr l, s))"

definition fenced :: "TaskID \<Rightarrow> int \<Rightarrow> int \<Rightarrow> go_error" where
  "fenced tid have_tok presented = wrap (''task '' @ tid @ '' is at token '' @ show_int have_tok
     @ '', presented '' @ show_int presented) ErrFenced"

definition ExtendLease :: "time \<Rightarrow> TaskID \<Rightarrow> int \<Rightarrow> time \<Rightarrow> unit tx" where
  "ExtendLease now tid token expiresAt s =
     (case map_of (st_leases s) tid of
        None \<Rightarrow> (Inl (wrap (''lease for task '' @ tid) ErrNotFound), s)
      | Some l \<Rightarrow>
          if lease_Token l \<noteq> token then (Inl (fenced tid (lease_Token l) token), s)
          else (Inr (), s\<lparr>st_leases := AList.update tid
            (l\<lparr>lease_ExpiresAt := expiresAt, lease_HeartbeatAt := now\<rparr>) (st_leases s)\<rparr>))"

definition ReleaseLease :: "TaskID \<Rightarrow> int \<Rightarrow> time \<Rightarrow> unit tx" where
  "ReleaseLease tid token now s =
     (case map_of (st_leases s) tid of
        None \<Rightarrow> (Inl (wrap (''lease for task '' @ tid) ErrNotFound), s)
      | Some l \<Rightarrow>
          if lease_Token l \<noteq> token then (Inl (fenced tid (lease_Token l) token), s)
          else (Inr (), s\<lparr>st_leases := AList.update tid (l\<lparr>lease_ExpiresAt := now\<rparr>) (st_leases s)\<rparr>))"

section \<open>Reads\<close>

text \<open>A read does not change the state; it returns an error or a value.\<close>

definition GetRun :: "state \<Rightarrow> RunID \<Rightarrow> go_error + Run" where
  "GetRun s rid = (case map_of (st_runs s) rid of
     None \<Rightarrow> Inl (wrap (''run '' @ rid) ErrNotFound) | Some r \<Rightarrow> Inr r)"

definition Store_GetTask :: "state \<Rightarrow> TaskID \<Rightarrow> go_error + Task" where
  "Store_GetTask s tid = (case map_of (st_tasks s) tid of
     None \<Rightarrow> Inl (wrap (''task '' @ tid) ErrNotFound) | Some t \<Rightarrow> Inr t)"

definition Store_GetEffect :: "state \<Rightarrow> IdempotencyKey \<Rightarrow> go_error + Effect" where
  "Store_GetEffect s key = (case map_of (st_effects s) key of
     None \<Rightarrow> Inl (wrap (''effect '' @ key) ErrNotFound) | Some e \<Rightarrow> Inr e)"

definition sortTasks :: "Task list \<Rightarrow> Task list" where
  "sortTasks = sort_key (\<lambda>t. (task_CreatedAt t, task_ID t))"

definition ListTasks :: "state \<Rightarrow> RunID \<Rightarrow> Task list" where
  "ListTasks s rid = sortTasks (filter (\<lambda>t. task_RunID t = rid) (vals (st_tasks s)))"

definition History :: "state \<Rightarrow> RunID \<Rightarrow> Event list" where
  "History s rid = sort_key ev_Seq (events_of s rid)"

definition PendingTasks :: "state \<Rightarrow> int \<Rightarrow> Task list" where
  "PendingTasks s limit =
     limited limit (sortTasks (filter (\<lambda>t. task_Status t = TaskPending) (vals (st_tasks s))))"

definition RunsAwaitingAdvance :: "state \<Rightarrow> time \<Rightarrow> int \<Rightarrow> RunID list" where
  "RunsAwaitingAdvance s now limit =
     (let inFlight = map task_RunID (filter (\<lambda>t. \<not> TaskStatus_IsTerminal (task_Status t)) (vals (st_tasks s)))
      in limited limit (sort (map fst (filter (\<lambda>(rid, r). run_Status r = RunRunning
           \<and> rid \<notin> set inFlight \<and> \<not> Run_IsWaiting r now) (st_runs s)))))"

definition wake_step :: "time \<Rightarrow> time option \<Rightarrow> Run \<Rightarrow> time option" where
  "wake_step after earliest r =
     (case run_AvailableAt r of
        None \<Rightarrow> earliest
      | Some t \<Rightarrow>
          if run_Status r \<noteq> RunRunning then earliest
          else if \<not> after < t then earliest
          else (case earliest of None \<Rightarrow> Some t | Some x \<Rightarrow> if t < x then Some t else Some x))"

definition NextWakeUp :: "state \<Rightarrow> time \<Rightarrow> time option" where
  "NextWakeUp s after = foldl (wake_step after) None (vals (st_runs s))"

definition sortEffects :: "Effect list \<Rightarrow> Effect list" where
  "sortEffects = sort_key (\<lambda>e. (eff_CreatedAt e, eff_Key e))"

definition ListEffects :: "state \<Rightarrow> RunID \<Rightarrow> Effect list" where
  "ListEffects s rid = sortEffects (filter (\<lambda>e. eff_RunID e = rid) (vals (st_effects s)))"

definition UnresolvedEffects :: "state \<Rightarrow> time \<Rightarrow> int \<Rightarrow> Effect list" where
  "UnresolvedEffects s before limit =
     limited limit (sort_key (\<lambda>e. (eff_UpdatedAt e, eff_Key e))
       (filter (\<lambda>e. (eff_Status e = EffectRunning \<or> eff_Status e = EffectUnknown)
          \<and> eff_UpdatedAt e < before) (vals (st_effects s))))"

definition sortSignals :: "Signal list \<Rightarrow> Signal list" where
  "sortSignals = sort_key (\<lambda>x. (sig_CreatedAt x, sig_ID x))"

definition Signals :: "state \<Rightarrow> RunID \<Rightarrow> string \<Rightarrow> Signal list" where
  "Signals s rid name =
     sortSignals (filter (\<lambda>x. sig_RunID x = rid \<and> sig_Name x = name) (vals (st_signals s)))"

definition PendingDeliveries :: "state \<Rightarrow> time \<Rightarrow> int \<Rightarrow> Delivery list" where
  "PendingDeliveries s now limit =
     limited limit (sort_key del_ID (filter (\<lambda>d. \<not> is_published s (del_ID d)
       \<and> (time_IsZero (del_AvailableAt d) \<or> \<not> now < del_AvailableAt d)) (vals (st_deliveries s))))"

definition ExpiredLeases :: "state \<Rightarrow> time \<Rightarrow> int \<Rightarrow> Lease list" where
  "ExpiredLeases s now limit =
     limited limit (sort_key (\<lambda>l. (lease_ExpiresAt l, lease_TaskID l))
       (map snd (filter (\<lambda>(tid, l). Lease_Expired l now
          \<and> (case map_of (st_tasks s) tid of
               None \<Rightarrow> False | Some t \<Rightarrow> \<not> TaskStatus_IsTerminal (task_Status t))) (st_leases s))))"

end
