(* ===== verification/StoreLaws.thy ===== *)
theory StoreLaws
  imports Store
begin

text \<open>
  The laws of the store. A preorder on states that every primitive operation respects is
  respected by every transaction and by every component that changes the store only through
  transactions: the locale states that contract once. Below it are the relations and
  invariants that the operations of theory Store do respect: how records evolve, referential
  integrity, and gapless history.
\<close>

section \<open>Reasoning about transactional steps\<close>

lemmas tx_op_defs = CreateRun_def AdvanceRun_def CreateTask_def TransitionTask_def ReserveEffect_def
  TransitionEffect_def RecordSignal_def ReleaseRun_def EnqueueDelivery_def MarkDelivered_def
  FailDelivery_def RegisterWorkerTx_def AcquireLease_def ExtendLease_def ReleaseLease_def

lemma snd_tx_return [simp]: "snd (tx_return x s) = s" by (simp add: tx_return_def)
lemma snd_tx_error [simp]: "snd (tx_error e s) = s" by (simp add: tx_error_def)
lemma snd_GetTask [simp]: "snd (GetTask i s) = s" by (simp add: GetTask_def split: option.split)
lemma snd_GetEffect [simp]: "snd (GetEffect k s) = s" by (simp add: GetEffect_def split: option.split)
lemma snd_GetLease [simp]: "snd (GetLease i s) = s" by (simp add: GetLease_def split: option.split)
lemma snd_NextSeq [simp]: "snd (NextSeq r s) = s" by (simp add: NextSeq_def split: option.split)

lemma tx_bind_Inl: "m s = (Inl e, s') \<Longrightarrow> tx_bind m f s = (Inl e, s')"
  by (simp add: tx_bind_def)

lemma tx_bind_Inr: "m s = (Inr x, s') \<Longrightarrow> tx_bind m f s = f x s'"
  by (simp add: tx_bind_def)

lemma RunInTx_Inr: "f s = (Inr x, s') \<Longrightarrow> RunInTx f s = (Inr x, s')"
  by (simp add: RunInTx_def)

lemma RunInTx_Inl: "f s = (Inl e, s') \<Longrightarrow> RunInTx f s = (Inl e, s\<lparr>st_deliverySeq := st_deliverySeq s'\<rparr>)"
  by (simp add: RunInTx_def)

lemma fst_RunInTx [simp]: "fst (RunInTx f s) = fst (f s)"
  by (simp add: RunInTx_def split: prod.split sum.split)

text \<open>A transaction that fails leaves everything but the delivery sequence as it was.\<close>

definition same_but_seq :: "state \<Rightarrow> state \<Rightarrow> bool" where
  "same_but_seq s s' \<longleftrightarrow> s' = s\<lparr>st_deliverySeq := st_deliverySeq s'\<rparr>"

lemma RunInTx_atomic: "fst (RunInTx f s) = Inl e \<Longrightarrow> same_but_seq s (snd (RunInTx f s))"
  by (auto simp: RunInTx_def same_but_seq_def split: prod.splits sum.splits)

section \<open>The contract of the transactional surface\<close>

text \<open>What the engine puts into the store: new runs run, new tasks and effects are pending.\<close>

definition fresh_run :: "Run \<Rightarrow> bool" where
  "fresh_run r \<longleftrightarrow> run_Status r = RunRunning \<and> run_Version r = 0 \<and> run_CompletedAt r = None"

definition fresh_task :: "Task \<Rightarrow> bool" where
  "fresh_task t \<longleftrightarrow> task_Status t = TaskPending \<and> task_Attempt t = 0 \<and> 0 < task_MaxAttempts t
     \<and> task_CompletedAt t = None"

definition fresh_effect :: "Effect \<Rightarrow> bool" where
  "fresh_effect e \<longleftrightarrow> eff_Status e = EffectPending \<and> eff_CommittedAt e = None"

text \<open>A step upholds a relation when it does so from every state, whatever it returns.\<close>

definition upholds :: "(state \<Rightarrow> state \<Rightarrow> bool) \<Rightarrow> 'a tx \<Rightarrow> bool" where
  "upholds R m \<longleftrightarrow> (\<forall>s. R s (snd (m s)))"

locale store_preorder =
  fixes R :: "state \<Rightarrow> state \<Rightarrow> bool"
  assumes R_refl: "R s s"
    and R_trans: "R s t \<Longrightarrow> R t u \<Longrightarrow> R s u"
    and R_rollback: "R s (s\<lparr>st_deliverySeq := q\<rparr>)"
begin

lemma upholdsD: "upholds R m \<Longrightarrow> R s (snd (m s))"
  by (simp add: upholds_def)

lemma upholds_read: "(\<And>s. snd (m s) = s) \<Longrightarrow> upholds R m"
  by (simp add: upholds_def R_refl)

lemma upholds_return [simp]: "upholds R (tx_return x)" by (rule upholds_read) simp
lemma upholds_error [simp]: "upholds R (tx_error e)" by (rule upholds_read) simp
lemma upholds_GetTask [simp]: "upholds R (GetTask i)" by (rule upholds_read) simp
lemma upholds_GetEffect [simp]: "upholds R (GetEffect k)" by (rule upholds_read) simp
lemma upholds_GetLease [simp]: "upholds R (GetLease i)" by (rule upholds_read) simp

lemma upholds_bind: "upholds R m \<Longrightarrow> (\<And>x. upholds R (f x)) \<Longrightarrow> upholds R (tx_bind m f)"
  unfolding upholds_def tx_bind_def
  by (auto split: prod.split sum.split) (metis R_trans snd_conv)+

lemma upholds_try: "upholds R m \<Longrightarrow> (\<And>r. upholds R (f r)) \<Longrightarrow> upholds R (tx_try m f)"
  unfolding upholds_def tx_try_def by (auto split: prod.split) (metis R_trans snd_conv)

lemma upholds_seq: "(\<And>m. m \<in> set ms \<Longrightarrow> upholds R m) \<Longrightarrow> upholds R (tx_seq ms)"
  by (induction ms) (simp_all add: upholds_bind)

lemma upholds_if: "(b \<Longrightarrow> upholds R m) \<Longrightarrow> (\<not> b \<Longrightarrow> upholds R m') \<Longrightarrow> upholds R (if b then m else m')"
  by simp

lemma upholds_RunInTx: "upholds R m \<Longrightarrow> upholds R (RunInTx m)"
  unfolding upholds_def RunInTx_def
  by (auto split: prod.split sum.split simp: R_rollback) (metis snd_conv)

end

locale tx_relation = store_preorder +
  assumes R_CreateRun: "fresh_run r \<Longrightarrow> R s (snd (CreateRun now r s))"
    and R_AdvanceRun: "R s (snd (AdvanceRun now i v nxt s))"
    and R_CreateTask: "fresh_task t \<Longrightarrow> R s (snd (CreateTask now t s))"
    and R_TransitionTask: "R s (snd (TransitionTask now j frm to out s))"
    and R_Append: "R s (snd (Append now i typ step data s))"
    and R_ReserveEffect: "fresh_effect e \<Longrightarrow> R s (snd (ReserveEffect now e s))"
    and R_TransitionEffect: "R s (snd (TransitionEffect now k ef et eo s))"
    and R_RecordSignal: "R s (snd (RecordSignal now sg s))"
    and R_ReleaseRun: "R s (snd (ReleaseRun now i s))"
    and R_EnqueueDelivery: "R s (snd (EnqueueDelivery now j av s))"
    and R_MarkDelivered: "R s (snd (MarkDelivered ids s))"
    and R_FailDelivery: "R s (snd (FailDelivery d cause s))"
    and R_RegisterWorker: "R s (snd (RegisterWorkerTx now w s))"
    and R_AcquireLease: "R s (snd (AcquireLease j wid now expires s))"
    and R_ExtendLease: "R s (snd (ExtendLease now j token expires s))"
    and R_ReleaseLease: "R s (snd (ReleaseLease j token now s))"
begin

lemma upholds_ops [simp]:
  "upholds R (AdvanceRun now i v nxt)" "upholds R (TransitionTask now j frm to out)"
  "upholds R (Append now i typ step data)" "upholds R (TransitionEffect now k ef et eo)"
  "upholds R (RecordSignal now sg)" "upholds R (ReleaseRun now i)" "upholds R (EnqueueDelivery now j av)"
  "upholds R (MarkDelivered ids)" "upholds R (FailDelivery d cause)" "upholds R (RegisterWorkerTx now w)"
  "upholds R (AcquireLease j wid now expires)" "upholds R (ExtendLease now j token expires)"
  "upholds R (ReleaseLease j token now)"
  by (simp_all add: upholds_def R_AdvanceRun R_TransitionTask R_Append R_TransitionEffect R_RecordSignal
      R_ReleaseRun R_EnqueueDelivery R_MarkDelivered R_FailDelivery R_RegisterWorker R_AcquireLease
      R_ExtendLease R_ReleaseLease)

lemma upholds_fresh:
  "fresh_run r \<Longrightarrow> upholds R (CreateRun now r)" "fresh_task t \<Longrightarrow> upholds R (CreateTask now t)"
  "fresh_effect e \<Longrightarrow> upholds R (ReserveEffect now e)"
  by (simp_all add: upholds_def R_CreateRun R_CreateTask R_ReserveEffect)

end

section \<open>How records evolve\<close>

text \<open>
  What no operation ever takes back: a record is never removed, what identifies it never
  changes, its status follows the edges of its machine, a committed effect is frozen, history
  only grows at its end, and a published delivery stays published.
\<close>

definition run_evolves :: "Run \<Rightarrow> Run \<Rightarrow> bool" where
  "run_evolves r r' \<longleftrightarrow> run_ID r' = run_ID r \<and> run_AgentName r' = run_AgentName r
     \<and> run_AgentVersion r' = run_AgentVersion r \<and> run_Input r' = run_Input r
     \<and> run_CreatedAt r' = run_CreatedAt r
     \<and> RunStatus_CanTransitionTo\<^sup>*\<^sup>* (run_Status r) (run_Status r')"

definition task_evolves :: "Task \<Rightarrow> Task \<Rightarrow> bool" where
  "task_evolves t t' \<longleftrightarrow> task_ID t' = task_ID t \<and> task_RunID t' = task_RunID t
     \<and> task_StepID t' = task_StepID t \<and> task_Type t' = task_Type t \<and> task_Payload t' = task_Payload t
     \<and> task_MaxAttempts t' = task_MaxAttempts t \<and> task_CreatedAt t' = task_CreatedAt t
     \<and> TaskStatus_CanTransitionTo\<^sup>*\<^sup>* (task_Status t) (task_Status t')
     \<and> (TaskStatus_IsTerminal (task_Status t) \<longrightarrow> t' = t)"

definition effect_evolves :: "Effect \<Rightarrow> Effect \<Rightarrow> bool" where
  "effect_evolves e e' \<longleftrightarrow> eff_ID e' = eff_ID e \<and> eff_TaskID e' = eff_TaskID e \<and> eff_RunID e' = eff_RunID e
     \<and> eff_Type e' = eff_Type e \<and> eff_Class e' = eff_Class e \<and> eff_Key e' = eff_Key e
     \<and> eff_Request e' = eff_Request e \<and> eff_CreatedAt e' = eff_CreatedAt e
     \<and> EffectStatus_CanTransitionTo\<^sup>*\<^sup>* (eff_Status e) (eff_Status e')
     \<and> (eff_Status e = EffectCommitted \<longrightarrow> e' = e)"

definition evolves :: "state \<Rightarrow> state \<Rightarrow> bool" where
  "evolves s s' \<longleftrightarrow>
     grows run_evolves (st_runs s) (st_runs s')
     \<and> grows task_evolves (st_tasks s) (st_tasks s')
     \<and> grows (=) (st_stepIndex s) (st_stepIndex s')
     \<and> (\<forall>r. \<exists>more. events_of s' r = events_of s r @ more)
     \<and> grows effect_evolves (st_effects s) (st_effects s')
     \<and> grows (\<lambda>_ _. True) (st_leases s) (st_leases s')
     \<and> grows (\<lambda>w w'. worker_RegisteredAt w' = worker_RegisteredAt w) (st_workers s) (st_workers s')
     \<and> grows (=) (st_signals s) (st_signals s')
     \<and> grows (\<lambda>_ _. True) (st_deliveries s) (st_deliveries s')
     \<and> (\<forall>d. is_published s d \<longrightarrow> is_published s' d)"

lemma run_evolves_refl [simp]: "run_evolves r r" by (simp add: run_evolves_def)
lemma task_evolves_refl [simp]: "task_evolves t t" by (simp add: task_evolves_def)
lemma effect_evolves_refl [simp]: "effect_evolves e e" by (simp add: effect_evolves_def)

lemma run_evolves_trans: "run_evolves a b \<Longrightarrow> run_evolves b c \<Longrightarrow> run_evolves a c"
  by (auto simp: run_evolves_def)

lemma task_evolves_trans: "task_evolves a b \<Longrightarrow> task_evolves b c \<Longrightarrow> task_evolves a c"
  by (auto simp: task_evolves_def)

lemma effect_evolves_trans: "effect_evolves a b \<Longrightarrow> effect_evolves b c \<Longrightarrow> effect_evolves a c"
  by (auto simp: effect_evolves_def)

lemma evolves_refl [simp]: "evolves s s"
  by (simp add: evolves_def)

lemma evolves_trans: "evolves s t \<Longrightarrow> evolves t u \<Longrightarrow> evolves s u"
  unfolding evolves_def
  by (intro conjI; (elim conjE)?) (auto elim!: grows_trans intro: run_evolves_trans task_evolves_trans effect_evolves_trans,
    metis append.assoc)

lemma apply_state_evolves:
  "rs_Status nxt = run_Status r \<or> RunStatus_CanTransitionTo (run_Status r) (rs_Status nxt)
     \<Longrightarrow> run_evolves r (apply_state now nxt r)"
  by (auto simp: run_evolves_def apply_state_def)

lemma release_evolves: "run_evolves r (r\<lparr>run_AvailableAt := None, run_UpdatedAt := now\<rparr>)"
  by (simp add: run_evolves_def)

lemma move_task_evolves:
  "TaskStatus_CanTransitionTo (task_Status t) to \<Longrightarrow> task_evolves t (move_task now to out t)"
  using task_machine.final_stuck by (auto simp: task_evolves_def move_task_def)

lemma move_effect_evolves:
  "EffectStatus_CanTransitionTo (eff_Status e) to \<Longrightarrow> effect_evolves e (move_effect now to out e)"
  using effect_machine.final_stuck by (auto simp: effect_evolves_def move_effect_def)

lemma events_of_update:
  "events_of (s\<lparr>st_events := AList.update r es (st_events s)\<rparr>) r' = (if r' = r then es else events_of s r')"
  by (simp add: events_of_def)

lemma events_of_cong [simp]:
  "events_of (st_runs_update f s) = events_of s" "events_of (st_tasks_update g s) = events_of s"
  "events_of (st_stepIndex_update h s) = events_of s" "events_of (st_effects_update i s) = events_of s"
  "events_of (st_leases_update j s) = events_of s" "events_of (st_workers_update k s) = events_of s"
  "events_of (st_signals_update l s) = events_of s" "events_of (st_deliveries_update m s) = events_of s"
  "events_of (st_published_update n s) = events_of s" "events_of (st_deliverySeq_update q s) = events_of s"
  by (simp_all add: events_of_def fun_eq_iff)

lemma is_published_cong [simp]:
  "is_published (st_runs_update f s) = is_published s" "is_published (st_tasks_update g s) = is_published s"
  "is_published (st_stepIndex_update h s) = is_published s" "is_published (st_effects_update i s) = is_published s"
  "is_published (st_leases_update j s) = is_published s" "is_published (st_workers_update k s) = is_published s"
  "is_published (st_signals_update l s) = is_published s" "is_published (st_deliveries_update m s) = is_published s"
  "is_published (st_events_update n s) = is_published s" "is_published (st_deliverySeq_update q s) = is_published s"
  by (simp_all add: is_published_def fun_eq_iff)

lemma map_of_mark_fold:
  "map_of (foldl (\<lambda>m d. AList.update d True m) m ids) d = (if d \<in> set ids then Some True else map_of m d)"
  by (induction ids arbitrary: m) auto

lemma is_published_MarkDelivered:
  "is_published (snd (MarkDelivered ids s)) d \<longleftrightarrow> d \<in> set ids \<or> is_published s d"
  by (simp add: MarkDelivered_def is_published_def map_of_mark_fold)

text \<open>What \<open>Append\<close> does to a state: nothing, or one event at the end of one history.\<close>

lemma Append_cases:
  obtains "snd (Append now r typ step data s) = s" "\<exists>e. fst (Append now r typ step data s) = Inl e"
  | run ev where "map_of (st_runs s) r = Some run"
      "NewEvent r (incr64 (max_seq 0 (events_of s r))) typ step data = Inr ev"
      "\<forall>x \<in> set (events_of s r). ev_Seq x \<noteq> ev_Seq ev"
      "Append now r typ step data s = (Inr (), s\<lparr>st_events := AList.update r
         (events_of s r @ [ev\<lparr>ev_CreatedAt := now\<rparr>]) (st_events s)\<rparr>)"
proof (cases "map_of (st_runs s) r")
  case None
  then have "Append now r typ step data s = (Inl (wrap (''run '' @ r) ErrNotFound), s)"
    by (simp add: Append_def tx_bind_def NextSeq_def)
  then show ?thesis using that(1) by simp
next
  case (Some run)
  then have A: "Append now r typ step data s =
      (case NewEvent r (incr64 (max_seq 0 (events_of s r))) typ step data of
         Inl err \<Rightarrow> (Inl err, s) | Inr ev \<Rightarrow> AppendEvent now ev s)"
    by (simp add: Append_def tx_bind_def NextSeq_def tx_error_def split: sum.split)
  show ?thesis
  proof (cases "NewEvent r (incr64 (max_seq 0 (events_of s r))) typ step data")
    case (Inl err)
    with A show ?thesis using that(1) by simp
  next
    case (Inr ev)
    then have r: "ev_RunID ev = r" by (rule NewEvent_fields)
    show ?thesis
    proof (cases "list_ex (\<lambda>x. ev_Seq x = ev_Seq ev) (events_of s r)")
      case True
      with A Inr r Some show ?thesis using that(1) by (simp add: AppendEvent_def)
    next
      case False
      then have "\<forall>x \<in> set (events_of s r). ev_Seq x \<noteq> ev_Seq ev" by (auto simp: list_ex_iff)
      with A Inr r Some False show ?thesis using that(2) [of run ev] by (simp add: AppendEvent_def)
    qed
  qed
qed

lemma evolves_Append: "evolves s (snd (Append now r ty step data s))"
proof (cases rule: Append_cases [of now r ty step data s])
  case 1
  then show ?thesis by simp
next
  case (2 run ev)
  then show ?thesis by (auto simp: evolves_def events_of_update)
qed

interpretation evolution: tx_relation evolves
proof
  show "evolves s s" for s by simp
  show "evolves s u" if "evolves s t" "evolves t u" for s t u using that by (rule evolves_trans)
  show "evolves s (s\<lparr>st_deliverySeq := q\<rparr>)" for s q by (simp add: evolves_def)
  show "evolves s (snd (Append now i ty step data s))" for s now i ty step data by (rule evolves_Append)
  show "evolves s (snd (MarkDelivered ids s))" for s ids
    unfolding evolves_def by (intro conjI allI impI)
      (simp_all add: is_published_MarkDelivered, simp_all add: MarkDelivered_def)
qed (auto simp: tx_op_defs evolves_def Let_def intro!: grows_insert grows_update grows_update_any
    apply_state_evolves move_task_evolves move_effect_evolves
    release_evolves split: option.split)

section \<open>Referential integrity\<close>

text \<open>
  What the constraints of migration 0001 say and the maps of the store keep: every record sits
  under its own key, nothing points at a record that is not there, a run has at most one task
  per step, and the history of a run is numbered 1, 2, 3 and so on (as far as an int64 reaches).
\<close>

definition gapless :: "Event list \<Rightarrow> bool" where
  "gapless es \<longleftrightarrow> (\<forall>i < length es. int i < max_int64 \<longrightarrow> ev_Seq (es ! i) = int i + 1)"

definition history_ok :: "RunID \<Rightarrow> Event list \<Rightarrow> bool" where
  "history_ok r es \<longleftrightarrow> gapless es \<and> distinct (map ev_Seq es) \<and> (\<forall>e \<in> set es. ev_RunID e = r)"

definition task_ok :: "state \<Rightarrow> TaskID \<Rightarrow> Task \<Rightarrow> bool" where
  "task_ok s k t \<longleftrightarrow> task_ID t = k \<and> has (st_runs s) (task_RunID t)
     \<and> map_of (st_stepIndex s) (task_RunID t, task_StepID t) = Some k"

definition index_ok :: "state \<Rightarrow> RunID \<times> StepID \<Rightarrow> TaskID \<Rightarrow> bool" where
  "index_ok s k tid \<longleftrightarrow> (\<exists>t. map_of (st_tasks s) tid = Some t \<and> k = (task_RunID t, task_StepID t))"

definition effect_ok :: "state \<Rightarrow> IdempotencyKey \<Rightarrow> Effect \<Rightarrow> bool" where
  "effect_ok s k e \<longleftrightarrow> eff_Key e = k \<and> has (st_runs s) (eff_RunID e) \<and> has (st_tasks s) (eff_TaskID e)
     \<and> EffectStatus_Valid (eff_Status e) \<and> EffectClass_Valid (eff_Class e)"

definition lease_ok :: "state \<Rightarrow> TaskID \<Rightarrow> Lease \<Rightarrow> bool" where
  "lease_ok s k l \<longleftrightarrow> lease_TaskID l = k \<and> has (st_tasks s) k \<and> has (st_workers s) (lease_WorkerID l)"

definition store_ok :: "state \<Rightarrow> bool" where
  "store_ok s \<longleftrightarrow>
     keyed (\<lambda>k r. run_ID r = k \<and> RunStatus_Valid (run_Status r)) (st_runs s)
     \<and> keyed (task_ok s) (st_tasks s)
     \<and> keyed (index_ok s) (st_stepIndex s)
     \<and> keyed (\<lambda>k es. has (st_runs s) k \<and> history_ok k es) (st_events s)
     \<and> keyed (effect_ok s) (st_effects s)
     \<and> keyed (lease_ok s) (st_leases s)
     \<and> keyed (\<lambda>k w. worker_ID w = k \<and> k \<noteq> []) (st_workers s)
     \<and> keyed (\<lambda>k g. k = (sig_RunID g, sig_ID g) \<and> has (st_runs s) (sig_RunID g)) (st_signals s)
     \<and> keyed (\<lambda>k d. del_ID d = k \<and> has (st_tasks s) (del_TaskID d)) (st_deliveries s)"

lemma store_ok_newState: "store_ok newState"
  by (simp add: store_ok_def newState_def)

lemma store_ok_history: "store_ok s \<Longrightarrow> history_ok r (events_of s r)"
  by (auto simp: store_ok_def events_of_def history_ok_def gapless_def dest: keyedD split: option.split)

lemma max_seq_snoc: "max_seq m (es @ [e]) = max (max_seq m es) (ev_Seq e)"
  by (induction es arbitrary: m) (auto simp: max_def)

lemma gapless_snoc:
  "gapless (es @ [e]) \<longleftrightarrow> gapless es \<and> (int (length es) < max_int64 \<longrightarrow> ev_Seq e = int (length es) + 1)"
proof -
  have "(\<forall>i < Suc (length es). int i < max_int64 \<longrightarrow> ev_Seq ((es @ [e]) ! i) = int i + 1) \<longleftrightarrow>
      (\<forall>i < length es. int i < max_int64 \<longrightarrow> ev_Seq ((es @ [e]) ! i) = int i + 1)
      \<and> (int (length es) < max_int64 \<longrightarrow> ev_Seq ((es @ [e]) ! length es) = int (length es) + 1)"
    by (auto simp: less_Suc_eq)
  then show ?thesis by (simp add: gapless_def nth_append)
qed

lemma max_seq_gapless: "gapless es \<Longrightarrow> int (length es) \<le> max_int64 \<Longrightarrow> max_seq 0 es = int (length es)"
proof (induction es rule: rev_induct)
  case (snoc e es)
  then have "max_seq 0 es = int (length es)" by (simp add: gapless_snoc)
  moreover have "ev_Seq e = int (length es) + 1"
    using snoc.prems by (simp add: gapless_snoc)
  ultimately show ?case by (simp add: max_seq_snoc)
qed simp

lemma history_ok_snoc:
  assumes "history_ok r es" and "ev_Seq e = incr64 (max_seq 0 es)" and "ev_RunID e = r"
    and "\<forall>x \<in> set es. ev_Seq x \<noteq> ev_Seq e"
  shows "history_ok r (es @ [e])"
proof -
  have "ev_Seq e = int (length es) + 1" if l: "int (length es) < max_int64"
  proof -
    have "max_seq 0 es = int (length es)"
      using assms(1) l by (intro max_seq_gapless) (auto simp: history_ok_def)
    then show ?thesis using assms(2) incr64_eq [of "int (length es)"] l by simp
  qed
  then have "gapless (es @ [e])" using assms(1) by (simp add: gapless_snoc history_ok_def)
  moreover have "distinct (map ev_Seq (es @ [e]))" using assms(1, 4) by (auto simp: history_ok_def)
  ultimately show ?thesis using assms(1, 3) by (simp add: history_ok_def)
qed

text \<open>A record whose references survive stays in order.\<close>

lemma effect_ok_mono:
  "effect_ok s k e \<Longrightarrow> (\<And>i. has (st_runs s) i \<Longrightarrow> has (st_runs s') i) \<Longrightarrow> (\<And>i. has (st_tasks s) i \<Longrightarrow> has (st_tasks s') i)
     \<Longrightarrow> effect_ok s' k e"
  by (simp add: effect_ok_def)

lemma lease_ok_mono:
  "lease_ok s k l \<Longrightarrow> (\<And>i. has (st_tasks s) i \<Longrightarrow> has (st_tasks s') i) \<Longrightarrow> (\<And>i. has (st_workers s) i \<Longrightarrow> has (st_workers s') i)
     \<Longrightarrow> lease_ok s' k l"
  by (simp add: lease_ok_def)

lemma task_ok_mono:
  "task_ok s k t \<Longrightarrow> (\<And>i. has (st_runs s) i \<Longrightarrow> has (st_runs s') i) \<Longrightarrow> st_stepIndex s' = st_stepIndex s
     \<Longrightarrow> task_ok s' k t"
  by (simp add: task_ok_def)

lemma hasI: "map_of m k = Some v \<Longrightarrow> has m k" by (simp add: has_def)

lemma store_ok_put_run:
  assumes "store_ok s" and "run_ID r = k" and "RunStatus_Valid (run_Status r)"
  shows "store_ok (s\<lparr>st_runs := AList.update k r (st_runs s)\<rparr>)"
  using assms unfolding store_ok_def
  by (auto intro: keyed_mono simp: task_ok_def index_ok_def effect_ok_def lease_ok_def)

lemma store_ok_put_task:
  assumes ok: "store_ok s" and t: "map_of (st_tasks s) k = Some t" and "task_ID t' = task_ID t"
    "task_RunID t' = task_RunID t" "task_StepID t' = task_StepID t"
  shows "store_ok (s\<lparr>st_tasks := AList.update k t' (st_tasks s)\<rparr>)"
proof -
  have "task_ok s k t" using ok t by (auto simp: store_ok_def dest: keyedD)
  moreover have "index_ok s i j \<Longrightarrow> index_ok (s\<lparr>st_tasks := AList.update k t' (st_tasks s)\<rparr>) i j" for i j
    using t assms(3-5) by (auto simp: index_ok_def)
  ultimately show ?thesis
    using ok assms(3-5) unfolding store_ok_def
    by (auto intro: keyed_mono intro!: keyed_put [of "task_ok s"] simp: task_ok_def effect_ok_def lease_ok_def)
qed

lemma store_ok_new_task:
  assumes ok: "store_ok s" and r: "has (st_runs s) (task_RunID t)"
    and i: "map_of (st_stepIndex s) (task_RunID t, task_StepID t) = None" and k: "map_of (st_tasks s) (task_ID t) = None"
    and t': "task_ID t' = task_ID t" "task_RunID t' = task_RunID t" "task_StepID t' = task_StepID t"
  shows "store_ok (s\<lparr>st_tasks := AList.update (task_ID t) t' (st_tasks s),
      st_stepIndex := AList.update (task_RunID t, task_StepID t) (task_ID t) (st_stepIndex s)\<rparr>)"
    (is "store_ok ?s")
proof -
  from ok have parts: "keyed (task_ok s) (st_tasks s)" "keyed (index_ok s) (st_stepIndex s)"
    by (simp_all add: store_ok_def)
  have "keyed (task_ok ?s) (st_tasks ?s)"
    using parts(1) i r t' by (auto intro!: keyed_put [of "task_ok s"] simp: task_ok_def)
  moreover have "index_ok s i j \<Longrightarrow> index_ok ?s i j" for i j
    using k by (auto simp: index_ok_def)
  then have "keyed (index_ok ?s) (st_stepIndex ?s)"
    using parts(2) t' by (auto intro!: keyed_put [of "index_ok s"]) (simp add: index_ok_def)
  ultimately show ?thesis
    using ok unfolding store_ok_def by (auto intro: keyed_mono simp: effect_ok_def lease_ok_def)
qed

lemma store_ok_Append: "store_ok s \<Longrightarrow> store_ok (snd (Append now r ty step data s))"
proof (cases rule: Append_cases [of now r ty step data s])
  case 1
  then show "store_ok s \<Longrightarrow> ?thesis" by simp
next
  case (2 run ev)
  assume ok: "store_ok s"
  have "history_ok r (events_of s r @ [ev\<lparr>ev_CreatedAt := now\<rparr>])"
    using 2 NewEvent_fields [OF 2(2)] store_ok_history [OF ok] by (intro history_ok_snoc) auto
  then show ?thesis
    using ok 2(1) unfolding 2(4) store_ok_def
    by (auto intro: keyed_mono hasI simp: task_ok_def index_ok_def effect_ok_def lease_ok_def)
qed

lemma run_status_valid_step:
  "store_ok s \<Longrightarrow> map_of (st_runs s) k = Some r \<Longrightarrow> run_ID r = k \<and> RunStatus_Valid (run_Status r)"
  unfolding store_ok_def by (blast dest: keyedD)

lemma store_ok_run_ops:
  assumes "store_ok s"
  shows "store_ok (snd (CreateRun now r s))" "store_ok (snd (AdvanceRun now i v nxt s))"
    "store_ok (snd (ReleaseRun now i s))"
  using assms run_status_valid_step [OF assms] run_machine.can_valid
  by (auto simp: CreateRun_def AdvanceRun_def ReleaseRun_def apply_state_def
      intro!: store_ok_put_run split: option.split)

lemma store_ok_task_ops:
  assumes "store_ok s"
  shows "store_ok (snd (CreateTask now t s))" "store_ok (snd (TransitionTask now j frm to out s))"
  using assms
  by (auto simp: CreateTask_def TransitionTask_def move_task_def has_def
      intro!: store_ok_new_task store_ok_put_task split: option.split)

lemma store_ok_effect_ops:
  assumes "store_ok s"
  shows "store_ok (snd (ReserveEffect now e s))" "store_ok (snd (TransitionEffect now k ef et eo s))"
proof -
  have frame: "keyed (effect_ok s) m \<Longrightarrow> store_ok (s\<lparr>st_effects := m\<rparr>)" for m
    using assms unfolding store_ok_def
    by (auto intro: keyed_mono simp: task_ok_def index_ok_def effect_ok_def lease_ok_def)
  have eff: "keyed (effect_ok s) (st_effects s)" using assms by (simp add: store_ok_def)
  then have old: "map_of (st_effects s) k = Some x \<Longrightarrow> effect_ok s k x" for k x by (rule keyedD)
  show "store_ok (snd (ReserveEffect now e s))"
    using assms eff by (auto simp: ReserveEffect_def effect_ok_def has_def intro!: frame keyed_update)
  show "store_ok (snd (TransitionEffect now k ef et eo s))"
    using assms eff old effect_machine.can_valid
    by (auto simp: TransitionEffect_def move_effect_def effect_ok_def intro!: frame keyed_update split: option.split)
qed

lemma store_ok_lease_ops:
  assumes "store_ok s"
  shows "store_ok (snd (AcquireLease j w now expires s))" "store_ok (snd (ExtendLease now j token expires s))"
    "store_ok (snd (ReleaseLease j token now s))"
proof -
  have frame: "keyed (lease_ok s) m \<Longrightarrow> store_ok (s\<lparr>st_leases := m\<rparr>)" for m
    using assms unfolding store_ok_def
    by (auto intro: keyed_mono simp: task_ok_def index_ok_def effect_ok_def lease_ok_def)
  have l: "keyed (lease_ok s) (st_leases s)" using assms by (simp add: store_ok_def)
  then have old: "map_of (st_leases s) k = Some x \<Longrightarrow> lease_ok s k x" for k x by (rule keyedD)
  show "store_ok (snd (AcquireLease j w now expires s))"
    using assms l by (auto simp: AcquireLease_def Let_def lease_ok_def has_def intro!: frame keyed_update split: option.split)
  show "store_ok (snd (ExtendLease now j token expires s))" "store_ok (snd (ReleaseLease j token now s))"
    using assms l old by (auto simp: ExtendLease_def ReleaseLease_def lease_ok_def intro!: frame keyed_update split: option.split)
qed

lemma store_ok_other_ops:
  assumes "store_ok s"
  shows "store_ok (snd (RecordSignal now sg s))" "store_ok (snd (EnqueueDelivery now j av s))"
    "store_ok (snd (MarkDelivered ids s))" "store_ok (snd (FailDelivery d cause s))"
    "store_ok (snd (RegisterWorkerTx now w s))" "store_ok (s\<lparr>st_deliverySeq := q\<rparr>)"
proof -
  note defs = task_ok_def index_ok_def effect_ok_def lease_ok_def
  show "store_ok (snd (RecordSignal now sg s))"
    using assms unfolding store_ok_def RecordSignal_def
    by (auto intro: keyed_mono intro!: keyed_update simp: defs has_def)
  show "store_ok (snd (EnqueueDelivery now j av s))"
    using assms unfolding store_ok_def EnqueueDelivery_def
    by (auto intro: keyed_mono hasI intro!: keyed_update simp: defs Let_def split: option.split)
  show "store_ok (snd (FailDelivery d cause s))"
    using assms unfolding store_ok_def FailDelivery_def
    by (auto intro: keyed_mono intro!: keyed_update simp: defs split: option.split dest: keyedD)
  show "store_ok (snd (RegisterWorkerTx now w s))"
    using assms unfolding store_ok_def RegisterWorkerTx_def Let_def
    by (auto intro: keyed_mono intro!: keyed_update simp: defs)
  show "store_ok (snd (MarkDelivered ids s))" "store_ok (s\<lparr>st_deliverySeq := q\<rparr>)"
    using assms unfolding store_ok_def MarkDelivered_def by (auto intro: keyed_mono simp: defs)
qed

definition keeps_ok :: "state \<Rightarrow> state \<Rightarrow> bool" where
  "keeps_ok s s' \<longleftrightarrow> (store_ok s \<longrightarrow> store_ok s')"

interpretation integrity: tx_relation keeps_ok
  by unfold_locales
    (auto simp: keeps_ok_def store_ok_Append store_ok_run_ops store_ok_task_ops store_ok_effect_ops
      store_ok_lease_ops store_ok_other_ops)

end
