(* ===== verification/Engine.thy ===== *)
theory Engine
  imports StoreLaws
begin

text \<open>
  The engine: internal/engine/{engine,fanout,tasks,signals,runtime}.go and the retry policy of
  internal/core/tool.go. The world is the store, the clock, how many identities have been drawn,
  how often the decider was asked, and what was handed to the dispatcher. The decider, the
  identity source and the outcome of a publish are what the injected interfaces give; they are
  functions of how often they were called, so that two calls need not agree.
\<close>

section \<open>Retry policy (core/tool.go)\<close>

text \<open>
  \<open>Backoff\<close> computes in float64: \<open>fl\<close> rounds a result to the nearest one, \<open>rnd\<close> is what
  \<open>rand.Float64\<close> returns. The conversion to a duration truncates; outside the range of an int64
  it gives the smallest one, as the amd64 instruction does.
\<close>

record RetryPolicy =
  rp_MaxAttempts :: int
  rp_InitialBackoff :: duration
  rp_MaxBackoff :: duration
  rp_Multiplier :: rat
  rp_Jitter :: rat

definition to_duration :: "rat \<Rightarrow> duration" where
  "to_duration x =
     (let n = (if x < 0 then - \<lfloor>- x\<rfloor> else \<lfloor>x\<rfloor>) in if in_int64 n then n else min_int64)"

fun backoff_loop :: "(rat \<Rightarrow> rat) \<Rightarrow> rat \<Rightarrow> duration \<Rightarrow> rat \<Rightarrow> nat \<Rightarrow> rat" where
  "backoff_loop fl mult cap delay 0 = delay"
| "backoff_loop fl mult cap delay (Suc n) =
     (let delay = fl (delay * mult) in
      if 0 < cap \<and> fl (of_int cap) \<le> delay then fl (of_int cap)
      else backoff_loop fl mult cap delay n)"

definition Backoff :: "(rat \<Rightarrow> rat) \<Rightarrow> rat \<Rightarrow> RetryPolicy \<Rightarrow> int \<Rightarrow> duration" where
  "Backoff fl rnd p attempt =
     (if rp_InitialBackoff p \<le> 0 \<or> attempt < 1 then 0
      else
        let mult = (if rp_Multiplier p < 1 then 1 else rp_Multiplier p);
            delay = backoff_loop fl mult (rp_MaxBackoff p) (fl (of_int (rp_InitialBackoff p))) (nat (attempt - 1));
            delay = (if 0 < rp_MaxBackoff p \<and> fl (of_int (rp_MaxBackoff p)) < delay
                     then fl (of_int (rp_MaxBackoff p)) else delay)
        in if rp_Jitter p \<le> 0 then to_duration delay
           else
             let jitter = (if 1 < rp_Jitter p then 1 else rp_Jitter p);
                 floor = fl (delay * fl (1 - jitter));
                 spread = fl (delay * jitter)
             in to_duration (fl (floor + fl (rnd * spread))))"

section \<open>The engine and its world\<close>

record engine =
  e_agent :: string
  e_agentVersion :: string
  e_leaseTTL :: duration
  e_retry :: RetryPolicy
  e_float :: "rat \<Rightarrow> rat"
  e_rand :: "nat \<Rightarrow> rat"
  e_decide :: "nat \<Rightarrow> Run \<Rightarrow> Event list \<Rightarrow> go_error + Decision"
  e_newRunID :: "nat \<Rightarrow> RunID"
  e_newTaskID :: "nat \<Rightarrow> TaskID"
  e_newEffectID :: "nat \<Rightarrow> EffectID"
  e_publish :: "nat \<Rightarrow> TaskID \<Rightarrow> go_error option"

record world =
  w_st :: state
  w_now :: time
  w_runIDs :: nat
  w_taskIDs :: nat
  w_effectIDs :: nat
  w_rands :: nat
  w_asked :: nat
  w_wakes :: nat
  w_publishes :: nat
  w_sent :: "TaskID list"

definition DefaultLeaseTTL :: duration where "DefaultLeaseTTL = 30 * second"

definition defaultMaxAttempts :: int where "defaultMaxAttempts = 3"

text \<open>
  \<open>New\<close>: what it refuses of the plain fields (the nil interfaces cannot be told apart here),
  and the lease duration it falls back to.
\<close>

definition Engine_New :: "engine \<Rightarrow> go_error + engine" where
  "Engine_New cfg =
     (if e_agent cfg = [] then Inl (errors_New ''engine: Agent is required'')
      else if e_agentVersion cfg = [] then Inl (errors_New ''engine: AgentVersion is required'')
      else Inr (cfg\<lparr>e_leaseTTL := (if e_leaseTTL cfg \<le> 0 then DefaultLeaseTTL else e_leaseTTL cfg)\<rparr>))"

definition maxAttempts :: "engine \<Rightarrow> int" where
  "maxAttempts e = (if 0 < rp_MaxAttempts (e_retry e) then rp_MaxAttempts (e_retry e) else defaultMaxAttempts)"

definition in_tx :: "'a tx \<Rightarrow> world \<Rightarrow> (go_error + 'a) \<times> world" where
  "in_tx m w = (case RunInTx m (w_st w) of (r, s') \<Rightarrow> (r, w\<lparr>w_st := s'\<rparr>))"

definition wake :: "world \<Rightarrow> world" where "wake w = w\<lparr>w_wakes := Suc (w_wakes w)\<rparr>"

definition running_state :: "Run \<Rightarrow> time option \<Rightarrow> RunState" where
  "running_state run av =
     \<lparr>rs_Status = RunRunning, rs_Output = run_Output run, rs_LastError = [], rs_AvailableAt = av\<rparr>"

section \<open>Committing a decision (engine.go, fanout.go)\<close>

definition new_task :: "engine \<Rightarrow> RunID \<Rightarrow> TaskID \<Rightarrow> StepID \<Rightarrow> string \<Rightarrow> raw \<Rightarrow> Task" where
  "new_task e runID tid step typ payload =
     \<lparr>task_ID = tid, task_RunID = runID, task_StepID = step, task_Type = typ, task_Payload = payload,
      task_Status = TaskPending, task_Attempt = 0, task_MaxAttempts = maxAttempts e, task_LastError = [],
      task_CreatedAt = zero_time, task_UpdatedAt = zero_time, task_CompletedAt = None\<rparr>"

text \<open>One task with its event and its delivery intent.\<close>

definition put_task :: "time \<Rightarrow> Task \<Rightarrow> unit tx" where
  "put_task now t =
     tx_bind (CreateTask now t) (\<lambda>_.
     tx_bind (Append now (task_RunID t) EventTaskCreated (task_StepID t)
                (TaskCreatedData (task_ID t) (task_Type t) (task_Payload t))) (\<lambda>_.
     EnqueueDelivery now (task_ID t) zero_time))"

definition dispatch_tx :: "time \<Rightarrow> Run \<Rightarrow> Task \<Rightarrow> unit tx" where
  "dispatch_tx now run t =
     tx_bind (AdvanceRun now (run_ID run) (run_Version run) (running_state run None)) (\<lambda>_. put_task now t)"

text \<open>The error is told from a lost race: a conflict or an existing task is success.\<close>

definition settled_elsewhere :: "go_error \<Rightarrow> bool" where
  "settled_elsewhere err \<longleftrightarrow> Is err ErrConflict \<or> Is err ErrTaskExists"

definition dispatch :: "engine \<Rightarrow> Run \<Rightarrow> Decision \<Rightarrow> world \<Rightarrow> go_error option \<times> world" where
  "dispatch e run d w =
     (let tid = e_newTaskID e (w_taskIDs w);
          w = w\<lparr>w_taskIDs := Suc (w_taskIDs w)\<rparr>;
          t = new_task e (run_ID run) tid (d_StepID d) (d_TaskType d) (d_Payload d)
      in case in_tx (dispatch_tx (w_now w) run t) w of
           (Inl err, w) \<Rightarrow>
             if settled_elsewhere err then (None, w)
             else (Some (wrap_err (''dispatch '' @ run_ID run @ '' step '' @ d_StepID d) err), w)
         | (Inr _, w) \<Rightarrow> (None, wake w))"

definition finish_tx :: "time \<Rightarrow> Run \<Rightarrow> RunState \<Rightarrow> EventType \<Rightarrow> EventData \<Rightarrow> unit tx" where
  "finish_tx now run nxt evt data =
     tx_bind (AdvanceRun now (run_ID run) (run_Version run) nxt) (\<lambda>_.
     Append now (run_ID run) evt [] data)"

definition finish :: "Run \<Rightarrow> RunState \<Rightarrow> EventType \<Rightarrow> EventData \<Rightarrow> world \<Rightarrow> go_error option \<times> world" where
  "finish run nxt evt data w =
     (case in_tx (finish_tx (w_now w) run nxt evt data) w of
        (Inl err, w) \<Rightarrow>
          if Is err ErrConflict then (None, w)
          else (Some (wrap_err (''finish run '' @ run_ID run) err), w)
      | (Inr _, w) \<Rightarrow> (None, w))"

definition failed_state :: "string \<Rightarrow> RunState" where
  "failed_state msg = \<lparr>rs_Status = RunFailed, rs_Output = RawNil, rs_LastError = msg, rs_AvailableAt = None\<rparr>"

definition fanout_tx :: "time \<Rightarrow> Run \<Rightarrow> StepID \<Rightarrow> string list \<Rightarrow> JoinPolicy \<Rightarrow> Task list \<Rightarrow> unit tx" where
  "fanout_tx now run step tools join ts =
     tx_bind (AdvanceRun now (run_ID run) (run_Version run) (running_state run None)) (\<lambda>_.
     tx_bind (Append now (run_ID run) EventFanOutStarted step
                (FanOutStartedData tools (JoinPolicy_String join))) (\<lambda>_.
     tx_seq (map (put_task now) ts)))"

definition fan_tasks :: "engine \<Rightarrow> Run \<Rightarrow> Decision \<Rightarrow> nat \<Rightarrow> Task list" where
  "fan_tasks e run d first =
     map (\<lambda>i. new_task e (run_ID run) (e_newTaskID e (first + i))
                (StepID_Children (d_StepID d) (length (d_Calls d)) ! i)
                (c_TaskType (d_Calls d ! i)) (c_Payload (d_Calls d ! i)))
       [0..<length (d_Calls d)]"

definition dispatchParallel :: "engine \<Rightarrow> Run \<Rightarrow> Decision \<Rightarrow> world \<Rightarrow> go_error option \<times> world" where
  "dispatchParallel e run d w =
     (case JoinPolicy_Valid (d_Join d) (int (length (d_Calls d))) of
        Some err \<Rightarrow>
          let msg = ''fan-out at step '' @ d_StepID d @ '': '' @ err_text err
          in finish run (failed_state msg) EventRunFailed (RunFailedData msg) w
      | None \<Rightarrow>
          let ts = fan_tasks e run d (w_taskIDs w);
              w = w\<lparr>w_taskIDs := w_taskIDs w + length (d_Calls d)\<rparr>
          in case in_tx (fanout_tx (w_now w) run (d_StepID d) (map c_TaskType (d_Calls d)) (d_Join d) ts) w of
               (Inl err, w) \<Rightarrow>
                 if settled_elsewhere err then (None, w)
                 else (Some (wrap_err (''fan-out '' @ run_ID run @ '' step '' @ d_StepID d) err), w)
             | (Inr _, w) \<Rightarrow> (None, wake w))"

section \<open>Suspensions (engine.go, signals.go)\<close>

definition park_tx :: "time \<Rightarrow> Run \<Rightarrow> time \<Rightarrow> EventType \<Rightarrow> StepID \<Rightarrow> EventData \<Rightarrow> unit tx" where
  "park_tx now run until evt step data =
     tx_bind (AdvanceRun now (run_ID run) (run_Version run) (running_state run (Some until))) (\<lambda>_.
     Append now (run_ID run) evt step data)"

definition park :: "Run \<Rightarrow> time \<Rightarrow> EventType \<Rightarrow> StepID \<Rightarrow> EventData \<Rightarrow> world \<Rightarrow> go_error option \<times> world" where
  "park run until evt step data w =
     (case in_tx (park_tx (w_now w) run until evt step data) w of
        (Inl err, w) \<Rightarrow>
          if Is err ErrConflict then (None, w)
          else (Some (wrap_err (''park '' @ run_ID run @ '' step '' @ step) err), w)
      | (Inr _, w) \<Rightarrow> (None, w))"

definition repark_tx :: "time \<Rightarrow> Run \<Rightarrow> Wait \<Rightarrow> unit tx" where
  "repark_tx now run wt =
     AdvanceRun now (run_ID run) (run_Version run) (running_state run (Some (wait_Until wt)))"

definition repark :: "Run \<Rightarrow> Wait \<Rightarrow> world \<Rightarrow> go_error option \<times> world" where
  "repark run wt w =
     (case in_tx (repark_tx (w_now w) run wt) w of
        (Inl err, w) \<Rightarrow>
          if Is err ErrConflict then (None, w) else (Some (wrap_err (''repark '' @ run_ID run) err), w)
      | (Inr _, w) \<Rightarrow> (None, w))"

definition unconsumedSignal :: "state \<Rightarrow> RunID \<Rightarrow> Event list \<Rightarrow> Wait \<Rightarrow> Signal option" where
  "unconsumedSignal s runID history wt =
     List.find (\<lambda>sg. sig_ID sg \<notin> set (ConsumedSignals history)) (Signals s runID (wait_Signal wt))"

text \<open>\<open>None\<close>: the wait is still running. Otherwise the event that ends it.\<close>

definition waitIsOver :: "world \<Rightarrow> Run \<Rightarrow> Event list \<Rightarrow> Wait \<Rightarrow> (EventType \<times> EventData) option" where
  "waitIsOver w run history wt =
     (case wait_Kind wt of
        WaitTimer \<Rightarrow>
          if \<not> Wait_Elapsed wt (w_now w) then None
          else Some (EventTimerFired, TimerFiredData (wait_Until wt))
      | WaitSignal \<Rightarrow>
          (case unconsumedSignal (w_st w) (run_ID run) history wt of
             Some sg \<Rightarrow> Some (EventSignalReceived, SignalReceivedData (sig_Name sg) (sig_ID sg) (sig_Payload sg))
           | None \<Rightarrow>
               if Wait_Elapsed wt (w_now w)
               then Some (EventSignalWaitTimedOut, SignalWaitTimedOutData (wait_Signal wt) (wait_Until wt))
               else None)
      | WaitKindOther _ \<Rightarrow> None)"

definition resume_tx :: "time \<Rightarrow> Run \<Rightarrow> Wait \<Rightarrow> EventType \<Rightarrow> EventData \<Rightarrow> unit tx" where
  "resume_tx now run wt evt data =
     tx_bind (AdvanceRun now (run_ID run) (run_Version run) (running_state run None)) (\<lambda>_.
     Append now (run_ID run) evt (wait_StepID wt) data)"

text \<open>\<open>Inr None\<close>: not ready, without an error.\<close>

definition resume :: "Run \<Rightarrow> Event list \<Rightarrow> world \<Rightarrow> (go_error + (Run \<times> Event list) option) \<times> world" where
  "resume run history w =
     (case PendingWait history of
        None \<Rightarrow> (Inr (Some (run, history)), w)
      | Some wt \<Rightarrow>
          (case waitIsOver w run history wt of
             None \<Rightarrow>
               if run_AvailableAt run = None then
                 (case repark run wt w of
                    (Some err, w) \<Rightarrow> (Inl err, w)
                  | (None, w) \<Rightarrow> (Inr None, w))
               else (Inr None, w)
           | Some (evt, data) \<Rightarrow>
               (case in_tx (resume_tx (w_now w) run wt evt data) w of
                  (Inl err, w) \<Rightarrow>
                    if Is err ErrConflict then (Inr None, w)
                    else (Inl (wrap_err (''resume '' @ run_ID run) err), w)
                | (Inr _, w) \<Rightarrow>
                    (case GetRun (w_st w) (run_ID run) of
                       Inl err \<Rightarrow> (Inl (wrap_err (''resume '' @ run_ID run) err), w)
                     | Inr run \<Rightarrow> (Inr (Some (run, History (w_st w) (run_ID run))), w)))))"

section \<open>Advance\<close>

text \<open>
  One pass. A \<open>WAIT_FOR_SIGNAL\<close> decision parks the run and then calls \<open>Advance\<close> again in tail
  position (\<open>Again\<close>); everything else returns (\<open>Return\<close>).
\<close>

datatype pass = Return "go_error option" | Again

definition act :: "engine \<Rightarrow> Run \<Rightarrow> Decision \<Rightarrow> world \<Rightarrow> pass \<times> world" where
  "act e run d w =
     (case d_Kind d of
        DecideCallTool \<Rightarrow> apfst Return (dispatch e run d w)
      | DecideCallToolParallel \<Rightarrow> apfst Return (dispatchParallel e run d w)
      | DecideSleep \<Rightarrow>
          apfst Return (park run (d_WakeAt d) EventTimerSet (d_StepID d) (TimerSetData (d_WakeAt d)) w)
      | DecideWaitForSignal \<Rightarrow>
          let deadline = sw_Deadline (d_Signal d);
              until = (if time_IsZero deadline then Indefinite else deadline)
          in (case park run until EventSignalWaitStarted (d_StepID d)
                     (SignalWaitStartedData (sw_Name (d_Signal d)) deadline) w of
                (Some err, w) \<Rightarrow> (Return (Some err), w)
              | (None, w) \<Rightarrow> (Again, w))
      | DecideComplete \<Rightarrow>
          apfst Return (finish run \<lparr>rs_Status = RunCompleted, rs_Output = d_Output d, rs_LastError = [],
            rs_AvailableAt = None\<rparr> EventRunCompleted (RunCompletedData (d_Output d)) w)
      | DecideFail \<Rightarrow>
          apfst Return (finish run (failed_state (d_Error d)) EventRunFailed (RunFailedData (d_Error d)) w)
      | DecideCancel \<Rightarrow>
          apfst Return (finish run \<lparr>rs_Status = RunCancelled, rs_Output = RawNil, rs_LastError = [],
            rs_AvailableAt = None\<rparr> EventRunCancelled (RunCancelledData (d_Reason d)) w)
      | DecisionKindOther k \<Rightarrow>
          (Return (Some (errors_New (''advance '' @ run_ID run @ '': unknown decision kind '' @ k))), w))"

definition decide :: "engine \<Rightarrow> Run \<Rightarrow> Event list \<Rightarrow> world \<Rightarrow> pass \<times> world" where
  "decide e run history w =
     (let answer = e_decide e (w_asked w) run history;
          w = w\<lparr>w_asked := Suc (w_asked w)\<rparr>
      in case answer of
           Inl err \<Rightarrow>
             if Is err ErrUnavailable then (Return (Some (wrap_err (''advance '' @ run_ID run) err)), w)
             else apfst Return (finish run (failed_state (''decide: '' @ err_text err)) EventRunFailed
                    (RunFailedData (err_text err)) w)
         | Inr d \<Rightarrow> act e run d w)"

definition advance_pass :: "engine \<Rightarrow> RunID \<Rightarrow> world \<Rightarrow> pass \<times> world" where
  "advance_pass e runID w =
     (case GetRun (w_st w) runID of
        Inl err \<Rightarrow> (Return (Some (wrap_err (''advance '' @ runID) err)), w)
      | Inr run \<Rightarrow>
          if RunStatus_IsTerminal (run_Status run) then (Return None, w)
          else if run_AgentName run \<noteq> e_agent e then (Return None, w)
          else
            (case resume run (History (w_st w) runID) w of
               (Inl err, w) \<Rightarrow> (Return (Some err), w)
             | (Inr None, w) \<Rightarrow> (Return None, w)
             | (Inr (Some (run, history)), w) \<Rightarrow>
                 (case PendingFanOut history of
                    Some _ \<Rightarrow> (Return None, w)
                  | None \<Rightarrow> decide e run history w)))"

text \<open>\<open>None\<close> is a call that never returns.\<close>

partial_function (option) Advance :: "engine \<Rightarrow> RunID \<Rightarrow> world \<Rightarrow> (go_error option \<times> world) option" where
  "Advance e runID w =
     (case advance_pass e runID w of
        (Return err, w) \<Rightarrow> Some (err, w)
      | (Again, w) \<Rightarrow> Advance e runID w)"

end
