(* ===== verification/Tasks.thy ===== *)
theory Tasks
  imports Engine
begin

text \<open>
  The rest of the engine's surface: what workers report (internal/engine/tasks.go), what
  senders of signals do (internal/engine/signals.go) and the recovery scan
  (internal/engine/runtime.go).
\<close>

section \<open>Starting a run (engine.go)\<close>

definition new_run :: "engine \<Rightarrow> RunID \<Rightarrow> raw \<Rightarrow> Run" where
  "new_run e rid input =
     \<lparr>run_ID = rid, run_AgentName = e_agent e, run_AgentVersion = e_agentVersion e,
      run_Status = RunRunning, run_Version = 0, run_Input = input, run_Output = RawNil,
      run_LastError = [], run_AvailableAt = None, run_CreatedAt = zero_time,
      run_UpdatedAt = zero_time, run_CompletedAt = None\<rparr>"

definition start_tx :: "time \<Rightarrow> Run \<Rightarrow> unit tx" where
  "start_tx now run =
     tx_bind (CreateRun now run) (\<lambda>_.
     Append now (run_ID run) EventRunStarted []
       (RunStartedData (run_AgentName run) (run_AgentVersion run) (run_Input run)))"

text \<open>The result is the identity (empty when nothing was started) and the error.\<close>

definition StartRun :: "engine \<Rightarrow> raw \<Rightarrow> world \<Rightarrow> ((RunID \<times> go_error option) \<times> world) option" where
  "StartRun e input w =
     (let rid = e_newRunID e (w_runIDs w);
          w = w\<lparr>w_runIDs := Suc (w_runIDs w)\<rparr>
      in case in_tx (start_tx (w_now w) (new_run e rid input)) w of
           (Inl err, w) \<Rightarrow> Some (([], Some (wrap_err ''start run'' err)), w)
         | (Inr _, w) \<Rightarrow>
             (case Advance e rid w of
                None \<Rightarrow> None
              | Some (Some err, w) \<Rightarrow> Some ((rid, Some (wrap_err (''start run '' @ rid) err)), w)
              | Some (None, w) \<Rightarrow> Some ((rid, None), w)))"

section \<open>Claims and leases (tasks.go)\<close>

record Claim =
  cl_Task :: Task
  cl_Lease :: Lease

definition claim_tx :: "time \<Rightarrow> duration \<Rightarrow> TaskID \<Rightarrow> string \<Rightarrow> Claim tx" where
  "claim_tx now ttl tid workerID =
     tx_bind (GetTask tid) (\<lambda>task.
     tx_bind (TransitionTask now tid TaskPending TaskRunning \<lparr>to_Error = []\<rparr>) (\<lambda>_.
     tx_bind (AcquireLease tid workerID now (time_Add now ttl)) (\<lambda>lease.
       let task = task\<lparr>task_Status := TaskRunning, task_Attempt := incr64 (task_Attempt task)\<rparr> in
       tx_bind (Append now (task_RunID task) EventTaskClaimed (task_StepID task)
                  (TaskClaimedData tid workerID (task_Attempt task))) (\<lambda>_.
       tx_return \<lparr>cl_Task = task, cl_Lease = lease\<rparr>))))"

definition ClaimTask :: "engine \<Rightarrow> TaskID \<Rightarrow> string \<Rightarrow> world \<Rightarrow> (go_error + Claim) \<times> world" where
  "ClaimTask e tid workerID w =
     (case in_tx (claim_tx (w_now w) (e_leaseTTL e) tid workerID) w of
        (Inl err, w) \<Rightarrow> (Inl (wrap_err (''claim task '' @ tid) err), w)
      | (Inr c, w) \<Rightarrow> (Inr c, w))"

definition Heartbeat :: "engine \<Rightarrow> TaskID \<Rightarrow> int \<Rightarrow> world \<Rightarrow> go_error option \<times> world" where
  "Heartbeat e tid token w =
     (case in_tx (ExtendLease (w_now w) tid token (time_Add (w_now w) (e_leaseTTL e))) w of
        (Inl err, w) \<Rightarrow> (Some (wrap_err (''heartbeat task '' @ tid) err), w)
      | (Inr _, w) \<Rightarrow> (None, w))"

definition assertToken :: "TaskID \<Rightarrow> int \<Rightarrow> unit tx" where
  "assertToken tid token =
     tx_bind (GetLease tid) (\<lambda>lease.
       if lease_Token lease \<noteq> token then tx_error (fenced tid (lease_Token lease) token)
       else tx_return ())"

definition complete_tx :: "time \<Rightarrow> TaskID \<Rightarrow> int \<Rightarrow> raw \<Rightarrow> RunID tx" where
  "complete_tx now tid token result =
     tx_bind (GetTask tid) (\<lambda>task.
     tx_bind (assertToken tid token) (\<lambda>_.
     tx_bind (TransitionTask now tid TaskRunning TaskCompleted \<lparr>to_Error = []\<rparr>) (\<lambda>_.
     tx_bind (ReleaseLease tid token now) (\<lambda>_.
     tx_bind (Append now (task_RunID task) EventTaskCompleted (task_StepID task)
                (TaskCompletedData tid result)) (\<lambda>_.
     tx_return (task_RunID task))))))"

definition CompleteTask ::
  "engine \<Rightarrow> TaskID \<Rightarrow> int \<Rightarrow> raw \<Rightarrow> world \<Rightarrow> (go_error option \<times> world) option" where
  "CompleteTask e tid token result w =
     (case in_tx (complete_tx (w_now w) tid token result) w of
        (Inl err, w) \<Rightarrow>
          if Is err ErrFenced then Some (None, w)
          else if Is err ErrConflict then Some (None, w)
          else Some (Some (wrap_err (''complete task '' @ tid) err), w)
      | (Inr runID, w) \<Rightarrow> Advance e runID w)"

definition failRun :: "RunID \<Rightarrow> string \<Rightarrow> world \<Rightarrow> go_error option \<times> world" where
  "failRun runID reason w =
     (case GetRun (w_st w) runID of
        Inl err \<Rightarrow> (Some (wrap_err (''fail run '' @ runID) err), w)
      | Inr run \<Rightarrow>
          if RunStatus_IsTerminal (run_Status run) then (None, w)
          else finish run (failed_state reason) EventRunFailed (RunFailedData reason) w)"

text \<open>
  The transaction of \<open>FailTask\<close>. The delay is computed only when the task is to be retried; it
  draws a random number of its own. The result is what the code keeps in captured variables.
\<close>

definition fail_tx :: "engine \<Rightarrow> time \<Rightarrow> rat \<Rightarrow> TaskID \<Rightarrow> int \<Rightarrow> string \<Rightarrow> bool \<Rightarrow> (Task \<times> bool \<times> time) tx" where
  "fail_tx e now rnd tid token reason escalated =
     tx_bind (GetTask tid) (\<lambda>task.
     let retry = (\<not> Task_Exhausted task \<and> \<not> escalated) in
     tx_bind (assertToken tid token) (\<lambda>_.
     let nxt = (if retry then TaskPending else TaskDeadLetter);
         followUp = (if retry then EventTaskRetryScheduled else EventTaskDeadLettered);
         delay = Backoff (e_float e) rnd (e_retry e) (task_Attempt task);
         notBefore = (if retry \<and> 0 < delay then time_Add now delay else zero_time) in
     tx_bind (TransitionTask now tid TaskRunning nxt \<lparr>to_Error = reason\<rparr>) (\<lambda>_.
     tx_bind (ReleaseLease tid token now) (\<lambda>_.
     tx_bind (Append now (task_RunID task) EventTaskFailed (task_StepID task)
                (TaskFailedData tid reason (task_Attempt task) (\<not> retry))) (\<lambda>_.
     tx_bind (Append now (task_RunID task) followUp (task_StepID task)
                (TaskRetryScheduledData tid (task_Attempt task) reason notBefore)) (\<lambda>_.
     if \<not> retry then tx_return (task, retry, notBefore)
     else tx_bind (EnqueueDelivery now tid notBefore) (\<lambda>_. tx_return (task, retry, notBefore))))))))"

definition FailTask ::
  "engine \<Rightarrow> TaskID \<Rightarrow> int \<Rightarrow> go_error \<Rightarrow> world \<Rightarrow> (go_error option \<times> world) option" where
  "FailTask e tid token cause w =
     (let reason = err_text cause;
          escalated = Is cause ErrEscalated;
          rnd = e_rand e (w_rands w);
          w = w\<lparr>w_rands := Suc (w_rands w)\<rparr>
      in case in_tx (fail_tx e (w_now w) rnd tid token reason escalated) w of
           (Inl err, w) \<Rightarrow>
             if Is err ErrFenced then Some (None, w)
             else if Is err ErrConflict then Some (None, w)
             else Some (Some (wrap_err (''fail task '' @ tid) err), w)
         | (Inr (task, retry, notBefore), w) \<Rightarrow>
             if retry then
               if time_IsZero notBefore then Some (None, wake w) else Some (None, w)
             else if escalated then
               Some (failRun (task_RunID task) (''task '' @ tid @ '' needs human resolution: '' @ reason) w)
             else (case StepID_Parent (task_StepID task) of
                     Some _ \<Rightarrow> Advance e (task_RunID task) w
                   | None \<Rightarrow>
                       Some (failRun (task_RunID task) (''task '' @ tid @ '' exhausted ''
                         @ show_int (task_Attempt task) @ '' attempts: '' @ reason) w)))"

definition RegisterWorker :: "string \<Rightarrow> string \<Rightarrow> world \<Rightarrow> go_error option \<times> world" where
  "RegisterWorker wid workerType w =
     (case in_tx (RegisterWorkerTx (w_now w)
             \<lparr>worker_ID = wid, worker_Type = workerType, worker_Status = WorkerActive,
              worker_LastHeartbeat = None, worker_RegisteredAt = zero_time\<rparr>) w of
        (Inl err, w) \<Rightarrow> (Some (wrap_err (''register worker '' @ wid) err), w)
      | (Inr _, w) \<Rightarrow> (None, w))"

section \<open>Signals (signals.go)\<close>

definition signal_tx :: "time \<Rightarrow> Signal \<Rightarrow> unit tx" where
  "signal_tx now sg = tx_bind (RecordSignal now sg) (\<lambda>_. ReleaseRun now (sig_RunID sg))"

definition DeliverSignal :: "Signal \<Rightarrow> world \<Rightarrow> go_error option \<times> world" where
  "DeliverSignal sg w =
     (if sig_RunID sg = [] \<or> sig_ID sg = [] \<or> sig_Name sg = [] then
        (Some (errors_New ''deliver signal: a signal needs a run, an id and a name''), w)
      else case GetRun (w_st w) (sig_RunID sg) of
        Inl err \<Rightarrow> (Some (wrap_err (''deliver signal to '' @ sig_RunID sg) err), w)
      | Inr run \<Rightarrow>
          if RunStatus_IsTerminal (run_Status run) then
            (Some (wrap (''deliver signal to '' @ sig_RunID sg @ '': the run is ''
               @ RunStatus_text (run_Status run)) ErrInvalidTransition), w)
          else (case in_tx (signal_tx (w_now w) sg) w of
                  (Inl err, w) \<Rightarrow>
                    if Is err ErrSignalExists then (None, w)
                    else (Some (wrap_err (''deliver signal to '' @ sig_RunID sg) err), w)
                | (Inr _, w) \<Rightarrow> (None, w)))"

text \<open>An advance that fails is logged; the delivery stands.\<close>

definition Engine_Signal :: "engine \<Rightarrow> Signal \<Rightarrow> world \<Rightarrow> (go_error option \<times> world) option" where
  "Engine_Signal e sg w =
     (case DeliverSignal sg w of
        (Some err, w) \<Rightarrow> Some (Some err, w)
      | (None, w) \<Rightarrow>
          (case Advance e (sig_RunID sg) w of None \<Rightarrow> None | Some (_, w) \<Rightarrow> Some (None, w)))"

section \<open>The recovery scan (runtime.go)\<close>

record Runtime =
  rt_interval :: duration
  rt_batch :: int

definition NewRuntime :: "duration \<Rightarrow> int \<Rightarrow> Runtime" where
  "NewRuntime interval batch =
     \<lparr>rt_interval = (if interval \<le> 0 then 5 * second else interval),
      rt_batch = (if batch \<le> 0 then 100 else batch)\<rparr>"

definition minScanDelay :: duration where "minScanDelay = 50000000"

definition nextDelay :: "Runtime \<Rightarrow> world \<Rightarrow> duration" where
  "nextDelay r w =
     (let floor = (if rt_interval r < minScanDelay then rt_interval r else minScanDelay)
      in case NextWakeUp (w_st w) (w_now w) of
           None \<Rightarrow> rt_interval r
         | Some t \<Rightarrow>
             let d = time_Sub t (w_now w) in
             if rt_interval r < d then rt_interval r else if d < floor then floor else d)"

definition isShutdown :: "go_error \<Rightarrow> bool" where
  "isShutdown err \<longleftrightarrow> Is err CtxCanceled \<or> Is err CtxDeadlineExceeded"

definition publish :: "engine \<Rightarrow> TaskID \<Rightarrow> world \<Rightarrow> go_error option \<times> world" where
  "publish e tid w =
     (let r = e_publish e (w_publishes w) tid
      in (r, w\<lparr>w_publishes := Suc (w_publishes w),
               w_sent := (if r = None then w_sent w @ [tid] else w_sent w)\<rparr>))"

fun scan_publish :: "engine \<Rightarrow> Task list \<Rightarrow> world \<Rightarrow> world" where
  "scan_publish e [] w = w"
| "scan_publish e (t # ts) w = (case publish e (task_ID t) w of (_, w) \<Rightarrow> scan_publish e ts w)"

fun scan_advance :: "engine \<Rightarrow> RunID list \<Rightarrow> world \<Rightarrow> world option" where
  "scan_advance e [] w = Some w"
| "scan_advance e (rid # rids) w =
     (case Advance e rid w of
        None \<Rightarrow> None
      | Some (Some err, w) \<Rightarrow> if isShutdown err then Some w else scan_advance e rids w
      | Some (None, w) \<Rightarrow> scan_advance e rids w)"

definition ScanOnce :: "engine \<Rightarrow> Runtime \<Rightarrow> world \<Rightarrow> world option" where
  "ScanOnce e r w =
     (let w = scan_publish e (PendingTasks (w_st w) (rt_batch r)) w
      in scan_advance e (RunsAwaitingAdvance (w_st w) (w_now w) (rt_batch r)) w)"

end
