(* ===== verification/Effects.thy ===== *)
theory Effects
  imports Tasks
begin

text \<open>
  Tools and the effect ledger: the descriptor of internal/core/tool.go, the registry of
  internal/tool/registry.go, the executor of internal/effects/{executor,reconcile}.go and the
  background reconciler of internal/effects/reconciler.go. The outside world is a parameter
  type \<open>'p\<close>: a handler and a provider lookup are functions of it that return what they
  answer and the outside world after it.
\<close>

section \<open>Tools (core/tool.go, tool/registry.go)\<close>

text \<open>A handler returns its result and error, or panics.\<close>

datatype handler_result = Returned raw "go_error option" | Panicked string

record 'p ToolDescriptor =
  td_Name :: string
  td_Class :: EffectClass
  td_Handler :: "ToolCall \<Rightarrow> 'p \<Rightarrow> handler_result \<times> 'p"
  td_Reconciler :: "(Effect \<Rightarrow> 'p \<Rightarrow> (go_error + Resolution) \<times> 'p) option"
  td_KeyTTL :: duration

definition KeyExpired :: "'p ToolDescriptor \<Rightarrow> Effect \<Rightarrow> time \<Rightarrow> bool" where
  "KeyExpired d e now =
     (if td_KeyTTL d \<le> 0 then False else td_KeyTTL d < time_Sub now (eff_CreatedAt e))"

type_synonym 'p Registry = "(string \<times> 'p ToolDescriptor) list"

text \<open>\<open>Register\<close> panics on a programming error: \<open>Inl\<close> is the panic.\<close>

definition Register :: "'p ToolDescriptor \<Rightarrow> 'p Registry \<Rightarrow> string + 'p Registry" where
  "Register d r =
     (if td_Name d = [] then Inl ''tool: descriptor has no name''
      else if \<not> EffectClass_Valid (td_Class d) then
        Inl (''tool: '' @ td_Name d @ '' has invalid effect class '' @ EffectClass_text (td_Class d))
      else if td_Class d = ClassQueryable \<and> td_Reconciler d = None then
        Inl (''tool: '' @ td_Name d @ '' is QUERYABLE but has no reconciler; ''
          @ ''a tool that cannot be asked what it did is UNRECONCILABLE, not QUERYABLE'')
      else if map_of r (td_Name d) \<noteq> None then Inl (''tool: '' @ td_Name d @ '' registered twice'')
      else Inr (AList.update (td_Name d) d r))"

definition Func :: "string \<Rightarrow> (ToolCall \<Rightarrow> 'p \<Rightarrow> handler_result \<times> 'p) \<Rightarrow> 'p Registry \<Rightarrow> string + 'p Registry" where
  "Func name h = Register \<lparr>td_Name = name, td_Class = ClassNone, td_Handler = h, td_Reconciler = None, td_KeyTTL = 0\<rparr>"

definition Effectful :: "string \<Rightarrow> EffectClass \<Rightarrow> duration \<Rightarrow> (ToolCall \<Rightarrow> 'p \<Rightarrow> handler_result \<times> 'p)
    \<Rightarrow> (Effect \<Rightarrow> 'p \<Rightarrow> (go_error + Resolution) \<times> 'p) option \<Rightarrow> 'p Registry \<Rightarrow> string + 'p Registry" where
  "Effectful name class keyTTL h rec =
     Register \<lparr>td_Name = name, td_Class = class, td_Handler = h, td_Reconciler = rec, td_KeyTTL = keyTTL\<rparr>"

definition Lookup :: "'p Registry \<Rightarrow> string \<Rightarrow> go_error + 'p ToolDescriptor" where
  "Lookup r name = (case map_of r name of
     None \<Rightarrow> Inl (wrap (''tool '' @ name) ErrToolNotFound) | Some d \<Rightarrow> Inr d)"

definition Names :: "'p Registry \<Rightarrow> string list" where
  "Names r = sort (map fst r)"

section \<open>The executor (effects/executor.go)\<close>

text \<open>
  The system an executor acts in: the runtime's world, the outside world, and the log of tool
  invocations, each with the store as it was at that moment. Nothing reads the log; it is what
  the ordering properties are stated about.
\<close>

record 'p sys =
  sys_world :: world
  sys_outside :: 'p
  sys_calls :: "(ToolCall \<times> state) list"

definition in_world :: "(world \<Rightarrow> 'a \<times> world) \<Rightarrow> 'p sys \<Rightarrow> 'a \<times> 'p sys" where
  "in_world f x = (case f (sys_world x) of (r, w) \<Rightarrow> (r, x\<lparr>sys_world := w\<rparr>))"

definition FirstEffect :: int where "FirstEffect = 1"

definition effectSeqFor :: "Task \<Rightarrow> int" where "effectSeqFor t = FirstEffect"

definition callFor :: "Task \<Rightarrow> IdempotencyKey \<Rightarrow> ToolCall" where
  "callFor t key = \<lparr>call_RunID = task_RunID t, call_TaskID = task_ID t, call_StepID = task_StepID t,
     call_Key = key, call_Payload = task_Payload t, call_Attempt = task_Attempt t\<rparr>"

definition effectData :: "Effect \<Rightarrow> string \<Rightarrow> EventData" where
  "effectData e detail = EffectData (eff_TaskID e) (eff_Key e) (eff_Type e) (eff_Class e) (eff_Status e)
     (eff_ExternalRef e) (eff_Response e) (eff_LastError e) detail"

text \<open>
  \<open>externalRef\<close>: the first of the conventional fields that holds a non-empty string. Strings of
  a provider's answer are \<open>JStr\<close>.
\<close>

fun first_ref :: "(string \<times> json) list \<Rightarrow> string list \<Rightarrow> string" where
  "first_ref kvs [] = []"
| "first_ref kvs (n # ns) =
     (case jget kvs n of
        Some (JStr v) \<Rightarrow> if v \<noteq> [] then v else first_ref kvs ns
      | _ \<Rightarrow> first_ref kvs ns)"

definition externalRef :: "raw \<Rightarrow> string" where
  "externalRef response =
     (case response of
        RawJSON j \<Rightarrow>
          (case struct_of j of
             None \<Rightarrow> []
           | Some kvs \<Rightarrow> first_ref kvs [''reference'', ''external_ref'', ''id'', ''reference_id''])
      | _ \<Rightarrow> [])"

definition call :: "'p ToolDescriptor \<Rightarrow> ToolCall \<Rightarrow> 'p sys \<Rightarrow> (go_error + raw) \<times> 'p sys" where
  "call d c x =
     (case td_Handler d c (sys_outside x) of
        (r, p) \<Rightarrow>
          ((case r of
              Returned result None \<Rightarrow> Inr result
            | Returned result (Some err) \<Rightarrow> Inl err
            | Panicked msg \<Rightarrow> Inl (errors_New (''tool '' @ td_Name d @ '' panicked: '' @ msg))),
           x\<lparr>sys_outside := p, sys_calls := sys_calls x @ [(c, w_st (sys_world x))]\<rparr>))"

definition effect_tx :: "time \<Rightarrow> RunID \<Rightarrow> StepID \<Rightarrow> Effect \<Rightarrow> EffectStatus \<Rightarrow> EffectStatus \<Rightarrow> EffectOutcome
    \<Rightarrow> EventType option \<Rightarrow> string \<Rightarrow> unit tx" where
  "effect_tx now rid step effect frm to out event detail =
     tx_bind (TransitionEffect now (eff_Key effect) frm to out) (\<lambda>_.
       case event of
         None \<Rightarrow> tx_return ()
       | Some evt \<Rightarrow>
           Append now rid evt step (effectData (effect\<lparr>eff_Status := to, eff_Response := eo_Response out,
             eff_ExternalRef := eo_ExternalRef out, eff_LastError := eo_Error out\<rparr>) detail))"

text \<open>\<open>event = None\<close> is the empty event type of the code.\<close>

definition transition :: "Task \<Rightarrow> Effect \<Rightarrow> EffectStatus \<Rightarrow> EffectStatus \<Rightarrow> EffectOutcome \<Rightarrow> EventType option
    \<Rightarrow> 'p sys \<Rightarrow> (go_error + unit) \<times> 'p sys" where
  "transition task effect frm to out event =
     in_world (\<lambda>w. in_tx (effect_tx (w_now w) (task_RunID task) (task_StepID task) effect frm to out event []) w)"

definition escalate_tx :: "time \<Rightarrow> Task \<Rightarrow> Effect \<Rightarrow> string \<Rightarrow> unit tx" where
  "escalate_tx now task effect reason =
     Append now (task_RunID task) EventEffectEscalated (task_StepID task) (effectData effect reason)"

definition escalate :: "Task \<Rightarrow> Effect \<Rightarrow> string \<Rightarrow> 'p sys \<Rightarrow> go_error \<times> 'p sys" where
  "escalate task effect reason x =
     (case in_world (\<lambda>w. in_tx (escalate_tx (w_now w) task effect reason) w) x of
        (_, x) \<Rightarrow> (wrap_mid (eff_Key effect @ '': '') ErrEscalated reason, x))"

text \<open>\<open>fmt.Errorf ("%s: %w: %w", key, ErrNeedsReconciliation, err)\<close>.\<close>

definition needs_reconciliation :: "IdempotencyKey \<Rightarrow> go_error \<Rightarrow> go_error" where
  "needs_reconciliation key err =
     \<lparr>err_text = key @ '': '' @ sentinel_text ErrNeedsReconciliation @ '': '' @ err_text err,
      err_chain = ErrNeedsReconciliation # err_chain err\<rparr>"

definition no_outcome :: EffectOutcome where
  "no_outcome = \<lparr>eo_Response = RawNil, eo_ExternalRef = [], eo_Error = []\<rparr>"

definition record_failure :: "Task \<Rightarrow> Effect \<Rightarrow> go_error \<Rightarrow> 'p sys \<Rightarrow> (go_error + raw) \<times> 'p sys" where
  "record_failure task effect callErr x =
     (let outcome = ClassifyFailure (Some callErr);
          event = (if outcome = EffectUnknown then EventEffectUnknown else EventEffectFailed)
      in case transition task effect EffectRunning outcome (no_outcome\<lparr>eo_Error := err_text callErr\<rparr>) (Some event) x of
           (Inl err, x) \<Rightarrow>
             (Inl (wrap_err (''record '' @ EffectStatus_text outcome @ '' for '' @ eff_Key effect) err), x)
         | (Inr _, x) \<Rightarrow>
             if outcome = EffectUnknown then (Inl (needs_reconciliation (eff_Key effect) callErr), x)
             else (Inl callErr, x))"

definition perform :: "Task \<Rightarrow> 'p ToolDescriptor \<Rightarrow> Effect \<Rightarrow> 'p sys \<Rightarrow> (go_error + raw) \<times> 'p sys" where
  "perform task d effect x =
     (case transition task effect (eff_Status effect) EffectRunning no_outcome None x of
        (Inl err, x) \<Rightarrow> (Inl err, x)
      | (Inr _, x) \<Rightarrow>
          (case call d (callFor task (eff_Key effect)) x of
             (Inr result, x) \<Rightarrow>
               (case transition task effect EffectRunning EffectCommitted
                      \<lparr>eo_Response = result, eo_ExternalRef = externalRef result, eo_Error = []\<rparr>
                      (Some EventEffectCommitted) x of
                  (Inl err, x) \<Rightarrow> (Inl (wrap_err (''record commit for '' @ eff_Key effect) err), x)
                | (Inr _, x) \<Rightarrow> (Inr result, x))
           | (Inl callErr, x) \<Rightarrow> record_failure task effect callErr x))"

definition reserve_tx :: "time \<Rightarrow> Task \<Rightarrow> Effect \<Rightarrow> unit tx" where
  "reserve_tx now task fresh =
     tx_bind (ReserveEffect now fresh) (\<lambda>_.
     Append now (task_RunID task) EventEffectCreated (task_StepID task) (effectData fresh []))"

definition fresh_row :: "EffectID \<Rightarrow> Task \<Rightarrow> EffectClass \<Rightarrow> IdempotencyKey \<Rightarrow> Effect" where
  "fresh_row i task class key =
     \<lparr>eff_ID = i, eff_TaskID = task_ID task, eff_RunID = task_RunID task, eff_Type = task_Type task,
      eff_Class = class, eff_Key = key, eff_Status = EffectPending, eff_Request = task_Payload task,
      eff_Response = RawNil, eff_ExternalRef = [], eff_LastError = [], eff_CreatedAt = zero_time,
      eff_UpdatedAt = zero_time, eff_CommittedAt = None\<rparr>"

definition reserve :: "engine \<Rightarrow> Task \<Rightarrow> 'p ToolDescriptor \<Rightarrow> IdempotencyKey \<Rightarrow> world \<Rightarrow> (go_error + Effect) \<times> world" where
  "reserve e task d key w =
     (let fresh = fresh_row (e_newEffectID e (w_effectIDs w)) task (td_Class d) key;
          w = w\<lparr>w_effectIDs := Suc (w_effectIDs w)\<rparr>
      in case in_tx (reserve_tx (w_now w) task fresh) w of
           (Inr _, w) \<Rightarrow> (Inr fresh, w)
         | (Inl err, w) \<Rightarrow>
             if Is err ErrEffectExists then
               (case Store_GetEffect (w_st w) key of
                  Inl err \<Rightarrow> (Inl (wrap_err (''load existing effect '' @ key) err), w)
                | Inr existing \<Rightarrow> (Inr existing, w))
             else (Inl (wrap_err (''reserve effect '' @ key) err), w))"

section \<open>Settling an ambiguous effect (effects/reconcile.go)\<close>

definition query :: "Task \<Rightarrow> 'p ToolDescriptor \<Rightarrow> Effect \<Rightarrow> 'p sys \<Rightarrow> (go_error + raw) \<times> 'p sys" where
  "query task d effect x =
     (case td_Reconciler d of
        None \<Rightarrow> apfst Inl (escalate task effect ''declared QUERYABLE but has no reconciler'' x)
      | Some rec \<Rightarrow>
          (case rec effect (sys_outside x) of
             (Inl err, p) \<Rightarrow>
               (Inl (needs_reconciliation (eff_Key effect) (wrap_err ''lookup failed'' err)), x\<lparr>sys_outside := p\<rparr>)
           | (Inr res, p) \<Rightarrow>
               let x = x\<lparr>sys_outside := p\<rparr> in
               (case res_Kind res of
                  ResolvedCommitted \<Rightarrow>
                    (case transition task effect EffectUnknown EffectCommitted
                           \<lparr>eo_Response = res_Response res, eo_ExternalRef = res_ExternalRef res, eo_Error = []\<rparr>
                           (Some EventEffectReconciled) x of
                       (Inl err, x) \<Rightarrow> (Inl (wrap_err (''record reconciled commit for '' @ eff_Key effect) err), x)
                     | (Inr _, x) \<Rightarrow> (Inr (res_Response res), x))
                | ResolvedNotExecuted \<Rightarrow> perform task d effect x
                | ResolvedUnknown \<Rightarrow>
                    (Inl (wrap_mid (eff_Key effect @ '': '') ErrNeedsReconciliation (res_Detail res)), x)
                | ResolutionKindOther k \<Rightarrow>
                    (Inl (errors_New (''effect '' @ eff_Key effect
                       @ '': reconciler returned unknown resolution '' @ k)), x))))"

definition owner_stopped :: EffectOutcome where
  "owner_stopped = no_outcome\<lparr>eo_Error := ''owner stopped without reporting an outcome''\<rparr>"

definition settle_class :: "Task \<Rightarrow> 'p ToolDescriptor \<Rightarrow> Effect \<Rightarrow> 'p sys \<Rightarrow> (go_error + raw) \<times> 'p sys" where
  "settle_class task d effect x =
     (if KeyExpired d effect (w_now (sys_world x)) then
        apfst Inl (escalate task effect (''key retention has elapsed, so the provider can no longer be trusted ''
          @ ''to recognise '' @ eff_Key effect @ '' or to answer for it'') x)
      else case td_Class d of
        ClassIdempotentByKey \<Rightarrow> perform task d effect x
      | ClassQueryable \<Rightarrow> query task d effect x
      | _ \<Rightarrow> apfst Inl (escalate task effect
               (EffectClass_text (td_Class d) @ '' outcomes cannot be resolved automatically'') x))"

definition resolve :: "Task \<Rightarrow> 'p ToolDescriptor \<Rightarrow> Effect \<Rightarrow> 'p sys \<Rightarrow> (go_error + raw) \<times> 'p sys" where
  "resolve task d effect x =
     (if eff_Status effect = EffectRunning then
        (case transition task effect EffectRunning EffectUnknown owner_stopped (Some EventEffectUnknown) x of
           (Inl err, x) \<Rightarrow> (Inl (wrap_err (''mark '' @ eff_Key effect @ '' unknown'') err), x)
         | (Inr _, x) \<Rightarrow>
             settle_class task d (effect\<lparr>eff_Status := EffectUnknown, eff_LastError := eo_Error owner_stopped\<rparr>) x)
      else settle_class task d effect x)"

definition Execute :: "engine \<Rightarrow> 'p Registry \<Rightarrow> Task \<Rightarrow> 'p sys \<Rightarrow> (go_error + raw) \<times> 'p sys" where
  "Execute e tools task x =
     (case Lookup tools (task_Type task) of
        Inl err \<Rightarrow> (Inl err, x)
      | Inr d \<Rightarrow>
          if \<not> EffectClass_HasConsequence (td_Class d) then call d (callFor task []) x
          else
            let key = NewIdempotencyKey (task_RunID task) (task_StepID task) (effectSeqFor task) in
            (case in_world (reserve e task d key) x of
               (Inl err, x) \<Rightarrow> (Inl err, x)
             | (Inr effect, x) \<Rightarrow>
                 (case RecoveryFor True (eff_Status effect) (td_Class d) of
                    RecoverComplete \<Rightarrow> (Inr (eff_Response effect), x)
                  | RecoverExecute \<Rightarrow> perform task d effect x
                  | RecoverReconcile \<Rightarrow> resolve task d effect x
                  | RecoverEscalate \<Rightarrow>
                      apfst Inl (escalate task effect (key @ '' is '' @ EffectStatus_text (eff_Status effect) @ '' and ''
                        @ EffectClass_text (td_Class d) @ '' outcomes cannot be resolved automatically'') x))))"

section \<open>The background reconciler (effects/reconciler.go)\<close>

record Reconciler =
  rc_interval :: duration
  rc_staleAfter :: duration
  rc_batch :: int

definition NewReconciler :: "duration \<Rightarrow> duration \<Rightarrow> int \<Rightarrow> Reconciler" where
  "NewReconciler interval staleAfter batch =
     \<lparr>rc_interval = (if interval \<le> 0 then 30 * second else interval),
      rc_staleAfter = (if staleAfter \<le> 0 then 60 * second else staleAfter),
      rc_batch = (if batch \<le> 0 then 50 else batch)\<rparr>"

definition mark_tx :: "time \<Rightarrow> Effect \<Rightarrow> unit tx" where
  "mark_tx now effect =
     tx_bind (TransitionEffect now (eff_Key effect) EffectRunning EffectUnknown owner_stopped) (\<lambda>_.
     Append now (eff_RunID effect) EventEffectUnknown []
       (effectData (effect\<lparr>eff_Status := EffectUnknown, eff_LastError := eo_Error owner_stopped\<rparr>) []))"

definition markUnknown :: "Effect \<Rightarrow> world \<Rightarrow> go_error option \<times> world" where
  "markUnknown effect w =
     (case in_tx (mark_tx (w_now w) effect) w of
        (Inl err, w) \<Rightarrow>
          if Is err ErrConflict then (None, w)
          else (Some (wrap_err (''mark '' @ eff_Key effect @ '' unknown'') err), w)
      | (Inr _, w) \<Rightarrow> (None, w))"

definition record_outcome :: "Effect \<Rightarrow> EffectStatus \<Rightarrow> EffectOutcome \<Rightarrow> string \<Rightarrow> world \<Rightarrow> go_error option \<times> world" where
  "record_outcome effect to out detail w =
     (case in_tx (effect_tx (w_now w) (eff_RunID effect) [] effect EffectUnknown to out
             (Some EventEffectReconciled) detail) w of
        (Inl err, w) \<Rightarrow>
          if Is err ErrConflict then (None, w)
          else (Some (wrap_err (''record '' @ EffectStatus_text to @ '' for '' @ eff_Key effect) err), w)
      | (Inr _, w) \<Rightarrow> (None, w))"

text \<open>What \<open>settle\<close> returns: whether the effect is settled, and the error.\<close>

definition settle_unknown :: "'p ToolDescriptor \<Rightarrow> Effect \<Rightarrow> time \<Rightarrow> 'p sys \<Rightarrow> (bool \<times> go_error option) \<times> 'p sys" where
  "settle_unknown d effect now x =
     (if KeyExpired d effect now then ((False, None), x)
      else case td_Reconciler d of
        None \<Rightarrow> ((False, None), x)
      | Some rec \<Rightarrow>
          (case rec effect (sys_outside x) of
             (Inl err, p) \<Rightarrow> ((False, None), x\<lparr>sys_outside := p\<rparr>)
           | (Inr res, p) \<Rightarrow>
               let x = x\<lparr>sys_outside := p\<rparr> in
               (case res_Kind res of
                  ResolvedCommitted \<Rightarrow>
                    apfst (Pair True) (in_world (record_outcome effect EffectCommitted
                      \<lparr>eo_Response = res_Response res, eo_ExternalRef = res_ExternalRef res, eo_Error = []\<rparr>
                      (res_Detail res)) x)
                | ResolvedNotExecuted \<Rightarrow>
                    apfst (Pair True) (in_world (record_outcome effect EffectFailed
                      (no_outcome\<lparr>eo_Error := ''reconciled: the provider confirms this never happened''\<rparr>)
                      (res_Detail res)) x)
                | ResolvedUnknown \<Rightarrow> ((False, None), x)
                | ResolutionKindOther k \<Rightarrow>
                    ((False, Some (errors_New (''effect '' @ eff_Key effect @ '': unknown resolution '' @ k))), x))))"

definition settle :: "'p Registry \<Rightarrow> Effect \<Rightarrow> time \<Rightarrow> 'p sys \<Rightarrow> (bool \<times> go_error option) \<times> 'p sys" where
  "settle tools effect now x =
     (case Lookup tools (eff_Type effect) of
        Inl _ \<Rightarrow> ((False, None), x)
      | Inr d \<Rightarrow>
          if eff_Status effect = EffectRunning then
            (case in_world (markUnknown effect) x of
               (Some err, x) \<Rightarrow> ((False, Some err), x)
             | (None, x) \<Rightarrow> settle_unknown d (effect\<lparr>eff_Status := EffectUnknown\<rparr>) now x)
          else settle_unknown d effect now x)"

fun settle_loop :: "'p Registry \<Rightarrow> time \<Rightarrow> int \<Rightarrow> Effect list \<Rightarrow> 'p sys \<Rightarrow> (int \<times> go_error option) \<times> 'p sys" where
  "settle_loop tools now settled [] x = ((settled, None), x)"
| "settle_loop tools now settled (effect # rest) x =
     (case settle tools effect now x of
        ((done, Some err), x) \<Rightarrow>
          if isShutdown err then ((settled, Some err), x) else settle_loop tools now settled rest x
      | ((done, None), x) \<Rightarrow> settle_loop tools now (if done then settled + 1 else settled) rest x)"

definition ReconcileOnce :: "Reconciler \<Rightarrow> 'p Registry \<Rightarrow> 'p sys \<Rightarrow> (int \<times> go_error option) \<times> 'p sys" where
  "ReconcileOnce r tools x =
     (let now = w_now (sys_world x) in
      settle_loop tools now 0
        (UnresolvedEffects (w_st (sys_world x)) (time_Add now (- rc_staleAfter r)) (rc_batch r)) x)"

end
