(* ===== verification/Recovery.thy ===== *)
theory Recovery
  imports Effects
begin

text \<open>
  The background loops that act on what others left behind: the lease reaper
  (internal/lease/reaper.go) and the outbox relay (internal/outbox/relay.go).
\<close>

section \<open>The lease reaper\<close>

definition ReaperWorkerID :: string where "ReaperWorkerID = ''veya-reaper''"

record Reaper =
  rp_interval :: duration
  rp_batch :: int
  rp_registered :: "go_error option option"

text \<open>
  \<open>rp_registered\<close> is the pair of \<open>registerOnce\<close> and \<open>registerErr\<close>: \<open>None\<close> until the
  registration has run, then its error.
\<close>

definition NewReaper :: "duration \<Rightarrow> int \<Rightarrow> Reaper" where
  "NewReaper interval batch =
     \<lparr>rp_interval = (if interval \<le> 0 then 5 * second else interval),
      rp_batch = (if batch \<le> 0 then 100 else batch), rp_registered = None\<rparr>"

definition reaper_worker :: Worker where
  "reaper_worker = \<lparr>worker_ID = ReaperWorkerID, worker_Type = ''reaper'', worker_Status = WorkerActive,
     worker_LastHeartbeat = None, worker_RegisteredAt = zero_time\<rparr>"

definition ensureRegistered :: "Reaper \<Rightarrow> world \<Rightarrow> go_error option \<times> Reaper \<times> world" where
  "ensureRegistered r w =
     (let (err, w) =
        (case rp_registered r of
           Some err \<Rightarrow> (err, w)
         | None \<Rightarrow>
             (case in_tx (RegisterWorkerTx (w_now w) reaper_worker) w of
                (Inl err, w) \<Rightarrow> (Some err, w) | (Inr _, w) \<Rightarrow> (None, w)))
      in (map_option (wrap_err ''lease: register reaper'') err, r\<lparr>rp_registered := Some err\<rparr>, w))"

definition expiry_reason :: "Lease \<Rightarrow> string" where
  "expiry_reason stale = ''owner '' @ lease_WorkerID stale @ '' stopped reporting; lease expired at ''
     @ time_RFC3339 (lease_ExpiresAt stale)"

text \<open>The writes of a reclaim once the lease is taken; the result is whether the task was requeued.\<close>

definition requeue_tx :: "time \<Rightarrow> Lease \<Rightarrow> Task \<Rightarrow> Lease \<Rightarrow> bool tx" where
  "requeue_tx now stale task fresh =
     tx_bind (Append now (task_RunID task) EventLeaseExpired (task_StepID task)
                (LeaseExpiredData (task_ID task) (lease_WorkerID stale) (lease_Token stale))) (\<lambda>_.
     let nxt = (if Task_Exhausted task then TaskDeadLetter else TaskPending);
         event = (if Task_Exhausted task then EventTaskDeadLettered else EventTaskRetryScheduled);
         reason = expiry_reason stale in
     tx_bind (TransitionTask now (task_ID task) TaskRunning nxt \<lparr>to_Error = reason\<rparr>) (\<lambda>_.
     tx_bind (Append now (task_RunID task) event (task_StepID task)
                (TaskRetryScheduledData (task_ID task) (task_Attempt task) reason zero_time)) (\<lambda>_.
     tx_bind (if nxt = TaskPending then EnqueueDelivery now (task_ID task) zero_time else tx_return ()) (\<lambda>_.
     tx_bind (ReleaseLease (task_ID task) (lease_Token fresh) now) (\<lambda>_.
     tx_return (nxt = TaskPending))))))"

definition reclaim_tx :: "time \<Rightarrow> Lease \<Rightarrow> bool tx" where
  "reclaim_tx now stale =
     tx_bind (GetTask (lease_TaskID stale)) (\<lambda>task.
       if task_Status task \<noteq> TaskRunning then tx_return False
       else tx_try (AcquireLease (lease_TaskID stale) ReaperWorkerID now (time_Add now (60 * second)))
         (\<lambda>r. case r of
            Inl err \<Rightarrow> if Is err ErrLeaseHeld then tx_return False else tx_error err
          | Inr fresh \<Rightarrow> requeue_tx now stale task fresh))"

fun reap_loop :: "int \<Rightarrow> Lease list \<Rightarrow> world \<Rightarrow> (int \<times> go_error option) \<times> world" where
  "reap_loop reclaimed [] w = ((reclaimed, None), w)"
| "reap_loop reclaimed (stale # rest) w =
     (case in_tx (reclaim_tx (w_now w) stale) w of
        (Inl err, w) \<Rightarrow> if isShutdown err then ((reclaimed, Some err), w) else reap_loop reclaimed rest w
      | (Inr requeued, w) \<Rightarrow> reap_loop (if requeued then reclaimed + 1 else reclaimed) rest w)"

definition ReapOnce :: "Reaper \<Rightarrow> world \<Rightarrow> (int \<times> go_error option) \<times> Reaper \<times> world" where
  "ReapOnce r w =
     (case ensureRegistered r w of
        (Some err, r, w) \<Rightarrow> ((0, Some err), r, w)
      | (None, r, w) \<Rightarrow>
          (case reap_loop 0 (ExpiredLeases (w_st w) (w_now w) (rp_batch r)) w of
             ((n, Some err), w) \<Rightarrow> ((n, Some err), r, w)
           | ((n, None), w) \<Rightarrow> ((n, None), r, if 0 < n then wake w else w)))"

section \<open>The outbox relay\<close>

record Relay =
  rl_interval :: duration
  rl_batch :: int
  rl_wake :: bool

text \<open>\<open>rl_wake\<close>: the one-slot channel that \<open>Wake\<close> puts a token into, unless one is there.\<close>

definition NewRelay :: "duration \<Rightarrow> int \<Rightarrow> Relay" where
  "NewRelay interval batch =
     \<lparr>rl_interval = (if interval \<le> 0 then second else interval),
      rl_batch = (if batch \<le> 0 then 100 else batch), rl_wake = False\<rparr>"

definition Relay_Wake :: "Relay \<Rightarrow> Relay" where "Relay_Wake r = r\<lparr>rl_wake := True\<rparr>"

text \<open>
  One sweep over the pending deliveries: what was handed over, what failed and why, and the
  error that stops the sweep. Stopping errors are those of a cancelled context or a closed
  dispatcher.
\<close>

definition stops_sweep :: "go_error \<Rightarrow> bool" where
  "stops_sweep err \<longleftrightarrow> Is err CtxCanceled \<or> Is err CtxDeadlineExceeded \<or> Is err ErrDispatcherClosed"

fun relay_loop :: "engine \<Rightarrow> int list \<Rightarrow> (int \<times> string) list \<Rightarrow> Delivery list \<Rightarrow> world
    \<Rightarrow> (int list \<times> (int \<times> string) list \<times> go_error option) \<times> world" where
  "relay_loop e delivered failed [] w = ((delivered, failed, None), w)"
| "relay_loop e delivered failed (d # ds) w =
     (case publish e (del_TaskID d) w of
        (None, w) \<Rightarrow> relay_loop e (delivered @ [del_ID d]) failed ds w
      | (Some err, w) \<Rightarrow>
          if stops_sweep err then ((delivered, failed, Some err), w)
          else relay_loop e delivered (AList.update (del_ID d) (err_text err) failed) ds w)"

definition mark_outcomes_tx :: "int list \<Rightarrow> (int \<times> string) list \<Rightarrow> unit tx" where
  "mark_outcomes_tx delivered failed =
     tx_bind (MarkDelivered delivered) (\<lambda>_. tx_seq (map (\<lambda>(did, cause). FailDelivery did cause) failed))"

definition mark_outcomes :: "int list \<Rightarrow> (int \<times> string) list \<Rightarrow> world \<Rightarrow> go_error option \<times> world" where
  "mark_outcomes delivered failed w =
     (if delivered = [] \<and> failed = [] then (None, w)
      else case in_tx (mark_outcomes_tx delivered failed) w of
        (Inl err, w) \<Rightarrow> (Some (wrap_err ''record delivery outcomes'' err), w)
      | (Inr _, w) \<Rightarrow> (None, w))"

definition RelayOnce :: "engine \<Rightarrow> Relay \<Rightarrow> world \<Rightarrow> (int \<times> go_error option) \<times> world" where
  "RelayOnce e r w =
     (let pending = PendingDeliveries (w_st w) (w_now w) (rl_batch r) in
      if pending = [] then ((0, None), w)
      else case relay_loop e [] [] pending w of
        ((delivered, failed, stop), w) \<Rightarrow>
          (case mark_outcomes delivered failed w of
             (Some err, w) \<Rightarrow> ((0, Some err), w)
           | (None, w) \<Rightarrow> ((int (length delivered), stop), w)))"

end
