(* ===== verification/Wire.thy ===== *)
theory Wire
  imports Effects
begin

text \<open>
  The worker protocol: internal/sdk/wire/wire.go. Messages are records with the fields of the
  generated types that the conversions use; a message that may be nil is an option, and reading
  a field of a nil message gives the zero value, as the generated getters do. Conversions out
  of the core are total; conversions into it refuse what this build does not know.
\<close>

section \<open>Messages\<close>

datatype pb_EffectClass = PB_UNSPECIFIED | PB_NONE | PB_IDEMPOTENT_BY_KEY | PB_QUERYABLE
  | PB_UNRECONCILABLE | PB_EffectClass_other int

datatype pb_DecisionKind = PB_DECISION_UNSPECIFIED | PB_CALL_TOOL | PB_COMPLETE | PB_FAIL
  | PB_CALL_TOOL_PARALLEL | PB_SLEEP | PB_WAIT_FOR_SIGNAL | PB_CANCEL | PB_DecisionKind_other int

datatype pb_JoinKind = PB_JOIN_UNSPECIFIED | PB_JOIN_ALL | PB_JOIN_ANY | PB_JOIN_QUORUM | PB_JoinKind_other int

datatype pb_ResolutionKind = PB_RESOLUTION_UNSPECIFIED | PB_COMMITTED | PB_NOT_EXECUTED
  | PB_STILL_UNKNOWN | PB_ResolutionKind_other int

datatype pb_Certainty = PB_CERTAINTY_UNSPECIFIED | PB_CERTAINTY_UNKNOWN | PB_CERTAINTY_NOT_EXECUTED
  | PB_Certainty_other int

record pb_Run =
  pbr_RunId :: string
  pbr_AgentName :: string
  pbr_AgentVersion :: string
  pbr_Status :: string
  pbr_Input :: raw

record pb_Event =
  pbe_RunId :: string
  pbe_Seq :: int
  pbe_Type :: string
  pbe_StepId :: string
  pbe_Payload :: raw
  pbe_CreatedAtUnixNano :: int

record pb_ExecuteRequest =
  px_CallId :: string
  px_Tool :: string
  px_RunId :: string
  px_TaskId :: string
  px_StepId :: string
  px_IdempotencyKey :: string
  px_Payload :: raw
  px_Attempt :: int

record pb_Effect =
  pf_EffectId :: string
  pf_RunId :: string
  pf_TaskId :: string
  pf_EffectType :: string
  pf_EffectClass :: pb_EffectClass
  pf_IdempotencyKey :: string
  pf_Status :: string
  pf_ExternalRef :: string
  pf_Request :: raw
  pf_Response :: raw
  pf_CreatedAtUnixNano :: int

record pb_ToolDescriptor =
  pt_Name :: string
  pt_EffectClass :: pb_EffectClass
  pt_Reconcilable :: bool
  pt_KeyTtlSeconds :: int

record pb_JoinPolicy =
  pj_Kind :: pb_JoinKind
  pj_Quorum :: int

record pb_SignalWait =
  ps_Name :: string
  ps_DeadlineUnixNano :: int

record pb_Decision =
  pd_Kind :: pb_DecisionKind
  pd_StepId :: string
  pd_Tool :: string
  pd_Payload :: raw
  pd_Output :: raw
  pd_Error :: string
  pd_Calls :: "(string \<times> raw) list"
  pd_Join :: "pb_JoinPolicy option"
  pd_WakeAtUnixNano :: int
  pd_Signal :: "pb_SignalWait option"
  pd_CancelReason :: string

record pb_Resolution =
  pr_Kind :: pb_ResolutionKind
  pr_Response :: raw
  pr_ExternalRef :: string
  pr_Detail :: string

record pb_Failure =
  pl_Message :: string
  pl_Type :: string
  pl_Certainty :: pb_Certainty

section \<open>Out of the core\<close>

definition unixNano :: "time \<Rightarrow> int" where
  "unixNano t = (if time_IsZero t then 0 else time_UnixNano t)"

definition wire_Run :: "Run \<Rightarrow> pb_Run" where
  "wire_Run r = \<lparr>pbr_RunId = run_ID r, pbr_AgentName = run_AgentName r,
     pbr_AgentVersion = run_AgentVersion r, pbr_Status = RunStatus_text (run_Status r),
     pbr_Input = run_Input r\<rparr>"

definition wire_Event :: "Event \<Rightarrow> pb_Event" where
  "wire_Event e = \<lparr>pbe_RunId = ev_RunID e, pbe_Seq = ev_Seq e, pbe_Type = EventType_text (ev_Type e),
     pbe_StepId = ev_StepID e, pbe_Payload = ev_Payload e,
     pbe_CreatedAtUnixNano = unixNano (ev_CreatedAt e)\<rparr>"

definition wire_Events :: "Event list \<Rightarrow> pb_Event list" where
  "wire_Events history = map wire_Event history"

text \<open>The conversion of the attempt to an int32 keeps its low 32 bits.\<close>

definition to_int32 :: "int \<Rightarrow> int" where
  "to_int32 i = (i + 2147483648) mod 4294967296 - 2147483648"

definition wire_ExecuteRequest :: "string \<Rightarrow> string \<Rightarrow> ToolCall \<Rightarrow> pb_ExecuteRequest" where
  "wire_ExecuteRequest callID tool c =
     \<lparr>px_CallId = callID, px_Tool = tool, px_RunId = call_RunID c, px_TaskId = call_TaskID c,
      px_StepId = call_StepID c, px_IdempotencyKey = call_Key c, px_Payload = call_Payload c,
      px_Attempt = to_int32 (call_Attempt c)\<rparr>"

fun EffectClassTo :: "EffectClass \<Rightarrow> pb_EffectClass" where
  "EffectClassTo ClassNone = PB_NONE"
| "EffectClassTo ClassIdempotentByKey = PB_IDEMPOTENT_BY_KEY"
| "EffectClassTo ClassQueryable = PB_QUERYABLE"
| "EffectClassTo ClassUnreconcilable = PB_UNRECONCILABLE"
| "EffectClassTo (EffectClassOther s) = PB_UNSPECIFIED"

definition wire_Effect :: "Effect \<Rightarrow> pb_Effect" where
  "wire_Effect e = \<lparr>pf_EffectId = eff_ID e, pf_RunId = eff_RunID e, pf_TaskId = eff_TaskID e,
     pf_EffectType = eff_Type e, pf_EffectClass = EffectClassTo (eff_Class e),
     pf_IdempotencyKey = eff_Key e, pf_Status = EffectStatus_text (eff_Status e),
     pf_ExternalRef = eff_ExternalRef e, pf_Request = eff_Request e, pf_Response = eff_Response e,
     pf_CreatedAtUnixNano = unixNano (eff_CreatedAt e)\<rparr>"

section \<open>Into the core\<close>

definition protocol_error :: "string \<Rightarrow> go_error" where
  "protocol_error msg = wrap_mid [] ErrProtocol msg"

definition EffectClassFrom :: "pb_EffectClass \<Rightarrow> go_error + EffectClass" where
  "EffectClassFrom c =
     (case c of
        PB_NONE \<Rightarrow> Inr ClassNone
      | PB_IDEMPOTENT_BY_KEY \<Rightarrow> Inr ClassIdempotentByKey
      | PB_QUERYABLE \<Rightarrow> Inr ClassQueryable
      | PB_UNRECONCILABLE \<Rightarrow> Inr ClassUnreconcilable
      | _ \<Rightarrow> Inl (protocol_error ''effect class is not one this build knows''))"

text \<open>
  A descriptor that came over the wire has no handler yet: the registry of the gateway adds
  it. What is left of \<open>core.ToolDescriptor\<close> is a declaration.
\<close>

record ToolDecl =
  tl_Name :: string
  tl_Class :: EffectClass
  tl_KeyTTL :: duration

definition wire_ToolDescriptor :: "pb_ToolDescriptor option \<Rightarrow> go_error + ToolDecl" where
  "wire_ToolDescriptor md =
     (case md of
        None \<Rightarrow> Inl (protocol_error ''nil tool descriptor'')
      | Some d \<Rightarrow>
          if pt_Name d = [] then Inl (protocol_error ''tool descriptor has no name'')
          else (case EffectClassFrom (pt_EffectClass d) of
                  Inl err \<Rightarrow> Inl (wrap_err (''tool '' @ pt_Name d) err)
                | Inr class \<Rightarrow>
                    if class = ClassQueryable \<and> \<not> pt_Reconcilable d then
                      Inl (protocol_error (''tool '' @ pt_Name d @ '' is QUERYABLE but registered no reconcile hook; ''
                        @ ''a tool that cannot be asked what it did is UNRECONCILABLE''))
                    else Inr \<lparr>tl_Name = pt_Name d, tl_Class = class,
                              tl_KeyTTL = wrap64 (pt_KeyTtlSeconds d * second)\<rparr>))"

definition wire_joinPolicy :: "pb_JoinPolicy option \<Rightarrow> go_error + JoinPolicy" where
  "wire_joinPolicy mp =
     (case mp of
        None \<Rightarrow> Inl (errors_New ''no join policy'')
      | Some p \<Rightarrow>
          (case pj_Kind p of
             PB_JOIN_ALL \<Rightarrow> Inr \<lparr>jp_Kind = JoinAll, jp_Quorum = 0\<rparr>
           | PB_JOIN_ANY \<Rightarrow> Inr \<lparr>jp_Kind = JoinAny, jp_Quorum = 0\<rparr>
           | PB_JOIN_QUORUM \<Rightarrow> Inr \<lparr>jp_Kind = JoinQuorum, jp_Quorum = pj_Quorum p\<rparr>
           | _ \<Rightarrow> Inl (errors_New ''join kind is not one this build knows'')))"

text \<open>The loop over the calls: the first call without a tool stops it.\<close>

fun wire_calls :: "string \<Rightarrow> nat \<Rightarrow> (string \<times> raw) list \<Rightarrow> go_error + Call list" where
  "wire_calls step i [] = Inr []"
| "wire_calls step i ((tool, payload) # rest) =
     (if tool = [] then
        Inl (protocol_error (''CALL_TOOL_PARALLEL at step '' @ step @ '': call '' @ show_nat i @ '' names no tool''))
      else (case wire_calls step (Suc i) rest of
              Inl err \<Rightarrow> Inl err
            | Inr cs \<Rightarrow> Inr (\<lparr>c_TaskType = tool, c_Payload = payload\<rparr> # cs)))"

definition wire_parallel :: "pb_Decision \<Rightarrow> go_error + Decision" where
  "wire_parallel d =
     (if pd_StepId d = [] then Inl (protocol_error ''CALL_TOOL_PARALLEL has no parent step id'')
      else if pd_Calls d = [] then
        Inl (protocol_error (''CALL_TOOL_PARALLEL at step '' @ pd_StepId d @ '' makes no calls''))
      else case wire_calls (pd_StepId d) 0 (pd_Calls d) of
        Inl err \<Rightarrow> Inl err
      | Inr calls \<Rightarrow>
          (case wire_joinPolicy (pd_Join d) of
             Inl err \<Rightarrow> Inl (protocol_error (''CALL_TOOL_PARALLEL at step '' @ pd_StepId d @ '': '' @ err_text err))
           | Inr join \<Rightarrow>
               (case JoinPolicy_Valid join (int (length calls)) of
                  Some err \<Rightarrow> Inl (protocol_error (''CALL_TOOL_PARALLEL at step '' @ pd_StepId d @ '': '' @ err_text err))
                | None \<Rightarrow> Inr (zero_decision\<lparr>d_Kind := DecideCallToolParallel, d_StepID := pd_StepId d,
                             d_Calls := calls, d_Join := join\<rparr>))))"

definition wire_waitForSignal :: "pb_Decision \<Rightarrow> go_error + Decision" where
  "wire_waitForSignal d =
     (if pd_StepId d = [] then Inl (protocol_error ''WAIT_FOR_SIGNAL has no step id'')
      else
        let (name, ns) = (case pd_Signal d of None \<Rightarrow> ([], 0) | Some sg \<Rightarrow> (ps_Name sg, ps_DeadlineUnixNano sg)) in
        if name = [] then
          Inl (protocol_error (''WAIT_FOR_SIGNAL at step '' @ pd_StepId d @ '' names no signal''))
        else Inr (zero_decision\<lparr>d_Kind := DecideWaitForSignal, d_StepID := pd_StepId d,
               d_Signal := \<lparr>sw_Name = name, sw_Deadline = (if 0 < ns then time_Unix ns else zero_time)\<rparr>\<rparr>))"

definition wire_Decision :: "pb_Decision option \<Rightarrow> go_error + Decision" where
  "wire_Decision md =
     (case md of
        None \<Rightarrow> Inl (protocol_error ''nil decision'')
      | Some d \<Rightarrow>
          (case pd_Kind d of
             PB_CALL_TOOL \<Rightarrow>
               if pd_Tool d = [] then Inl (protocol_error ''CALL_TOOL names no tool'')
               else if pd_StepId d = [] then
                 Inl (protocol_error (''CALL_TOOL for tool '' @ pd_Tool d @ '' has no step id''))
               else Inr (zero_decision\<lparr>d_Kind := DecideCallTool, d_StepID := pd_StepId d,
                      d_TaskType := pd_Tool d, d_Payload := pd_Payload d\<rparr>)
           | PB_CALL_TOOL_PARALLEL \<Rightarrow> wire_parallel d
           | PB_SLEEP \<Rightarrow>
               if pd_StepId d = [] then Inl (protocol_error ''SLEEP has no step id'')
               else if pd_WakeAtUnixNano d \<le> 0 then
                 Inl (protocol_error (''SLEEP at step '' @ pd_StepId d @ '' names no instant to wake at''))
               else Inr (zero_decision\<lparr>d_Kind := DecideSleep, d_StepID := pd_StepId d,
                      d_WakeAt := time_Unix (pd_WakeAtUnixNano d)\<rparr>)
           | PB_WAIT_FOR_SIGNAL \<Rightarrow> wire_waitForSignal d
           | PB_COMPLETE \<Rightarrow> Inr (zero_decision\<lparr>d_Kind := DecideComplete, d_Output := pd_Output d\<rparr>)
           | PB_FAIL \<Rightarrow>
               let reason = (if pd_Error d = [] then ''the agent failed the run without giving a reason''
                             else pd_Error d)
               in Inr (zero_decision\<lparr>d_Kind := DecideFail, d_Error := reason\<rparr>)
           | PB_CANCEL \<Rightarrow> Inr (zero_decision\<lparr>d_Kind := DecideCancel, d_Reason := pd_CancelReason d\<rparr>)
           | _ \<Rightarrow> Inl (protocol_error ''decision kind is not one this build knows'')))"

definition wire_Resolution :: "pb_Resolution option \<Rightarrow> Resolution" where
  "wire_Resolution mr =
     (case mr of
        None \<Rightarrow> \<lparr>res_Kind = ResolvedUnknown, res_Response = RawNil, res_ExternalRef = [],
                 res_Detail = ''the worker returned no resolution''\<rparr>
      | Some r \<Rightarrow>
          \<lparr>res_Kind = (case pr_Kind r of PB_COMMITTED \<Rightarrow> ResolvedCommitted
             | PB_NOT_EXECUTED \<Rightarrow> ResolvedNotExecuted | _ \<Rightarrow> ResolvedUnknown),
           res_Response = pr_Response r, res_ExternalRef = pr_ExternalRef r, res_Detail = pr_Detail r\<rparr>)"

definition wire_Failure :: "pb_Failure option \<Rightarrow> go_error" where
  "wire_Failure mf =
     (case mf of
        None \<Rightarrow> protocol_error ''the worker reported a failure with no detail''
      | Some f \<Rightarrow>
          let msg = (if pl_Message f = [] then ''the worker reported a failure with no message'' else pl_Message f);
              msg = (if pl_Type f \<noteq> [] then pl_Type f @ '': '' @ msg else msg);
              err = errors_New msg
          in if pl_Certainty f = PB_CERTAINTY_NOT_EXECUTED then the (NotExecuted (Some err)) else err)"

definition wire_FailureFrom :: "go_error option \<Rightarrow> pb_Failure option" where
  "wire_FailureFrom err =
     (case err of
        None \<Rightarrow> None
      | Some e \<Rightarrow> Some \<lparr>pl_Message = err_text e, pl_Type = [],
          pl_Certainty = (if IsNotExecuted err then PB_CERTAINTY_NOT_EXECUTED else PB_CERTAINTY_UNKNOWN)\<rparr>)"

section \<open>What the conversions keep and refuse\<close>

lemma EffectClass_roundtrip: "EffectClass_Valid c \<Longrightarrow> EffectClassFrom (EffectClassTo c) = Inr c"
  by (cases c) (simp_all add: EffectClass_Valid_def EffectClassFrom_def)

lemma EffectClassTo_From: "EffectClassFrom p = Inr c \<Longrightarrow> EffectClassTo c = p \<and> EffectClass_Valid c"
  by (auto simp: EffectClassFrom_def EffectClass_Valid_def split: pb_EffectClass.splits)

lemma wire_calls_tools:
  "wire_calls step i ps = Inr cs \<Longrightarrow> map (\<lambda>c. (c_TaskType c, c_Payload c)) cs = ps \<and> (\<forall>c \<in> set cs. c_TaskType c \<noteq> [])"
  by (induction ps arbitrary: i cs) (auto split: if_splits sum.splits)

lemma Is_protocol_error [simp]: "Is (protocol_error m) s \<longleftrightarrow> s = ErrProtocol"
  by (auto simp: protocol_error_def)

lemma wire_Decision_error: "wire_Decision md = Inl err \<Longrightarrow> Is err ErrProtocol \<and> \<not> Is err ErrUnavailable"
proof -
  have calls: "wire_calls step i ps = Inl err \<Longrightarrow> Is err ErrProtocol \<and> \<not> Is err ErrUnavailable" for step i ps err
    by (induction ps arbitrary: i) (auto split: if_splits sum.splits)
  have "wire_parallel d = Inl err \<Longrightarrow> Is err ErrProtocol \<and> \<not> Is err ErrUnavailable" for d
    using calls by (auto simp: wire_parallel_def split: if_splits sum.splits option.splits)
  moreover have "wire_waitForSignal d = Inl err \<Longrightarrow> Is err ErrProtocol \<and> \<not> Is err ErrUnavailable" for d
    by (auto simp: wire_waitForSignal_def Let_def split: if_splits prod.splits option.splits)
  ultimately show "wire_Decision md = Inl err \<Longrightarrow> ?thesis"
    by (auto simp: wire_Decision_def Let_def split: option.splits pb_DecisionKind.splits if_splits)
qed

text \<open>A decision that is let in is one the engine can carry out.\<close>

definition executable :: "Decision \<Rightarrow> bool" where
  "executable d \<longleftrightarrow>
     (case d_Kind d of
        DecideCallTool \<Rightarrow> d_TaskType d \<noteq> [] \<and> d_StepID d \<noteq> []
      | DecideCallToolParallel \<Rightarrow> d_StepID d \<noteq> [] \<and> d_Calls d \<noteq> []
          \<and> JoinPolicy_Valid (d_Join d) (int (length (d_Calls d))) = None \<and> (\<forall>c \<in> set (d_Calls d). c_TaskType c \<noteq> [])
      | DecideSleep \<Rightarrow> d_StepID d \<noteq> [] \<and> \<not> time_IsZero (d_WakeAt d) \<and> unix_epoch < d_WakeAt d
      | DecideWaitForSignal \<Rightarrow> d_StepID d \<noteq> [] \<and> sw_Name (d_Signal d) \<noteq> []
          \<and> (time_IsZero (sw_Deadline (d_Signal d)) \<or> unix_epoch < sw_Deadline (d_Signal d))
      | DecideFail \<Rightarrow> d_Error d \<noteq> []
      | DecideComplete \<Rightarrow> True
      | DecideCancel \<Rightarrow> True
      | DecisionKindOther _ \<Rightarrow> False)"

lemma wire_Decision_executable: "wire_Decision md = Inr d \<Longrightarrow> executable d"
proof -
  have par: "wire_parallel p = Inr d \<Longrightarrow> executable d" for p
    by (auto simp: wire_parallel_def executable_def dest!: wire_calls_tools split: if_splits sum.splits option.splits)
  have wt: "wire_waitForSignal p = Inr d \<Longrightarrow> executable d" for p
    by (auto simp: wire_waitForSignal_def executable_def Let_def time_Unix_def time_IsZero_def zero_time_def
        split: if_splits prod.splits option.splits)
  show "wire_Decision md = Inr d \<Longrightarrow> executable d"
    by (auto simp: wire_Decision_def Let_def split: option.splits pb_DecisionKind.splits if_splits
        dest: par wt simp: executable_def time_Unix_def time_IsZero_def zero_time_def unix_epoch_def)
qed

lemma Failure_not_executed:
  "IsNotExecuted (Some (wire_Failure mf)) \<longleftrightarrow> (\<exists>f. mf = Some f \<and> pl_Certainty f = PB_CERTAINTY_NOT_EXECUTED)"
  by (auto simp: wire_Failure_def NotExecuted_def IsNotExecuted_def Let_def Is_def errors_New_def
      protocol_error_def wrap_mid_def sentinel_err_def split: option.splits)

lemma FailureFrom_certainty:
  "wire_FailureFrom (Some e) = Some f \<Longrightarrow>
     IsNotExecuted (Some (wire_Failure (Some f))) = IsNotExecuted (Some e)"
  by (auto simp: Failure_not_executed wire_FailureFrom_def split: if_splits)

lemma time_Unix_unixNano: "in_int64 (t - unix_epoch) \<Longrightarrow> \<not> time_IsZero t \<Longrightarrow> time_Unix (unixNano t) = t"
  by (simp add: time_Unix_def unixNano_def time_UnixNano_def wrap64_id)

end
