(* ===== verification/Gateway.thy ===== *)
theory Gateway
  imports Wire
begin

text \<open>
  The worker gateway: internal/sdk/gateway/{gateway,registry,session,decider}.go. Connected
  workers are sessions, by identity and by agent in registration order; a call to a worker is
  parked under a call identity until its answer, the end of the session or the caller's context
  ends it. The stream itself is outside: what a receive or a send returns is an argument.
\<close>

section \<open>Sessions (session.go)\<close>

datatype pb_ClientMessage =
    CM_Register string string string string bool "pb_ToolDescriptor list" int
  | CM_DecideResult string "pb_Failure option" "pb_Decision option"
  | CM_ExecuteResult string "pb_Failure option" raw
  | CM_ReconcileResult string "pb_Failure option" "pb_Resolution option"
  | CM_Other

text \<open>
  The arguments of \<open>CM_Register\<close>: agent name, agent version, worker, runtime, whether it decides,
  its tools and the protocol version. A pending call is a channel with room for one message.
\<close>

record session =
  se_id :: string
  se_agent :: string
  se_version :: string
  se_worker :: string
  se_runtime :: string
  se_decides :: bool
  se_tools :: "(string \<times> ToolDecl) list"
  se_seq :: nat
  se_pending :: "(string \<times> pb_ClientMessage option) list"
  se_closed :: bool
  se_cause :: "go_error option"

definition nextCallID :: "session \<Rightarrow> string \<times> session" where
  "nextCallID s = (let n = Suc (se_seq s) mod 18446744073709551616
     in (se_id s @ CHR ''.'' # show_nat n, s\<lparr>se_seq := n\<rparr>))"

definition closedErr :: "session \<Rightarrow> go_error" where
  "closedErr s = wrap_err (''worker '' @ se_worker s @ '' ('' @ se_agent s @ '')'')
     (case se_cause s of None \<Rightarrow> sentinel_err ErrWorkerGone | Some c \<Rightarrow> c)"

text \<open>\<open>call\<close> up to the send, and its deferred cleanup.\<close>

definition call_begin :: "session \<Rightarrow> (go_error + string) \<times> session" where
  "call_begin s =
     (case nextCallID s of
        (callID, s) \<Rightarrow>
          if se_closed s then (Inl (closedErr s), s)
          else (Inr callID, s\<lparr>se_pending := AList.update callID None (se_pending s)\<rparr>))"

definition call_end :: "string \<Rightarrow> session \<Rightarrow> session" where
  "call_end callID s = s\<lparr>se_pending := AList.delete callID (se_pending s)\<rparr>"

text \<open>What ends the wait: a failed send, a message, a closed channel (a nil message), the context, the stream.\<close>

datatype ending = SendFailed go_error | Received "pb_ClientMessage option" | CtxDone go_error | StreamDone

definition call_result :: "session \<Rightarrow> ending \<Rightarrow> go_error + pb_ClientMessage option" where
  "call_result s w =
     (case w of
        SendFailed err \<Rightarrow> Inl (wrap_err (''worker '' @ se_worker s @ '': send'') err)
      | Received m \<Rightarrow> Inr m
      | CtxDone err \<Rightarrow> Inl (wrap_err (''worker '' @ se_worker s) err)
      | StreamDone \<Rightarrow> Inl (closedErr s))"

definition deliver :: "string \<Rightarrow> pb_ClientMessage \<Rightarrow> session \<Rightarrow> bool \<times> session" where
  "deliver callID msg s =
     (case map_of (se_pending s) callID of
        None \<Rightarrow> (False, s)
      | Some (Some _) \<Rightarrow> (False, s)
      | Some None \<Rightarrow> (True, s\<lparr>se_pending := AList.update callID (Some msg) (se_pending s)\<rparr>))"

definition close :: "go_error \<Rightarrow> session \<Rightarrow> session" where
  "close cause s =
     (if se_closed s then s else s\<lparr>se_closed := True, se_cause := Some cause, se_pending := []\<rparr>)"

definition resultOf :: "go_error + pb_ClientMessage option \<Rightarrow> go_error + pb_ClientMessage" where
  "resultOf r =
     (case r of
        Inl err \<Rightarrow> Inl err
      | Inr None \<Rightarrow> Inl (sentinel_err ErrWorkerGone)
      | Inr (Some msg) \<Rightarrow> Inr msg)"

definition failureOf :: "pb_Failure option \<Rightarrow> go_error option" where
  "failureOf f = (case f of None \<Rightarrow> None | Some _ \<Rightarrow> Some (wire_Failure f))"

section \<open>The gateway (gateway.go)\<close>

record Gateway =
  gw_sessions :: "(string \<times> session) list"
  gw_byAgent :: "(string \<times> string list) list"
  gw_nextID :: nat
  gw_rr :: "(string \<times> nat) list"

definition Gateway_New :: Gateway where
  "Gateway_New = \<lparr>gw_sessions = [], gw_byAgent = [], gw_nextID = 0, gw_rr = []\<rparr>"

definition agent_ids :: "Gateway \<Rightarrow> string \<Rightarrow> string list" where
  "agent_ids g agent = (case map_of (gw_byAgent g) agent of None \<Rightarrow> [] | Some ids \<Rightarrow> ids)"

text \<open>\<open>byAgent\<close> holds pointers; here they are identities, and this follows them.\<close>

definition agent_sessions :: "Gateway \<Rightarrow> string \<Rightarrow> session list" where
  "agent_sessions g agent = List.map_filter (map_of (gw_sessions g)) (agent_ids g agent)"

definition cursor :: "Gateway \<Rightarrow> string \<Rightarrow> nat" where
  "cursor g k = (case map_of (gw_rr g) k of None \<Rightarrow> 0 | Some i \<Rightarrow> i)"

fun toolsOf :: "string \<Rightarrow> pb_ToolDescriptor list \<Rightarrow> (string \<times> ToolDecl) list \<Rightarrow> go_error + (string \<times> ToolDecl) list" where
  "toolsOf agent [] tools = Inr tools"
| "toolsOf agent (d # ds) tools =
     (case wire_ToolDescriptor (Some d) of
        Inl err \<Rightarrow> Inl (wrap_err (''agent '' @ agent) err)
      | Inr t \<Rightarrow>
          if map_of tools (tl_Name t) \<noteq> None then
            Inl (protocol_error (''agent '' @ agent @ '' registered tool '' @ tl_Name t @ '' twice''))
          else toolsOf agent ds (AList.update (tl_Name t) t tools))"

definition remove :: "string \<Rightarrow> Gateway \<Rightarrow> Gateway" where
  "remove sid g =
     (case map_of (gw_sessions g) sid of
        None \<Rightarrow> g
      | Some sess \<Rightarrow>
          let remaining = filter (\<lambda>i. i \<noteq> sid) (agent_ids g (se_agent sess))
          in g\<lparr>gw_sessions := AList.delete sid (gw_sessions g),
               gw_byAgent := (if remaining = [] then AList.delete (se_agent sess) (gw_byAgent g)
                              else AList.update (se_agent sess) remaining (gw_byAgent g)),
               gw_rr := (if remaining = [] then AList.delete (se_agent sess) (gw_rr g) else gw_rr g)\<rparr>)"

text \<open>\<open>PROTOCOL_VERSION_1\<close> is 1. The acknowledgement is sent after the session is in place.\<close>

definition register :: "go_error + pb_ClientMessage \<Rightarrow> go_error option \<Rightarrow> Gateway \<Rightarrow> (go_error + string) \<times> Gateway" where
  "register first ack g =
     (case first of
        Inl err \<Rightarrow> (Inl (wrap_err ''reading registration'' err), g)
      | Inr (CM_Register agent version worker runtime decides pts protocol) \<Rightarrow>
          if protocol \<noteq> 1 then
            (Inl (protocol_error ''protocol version is not one this runtime speaks''), g)
          else if agent = [] then (Inl (protocol_error ''Register has no agent name''), g)
          else if version = [] then
            (Inl (protocol_error (''agent '' @ agent @ '' registered without a version; ''
               @ ''a run pins the version it started under and cannot pin nothing'')), g)
          else (case toolsOf agent pts [] of
                  Inl err \<Rightarrow> (Inl err, g)
                | Inr tools \<Rightarrow>
                    let n = Suc (gw_nextID g) mod 18446744073709551616;
                        sid = CHR ''s'' # show_nat n;
                        sess = \<lparr>se_id = sid, se_agent = agent, se_version = version, se_worker = worker,
                          se_runtime = runtime, se_decides = decides, se_tools = tools, se_seq = 0,
                          se_pending = [], se_closed = False, se_cause = None\<rparr>;
                        g = g\<lparr>gw_nextID := n, gw_sessions := AList.update sid sess (gw_sessions g),
                              gw_byAgent := AList.update agent (agent_ids g agent @ [sid]) (gw_byAgent g)\<rparr>
                    in (case ack of
                          None \<Rightarrow> (Inr sid, g)
                        | Some err \<Rightarrow> (Inl (wrap_err ''acknowledging registration'' err), remove sid g)))
      | Inr _ \<Rightarrow> (Inl (protocol_error ''the first message on a session must be a Register''), g))"

definition callIDOf :: "pb_ClientMessage \<Rightarrow> string option" where
  "callIDOf m =
     (case m of
        CM_DecideResult c _ _ \<Rightarrow> Some c
      | CM_ExecuteResult c _ _ \<Rightarrow> Some c
      | CM_ReconcileResult c _ _ \<Rightarrow> Some c
      | _ \<Rightarrow> None)"

text \<open>Take the candidate under the cursor and move the cursor on.\<close>

definition round_robin :: "string \<Rightarrow> session list \<Rightarrow> Gateway \<Rightarrow> session \<times> Gateway" where
  "round_robin key candidates g =
     (let i = cursor g key mod length candidates
      in (candidates ! i, g\<lparr>gw_rr := AList.update key (Suc i mod length candidates) (gw_rr g)\<rparr>))"

definition no_worker :: "string \<Rightarrow> go_error" where
  "no_worker agent = wrap_mid [] ErrNoWorker (''agent '' @ agent)"

definition pick :: "string \<Rightarrow> Gateway \<Rightarrow> (go_error + session) \<times> Gateway" where
  "pick agent g =
     (if agent_sessions g agent = [] then (Inl (no_worker agent), g)
      else apfst Inr (round_robin agent (agent_sessions g agent) g))"

definition pickDecider :: "string \<Rightarrow> string \<Rightarrow> Gateway \<Rightarrow> (go_error + session) \<times> Gateway" where
  "pickDecider agent version g =
     (let sessions = agent_sessions g agent;
          seen = map se_version (filter se_decides sessions);
          candidates = filter (\<lambda>s. se_version s = version) (filter se_decides sessions)
      in if sessions = [] then (Inl (no_worker agent), g)
         else if candidates \<noteq> [] then apfst Inr (round_robin agent candidates g)
         else if seen = [] then
           (Inl (wrap_mid [] ErrNoWorker (''agent '' @ agent @ '' has workers, but none of them decides'')), g)
         else (Inl (wrap_mid [] ErrAgentVersion (''the run is pinned to agent '' @ agent @ '' '' @ version
                 @ '', and the connected workers serve '' @ concat (map (\<lambda>v. v @ '' '') seen))), g))"

definition Registered :: "Gateway \<Rightarrow> (string \<times> string list) list" where
  "Registered g = map (\<lambda>(agent, _). (agent, map se_version (agent_sessions g agent))) (gw_byAgent g)"

section \<open>The tools of connected workers (registry.go)\<close>

text \<open>The loop of \<open>declaration\<close> over the sessions of an agent, in registration order.\<close>

fun declared :: "string \<Rightarrow> string \<Rightarrow> (ToolDecl \<times> string) option \<Rightarrow> session list \<Rightarrow> go_error + (ToolDecl \<times> string) option" where
  "declared agent tool agreed [] = Inr agreed"
| "declared agent tool agreed (s # ss) =
     (case map_of (se_tools s) tool of
        None \<Rightarrow> declared agent tool agreed ss
      | Some d \<Rightarrow>
          (case agreed of
             None \<Rightarrow> declared agent tool (Some (d, se_worker s)) ss
           | Some (a, who) \<Rightarrow>
               if tl_Class d \<noteq> tl_Class a then
                 Inl (protocol_error (''workers disagree about tool '' @ tool @ '' of agent '' @ agent @ '': '' @ who
                   @ '' calls it '' @ EffectClass_text (tl_Class a) @ '', '' @ se_worker s @ '' calls it ''
                   @ EffectClass_text (tl_Class d)))
               else declared agent tool agreed ss))"

definition tool_declaration :: "Gateway \<Rightarrow> string \<Rightarrow> string \<Rightarrow> go_error + ToolDecl" where
  "tool_declaration g agent tool =
     (case declared agent tool None (agent_sessions g agent) of
        Inl err \<Rightarrow> Inl err
      | Inr None \<Rightarrow> Inl (wrap (''tool '' @ tool) ErrToolNotFound)
      | Inr (Some (d, _)) \<Rightarrow> Inr d)"

fun tool_candidates :: "string \<Rightarrow> EffectClass \<Rightarrow> session list \<Rightarrow> go_error + session list" where
  "tool_candidates tool class [] = Inr []"
| "tool_candidates tool class (s # ss) =
     (case map_of (se_tools s) tool of
        None \<Rightarrow> tool_candidates tool class ss
      | Some d \<Rightarrow>
          if tl_Class d \<noteq> class then
            Inl (protocol_error (''worker '' @ se_worker s @ '' now declares tool '' @ tool @ '' as ''
              @ EffectClass_text (tl_Class d) @ '', but this call was prepared as '' @ EffectClass_text class))
          else (case tool_candidates tool class ss of Inl err \<Rightarrow> Inl err | Inr cs \<Rightarrow> Inr (s # cs)))"

definition pickForTool :: "string \<Rightarrow> string \<Rightarrow> EffectClass \<Rightarrow> Gateway \<Rightarrow> (go_error + session) \<times> Gateway" where
  "pickForTool agent tool class g =
     (case tool_candidates tool class (agent_sessions g agent) of
        Inl err \<Rightarrow> (Inl err, g)
      | Inr [] \<Rightarrow> (Inl (wrap (''tool '' @ tool @ '' for agent '' @ agent) ErrToolNotFound), g)
      | Inr (c # cs) \<Rightarrow> apfst Inr (round_robin (agent @ CHR 0x00 # tool) (c # cs) g))"

definition toolNames :: "Gateway \<Rightarrow> string \<Rightarrow> string list" where
  "toolNames g agent = sort (remdups (concat (map (\<lambda>s. map fst (se_tools s)) (agent_sessions g agent))))"

text \<open>
  A remote call: a session is picked when the call is made, and \<open>ask\<close> is what the call on it
  returns (\<open>call_result\<close> of how the wait ended). The handler of the registry and the decider
  turn the answer into what the runtime understands.
\<close>

definition remote_execute :: "(session \<Rightarrow> ToolCall \<Rightarrow> ending) \<Rightarrow> string \<Rightarrow> string \<Rightarrow> EffectClass \<Rightarrow> ToolCall
    \<Rightarrow> Gateway \<Rightarrow> (go_error + raw) \<times> Gateway" where
  "remote_execute ask agent name class c g =
     (case pickForTool agent name class g of
        (Inl err, g) \<Rightarrow> (Inl err, g)
      | (Inr sess, g) \<Rightarrow>
          ((case resultOf (call_result sess (ask sess c)) of
              Inl err \<Rightarrow> Inl (wrap_err (''tool '' @ name) err)
            | Inr (CM_ExecuteResult _ failure result) \<Rightarrow>
                (case failureOf failure of Some err \<Rightarrow> Inl err | None \<Rightarrow> Inr result)
            | Inr _ \<Rightarrow> Inl (wrap_mid (''tool '' @ name @ '': '') ErrProtocol ''expected an ExecuteResult'')), g))"

definition remote_reconcile :: "(session \<Rightarrow> Effect \<Rightarrow> ending) \<Rightarrow> string \<Rightarrow> string \<Rightarrow> EffectClass \<Rightarrow> Effect
    \<Rightarrow> Gateway \<Rightarrow> (go_error + Resolution) \<times> Gateway" where
  "remote_reconcile ask agent name class e g =
     (case pickForTool agent name class g of
        (Inl err, g) \<Rightarrow> (Inl err, g)
      | (Inr sess, g) \<Rightarrow>
          ((case resultOf (call_result sess (ask sess e)) of
              Inl err \<Rightarrow> Inl (wrap_err (''reconcile '' @ eff_Key e) err)
            | Inr (CM_ReconcileResult _ failure resolution) \<Rightarrow>
                (case failureOf failure of
                   Some err \<Rightarrow> Inl (wrap_err (''reconcile '' @ eff_Key e) err)
                 | None \<Rightarrow> Inr (wire_Resolution resolution))
            | Inr _ \<Rightarrow> Inl (wrap_mid (''reconcile '' @ eff_Key e @ '': '') ErrProtocol ''expected a ReconcileResult'')), g))"

section \<open>The remote decider (decider.go)\<close>

definition remote_Decide :: "(session \<Rightarrow> Run \<Rightarrow> Event list \<Rightarrow> ending) \<Rightarrow> string \<Rightarrow> Run \<Rightarrow> Event list
    \<Rightarrow> Gateway \<Rightarrow> (go_error + Decision) \<times> Gateway" where
  "remote_Decide ask agent run history g =
     (let ctx = ''decide for run '' @ run_ID run in
      case pickDecider (run_AgentName run) (run_AgentVersion run) g of
        (Inl err, g) \<Rightarrow> (Inl (wrap_err ctx err), g)
      | (Inr sess, g) \<Rightarrow>
          ((case resultOf (call_result sess (ask sess run history)) of
              Inl err \<Rightarrow> Inl (wrap_err ctx err)
            | Inr (CM_DecideResult _ failure decision) \<Rightarrow>
                (case failureOf failure of
                   Some err \<Rightarrow> Inl (wrap_err (''agent '' @ agent) err)
                 | None \<Rightarrow>
                     (case wire_Decision decision of
                        Inl err \<Rightarrow> Inl (wrap_err ctx err)
                      | Inr d \<Rightarrow> Inr d))
            | Inr _ \<Rightarrow> Inl (wrap_mid (ctx @ '': '') ErrProtocol ''expected a DecideResult'')), g))"

end
