(* ===== verification/Worker.thy ===== *)
theory Worker
  imports Recovery Gateway
begin

text \<open>
  The ends of the system: the worker loop (internal/worker/worker.go), the in-process
  dispatcher (internal/dispatch/inproc/inproc.go), the fixed-list decider
  (internal/decider/static.go), the virtual clock (internal/clock/clock.go) and the HTTP handler
  for signals (internal/signalhttp/server.go).
\<close>

section \<open>The worker\<close>

definition heartbeat_interval :: "duration \<Rightarrow> engine \<Rightarrow> duration" where
  "heartbeat_interval configured e =
     (let i = (if configured \<le> 0 then e_leaseTTL e div 3 else configured) in if i \<le> 0 then second else i)"

text \<open>
  \<open>keepAlive\<close>: what one beat leads to. A transient error keeps the beat going, a refusal means
  the task is lost, a cancelled context ends the loop.
\<close>

datatype beat = Beating | Lost | Stopped

definition beat_of :: "go_error option \<Rightarrow> beat" where
  "beat_of r =
     (case r of
        None \<Rightarrow> Beating
      | Some err \<Rightarrow>
          if Is err ErrFenced \<or> Is err ErrNotFound then Lost
          else if isShutdown err then Stopped
          else Beating)"

text \<open>
  The beats while the tool runs, each after what the rest of the system did since the last one
  (\<open>gaps\<close>), until one of them ends the loop.
\<close>

fun keepAlive :: "engine \<Rightarrow> TaskID \<Rightarrow> int \<Rightarrow> (world \<Rightarrow> world) list \<Rightarrow> world \<Rightarrow> beat \<times> world" where
  "keepAlive e tid token [] w = (Beating, w)"
| "keepAlive e tid token (gap # gaps) w =
     (case Heartbeat e tid token (gap w) of
        (r, w) \<Rightarrow>
          (case beat_of r of
             Beating \<Rightarrow> keepAlive e tid token gaps w
           | b \<Rightarrow> (b, w)))"

text \<open>
  \<open>execute\<close>: claim, run the tool while beating, report unless ownership was lost. Failures to
  claim or to report are logged and dropped. The beats run beside the tool; here those of
  \<open>before\<close> come before its call and those of \<open>after\<close> after it.
\<close>

definition worker_execute :: "engine \<Rightarrow> 'p Registry \<Rightarrow> string \<Rightarrow> (world \<Rightarrow> world) list \<Rightarrow> (world \<Rightarrow> world) list
    \<Rightarrow> TaskID \<Rightarrow> 'p sys \<Rightarrow> 'p sys option" where
  "worker_execute e tools wid before after tid x =
     (case in_world (ClaimTask e tid wid) x of
        (Inl err, x) \<Rightarrow> Some x
      | (Inr claim, x) \<Rightarrow>
          let token = lease_Token (cl_Lease claim);
              (b, x) = in_world (keepAlive e tid token before) x;
              (result, x) = Execute e tools (cl_Task claim) x;
              (b, x) = in_world (\<lambda>w. if b = Beating then keepAlive e tid token after w else (b, w)) x
          in if b = Lost then Some x
             else (case (case result of
                       Inl err \<Rightarrow> FailTask e tid token err (sys_world x)
                     | Inr out \<Rightarrow> CompleteTask e tid token out (sys_world x)) of
                     None \<Rightarrow> None
                   | Some (_, w) \<Rightarrow> Some (x\<lparr>sys_world := w\<rparr>)))"

section \<open>The in-process dispatcher\<close>

record Dispatcher =
  dp_ch :: "TaskID list"
  dp_cap :: nat
  dp_closed :: bool

definition Inproc_New :: "int \<Rightarrow> Dispatcher" where
  "Inproc_New buffer = \<lparr>dp_ch = [], dp_cap = (if buffer < 1 then 1 else nat buffer), dp_closed = False\<rparr>"

text \<open>
  A \<open>select\<close> takes any of its ready cases: the operations give the list of what they may
  return, and the empty list is a call that blocks. \<open>ctx\<close> is the context's error once it is done.
\<close>

definition Inproc_Publish :: "go_error option \<Rightarrow> TaskID \<Rightarrow> Dispatcher \<Rightarrow> (go_error option \<times> Dispatcher) list" where
  "Inproc_Publish ctx tid d =
     (if dp_closed d then [(Some (sentinel_err ErrDispatcherClosed), d)]
      else (if length (dp_ch d) < dp_cap d then [(None, d\<lparr>dp_ch := dp_ch d @ [tid]\<rparr>)] else [])
         @ (case ctx of None \<Rightarrow> [] | Some err \<Rightarrow> [(Some err, d)]))"

definition Inproc_Claim :: "go_error option \<Rightarrow> Dispatcher \<Rightarrow> ((go_error + TaskID) \<times> Dispatcher) list" where
  "Inproc_Claim ctx d =
     (case dp_ch d of
        tid # rest \<Rightarrow> [(Inr tid, d\<lparr>dp_ch := rest\<rparr>)]
      | [] \<Rightarrow>
          (if dp_closed d then [(Inl (sentinel_err ErrDispatcherClosed), d)] else [])
          @ (case ctx of None \<Rightarrow> [] | Some err \<Rightarrow> [(Inl err, d)]))"

definition Inproc_Close :: "Dispatcher \<Rightarrow> Dispatcher" where
  "Inproc_Close d = d\<lparr>dp_closed := True\<rparr>"

section \<open>The fixed-list decider\<close>

record StaticStep =
  ss_Tool :: string
  ss_Payload :: raw

definition completedSteps :: "Event list \<Rightarrow> nat" where
  "completedSteps history = length (filter (\<lambda>ev. ev_Type ev = EventTaskCompleted) history)"

definition lastResult :: "Event list \<Rightarrow> go_error + raw" where
  "lastResult history =
     (case List.find (\<lambda>ev. ev_Type ev = EventTaskCompleted) (rev history) of
        None \<Rightarrow> Inr RawNil
      | Some ev \<Rightarrow>
          (case Decode_TaskCompleted ev of
             (_, Some err) \<Rightarrow> Inl err
           | ((_, result), None) \<Rightarrow> Inr result))"

definition Static_Decide :: "StaticStep list \<Rightarrow> Run \<Rightarrow> Event list \<Rightarrow> go_error + Decision" where
  "Static_Decide steps run history =
     (let n = completedSteps history in
      if n < length steps then
        Inr (zero_decision\<lparr>d_Kind := DecideCallTool, d_StepID := Step (int n + 1),
          d_TaskType := ss_Tool (steps ! n), d_Payload := ss_Payload (steps ! n)\<rparr>)
      else (case lastResult history of
              Inl err \<Rightarrow> Inl (wrap_err (''decide for run '' @ run_ID run) err)
            | Inr output \<Rightarrow> Inr (zero_decision\<lparr>d_Kind := DecideComplete, d_Output := output\<rparr>)))"

section \<open>The virtual clock\<close>

definition Virtual_Now :: "world \<Rightarrow> time" where "Virtual_Now w = w_now w"

definition Virtual_Advance :: "duration \<Rightarrow> world \<Rightarrow> world" where
  "Virtual_Advance d w = w\<lparr>w_now := time_Add (w_now w) d\<rparr>"

definition Virtual_Set :: "time \<Rightarrow> world \<Rightarrow> world" where "Virtual_Set t w = w\<lparr>w_now := t\<rparr>"

section \<open>Signals over HTTP\<close>

datatype response =
    BadRequest | TooLarge | NotFound | Conflict | InternalError | Accepted RunID SignalID string StepID

definition maxBody :: nat where "maxBody = 1048576"

text \<open>
  The body: \<open>None\<close> when it could not be read; otherwise its length and what it holds.
  \<open>json.Valid\<close> accepts exactly the texts of documents. The handler draws a missing key from a
  source of its own (\<open>ids\<close>).
\<close>

definition http_deliver :: "(nat \<Rightarrow> SignalID) \<Rightarrow> engine \<Rightarrow> RunID \<Rightarrow> string \<Rightarrow> string \<Rightarrow> (nat \<times> raw) option \<Rightarrow> world
    \<Rightarrow> (response \<times> world) option" where
  "http_deliver ids e runID name idempotencyKey body w =
     (if runID = [] \<or> name = [] then Some (BadRequest, w)
      else
        let (sid, w) = (if idempotencyKey = []
              then (ids (w_effectIDs w), w\<lparr>w_effectIDs := Suc (w_effectIDs w)\<rparr>)
              else (idempotencyKey, w))
        in case body of
             None \<Rightarrow> Some (BadRequest, w)
           | Some (len, b) \<Rightarrow>
               if maxBody < len then Some (TooLarge, w)
               else if 0 < len \<and> (case b of RawJSON _ \<Rightarrow> False | _ \<Rightarrow> True) then Some (BadRequest, w)
               else
                 let payload = (if 0 < len then b else RawNil) in
                 (case Engine_Signal e \<lparr>sig_RunID = runID, sig_ID = sid, sig_Name = name, sig_Payload = payload,
                        sig_CreatedAt = zero_time\<rparr> w of
                    None \<Rightarrow> None
                  | Some (Some err, w) \<Rightarrow>
                      Some (if Is err ErrNotFound then NotFound
                            else if Is err ErrInvalidTransition then Conflict
                            else InternalError, w)
                  | Some (None, w) \<Rightarrow>
                      Some (Accepted runID sid name
                        (case PendingWait (History (w_st w) runID) of
                           Some wt \<Rightarrow> if wait_Kind wt = WaitSignal \<and> wait_Signal wt = name then wait_StepID wt else []
                         | None \<Rightarrow> []), w)))"

end
