(* ===== verification/Operator.thy ===== *)
theory Operator
  imports Worker
begin

text \<open>
  The operator's commands (cmd/veya): starting and showing runs, sending signals, listing the
  effects whose outcome is unknown and recording what a person has established about one. Flags
  are given parsed, as the flag package leaves them; \<open>opened\<close> is what opening the store came to.
  What a command prints is the value it returns, before it is laid out as text.
\<close>

section \<open>Routing of the command line (main.go, effects.go)\<close>

datatype effects_command = EffectsList "string list" | EffectsShow "string list" | EffectsResolve "string list"

datatype run_command = RunStart "string list" | RunShow "string list" | RunHistory "string list"

datatype command =
    Usage | CmdMigrate "string list" | CmdRun run_command | CmdEffects effects_command
  | CmdSignal "string list" | CmdOutbox "string list"

text \<open>Indexing \<open>args [0][0]\<close> of an empty argument panics: \<open>None\<close>.\<close>

definition route_effects :: "string list \<Rightarrow> (go_error + effects_command) option" where
  "route_effects args =
     (case args of
        [] \<Rightarrow> Some (Inr (EffectsList []))
      | a # rest \<Rightarrow>
          if a = ''list'' then Some (Inr (EffectsList rest))
          else if a = ''show'' then Some (Inr (EffectsShow rest))
          else if a = ''resolve'' then Some (Inr (EffectsResolve rest))
          else case a of
            [] \<Rightarrow> None
          | c # _ \<Rightarrow> if c = CHR ''-'' then Some (Inr (EffectsList args))
                     else Some (Inl (errors_New (''effects: unknown subcommand '' @ a))))"

definition route_run :: "string list \<Rightarrow> go_error + run_command" where
  "route_run args =
     (case args of
        [] \<Rightarrow> Inl (errors_New ''run: expected start, show or history'')
      | a # rest \<Rightarrow>
          if a = ''start'' then Inr (RunStart rest)
          else if a = ''show'' then Inr (RunShow rest)
          else if a = ''history'' then Inr (RunHistory rest)
          else Inl (errors_New (''run: unknown subcommand '' @ a)))"

definition route :: "string list \<Rightarrow> (go_error + command) option" where
  "route args =
     (case args of
        [] \<Rightarrow> Some (Inr Usage)
      | a # rest \<Rightarrow>
          if a = ''migrate'' then Some (Inr (CmdMigrate rest))
          else if a = ''run'' then Some (map_sum id CmdRun (route_run rest))
          else if a = ''effects'' then map_option (map_sum id CmdEffects) (route_effects rest)
          else if a = ''signal'' then Some (Inr (CmdSignal rest))
          else if a = ''outbox'' then Some (Inr (CmdOutbox rest))
          else if a = ''help'' \<or> a = ''-h'' \<or> a = ''--help'' then Some (Inr Usage)
          else Some (Inl (errors_New (''unknown command '' @ a))))"

section \<open>Runs (main.go)\<close>

text \<open>
  A run started here is recorded and left to whichever runtime serves its agent: the identity
  comes from the generator \<open>ids\<close>, and nothing is advanced.
\<close>

definition started_run :: "RunID \<Rightarrow> string \<Rightarrow> string \<Rightarrow> raw \<Rightarrow> Run" where
  "started_run rid agent version input =
     \<lparr>run_ID = rid, run_AgentName = agent, run_AgentVersion = version, run_Status = RunRunning,
      run_Version = 0, run_Input = input, run_Output = RawNil, run_LastError = [], run_AvailableAt = None,
      run_CreatedAt = zero_time, run_UpdatedAt = zero_time, run_CompletedAt = None\<rparr>"

definition cmdRunStart :: "(nat \<Rightarrow> RunID) \<Rightarrow> go_error option \<Rightarrow> string \<Rightarrow> string \<Rightarrow> raw \<Rightarrow> world
    \<Rightarrow> (go_error + RunID) \<times> world" where
  "cmdRunStart ids opened agent version input w =
     (case input of
        RawJSON _ \<Rightarrow>
          (case opened of
             Some err \<Rightarrow> (Inl err, w)
           | None \<Rightarrow>
               let rid = ids (w_runIDs w); w = w\<lparr>w_runIDs := Suc (w_runIDs w)\<rparr> in
               (case in_tx (start_tx (w_now w) (started_run rid agent version input)) w of
                  (Inl err, w) \<Rightarrow> (Inl (wrap_err ''start run'' err), w)
                | (Inr _, w) \<Rightarrow> (Inr rid, w)))
      | _ \<Rightarrow> (Inl (errors_New ''--input is not valid JSON''), w))"

text \<open>\<open>describeWait\<close>: what a suspension is on, and when it ends.\<close>

datatype wait_on = Sleeping | OnSignal string | OnOther string

datatype wait_due = NoWakeUp | DueAgo time duration | DueIn time duration

definition describeWait :: "Wait \<Rightarrow> time \<Rightarrow> wait_on \<times> StepID \<times> wait_due" where
  "describeWait wt now =
     ((case wait_Kind wt of
         WaitTimer \<Rightarrow> Sleeping
       | WaitSignal \<Rightarrow> OnSignal (wait_Signal wt)
       | WaitKindOther k \<Rightarrow> OnOther k),
      wait_StepID wt,
      (if IsIndefinite (wait_Until wt) then NoWakeUp
       else if Wait_Elapsed wt now then DueAgo (wait_Until wt) (time_Sub now (wait_Until wt))
       else DueIn (wait_Until wt) (time_Sub (wait_Until wt) now)))"

definition cmdRunShow :: "go_error option \<Rightarrow> string list \<Rightarrow> world
    \<Rightarrow> go_error + (Run \<times> (wait_on \<times> StepID \<times> wait_due) option \<times> Task list)" where
  "cmdRunShow opened args w =
     (case args of
        [rid] \<Rightarrow>
          (case opened of
             Some err \<Rightarrow> Inl err
           | None \<Rightarrow>
               (case GetRun (w_st w) rid of
                  Inl err \<Rightarrow> Inl err
                | Inr r \<Rightarrow> Inr (r, map_option (\<lambda>wt. describeWait wt (w_now w)) (PendingWait (History (w_st w) rid)),
                                ListTasks (w_st w) rid)))
      | _ \<Rightarrow> Inl (errors_New ''run show: expected exactly one RUN_ID''))"

definition cmdRunHistory :: "go_error option \<Rightarrow> string list \<Rightarrow> world \<Rightarrow> go_error + Event list" where
  "cmdRunHistory opened args w =
     (case args of
        [rid] \<Rightarrow>
          (case opened of
             Some err \<Rightarrow> Inl err
           | None \<Rightarrow>
               (case History (w_st w) rid of
                  [] \<Rightarrow> Inl (wrap (''run '' @ rid) ErrNotFound)
                | history \<Rightarrow> Inr history))
      | _ \<Rightarrow> Inl (errors_New ''run history: expected exactly one RUN_ID''))"

section \<open>Signals and the outbox (signal.go, outbox.go)\<close>

datatype signal_notice = AwaitedAt StepID | NotAwaitedYet | NoNotice

text \<open>An empty \<open>--payload\<close> is no payload, an empty \<open>--id\<close> a generated one.\<close>

definition cmdSignal :: "(nat \<Rightarrow> SignalID) \<Rightarrow> go_error option \<Rightarrow> string list \<Rightarrow> raw \<Rightarrow> string \<Rightarrow> world
    \<Rightarrow> (go_error + (SignalID \<times> signal_notice)) \<times> world" where
  "cmdSignal ids opened args payload sid w =
     (case args of
        [rid, name] \<Rightarrow>
          let (sid, w) = (if sid = [] then (ids (w_effectIDs w), w\<lparr>w_effectIDs := Suc (w_effectIDs w)\<rparr>)
                          else (sid, w)) in
          (case (payload, opened) of
             (RawBytes _, _) \<Rightarrow> (Inl (errors_New ''signal: --payload is not valid JSON''), w)
           | (_, Some err) \<Rightarrow> (Inl err, w)
           | (_, None) \<Rightarrow>
               (case DeliverSignal \<lparr>sig_RunID = rid, sig_ID = sid, sig_Name = name, sig_Payload = payload,
                      sig_CreatedAt = zero_time\<rparr> w of
                  (Some err, w) \<Rightarrow> (Inl err, w)
                | (None, w) \<Rightarrow>
                    (case GetRun (w_st w) rid of
                       Inl err \<Rightarrow> (Inl err, w)
                     | Inr run \<Rightarrow>
                         (Inr (sid,
                            (case PendingWait (History (w_st w) rid) of
                               Some wt \<Rightarrow>
                                 if wait_Signal wt = name then AwaitedAt (wait_StepID wt)
                                 else if run_Status run = RunRunning then NotAwaitedYet else NoNotice
                             | None \<Rightarrow> if run_Status run = RunRunning then NotAwaitedYet else NoNotice)), w))))
      | _ \<Rightarrow> (Inl (errors_New ''signal: expected RUN_ID and a signal NAME''), w))"

definition cmdOutbox :: "go_error option \<Rightarrow> int \<Rightarrow> world \<Rightarrow> go_error + Delivery list" where
  "cmdOutbox opened limit w =
     (case opened of Some err \<Rightarrow> Inl err | None \<Rightarrow> Inr (PendingDeliveries (w_st w) (w_now w) limit))"

section \<open>The effect ledger (effects.go)\<close>

definition cmdEffectsList :: "go_error option \<Rightarrow> RunID \<Rightarrow> int \<Rightarrow> world \<Rightarrow> go_error + Effect list" where
  "cmdEffectsList opened rid limit w =
     (case opened of
        Some err \<Rightarrow> Inl err
      | None \<Rightarrow> Inr (if rid \<noteq> [] then ListEffects (w_st w) rid else UnresolvedEffects (w_st w) (w_now w) limit))"

definition cmdEffectsShow :: "go_error option \<Rightarrow> string list \<Rightarrow> world \<Rightarrow> go_error + Effect" where
  "cmdEffectsShow opened args w =
     (case args of
        [key] \<Rightarrow> (case opened of Some err \<Rightarrow> Inl err | None \<Rightarrow> Store_GetEffect (w_st w) key)
      | _ \<Rightarrow> Inl (errors_New ''effects show: expected exactly one IDEMPOTENCY_KEY''))"

record resolve_flags =
  rf_committed :: bool
  rf_notExecuted :: bool
  rf_ref :: string
  rf_note :: string

text \<open>
  The one transaction of a resolution: a row left RUNNING is first marked unknown, then the row
  moves to what the person found and the run's history says so.
\<close>

definition resolve_tx :: "time \<Rightarrow> Effect \<Rightarrow> EffectStatus \<Rightarrow> string \<Rightarrow> string \<Rightarrow> unit tx" where
  "resolve_tx now existing target ref detail =
     tx_bind (if eff_Status existing = EffectRunning
              then tx_bind (TransitionEffect now (eff_Key existing) EffectRunning EffectUnknown owner_stopped)
                     (\<lambda>_. tx_return EffectUnknown)
              else tx_return (eff_Status existing)) (\<lambda>frm.
     tx_bind (TransitionEffect now (eff_Key existing) frm target
                \<lparr>eo_Response = RawNil, eo_ExternalRef = ref, eo_Error = (if target = EffectFailed then detail else [])\<rparr>) (\<lambda>_.
     Append now (eff_RunID existing) EventEffectReconciled []
       (EffectData (eff_TaskID existing) (eff_Key existing) (eff_Type existing) (eff_Class existing) target
          ref RawNil [] detail)))"

definition resolve_detail :: "resolve_flags \<Rightarrow> string" where
  "resolve_detail f =
     (let detail = (if rf_committed f then ''operator confirmed this happened ('' @ rf_ref f @ '')''
                    else ''operator confirmed this never happened'')
      in if rf_note f \<noteq> [] then detail @ '': '' @ rf_note f else detail)"

definition cmdEffectsResolve :: "go_error option \<Rightarrow> resolve_flags \<Rightarrow> string list \<Rightarrow> world
    \<Rightarrow> (go_error + EffectStatus) \<times> world" where
  "cmdEffectsResolve opened f args w =
     (case args of
        [key] \<Rightarrow>
          if rf_committed f = rf_notExecuted f then
            (Inl (errors_New ''effects resolve: pass exactly one of --committed or --not-executed''), w)
          else if rf_committed f \<and> rf_ref f = [] then
            (Inl (errors_New ''effects resolve: --committed needs --ref, the provider's identifier for what happened''), w)
          else (case opened of
            Some err \<Rightarrow> (Inl err, w)
          | None \<Rightarrow>
              (case Store_GetEffect (w_st w) key of
                 Inl err \<Rightarrow> (Inl err, w)
               | Inr existing \<Rightarrow>
                   if EffectStatus_IsResolved (eff_Status existing) then
                     (Inl (errors_New (''effect '' @ key @ '' is already '' @ EffectStatus_text (eff_Status existing)
                        @ ''; it needs no resolution'')), w)
                   else
                     let target = (if rf_committed f then EffectCommitted else EffectFailed) in
                     (case in_tx (resolve_tx (w_now w) existing target (rf_ref f) (resolve_detail f)) w of
                        (Inl err, w) \<Rightarrow> (Inl (wrap_err (''resolve effect '' @ key) err), w)
                      | (Inr _, w) \<Rightarrow> (Inr target, w))))
      | _ \<Rightarrow> (Inl (errors_New ''effects resolve: expected exactly one IDEMPOTENCY_KEY''), w))"

end
