(* ===== verification/SystemLaws.thy ===== *)
theory SystemLaws
  imports Operator
begin

text \<open>
  What holds of every component because it changes the store only through transactions. The
  contract \<open>system_relation\<close> lists the transactions the program runs; a relation that respects
  them is respected by every operation of the engine, the executor, the reconciler, the reaper,
  the relay and the worker, proved once. A relation that respects the primitive operations of
  the store (\<open>tx_relation\<close>) respects the transactions, so the second contract gives the first.
\<close>

section \<open>What the engine puts into transactions\<close>

lemma fresh_new_task [simp]: "fresh_task (new_task e r i st ty p)"
  by (simp add: fresh_task_def new_task_def maxAttempts_def defaultMaxAttempts_def)

lemma fresh_new_run [simp]: "fresh_run (new_run e i input)"
  by (simp add: fresh_run_def new_run_def)

lemma fresh_fresh_row [simp]: "fresh_effect (fresh_row i t c k)"
  by (simp add: fresh_effect_def fresh_row_def)

lemma new_task_run [simp]: "task_RunID (new_task e r i st ty p) = r"
  by (simp add: new_task_def)

lemma fan_tasks_new: "t \<in> set (fan_tasks e run d n) \<Longrightarrow> fresh_task t \<and> task_RunID t = run_ID run"
  by (auto simp: fan_tasks_def)

definition ends_run :: "EventType \<Rightarrow> bool" where
  "ends_run evt \<longleftrightarrow> evt = EventRunCompleted \<or> evt = EventRunFailed \<or> evt = EventRunCancelled"

definition starts_wait :: "EventType \<Rightarrow> bool" where
  "starts_wait evt \<longleftrightarrow> evt = EventTimerSet \<or> evt = EventSignalWaitStarted"

definition ends_wait :: "state \<Rightarrow> RunID \<Rightarrow> EventType \<Rightarrow> EventData \<Rightarrow> bool" where
  "ends_wait s rid evt data \<longleftrightarrow> evt = EventTimerFired \<or> evt = EventSignalWaitTimedOut
     \<or> (evt = EventSignalReceived \<and> (\<exists>n i p. data = SignalReceivedData n i p
          \<and> i \<notin> set (ConsumedSignals (events_of s rid))))"

definition effect_event :: "EventType option \<Rightarrow> bool" where
  "effect_event evt \<longleftrightarrow> evt = None \<or> evt = Some EventEffectCommitted \<or> evt = Some EventEffectFailed
     \<or> evt = Some EventEffectUnknown \<or> evt = Some EventEffectReconciled"

section \<open>The contract of the transactions\<close>

locale system_relation = store_preorder +
  assumes L_start: "store_ok s \<Longrightarrow> fresh_run r \<Longrightarrow> R s (snd (RunInTx (start_tx now r) s))"
    and L_dispatch: "store_ok s \<Longrightarrow> fresh_task t \<Longrightarrow> task_RunID t = run_ID run
      \<Longrightarrow> R s (snd (RunInTx (dispatch_tx now run t) s))"
    and L_fanout: "store_ok s \<Longrightarrow> (\<And>t. t \<in> set ts \<Longrightarrow> fresh_task t \<and> task_RunID t = run_ID run)
      \<Longrightarrow> R s (snd (RunInTx (fanout_tx now run st tools join ts) s))"
    and L_finish: "store_ok s \<Longrightarrow> RunStatus_IsTerminal (rs_Status nxt) \<Longrightarrow> ends_run evt
      \<Longrightarrow> R s (snd (RunInTx (finish_tx now run nxt evt data) s))"
    and L_park: "store_ok s \<Longrightarrow> starts_wait evt \<Longrightarrow> R s (snd (RunInTx (park_tx now run until evt st data) s))"
    and L_repark: "store_ok s \<Longrightarrow> R s (snd (RunInTx (repark_tx now run wt) s))"
    and L_resume: "store_ok s \<Longrightarrow> map_of (st_runs s) (run_ID run) = Some run \<Longrightarrow> ends_wait s (run_ID run) evt data
      \<Longrightarrow> R s (snd (RunInTx (resume_tx now run wt evt data) s))"
    and L_claim: "store_ok s \<Longrightarrow> R s (snd (RunInTx (claim_tx now ttl tid wid) s))"
    and L_heartbeat: "store_ok s \<Longrightarrow> R s (snd (RunInTx (ExtendLease now tid token expires) s))"
    and L_complete: "store_ok s \<Longrightarrow> R s (snd (RunInTx (complete_tx now tid token result) s))"
    and L_fail: "store_ok s \<Longrightarrow> R s (snd (RunInTx (fail_tx e now rnd tid token reason escalated) s))"
    and L_signal: "store_ok s \<Longrightarrow> R s (snd (RunInTx (signal_tx now sg) s))"
    and L_register: "store_ok s \<Longrightarrow> R s (snd (RunInTx (RegisterWorkerTx now wk) s))"
    and L_reclaim: "store_ok s \<Longrightarrow> R s (snd (RunInTx (reclaim_tx now stale) s))"
    and L_reserve: "store_ok s \<Longrightarrow> fresh_effect eff \<Longrightarrow> R s (snd (RunInTx (reserve_tx now task eff) s))"
    and L_effect: "store_ok s \<Longrightarrow> effect_event ev
      \<Longrightarrow> R s (snd (RunInTx (effect_tx now rid st eff ef et eo ev detail) s))"
    and L_escalate: "store_ok s \<Longrightarrow> R s (snd (RunInTx (escalate_tx now task eff reason) s))"
    and L_mark: "store_ok s \<Longrightarrow> R s (snd (RunInTx (mark_tx now eff) s))"
    and L_operator: "store_ok s \<Longrightarrow> R s (snd (RunInTx (resolve_tx now eff to ref detail) s))"
    and L_outcomes: "store_ok s \<Longrightarrow> R s (snd (RunInTx (mark_outcomes_tx delivered failed) s))"

context tx_relation
begin

lemma upholds_put_task [simp]: "fresh_task t \<Longrightarrow> upholds R (put_task now t)"
  by (auto simp: put_task_def upholds_fresh intro!: upholds_bind)

lemma upholds_fanout: "(\<And>t. t \<in> set ts \<Longrightarrow> fresh_task t) \<Longrightarrow> upholds R (fanout_tx now run st tools join ts)"
  by (auto simp: fanout_tx_def intro!: upholds_bind upholds_seq)

lemma upholds_assertToken [simp]: "upholds R (assertToken tid token)"
  by (auto simp: assertToken_def intro!: upholds_bind)

lemma upholds_requeue [simp]: "upholds R (requeue_tx now stale task fresh)"
  by (auto simp: requeue_tx_def Let_def intro!: upholds_bind)

lemma upholds_reclaim [simp]: "upholds R (reclaim_tx now stale)"
  by (auto simp: reclaim_tx_def intro!: upholds_bind upholds_try split: sum.split)

lemma upholds_transactions [simp]:
  "fresh_task t \<Longrightarrow> upholds R (dispatch_tx now run t)"
  "upholds R (finish_tx now run nxt evt data)"
  "upholds R (park_tx now run until evt st data)"
  "upholds R (repark_tx now run wt)"
  "upholds R (resume_tx now run wt evt data)"
  "fresh_run r \<Longrightarrow> upholds R (start_tx now r)"
  "upholds R (claim_tx now ttl tid wid)"
  "upholds R (complete_tx now tid token result)"
  "upholds R (fail_tx e now rnd tid token reason escalated)"
  "upholds R (signal_tx now sg)"
  "fresh_effect eff \<Longrightarrow> upholds R (reserve_tx now tk eff)"
  "upholds R (effect_tx now rid st eff ef et eo ev detail)"
  "upholds R (escalate_tx now tk eff reason)"
  "upholds R (mark_tx now eff)"
  "upholds R (resolve_tx now eff to ref detail)"
  by (auto simp: dispatch_tx_def finish_tx_def park_tx_def repark_tx_def
      resume_tx_def start_tx_def claim_tx_def complete_tx_def fail_tx_def signal_tx_def
      reserve_tx_def effect_tx_def escalate_tx_def mark_tx_def resolve_tx_def
      Let_def upholds_fresh intro!: upholds_bind split: option.split)

lemma upholds_outcomes [simp]: "upholds R (mark_outcomes_tx delivered failed)"
  by (auto simp: mark_outcomes_tx_def intro!: upholds_bind upholds_seq)

end

sublocale tx_relation \<subseteq> system_relation
  by unfold_locales (auto intro!: upholdsD upholds_RunInTx upholds_fanout)

section \<open>Every component respects the contract\<close>

definition along :: "(state \<Rightarrow> state \<Rightarrow> bool) \<Rightarrow> state \<Rightarrow> state \<Rightarrow> bool" where
  "along R s s' \<longleftrightarrow> (store_ok s \<longrightarrow> store_ok s' \<and> R s s')"

lemma unconsumedSignal_new:
  "unconsumedSignal s rid h wt = Some sg \<Longrightarrow> sig_ID sg \<notin> set (ConsumedSignals h)"
  by (auto simp: unconsumedSignal_def find_Some_iff)

lemma ConsumedSignals_Cons:
  "ConsumedSignals (e # es) =
     (if ev_Type e = EventSignalReceived \<and> snd (Decode_SignalReceived e) = None
      then [fst (snd (fst (Decode_SignalReceived e)))] else []) @ ConsumedSignals es"
  by (auto split: prod.split option.split)

lemma set_ConsumedSignals:
  "set (ConsumedSignals h) = {i. \<exists>e \<in> set h. ev_Type e = EventSignalReceived
     \<and> snd (Decode_SignalReceived e) = None \<and> i = fst (snd (fst (Decode_SignalReceived e)))}"
proof (induction h)
  case (Cons e h)
  then show ?case unfolding ConsumedSignals_Cons by auto
qed simp

lemma ConsumedSignals_History: "set (ConsumedSignals (History s r)) = set (ConsumedSignals (events_of s r))"
  by (simp add: set_ConsumedSignals History_def)

lemma waitIsOver_ends:
  assumes "waitIsOver w run (History (w_st w) (run_ID run)) wt = Some (evt, data)"
  shows "ends_wait (w_st w) (run_ID run) evt data"
  using assms
  by (auto simp: waitIsOver_def ends_wait_def ConsumedSignals_History [symmetric]
      split: WaitKind.splits option.splits if_splits dest!: unconsumedSignal_new)

lemma GetRun_ID: "store_ok s \<Longrightarrow> GetRun s rid = Inr run \<Longrightarrow> run_ID run = rid"
  by (auto simp: GetRun_def dest: run_status_valid_step split: option.splits)

context system_relation
begin

lemma along_refl [simp]: "along R s s"
  by (simp add: along_def R_refl)

lemma along_trans: "along R s t \<Longrightarrow> along R t u \<Longrightarrow> along R s u"
  by (auto simp: along_def intro: R_trans)

lemma in_tx_along:
  assumes "in_tx m w = (r, w')" and "upholds keeps_ok m"
    and "store_ok (w_st w) \<Longrightarrow> R (w_st w) (snd (RunInTx m (w_st w)))"
  shows "along R (w_st w) (w_st w')"
proof -
  have "w_st w' = snd (RunInTx m (w_st w))"
    using assms(1) by (auto simp: in_tx_def split: prod.splits)
  moreover have "keeps_ok (w_st w) (snd (RunInTx m (w_st w)))"
    by (rule integrity.upholdsD) (rule integrity.upholds_RunInTx [OF assms(2)])
  ultimately show ?thesis using assms(3) by (simp add: along_def keeps_ok_def)
qed

lemma along_tx:
  "in_tx (start_tx now r) w = (x, w') \<Longrightarrow> fresh_run r \<Longrightarrow> along R (w_st w) (w_st w')"
  "in_tx (dispatch_tx now run t) w = (x, w') \<Longrightarrow> fresh_task t \<Longrightarrow> task_RunID t = run_ID run
     \<Longrightarrow> along R (w_st w) (w_st w')"
  "in_tx (finish_tx now run nxt evt data) w = (x, w') \<Longrightarrow> RunStatus_IsTerminal (rs_Status nxt)
     \<Longrightarrow> ends_run evt \<Longrightarrow> along R (w_st w) (w_st w')"
  "in_tx (park_tx now run until evt st data) w = (x, w') \<Longrightarrow> starts_wait evt \<Longrightarrow> along R (w_st w) (w_st w')"
  "in_tx (repark_tx now run wt) w = (x, w') \<Longrightarrow> along R (w_st w) (w_st w')"
  "in_tx (claim_tx now ttl tid wid) w = (y, w') \<Longrightarrow> along R (w_st w) (w_st w')"
  "in_tx (ExtendLease now tid token expires) w = (x, w') \<Longrightarrow> along R (w_st w) (w_st w')"
  "in_tx (complete_tx now tid token result) w = (z, w') \<Longrightarrow> along R (w_st w) (w_st w')"
  "in_tx (fail_tx e now rnd tid token reason escalated) w = (v, w') \<Longrightarrow> along R (w_st w) (w_st w')"
  "in_tx (signal_tx now sg) w = (x, w') \<Longrightarrow> along R (w_st w) (w_st w')"
  "in_tx (RegisterWorkerTx now wk) w = (x, w') \<Longrightarrow> along R (w_st w) (w_st w')"
  "in_tx (reclaim_tx now stale) w = (u, w') \<Longrightarrow> along R (w_st w) (w_st w')"
  "in_tx (reserve_tx now tk eff) w = (x, w') \<Longrightarrow> fresh_effect eff \<Longrightarrow> along R (w_st w) (w_st w')"
  "in_tx (effect_tx now rid st eff ef et eo ev detail) w = (x, w') \<Longrightarrow> effect_event ev
     \<Longrightarrow> along R (w_st w) (w_st w')"
  "in_tx (escalate_tx now tk eff reason) w = (x, w') \<Longrightarrow> along R (w_st w) (w_st w')"
  "in_tx (mark_tx now eff) w = (x, w') \<Longrightarrow> along R (w_st w) (w_st w')"
  "in_tx (resolve_tx now eff to ref detail) w = (x, w') \<Longrightarrow> along R (w_st w) (w_st w')"
  "in_tx (mark_outcomes_tx delivered failed) w = (x, w') \<Longrightarrow> along R (w_st w) (w_st w')"
  by (erule in_tx_along; simp add: L_start L_dispatch L_finish L_park L_repark L_claim L_heartbeat
      L_complete L_fail L_signal L_register L_reclaim L_reserve L_effect L_escalate L_mark L_operator L_outcomes)+

lemma along_fanout:
  "in_tx (fanout_tx now run st tools join ts) w = (x, w')
     \<Longrightarrow> (\<And>t. t \<in> set ts \<Longrightarrow> fresh_task t \<and> task_RunID t = run_ID run) \<Longrightarrow> along R (w_st w) (w_st w')"
  by (erule in_tx_along) (auto intro: integrity.upholds_fanout L_fanout)

lemma along_resume:
  "in_tx (resume_tx now run wt evt data) w = (x, w') \<Longrightarrow> map_of (st_runs (w_st w)) (run_ID run) = Some run
     \<Longrightarrow> (store_ok (w_st w) \<Longrightarrow> ends_wait (w_st w) (run_ID run) evt data)
     \<Longrightarrow> along R (w_st w) (w_st w')"
  by (erule in_tx_along) (auto intro: L_resume)

lemma dispatch_R: "dispatch e run d w = (r, w') \<Longrightarrow> along R (w_st w) (w_st w')"
  by (auto simp: dispatch_def Let_def wake_def split: prod.splits sum.splits if_splits dest!: along_tx)

lemma finish_R:
  "finish run nxt evt data w = (r, w') \<Longrightarrow> RunStatus_IsTerminal (rs_Status nxt) \<Longrightarrow> ends_run evt
     \<Longrightarrow> along R (w_st w) (w_st w')"
  by (auto simp: finish_def split: prod.splits sum.splits if_splits dest!: along_tx)

lemma finish_failed_R:
  "finish run (failed_state msg) EventRunFailed data w = (r, w') \<Longrightarrow> along R (w_st w) (w_st w')"
  by (erule finish_R) (simp_all add: failed_state_def RunStatus_IsTerminal_def ends_run_def)

lemma along_fan_tasks:
  "in_tx (fanout_tx now run st tools join (fan_tasks e run d n)) w = (x, w') \<Longrightarrow> along R (w_st w) (w_st w')"
  by (erule along_fanout) (rule fan_tasks_new)

lemma dispatchParallel_R: "dispatchParallel e run d w = (r, w') \<Longrightarrow> along R (w_st w) (w_st w')"
  by (auto simp: dispatchParallel_def Let_def wake_def
      split: prod.splits sum.splits if_splits option.splits
      dest!: finish_failed_R along_fan_tasks)

lemma park_R:
  "park run until evt st data w = (r, w') \<Longrightarrow> starts_wait evt \<Longrightarrow> along R (w_st w) (w_st w')"
  by (auto simp: park_def split: prod.splits sum.splits if_splits dest!: along_tx)

lemma repark_R: "repark run wt w = (r, w') \<Longrightarrow> along R (w_st w) (w_st w')"
  by (auto simp: repark_def split: prod.splits sum.splits if_splits dest!: along_tx)

lemma resume_R:
  assumes "resume run (History (w_st w) (run_ID run)) w = (r, w')"
    and there: "map_of (st_runs (w_st w)) (run_ID run) = Some run"
  shows "along R (w_st w) (w_st w')"
proof (cases "PendingWait (History (w_st w) (run_ID run))")
  case None
  with assms(1) show ?thesis by (simp add: resume_def)
next
  case (Some wt)
  show ?thesis
  proof (cases "waitIsOver w run (History (w_st w) (run_ID run)) wt")
    case None
    with Some assms(1) show ?thesis
      by (auto simp: resume_def split: prod.splits option.splits if_splits dest!: repark_R)
  next
    case over: (Some ed)
    obtain evt data where ed: "ed = (evt, data)" by (cases ed)
    have ends: "ends_wait (w_st w) (run_ID run) evt data"
      using over ed by (simp add: waitIsOver_ends)
    have res: "in_tx (resume_tx (w_now w) run wt evt data) w = (x, w1) \<Longrightarrow> along R (w_st w) (w_st w1)" for x w1
      by (erule along_resume) (rule there, rule ends)
    show ?thesis using Some over ed assms(1)
      by (auto simp: resume_def split: prod.splits sum.splits if_splits dest!: res)
  qed
qed

lemma act_R: "act e run d w = (p, w') \<Longrightarrow> along R (w_st w) (w_st w')"
  by (auto simp: act_def apfst_def map_prod_def Let_def ends_run_def starts_wait_def RunStatus_IsTerminal_def
      split: DecisionKind.splits prod.splits option.splits if_splits
      dest!: dispatch_R dispatchParallel_R park_R finish_failed_R finish_R)

lemma decide_R: "decide e run h w = (p, w') \<Longrightarrow> along R (w_st w) (w_st w')"
  by (auto simp: decide_def Let_def apfst_def map_prod_def
      split: sum.splits if_splits prod.splits dest!: act_R finish_failed_R)

lemma advance_pass_R:
  assumes "advance_pass e rid w = (p, w')"
  shows "along R (w_st w) (w_st w')"
proof (cases "store_ok (w_st w)")
  case ok: True
  show ?thesis
  proof (cases "GetRun (w_st w) rid")
    case (Inl err)
    with assms show ?thesis by (simp add: advance_pass_def)
  next
    case (Inr run)
    then have "run_ID run = rid" using GetRun_ID [OF ok] by simp
    moreover from this Inr have "map_of (st_runs (w_st w)) (run_ID run) = Some run"
      by (simp add: GetRun_def split: option.splits)
    ultimately show ?thesis using Inr assms
      by (auto simp: advance_pass_def split: sum.splits if_splits prod.splits option.splits
          dest!: resume_R decide_R intro: along_trans)
  qed
qed (simp add: along_def)

lemma Advance_R: "Advance e rid w = Some (r, w') \<Longrightarrow> along R (w_st w) (w_st w')"
proof -
  have "along R (w_st w) (w_st (snd y))" if "Advance e rid w = Some y" for y
    by (rule Advance.raw_induct [where P = "\<lambda>e rid w y. along R (w_st w) (w_st (snd y))", OF _ that])
      (auto split: prod.splits pass.splits dest!: advance_pass_R intro: along_trans)
  then show "Advance e rid w = Some (r, w') \<Longrightarrow> ?thesis" by fastforce
qed

lemma StartRun_R: "StartRun e input w = Some (r, w') \<Longrightarrow> along R (w_st w) (w_st w')"
  by (auto simp: StartRun_def Let_def split: prod.splits sum.splits option.splits
      dest!: along_tx Advance_R intro: along_trans)

lemma ClaimTask_R: "ClaimTask e tid wid w = (r, w') \<Longrightarrow> along R (w_st w) (w_st w')"
  by (auto simp: ClaimTask_def split: prod.splits sum.splits dest!: along_tx)

lemma Heartbeat_R: "Heartbeat e tid token w = (r, w') \<Longrightarrow> along R (w_st w) (w_st w')"
  by (auto simp: Heartbeat_def split: prod.splits sum.splits dest!: along_tx)

lemma CompleteTask_R: "CompleteTask e tid token result w = Some (r, w') \<Longrightarrow> along R (w_st w) (w_st w')"
  by (auto simp: CompleteTask_def split: prod.splits sum.splits if_splits
      dest!: along_tx Advance_R intro: along_trans)

lemma failRun_R: "failRun rid reason w = (r, w') \<Longrightarrow> along R (w_st w) (w_st w')"
  by (auto simp: failRun_def split: sum.splits if_splits dest!: finish_failed_R)

lemma FailTask_R: "FailTask e tid token cause w = Some (r, w') \<Longrightarrow> along R (w_st w) (w_st w')"
  by (auto simp: FailTask_def Let_def wake_def split: prod.splits sum.splits if_splits option.splits
      dest!: along_tx Advance_R failRun_R intro: along_trans)

lemma RegisterWorker_R: "RegisterWorker wid ty w = (r, w') \<Longrightarrow> along R (w_st w) (w_st w')"
  by (auto simp: RegisterWorker_def split: prod.splits sum.splits dest!: along_tx)

lemma DeliverSignal_R: "DeliverSignal sg w = (r, w') \<Longrightarrow> along R (w_st w) (w_st w')"
  by (auto simp: DeliverSignal_def split: prod.splits sum.splits if_splits dest!: along_tx)

lemma Engine_Signal_R: "Engine_Signal e sg w = Some (r, w') \<Longrightarrow> along R (w_st w) (w_st w')"
  by (auto simp: Engine_Signal_def split: prod.splits option.splits
      dest!: DeliverSignal_R Advance_R intro: along_trans)

lemma scan_publish_st: "w_st (scan_publish e ts w) = w_st w"
  by (induction ts arbitrary: w) (auto simp: publish_def Let_def split: prod.splits)

lemma scan_advance_R: "scan_advance e rids w = Some w' \<Longrightarrow> along R (w_st w) (w_st w')"
  by (induction rids arbitrary: w)
    (auto split: option.splits prod.splits if_splits dest!: Advance_R intro: along_trans)

lemma ScanOnce_R: "ScanOnce e rt w = Some w' \<Longrightarrow> along R (w_st w) (w_st w')"
  using scan_advance_R [of e _ "scan_publish e (PendingTasks (w_st w) (rt_batch rt)) w" w']
  by (simp add: ScanOnce_def Let_def scan_publish_st)

text \<open>The executor and the reconciler; \<open>sys\<close> states are related through their stores.\<close>

lemma in_world_R: "in_world f x = (r, x') \<Longrightarrow> (\<And>a w'. f (sys_world x) = (a, w') \<Longrightarrow> along R (w_st (sys_world x)) (w_st w'))
    \<Longrightarrow> along R (w_st (sys_world x)) (w_st (sys_world x'))"
  by (auto simp: in_world_def split: prod.splits)

lemma call_R: "call d c x = (r, x') \<Longrightarrow> sys_world x' = sys_world x"
  by (auto simp: call_def split: prod.splits)

lemma transition_R:
  "transition task eff frm to out evt x = (r, x') \<Longrightarrow> effect_event evt
     \<Longrightarrow> along R (w_st (sys_world x)) (w_st (sys_world x'))"
  unfolding transition_def by (erule in_world_R) (auto dest!: along_tx)

lemma escalate_R: "escalate task eff reason x = (r, x') \<Longrightarrow> along R (w_st (sys_world x)) (w_st (sys_world x'))"
  unfolding escalate_def by (auto split: prod.splits elim!: in_world_R dest!: along_tx)

lemma record_failure_R:
  "record_failure task eff err x = (r, x') \<Longrightarrow> along R (w_st (sys_world x)) (w_st (sys_world x'))"
  by (auto simp: record_failure_def Let_def effect_event_def split: prod.splits sum.splits if_splits
      dest!: transition_R)

lemma perform_R: "perform task d eff x = (r, x') \<Longrightarrow> along R (w_st (sys_world x)) (w_st (sys_world x'))"
  by (auto simp: perform_def effect_event_def split: prod.splits sum.splits
      dest!: transition_R call_R record_failure_R intro: along_trans)

lemma query_R: "query task d eff x = (r, x') \<Longrightarrow> along R (w_st (sys_world x)) (w_st (sys_world x'))"
  by (auto simp: query_def Let_def apfst_def map_prod_def effect_event_def
      split: prod.splits sum.splits option.splits ResolutionKind.splits
      dest!: transition_R perform_R escalate_R)

lemma settle_class_R: "settle_class task d eff x = (r, x') \<Longrightarrow> along R (w_st (sys_world x)) (w_st (sys_world x'))"
  by (auto simp: settle_class_def apfst_def map_prod_def split: prod.splits if_splits EffectClass.splits
      dest!: perform_R query_R escalate_R)

lemma resolve_R: "resolve task d eff x = (r, x') \<Longrightarrow> along R (w_st (sys_world x)) (w_st (sys_world x'))"
  by (auto simp: resolve_def effect_event_def split: prod.splits if_splits sum.splits
      dest!: transition_R settle_class_R intro: along_trans)

lemma reserve_R: "reserve e task d key w = (r, w') \<Longrightarrow> along R (w_st w) (w_st w')"
  by (auto simp: reserve_def Let_def split: prod.splits sum.splits if_splits dest!: along_tx)

lemma Execute_R: "Execute e tools task x = (r, x') \<Longrightarrow> along R (w_st (sys_world x)) (w_st (sys_world x'))"
  by (auto simp: Execute_def Let_def apfst_def map_prod_def
      split: prod.splits sum.splits if_splits RecoveryAction.splits
      dest!: call_R perform_R resolve_R escalate_R elim!: in_world_R [THEN along_trans] in_world_R
      dest: reserve_R)

lemma settle_R: "settle tools eff now x = (r, x') \<Longrightarrow> along R (w_st (sys_world x)) (w_st (sys_world x'))"
proof -
  have mark: "markUnknown eff w = (r, w') \<Longrightarrow> along R (w_st w) (w_st w')" for eff w r w'
    by (auto simp: markUnknown_def split: prod.splits sum.splits if_splits dest!: along_tx)
  have rec: "record_outcome eff to out detail w = (r, w') \<Longrightarrow> along R (w_st w) (w_st w')" for eff to out detail w r w'
    by (auto simp: record_outcome_def effect_event_def split: prod.splits sum.splits if_splits dest!: along_tx)
  have recw: "in_world (record_outcome eff to out detail) x = (r, x')
      \<Longrightarrow> along R (w_st (sys_world x)) (w_st (sys_world x'))" for eff to out detail x r x'
    by (erule in_world_R) (rule rec)
  have markw: "in_world (markUnknown eff) x = (r, x')
      \<Longrightarrow> along R (w_st (sys_world x)) (w_st (sys_world x'))" for eff x r x'
    by (erule in_world_R) (rule mark)
  have unk: "settle_unknown d eff now x = (r, x') \<Longrightarrow> along R (w_st (sys_world x)) (w_st (sys_world x'))" for d eff x r x'
    by (auto simp: settle_unknown_def Let_def apfst_def map_prod_def
        split: if_splits option.splits prod.splits sum.splits ResolutionKind.splits
        dest!: recw)
  show "settle tools eff now x = (r, x') \<Longrightarrow> ?thesis"
    by (auto simp: settle_def split: sum.splits if_splits prod.splits option.splits
        dest!: unk markw intro: along_trans)
qed

lemma settle_loop_R:
  "settle_loop tools now n es x = (r, x') \<Longrightarrow> along R (w_st (sys_world x)) (w_st (sys_world x'))"
  by (induction es arbitrary: n x)
    (auto split: prod.splits option.splits if_splits dest!: settle_R intro: along_trans)

lemma ReconcileOnce_R: "ReconcileOnce rc tools x = (r, x') \<Longrightarrow> along R (w_st (sys_world x)) (w_st (sys_world x'))"
  by (auto simp: ReconcileOnce_def Let_def dest!: settle_loop_R)

text \<open>The reaper and the relay.\<close>

lemma ensureRegistered_R: "ensureRegistered rp w = (r, rp', w') \<Longrightarrow> along R (w_st w) (w_st w')"
  by (auto simp: ensureRegistered_def Let_def split: option.splits prod.splits sum.splits dest!: along_tx)

lemma reap_loop_R: "reap_loop n ls w = (r, w') \<Longrightarrow> along R (w_st w) (w_st w')"
  by (induction ls arbitrary: n w)
    (auto split: prod.splits sum.splits if_splits dest!: along_tx intro: along_trans)

lemma ReapOnce_R: "ReapOnce rp w = (r, rp', w') \<Longrightarrow> along R (w_st w) (w_st w')"
  by (auto simp: ReapOnce_def wake_def split: prod.splits option.splits if_splits
      dest!: ensureRegistered_R reap_loop_R intro: along_trans)

lemma publish_st: "publish e tid w = (r, w') \<Longrightarrow> w_st w' = w_st w"
  by (auto simp: publish_def Let_def)

lemma relay_loop_st: "relay_loop e ds fs dl w = (r, w') \<Longrightarrow> w_st w' = w_st w"
  by (induction dl arbitrary: ds fs w) (auto split: prod.splits option.splits if_splits dest!: publish_st)

lemma RelayOnce_R: "RelayOnce e rl w = (r, w') \<Longrightarrow> along R (w_st w) (w_st w')"
  by (auto simp: RelayOnce_def mark_outcomes_def Let_def split: prod.splits option.splits sum.splits if_splits
      dest!: relay_loop_st along_tx)

text \<open>The worker: the system may move between its beats, as long as it moves along the relation.\<close>

lemma keepAlive_R:
  "keepAlive e tid token gaps w = (r, w') \<Longrightarrow> (\<And>gap v. gap \<in> set gaps \<Longrightarrow> along R (w_st v) (w_st (gap v)))
     \<Longrightarrow> along R (w_st w) (w_st w')"
proof (induction gaps arbitrary: w)
  case (Cons gap gaps)
  obtain b v where b: "Heartbeat e tid token (gap w) = (b, v)" by fastforce
  have "along R (w_st w) (w_st (gap w))" using Cons.prems(2) by simp
  moreover have "along R (w_st (gap w)) (w_st v)" using Heartbeat_R [OF b] .
  ultimately have wv: "along R (w_st w) (w_st v)" by (rule along_trans)
  show ?case
  proof (cases "beat_of b")
    case Beating
    then have "along R (w_st v) (w_st w')" using Cons b by simp
    with wv show ?thesis by (rule along_trans)
  qed (use Cons.prems(1) b wv in simp_all)
qed simp

lemma worker_execute_R:
  assumes "worker_execute e tools wid before after tid x = Some x'"
    and "\<And>gap v. gap \<in> set (before @ after) \<Longrightarrow> along R (w_st v) (w_st (gap v))"
  shows "along R (w_st (sys_world x)) (w_st (sys_world x'))"
proof -
  have beats: "in_world (keepAlive e tid token before) y = (r, y')
      \<Longrightarrow> along R (w_st (sys_world y)) (w_st (sys_world y'))" for token y r y'
    by (erule in_world_R) (erule keepAlive_R, simp add: assms(2))
  have more: "in_world (\<lambda>w. if b = Beating then keepAlive e tid token after w else (b, w)) y = (r, y')
      \<Longrightarrow> along R (w_st (sys_world y)) (w_st (sys_world y'))" for b token y r y'
    by (erule in_world_R) (auto split: if_splits elim!: keepAlive_R simp: assms(2))
  have claim: "in_world (ClaimTask e tid wid) x = (r, y) \<Longrightarrow> along R (w_st (sys_world x)) (w_st (sys_world y))" for r y
    by (erule in_world_R) (rule ClaimTask_R)
  show ?thesis
    using assms(1)
    by (auto simp: worker_execute_def Let_def split: prod.splits sum.splits option.splits if_splits
        dest!: claim beats more Execute_R FailTask_R CompleteTask_R)
      (meson along_trans)+
qed

lemma http_deliver_R:
  assumes "http_deliver ids e rid name key body w = Some (r, w')"
  shows "along R (w_st w) (w_st w')"
  using assms
  by (auto simp: http_deliver_def Let_def split: if_splits option.splits prod.splits dest!: Engine_Signal_R)

text \<open>The operator's commands that write.\<close>

lemma cmdRunStart_R: "cmdRunStart ids opened agent version input w = (r, w') \<Longrightarrow> along R (w_st w) (w_st w')"
proof -
  have "fresh_run (started_run rid agent version input)" for rid by (simp add: fresh_run_def started_run_def)
  then show "cmdRunStart ids opened agent version input w = (r, w') \<Longrightarrow> ?thesis"
    by (auto simp: cmdRunStart_def Let_def split: raw.splits option.splits prod.splits sum.splits dest!: along_tx)
qed

lemma cmdSignal_R: "cmdSignal ids opened args payload sid w = (r, w') \<Longrightarrow> along R (w_st w) (w_st w')"
  by (auto simp: cmdSignal_def Let_def
      split: list.splits raw.splits option.splits prod.splits sum.splits if_splits dest!: DeliverSignal_R)

lemma cmdEffectsResolve_R: "cmdEffectsResolve opened f args w = (r, w') \<Longrightarrow> along R (w_st w) (w_st w')"
  by (auto simp: cmdEffectsResolve_def Let_def
      split: list.splits option.splits prod.splits sum.splits if_splits dest!: along_tx)

end

end
