(* ===== verification/TxRules.thy ===== *)
theory TxRules
  imports SystemLaws
begin

text \<open>
  What a transactional step has done when it succeeded: one rule per primitive operation of the
  store, and the rules that take a composed transaction apart. A transaction that fails changes
  nothing but the delivery sequence.
\<close>

section \<open>Composition\<close>

lemma tx_bind_ok [simp]: "tx_bind m f s = (Inr x, s') \<longleftrightarrow> (\<exists>y t. m s = (Inr y, t) \<and> f y t = (Inr x, s'))"
  by (auto simp: tx_bind_def split: prod.split sum.split)

lemma tx_return_ok [simp]: "tx_return x s = (Inr y, s') \<longleftrightarrow> y = x \<and> s' = s"
  by (auto simp: tx_return_def)

lemma tx_error_ok [simp]: "tx_error e s \<noteq> (Inr y, s')"
  by (simp add: tx_error_def)

lemma tx_try_ok: "tx_try m f s = (Inr x, s') \<longleftrightarrow> (\<exists>r t. m s = (r, t) \<and> f r t = (Inr x, s'))"
  by (auto simp: tx_try_def split: prod.split)

lemma RunInTx_ok [simp]: "RunInTx m s = (Inr x, s') \<longleftrightarrow> m s = (Inr x, s')"
  by (auto simp: RunInTx_def split: prod.split sum.split)

lemma RunInTx_failed: "RunInTx m s = (Inl e, s') \<Longrightarrow> \<exists>q. s' = s\<lparr>st_deliverySeq := q\<rparr>"
  by (auto simp: RunInTx_def split: prod.splits sum.splits)

lemma in_tx_ok [simp]: "in_tx m w = (Inr x, w') \<longleftrightarrow> (\<exists>s'. m (w_st w) = (Inr x, s') \<and> w' = w\<lparr>w_st := s'\<rparr>)"
  by (auto simp: in_tx_def RunInTx_def split: prod.splits sum.splits)

lemma in_tx_failed: "in_tx m w = (Inl e, w') \<Longrightarrow> \<exists>q. w' = w\<lparr>w_st := (w_st w)\<lparr>st_deliverySeq := q\<rparr>\<rparr>"
  by (auto simp: in_tx_def RunInTx_def split: prod.splits sum.splits)

text \<open>When the failing step itself leaves the state alone, so does the transaction.\<close>

lemma in_tx_refused: "m (w_st w) = (Inl e, w_st w) \<Longrightarrow> in_tx m w = (Inl e, w)"
  by (simp add: in_tx_def RunInTx_def)

lemma in_tx_done: "m (w_st w) = (Inr x, s') \<Longrightarrow> in_tx m w = (Inr x, w\<lparr>w_st := s'\<rparr>)"
  by simp

lemma tx_bind_refused: "m s = (Inl e, s) \<Longrightarrow> tx_bind m f s = (Inl e, s)"
  by (simp add: tx_bind_def)

section \<open>Primitive operations\<close>

lemma GetTask_ok [simp]: "GetTask i s = (Inr t, s') \<longleftrightarrow> map_of (st_tasks s) i = Some t \<and> s' = s"
  by (auto simp: GetTask_def split: option.split)

lemma GetEffect_ok [simp]: "GetEffect k s = (Inr e, s') \<longleftrightarrow> map_of (st_effects s) k = Some e \<and> s' = s"
  by (auto simp: GetEffect_def split: option.split)

lemma GetLease_ok [simp]: "GetLease i s = (Inr l, s') \<longleftrightarrow> map_of (st_leases s) i = Some l \<and> s' = s"
  by (auto simp: GetLease_def split: option.split)

lemma AdvanceRun_ok:
  "AdvanceRun now i v nxt s = (Inr u, s') \<longleftrightarrow>
     (\<exists>r. map_of (st_runs s) i = Some r \<and> run_Version r = v
        \<and> (rs_Status nxt = run_Status r \<or> RunStatus_CanTransitionTo (run_Status r) (rs_Status nxt))
        \<and> s' = s\<lparr>st_runs := AList.update i (apply_state now nxt r) (st_runs s)\<rparr>)"
  by (auto simp: AdvanceRun_def split: option.split)

lemma CreateRun_ok:
  "CreateRun now r s = (Inr u, s') \<longleftrightarrow> map_of (st_runs s) (run_ID r) = None \<and> RunStatus_Valid (run_Status r)
     \<and> s' = s\<lparr>st_runs := AList.update (run_ID r) (r\<lparr>run_CreatedAt := now, run_UpdatedAt := now\<rparr>) (st_runs s)\<rparr>"
  by (auto simp: CreateRun_def)

lemma CreateTask_ok:
  "CreateTask now t s = (Inr u, s') \<longleftrightarrow> has (st_runs s) (task_RunID t)
     \<and> map_of (st_stepIndex s) (task_RunID t, task_StepID t) = None \<and> map_of (st_tasks s) (task_ID t) = None
     \<and> s' = s\<lparr>st_tasks := AList.update (task_ID t) (t\<lparr>task_CreatedAt := now, task_UpdatedAt := now\<rparr>) (st_tasks s),
              st_stepIndex := AList.update (task_RunID t, task_StepID t) (task_ID t) (st_stepIndex s)\<rparr>"
  by (auto simp: CreateTask_def has_def)

lemma TransitionTask_ok:
  "TransitionTask now i frm to out s = (Inr u, s') \<longleftrightarrow>
     (\<exists>t. map_of (st_tasks s) i = Some t \<and> task_Status t = frm \<and> TaskStatus_CanTransitionTo frm to
        \<and> s' = s\<lparr>st_tasks := AList.update i (move_task now to out t) (st_tasks s)\<rparr>)"
  by (auto simp: TransitionTask_def split: option.split)

lemma ReserveEffect_ok:
  "ReserveEffect now e s = (Inr u, s') \<longleftrightarrow> has (st_runs s) (eff_RunID e) \<and> has (st_tasks s) (eff_TaskID e)
     \<and> EffectStatus_Valid (eff_Status e) \<and> EffectClass_Valid (eff_Class e) \<and> map_of (st_effects s) (eff_Key e) = None
     \<and> s' = s\<lparr>st_effects := AList.update (eff_Key e) (e\<lparr>eff_CreatedAt := now, eff_UpdatedAt := now\<rparr>) (st_effects s)\<rparr>"
  by (auto simp: ReserveEffect_def has_def)

lemma TransitionEffect_ok:
  "TransitionEffect now k frm to out s = (Inr u, s') \<longleftrightarrow>
     (\<exists>e. map_of (st_effects s) k = Some e \<and> eff_Status e = frm \<and> EffectStatus_CanTransitionTo frm to
        \<and> s' = s\<lparr>st_effects := AList.update k (move_effect now to out e) (st_effects s)\<rparr>)"
  by (auto simp: TransitionEffect_def split: option.split)

lemma RecordSignal_ok:
  "RecordSignal now sg s = (Inr u, s') \<longleftrightarrow> has (st_runs s) (sig_RunID sg)
     \<and> map_of (st_signals s) (sig_RunID sg, sig_ID sg) = None
     \<and> s' = s\<lparr>st_signals := AList.update (sig_RunID sg, sig_ID sg) (sg\<lparr>sig_CreatedAt := now\<rparr>) (st_signals s)\<rparr>"
  by (auto simp: RecordSignal_def has_def)

lemma ReleaseRun_ok:
  "ReleaseRun now i s = (Inr u, s') \<longleftrightarrow> (\<exists>r. map_of (st_runs s) i = Some r
     \<and> s' = s\<lparr>st_runs := AList.update i (r\<lparr>run_AvailableAt := None, run_UpdatedAt := now\<rparr>) (st_runs s)\<rparr>)"
  by (auto simp: ReleaseRun_def split: option.split)

lemma EnqueueDelivery_ok:
  "EnqueueDelivery now i av s = (Inr u, s') \<longleftrightarrow> has (st_tasks s) i
     \<and> s' = s\<lparr>st_deliverySeq := incr64 (st_deliverySeq s), st_deliveries := AList.update (incr64 (st_deliverySeq s))
          \<lparr>del_ID = incr64 (st_deliverySeq s), del_TaskID = i, del_Attempts = 0, del_LastError = [],
           del_CreatedAt = now, del_AvailableAt = av\<rparr> (st_deliveries s)\<rparr>"
  by (auto simp: EnqueueDelivery_def has_def Let_def split: option.split)

lemma RegisterWorkerTx_ok: "RegisterWorkerTx now wk s = (Inr u, s') \<Longrightarrow> \<exists>m. s' = s\<lparr>st_workers := m\<rparr>"
  by (auto simp: RegisterWorkerTx_def Let_def split: if_splits)

lemma MarkDelivered_ok: "MarkDelivered ids s = (Inr u, s') \<Longrightarrow> \<exists>m. s' = s\<lparr>st_published := m\<rparr>"
  by (auto simp: MarkDelivered_def)

lemma FailDelivery_ok:
  "FailDelivery d cause s = (Inr u, s') \<longleftrightarrow> (\<exists>x. map_of (st_deliveries s) d = Some x
     \<and> s' = s\<lparr>st_deliveries := AList.update d (x\<lparr>del_Attempts := incr64 (del_Attempts x), del_LastError := cause\<rparr>)
          (st_deliveries s)\<rparr>)"
  by (auto simp: FailDelivery_def split: option.split)

text \<open>The lease that \<open>AcquireLease\<close> grants.\<close>

definition granted :: "state \<Rightarrow> TaskID \<Rightarrow> string \<Rightarrow> time \<Rightarrow> time \<Rightarrow> Lease" where
  "granted s i wid now expires = \<lparr>lease_TaskID = i, lease_WorkerID = wid,
     lease_Token = (case map_of (st_leases s) i of None \<Rightarrow> 1 | Some l \<Rightarrow> incr64 (lease_Token l)),
     lease_AcquiredAt = now, lease_ExpiresAt = expires, lease_HeartbeatAt = now\<rparr>"

lemma AcquireLease_ok:
  "AcquireLease i wid now expires s = (Inr l, s') \<longleftrightarrow> has (st_tasks s) i \<and> has (st_workers s) wid
     \<and> (\<forall>old. map_of (st_leases s) i = Some old \<longrightarrow> Lease_Expired old now)
     \<and> l = granted s i wid now expires \<and> s' = s\<lparr>st_leases := AList.update i l (st_leases s)\<rparr>"
  by (auto simp: AcquireLease_def has_def Let_def granted_def split: option.split)

lemma AcquireLease_refused: "AcquireLease i wid now expires s = (Inl e, s') \<Longrightarrow> s' = s"
  by (auto simp: AcquireLease_def Let_def split: if_splits option.splits)

lemma ExtendLease_ok:
  "ExtendLease now i token expires s = (Inr u, s') \<longleftrightarrow> (\<exists>l. map_of (st_leases s) i = Some l \<and> lease_Token l = token
     \<and> s' = s\<lparr>st_leases := AList.update i (l\<lparr>lease_ExpiresAt := expires, lease_HeartbeatAt := now\<rparr>) (st_leases s)\<rparr>)"
  by (auto simp: ExtendLease_def split: option.split)

lemma ReleaseLease_ok:
  "ReleaseLease i token now s = (Inr u, s') \<longleftrightarrow> (\<exists>l. map_of (st_leases s) i = Some l \<and> lease_Token l = token
     \<and> s' = s\<lparr>st_leases := AList.update i (l\<lparr>lease_ExpiresAt := now\<rparr>) (st_leases s)\<rparr>)"
  by (auto simp: ReleaseLease_def split: option.split)

lemma assertToken_ok [simp]:
  "assertToken i token s = (Inr u, s') \<longleftrightarrow> s' = s \<and> (\<exists>l. map_of (st_leases s) i = Some l \<and> lease_Token l = token)"
  by (auto simp: assertToken_def)

text \<open>An append puts one event of the given type and step at the end of one history.\<close>

definition appends :: "RunID \<Rightarrow> EventType \<Rightarrow> StepID \<Rightarrow> EventData \<Rightarrow> state \<Rightarrow> state \<Rightarrow> Event \<Rightarrow> bool" where
  "appends r ty step data s s' ev \<longleftrightarrow>
     NewEvent r (incr64 (max_seq 0 (events_of s r))) ty step data = Inr (ev\<lparr>ev_CreatedAt := zero_time\<rparr>)
     \<and> s' = s\<lparr>st_events := AList.update r (events_of s r @ [ev]) (st_events s)\<rparr>"

lemma NewEvent_created: "NewEvent r seq ty step data = Inr ev \<Longrightarrow> ev\<lparr>ev_CreatedAt := zero_time\<rparr> = ev"
  by (auto simp: NewEvent_def split: option.splits)

lemma Append_ok: "Append now r ty step data s = (Inr u, s') \<Longrightarrow> \<exists>ev. appends r ty step data s s' ev"
proof (cases rule: Append_cases [of now r ty step data s])
  case (2 run ev)
  assume "Append now r ty step data s = (Inr u, s')"
  with 2 NewEvent_created [OF 2(2)] show ?thesis
    by (intro exI [of _ "ev\<lparr>ev_CreatedAt := now\<rparr>"]) (simp add: appends_def)
qed auto

lemma appendsD:
  assumes "appends r ty step data s s' ev"
  shows "ev_Type ev = ty" "ev_StepID ev = step" "ev_RunID ev = r"
    "events_of s' r' = (if r' = r then events_of s r @ [ev] else events_of s r')"
    "s' = s\<lparr>st_events := st_events s'\<rparr>"
  using assms NewEvent_fields [of r _ ty step data "ev\<lparr>ev_CreatedAt := zero_time\<rparr>"]
  by (auto simp: appends_def events_of_update)

end
