(* ===== verification/Reach.thy ===== *)
theory Reach
  imports TxRules
begin

text \<open>
  Every way the components may interleave. The step of the system is one transaction of any
  component with any arguments the code can give it; between the reading of a state and the
  transaction built on it, anything else may happen. So the relation is on traces: the states
  the store went through, newest first, and a transaction that resumes a wait is built on a
  reading of any of them. Each operation of the components moves along the trace.
\<close>

section \<open>Traces\<close>

text \<open>The transactions that may be committed when the states \<open>seen\<close> have been there.\<close>

inductive writes :: "state list \<Rightarrow> (state \<Rightarrow> state) \<Rightarrow> bool" where
  start: "fresh_run r \<Longrightarrow> writes seen (\<lambda>s. snd (RunInTx (start_tx now r) s))"
| dispatch: "fresh_task t \<Longrightarrow> task_RunID t = run_ID run
    \<Longrightarrow> writes seen (\<lambda>s. snd (RunInTx (dispatch_tx now run t) s))"
| fanout: "(\<And>t. t \<in> set ts \<Longrightarrow> fresh_task t \<and> task_RunID t = run_ID run)
    \<Longrightarrow> writes seen (\<lambda>s. snd (RunInTx (fanout_tx now run st tools join ts) s))"
| finish: "RunStatus_IsTerminal (rs_Status nxt) \<Longrightarrow> ends_run evt
    \<Longrightarrow> writes seen (\<lambda>s. snd (RunInTx (finish_tx now run nxt evt data) s))"
| park: "starts_wait evt \<Longrightarrow> writes seen (\<lambda>s. snd (RunInTx (park_tx now run until evt st data) s))"
| repark: "writes seen (\<lambda>s. snd (RunInTx (repark_tx now run wt) s))"
| resume: "s0 \<in> set seen \<Longrightarrow> map_of (st_runs s0) (run_ID run) = Some run \<Longrightarrow> ends_wait s0 (run_ID run) evt data
    \<Longrightarrow> writes seen (\<lambda>s. snd (RunInTx (resume_tx now run wt evt data) s))"
| claim: "writes seen (\<lambda>s. snd (RunInTx (claim_tx now ttl tid wid) s))"
| heartbeat: "writes seen (\<lambda>s. snd (RunInTx (ExtendLease now tid token expires) s))"
| complete: "writes seen (\<lambda>s. snd (RunInTx (complete_tx now tid token result) s))"
| fail: "writes seen (\<lambda>s. snd (RunInTx (fail_tx e now rnd tid token reason escalated) s))"
| signal: "writes seen (\<lambda>s. snd (RunInTx (signal_tx now sg) s))"
| register: "writes seen (\<lambda>s. snd (RunInTx (RegisterWorkerTx now wk) s))"
| reclaim: "writes seen (\<lambda>s. snd (RunInTx (reclaim_tx now stale) s))"
| reserve: "fresh_effect eff \<Longrightarrow> writes seen (\<lambda>s. snd (RunInTx (reserve_tx now task eff) s))"
| effect: "effect_event ev \<Longrightarrow> writes seen (\<lambda>s. snd (RunInTx (effect_tx now rid st eff ef et eo ev detail) s))"
| escalate: "writes seen (\<lambda>s. snd (RunInTx (escalate_tx now task eff reason) s))"
| mark: "writes seen (\<lambda>s. snd (RunInTx (mark_tx now eff) s))"
| operator: "writes seen (\<lambda>s. snd (RunInTx (resolve_tx now eff to ref detail) s))"
| outcomes: "writes seen (\<lambda>s. snd (RunInTx (mark_outcomes_tx delivered failed) s))"
| rollback: "writes seen (\<lambda>s. s\<lparr>st_deliverySeq := q\<rparr>)"

inductive trace :: "state list \<Rightarrow> bool" where
  initial: "trace [newState]"
| step: "trace (s # ss) \<Longrightarrow> writes (s # ss) f \<Longrightarrow> trace (f s # s # ss)"

inductive_cases trace_NilE: "trace []"
inductive_cases trace_ConsE: "trace (s' # s # ss)"
inductive_cases trace_oneE: "trace [s]"

context tx_relation
begin

lemma writes_R: "writes seen f \<Longrightarrow> R s (f s)"
  by (induction rule: writes.induct)
    (auto intro!: upholdsD upholds_RunInTx upholds_fanout R_rollback)

end

section \<open>Integrity along a trace\<close>

lemma trace_ok: "trace ss \<Longrightarrow> store_ok (hd ss)"
  by (induction rule: trace.induct) (use integrity.writes_R in \<open>auto simp: keeps_ok_def store_ok_newState\<close>)

lemma trace_tail: "trace (s' # s # ss) \<Longrightarrow> trace (s # ss)"
  by (erule trace_ConsE)

lemma trace_step_evolves: "trace (s' # s # ss) \<Longrightarrow> evolves s s'"
  by (erule trace_ConsE) (simp add: evolution.writes_R)

lemma trace_evolves: "trace (s # ss) \<Longrightarrow> s0 \<in> set (s # ss) \<Longrightarrow> evolves s0 s"
proof (induction ss arbitrary: s)
  case (Cons t ss)
  show ?case
  proof (cases "s0 = s")
    case False
    with Cons have "evolves s0 t" using trace_tail by auto
    moreover have "evolves t s" using Cons.prems(1) by (rule trace_step_evolves)
    ultimately show ?thesis by (rule evolves_trans)
  qed simp
qed simp

text \<open>Every state of a trace has a trace of its own.\<close>

lemma trace_from: "trace (s # ss) \<Longrightarrow> s0 \<in> set (s # ss) \<Longrightarrow> \<exists>ts. trace (s0 # ts) \<and> length (s0 # ts) \<le> length (s # ss)"
proof (induction ss arbitrary: s)
  case (Cons t ss)
  show ?case
  proof (cases "s0 = s")
    case False
    with Cons.prems have "trace (t # ss)" "s0 \<in> set (t # ss)" using trace_tail by auto
    from Cons.IH [OF this] obtain ts where "trace (s0 # ts)" "length (s0 # ts) \<le> length (t # ss)" by blast
    then show ?thesis by (intro exI [of _ ts]) simp
  qed (use Cons.prems in blast)
qed auto

text \<open>What a later state keeps, read off the relation.\<close>

lemma evolvesD:
  assumes "evolves s0 s"
  shows "\<exists>later. events_of s r = events_of s0 r @ later"
    and "map_of (st_runs s0) k = Some run \<Longrightarrow> \<exists>run'. map_of (st_runs s) k = Some run' \<and> run_evolves run run'"
    and "map_of (st_tasks s0) k' = Some t \<Longrightarrow> TaskStatus_IsTerminal (task_Status t) \<Longrightarrow> map_of (st_tasks s) k' = Some t"
    and "map_of (st_effects s0) k'' = Some e \<Longrightarrow> eff_Status e = EffectCommitted \<Longrightarrow> map_of (st_effects s) k'' = Some e"
    and "map_of (st_signals s0) k3 = Some g \<Longrightarrow> map_of (st_signals s) k3 = Some g"
    and "is_published s0 d \<Longrightarrow> is_published s d"
  using assms by (auto simp: evolves_def task_evolves_def effect_evolves_def dest: growsD [of _ _ _ k] growsD [of _ _ _ k']
      growsD [of _ _ _ k''] growsD [of _ _ _ k3])

lemma run_evolves_final:
  "run_evolves r r' \<Longrightarrow> RunStatus_IsTerminal (run_Status r) \<Longrightarrow> run_Status r' = run_Status r \<and> run_Input r' = run_Input r"
  using run_machine.path_final by (auto simp: run_evolves_def)

section \<open>The operations move along the trace\<close>

definition extends :: "state \<Rightarrow> state \<Rightarrow> bool" where
  "extends s s' \<longleftrightarrow> (\<forall>ss. trace (s # ss) \<longrightarrow> (\<exists>ss'. trace (s' # ss') \<and> set (s # ss) \<subseteq> set (s' # ss')))"

text \<open>\<open>continues ss s\<close>: from the states \<open>ss\<close>, transactions of the program lead on to \<open>s\<close>.\<close>

definition continues :: "state list \<Rightarrow> state \<Rightarrow> bool" where
  "continues ss s \<longleftrightarrow> (\<exists>ss'. trace (s # ss') \<and> set ss \<subseteq> set (s # ss'))"

lemma extends_continues: "extends s s' \<Longrightarrow> trace (s # ss) \<Longrightarrow> continues (s # ss) s'"
  unfolding extends_def continues_def by blast

lemma extends_refl: "extends s s"
  unfolding extends_def by blast

lemma extends_trans: "extends s t \<Longrightarrow> extends t u \<Longrightarrow> extends s u"
  unfolding extends_def by (meson subset_trans)

lemma extends_step: "(\<And>ss. trace (s # ss) \<Longrightarrow> trace (s' # s # ss)) \<Longrightarrow> extends s s'"
  unfolding extends_def by (metis set_subset_Cons)

lemma extends_writes: "(\<And>ss. trace (s # ss) \<Longrightarrow> writes (s # ss) f) \<Longrightarrow> s' = f s \<Longrightarrow> extends s s'"
  by (rule extends_step) (auto intro: trace.step)

interpretation interleaving: system_relation extends
proof
  show "extends s s" for s by (rule extends_refl)
  show "extends s u" if "extends s t" "extends t u" for s t u using that by (rule extends_trans)
  show "extends s (s\<lparr>st_deliverySeq := q\<rparr>)" for s q
    by (rule extends_writes [of _ "\<lambda>s. s\<lparr>st_deliverySeq := q\<rparr>"]) (rule writes.rollback, rule refl)
  show "extends s (snd (RunInTx (resume_tx now run wt evt data) s))"
    if "map_of (st_runs s) (run_ID run) = Some run" "ends_wait s (run_ID run) evt data" for s run evt data now wt
    using that by (intro extends_writes [OF writes.resume]) auto
qed (rule extends_writes, (rule writes.intros; assumption), rule refl)+

lemma along_continues: "along extends s s' \<Longrightarrow> trace (s # ss) \<Longrightarrow> continues (s # ss) s'"
  using trace_ok [of "s # ss"] extends_continues by (auto simp: along_def)

end
