(* ===== verification/Restricted.thy ===== *)
theory Restricted
  imports Reach
begin

text \<open>
  Which primitive operations a transaction is made of. A relation that respects some of the
  operations is respected by every transaction that uses only those; this gives the frame of
  each transaction (what it leaves alone) from one line per operation.
\<close>

datatype op =
    OpCreateRun | OpAdvanceRun | OpCreateTask | OpTransitionTask | OpAppend EventType
  | OpReserveEffect | OpTransitionEffect | OpRecordSignal | OpReleaseRun | OpEnqueueDelivery
  | OpMarkDelivered | OpFailDelivery | OpRegisterWorker | OpAcquireLease | OpExtendLease | OpReleaseLease

locale restricted_relation = store_preorder +
  fixes allowed :: "op \<Rightarrow> bool"
  assumes A_CreateRun: "allowed OpCreateRun \<Longrightarrow> fresh_run r \<Longrightarrow> R s (snd (CreateRun now r s))"
    and A_AdvanceRun: "allowed OpAdvanceRun \<Longrightarrow> R s (snd (AdvanceRun now i v nxt s))"
    and A_CreateTask: "allowed OpCreateTask \<Longrightarrow> fresh_task t \<Longrightarrow> R s (snd (CreateTask now t s))"
    and A_TransitionTask: "allowed OpTransitionTask \<Longrightarrow> R s (snd (TransitionTask now j frm to out s))"
    and A_Append: "allowed (OpAppend ty) \<Longrightarrow> R s (snd (Append now i ty step data s))"
    and A_ReserveEffect: "allowed OpReserveEffect \<Longrightarrow> fresh_effect e \<Longrightarrow> R s (snd (ReserveEffect now e s))"
    and A_TransitionEffect: "allowed OpTransitionEffect \<Longrightarrow> R s (snd (TransitionEffect now k ef et eo s))"
    and A_RecordSignal: "allowed OpRecordSignal \<Longrightarrow> R s (snd (RecordSignal now sg s))"
    and A_ReleaseRun: "allowed OpReleaseRun \<Longrightarrow> R s (snd (ReleaseRun now i s))"
    and A_EnqueueDelivery: "allowed OpEnqueueDelivery \<Longrightarrow> R s (snd (EnqueueDelivery now j av s))"
    and A_MarkDelivered: "allowed OpMarkDelivered \<Longrightarrow> R s (snd (MarkDelivered ids s))"
    and A_FailDelivery: "allowed OpFailDelivery \<Longrightarrow> R s (snd (FailDelivery d cause s))"
    and A_RegisterWorker: "allowed OpRegisterWorker \<Longrightarrow> R s (snd (RegisterWorkerTx now w s))"
    and A_AcquireLease: "allowed OpAcquireLease \<Longrightarrow> R s (snd (AcquireLease j wid now expires s))"
    and A_ExtendLease: "allowed OpExtendLease \<Longrightarrow> R s (snd (ExtendLease now j token expires s))"
    and A_ReleaseLease: "allowed OpReleaseLease \<Longrightarrow> R s (snd (ReleaseLease j token now s))"
begin

lemma only_ops [simp]:
  "allowed OpCreateRun \<Longrightarrow> fresh_run r \<Longrightarrow> upholds R (CreateRun now r)"
  "allowed OpAdvanceRun \<Longrightarrow> upholds R (AdvanceRun now i v nxt)"
  "allowed OpCreateTask \<Longrightarrow> fresh_task t \<Longrightarrow> upholds R (CreateTask now t)"
  "allowed OpTransitionTask \<Longrightarrow> upholds R (TransitionTask now j frm to out)"
  "allowed (OpAppend ty) \<Longrightarrow> upholds R (Append now i ty step data)"
  "allowed OpReserveEffect \<Longrightarrow> fresh_effect e \<Longrightarrow> upholds R (ReserveEffect now e)"
  "allowed OpTransitionEffect \<Longrightarrow> upholds R (TransitionEffect now k ef et eo)"
  "allowed OpRecordSignal \<Longrightarrow> upholds R (RecordSignal now sg)"
  "allowed OpReleaseRun \<Longrightarrow> upholds R (ReleaseRun now i)"
  "allowed OpEnqueueDelivery \<Longrightarrow> upholds R (EnqueueDelivery now j av)"
  "allowed OpMarkDelivered \<Longrightarrow> upholds R (MarkDelivered ids)"
  "allowed OpFailDelivery \<Longrightarrow> upholds R (FailDelivery d cause)"
  "allowed OpRegisterWorker \<Longrightarrow> upholds R (RegisterWorkerTx now w)"
  "allowed OpAcquireLease \<Longrightarrow> upholds R (AcquireLease j wid now expires)"
  "allowed OpExtendLease \<Longrightarrow> upholds R (ExtendLease now j token expires)"
  "allowed OpReleaseLease \<Longrightarrow> upholds R (ReleaseLease j token now)"
  by (simp_all add: upholds_def A_CreateRun A_AdvanceRun A_CreateTask A_TransitionTask A_Append A_ReserveEffect
      A_TransitionEffect A_RecordSignal A_ReleaseRun A_EnqueueDelivery A_MarkDelivered A_FailDelivery
      A_RegisterWorker A_AcquireLease A_ExtendLease A_ReleaseLease)

lemma only_assertToken [simp]: "upholds R (assertToken tid token)"
  by (auto simp: assertToken_def intro!: upholds_bind)

lemma only_put_task:
  "allowed OpCreateTask \<Longrightarrow> allowed (OpAppend EventTaskCreated) \<Longrightarrow> allowed OpEnqueueDelivery \<Longrightarrow> fresh_task t
     \<Longrightarrow> upholds R (put_task now t)"
  by (auto simp: put_task_def intro!: upholds_bind)

lemma only_put_tasks:
  "allowed OpCreateTask \<Longrightarrow> allowed (OpAppend EventTaskCreated) \<Longrightarrow> allowed OpEnqueueDelivery
     \<Longrightarrow> (\<And>t. t \<in> set ts \<Longrightarrow> fresh_task t) \<Longrightarrow> upholds R (tx_seq (map (put_task now) ts))"
  by (rule upholds_seq) (auto intro: only_put_task)

lemma only_claim:
  "allowed OpTransitionTask \<Longrightarrow> allowed OpAcquireLease \<Longrightarrow> allowed (OpAppend EventTaskClaimed)
     \<Longrightarrow> upholds R (claim_tx now ttl tid wid)"
  by (auto simp: claim_tx_def Let_def intro!: upholds_bind)

lemma only_complete:
  "allowed OpTransitionTask \<Longrightarrow> allowed OpReleaseLease \<Longrightarrow> allowed (OpAppend EventTaskCompleted)
     \<Longrightarrow> upholds R (complete_tx now tid token result)"
  by (auto simp: complete_tx_def intro!: upholds_bind)

lemma only_fail:
  "allowed OpTransitionTask \<Longrightarrow> allowed OpReleaseLease \<Longrightarrow> allowed (OpAppend EventTaskFailed)
     \<Longrightarrow> allowed (OpAppend EventTaskRetryScheduled) \<Longrightarrow> allowed (OpAppend EventTaskDeadLettered)
     \<Longrightarrow> allowed OpEnqueueDelivery \<Longrightarrow> upholds R (fail_tx e now rnd tid token reason escalated)"
  by (auto simp: fail_tx_def Let_def intro!: upholds_bind)

lemma only_reclaim:
  "allowed OpTransitionTask \<Longrightarrow> allowed OpAcquireLease \<Longrightarrow> allowed OpReleaseLease \<Longrightarrow> allowed (OpAppend EventLeaseExpired)
     \<Longrightarrow> allowed (OpAppend EventTaskRetryScheduled) \<Longrightarrow> allowed (OpAppend EventTaskDeadLettered)
     \<Longrightarrow> allowed OpEnqueueDelivery \<Longrightarrow> upholds R (reclaim_tx now stale)"
  by (auto simp: reclaim_tx_def requeue_tx_def Let_def intro!: upholds_bind upholds_try split: sum.split)

lemma only_start: "allowed OpCreateRun \<Longrightarrow> allowed (OpAppend EventRunStarted) \<Longrightarrow> fresh_run r \<Longrightarrow> upholds R (start_tx now r)"
  by (auto simp: start_tx_def intro!: upholds_bind)

lemma only_dispatch:
  "allowed OpAdvanceRun \<Longrightarrow> allowed OpCreateTask \<Longrightarrow> allowed (OpAppend EventTaskCreated) \<Longrightarrow> allowed OpEnqueueDelivery
     \<Longrightarrow> fresh_task t \<Longrightarrow> upholds R (dispatch_tx now run t)"
  by (auto simp: dispatch_tx_def intro!: upholds_bind only_put_task)

lemma only_fanout:
  "allowed OpAdvanceRun \<Longrightarrow> allowed OpCreateTask \<Longrightarrow> allowed (OpAppend EventTaskCreated) \<Longrightarrow> allowed OpEnqueueDelivery
     \<Longrightarrow> allowed (OpAppend EventFanOutStarted) \<Longrightarrow> (\<And>t. t \<in> set ts \<Longrightarrow> fresh_task t)
     \<Longrightarrow> upholds R (fanout_tx now run st tools join ts)"
  by (auto simp: fanout_tx_def intro!: upholds_bind only_put_tasks)

lemma only_run_moves:
  "allowed OpAdvanceRun \<Longrightarrow> allowed (OpAppend evt) \<Longrightarrow> upholds R (finish_tx now run nxt evt data)"
  "allowed OpAdvanceRun \<Longrightarrow> allowed (OpAppend evt) \<Longrightarrow> upholds R (park_tx now run until evt st data)"
  "allowed OpAdvanceRun \<Longrightarrow> upholds R (repark_tx now run wt)"
  "allowed OpAdvanceRun \<Longrightarrow> allowed (OpAppend evt) \<Longrightarrow> upholds R (resume_tx now run wt evt data)"
  by (auto simp: finish_tx_def park_tx_def repark_tx_def resume_tx_def intro!: upholds_bind)

lemma only_signal: "allowed OpRecordSignal \<Longrightarrow> allowed OpReleaseRun \<Longrightarrow> upholds R (signal_tx now sg)"
  by (auto simp: signal_tx_def intro!: upholds_bind)

lemma only_reserve:
  "allowed OpReserveEffect \<Longrightarrow> allowed (OpAppend EventEffectCreated) \<Longrightarrow> fresh_effect eff \<Longrightarrow> upholds R (reserve_tx now tk eff)"
  by (auto simp: reserve_tx_def intro!: upholds_bind)

lemma only_effect:
  "allowed OpTransitionEffect \<Longrightarrow> (\<And>evt. ev = Some evt \<Longrightarrow> allowed (OpAppend evt))
     \<Longrightarrow> upholds R (effect_tx now rid st eff ef et eo ev detail)"
  "allowed (OpAppend EventEffectEscalated) \<Longrightarrow> upholds R (escalate_tx now tk eff reason)"
  "allowed OpTransitionEffect \<Longrightarrow> allowed (OpAppend EventEffectUnknown) \<Longrightarrow> upholds R (mark_tx now eff)"
  "allowed OpTransitionEffect \<Longrightarrow> allowed (OpAppend EventEffectReconciled)
     \<Longrightarrow> upholds R (resolve_tx now eff to ref detail)"
  by (auto simp: effect_tx_def escalate_tx_def mark_tx_def resolve_tx_def intro!: upholds_bind split: option.split)

lemma only_outcomes: "allowed OpMarkDelivered \<Longrightarrow> allowed OpFailDelivery \<Longrightarrow> upholds R (mark_outcomes_tx delivered failed)"
  by (auto simp: mark_outcomes_tx_def intro!: upholds_bind upholds_seq)

lemmas only_all = only_claim only_complete only_fail only_reclaim only_start only_dispatch only_fanout
  only_run_moves only_signal only_reserve only_effect only_outcomes

end

sublocale tx_relation \<subseteq> everything: restricted_relation R "\<lambda>_. True"
  by unfold_locales (simp_all add: R_CreateRun R_AdvanceRun R_CreateTask R_TransitionTask R_Append R_ReserveEffect
      R_TransitionEffect R_RecordSignal R_ReleaseRun R_EnqueueDelivery R_MarkDelivered R_FailDelivery
      R_RegisterWorker R_AcquireLease R_ExtendLease R_ReleaseLease)

end
