(* ===== verification/Stamps.thy ===== *)
theory Stamps
  imports Restricted
begin

text \<open>
  The version of a run as a stamp. Advancing is the only thing that writes the lifecycle of a
  run, and it moves the version; every other transaction leaves what a decision was made from
  alone. So a transaction built on an old reading is refused whenever something has advanced
  the run since, and no signal is consumed twice, however the components interleave.
\<close>

section \<open>Transactions that do not advance a run\<close>

text \<open>What such a transaction keeps of the runs there are, and of the signals they have consumed.\<close>

definition consumed :: "state \<Rightarrow> RunID \<Rightarrow> SignalID list" where
  "consumed s k = ConsumedSignals (events_of s k)"

definition same_run :: "Run \<Rightarrow> Run \<Rightarrow> bool" where
  "same_run r r' \<longleftrightarrow> (\<exists>a u. r' = r\<lparr>run_AvailableAt := a, run_UpdatedAt := u\<rparr>)"

definition quiet :: "state \<Rightarrow> state \<Rightarrow> bool" where
  "quiet s s' \<longleftrightarrow> grows same_run (st_runs s) (st_runs s')
     \<and> (\<forall>k r. map_of (st_runs s) k = None \<longrightarrow> map_of (st_runs s') k = Some r \<longrightarrow> run_Version r = 0)
     \<and> (\<forall>k. consumed s' k = consumed s k)"

lemma same_run_refl [simp]: "same_run r r"
  unfolding same_run_def by (rule exI [of _ "run_AvailableAt r"], rule exI [of _ "run_UpdatedAt r"]) simp

lemma same_runI: "same_run r (r\<lparr>run_AvailableAt := a, run_UpdatedAt := u\<rparr>)"
  unfolding same_run_def by blast

lemma same_run_trans: "same_run a b \<Longrightarrow> same_run b c \<Longrightarrow> same_run a c"
  by (auto simp: same_run_def) blast

lemma same_run_version: "same_run r r' \<Longrightarrow> run_Version r' = run_Version r \<and> run_Status r' = run_Status r"
  by (auto simp: same_run_def)

lemma quiet_trans: "quiet s t \<Longrightarrow> quiet t u \<Longrightarrow> quiet s u"
proof -
  assume st: "quiet s t" and tu: "quiet t u"
  have "run_Version r = 0" if "map_of (st_runs s) k = None" "map_of (st_runs u) k = Some r" for k r
  proof (cases "map_of (st_runs t) k")
    case None
    with tu that show ?thesis by (simp add: quiet_def)
  next
    case (Some r0)
    with st that have "run_Version r0 = 0" by (simp add: quiet_def)
    moreover obtain r' where "map_of (st_runs u) k = Some r'" "same_run r0 r'"
      using tu Some by (auto simp: quiet_def dest: growsD)
    ultimately show ?thesis using that same_run_version by auto
  qed
  with st tu show ?thesis
    unfolding quiet_def by (auto elim!: grows_trans intro: same_run_trans)
qed

lemma consumed_cong [simp]:
  "consumed (st_runs_update f s) = consumed s" "consumed (st_tasks_update g s) = consumed s"
  "consumed (st_stepIndex_update h s) = consumed s" "consumed (st_effects_update i s) = consumed s"
  "consumed (st_leases_update j s) = consumed s" "consumed (st_workers_update k s) = consumed s"
  "consumed (st_signals_update l s) = consumed s" "consumed (st_deliveries_update m s) = consumed s"
  "consumed (st_published_update n s) = consumed s" "consumed (st_deliverySeq_update q s) = consumed s"
  by (simp_all add: consumed_def fun_eq_iff)

lemma consumed_Append:
  "ty \<noteq> EventSignalReceived \<Longrightarrow> consumed (snd (Append now i ty step data s)) k = consumed s k"
proof (cases rule: Append_cases [of now i ty step data s])
  case (2 run ev)
  assume "ty \<noteq> EventSignalReceived"
  then have "ev_Type ev \<noteq> EventSignalReceived" using NewEvent_fields [OF 2(2)] by simp
  then show ?thesis using 2 by (simp add: consumed_def events_of_update)
qed (simp add: consumed_def)

lemma runs_Append [simp]: "st_runs (snd (Append now i ty step data s)) = st_runs s"
  by (cases rule: Append_cases [of now i ty step data s]) simp_all

interpretation quiet: restricted_relation quiet "\<lambda>oper. oper \<noteq> OpAdvanceRun \<and> oper \<noteq> OpAppend EventSignalReceived"
proof
  show "quiet s s" for s by (simp add: quiet_def)
  show "quiet s u" if "quiet s t" "quiet t u" for s t u using that by (rule quiet_trans)
  show "quiet s (snd (Append now i ty step data s))"
    if "OpAppend ty \<noteq> OpAdvanceRun \<and> OpAppend ty \<noteq> OpAppend EventSignalReceived" for s now i ty step data
    using that by (simp add: quiet_def consumed_Append)
  show "quiet s (snd (CreateRun now r s))" if "fresh_run r" for s now r
    using that by (auto simp: quiet_def CreateRun_def fresh_run_def intro!: grows_insert)
  show "quiet s (snd (ReleaseRun now i s))" for s now i
    by (auto simp: quiet_def ReleaseRun_def intro!: grows_update same_runI split: option.split)
qed (auto simp: quiet_def tx_op_defs Let_def split: option.split)

section \<open>The version stamp\<close>

definition bumped :: "RunID \<Rightarrow> state \<Rightarrow> state \<Rightarrow> bool" where
  "bumped i s s' \<longleftrightarrow> (\<exists>now nxt r. map_of (st_runs s) i = Some r
     \<and> st_runs s' = AList.update i (apply_state now nxt r) (st_runs s))"

text \<open>What one transaction does to the versions: it leaves a run alone or moves it on by one.\<close>

definition stamps :: "state \<Rightarrow> state \<Rightarrow> bool" where
  "stamps s s' \<longleftrightarrow>
     (\<forall>k r. map_of (st_runs s) k = Some r \<longrightarrow> (\<exists>r'. map_of (st_runs s') k = Some r'
        \<and> (same_run r r' \<and> consumed s' k = consumed s k \<or> run_Version r' = incr64 (run_Version r))))
     \<and> (\<forall>k r. map_of (st_runs s) k = None \<longrightarrow> map_of (st_runs s') k = Some r \<longrightarrow> run_Version r = 0)"

lemma stampsD: "stamps s s' \<Longrightarrow> map_of (st_runs s) k = Some r \<Longrightarrow> \<exists>r'. map_of (st_runs s') k = Some r'
    \<and> (same_run r r' \<and> consumed s' k = consumed s k \<or> run_Version r' = incr64 (run_Version r))"
  unfolding stamps_def by blast

lemma quiet_stamps: "quiet s s' \<Longrightarrow> stamps s s'"
  by (auto simp: quiet_def stamps_def dest!: growsD)

lemma advance_stamps:
  assumes "AdvanceRun now i v nxt s = (Inr u, t)" and "quiet t s'"
  shows "stamps s s' \<and> consumed s' = consumed s"
proof -
  from assms(1) obtain r where r: "map_of (st_runs s) i = Some r"
    and t: "t = s\<lparr>st_runs := AList.update i (apply_state now nxt r) (st_runs s)\<rparr>"
    by (auto simp: AdvanceRun_ok)
  have c: "consumed s' = consumed s" using assms(2) t by (simp add: quiet_def fun_eq_iff)
  have "\<exists>r'. map_of (st_runs s') k = Some r'
      \<and> (same_run r0 r' \<and> consumed s' k = consumed s k \<or> run_Version r' = incr64 (run_Version r0))"
    if k: "map_of (st_runs s) k = Some r0" for k r0
  proof (cases "k = i")
    case True
    then have "map_of (st_runs t) k = Some (apply_state now nxt r)" using t by simp
    then obtain r' where "map_of (st_runs s') k = Some r'" "same_run (apply_state now nxt r) r'"
      using assms(2) by (auto simp: quiet_def dest: growsD)
    with same_run_version True r k show ?thesis by (auto simp: apply_state_def)
  next
    case False
    then have "map_of (st_runs t) k = Some r0" using t k by simp
    with assms(2) c show ?thesis by (auto simp: quiet_def dest!: growsD)
  qed
  moreover have "run_Version r0 = 0"
    if k: "map_of (st_runs s) k = None" "map_of (st_runs s') k = Some r0" for k r0
  proof -
    have "map_of (st_runs t) k = None" using k(1) r t by auto
    then show ?thesis using assms(2) k(2) by (simp add: quiet_def)
  qed
  ultimately show ?thesis using c by (simp add: stamps_def)
qed

lemma quiet_RunInTx_advance:
  assumes "\<And>u. upholds quiet (rest u)"
  shows "stamps s (snd (RunInTx (tx_bind (AdvanceRun now i v nxt) rest) s))
    \<and> consumed (snd (RunInTx (tx_bind (AdvanceRun now i v nxt) rest) s)) = consumed s"
proof (cases "RunInTx (tx_bind (AdvanceRun now i v nxt) rest) s")
  case (Pair x s')
  show ?thesis
  proof (cases x)
    case (Inl err)
    then obtain q where "s' = s\<lparr>st_deliverySeq := q\<rparr>" using RunInTx_failed Pair by blast
    then show ?thesis using Pair quiet_stamps [OF quiet.R_rollback] by simp
  next
    case (Inr y)
    with Pair obtain u t where t: "AdvanceRun now i v nxt s = (Inr u, t)" "rest u t = (Inr y, s')" by auto
    then have "quiet t s'" using quiet.upholdsD [OF assms, of t u] by simp
    with t(1) show ?thesis using advance_stamps Pair by simp
  qed
qed

definition consumes :: "state list \<Rightarrow> state \<Rightarrow> state \<Rightarrow> bool" where
  "consumes seen s s' \<longleftrightarrow> (\<exists>s0 run i r. s0 \<in> set seen \<and> map_of (st_runs s0) (run_ID run) = Some run
     \<and> i \<notin> set (consumed s0 (run_ID run)) \<and> map_of (st_runs s) (run_ID run) = Some r
     \<and> run_Version r = run_Version run
     \<and> consumed s' = (consumed s)(run_ID run := consumed s (run_ID run) @ [i]))"

lemma consumed_snoc:
  assumes "appends r ty step data s s' ev" and "ends_wait s0 r ty data"
  shows "consumed s' = consumed s
     \<or> (\<exists>i. i \<notin> set (consumed s0 r) \<and> consumed s' = (consumed s)(r := consumed s r @ [i]))"
proof (cases "ty = EventSignalReceived")
  case True
  then obtain n i p where d: "data = SignalReceivedData n i p" "i \<notin> set (consumed s0 r)"
    using assms(2) by (auto simp: ends_wait_def consumed_def)
  have "Decode_SignalReceived (ev\<lparr>ev_CreatedAt := zero_time\<rparr>) = ((n, i, raw_norm p), None)"
    using assms(1) d(1) by (intro Decode_SignalReceived_NewEvent) (auto simp: appends_def)
  then have "ConsumedSignals [ev] = [i]"
    using appendsD(1) [OF assms(1)] True by simp
  then have "consumed s' = (consumed s)(r := consumed s r @ [i])"
    using appendsD(4) [OF assms(1)] by (auto simp: consumed_def fun_eq_iff)
  with d(2) show ?thesis by blast
next
  case False
  then have "ConsumedSignals [ev] = []" using appendsD(1) [OF assms(1)] by simp
  then show ?thesis using appendsD(4) [OF assms(1)] by (auto simp: consumed_def fun_eq_iff)
qed

lemma resume_stamps:
  assumes "s0 \<in> set seen" and "map_of (st_runs s0) (run_ID run) = Some run" and "ends_wait s0 (run_ID run) ty data"
    and s': "s' = snd (RunInTx (resume_tx now run wt ty data) s)"
  shows "stamps s s' \<and> (consumed s' = consumed s \<or> consumes seen s s')"
proof (cases "RunInTx (resume_tx now run wt ty data) s")
  case (Pair x s1)
  then have s1: "s' = s1" by (simp add: s')
  show ?thesis
  proof (cases x)
    case (Inl err)
    then obtain q where "s' = s\<lparr>st_deliverySeq := q\<rparr>" using RunInTx_failed Pair s1 by blast
    then show ?thesis using quiet_stamps [OF quiet.R_rollback] by simp
  next
    case (Inr y)
    let ?nxt = "running_state run None"
    from Inr Pair obtain t where t: "AdvanceRun now (run_ID run) (run_Version run) ?nxt s = (Inr (), t)"
      and a: "Append now (run_ID run) ty (wait_StepID wt) data t = (Inr (), s')"
      by (auto simp: resume_tx_def s1)
    from t obtain r where r: "map_of (st_runs s) (run_ID run) = Some r" "run_Version r = run_Version run"
      and ts: "t = s\<lparr>st_runs := AList.update (run_ID run) (apply_state now ?nxt r) (st_runs s)\<rparr>"
      by (auto simp: AdvanceRun_ok)
    obtain ev where ev: "appends (run_ID run) ty (wait_StepID wt) data t s' ev" using Append_ok [OF a] by blast
    have "consumed t = consumed s" using ts by simp
    then have c: "consumed s' = consumed s \<or> consumes seen s s'"
      using consumed_snoc [OF ev assms(3)] r assms(1,2) unfolding consumes_def by metis
    have runs: "st_runs s' = AList.update (run_ID run) (apply_state now ?nxt r) (st_runs s)"
      using appendsD(5) [OF ev] ts by (metis state.select_convs(1) state.surjective state.update_convs(1) state.update_convs(4))
    have cons: "consumed s' k = consumed s k" if "k \<noteq> run_ID run" for k
      using appendsD(4) [OF ev, of k] that ts by (simp add: consumed_def)
    have "stamps s s'"
      unfolding stamps_def using runs r cons by (auto simp: apply_state_def)
    with c show ?thesis by blast
  qed
qed

lemma quiet_RunInTx:
  assumes "upholds quiet m"
  shows "stamps s (snd (RunInTx m s)) \<and> consumed (snd (RunInTx m s)) = consumed s"
proof -
  have "quiet s (snd (RunInTx m s))" using quiet.upholdsD [OF quiet.upholds_RunInTx [OF assms]] .
  then show ?thesis using quiet_stamps by (simp add: quiet_def fun_eq_iff)
qed

lemma tx_bind_return: "tx_bind m tx_return = m"
  by (rule ext) (simp add: tx_bind_def tx_return_def split: prod.split sum.split)

lemma advancing_transactions:
  "fresh_task t \<Longrightarrow> stamps s (snd (RunInTx (dispatch_tx now run t) s)) \<and> consumed (snd (RunInTx (dispatch_tx now run t) s)) = consumed s"
  "(\<And>t. t \<in> set ts \<Longrightarrow> fresh_task t) \<Longrightarrow> stamps s (snd (RunInTx (fanout_tx now run st tools join ts) s))
     \<and> consumed (snd (RunInTx (fanout_tx now run st tools join ts) s)) = consumed s"
  "ends_run evt \<Longrightarrow> stamps s (snd (RunInTx (finish_tx now run nxt evt data) s))
     \<and> consumed (snd (RunInTx (finish_tx now run nxt evt data) s)) = consumed s"
  "starts_wait evt \<Longrightarrow> stamps s (snd (RunInTx (park_tx now run until evt st data) s))
     \<and> consumed (snd (RunInTx (park_tx now run until evt st data) s)) = consumed s"
  "stamps s (snd (RunInTx (repark_tx now run wt) s)) \<and> consumed (snd (RunInTx (repark_tx now run wt) s)) = consumed s"
proof -
  show "stamps s (snd (RunInTx (dispatch_tx now run t) s)) \<and> consumed (snd (RunInTx (dispatch_tx now run t) s)) = consumed s" if "fresh_task t"
    unfolding dispatch_tx_def using that by (intro quiet_RunInTx_advance quiet.only_put_task) simp_all
  show "stamps s (snd (RunInTx (fanout_tx now run st tools join ts) s))
     \<and> consumed (snd (RunInTx (fanout_tx now run st tools join ts) s)) = consumed s"
    if "\<And>t. t \<in> set ts \<Longrightarrow> fresh_task t"
    unfolding fanout_tx_def using that
    by (intro quiet_RunInTx_advance) (auto intro!: quiet.upholds_bind quiet.only_put_tasks)
  show "stamps s (snd (RunInTx (finish_tx now run nxt evt data) s))
     \<and> consumed (snd (RunInTx (finish_tx now run nxt evt data) s)) = consumed s" if "ends_run evt"
    unfolding finish_tx_def using that by (intro quiet_RunInTx_advance) (auto simp: ends_run_def)
  show "stamps s (snd (RunInTx (park_tx now run until evt st data) s))
     \<and> consumed (snd (RunInTx (park_tx now run until evt st data) s)) = consumed s" if "starts_wait evt"
    unfolding park_tx_def using that by (intro quiet_RunInTx_advance) (auto simp: starts_wait_def)
  have "repark_tx now run wt = tx_bind (repark_tx now run wt) tx_return" by (simp only: tx_bind_return)
  then show "stamps s (snd (RunInTx (repark_tx now run wt) s))
     \<and> consumed (snd (RunInTx (repark_tx now run wt) s)) = consumed s"
    using quiet_RunInTx_advance [of tx_return s now "run_ID run" "run_Version run" "running_state run (Some (wait_Until wt))"]
    by (simp add: repark_tx_def)
qed

lemma writes_stamps: "writes seen f \<Longrightarrow> stamps s (f s) \<and> (consumed (f s) = consumed s \<or> consumes seen s (f s))"
proof (induction rule: writes.induct)
  case (resume s0 seen run evt data now wt)
  then show ?case by (rule resume_stamps) (rule refl)
next
  case (rollback seen q)
  then show ?case using quiet_stamps [OF quiet.R_rollback] by simp
next
  case (effect ev seen now rid st eff ef et eo detail)
  then have "upholds quiet (effect_tx now rid st eff ef et eo ev detail)"
    by (intro quiet.only_effect) (auto simp: effect_event_def)
  then show ?case by (simp add: quiet_RunInTx)
qed (simp_all add: advancing_transactions quiet_RunInTx quiet.only_all)

section \<open>Stamps along a trace\<close>

text \<open>
  A trace has no more advances of a run than transactions, so on a trace shorter than the range
  of an int64 versions do not wrap and equal versions mean that nothing was consumed in between.
\<close>

definition stamped :: "state \<Rightarrow> state \<Rightarrow> bool" where
  "stamped s0 s \<longleftrightarrow> (\<forall>k r0. map_of (st_runs s0) k = Some r0 \<longrightarrow> (\<exists>r. map_of (st_runs s) k = Some r
     \<and> run_Version r0 \<le> run_Version r
     \<and> (run_Version r = run_Version r0 \<longrightarrow> same_run r0 r \<and> consumed s k = consumed s0 k)))"

definition version_bound :: "nat \<Rightarrow> state \<Rightarrow> bool" where
  "version_bound n s \<longleftrightarrow> (\<forall>k r. map_of (st_runs s) k = Some r \<longrightarrow> 0 \<le> run_Version r \<and> run_Version r \<le> int n)"

lemma stampedD: "stamped s0 s \<Longrightarrow> map_of (st_runs s0) k = Some r0 \<Longrightarrow> \<exists>r. map_of (st_runs s) k = Some r
    \<and> run_Version r0 \<le> run_Version r
    \<and> (run_Version r = run_Version r0 \<longrightarrow> same_run r0 r \<and> consumed s k = consumed s0 k)"
  unfolding stamped_def by blast

lemma stamped_refl: "stamped s s"
  by (simp add: stamped_def)

lemma version_step: "stamps s s' \<Longrightarrow> version_bound n s \<Longrightarrow> int n < max_int64 \<Longrightarrow> version_bound (Suc n) s'"
  unfolding version_bound_def
proof (intro allI impI)
  fix k r'
  assume st: "stamps s s'" and b: "\<forall>k r. map_of (st_runs s) k = Some r \<longrightarrow> 0 \<le> run_Version r \<and> run_Version r \<le> int n"
    and n: "int n < max_int64" and r': "map_of (st_runs s') k = Some r'"
  show "0 \<le> run_Version r' \<and> run_Version r' \<le> int (Suc n)"
  proof (cases "map_of (st_runs s) k")
    case None
    with st r' show ?thesis by (simp add: stamps_def)
  next
    case (Some r)
    with b have "0 \<le> run_Version r" "run_Version r \<le> int n" by auto
    moreover have "run_Version r' = run_Version r \<or> run_Version r' = incr64 (run_Version r)"
      using stampsD [OF st Some] r' same_run_version by auto
    ultimately show ?thesis using n incr64_eq [of "run_Version r"] by auto
  qed
qed

lemma stamped_step:
  assumes a: "stamped s0 s" and st: "stamps s s'" and b: "version_bound n s" and n: "int n < max_int64"
  shows "stamped s0 s'"
  unfolding stamped_def
proof (intro allI impI)
  fix k r0
  assume "map_of (st_runs s0) k = Some r0"
  then obtain r where r: "map_of (st_runs s) k = Some r" "run_Version r0 \<le> run_Version r"
    "run_Version r = run_Version r0 \<longrightarrow> same_run r0 r \<and> consumed s k = consumed s0 k" using stampedD [OF a] by blast
  obtain r' where r': "map_of (st_runs s') k = Some r'"
    "same_run r r' \<and> consumed s' k = consumed s k \<or> run_Version r' = incr64 (run_Version r)"
    using stampsD [OF st r(1)] by blast
  from b r(1) have "0 \<le> run_Version r" "run_Version r \<le> int n" by (auto simp: version_bound_def)
  then have i: "incr64 (run_Version r) = run_Version r + 1" using n by (intro incr64_eq) auto
  from r'(2) show "\<exists>r. map_of (st_runs s') k = Some r \<and> run_Version r0 \<le> run_Version r
      \<and> (run_Version r = run_Version r0 \<longrightarrow> same_run r0 r \<and> consumed s' k = consumed s0 k)"
  proof
    assume same: "same_run r r' \<and> consumed s' k = consumed s k"
    then have "run_Version r' = run_Version r" by (simp add: same_run_version)
    with r r'(1) same show ?thesis using same_run_trans [of r0 r r'] by auto
  next
    assume "run_Version r' = incr64 (run_Version r)"
    with r(2) r'(1) i show ?thesis by auto
  qed
qed

definition once :: "state \<Rightarrow> bool" where
  "once s \<longleftrightarrow> (\<forall>k. distinct (consumed s k))"

lemma trace_stamped_once:
  "trace ss \<Longrightarrow> int (length ss) < max_int64
     \<Longrightarrow> (\<forall>s0 \<in> set ss. stamped s0 (hd ss)) \<and> version_bound (length ss) (hd ss) \<and> once (hd ss)"
proof (induction rule: trace.induct)
  case initial
  then show ?case
    by (simp add: stamped_refl version_bound_def once_def consumed_def events_of_def newState_def)
next
  case (step s ss f)
  then have IH: "\<forall>s0 \<in> set (s # ss). stamped s0 s" "version_bound (length (s # ss)) s" "once s" by auto
  from step.hyps(2) have w: "stamps s (f s)" "consumed (f s) = consumed s \<or> consumes (s # ss) s (f s)"
    using writes_stamps by blast+
  have n: "int (length (s # ss)) < max_int64" using step.prems by simp
  have "stamped s0 (f s)" if "s0 \<in> set (s # ss)" for s0
    using stamped_step [OF _ w(1) IH(2) n] IH(1) that by blast
  moreover have "version_bound (length (f s # s # ss)) (f s)"
    using version_step [OF w(1) IH(2) n] by simp
  moreover from w(2) have "once (f s)"
  proof
    assume "consumes (s # ss) s (f s)"
    then obtain s0 run i r where c: "s0 \<in> set (s # ss)" "map_of (st_runs s0) (run_ID run) = Some run"
      "i \<notin> set (consumed s0 (run_ID run))" "map_of (st_runs s) (run_ID run) = Some r"
      "run_Version r = run_Version run"
      "consumed (f s) = (consumed s)(run_ID run := consumed s (run_ID run) @ [i])"
      unfolding consumes_def by blast
    then have "consumed s (run_ID run) = consumed s0 (run_ID run)"
      using stampedD [of s0 s "run_ID run" run] IH(1) by simp
    moreover have "distinct (consumed s (run_ID run))" using IH(3) by (simp add: once_def)
    ultimately show ?thesis using c(3,6) IH(3) by (simp add: once_def)
  qed (use IH(3) in \<open>simp add: once_def\<close>)
  ultimately show ?case by (auto simp: stamped_refl)
qed

lemma trace_stamp:
  assumes "trace (s # ss)" "int (length (s # ss)) < max_int64" "s0 \<in> set (s # ss)" "map_of (st_runs s0) k = Some r0"
  shows "\<exists>r. map_of (st_runs s) k = Some r \<and> run_Version r0 \<le> run_Version r
    \<and> (run_Version r = run_Version r0 \<longrightarrow> same_run r0 r \<and> consumed s k = consumed s0 k)"
proof -
  have "stamped s0 s" using trace_stamped_once [OF assms(1,2)] assms(3) unfolding list.sel by blast
  then show ?thesis using stampedD assms(4) by blast
qed

end
