(* ===== verification/TaskRules.thy ===== *)
theory TaskRules
  imports Stamps
begin

text \<open>
  What the four transactions that move a task do when they succeed: the task, the lease, the
  events and the delivery intents they leave behind, in one predicate per transaction.
\<close>

section \<open>What the transactions on tasks do\<close>

lemma granted_cong [simp]:
  "granted (st_tasks_update f s) i wid now expires = granted s i wid now expires"
  "granted (st_events_update g s) i wid now expires = granted s i wid now expires"
  by (simp_all add: granted_def)

text \<open>Events of the given types and steps were put at the end of one history.\<close>

definition logs :: "RunID \<Rightarrow> (EventType \<times> StepID) list \<Rightarrow> (RunID \<Rightarrow> Event list) \<Rightarrow> (RunID \<Rightarrow> Event list) \<Rightarrow> bool" where
  "logs r evs h h' \<longleftrightarrow> (\<exists>more. h' = h(r := h r @ more) \<and> map (\<lambda>e. (ev_Type e, ev_StepID e)) more = evs)"

definition histories :: "(RunID \<times> Event list) list \<Rightarrow> RunID \<Rightarrow> Event list" where
  "histories m r = (case map_of m r of None \<Rightarrow> [] | Some es \<Rightarrow> es)"

lemma events_of_histories [simp]: "events_of (st_events_update (\<lambda>_. m) s) = histories m"
  by (simp add: events_of_def histories_def fun_eq_iff)

lemma logs_trans: "logs r a h h' \<Longrightarrow> logs r b h' h'' \<Longrightarrow> logs r (a @ b) h h''"
  unfolding logs_def by fastforce

text \<open>An append in a chain of steps: only the events differ afterwards.\<close>

lemma Append_logs:
  assumes "Append now r ty step data s = (Inr u, s')"
  shows "\<exists>m. s' = s\<lparr>st_events := m\<rparr> \<and> logs r [(ty, step)] (events_of s) (histories m)"
proof -
  obtain ev where ev: "appends r ty step data s s' ev" using Append_ok [OF assms] ..
  from appendsD(5) [OF ev] obtain m where m: "s' = s\<lparr>st_events := m\<rparr>" ..
  have "logs r [(ty, step)] (events_of s) (events_of s')"
    unfolding logs_def using appendsD(1,2) [OF ev] appendsD(4) [OF ev]
    by (intro exI [of _ "[ev]"]) (auto simp: fun_eq_iff)
  with m show ?thesis by auto
qed

text \<open>
  What a transaction on one task left behind: the task, the lease, the delivery intents it
  enqueued and the events it appended; runs, effects, signals and workers are as they were.
\<close>

definition task_writes ::
  "state \<Rightarrow> state \<Rightarrow> TaskID \<Rightarrow> Task \<Rightarrow> Lease \<Rightarrow> RunID \<Rightarrow> (EventType \<times> StepID) list \<Rightarrow> bool" where
  "task_writes s s' tid t l r evs \<longleftrightarrow>
     st_tasks s' = AList.update tid t (st_tasks s) \<and> st_leases s' = AList.update tid l (st_leases s)
     \<and> logs r evs (events_of s) (events_of s')
     \<and> st_runs s' = st_runs s \<and> st_stepIndex s' = st_stepIndex s \<and> st_effects s' = st_effects s
     \<and> st_workers s' = st_workers s \<and> st_signals s' = st_signals s \<and> st_published s' = st_published s"

lemma claim_tx_ok:
  assumes "claim_tx now ttl tid wid s = (Inr c, s')"
  obtains t where "map_of (st_tasks s) tid = Some t" "task_Status t = TaskPending" "has (st_workers s) wid"
    "\<forall>l. map_of (st_leases s) tid = Some l \<longrightarrow> Lease_Expired l now"
    "c = \<lparr>cl_Task = t\<lparr>task_Status := TaskRunning, task_Attempt := incr64 (task_Attempt t)\<rparr>,
          cl_Lease = granted s tid wid now (time_Add now ttl)\<rparr>"
    "task_writes s s' tid (move_task now TaskRunning \<lparr>to_Error = []\<rparr> t) (granted s tid wid now (time_Add now ttl))
       (task_RunID t) [(EventTaskClaimed, task_StepID t)]" "st_deliveries s' = st_deliveries s"
  using assms
  by (clarsimp simp: claim_tx_def Let_def TransitionTask_ok AcquireLease_ok task_writes_def dest!: Append_logs)

lemma complete_tx_ok:
  assumes "complete_tx now tid token result s = (Inr rid, s')"
  obtains t l where "map_of (st_tasks s) tid = Some t" "task_Status t = TaskRunning" "rid = task_RunID t"
    "map_of (st_leases s) tid = Some l" "lease_Token l = token"
    "task_writes s s' tid (move_task now TaskCompleted \<lparr>to_Error = []\<rparr> t) (l\<lparr>lease_ExpiresAt := now\<rparr>)
       (task_RunID t) [(EventTaskCompleted, task_StepID t)]" "st_deliveries s' = st_deliveries s"
  using assms
  by (clarsimp simp: complete_tx_def Let_def TransitionTask_ok ReleaseLease_ok task_writes_def dest!: Append_logs)

text \<open>The delivery intent that an enqueue adds.\<close>

definition intent :: "int \<Rightarrow> TaskID \<Rightarrow> time \<Rightarrow> time \<Rightarrow> Delivery" where
  "intent i tid now av = \<lparr>del_ID = i, del_TaskID = tid, del_Attempts = 0, del_LastError = [],
     del_CreatedAt = now, del_AvailableAt = av\<rparr>"

definition announced :: "state \<Rightarrow> TaskID \<Rightarrow> time \<Rightarrow> time \<Rightarrow> (int \<times> Delivery) list" where
  "announced s tid now av = AList.update (incr64 (st_deliverySeq s))
     (intent (incr64 (st_deliverySeq s)) tid now av) (st_deliveries s)"

text \<open>Whether a failed task is tried again.\<close>

definition retries :: "Task \<Rightarrow> bool \<Rightarrow> bool" where
  "retries t escalated \<longleftrightarrow> \<not> Task_Exhausted t \<and> \<not> escalated"

definition not_before :: "engine \<Rightarrow> time \<Rightarrow> rat \<Rightarrow> Task \<Rightarrow> bool \<Rightarrow> time" where
  "not_before e now rnd t retry =
     (let delay = Backoff (e_float e) rnd (e_retry e) (task_Attempt t)
      in if retry \<and> 0 < delay then time_Add now delay else zero_time)"

lemma fail_tx_ok:
  assumes "fail_tx e now rnd tid token reason escalated s = (Inr v, s')"
  obtains t l where "map_of (st_tasks s) tid = Some t" "task_Status t = TaskRunning"
    "v = (t, retries t escalated, not_before e now rnd t (retries t escalated))"
    "map_of (st_leases s) tid = Some l" "lease_Token l = token"
    "task_writes s s' tid
       (move_task now (if retries t escalated then TaskPending else TaskDeadLetter) \<lparr>to_Error = reason\<rparr> t)
       (l\<lparr>lease_ExpiresAt := now\<rparr>) (task_RunID t)
       [(EventTaskFailed, task_StepID t),
        (if retries t escalated then EventTaskRetryScheduled else EventTaskDeadLettered, task_StepID t)]"
    "st_deliveries s' = (if retries t escalated then announced s tid now (not_before e now rnd t True)
       else st_deliveries s)"
proof -
  from assms obtain t where t: "map_of (st_tasks s) tid = Some t" by (auto simp: fail_tx_def)
  note defs = fail_tx_def Let_def TransitionTask_ok ReleaseLease_ok EnqueueDelivery_ok retries_def
  show ?thesis
  proof (cases "retries t escalated")
    case True
    with t assms show ?thesis
      by (clarsimp simp: defs dest!: Append_logs, intro that)
        (auto simp: task_writes_def not_before_def Let_def retries_def announced_def intent_def dest: logs_trans)
  next
    case False
    with t assms show ?thesis
      by (clarsimp simp: defs dest!: Append_logs, intro that)
        (auto simp: task_writes_def not_before_def Let_def retries_def dest: logs_trans)
  qed
qed

definition reclaimed_task :: "time \<Rightarrow> Lease \<Rightarrow> Task \<Rightarrow> Task" where
  "reclaimed_task now stale t =
     move_task now (if Task_Exhausted t then TaskDeadLetter else TaskPending) \<lparr>to_Error = expiry_reason stale\<rparr> t"

text \<open>A reclaim found nothing to do and wrote nothing, or it took the task back.\<close>

lemma reclaim_tx_ok:
  assumes "reclaim_tx now stale s = (Inr b, s')"
  obtains "b = False" "s' = s"
  | t where "map_of (st_tasks s) (lease_TaskID stale) = Some t" "task_Status t = TaskRunning"
    "has (st_workers s) ReaperWorkerID"
    "\<forall>l. map_of (st_leases s) (lease_TaskID stale) = Some l \<longrightarrow> Lease_Expired l now"
    "b = (\<not> Task_Exhausted t)"
    "task_ID t = lease_TaskID stale \<Longrightarrow> task_writes s s' (lease_TaskID stale) (reclaimed_task now stale t)
       ((granted s (lease_TaskID stale) ReaperWorkerID now (time_Add now (60 * second)))\<lparr>lease_ExpiresAt := now\<rparr>)
       (task_RunID t) [(EventLeaseExpired, task_StepID t),
         (if Task_Exhausted t then EventTaskDeadLettered else EventTaskRetryScheduled, task_StepID t)]"
    "task_ID t = lease_TaskID stale \<Longrightarrow> st_deliveries s' =
       (if Task_Exhausted t then st_deliveries s else announced s (lease_TaskID stale) now zero_time)"
proof -
  let ?i = "lease_TaskID stale" and ?x = "time_Add now (60 * second)"
  from assms obtain t where t: "map_of (st_tasks s) ?i = Some t" by (auto simp: reclaim_tx_def)
  show ?thesis
  proof (cases "task_Status t = TaskRunning")
    case False
    with t assms that(1) show ?thesis by (simp add: reclaim_tx_def)
  next
    case running: True
    obtain r s1 where acq: "AcquireLease ?i ReaperWorkerID now ?x s = (r, s1)" by fastforce
    show ?thesis
    proof (cases r)
      case (Inl err)
      then have "s1 = s" using acq AcquireLease_refused by blast
      with Inl acq running t assms that(1) show ?thesis
        by (auto simp: reclaim_tx_def tx_try_ok split: if_splits)
    next
      case (Inr fresh)
      with acq have g: "has (st_workers s) ReaperWorkerID"
        "\<forall>l. map_of (st_leases s) ?i = Some l \<longrightarrow> Lease_Expired l now" "fresh = granted s ?i ReaperWorkerID now ?x"
        "s1 = s\<lparr>st_leases := AList.update ?i fresh (st_leases s)\<rparr>"
        by (simp_all add: AcquireLease_ok)
      have q: "requeue_tx now stale t fresh s1 = (Inr b, s')"
        using assms acq Inr running t by (simp add: reclaim_tx_def tx_try_ok)
      have b: "b = (\<not> Task_Exhausted t)" using q by (auto simp: requeue_tx_def Let_def)
      note defs = requeue_tx_def Let_def TransitionTask_ok ReleaseLease_ok EnqueueDelivery_ok
      have both: "task_writes s s' ?i (reclaimed_task now stale t) (fresh\<lparr>lease_ExpiresAt := now\<rparr>)
         (task_RunID t) [(EventLeaseExpired, task_StepID t),
           (if Task_Exhausted t then EventTaskDeadLettered else EventTaskRetryScheduled, task_StepID t)]
         \<and> st_deliveries s' = (if Task_Exhausted t then st_deliveries s else announced s ?i now zero_time)"
        if i: "task_ID t = ?i"
        using q running t i unfolding g(4)
        by (cases "Task_Exhausted t"; clarsimp simp: defs dest!: Append_logs)
          (auto simp: task_writes_def reclaimed_task_def announced_def intent_def dest: logs_trans)
      show ?thesis using that(2) [OF t running g(1,2) b] both g(3) by blast
    qed
  qed
qed

end
