(* ===== verification/Fencing.thy ===== *)
theory Fencing
  imports TaskRules
begin

text \<open>
  Ownership along a trace: the order of fencing tokens, and what holds of every task at every
  moment (its attempts are within bounds, a running task has a lease).
\<close>

section \<open>Fencing tokens\<close>

definition same_owner :: "Lease \<Rightarrow> Lease \<Rightarrow> bool" where
  "same_owner l l' \<longleftrightarrow> lease_TaskID l' = lease_TaskID l \<and> lease_WorkerID l' = lease_WorkerID l
     \<and> lease_Token l' = lease_Token l \<and> lease_AcquiredAt l' = lease_AcquiredAt l"

definition same_owners :: "state \<Rightarrow> state \<Rightarrow> bool" where
  "same_owners s s' \<longleftrightarrow> grows same_owner (st_leases s) (st_leases s')
     \<and> (\<forall>k. map_of (st_leases s) k = None \<longrightarrow> map_of (st_leases s') k = None)"

lemma same_owner_refl [simp]: "same_owner l l"
  by (simp add: same_owner_def)

lemma same_owner_trans: "same_owner a b \<Longrightarrow> same_owner b c \<Longrightarrow> same_owner a c"
  by (simp add: same_owner_def)

interpretation owners: restricted_relation same_owners "\<lambda>oper. oper \<noteq> OpAcquireLease"
proof
  show "same_owners s s" for s by (simp add: same_owners_def)
  show "same_owners s u" if "same_owners s t" "same_owners t u" for s t u
    using that by (auto simp: same_owners_def elim: grows_trans same_owner_trans)
  show "same_owners s (snd (Append now i ty step data s))" for s now i ty step data
    by (cases rule: Append_cases [of now i ty step data s]) (simp_all add: same_owners_def)
qed (auto simp: same_owners_def tx_op_defs same_owner_def Let_def intro!: grows_update split: option.split)

text \<open>What one transaction does to the tokens: it keeps an owner, or it issues the next token.\<close>

definition reowns :: "state \<Rightarrow> state \<Rightarrow> bool" where
  "reowns s s' \<longleftrightarrow>
     (\<forall>k l. map_of (st_leases s) k = Some l \<longrightarrow> (\<exists>l'. map_of (st_leases s') k = Some l'
        \<and> (same_owner l l' \<or> lease_Token l' = incr64 (lease_Token l))))
     \<and> (\<forall>k l. map_of (st_leases s) k = None \<longrightarrow> map_of (st_leases s') k = Some l \<longrightarrow> lease_Token l = 1)"

lemma same_owners_reowns: "same_owners s s' \<Longrightarrow> reowns s s'"
  by (auto simp: same_owners_def reowns_def dest!: growsD)

lemma owners_RunInTx: "upholds same_owners m \<Longrightarrow> reowns s (snd (RunInTx m s))"
  by (rule same_owners_reowns) (rule owners.upholdsD, erule owners.upholds_RunInTx)

lemma rollback_reowns: "reowns s (s\<lparr>st_deliverySeq := q\<rparr>)"
  by (rule same_owners_reowns) (rule owners.R_rollback)

lemma granting_reowns:
  "st_leases s' = AList.update k l (st_leases s) \<Longrightarrow> lease_Token l = lease_Token (granted s k wid now expires) \<Longrightarrow> reowns s s'"
  by (auto simp: reowns_def granted_def)

lemma RunInTx_cases:
  obtains q e where "RunInTx m s = (Inl e, s\<lparr>st_deliverySeq := q\<rparr>)" | x s' where "m s = (Inr x, s')" "RunInTx m s = (Inr x, s')"
proof (cases "m s")
  case (Pair r s')
  then show ?thesis using that by (cases r) (auto simp: RunInTx_def)
qed

lemma claim_reowns: "reowns s (snd (RunInTx (claim_tx now ttl tid wid) s))"
proof (cases rule: RunInTx_cases [of "claim_tx now ttl tid wid" s])
  case (2 c s')
  from 2(1) show ?thesis
    by (rule claim_tx_ok) (auto simp: 2(2) task_writes_def intro: granting_reowns)
qed (simp add: rollback_reowns)

lemma task_at: "store_ok s \<Longrightarrow> map_of (st_tasks s) k = Some t \<Longrightarrow> task_ID t = k"
  by (auto simp: store_ok_def task_ok_def dest: keyedD)

lemma reclaim_reowns:
  assumes "store_ok s"
  shows "reowns s (snd (RunInTx (reclaim_tx now stale) s))"
proof (cases rule: RunInTx_cases [of "reclaim_tx now stale" s])
  case (2 b s')
  from 2(1) show ?thesis
  proof (rule reclaim_tx_ok)
    assume "s' = s"
    then show ?thesis unfolding 2(2) using rollback_reowns [of s "st_deliverySeq s"] by simp
  next
    fix t
    let ?g = "granted s (lease_TaskID stale) ReaperWorkerID now (time_Add now (60 * second))"
    assume "map_of (st_tasks s) (lease_TaskID stale) = Some t"
      and w: "task_ID t = lease_TaskID stale \<Longrightarrow> task_writes s s' (lease_TaskID stale) (reclaimed_task now stale t)
        (?g\<lparr>lease_ExpiresAt := now\<rparr>) (task_RunID t) [(EventLeaseExpired, task_StepID t),
         (if Task_Exhausted t then EventTaskDeadLettered else EventTaskRetryScheduled, task_StepID t)]"
    then have "task_ID t = lease_TaskID stale" by (simp add: task_at [OF assms])
    with w show ?thesis by (auto simp: 2(2) task_writes_def intro!: granting_reowns)
  qed
qed (simp add: rollback_reowns)

lemma writes_reowns: "writes seen f \<Longrightarrow> store_ok s \<Longrightarrow> reowns s (f s)"
proof (induction rule: writes.induct)
  case (effect ev seen now rid st eff ef et eo detail)
  show ?case by (rule owners_RunInTx) (simp add: owners.only_effect)
next
  case (fanout ts run seen now st tools join)
  then show ?case by (intro owners_RunInTx owners.only_fanout) auto
qed (simp_all add: owners_RunInTx owners.only_all rollback_reowns claim_reowns reclaim_reowns)

text \<open>
  Along a trace shorter than the range of an int64: a token never goes down, and two leases of a
  task with the same token have the same owner, so a token names its holder.
\<close>

definition fences :: "state \<Rightarrow> state \<Rightarrow> bool" where
  "fences s0 s \<longleftrightarrow> (\<forall>k l0. map_of (st_leases s0) k = Some l0 \<longrightarrow> (\<exists>l. map_of (st_leases s) k = Some l
     \<and> lease_Token l0 \<le> lease_Token l \<and> (lease_Token l = lease_Token l0 \<longrightarrow> same_owner l0 l)))"

definition token_bound :: "nat \<Rightarrow> state \<Rightarrow> bool" where
  "token_bound n s \<longleftrightarrow> (\<forall>k l. map_of (st_leases s) k = Some l \<longrightarrow> 1 \<le> lease_Token l \<and> lease_Token l \<le> int n)"

lemma fencesD: "fences s0 s \<Longrightarrow> map_of (st_leases s0) k = Some l0 \<Longrightarrow> \<exists>l. map_of (st_leases s) k = Some l
     \<and> lease_Token l0 \<le> lease_Token l \<and> (lease_Token l = lease_Token l0 \<longrightarrow> same_owner l0 l)"
  unfolding fences_def by blast

lemma reownsD: "reowns s s' \<Longrightarrow> map_of (st_leases s) k = Some l \<Longrightarrow> \<exists>l'. map_of (st_leases s') k = Some l'
        \<and> (same_owner l l' \<or> lease_Token l' = incr64 (lease_Token l))"
  unfolding reowns_def by blast

lemma fences_refl [simp]: "fences s s"
  by (simp add: fences_def)

lemma fences_step:
  assumes a: "fences s0 s" and st: "reowns s s'" and b: "token_bound n s" and n: "int n < max_int64"
  shows "fences s0 s'"
  unfolding fences_def
proof (intro allI impI)
  fix k l0
  assume "map_of (st_leases s0) k = Some l0"
  then obtain l where l: "map_of (st_leases s) k = Some l" "lease_Token l0 \<le> lease_Token l"
    "lease_Token l = lease_Token l0 \<longrightarrow> same_owner l0 l" using fencesD [OF a] by blast
  obtain l' where l': "map_of (st_leases s') k = Some l'" "same_owner l l' \<or> lease_Token l' = incr64 (lease_Token l)"
    using reownsD [OF st l(1)] by blast
  from b l(1) have "1 \<le> lease_Token l" "lease_Token l \<le> int n" by (auto simp: token_bound_def)
  then have i: "incr64 (lease_Token l) = lease_Token l + 1" using n by (intro incr64_eq) auto
  show "\<exists>l. map_of (st_leases s') k = Some l \<and> lease_Token l0 \<le> lease_Token l
      \<and> (lease_Token l = lease_Token l0 \<longrightarrow> same_owner l0 l)"
    using l'(2)
  proof
    assume same: "same_owner l l'"
    then have "lease_Token l' = lease_Token l" by (simp add: same_owner_def)
    with l l'(1) same show ?thesis using same_owner_trans [of l0 l l'] by auto
  next
    assume "lease_Token l' = incr64 (lease_Token l)"
    with l(2) l'(1) i show ?thesis by auto
  qed
qed

lemma token_step:
  assumes st: "reowns s s'" and b: "token_bound n s" and n: "int n < max_int64" and n1: "0 < n"
  shows "token_bound (Suc n) s'"
  unfolding token_bound_def
proof (intro allI impI)
  fix k l'
  assume l': "map_of (st_leases s') k = Some l'"
  show "1 \<le> lease_Token l' \<and> lease_Token l' \<le> int (Suc n)"
  proof (cases "map_of (st_leases s) k")
    case None
    with st l' n1 show ?thesis by (auto simp: reowns_def)
  next
    case (Some l)
    with b have "1 \<le> lease_Token l" "lease_Token l \<le> int n" by (auto simp: token_bound_def)
    moreover have "lease_Token l' = lease_Token l \<or> lease_Token l' = incr64 (lease_Token l)"
      using reownsD [OF st Some] l' by (auto simp: same_owner_def)
    ultimately show ?thesis using n incr64_eq [of "lease_Token l"] by auto
  qed
qed

lemma trace_fences:
  "trace ss \<Longrightarrow> int (length ss) < max_int64 \<Longrightarrow> (\<forall>s0 \<in> set ss. fences s0 (hd ss)) \<and> token_bound (length ss) (hd ss)"
proof (induction rule: trace.induct)
  case initial
  then show ?case by (simp add: token_bound_def newState_def)
next
  case (step s ss f)
  then have IH: "\<forall>s0 \<in> set (s # ss). fences s0 s" "token_bound (length (s # ss)) s" by auto
  have r: "reowns s (f s)" using step.hyps trace_ok [OF step.hyps(1)] writes_reowns by simp
  have n: "int (length (s # ss)) < max_int64" using step.prems by simp
  have "fences s0 (f s)" if "s0 \<in> set (s # ss)" for s0
    using fences_step [OF _ r IH(2) n] IH(1) that by blast
  moreover have "token_bound (length (f s # s # ss)) (f s)"
    using token_step [OF r IH(2) n] by simp
  ultimately show ?case by auto
qed

lemma trace_tokens:
  assumes "trace (s # ss)" "int (length (s # ss)) < max_int64" "s0 \<in> set (s # ss)" "map_of (st_leases s0) k = Some l0"
  shows "\<exists>l. map_of (st_leases s) k = Some l \<and> 1 \<le> lease_Token l0 \<and> lease_Token l0 \<le> lease_Token l
    \<and> (lease_Token l = lease_Token l0 \<longrightarrow> same_owner l0 l)"
proof -
  have f: "fences s0 s" using trace_fences [OF assms(1,2)] assms(3) unfolding list.sel by blast
  obtain before where b: "trace (s0 # before)" "length (s0 # before) \<le> length (s # ss)"
    using trace_from [OF assms(1,3)] by blast
  with assms(2) have "int (length (s0 # before)) < max_int64" by simp
  then have "token_bound (length (s0 # before)) s0" using trace_fences [OF b(1)] by simp
  then have "1 \<le> lease_Token l0" using assms(4) by (simp add: token_bound_def)
  then show ?thesis using fencesD [OF f assms(4)] by auto
qed

section \<open>Attempts and leases of tasks\<close>

definition task_inv :: "nat \<Rightarrow> state \<Rightarrow> TaskID \<Rightarrow> Task \<Rightarrow> bool" where
  "task_inv n s k t \<longleftrightarrow> 0 \<le> task_Attempt t \<and> task_Attempt t \<le> int n \<and> task_Attempt t \<le> task_MaxAttempts t
     \<and> (task_Status t = TaskPending \<longrightarrow> task_Attempt t < task_MaxAttempts t)
     \<and> (task_Status t = TaskRunning \<longrightarrow> 0 < task_Attempt t \<and> has (st_leases s) k)
     \<and> (task_Status t = TaskCompleted \<longrightarrow> 0 < task_Attempt t)
     \<and> (task_CompletedAt t = None \<longleftrightarrow> \<not> TaskStatus_IsTerminal (task_Status t))"

definition tasks_inv :: "nat \<Rightarrow> state \<Rightarrow> bool" where
  "tasks_inv n s \<longleftrightarrow> (\<forall>k t. map_of (st_tasks s) k = Some t \<longrightarrow> task_inv n s k t)"

definition keeps_tasks :: "nat \<Rightarrow> state \<Rightarrow> state \<Rightarrow> bool" where
  "keeps_tasks n s s' \<longleftrightarrow> (\<forall>k. has (st_leases s) k \<longrightarrow> has (st_leases s') k) \<and> (tasks_inv n s \<longrightarrow> tasks_inv n s')"

lemma tasks_inv_leases: "st_tasks s' = st_tasks s \<Longrightarrow> (\<And>k. has (st_leases s) k \<Longrightarrow> has (st_leases s') k)
    \<Longrightarrow> tasks_inv n s \<Longrightarrow> tasks_inv n s'"
  by (auto simp: tasks_inv_def task_inv_def)

interpretation tasks_kept: restricted_relation "keeps_tasks n" "\<lambda>oper. oper \<noteq> OpTransitionTask" for n
proof
  show "keeps_tasks n s s" for s by (simp add: keeps_tasks_def)
  show "keeps_tasks n s u" if "keeps_tasks n s t" "keeps_tasks n t u" for s t u
    using that by (simp add: keeps_tasks_def)
  show "keeps_tasks n s (snd (CreateTask now t s))" if "fresh_task t" for s now t
    using that by (auto simp: keeps_tasks_def CreateTask_def tasks_inv_def task_inv_def fresh_task_def TaskStatus_IsTerminal_def)
  show "keeps_tasks n s (snd (Append now i ty step data s))" for s now i ty step data
    by (cases rule: Append_cases [of now i ty step data s]) (auto simp: keeps_tasks_def elim!: tasks_inv_leases [rotated 2])
qed (auto simp: keeps_tasks_def tx_op_defs Let_def elim!: tasks_inv_leases [rotated 2] split: option.split)


text \<open>The transactions that move a task: the new task is in order, the others are as they were.\<close>

lemma task_writes_inv:
  assumes w: "task_writes s s' k t l r evs" and inv: "tasks_inv n s" and new: "task_inv (Suc n) s' k t"
  shows "tasks_inv (Suc n) s'"
  unfolding tasks_inv_def
proof (intro allI impI)
  fix k' t'
  assume t': "map_of (st_tasks s') k' = Some t'"
  show "task_inv (Suc n) s' k' t'"
  proof (cases "k' = k")
    case True
    with t' w new show ?thesis by (simp add: task_writes_def)
  next
    case False
    then have "map_of (st_tasks s) k' = Some t'" using t' w by (simp add: task_writes_def)
    then have "task_inv n s k' t'" using inv by (simp add: tasks_inv_def)
    then show ?thesis using w by (auto simp: task_inv_def task_writes_def)
  qed
qed

lemma task_writes_lease: "task_writes s s' k t l r evs \<Longrightarrow> has (st_leases s') k"
  by (simp add: task_writes_def)

lemma tasks_inv_mono: "tasks_inv n s \<Longrightarrow> tasks_inv (Suc n) s"
  by (fastforce simp: tasks_inv_def task_inv_def)

lemma tasks_inv_rollback: "tasks_inv n s \<Longrightarrow> tasks_inv (Suc n) (s\<lparr>st_deliverySeq := q\<rparr>)"
  using tasks_inv_mono by (simp add: tasks_inv_def task_inv_def)

lemma tasks_invD: "tasks_inv n s \<Longrightarrow> map_of (st_tasks s) k = Some t \<Longrightarrow> task_inv n s k t"
  by (simp add: tasks_inv_def)

lemmas task_move_simps = task_inv_def move_task_def TaskStatus_IsTerminal_def

lemma claim_tasks_inv:
  assumes inv: "tasks_inv n s" and n: "int n < max_int64"
  shows "tasks_inv (Suc n) (snd (RunInTx (claim_tx now ttl tid wid) s))"
proof (cases rule: RunInTx_cases [of "claim_tx now ttl tid wid" s])
  case (2 c s')
  from 2(1) show ?thesis
  proof (rule claim_tx_ok)
    fix t
    assume t: "map_of (st_tasks s) tid = Some t" "task_Status t = TaskPending"
      and w: "task_writes s s' tid (move_task now TaskRunning \<lparr>to_Error = []\<rparr> t)
        (granted s tid wid now (time_Add now ttl)) (task_RunID t) [(EventTaskClaimed, task_StepID t)]"
    have i: "task_inv n s tid t" using tasks_invD [OF inv t(1)] .
    then have "incr64 (task_Attempt t) = task_Attempt t + 1" using n by (intro incr64_eq) (auto simp: task_inv_def)
    with i t(2) task_writes_lease [OF w] have "task_inv (Suc n) s' tid (move_task now TaskRunning \<lparr>to_Error = []\<rparr> t)"
      by (auto simp: task_move_simps)
    with w inv show ?thesis unfolding 2(2) snd_conv by (rule task_writes_inv)
  qed
qed (simp add: tasks_inv_rollback [OF inv])

lemma complete_tasks_inv:
  assumes inv: "tasks_inv n s"
  shows "tasks_inv (Suc n) (snd (RunInTx (complete_tx now tid token result) s))"
proof (cases rule: RunInTx_cases [of "complete_tx now tid token result" s])
  case (2 c s')
  from 2(1) show ?thesis
  proof (rule complete_tx_ok)
    fix t l
    assume t: "map_of (st_tasks s) tid = Some t" "task_Status t = TaskRunning"
      and w: "task_writes s s' tid (move_task now TaskCompleted \<lparr>to_Error = []\<rparr> t) (l\<lparr>lease_ExpiresAt := now\<rparr>)
        (task_RunID t) [(EventTaskCompleted, task_StepID t)]"
    have "task_inv n s tid t" using tasks_invD [OF inv t(1)] .
    with t(2) have "task_inv (Suc n) s' tid (move_task now TaskCompleted \<lparr>to_Error = []\<rparr> t)"
      by (auto simp: task_move_simps)
    with w inv show ?thesis unfolding 2(2) snd_conv by (rule task_writes_inv)
  qed
qed (simp add: tasks_inv_rollback [OF inv])

lemma fail_tasks_inv:
  assumes inv: "tasks_inv n s"
  shows "tasks_inv (Suc n) (snd (RunInTx (fail_tx e now rnd tid token reason escalated) s))"
proof (cases rule: RunInTx_cases [of "fail_tx e now rnd tid token reason escalated" s])
  case (2 c s')
  from 2(1) show ?thesis
  proof (rule fail_tx_ok)
    fix t l
    let ?t = "move_task now (if retries t escalated then TaskPending else TaskDeadLetter) \<lparr>to_Error = reason\<rparr> t"
    assume t: "map_of (st_tasks s) tid = Some t" "task_Status t = TaskRunning"
      and w: "task_writes s s' tid ?t (l\<lparr>lease_ExpiresAt := now\<rparr>) (task_RunID t)
       [(EventTaskFailed, task_StepID t),
        (if retries t escalated then EventTaskRetryScheduled else EventTaskDeadLettered, task_StepID t)]"
    have "task_inv n s tid t" using tasks_invD [OF inv t(1)] .
    with t(2) have "task_inv (Suc n) s' tid ?t"
      by (auto simp: task_move_simps retries_def Task_Exhausted_def)
    with w inv show ?thesis unfolding 2(2) snd_conv by (rule task_writes_inv)
  qed
qed (simp add: tasks_inv_rollback [OF inv])

lemma reclaim_tasks_inv:
  assumes ok: "store_ok s" and inv: "tasks_inv n s"
  shows "tasks_inv (Suc n) (snd (RunInTx (reclaim_tx now stale) s))"
proof (cases rule: RunInTx_cases [of "reclaim_tx now stale" s])
  case (2 b s')
  from 2(1) show ?thesis
  proof (rule reclaim_tx_ok)
    assume "s' = s"
    then show ?thesis unfolding 2(2) using tasks_inv_mono [OF inv] by simp
  next
    fix t
    let ?g = "(granted s (lease_TaskID stale) ReaperWorkerID now (time_Add now (60 * second)))\<lparr>lease_ExpiresAt := now\<rparr>"
    let ?evs = "[(EventLeaseExpired, task_StepID t),
         (if Task_Exhausted t then EventTaskDeadLettered else EventTaskRetryScheduled, task_StepID t)]"
    assume t: "map_of (st_tasks s) (lease_TaskID stale) = Some t" "task_Status t = TaskRunning"
      and w: "task_ID t = lease_TaskID stale \<Longrightarrow> task_writes s s' (lease_TaskID stale)
        (reclaimed_task now stale t) ?g (task_RunID t) ?evs"
    have w: "task_writes s s' (lease_TaskID stale) (reclaimed_task now stale t) ?g (task_RunID t) ?evs"
      by (rule w) (rule task_at [OF ok t(1)])
    have "task_inv n s (lease_TaskID stale) t" using tasks_invD [OF inv t(1)] .
    with t(2) have "task_inv (Suc n) s' (lease_TaskID stale) (reclaimed_task now stale t)"
      by (auto simp: task_move_simps reclaimed_task_def Task_Exhausted_def)
    with w inv show ?thesis unfolding 2(2) snd_conv by (rule task_writes_inv)
  qed
qed (simp add: tasks_inv_rollback [OF inv])

lemma kept_RunInTx: "upholds (keeps_tasks n) m \<Longrightarrow> tasks_inv n s \<Longrightarrow> tasks_inv (Suc n) (snd (RunInTx m s))"
  using tasks_kept.upholdsD [OF tasks_kept.upholds_RunInTx, of n m s] tasks_inv_mono by (simp add: keeps_tasks_def)

lemma writes_tasks_inv:
  "writes seen f \<Longrightarrow> store_ok s \<Longrightarrow> tasks_inv n s \<Longrightarrow> int n < max_int64 \<Longrightarrow> tasks_inv (Suc n) (f s)"
proof (induction rule: writes.induct)
  case (effect ev seen now rid st eff ef et eo detail)
  then show ?case by (intro kept_RunInTx tasks_kept.only_effect) auto
next
  case (fanout ts run seen now st tools join)
  then show ?case by (intro kept_RunInTx tasks_kept.only_fanout) auto
qed (simp_all add: kept_RunInTx tasks_kept.only_all tasks_inv_rollback claim_tasks_inv complete_tasks_inv
    fail_tasks_inv reclaim_tasks_inv)

lemma trace_tasks_inv: "trace ss \<Longrightarrow> int (length ss) < max_int64 \<Longrightarrow> tasks_inv (length ss) (hd ss)"
proof (induction rule: trace.induct)
  case initial
  then show ?case by (simp add: tasks_inv_def newState_def)
next
  case (step s ss f)
  then show ?case using writes_tasks_inv [OF step.hyps(2)] trace_ok [OF step.hyps(1)] by simp
qed

end
