(* ===== verification/Ledger.thy ===== *)
theory Ledger
  imports Fencing
begin

text \<open>
  The effect ledger: a tool with consequences is called only when the ledger says RUNNING, at
  most once per execution and under the step's key; what was committed is answered from the
  ledger; an outcome that is not known is never guessed.
\<close>

section \<open>What the steps of the executor write\<close>

lemma in_world_calls [simp]: "in_world f x = (r, x') \<Longrightarrow> sys_calls x' = sys_calls x"
  by (auto simp: in_world_def split: prod.splits)

lemma in_world_eq: "in_world f x = (r, x') \<longleftrightarrow> (\<exists>w. f (sys_world x) = (r, w) \<and> x' = x\<lparr>sys_world := w\<rparr>)"
  by (auto simp: in_world_def split: prod.splits)

lemma transition_calls: "transition task eff frm to out ev x = (r, x') \<Longrightarrow> sys_calls x' = sys_calls x"
  unfolding transition_def by (rule in_world_calls)

lemma escalate_calls: "escalate task eff reason x = (r, x') \<Longrightarrow> sys_calls x' = sys_calls x"
  unfolding escalate_def by (auto split: prod.splits)

lemma record_failure_calls: "record_failure task eff err x = (r, x') \<Longrightarrow> sys_calls x' = sys_calls x"
  by (auto simp: record_failure_def Let_def split: prod.splits sum.splits if_splits dest!: transition_calls)

lemma call_calls: "call d c x = (r, x') \<Longrightarrow> sys_calls x' = sys_calls x @ [(c, w_st (sys_world x))] \<and> sys_world x' = sys_world x"
  by (auto simp: call_def split: prod.splits)

definition ledger :: "'p sys \<Rightarrow> IdempotencyKey \<Rightarrow> Effect option" where
  "ledger x k = map_of (st_effects (w_st (sys_world x))) k"

definition status_of :: "'p sys \<Rightarrow> IdempotencyKey \<Rightarrow> EffectStatus option" where
  "status_of x k = map_option eff_Status (ledger x k)"

lemma effects_Append [simp]: "st_effects (snd (Append now i ty step data s)) = st_effects s"
  by (cases rule: Append_cases [of now i ty step data s]) simp_all

lemma Append_effects: "Append now i ty step data s = (r, s') \<Longrightarrow> st_effects s' = st_effects s"
  using effects_Append [of now i ty step data s] by simp

lemma effect_tx_ok:
  assumes "effect_tx now rid step eff frm to out ev detail s = (Inr u, s')"
  shows "\<exists>row. map_of (st_effects s) (eff_Key eff) = Some row \<and> eff_Status row = frm \<and> EffectStatus_CanTransitionTo frm to
    \<and> st_effects s' = AList.update (eff_Key eff) (move_effect now to out row) (st_effects s)"
  using assms
  by (cases ev) (auto simp: effect_tx_def TransitionEffect_ok dest!: Append_effects)

lemma transition_ok:
  assumes "transition task eff frm to out ev x = (Inr u, x')"
  shows "\<exists>row. ledger x (eff_Key eff) = Some row \<and> eff_Status row = frm
    \<and> ledger x' (eff_Key eff) = Some (move_effect (w_now (sys_world x)) to out row)
    \<and> w_now (sys_world x') = w_now (sys_world x)"
  using assms by (auto simp: transition_def in_world_eq ledger_def dest!: effect_tx_ok)

lemma in_tx_effects_failed: "in_tx m w = (Inl e, w') \<Longrightarrow> st_effects (w_st w') = st_effects (w_st w)"
  by (auto dest: in_tx_failed)

lemma transition_failed: "transition task eff frm to out ev x = (Inl err, x') \<Longrightarrow> ledger x' k = ledger x k"
  by (auto simp: transition_def in_world_eq ledger_def dest!: in_tx_effects_failed)

lemma escalate_ledger: "escalate task eff reason x = (err, x') \<Longrightarrow> ledger x' k = ledger x k \<and> Is err ErrEscalated"
proof -
  assume e: "escalate task eff reason x = (err, x')"
  obtain r x1 where t: "in_world (\<lambda>w. in_tx (escalate_tx (w_now w) task eff reason) w) x = (r, x1)" by fastforce
  then obtain w1 where w1: "in_tx (escalate_tx (w_now (sys_world x)) task eff reason) (sys_world x) = (r, w1)"
    "x1 = x\<lparr>sys_world := w1\<rparr>" by (auto simp: in_world_eq)
  have "st_effects (w_st w1) = st_effects (w_st (sys_world x))"
    using w1(1) by (cases r) (auto simp: escalate_tx_def dest: in_tx_effects_failed Append_effects)
  with e t w1 show ?thesis by (auto simp: escalate_def ledger_def)
qed

lemma escalate_err: "\<exists>err. fst (escalate task eff reason x) = err \<and> Is err ErrEscalated"
  by (auto simp: escalate_def split: prod.split)

section \<open>Performing\<close>

text \<open>The one place where a tool is called: the ledger says RUNNING when it is.\<close>

definition called_under :: "ToolCall \<Rightarrow> IdempotencyKey \<Rightarrow> (ToolCall \<times> state) list \<Rightarrow> bool" where
  "called_under c k cs \<longleftrightarrow> cs = [] \<or> (\<exists>s row. cs = [(c, s)] \<and> map_of (st_effects s) k = Some row \<and> eff_Status row = EffectRunning)"

lemma called_under_Nil [simp]: "called_under c k []" by (simp add: called_under_def)

lemma perform_calls:
  assumes "perform task d eff x = (r, x')"
  shows "\<exists>cs. sys_calls x' = sys_calls x @ cs \<and> called_under (callFor task (eff_Key eff)) (eff_Key eff) cs"
proof -
  obtain t x1 where t: "transition task eff (eff_Status eff) EffectRunning no_outcome None x = (t, x1)" by fastforce
  show ?thesis
  proof (cases t)
    case (Inl err)
    with t assms show ?thesis by (auto simp: perform_def dest: transition_calls)
  next
    case (Inr u)
    let ?c = "callFor task (eff_Key eff)"
    obtain c x2 where c: "call d ?c x1 = (c, x2)" by fastforce
    from transition_ok [OF t [unfolded Inr]] have run: "\<exists>row. map_of (st_effects (w_st (sys_world x1))) (eff_Key eff) = Some row
        \<and> eff_Status row = EffectRunning" by (auto simp: ledger_def move_effect_def)
    have "sys_calls x' = sys_calls x2"
      using assms t Inr c by (auto simp: perform_def split: sum.splits prod.splits dest: transition_calls record_failure_calls)
    then have "sys_calls x' = sys_calls x @ [(?c, w_st (sys_world x1))]"
      using call_calls [OF c] transition_calls [OF t] by simp
    with run show ?thesis by (auto simp: called_under_def)
  qed
qed

text \<open>Success is reported when the ledger says COMMITTED, and not before.\<close>

definition committed_as :: "'p sys \<Rightarrow> IdempotencyKey \<Rightarrow> raw \<Rightarrow> bool" where
  "committed_as x k result \<longleftrightarrow> (\<exists>row. ledger x k = Some row \<and> eff_Status row = EffectCommitted
     \<and> (result \<noteq> RawNil \<longrightarrow> eff_Response row = result))"

lemma perform_committed:
  assumes "perform task d eff x = (Inr result, x')"
  shows "committed_as x' (eff_Key eff) result"
proof -
  obtain u x1 where t: "transition task eff (eff_Status eff) EffectRunning no_outcome None x = (Inr u, x1)"
    using assms by (auto simp: perform_def split: prod.splits sum.splits)
  obtain c x2 where c: "call d (callFor task (eff_Key eff)) x1 = (c, x2)" by fastforce
  show ?thesis
  proof (cases c)
    case (Inl err)
    with assms t c show ?thesis by (auto simp: perform_def record_failure_def Let_def split: prod.splits sum.splits if_splits)
  next
    case (Inr res)
    with assms t c have "transition task eff EffectRunning EffectCommitted
        \<lparr>eo_Response = res, eo_ExternalRef = externalRef res, eo_Error = []\<rparr> (Some EventEffectCommitted) x2 = (Inr (), x')"
      "res = result" by (auto simp: perform_def split: prod.splits sum.splits)
    from transition_ok [OF this(1)] this(2) show ?thesis by (auto simp: committed_as_def move_effect_def)
  qed
qed

text \<open>
  A failed call leaves FAILED when the handler declared that nothing was executed, UNKNOWN
  otherwise; if even that could not be written, RUNNING.
\<close>

lemma record_failure_outcome:
  assumes "record_failure task eff err x = (r, x')" and "status_of x (eff_Key eff) = Some EffectRunning"
  shows "status_of x' (eff_Key eff) = Some (ClassifyFailure (Some err)) \<and> (\<exists>e. r = Inl e \<and>
      (ClassifyFailure (Some err) = EffectUnknown \<longrightarrow> Is e ErrNeedsReconciliation)) 
    \<or> status_of x' (eff_Key eff) = Some EffectRunning \<and> (\<exists>e. r = Inl e)"
proof -
  let ?to = "ClassifyFailure (Some err)"
  let ?ev = "Some (if ?to = EffectUnknown then EventEffectUnknown else EventEffectFailed)"
  obtain t x1 where t: "transition task eff EffectRunning ?to (no_outcome\<lparr>eo_Error := err_text err\<rparr>) ?ev x = (t, x1)" by fastforce
  show ?thesis
  proof (cases t)
    case (Inl er)
    then have "x' = x1" "\<exists>e. r = Inl e" using assms(1) t by (auto simp: record_failure_def Let_def)
    then show ?thesis using transition_failed [OF t [unfolded Inl]] assms(2) by (simp add: status_of_def)
  next
    case (Inr u)
    then have "x' = x1" "\<exists>e. r = Inl e \<and> (?to = EffectUnknown \<longrightarrow> Is e ErrNeedsReconciliation)"
      using assms(1) t by (auto simp: record_failure_def Let_def needs_reconciliation_def Is_def split: if_splits)
    then show ?thesis using transition_ok [OF t [unfolded Inr]] by (auto simp: status_of_def move_effect_def)
  qed
qed


section \<open>Resolving\<close>

definition at_most_once :: "Task \<Rightarrow> IdempotencyKey \<Rightarrow> 'p sys \<Rightarrow> 'p sys \<Rightarrow> bool" where
  "at_most_once task k x x' \<longleftrightarrow> (\<exists>cs. sys_calls x' = sys_calls x @ cs \<and> called_under (callFor task k) k cs)"

lemma at_most_once_none: "sys_calls x' = sys_calls x \<Longrightarrow> at_most_once task k x x'"
  unfolding at_most_once_def by (rule exI [of _ "[]"]) simp

lemma at_most_once_from: "at_most_once task k x1 x' \<Longrightarrow> sys_calls x1 = sys_calls x \<Longrightarrow> at_most_once task k x x'"
  by (simp add: at_most_once_def)

lemma perform_once: "perform task d eff x = (r, x') \<Longrightarrow> at_most_once task (eff_Key eff) x x'"
  using perform_calls unfolding at_most_once_def by blast

lemma query_once: "query task d eff x = (r, x') \<Longrightarrow> at_most_once task (eff_Key eff) x x'"
  by (auto simp: query_def Let_def apfst_def map_prod_def split: option.splits prod.splits sum.splits ResolutionKind.splits
      intro: at_most_once_none at_most_once_from dest!: perform_once transition_calls escalate_calls)

lemma settle_class_once: "settle_class task d eff x = (r, x') \<Longrightarrow> at_most_once task (eff_Key eff) x x'"
  by (auto simp: settle_class_def apfst_def map_prod_def split: if_splits EffectClass.splits prod.splits
      intro: at_most_once_none dest!: perform_once query_once escalate_calls)

lemma resolve_once: "resolve task d eff x = (r, x') \<Longrightarrow> at_most_once task (eff_Key eff) x x'"
  by (auto simp: resolve_def split: if_splits prod.splits sum.splits
      intro: at_most_once_none at_most_once_from dest!: settle_class_once transition_calls)

lemma escalate_uncommitted [simp]: "apfst Inl (escalate task eff reason x) \<noteq> (Inr result, x')"
  by (cases "escalate task eff reason x") simp

lemma query_committed: "query task d eff x = (Inr result, x') \<Longrightarrow> committed_as x' (eff_Key eff) result"
proof (cases "td_Reconciler d")
  case (Some rec)
  assume q: "query task d eff x = (Inr result, x')"
  obtain a p where a: "rec eff (sys_outside x) = (a, p)" by fastforce
  show ?thesis
  proof (cases a)
    case (Inr res)
    show ?thesis
    proof (cases "res_Kind res")
      case ResolvedCommitted
      with q Some a Inr obtain u where "transition task eff EffectUnknown EffectCommitted
          \<lparr>eo_Response = res_Response res, eo_ExternalRef = res_ExternalRef res, eo_Error = []\<rparr>
          (Some EventEffectReconciled) (x\<lparr>sys_outside := p\<rparr>) = (Inr u, x')" "res_Response res = result"
        by (auto simp: query_def Let_def split: prod.splits sum.splits)
      from transition_ok [OF this(1)] this(2) show ?thesis by (auto simp: committed_as_def move_effect_def)
    qed (use q Some a Inr in \<open>auto simp: query_def Let_def intro: perform_committed\<close>)
  qed (use q Some a in \<open>simp add: query_def\<close>)
qed (simp add: query_def)

lemma settle_class_committed: "settle_class task d eff x = (Inr result, x') \<Longrightarrow> committed_as x' (eff_Key eff) result"
  by (auto simp: settle_class_def split: if_splits EffectClass.splits intro: perform_committed query_committed)

lemma resolve_committed: "resolve task d eff x = (Inr result, x') \<Longrightarrow> committed_as x' (eff_Key eff) result"
  by (auto simp: resolve_def split: if_splits prod.splits sum.splits dest: settle_class_committed)

section \<open>Executing\<close>

lemma reserve_ok:
  assumes "reserve e task d k w = (Inr eff, w')" and ok: "store_ok (w_st w)"
  shows "eff_Key eff = k \<and> (eff_Status eff = EffectCommitted \<longrightarrow> map_of (st_effects (w_st w')) k = Some eff)
    \<and> (map_of (st_effects (w_st w)) k = None \<or> map_of (st_effects (w_st w)) k = Some eff \<and> st_effects (w_st w') = st_effects (w_st w))"
proof -
  let ?w = "w\<lparr>w_effectIDs := Suc (w_effectIDs w)\<rparr>"
  let ?f = "fresh_row (e_newEffectID e (w_effectIDs w)) task (td_Class d) k"
  obtain x w1 where x: "in_tx (reserve_tx (w_now w) task ?f) ?w = (x, w1)" by fastforce
  show ?thesis
  proof (cases x)
    case (Inr u)
    then have "eff = ?f" using assms(1) x by (simp add: reserve_def Let_def del: in_tx_ok)
    moreover have "map_of (st_effects (w_st w)) k = None"
      using x Inr by (auto simp: reserve_tx_def ReserveEffect_ok fresh_row_def)
    ultimately show ?thesis by (simp add: fresh_row_def)
  next
    case (Inl err)
    with x obtain q where w1: "w1 = ?w\<lparr>w_st := (w_st ?w)\<lparr>st_deliverySeq := q\<rparr>\<rparr>" using in_tx_failed by blast
    have e: "map_of (st_effects (w_st w)) k = Some eff" "w' = w1"
      using assms(1) x Inl w1
      by (auto simp: reserve_def Let_def Store_GetEffect_def split: if_splits option.splits)
    moreover from e(1) have "eff_Key eff = k" using ok by (auto simp: store_ok_def effect_ok_def dest: keyedD)
    ultimately show ?thesis using w1 by simp
  qed
qed

definition effect_key :: "Task \<Rightarrow> IdempotencyKey" where
  "effect_key task = NewIdempotencyKey (task_RunID task) (task_StepID task) (effectSeqFor task)"

lemma Execute_consequence:
  assumes "Lookup tools (task_Type task) = Inr d" "EffectClass_HasConsequence (td_Class d)"
  shows "Execute e tools task x =
     (case in_world (reserve e task d (effect_key task)) x of
        (Inl err, x) \<Rightarrow> (Inl err, x)
      | (Inr effect, x) \<Rightarrow>
          (case RecoveryFor True (eff_Status effect) (td_Class d) of
             RecoverComplete \<Rightarrow> (Inr (eff_Response effect), x)
           | RecoverExecute \<Rightarrow> perform task d effect x
           | RecoverReconcile \<Rightarrow> resolve task d effect x
           | RecoverEscalate \<Rightarrow>
               apfst Inl (escalate task effect (effect_key task @ '' is '' @ EffectStatus_text (eff_Status effect) @ '' and ''
                 @ EffectClass_text (td_Class d) @ '' outcomes cannot be resolved automatically'') x)))"
  using assms unfolding Execute_def effect_key_def Let_def by simp

lemma Execute_once:
  assumes "store_ok (w_st (sys_world x))" "Lookup tools (task_Type task) = Inr d" "EffectClass_HasConsequence (td_Class d)"
    and "Execute e tools task x = (r, x')"
  shows "at_most_once task (effect_key task) x x'"
proof -
  obtain a x1 where a: "in_world (reserve e task d (effect_key task)) x = (a, x1)" by fastforce
  then have c: "sys_calls x1 = sys_calls x" by simp
  show ?thesis
  proof (cases a)
    case (Inl err)
    with assms(4) a c show ?thesis by (simp add: Execute_consequence [OF assms(2,3)] at_most_once_none)
  next
    case (Inr eff)
    then have k: "eff_Key eff = effect_key task"
      using a assms(1) by (auto simp: in_world_eq dest: reserve_ok)
    from Inr a assms(4) have "at_most_once task (eff_Key eff) x1 x'"
      by (auto simp: Execute_consequence [OF assms(2,3)] apfst_def map_prod_def split: RecoveryAction.splits prod.splits
          intro: at_most_once_none perform_once resolve_once dest: escalate_calls)
    with c k show ?thesis by (auto intro: at_most_once_from)
  qed
qed

lemma RecoverComplete_iff: "RecoveryFor True st c = RecoverComplete \<longleftrightarrow> st = EffectCommitted"
  by (auto simp: RecoveryFor_def split: EffectStatus.splits)

lemma Execute_success:
  assumes "store_ok (w_st (sys_world x))" "Lookup tools (task_Type task) = Inr d" "EffectClass_HasConsequence (td_Class d)"
    and "Execute e tools task x = (Inr result, x')"
  shows "committed_as x' (effect_key task) result"
proof -
  obtain a x1 where a: "in_world (reserve e task d (effect_key task)) x = (a, x1)" by fastforce
  with assms(4) obtain eff where eff: "a = Inr eff" by (cases a) (auto simp: Execute_consequence [OF assms(2,3)])
  from a eff obtain w1 where w1: "reserve e task d (effect_key task) (sys_world x) = (Inr eff, w1)" "x1 = x\<lparr>sys_world := w1\<rparr>"
    by (auto simp: in_world_eq)
  note R = reserve_ok [OF w1(1) assms(1)]
  show ?thesis
  proof (cases "RecoveryFor True (eff_Status eff) (td_Class d)")
    case RecoverExecute
    with assms(4) a eff R show ?thesis by (auto simp: Execute_consequence [OF assms(2,3)] dest: perform_committed)
  next
    case RecoverReconcile
    with assms(4) a eff R show ?thesis by (auto simp: Execute_consequence [OF assms(2,3)] dest: resolve_committed)
  next
    case RecoverComplete
    with assms(4) a eff R w1(2) show ?thesis
      by (auto simp: Execute_consequence [OF assms(2,3)] RecoverComplete_iff committed_as_def ledger_def)
  next
    case RecoverEscalate
    with assms(4) a eff show ?thesis by (simp add: Execute_consequence [OF assms(2,3)])
  qed
qed

text \<open>A key that has a row: the reservation is refused and the row is what counts.\<close>

lemma reserve_existing:
  assumes "map_of (st_effects (w_st w)) k = Some row" "has (st_runs (w_st w)) (task_RunID task)"
    "has (st_tasks (w_st w)) (task_ID task)" "EffectClass_Valid (td_Class d)"
  shows "reserve e task d k w = (Inr row, w\<lparr>w_effectIDs := Suc (w_effectIDs w)\<rparr>)"
proof -
  let ?w = "w\<lparr>w_effectIDs := Suc (w_effectIDs w)\<rparr>"
  let ?f = "fresh_row (e_newEffectID e (w_effectIDs w)) task (td_Class d) k"
  have "ReserveEffect (w_now w) ?f (w_st w) = (Inl (wrap (''effect '' @ k) ErrEffectExists), w_st w)"
    using assms by (auto simp: ReserveEffect_def fresh_row_def has_def EffectStatus_Valid_def)
  then have "reserve_tx (w_now w) task ?f (w_st ?w) = (Inl (wrap (''effect '' @ k) ErrEffectExists), w_st ?w)"
    by (simp add: reserve_tx_def tx_bind_def)
  from in_tx_refused [of "reserve_tx (w_now w) task ?f" ?w, OF this] assms(1) show ?thesis
    by (simp add: reserve_def Let_def Store_GetEffect_def)
qed

text \<open>The task and its run are in the store; the tool is registered with a valid class that has consequences.\<close>

definition hosted :: "'p Registry \<Rightarrow> Task \<Rightarrow> 'p ToolDescriptor \<Rightarrow> 'p sys \<Rightarrow> bool" where
  "hosted tools task d x \<longleftrightarrow> Lookup tools (task_Type task) = Inr d \<and> EffectClass_HasConsequence (td_Class d)
     \<and> EffectClass_Valid (td_Class d) \<and> has (st_runs (w_st (sys_world x))) (task_RunID task)
     \<and> has (st_tasks (w_st (sys_world x))) (task_ID task)"

definition drew_effect_id :: "'p sys \<Rightarrow> 'p sys" where
  "drew_effect_id x = x\<lparr>sys_world := (sys_world x)\<lparr>w_effectIDs := Suc (w_effectIDs (sys_world x))\<rparr>\<rparr>"

lemma Execute_existing:
  assumes "hosted tools task d x" "ledger x (effect_key task) = Some row"
  shows "Execute e tools task x =
     (case RecoveryFor True (eff_Status row) (td_Class d) of
        RecoverComplete \<Rightarrow> (Inr (eff_Response row), drew_effect_id x)
      | RecoverExecute \<Rightarrow> perform task d row (drew_effect_id x)
      | RecoverReconcile \<Rightarrow> resolve task d row (drew_effect_id x)
      | RecoverEscalate \<Rightarrow>
          apfst Inl (escalate task row (effect_key task @ '' is '' @ EffectStatus_text (eff_Status row) @ '' and ''
            @ EffectClass_text (td_Class d) @ '' outcomes cannot be resolved automatically'') (drew_effect_id x)))"
proof -
  have "in_world (reserve e task d (effect_key task)) x = (Inr row, drew_effect_id x)"
    using assms reserve_existing [of "sys_world x" "effect_key task" row task d e]
    by (simp add: hosted_def ledger_def in_world_def drew_effect_id_def)
  then show ?thesis using assms(1) by (simp add: Execute_consequence hosted_def)
qed

lemma Execute_committed:
  "hosted tools task d x \<Longrightarrow> ledger x (effect_key task) = Some row \<Longrightarrow> eff_Status row = EffectCommitted
     \<Longrightarrow> Execute e tools task x = (Inr (eff_Response row), drew_effect_id x)"
  by (simp add: Execute_existing RecoveryFor_def)

lemma drew_calls [simp]: "sys_calls (drew_effect_id x) = sys_calls x" "ledger (drew_effect_id x) k = ledger x k"
  by (simp_all add: drew_effect_id_def ledger_def)

lemma Execute_unreconcilable:
  assumes "hosted tools task d x" "ledger x (effect_key task) = Some row" "td_Class d = ClassUnreconcilable"
    and "eff_Status row = EffectRunning \<or> eff_Status row = EffectUnknown"
  shows "\<exists>err x'. Execute e tools task x = (Inl err, x') \<and> Is err ErrEscalated \<and> sys_calls x' = sys_calls x
     \<and> ledger x' (effect_key task) = Some row"
proof -
  have "RecoveryFor True (eff_Status row) (td_Class d) = RecoverEscalate"
    using assms(3,4) by (auto simp: RecoveryFor_def EffectClass_CanAutoResolve_def)
  then show ?thesis
    using assms(2) by (auto simp: Execute_existing [OF assms(1,2)] apfst_def map_prod_def split: prod.split
        dest: escalate_calls escalate_ledger [where k = "effect_key task"])
qed

text \<open>A queryable tool is called again only after its provider said that nothing happened.\<close>

lemma query_calls:
  assumes "query task d eff x = (r, x')" and "sys_calls x' \<noteq> sys_calls x"
  shows "\<exists>rec res p. td_Reconciler d = Some rec \<and> rec eff (sys_outside x) = (Inr res, p) \<and> res_Kind res = ResolvedNotExecuted"
  using assms
  by (auto simp: query_def Let_def apfst_def map_prod_def split: option.splits prod.splits sum.splits ResolutionKind.splits
      dest: transition_calls escalate_calls)

lemma in_world_outside: "in_world f x = (r, x') \<Longrightarrow> sys_outside x' = sys_outside x"
  by (auto simp: in_world_eq)

lemma settle_class_queryable:
  "td_Class d = ClassQueryable \<Longrightarrow> settle_class task d eff x = (r, x') \<Longrightarrow> sys_calls x' \<noteq> sys_calls x
     \<Longrightarrow> \<exists>rec res p. td_Reconciler d = Some rec \<and> rec eff (sys_outside x) = (Inr res, p) \<and> res_Kind res = ResolvedNotExecuted"
  by (auto simp: settle_class_def apfst_def map_prod_def split: if_splits prod.splits dest: escalate_calls dest!: query_calls)

lemma Execute_queryable:
  assumes "hosted tools task d x" "ledger x (effect_key task) = Some row" "td_Class d = ClassQueryable"
    and "eff_Status row = EffectRunning \<or> eff_Status row = EffectUnknown"
    and "Execute e tools task x = (r, x')" "sys_calls x' \<noteq> sys_calls x"
  shows "\<exists>rec asked res p. td_Reconciler d = Some rec \<and> eff_Key asked = eff_Key row
     \<and> rec asked (sys_outside x) = (Inr res, p) \<and> res_Kind res = ResolvedNotExecuted"
proof -
  have "RecoveryFor True (eff_Status row) (td_Class d) = RecoverReconcile"
    using assms(3,4) by (auto simp: RecoveryFor_def EffectClass_CanAutoResolve_def)
  then have res: "resolve task d row (drew_effect_id x) = (r, x')"
    using assms(5) by (simp add: Execute_existing [OF assms(1,2)])
  have out: "sys_outside (drew_effect_id x) = sys_outside x" by (simp add: drew_effect_id_def)
  show ?thesis
  proof (cases "eff_Status row = EffectRunning")
    case True
    let ?r = "row\<lparr>eff_Status := EffectUnknown, eff_LastError := eo_Error owner_stopped\<rparr>"
    obtain t x1 where t: "transition task row EffectRunning EffectUnknown owner_stopped (Some EventEffectUnknown)
        (drew_effect_id x) = (t, x1)" by fastforce
    then have x1: "sys_calls x1 = sys_calls x" "sys_outside x1 = sys_outside x"
      using transition_calls [OF t] in_world_outside [OF t [unfolded transition_def]] out by simp_all
    have "settle_class task d ?r x1 = (r, x')"
      using res True t x1(1) assms(6) by (auto simp: resolve_def split: sum.splits)
    from settle_class_queryable [OF assms(3) this] x1 assms(6) show ?thesis by (auto intro!: exI [of _ ?r])
  next
    case False
    then have "settle_class task d row (drew_effect_id x) = (r, x')" using res by (simp add: resolve_def)
    from settle_class_queryable [OF assms(3) this] assms(6) out show ?thesis by auto
  qed
qed

section \<open>The background reconciler\<close>

lemma settle_unknown_calls: "settle_unknown d eff now x = (r, x') \<Longrightarrow> sys_calls x' = sys_calls x"
  by (auto simp: settle_unknown_def Let_def apfst_def map_prod_def
      split: if_splits option.splits prod.splits sum.splits ResolutionKind.splits dest!: in_world_calls)

lemma settle_calls: "settle tools eff now x = (r, x') \<Longrightarrow> sys_calls x' = sys_calls x"
  by (auto simp: settle_def split: sum.splits if_splits prod.splits option.splits dest!: settle_unknown_calls in_world_calls)

lemma settle_loop_calls: "settle_loop tools now n es x = (r, x') \<Longrightarrow> sys_calls x' = sys_calls x"
  by (induction es arbitrary: n x) (auto split: prod.splits option.splits if_splits dest!: settle_calls)

lemma ReconcileOnce_calls: "ReconcileOnce rc tools x = (r, x') \<Longrightarrow> sys_calls x' = sys_calls x"
  by (auto simp: ReconcileOnce_def Let_def dest!: settle_loop_calls)

lemma reconciler_never_calls:
  "sys_calls (snd (ReconcileOnce rc tools x)) = sys_calls x"
  using ReconcileOnce_calls [of rc tools x] by (metis prod.collapse)

end
