(* ===== verification/Advancing.thy ===== *)
theory Advancing
  imports Fencing
begin

text \<open>
  Advancing a run: which runs are left alone, what a decision commits, and why \<open>Advance\<close>
  returns. The loop goes round only through a \<open>WAIT_FOR_SIGNAL\<close> decision whose wait is over at
  once; when deadlines lie ahead that takes a signal that was not consumed before.
\<close>

section \<open>Runs that are left alone\<close>

lemma Advance_Return: "advance_pass e rid w = (Return r, w') \<Longrightarrow> Advance e rid w = Some (r, w')"
  by (subst Advance.simps) simp

lemma Advance_Again: "advance_pass e rid w = (Again, w') \<Longrightarrow> Advance e rid w = Advance e rid w'"
  by (subst Advance.simps) simp

lemma Advance_terminal:
  "map_of (st_runs (w_st w)) rid = Some run \<Longrightarrow> RunStatus_IsTerminal (run_Status run) \<Longrightarrow> Advance e rid w = Some (None, w)"
  by (rule Advance_Return) (simp add: advance_pass_def GetRun_def)

lemma Advance_foreign:
  "map_of (st_runs (w_st w)) rid = Some run \<Longrightarrow> run_AgentName run \<noteq> e_agent e \<Longrightarrow> Advance e rid w = Some (None, w)"
  by (rule Advance_Return) (simp add: advance_pass_def GetRun_def)

lemma Advance_parked:
  "map_of (st_runs (w_st w)) rid = Some run \<Longrightarrow> PendingWait (History (w_st w) rid) = Some wt
     \<Longrightarrow> waitIsOver w run (History (w_st w) rid) wt = None \<Longrightarrow> run_AvailableAt run \<noteq> None
     \<Longrightarrow> Advance e rid w = Some (None, w)"
  by (rule Advance_Return) (auto simp: advance_pass_def GetRun_def resume_def)

lemma Advance_joining:
  "map_of (st_runs (w_st w)) rid = Some run \<Longrightarrow> PendingWait (History (w_st w) rid) = None
     \<Longrightarrow> PendingFanOut (History (w_st w) rid) = Some f \<Longrightarrow> Advance e rid w = Some (None, w)"
  by (rule Advance_Return) (simp add: advance_pass_def GetRun_def resume_def)

section \<open>What a decision commits\<close>

lemma AdvanceRun_current:
  "map_of (st_runs s) (run_ID run) = Some run \<Longrightarrow> rs_Status nxt = run_Status run
     \<or> RunStatus_CanTransitionTo (run_Status run) (rs_Status nxt)
     \<Longrightarrow> AdvanceRun now (run_ID run) (run_Version run) nxt s
       = (Inr (), s\<lparr>st_runs := AList.update (run_ID run) (apply_state now nxt run) (st_runs s)\<rparr>)"
  by (auto simp: AdvanceRun_def)

text \<open>A decision made from an old version of the run is refused.\<close>

lemma AdvanceRun_stale:
  "map_of (st_runs s) (run_ID run) = Some r \<Longrightarrow> run_Version r \<noteq> run_Version run
     \<Longrightarrow> \<exists>msg. AdvanceRun now (run_ID run) (run_Version run) nxt s = (Inl (wrap msg ErrConflict), s)"
  by (auto simp: AdvanceRun_def)

lemma dispatch_stale:
  assumes "map_of (st_runs (w_st w)) (run_ID run) = Some r" "run_Version r \<noteq> run_Version run"
  shows "dispatch e run d w = (None, w\<lparr>w_taskIDs := Suc (w_taskIDs w)\<rparr>)"
proof -
  let ?w = "w\<lparr>w_taskIDs := Suc (w_taskIDs w)\<rparr>"
  let ?t = "new_task e (run_ID run) (e_newTaskID e (w_taskIDs w)) (d_StepID d) (d_TaskType d) (d_Payload d)"
  obtain msg where "AdvanceRun (w_now ?w) (run_ID run) (run_Version run) (running_state run None) (w_st ?w)
      = (Inl (wrap msg ErrConflict), w_st ?w)" using AdvanceRun_stale [of "w_st ?w" run r] assms by fastforce
  then have "dispatch_tx (w_now ?w) run ?t (w_st ?w) = (Inl (wrap msg ErrConflict), w_st ?w)"
    unfolding dispatch_tx_def by (rule tx_bind_Inl)
  from in_tx_refused [of "dispatch_tx (w_now ?w) run ?t", OF this] show ?thesis
    by (simp add: dispatch_def Let_def settled_elsewhere_def)
qed

text \<open>A step that was dispatched before: success, and nothing is written.\<close>

lemma put_task_exists:
  assumes "map_of (st_stepIndex s) (task_RunID t, task_StepID t) \<noteq> None" "has (st_runs s) (task_RunID t)"
  shows "\<exists>msg. put_task now t s = (Inl (wrap msg ErrTaskExists), s)"
proof -
  obtain msg where "CreateTask now t s = (Inl (wrap msg ErrTaskExists), s)"
    using assms by (auto simp: CreateTask_def has_def)
  then show ?thesis unfolding put_task_def by (blast intro: tx_bind_Inl)
qed

lemma dispatch_existing:
  assumes run: "map_of (st_runs (w_st w)) (run_ID run) = Some run" "run_Status run = RunRunning"
    and step: "map_of (st_stepIndex (w_st w)) (run_ID run, d_StepID d) \<noteq> None"
  shows "dispatch e run d w = (None, w\<lparr>w_taskIDs := Suc (w_taskIDs w)\<rparr>)"
proof -
  let ?w = "w\<lparr>w_taskIDs := Suc (w_taskIDs w)\<rparr>"
  let ?t = "new_task e (run_ID run) (e_newTaskID e (w_taskIDs w)) (d_StepID d) (d_TaskType d) (d_Payload d)"
  let ?s1 = "(w_st w)\<lparr>st_runs := AList.update (run_ID run)
    (apply_state (w_now w) (running_state run None) run) (st_runs (w_st w))\<rparr>"
  have "AdvanceRun (w_now w) (run_ID run) (run_Version run) (running_state run None) (w_st w) = (Inr (), ?s1)"
    using AdvanceRun_current [OF run(1)] run(2) by (simp add: running_state_def)
  moreover obtain msg where "put_task (w_now w) ?t ?s1 = (Inl (wrap msg ErrTaskExists), ?s1)"
    using put_task_exists [of ?s1 ?t "w_now w"] step by (auto simp: new_task_def)
  ultimately have "dispatch_tx (w_now w) run ?t (w_st w) = (Inl (wrap msg ErrTaskExists), ?s1)"
    unfolding dispatch_tx_def by (simp only: tx_bind_Inr)
  then have "in_tx (dispatch_tx (w_now w) run ?t) ?w = (Inl (wrap msg ErrTaskExists), ?w)"
    by (simp add: in_tx_def RunInTx_def)
  then show ?thesis by (simp add: dispatch_def Let_def settled_elsewhere_def)
qed

text \<open>All or nothing: the step with its event and its delivery intent, or no change.\<close>

definition dispatched :: "time \<Rightarrow> Run \<Rightarrow> Task \<Rightarrow> state \<Rightarrow> state \<Rightarrow> bool" where
  "dispatched now run t s s' \<longleftrightarrow>
     st_runs s' = AList.update (run_ID run) (apply_state now (running_state run None) (the (map_of (st_runs s) (run_ID run)))) (st_runs s)
     \<and> map_of (st_stepIndex s) (task_RunID t, task_StepID t) = None
     \<and> st_tasks s' = AList.update (task_ID t) (t\<lparr>task_CreatedAt := now, task_UpdatedAt := now\<rparr>) (st_tasks s)
     \<and> st_stepIndex s' = AList.update (task_RunID t, task_StepID t) (task_ID t) (st_stepIndex s)
     \<and> logs (task_RunID t) [(EventTaskCreated, task_StepID t)] (events_of s) (events_of s')
     \<and> st_deliveries s' = announced s (task_ID t) now zero_time"

lemma dispatch_tx_ok: "dispatch_tx now run t s = (Inr u, s') \<Longrightarrow> dispatched now run t s s'"
  by (clarsimp simp: dispatch_tx_def put_task_def AdvanceRun_ok CreateTask_ok EnqueueDelivery_ok dest!: Append_logs)
    (auto simp: dispatched_def announced_def intent_def)

lemma dispatch_outcome:
  assumes "dispatch e run d w = (r, w')"
  shows "dispatched (w_now w) run (new_task e (run_ID run) (e_newTaskID e (w_taskIDs w)) (d_StepID d) (d_TaskType d) (d_Payload d))
      (w_st w) (w_st w') \<and> r = None
    \<or> (\<exists>q. w_st w' = (w_st w)\<lparr>st_deliverySeq := q\<rparr>)"
proof -
  let ?w = "w\<lparr>w_taskIDs := Suc (w_taskIDs w)\<rparr>"
  let ?t = "new_task e (run_ID run) (e_newTaskID e (w_taskIDs w)) (d_StepID d) (d_TaskType d) (d_Payload d)"
  obtain x w1 where x: "in_tx (dispatch_tx (w_now w) run ?t) ?w = (x, w1)" by fastforce
  show ?thesis
  proof (cases x)
    case (Inl err)
    with x obtain q where "w1 = ?w\<lparr>w_st := (w_st ?w)\<lparr>st_deliverySeq := q\<rparr>\<rparr>" using in_tx_failed by blast
    with assms x Inl show ?thesis by (auto simp: dispatch_def Let_def split: if_splits)
  next
    case (Inr u)
    with x obtain s' where "dispatch_tx (w_now w) run ?t (w_st w) = (Inr u, s')" "w1 = ?w\<lparr>w_st := s'\<rparr>" by auto
    with assms x Inr show ?thesis by (auto simp: dispatch_def Let_def wake_def dest: dispatch_tx_ok)
  qed
qed


section \<open>History in order\<close>

lemma sorted_gapless:
  assumes "gapless es" "int (length es) \<le> max_int64"
  shows "sorted (map ev_Seq es)"
proof -
  have "ev_Seq (es ! i) = int i + 1" if "i < length es" for i
    using assms that by (simp add: gapless_def)
  then show ?thesis by (simp add: sorted_iff_nth_mono)
qed

lemma History_events:
  assumes "store_ok s" "int (length (events_of s r)) \<le> max_int64"
  shows "History s r = events_of s r"
proof -
  have "gapless (events_of s r)" using store_ok_history [OF assms(1)] by (simp add: history_ok_def)
  then show ?thesis using sorted_gapless assms(2) by (simp add: History_def sort_key_id_if_sorted)
qed

section \<open>The loop of Advance\<close>

text \<open>How a pass comes to another one.\<close>

lemma apfst_Again [simp]: "apfst Return p \<noteq> (Again, w')"
  by (cases p) simp

lemma act_Again:
  assumes "act e run d w = (Again, w')"
  shows "d_Kind d = DecideWaitForSignal
    \<and> park run (if time_IsZero (sw_Deadline (d_Signal d)) then Indefinite else sw_Deadline (d_Signal d))
        EventSignalWaitStarted (d_StepID d)
        (SignalWaitStartedData (sw_Name (d_Signal d)) (sw_Deadline (d_Signal d))) w = (None, w')"
  using assms by (auto simp: act_def Let_def split: DecisionKind.splits prod.splits option.splits)

lemma decide_Again:
  assumes "decide e run h w = (Again, w')"
  shows "\<exists>d. e_decide e (w_asked w) run h = Inr d \<and> act e run d (w\<lparr>w_asked := Suc (w_asked w)\<rparr>) = (Again, w')"
  using assms by (auto simp: decide_def Let_def split: sum.splits if_splits)

lemma pass_Again:
  assumes "advance_pass e rid w = (Again, w')"
  shows "\<exists>run run1 h1 w1. map_of (st_runs (w_st w)) rid = Some run \<and> \<not> RunStatus_IsTerminal (run_Status run)
    \<and> resume run (History (w_st w) rid) w = (Inr (Some (run1, h1)), w1) \<and> decide e run1 h1 w1 = (Again, w')"
  using assms by (auto simp: advance_pass_def GetRun_def split: option.splits sum.splits if_splits prod.splits)

lemma resume_Some:
  assumes "resume run h w = (Inr (Some (run1, h1)), w1)"
  shows "(PendingWait h = None \<and> run1 = run \<and> h1 = h \<and> w1 = w)
    \<or> (\<exists>wt evt data s1. PendingWait h = Some wt \<and> waitIsOver w run h wt = Some (evt, data)
       \<and> resume_tx (w_now w) run wt evt data (w_st w) = (Inr (), s1) \<and> w1 = w\<lparr>w_st := s1\<rparr>
       \<and> map_of (st_runs s1) (run_ID run) = Some run1 \<and> h1 = History s1 (run_ID run1))"
  using assms
  by (auto simp: resume_def GetRun_def split: option.splits prod.splits sum.splits if_splits)

lemma Append_error_not_conflict:
  assumes "Append now r ty step data s = (Inl err, s')" and "map_of (st_runs s) r \<noteq> None"
  shows "\<not> Is err ErrConflict"
  using assms
  by (auto simp: Append_def tx_bind_def NextSeq_def AppendEvent_def NewEvent_def tx_error_def
      split: option.splits sum.splits if_splits)

text \<open>A run that was read in this pass is parked, or the error is returned.\<close>

lemma park_None:
  assumes p: "park run until evt st data w = (None, w')"
    and run: "map_of (st_runs (w_st w)) (run_ID run) = Some run" "run_Status run = RunRunning"
  shows "\<exists>s'. park_tx (w_now w) run until evt st data (w_st w) = (Inr (), s') \<and> w' = w\<lparr>w_st := s'\<rparr>"
proof -
  obtain x w1 where x: "in_tx (park_tx (w_now w) run until evt st data) w = (x, w1)" by fastforce
  show ?thesis
  proof (cases x)
    case (Inr u)
    with x p have "w' = w1" by (simp add: park_def del: in_tx_ok)
    with x Inr show ?thesis by simp
  next
    case (Inl err)
    let ?s = "(w_st w)\<lparr>st_runs := AList.update (run_ID run)
      (apply_state (w_now w) (running_state run (Some until)) run) (st_runs (w_st w))\<rparr>"
    have "AdvanceRun (w_now w) (run_ID run) (run_Version run) (running_state run (Some until)) (w_st w) = (Inr (), ?s)"
      using AdvanceRun_current [OF run(1)] run(2) by (simp add: running_state_def)
    then have "park_tx (w_now w) run until evt st data (w_st w) = Append (w_now w) (run_ID run) evt st data ?s"
      by (simp add: park_tx_def tx_bind_Inr)
    moreover obtain s2 where "park_tx (w_now w) run until evt st data (w_st w) = (Inl err, s2)"
      using x Inl by (auto simp: in_tx_def RunInTx_def split: prod.splits sum.splits)
    ultimately have "\<not> Is err ErrConflict"
      using Append_error_not_conflict [of "w_now w" "run_ID run" evt st data ?s err s2] run(1) by simp
    with x Inl p show ?thesis by (simp add: park_def)
  qed
qed

text \<open>The signals a run has not consumed yet.\<close>

definition unread :: "RunID \<Rightarrow> state \<Rightarrow> nat" where
  "unread rid s = length (filter (\<lambda>sg. sig_RunID sg = rid \<and> sig_ID sg \<notin> set (consumed s rid)) (vals (st_signals s)))"

text \<open>Parked on a signal whose deadline lies ahead.\<close>

definition waiting :: "RunID \<Rightarrow> world \<Rightarrow> bool" where
  "waiting rid w \<longleftrightarrow> (\<exists>wt. PendingWait (History (w_st w) rid) = Some wt \<and> wait_Kind wt = WaitSignal \<and> w_now w < wait_Until wt)"

text \<open>A decider whose deadlines lie ahead.\<close>

definition waits_ahead :: "engine \<Rightarrow> time \<Rightarrow> bool" where
  "waits_ahead e now \<longleftrightarrow> now < Indefinite \<and> (\<forall>n run h d. e_decide e n run h = Inr d \<longrightarrow> d_Kind d = DecideWaitForSignal
     \<longrightarrow> time_IsZero (sw_Deadline (d_Signal d)) \<or> now < sw_Deadline (d_Signal d))"

lemma advancing_tx:
  assumes ok: "store_ok s" and run: "map_of (st_runs s) (run_ID run) = Some run"
    and tx: "tx_bind (AdvanceRun now (run_ID run) (run_Version run) nxt) (\<lambda>_. Append now (run_ID run) evt st data) s = (Inr u, s')"
  shows "\<exists>ev. appends (run_ID run) evt st data (s\<lparr>st_runs := AList.update (run_ID run) (apply_state now nxt run) (st_runs s)\<rparr>) s' ev
    \<and> events_of s' (run_ID run) = events_of s (run_ID run) @ [ev] \<and> st_signals s' = st_signals s
    \<and> map_of (st_runs s') (run_ID run) = Some (apply_state now nxt run)"
proof -
  let ?s = "s\<lparr>st_runs := AList.update (run_ID run) (apply_state now nxt run) (st_runs s)\<rparr>"
  from tx run have "Append now (run_ID run) evt st data ?s = (Inr u, s')" by (auto simp: AdvanceRun_ok)
  then obtain ev where ev: "appends (run_ID run) evt st data ?s s' ev" using Append_ok by blast
  from appendsD(5) [OF ev] obtain m where "s' = ?s\<lparr>st_events := m\<rparr>" ..
  then show ?thesis using ev appendsD(4) [OF ev, of "run_ID run"] by (intro exI [of _ ev]) auto
qed


lemma appends_new: "appends r ty st data s s' ev \<Longrightarrow> \<exists>q. NewEvent r q ty st data = Inr (ev\<lparr>ev_CreatedAt := zero_time\<rparr>)"
  by (auto simp: appends_def)

lemma tx_keeps_ok: "upholds keeps_ok m \<Longrightarrow> m s = (r, s') \<Longrightarrow> store_ok s \<Longrightarrow> store_ok s'"
  using integrity.upholdsD [of m s] by (simp add: keeps_ok_def)

text \<open>The step that parks leaves the run waiting for what the decision said.\<close>

lemma parked_waiting:
  assumes ok: "store_ok (w_st w)" and run: "map_of (st_runs (w_st w)) (run_ID run) = Some run" "run_Status run = RunRunning"
    and room: "int (length (events_of (w_st w) (run_ID run))) < max_int64"
    and p: "park run (if time_IsZero dl then Indefinite else dl) EventSignalWaitStarted st (SignalWaitStartedData n dl) w = (None, w')"
    and ahead: "w_now w < (if time_IsZero dl then Indefinite else dl)"
  shows "waiting (run_ID run) w' \<and> w_now w' = w_now w \<and> st_signals (w_st w') = st_signals (w_st w)
    \<and> length (events_of (w_st w') (run_ID run)) = Suc (length (events_of (w_st w) (run_ID run)))
    \<and> consumed (w_st w') (run_ID run) = consumed (w_st w) (run_ID run) \<and> store_ok (w_st w')"
proof -
  let ?until = "if time_IsZero dl then Indefinite else dl"
  obtain s' where tx: "park_tx (w_now w) run ?until EventSignalWaitStarted st (SignalWaitStartedData n dl) (w_st w) = (Inr (), s')"
    and w': "w' = w\<lparr>w_st := s'\<rparr>" using park_None [OF p run] by blast
  have ok': "store_ok s'"
    by (rule tx_keeps_ok [of "park_tx (w_now w) run ?until EventSignalWaitStarted st (SignalWaitStartedData n dl)", OF _ tx ok]) simp
  from advancing_tx [OF ok run(1) tx [unfolded park_tx_def]] obtain ev s1 where
    ev: "appends (run_ID run) EventSignalWaitStarted st (SignalWaitStartedData n dl) s1 s' ev"
    and evs: "events_of s' (run_ID run) = events_of (w_st w) (run_ID run) @ [ev]" "st_signals s' = st_signals (w_st w)"
    by blast
  have "Decode_SignalWaitStarted (ev\<lparr>ev_CreatedAt := zero_time\<rparr>) = ((n, dl), None)"
    using appends_new [OF ev] Decode_SignalWaitStarted_NewEvent by blast
  then have d: "Decode_SignalWaitStarted ev = ((n, dl), None)" by simp
  have "History s' (run_ID run) = events_of (w_st w) (run_ID run) @ [ev]"
    using History_events [OF ok'] evs(1) room by simp
  moreover have "opens_wait ev" using appendsD(1) [OF ev] by (simp add: opens_wait_def)
  ultimately have "PendingWait (History s' (run_ID run)) = Some (opened_wait ev)" by (simp add: PendingWait_after_open)
  moreover have "opened_wait ev = \<lparr>wait_Kind = WaitSignal, wait_StepID = ev_StepID ev, wait_Until = ?until, wait_Signal = n\<rparr>"
    using appendsD(1) [OF ev] d by (simp add: opened_wait_def signal_wait_def)
  ultimately have "waiting (run_ID run) w'" using ahead w' by (simp add: waiting_def)
  moreover have "ConsumedSignals [ev] = []" using appendsD(1) [OF ev] by simp
  then have "consumed s' (run_ID run) = consumed (w_st w) (run_ID run)"
    using evs(1) by (simp add: consumed_def)
  ultimately show ?thesis using w' evs ok' by simp
qed

lemma find_mem: "List.find P xs = Some x \<Longrightarrow> x \<in> set xs \<and> P x"
  by (auto simp: find_Some_iff)

lemma Signals_mem: "x \<in> set (Signals s rid n) \<Longrightarrow> x \<in> set (vals (st_signals s)) \<and> sig_RunID x = rid"
  by (auto simp: Signals_def sortSignals_def)

lemma length_filter_strict: "(\<And>x. P x \<Longrightarrow> Q x) \<Longrightarrow> y \<in> set xs \<Longrightarrow> Q y \<Longrightarrow> \<not> P y \<Longrightarrow> length (filter P xs) < length (filter Q xs)"
proof (induction xs)
  case (Cons x xs)
  have le: "length (filter P xs) \<le> length (filter Q xs)"
    using Cons.prems(1) by (induction xs) auto
  show ?case
  proof (cases "x = y")
    case True
    with Cons.prems le show ?thesis by auto
  next
    case False
    with Cons show ?thesis by auto
  qed
qed simp

text \<open>Resuming: a waiting run takes a signal that it had not consumed.\<close>

lemma resumed:
  assumes ok: "store_ok (w_st w)" and run: "map_of (st_runs (w_st w)) (run_ID run) = Some run" "run_Status run = RunRunning"
    and r: "resume run (History (w_st w) (run_ID run)) w = (Inr (Some (run1, h1)), w1)"
  shows "run_ID run1 = run_ID run \<and> run_Status run1 = RunRunning \<and> map_of (st_runs (w_st w1)) (run_ID run) = Some run1
    \<and> w_now w1 = w_now w \<and> st_signals (w_st w1) = st_signals (w_st w) \<and> store_ok (w_st w1)
    \<and> length (events_of (w_st w1) (run_ID run)) \<le> Suc (length (events_of (w_st w) (run_ID run)))
    \<and> set (consumed (w_st w) (run_ID run)) \<subseteq> set (consumed (w_st w1) (run_ID run))
    \<and> (waiting (run_ID run) w \<longrightarrow> unread (run_ID run) (w_st w1) < unread (run_ID run) (w_st w))"
  using resume_Some [OF r]
proof (elim disjE conjE exE)
  assume "PendingWait (History (w_st w) (run_ID run)) = None" "run1 = run" "w1 = w"
  then show ?thesis using run ok by (simp add: waiting_def)
next
  fix wt evt data s1
  assume wt: "PendingWait (History (w_st w) (run_ID run)) = Some wt"
    and over: "waitIsOver w run (History (w_st w) (run_ID run)) wt = Some (evt, data)"
    and tx: "resume_tx (w_now w) run wt evt data (w_st w) = (Inr (), s1)" and w1: "w1 = w\<lparr>w_st := s1\<rparr>"
    and run1: "map_of (st_runs s1) (run_ID run) = Some run1"
  have ok1: "store_ok s1"
    by (rule tx_keeps_ok [of "resume_tx (w_now w) run wt evt data", OF _ tx ok]) simp
  from advancing_tx [OF ok run(1) tx [unfolded resume_tx_def]] obtain ev s2 where
    ev: "appends (run_ID run) evt (wait_StepID wt) data s2 s1 ev"
    and evs: "events_of s1 (run_ID run) = events_of (w_st w) (run_ID run) @ [ev]" "st_signals s1 = st_signals (w_st w)"
    and st: "map_of (st_runs s1) (run_ID run) = Some (apply_state (w_now w) (running_state run None) run)" by blast
  have sub: "set (consumed (w_st w) (run_ID run)) \<subseteq> set (consumed s1 (run_ID run))" using evs(1) by (auto simp: consumed_def)
  have less: "unread (run_ID run) s1 < unread (run_ID run) (w_st w)" if "waiting (run_ID run) w"
  proof -
    from that wt have k: "wait_Kind wt = WaitSignal" "\<not> Wait_Elapsed wt (w_now w)" by (auto simp: waiting_def Wait_Elapsed_def)
    then obtain sg where sg: "unconsumedSignal (w_st w) (run_ID run) (History (w_st w) (run_ID run)) wt = Some sg"
      and e: "evt = EventSignalReceived" "data = SignalReceivedData (sig_Name sg) (sig_ID sg) (sig_Payload sg)"
      using over by (auto simp: waitIsOver_def split: option.splits)
    have mem: "sg \<in> set (vals (st_signals (w_st w)))" "sig_RunID sg = run_ID run"
      "sig_ID sg \<notin> set (consumed (w_st w) (run_ID run))"
      using find_mem [OF sg [unfolded unconsumedSignal_def]] Signals_mem
      by (auto simp: consumed_def ConsumedSignals_History)
    have "Decode_SignalReceived (ev\<lparr>ev_CreatedAt := zero_time\<rparr>) = ((sig_Name sg, sig_ID sg, raw_norm (sig_Payload sg)), None)"
      using appends_new [OF ev] e Decode_SignalReceived_NewEvent by blast
    then have "ConsumedSignals [ev] = [sig_ID sg]" using appendsD(1) [OF ev] e(1) by simp
    then have "sig_ID sg \<in> set (consumed s1 (run_ID run))" using evs(1) by (simp add: consumed_def)
    then show ?thesis
      unfolding unread_def evs(2) using mem sub by (intro length_filter_strict [where y = sg]) auto
  qed
  have "run1 = apply_state (w_now w) (running_state run None) run" using run1 st by simp
  then have "run_ID run1 = run_ID run" "run_Status run1 = RunRunning"
    by (simp_all add: apply_state_def running_state_def)
  then show ?thesis using w1 run1 evs ok1 sub less by simp
qed

text \<open>One pass that goes round.\<close>

lemma pass_round:
  assumes ok: "store_ok (w_st w)" and room: "int (length (events_of (w_st w) rid)) + 1 < max_int64"
    and ahead: "waits_ahead e (w_now w)" and a: "advance_pass e rid w = (Again, w')"
  shows "store_ok (w_st w') \<and> w_now w' = w_now w \<and> waiting rid w' \<and> st_signals (w_st w') = st_signals (w_st w)
    \<and> length (events_of (w_st w') rid) \<le> length (events_of (w_st w) rid) + 2
    \<and> (waiting rid w \<longrightarrow> unread rid (w_st w') < unread rid (w_st w))"
proof -
  from pass_Again [OF a] obtain run run1 h1 w1 where run: "map_of (st_runs (w_st w)) rid = Some run"
    and live: "\<not> RunStatus_IsTerminal (run_Status run)"
    and r: "resume run (History (w_st w) rid) w = (Inr (Some (run1, h1)), w1)" and d: "decide e run1 h1 w1 = (Again, w')" by blast
  have rid: "run_ID run = rid" and running: "run_Status run = RunRunning"
    using run_status_valid_step [OF ok run] live by (auto simp: RunStatus_Valid_def RunStatus_IsTerminal_def split: RunStatus.splits)
  note R = resumed [OF ok, of run run1 h1 w1, unfolded rid, OF run running r]
  from decide_Again [OF d] obtain dec where dec: "e_decide e (w_asked w1) run1 h1 = Inr dec"
    and act: "act e run1 dec (w1\<lparr>w_asked := Suc (w_asked w1)\<rparr>) = (Again, w')" by blast
  let ?w1 = "w1\<lparr>w_asked := Suc (w_asked w1)\<rparr>"
  from act_Again [OF act] have k: "d_Kind dec = DecideWaitForSignal"
    and p: "park run1 (if time_IsZero (sw_Deadline (d_Signal dec)) then Indefinite else sw_Deadline (d_Signal dec))
        EventSignalWaitStarted (d_StepID dec)
        (SignalWaitStartedData (sw_Name (d_Signal dec)) (sw_Deadline (d_Signal dec))) ?w1 = (None, w')" by blast+
  have "w_now ?w1 < (if time_IsZero (sw_Deadline (d_Signal dec)) then Indefinite else sw_Deadline (d_Signal dec))"
    using ahead dec k R unfolding waits_ahead_def by auto
  from parked_waiting [OF _ _ _ _ p this] R room rid
  have P: "waiting rid w' \<and> w_now w' = w_now w1 \<and> st_signals (w_st w') = st_signals (w_st w1)
    \<and> length (events_of (w_st w') rid) = Suc (length (events_of (w_st w1) rid))
    \<and> consumed (w_st w') rid = consumed (w_st w1) rid \<and> store_ok (w_st w')" by simp
  then have "unread rid (w_st w') = unread rid (w_st w1)" by (simp add: unread_def)
  with P R show ?thesis by auto
qed

lemma unread_le: "unread rid s \<le> length (st_signals s)"
  by (simp add: unread_def vals_def length_filter_le [THEN order_trans])

lemma Advance_waiting_returns:
  "store_ok (w_st w) \<Longrightarrow> waits_ahead e (w_now w) \<Longrightarrow> waiting rid w
     \<Longrightarrow> int (length (events_of (w_st w) rid)) + 2 * int (unread rid (w_st w)) + 1 < max_int64
     \<Longrightarrow> \<exists>y. Advance e rid w = Some y"
proof (induction "unread rid (w_st w)" arbitrary: w rule: less_induct)
  case less
  obtain p w' where pass: "advance_pass e rid w = (p, w')" by fastforce
  show ?case
  proof (cases p)
    case (Return r)
    with pass Advance_Return show ?thesis by blast
  next
    case Again
    with pass_round [OF less.prems(1) _ less.prems(2), of rid w'] less.prems(3,4) pass
    have P: "store_ok (w_st w')" "w_now w' = w_now w" "waiting rid w'" "unread rid (w_st w') < unread rid (w_st w)"
      "length (events_of (w_st w') rid) \<le> length (events_of (w_st w) rid) + 2" by auto
    have "\<exists>y. Advance e rid w' = Some y"
      using less.hyps [OF P(4,1)] P less.prems by auto
    then show ?thesis using Advance_Again pass Again by simp
  qed
qed

lemma Advance_returns:
  assumes "store_ok (w_st w)" and "waits_ahead e (w_now w)"
    and room: "int (length (events_of (w_st w) rid)) + 2 * int (length (st_signals (w_st w))) + 3 < max_int64"
  shows "\<exists>y. Advance e rid w = Some y"
proof -
  obtain p w' where pass: "advance_pass e rid w = (p, w')" by fastforce
  show ?thesis
  proof (cases p)
    case (Return r)
    with pass Advance_Return show ?thesis by blast
  next
    case Again
    with pass_round [OF assms(1) _ assms(2), of rid w'] room pass
    have P: "store_ok (w_st w')" "w_now w' = w_now w" "waiting rid w'" "st_signals (w_st w') = st_signals (w_st w)"
      "length (events_of (w_st w') rid) \<le> length (events_of (w_st w) rid) + 2" by auto
    then have "\<exists>y. Advance e rid w' = Some y"
      using Advance_waiting_returns [of w' e rid] assms(2) room unread_le [of rid "w_st w'"] by auto
    then show ?thesis using Advance_Again pass Again by simp
  qed
qed

end
