(* ===== verification/Reports.thy ===== *)
theory Reports
  imports Fencing
begin

text \<open>
  What workers and senders of signals see: claims are exclusive, a report under a stale token or
  about a settled task changes nothing, a redelivered signal is success, and which records a
  report leaves behind.
\<close>

section \<open>Refusals\<close>

lemma TransitionTask_refused:
  "map_of (st_tasks s) i = Some t \<Longrightarrow> task_Status t \<noteq> frm
     \<Longrightarrow> \<exists>msg. TransitionTask now i frm to out s = (Inl (wrap msg ErrConflict), s)"
  by (auto simp: TransitionTask_def)

lemma assertToken_refused:
  "map_of (st_leases s) i = Some l \<Longrightarrow> lease_Token l \<noteq> token \<Longrightarrow> assertToken i token s = (Inl (fenced i (lease_Token l) token), s)"
  by (simp add: assertToken_def tx_bind_def GetLease_def tx_error_def)

lemma Is_fenced [simp]: "Is (fenced i a b) e \<longleftrightarrow> e = ErrFenced"
  by (auto simp: fenced_def)

lemma GetTask_step: "map_of (st_tasks s) i = Some t \<Longrightarrow> tx_bind (GetTask i) f s = f t s"
  by (simp add: tx_bind_def GetTask_def)

lemma assertToken_step: "map_of (st_leases s) i = Some l \<Longrightarrow> tx_bind (assertToken i (lease_Token l)) f s = f () s"
  by (simp add: tx_bind_def assertToken_def GetLease_def tx_return_def)

lemma assertToken_stop:
  "map_of (st_leases s) i = Some l \<Longrightarrow> lease_Token l \<noteq> token
     \<Longrightarrow> tx_bind (assertToken i token) f s = (Inl (fenced i (lease_Token l) token), s)"
  by (rule tx_bind_Inl) (rule assertToken_refused)

text \<open>A stale token.\<close>

lemma complete_tx_stale:
  assumes "map_of (st_tasks s) tid = Some t" "map_of (st_leases s) tid = Some l" "lease_Token l \<noteq> token"
  shows "complete_tx now tid token result s = (Inl (fenced tid (lease_Token l) token), s)"
  unfolding complete_tx_def
  by (simp only: GetTask_step [OF assms(1)] assertToken_stop [OF assms(2,3)])

lemma fail_tx_stale:
  assumes "map_of (st_tasks s) tid = Some t" "map_of (st_leases s) tid = Some l" "lease_Token l \<noteq> token"
  shows "fail_tx e now rnd tid token reason escalated s = (Inl (fenced tid (lease_Token l) token), s)"
  unfolding fail_tx_def Let_def
  by (simp only: GetTask_step [OF assms(1)] assertToken_stop [OF assms(2,3)])

text \<open>A task that is not running any more.\<close>

lemma complete_tx_settled:
  assumes t: "map_of (st_tasks s) tid = Some t" "task_Status t \<noteq> TaskRunning" and l: "map_of (st_leases s) tid = Some l"
  shows "\<exists>msg. complete_tx now tid (lease_Token l) result s = (Inl (wrap msg ErrConflict), s)"
proof -
  obtain msg where m: "TransitionTask now tid TaskRunning TaskCompleted \<lparr>to_Error = []\<rparr> s = (Inl (wrap msg ErrConflict), s)"
    using TransitionTask_refused [OF t] by blast
  show ?thesis
    unfolding complete_tx_def
    by (simp only: GetTask_step [OF t(1)] assertToken_step [OF l]) (rule exI, rule tx_bind_Inl, rule m)
qed

lemma fail_tx_settled:
  assumes t: "map_of (st_tasks s) tid = Some t" "task_Status t \<noteq> TaskRunning" and l: "map_of (st_leases s) tid = Some l"
  shows "\<exists>msg. fail_tx e now rnd tid (lease_Token l) reason escalated s = (Inl (wrap msg ErrConflict), s)"
proof -
  obtain msg where m: "TransitionTask now tid TaskRunning (if \<not> Task_Exhausted t \<and> \<not> escalated then TaskPending
      else TaskDeadLetter) \<lparr>to_Error = reason\<rparr> s = (Inl (wrap msg ErrConflict), s)"
    using TransitionTask_refused [OF t] by blast
  show ?thesis
    unfolding fail_tx_def Let_def
    by (simp only: GetTask_step [OF t(1)] assertToken_step [OF l]) (rule exI, rule tx_bind_Inl, rule m)
qed

section \<open>The engine's answers\<close>

lemma in_tx_Inl: "m (w_st w) = (Inl e, w_st w) \<Longrightarrow> in_tx m w = (Inl e, w)"
  by (rule in_tx_refused)

lemma CompleteTask_refused:
  "complete_tx (w_now w) tid token result (w_st w) = (Inl err, w_st w) \<Longrightarrow> Is err ErrFenced \<or> Is err ErrConflict
     \<Longrightarrow> CompleteTask e tid token result w = Some (None, w)"
  by (auto simp: CompleteTask_def in_tx_refused)

lemma FailTask_refused:
  "(\<And>rnd. \<exists>err. fail_tx e (w_now w) rnd tid token (err_text cause) (Is cause ErrEscalated) (w_st w) = (Inl err, w_st w)
      \<and> (Is err ErrFenced \<or> Is err ErrConflict))
     \<Longrightarrow> FailTask e tid token cause w = Some (None, w\<lparr>w_rands := Suc (w_rands w)\<rparr>)"
proof -
  assume h: "\<And>rnd. \<exists>err. fail_tx e (w_now w) rnd tid token (err_text cause) (Is cause ErrEscalated) (w_st w)
    = (Inl err, w_st w) \<and> (Is err ErrFenced \<or> Is err ErrConflict)"
  let ?w = "w\<lparr>w_rands := Suc (w_rands w)\<rparr>"
  obtain err where "fail_tx e (w_now ?w) (e_rand e (w_rands w)) tid token (err_text cause) (Is cause ErrEscalated) (w_st ?w)
    = (Inl err, w_st ?w)" and r: "Is err ErrFenced \<or> Is err ErrConflict" using h by fastforce
  then have "in_tx (fail_tx e (w_now w) (e_rand e (w_rands w)) tid token (err_text cause) (Is cause ErrEscalated)) ?w
    = (Inl err, ?w)" by (intro in_tx_refused) simp
  with r show ?thesis by (auto simp: FailTask_def Let_def)
qed

lemma CompleteTask_stale:
  "map_of (st_tasks (w_st w)) tid = Some t \<Longrightarrow> map_of (st_leases (w_st w)) tid = Some l \<Longrightarrow> lease_Token l \<noteq> token
     \<Longrightarrow> CompleteTask e tid token result w = Some (None, w)"
  by (rule CompleteTask_refused, erule (2) complete_tx_stale) simp

lemma FailTask_stale:
  "map_of (st_tasks (w_st w)) tid = Some t \<Longrightarrow> map_of (st_leases (w_st w)) tid = Some l \<Longrightarrow> lease_Token l \<noteq> token
     \<Longrightarrow> FailTask e tid token cause w = Some (None, w\<lparr>w_rands := Suc (w_rands w)\<rparr>)"
  by (rule FailTask_refused) (simp add: fail_tx_stale)

lemma Heartbeat_stale:
  "map_of (st_leases (w_st w)) tid = Some l \<Longrightarrow> lease_Token l \<noteq> token
     \<Longrightarrow> Heartbeat e tid token w = (Some (wrap_err (''heartbeat task '' @ tid) (fenced tid (lease_Token l) token)), w)"
  by (simp add: Heartbeat_def in_tx_refused ExtendLease_def)

lemma CompleteTask_settled:
  assumes "map_of (st_tasks (w_st w)) tid = Some t" "task_Status t \<noteq> TaskRunning" "map_of (st_leases (w_st w)) tid = Some l"
  shows "CompleteTask e tid token result w = Some (None, w)"
proof (cases "lease_Token l = token")
  case True
  then show ?thesis using complete_tx_settled [OF assms, of "w_now w" result] by (auto intro: CompleteTask_refused)
qed (rule CompleteTask_stale [OF assms(1,3)])

lemma FailTask_settled:
  assumes "map_of (st_tasks (w_st w)) tid = Some t" "task_Status t \<noteq> TaskRunning" "map_of (st_leases (w_st w)) tid = Some l"
  shows "FailTask e tid token cause w = Some (None, w\<lparr>w_rands := Suc (w_rands w)\<rparr>)"
proof (cases "lease_Token l = token")
  case True
  show ?thesis
  proof (rule FailTask_refused)
    fix rnd
    show "\<exists>err. fail_tx e (w_now w) rnd tid token (err_text cause) (Is cause ErrEscalated) (w_st w) = (Inl err, w_st w)
      \<and> (Is err ErrFenced \<or> Is err ErrConflict)"
      using fail_tx_settled [OF assms, of e "w_now w" rnd "err_text cause" "Is cause ErrEscalated"] True by auto
  qed
qed (rule FailTask_stale [OF assms(1,3)])

section \<open>Claims\<close>

lemma claim_tx_refused:
  assumes "map_of (st_tasks s) tid = Some t" "task_Status t \<noteq> TaskPending"
  shows "\<exists>msg. claim_tx now ttl tid wid s = (Inl (wrap msg ErrConflict), s)"
proof -
  obtain msg where m: "TransitionTask now tid TaskPending TaskRunning \<lparr>to_Error = []\<rparr> s = (Inl (wrap msg ErrConflict), s)"
    using TransitionTask_refused [OF assms] by blast
  show ?thesis unfolding claim_tx_def
    by (simp only: GetTask_step [OF assms(1)]) (rule exI, rule tx_bind_Inl, rule m)
qed

lemma ClaimTask_refused:
  assumes "map_of (st_tasks (w_st w)) tid = Some t" "task_Status t \<noteq> TaskPending"
  shows "\<exists>err. ClaimTask e tid wid w = (Inl err, w) \<and> Is err ErrConflict"
proof -
  obtain msg where "claim_tx (w_now w) (e_leaseTTL e) tid wid (w_st w) = (Inl (wrap msg ErrConflict), w_st w)"
    using claim_tx_refused [OF assms] by blast
  then show ?thesis by (auto simp: ClaimTask_def in_tx_refused)
qed

lemma ClaimTask_ok:
  assumes "ClaimTask e tid wid w = (Inr c, w')"
  shows "\<exists>s'. claim_tx (w_now w) (e_leaseTTL e) tid wid (w_st w) = (Inr c, s') \<and> w' = w\<lparr>w_st := s'\<rparr>"
  using assms by (auto simp: ClaimTask_def split: prod.splits sum.splits)

lemma ClaimTask_running:
  assumes "ClaimTask e tid wid w = (Inr c, w')"
  shows "\<exists>t. map_of (st_tasks (w_st w')) tid = Some t \<and> task_Status t = TaskRunning
    \<and> map_of (st_leases (w_st w')) tid = Some (cl_Lease c) \<and> lease_WorkerID (cl_Lease c) = wid
    \<and> task_Attempt t = task_Attempt (cl_Task c)"
proof -
  obtain s' where c: "claim_tx (w_now w) (e_leaseTTL e) tid wid (w_st w) = (Inr c, s')" "w' = w\<lparr>w_st := s'\<rparr>"
    using ClaimTask_ok [OF assms] by blast
  from c(1) show ?thesis
    by (rule claim_tx_ok) (auto simp: c(2) task_writes_def move_task_def granted_def)
qed

section \<open>Signals\<close>

lemma DeliverSignal_again:
  assumes r: "map_of (st_runs (w_st w)) (sig_RunID sg) = Some run" "\<not> RunStatus_IsTerminal (run_Status run)"
    and ids: "sig_RunID sg \<noteq> []" "sig_ID sg \<noteq> []" "sig_Name sg \<noteq> []"
    and there: "map_of (st_signals (w_st w)) (sig_RunID sg, sig_ID sg) \<noteq> None"
  shows "DeliverSignal sg w = (None, w)"
proof -
  have "signal_tx (w_now w) sg (w_st w) = (Inl (wrap (''run '' @ sig_RunID sg @ '' signal '' @ sig_ID sg) ErrSignalExists), w_st w)"
    unfolding signal_tx_def by (rule tx_bind_Inl) (use r(1) there in \<open>simp add: RecordSignal_def\<close>)
  from in_tx_refused [of "signal_tx (w_now w) sg", OF this] show ?thesis
    using r ids by (simp add: DeliverSignal_def GetRun_def)
qed

lemma DeliverSignal_finished:
  "map_of (st_runs (w_st w)) (sig_RunID sg) = Some run \<Longrightarrow> RunStatus_IsTerminal (run_Status run)
     \<Longrightarrow> sig_RunID sg \<noteq> [] \<Longrightarrow> sig_ID sg \<noteq> [] \<Longrightarrow> sig_Name sg \<noteq> []
     \<Longrightarrow> \<exists>err. DeliverSignal sg w = (Some err, w) \<and> Is err ErrInvalidTransition"
  by (auto simp: DeliverSignal_def GetRun_def)

lemma DeliverSignal_new:
  assumes r: "map_of (st_runs (w_st w)) (sig_RunID sg) = Some run" "\<not> RunStatus_IsTerminal (run_Status run)"
    and ids: "sig_RunID sg \<noteq> []" "sig_ID sg \<noteq> []" "sig_Name sg \<noteq> []"
    and new: "map_of (st_signals (w_st w)) (sig_RunID sg, sig_ID sg) = None"
  shows "DeliverSignal sg w = (None, w\<lparr>w_st := (w_st w)
    \<lparr>st_signals := AList.update (sig_RunID sg, sig_ID sg) (sg\<lparr>sig_CreatedAt := w_now w\<rparr>) (st_signals (w_st w)),
     st_runs := AList.update (sig_RunID sg) (run\<lparr>run_AvailableAt := None, run_UpdatedAt := w_now w\<rparr>) (st_runs (w_st w))\<rparr>\<rparr>)"
proof -
  let ?s = "(w_st w)\<lparr>st_signals := AList.update (sig_RunID sg, sig_ID sg) (sg\<lparr>sig_CreatedAt := w_now w\<rparr>) (st_signals (w_st w)),
     st_runs := AList.update (sig_RunID sg) (run\<lparr>run_AvailableAt := None, run_UpdatedAt := w_now w\<rparr>) (st_runs (w_st w))\<rparr>"
  have "signal_tx (w_now w) sg (w_st w) = (Inr (), ?s)"
    using r new by (simp add: signal_tx_def RecordSignal_ok ReleaseRun_ok has_def)
  from in_tx_done [of "signal_tx (w_now w) sg" w, OF this] show ?thesis
    using r ids by (simp add: DeliverSignal_def GetRun_def del: in_tx_ok)
qed

end
