(* ===== verification/Routing.thy ===== *)
theory Routing
  imports Ledger Advancing Reports
begin

text \<open>
  The background loops and the gateway: a reclaim fences the owner it takes a task from, the
  relay marks only what it handed over, and the gateway spreads calls evenly over the workers
  that serve the version a run is pinned to.
\<close>

section \<open>What a sound store relates\<close>

lemma deliveries_keyed: "store_ok s \<Longrightarrow> keyed (\<lambda>k d. del_ID d = k \<and> has (st_tasks s) (del_TaskID d)) (st_deliveries s)"
  by (simp add: store_ok_def)

lemma delivery_at: "store_ok s \<Longrightarrow> d \<in> set (vals (st_deliveries s)) \<Longrightarrow> map_of (st_deliveries s) (del_ID d) = Some d"
  using keyed_vals [OF deliveries_keyed] keyedD [OF deliveries_keyed] by metis

lemma tasks_keyed: "store_ok s \<Longrightarrow> keyed (task_ok s) (st_tasks s)"
  by (simp add: store_ok_def)

lemma task_has_run: "store_ok s \<Longrightarrow> map_of (st_tasks s) k = Some t \<Longrightarrow> \<exists>r. map_of (st_runs s) (task_RunID t) = Some r"
  using keyedD [OF tasks_keyed] by (fastforce simp: task_ok_def has_def)

section \<open>The reaper\<close>

lemma reclaim_fences:
  assumes ok: "store_ok (w_st w)" and r: "in_tx (reclaim_tx (w_now w) stale) w = (Inr True, w')"
    and l: "map_of (st_leases (w_st w)) (lease_TaskID stale) = Some l" "1 \<le> lease_Token l" "lease_Token l < max_int64"
  shows "\<exists>l' t. map_of (st_leases (w_st w')) (lease_TaskID stale) = Some l' \<and> lease_Token l' = lease_Token l + 1
    \<and> lease_WorkerID l' = ReaperWorkerID \<and> Lease_Expired l' (w_now w')
    \<and> map_of (st_tasks (w_st w')) (lease_TaskID stale) = Some t \<and> task_Status t = TaskPending
    \<and> (\<exists>d. d \<in> set (vals (st_deliveries (w_st w'))) \<and> del_TaskID d = lease_TaskID stale \<and> time_IsZero (del_AvailableAt d))"
proof -
  let ?k = "lease_TaskID stale"
  from r obtain s' where s': "reclaim_tx (w_now w) stale (w_st w) = (Inr True, s')" "w' = w\<lparr>w_st := s'\<rparr>" by auto
  from s'(1) show ?thesis
  proof (rule reclaim_tx_ok)
    fix t
    assume t: "map_of (st_tasks (w_st w)) ?k = Some t" "True = (\<not> Task_Exhausted t)"
      and w1: "task_ID t = ?k \<Longrightarrow> task_writes (w_st w) s' ?k (reclaimed_task (w_now w) stale t)
         ((granted (w_st w) ?k ReaperWorkerID (w_now w) (time_Add (w_now w) (60 * second)))\<lparr>lease_ExpiresAt := w_now w\<rparr>)
         (task_RunID t) [(EventLeaseExpired, task_StepID t),
         (if Task_Exhausted t then EventTaskDeadLettered else EventTaskRetryScheduled, task_StepID t)]"
      and w2: "task_ID t = ?k \<Longrightarrow> st_deliveries s' =
         (if Task_Exhausted t then st_deliveries (w_st w) else announced (w_st w) ?k (w_now w) zero_time)"
    have k: "task_ID t = ?k" using task_at [OF ok t(1)] .
    let ?d = "intent (incr64 (st_deliverySeq (w_st w))) ?k (w_now w) zero_time"
    have "map_of (st_deliveries s') (incr64 (st_deliverySeq (w_st w))) = Some ?d"
      using w2 [OF k] t(2) by (simp add: announced_def)
    then have "?d \<in> set (vals (st_deliveries s'))"
      unfolding vals_def by (metis image_eqI image_set map_of_SomeD snd_conv)
    then have "\<exists>d. d \<in> set (vals (st_deliveries s')) \<and> del_TaskID d = ?k \<and> time_IsZero (del_AvailableAt d)"
      by (intro exI [of _ ?d]) (simp add: intent_def time_IsZero_def)
    then show ?thesis
      using w1 [OF k] t l s'(2) incr64_eq [of "lease_Token l"]
      by (simp add: task_writes_def reclaimed_task_def move_task_def granted_def Lease_Expired_def)
  qed simp
qed

text \<open>
  A task that has used its last attempt is dead-lettered without a TASK_FAILED event. A fan-out
  reads its children from TASK_COMPLETED and TASK_FAILED, so the join goes on waiting.
\<close>

definition fan_neutral :: "Event \<Rightarrow> bool" where
  "fan_neutral e \<longleftrightarrow> ev_Type e \<noteq> EventFanOutStarted \<and> ev_Type e \<noteq> EventTaskCompleted \<and> ev_Type e \<noteq> EventTaskFailed"

lemma fan_loop_neutral: "\<forall>e \<in> set es. fan_neutral e \<Longrightarrow> fan_loop st es = Some st"
  by (induction es) (auto simp: fan_neutral_def)

lemma PendingFanOut_neutral: "\<forall>e \<in> set es. fan_neutral e \<Longrightarrow> PendingFanOut (h @ es) = PendingFanOut h"
  by (simp add: PendingFanOut_def fan_loop_append fan_loop_neutral split: option.split)

text \<open>
  More generally, a child that nothing settles holds up a join of all children, whatever its
  siblings and the other steps of the run come to.
\<close>

definition shaped :: "fan_state \<Rightarrow> bool" where
  "shaped st \<longleftrightarrow> (fs_found st \<longrightarrow> (\<exists>step calls j. fan_shape step calls j st))"

lemma shaped_step: "shaped st \<Longrightarrow> shaped (fan_step st e)"
proof (cases "fs_found st")
  case True
  then show "shaped st \<Longrightarrow> ?thesis" using fan_shape_step unfolding shaped_def by blast
next
  case False
  then have "fan_step st e = st" by (auto simp: fan_step_def fan_completed_def fan_failed_def split: option.split)
  then show "shaped st \<Longrightarrow> ?thesis" by simp
qed

lemma fan_loop_shaped: "fan_loop st es = Some st' \<Longrightarrow> shaped st \<Longrightarrow> shaped st'"
proof (induction es arbitrary: st)
  case (Cons e es)
  show ?case
  proof (cases "ev_Type e = EventFanOutStarted")
    case True
    then obtain calls join where "fan_loop (fan_open e calls join) es = Some st'"
      using Cons.prems(1) by (auto split: prod.splits option.splits)
    then show ?thesis using Cons.IH fan_shape_open unfolding shaped_def by blast
  next
    case False
    then have "fan_loop (fan_step st e) es = Some st'"
      using Cons.prems(1) by (auto simp: fan_step_def split: if_splits)
    then show ?thesis using Cons.IH shaped_step [OF Cons.prems(2)] by blast
  qed
qed simp

lemma unsettled_fold:
  assumes "fan_shape step calls j st" and i: "i < length calls" and "\<not> ch_Settled (fo_Children (fs_open st) ! i)"
    and "\<not> settled_in es (StepID_Child step (int i))"
  shows "\<not> ch_Settled (fo_Children (fs_open (foldl fan_step st es)) ! i)"
  using assms(1,3,4)
proof (induction es arbitrary: st)
  case (Cons e es)
  have "\<not> ch_Settled (fo_Children (fs_open (fan_step st e)) ! i)"
    using fan_step_child(1) [OF Cons.prems(1) i, of e] Cons.prems(2,3) by (auto simp: settled_in_def)
  moreover have "\<not> settled_in es (StepID_Child step (int i))" using Cons.prems(3) by (auto simp: settled_in_def)
  ultimately show ?case using Cons.IH [OF fan_shape_step [OF Cons.prems(1)]] by simp
qed simp

lemma unsettled_child_blocks:
  assumes f: "PendingFanOut h = Some f" and all: "jp_Kind (fo_Join f) = JoinAll"
    and c: "c \<in> set (fo_Children f)" "ch_StepID c = s" "\<not> ch_Settled c"
    and quiet: "\<forall>x \<in> set later. ev_Type x \<noteq> EventFanOutStarted" "\<not> settled_in later s"
  shows "PendingFanOut (h @ later) \<noteq> None"
proof -
  obtain st where st: "fan_loop fan_init h = Some st" "fs_found st" "f = fs_open st"
    using f by (auto simp: PendingFanOut_def split: option.splits if_splits)
  have "shaped fan_init" by (simp add: shaped_def fan_init_def)
  then obtain step calls j where sh: "fan_shape step calls j st"
    using fan_loop_shaped [OF st(1)] st(2) by (auto simp: shaped_def)
  then have len: "length (fo_Children f) = length calls" and j: "fo_Join f = j"
    using st(3) by (simp_all add: fan_shape_def)
  obtain i where i: "i < length calls" "c = fo_Children f ! i" using c(1) len by (auto simp: in_set_conv_nth)
  then have s: "s = StepID_Child step (int i)" using sh st(3) c(2) by (auto simp: fan_shape_def Let_def)
  let ?st = "foldl fan_step st later"
  have "\<not> ch_Settled (fo_Children (fs_open ?st) ! i)"
    using unsettled_fold [OF sh i(1)] c(3) i(2) st(3) quiet(2) s by simp
  moreover have sh': "fan_shape step calls j ?st" by (rule fan_shape_fold [OF sh])
  ultimately have "\<exists>x \<in> set (fo_Children (fs_open ?st)). \<not> ch_Settled x"
    using i(1) by (metis fan_shape_def nth_mem)
  moreover have "jp_Kind (fo_Join (fs_open ?st)) = JoinAll" "fs_found ?st" using sh' j all by (auto simp: fan_shape_def)
  moreover have "fan_loop fan_init (h @ later) = Some ?st" using st(1) quiet(1) by (simp add: fan_loop_append fan_loop_fold)
  ultimately show ?thesis by (auto simp: PendingFanOut_def FanOut_Satisfied_alt)
qed

definition wait_neutral :: "Event \<Rightarrow> bool" where
  "wait_neutral e \<longleftrightarrow> ev_Type e \<noteq> EventTimerSet \<and> ev_Type e \<noteq> EventSignalWaitStarted \<and> ev_Type e \<noteq> EventTimerFired
     \<and> ev_Type e \<noteq> EventSignalReceived \<and> ev_Type e \<noteq> EventSignalWaitTimedOut"

lemma PendingWait_neutral: "\<forall>e \<in> set es. wait_neutral e \<Longrightarrow> PendingWait (h @ es) = PendingWait h"
proof (induction es rule: rev_induct)
  case (snoc e es)
  have "PendingWait ((h @ es) @ [e]) = PendingWait (h @ es)"
    using snoc.prems by (intro PendingWait_other) (auto simp: wait_neutral_def opens_wait_def closes_wait_def)
  with snoc show ?case by simp
qed simp

lemma logs_neutral:
  assumes "logs r [(EventLeaseExpired, a), (EventTaskDeadLettered, b)] h h'"
  shows "\<exists>es. h' r = h r @ es \<and> length es = 2 \<and> (\<forall>e \<in> set es. fan_neutral e \<and> wait_neutral e)"
proof -
  obtain es where "h' = h(r := h r @ es)" "map (\<lambda>e. (ev_Type e, ev_StepID e)) es = [(EventLeaseExpired, a), (EventTaskDeadLettered, b)]"
    using assms by (auto simp: logs_def)
  moreover from this(2) obtain x y where "es = [x, y]" "ev_Type x = EventLeaseExpired" "ev_Type y = EventTaskDeadLettered"
    by (auto simp only: list.map map_eq_Cons_conv map_is_Nil_conv prod.inject)
  ultimately show ?thesis by (intro exI [of _ es]) (simp add: fan_neutral_def wait_neutral_def)
qed

lemma reaped_child_stuck:
  assumes ok: "store_ok (w_st w)" and t: "map_of (st_tasks (w_st w)) (lease_TaskID stale) = Some t"
    "task_Status t = TaskRunning" "Task_Exhausted t"
    and room: "int (length (events_of (w_st w) (task_RunID t))) + 2 \<le> max_int64"
    and fan: "PendingWait (History (w_st w) (task_RunID t)) = None" "PendingFanOut (History (w_st w) (task_RunID t)) = Some f"
    and r: "in_tx (reclaim_tx (w_now w) stale) w = (Inr False, w')" and changed: "w' \<noteq> w"
  shows "map_option task_Status (map_of (st_tasks (w_st w')) (lease_TaskID stale)) = Some TaskDeadLetter
    \<and> PendingFanOut (History (w_st w') (task_RunID t)) = Some f
    \<and> (\<forall>e. Advance e (task_RunID t) w' = Some (None, w'))"
proof -
  let ?k = "lease_TaskID stale"
  from r obtain s' where s': "reclaim_tx (w_now w) stale (w_st w) = (Inr False, s')" "w' = w\<lparr>w_st := s'\<rparr>" by auto
  have ok': "store_ok s'" by (rule tx_keeps_ok [of "reclaim_tx (w_now w) stale", OF _ s'(1) ok]) simp
  have k: "task_ID t = ?k" using task_at [OF ok t(1)] .
  from s'(1) show ?thesis
  proof (rule reclaim_tx_ok)
    assume "s' = w_st w"
    with changed s'(2) show ?thesis by simp
  next
    fix t'
    assume t': "map_of (st_tasks (w_st w)) ?k = Some t'"
      and "task_ID t' = ?k \<Longrightarrow> task_writes (w_st w) s' ?k (reclaimed_task (w_now w) stale t')
         ((granted (w_st w) ?k ReaperWorkerID (w_now w) (time_Add (w_now w) (60 * second)))\<lparr>lease_ExpiresAt := w_now w\<rparr>)
         (task_RunID t') [(EventLeaseExpired, task_StepID t'),
         (if Task_Exhausted t' then EventTaskDeadLettered else EventTaskRetryScheduled, task_StepID t')]"
    then have w: "task_writes (w_st w) s' ?k (reclaimed_task (w_now w) stale t)
         ((granted (w_st w) ?k ReaperWorkerID (w_now w) (time_Add (w_now w) (60 * second)))\<lparr>lease_ExpiresAt := w_now w\<rparr>)
         (task_RunID t) [(EventLeaseExpired, task_StepID t), (EventTaskDeadLettered, task_StepID t)]"
      using t k by simp
    then obtain es where es: "events_of s' (task_RunID t) = events_of (w_st w) (task_RunID t) @ es" "length es = 2"
      "\<forall>e \<in> set es. fan_neutral e \<and> wait_neutral e" unfolding task_writes_def by (blast dest: logs_neutral)
    have h: "History (w_st w) (task_RunID t) = events_of (w_st w) (task_RunID t)"
      using History_events [OF ok] room by simp
    have h': "History s' (task_RunID t) = events_of (w_st w) (task_RunID t) @ es"
      using History_events [OF ok', of "task_RunID t"] room es by simp
    have fan': "PendingFanOut (History s' (task_RunID t)) = Some f" "PendingWait (History s' (task_RunID t)) = None"
      using PendingFanOut_neutral PendingWait_neutral es(3) fan h h' by metis+
    obtain run where "map_of (st_runs s') (task_RunID t) = Some run"
      using w task_has_run [OF ok t(1)] by (auto simp: task_writes_def)
    then have "Advance e (task_RunID t) w' = Some (None, w')" for e
      using fan' s'(2) by (intro Advance_joining) auto
    moreover have "map_of (st_tasks s') ?k = Some (reclaimed_task (w_now w) stale t)"
      using w by (simp add: task_writes_def)
    ultimately show ?thesis using fan' s'(2) t(3) by (simp add: reclaimed_task_def move_task_def)
  qed
qed

section \<open>The relay\<close>

lemma publish_sent:
  "publish e tid w = (r, w') \<Longrightarrow> w_sent w' = (if r = None then w_sent w @ [tid] else w_sent w) \<and> w_st w' = w_st w"
  by (auto simp: publish_def Let_def)

lemma relay_loop_sent:
  "relay_loop e ds fs dl w = ((delivered, failed, stop), w')
     \<Longrightarrow> \<exists>sent. set sent \<subseteq> set dl \<and> delivered = ds @ map del_ID sent \<and> w_sent w' = w_sent w @ map del_TaskID sent
        \<and> w_st w' = w_st w"
proof (induction dl arbitrary: ds fs w)
  case Nil
  then show ?case by (intro exI [of _ "[]"]) simp
next
  case (Cons d dl)
  obtain r v where p: "publish e (del_TaskID d) w = (r, v)" by fastforce
  note v = publish_sent [OF p]
  show ?case
  proof (cases r)
    case None
    with Cons.prems p have "relay_loop e (ds @ [del_ID d]) fs dl v = ((delivered, failed, stop), w')" by simp
    from Cons.IH [OF this] obtain sent where "set sent \<subseteq> set dl" "delivered = (ds @ [del_ID d]) @ map del_ID sent"
      "w_sent w' = w_sent v @ map del_TaskID sent" "w_st w' = w_st v" by blast
    then show ?thesis using v None by (intro exI [of _ "d # sent"]) auto
  next
    case (Some err)
    show ?thesis
    proof (cases "stops_sweep err")
      case True
      with Cons.prems p Some v show ?thesis by (intro exI [of _ "[]"]) auto
    next
      case False
      with Cons.prems p Some have "relay_loop e ds (AList.update (del_ID d) (err_text err) fs) dl v = ((delivered, failed, stop), w')"
        by simp
      from Cons.IH [OF this] v Some show ?thesis by auto
    qed
  qed
qed

lemma is_published_fails: "tx_seq (map (\<lambda>(i, c). FailDelivery i c) fs) s = (Inr u, s') \<Longrightarrow> is_published s' = is_published s"
  by (induction fs arbitrary: s) (auto simp: FailDelivery_ok)

lemma mark_outcomes_published:
  assumes "mark_outcomes delivered failed w = (r, w')" "is_published (w_st w') i"
  shows "is_published (w_st w) i \<or> i \<in> set delivered"
proof (cases "delivered = [] \<and> failed = []")
  case True
  with assms show ?thesis by (simp add: mark_outcomes_def)
next
  case False
  obtain x v where x: "in_tx (mark_outcomes_tx delivered failed) w = (x, v)" by fastforce
  show ?thesis
  proof (cases x)
    case (Inl err)
    with x in_tx_failed have "is_published (w_st v) = is_published (w_st w)" by fastforce
    moreover have "w' = v" using assms(1) False x Inl by (simp add: mark_outcomes_def)
    ultimately show ?thesis using assms(2) by simp
  next
    case (Inr u)
    with x obtain s1 s2 where s: "MarkDelivered delivered (w_st w) = (Inr (), s1)"
      "tx_seq (map (\<lambda>(i, c). FailDelivery i c) failed) s1 = (Inr u, s2)" "v = w\<lparr>w_st := s2\<rparr>"
      by (auto simp: mark_outcomes_tx_def)
    moreover have "w' = v" using assms(1) False x Inr by (simp add: mark_outcomes_def del: in_tx_ok)
    moreover have "is_published s1 i \<longleftrightarrow> i \<in> set delivered \<or> is_published (w_st w) i"
      using is_published_MarkDelivered [of delivered "w_st w" i] s(1) by simp
    ultimately show ?thesis using assms(2) is_published_fails [OF s(2)] by auto
  qed
qed

text \<open>What became published in a sweep was handed to the dispatcher in that sweep.\<close>

lemma RelayOnce_published:
  assumes ok: "store_ok (w_st w)" and r: "RelayOnce e rl w = ((n, stop), w')"
    and p: "is_published (w_st w') i" "\<not> is_published (w_st w) i"
  shows "\<exists>d new. map_of (st_deliveries (w_st w)) i = Some d \<and> w_sent w' = w_sent w @ new \<and> del_TaskID d \<in> set new"
proof -
  let ?p = "PendingDeliveries (w_st w) (w_now w) (rl_batch rl)"
  have "?p \<noteq> []" using r p by (auto simp: RelayOnce_def Let_def)
  obtain ds fs st v where l: "relay_loop e [] [] ?p w = ((ds, fs, st), v)" by (metis prod_cases3 surj_pair)
  from relay_loop_sent [OF l] obtain sent where sent: "set sent \<subseteq> set ?p" "ds = map del_ID sent"
    "w_sent v = w_sent w @ map del_TaskID sent" "w_st v = w_st w" by auto
  obtain m v' where m: "mark_outcomes ds fs v = (m, v')" by fastforce
  have v': "w' = v'" using r \<open>?p \<noteq> []\<close> l m by (auto simp: RelayOnce_def Let_def split: option.splits)
  have snt: "w_sent v' = w_sent v" using m
    by (auto simp: mark_outcomes_def in_tx_def split: if_splits prod.splits sum.splits)
  from mark_outcomes_published [OF m] p v' sent(2,4) obtain d where d: "d \<in> set sent" "del_ID d = i" by auto
  then have "d \<in> set (vals (st_deliveries (w_st w)))"
    using sent(1) set_limited by (fastforce simp: PendingDeliveries_def)
  then have "map_of (st_deliveries (w_st w)) i = Some d" using delivery_at [OF ok] d(2) by blast
  with d sent(3) snt v' show ?thesis by (intro exI [of _ d] exI [of _ "map del_TaskID sent"]) auto
qed

section \<open>The gateway\<close>

fun rr_picks :: "string \<Rightarrow> session list \<Rightarrow> nat \<Rightarrow> Gateway \<Rightarrow> session list" where
  "rr_picks key cs 0 g = []"
| "rr_picks key cs (Suc n) g = (case round_robin key cs g of (s, g') \<Rightarrow> s # rr_picks key cs n g')"

lemma rr_picks_cycle:
  "cs \<noteq> [] \<Longrightarrow> rr_picks key cs n g = map (\<lambda>i. cs ! ((cursor g key + i) mod length cs)) [0..<n]"
proof (induction n arbitrary: g)
  case (Suc n)
  let ?i = "cursor g key mod length cs"
  let ?g = "g\<lparr>gw_rr := AList.update key (Suc ?i mod length cs) (gw_rr g)\<rparr>"
  have c: "cursor ?g key = Suc ?i mod length cs" by (simp add: cursor_def)
  have "rr_picks key cs (Suc n) g = cs ! ?i # rr_picks key cs n ?g"
    by (simp add: round_robin_def Let_def)
  also have "rr_picks key cs n ?g = map (\<lambda>i. cs ! ((Suc ?i mod length cs + i) mod length cs)) [0..<n]"
    using Suc c by simp
  also have "\<dots> = map (\<lambda>i. cs ! ((cursor g key + Suc i) mod length cs)) [0..<n]"
    by (simp add: mod_simps)
  finally show ?case by (simp add: upt_conv_Cons map_Suc_upt [symmetric] comp_def del: upt_Suc)
qed simp

lemma pickDecider_pinned:
  assumes "pickDecider agent version g = (Inr s, g')"
  shows "s \<in> set (agent_sessions g agent) \<and> se_decides s \<and> se_version s = version"
proof -
  let ?cs = "filter (\<lambda>s. se_version s = version) (filter se_decides (agent_sessions g agent))"
  from assms have ne: "?cs \<noteq> []" and s: "s = ?cs ! (cursor g agent mod length ?cs)"
    by (auto simp: pickDecider_def Let_def round_robin_def split: if_splits)
  have "s \<in> set ?cs" unfolding s using ne by (intro nth_mem) (simp del: filter_filter)
  then show ?thesis by auto
qed

lemma pickDecider_unavailable:
  "pickDecider agent version g = (Inl err, g') \<Longrightarrow> Is err ErrUnavailable \<and> g' = g
     \<and> (\<forall>s \<in> set (agent_sessions g agent). \<not> (se_decides s \<and> se_version s = version))"
  by (auto simp: pickDecider_def Let_def no_worker_def round_robin_def filter_empty_conv split: if_splits)

end
