(* ===== verification/Progress.thy ===== *)
theory Progress
  imports Routing
begin

text \<open>
  What succeeds. The other theories say what a transaction has done when it commits; here, the
  conditions under which the engine's transactions do commit, and the outcomes that follow: a
  pending task can be claimed, the holder's report is taken, and a decision moves the run.
\<close>

section \<open>Room in a history\<close>

text \<open>There is room for \<open>n\<close> more events in the numbers an int64 gives.\<close>

definition room :: "state \<Rightarrow> RunID \<Rightarrow> nat \<Rightarrow> bool" where
  "room s r n \<longleftrightarrow> has (st_runs s) r \<and> history_ok r (events_of s r)
     \<and> int (length (events_of s r)) + int n \<le> max_int64"

definition marshals :: "EventData \<Rightarrow> bool" where
  "marshals data \<longleftrightarrow> marshal_data data \<noteq> None"

lemma roomI: "store_ok s \<Longrightarrow> has (st_runs s) r \<Longrightarrow> int (length (events_of s r)) + int n \<le> max_int64 \<Longrightarrow> room s r n"
  using store_ok_history by (simp add: room_def)

lemma room_less: "room s r n \<Longrightarrow> m \<le> n \<Longrightarrow> room s r m"
  by (simp add: room_def)

lemma room_cong [simp]:
  "room (st_tasks_update g s) = room s" "room (st_stepIndex_update h s) = room s"
  "room (st_effects_update i s) = room s" "room (st_leases_update j s) = room s"
  "room (st_workers_update k s) = room s" "room (st_signals_update l s) = room s"
  "room (st_deliveries_update m s) = room s" "room (st_published_update p s) = room s"
  "room (st_deliverySeq_update q s) = room s"
  by (auto simp: room_def fun_eq_iff)

lemma room_put_run [simp]: "room s k n \<Longrightarrow> room (s\<lparr>st_runs := AList.update j x (st_runs s)\<rparr>) k n"
  by (simp add: room_def)

lemma Append_total:
  assumes r: "room s r (Suc n)" and d: "marshals data"
  shows "\<exists>m. Append now r ty step data s = (Inr (), s\<lparr>st_events := m\<rparr>) \<and> room (s\<lparr>st_events := m\<rparr>) r n"
proof -
  let ?q = "incr64 (max_seq 0 (events_of s r))"
  have h: "history_ok r (events_of s r)" and l: "int (length (events_of s r)) < max_int64"
    using r by (auto simp: room_def)
  then have q: "?q = int (length (events_of s r)) + 1"
    using max_seq_gapless incr64_eq by (simp add: history_ok_def)
  from d obtain ev where ev: "NewEvent r ?q ty step data = Inr ev"
    using NewEvent_iff_marshal [of r ?q ty step data] by (auto simp: marshals_def)
  have new: "\<forall>x \<in> set (events_of s r). ev_Seq x \<noteq> ev_Seq ev"
  proof
    fix x assume "x \<in> set (events_of s r)"
    then obtain i where "i < length (events_of s r)" "x = events_of s r ! i" by (auto simp: in_set_conv_nth)
    with h l have "ev_Seq x = int i + 1" by (simp add: history_ok_def gapless_def)
    with \<open>i < _\<close> show "ev_Seq x \<noteq> ev_Seq ev" using NewEvent_fields(2) [OF ev] q by simp
  qed
  let ?m = "AList.update r (events_of s r @ [ev\<lparr>ev_CreatedAt := now\<rparr>]) (st_events s)"
  have "Append now r ty step data s = (Inr (), s\<lparr>st_events := ?m\<rparr>)"
    using r new ev NewEvent_fields [OF ev]
    by (auto simp: Append_def tx_bind_def NextSeq_def AppendEvent_def room_def has_def list_ex_iff split: option.split)
  moreover have "history_ok r (events_of s r @ [ev\<lparr>ev_CreatedAt := now\<rparr>])"
    using h new NewEvent_fields [OF ev] by (intro history_ok_snoc) auto
  ultimately show ?thesis using r l by (intro exI [of _ ?m]) (simp add: room_def events_of_update del: events_of_histories)
qed

lemma Append_last:
  "room s r 1 \<Longrightarrow> marshals data \<Longrightarrow> \<exists>m. Append now r ty step data s = (Inr (), s\<lparr>st_events := m\<rparr>)"
  using Append_total [of s r 0 data] by (simp only: One_nat_def) blast

lemma marshals_plain [simp]:
  "marshals (TaskClaimedData tid wid n)" "marshals (TaskFailedData tid m n f)"
  "marshals (TaskRetryScheduledData tid n m zero_time)" "marshals (RunFailedData m)" 
  by (simp_all add: marshals_def marshal_data_def struct_def field_defs time_marshalable_def zero_time_def)

text \<open>What the records read after a move.\<close>

lemma apply_state_status: "run_Status (apply_state now nxt r) = rs_Status nxt"
  "run_Output (apply_state now nxt r) = rs_Output nxt"
  by (simp_all add: apply_state_def)

lemma move_task_status: "task_Status (move_task now to out t) = to"
  "to_Error out \<noteq> [] \<Longrightarrow> task_LastError (move_task now to out t) = to_Error out"
  by (simp_all add: move_task_def)

section \<open>Claims and reports\<close>

lemma claim_total:
  assumes t: "map_of (st_tasks s) tid = Some t" "task_Status t = TaskPending" and w: "has (st_workers s) wid"
    and l: "\<And>l. map_of (st_leases s) tid = Some l \<Longrightarrow> Lease_Expired l now" and r: "room s (task_RunID t) 1"
  shows "\<exists>c s'. claim_tx now ttl tid wid s = (Inr c, s')"
proof -
  let ?t = "move_task now TaskRunning \<lparr>to_Error = []\<rparr> t"
  let ?l = "granted s tid wid now (time_Add now ttl)"
  let ?s1 = "s\<lparr>st_tasks := AList.update tid ?t (st_tasks s)\<rparr>"
  let ?s2 = "?s1\<lparr>st_leases := AList.update tid ?l (st_leases s)\<rparr>"
  have "TransitionTask now tid TaskPending TaskRunning \<lparr>to_Error = []\<rparr> s = (Inr (), ?s1)"
    using t by (simp add: TransitionTask_ok TaskStatus_CanTransitionTo_def TaskStatus_IsTerminal_def)
  moreover have "AcquireLease tid wid now (time_Add now ttl) ?s1 = (Inr ?l, ?s2)"
    using t w l by (simp add: AcquireLease_ok)
  moreover obtain m where "Append now (task_RunID t) EventTaskClaimed (task_StepID t)
      (TaskClaimedData tid wid (incr64 (task_Attempt t))) ?s2 = (Inr (), ?s2\<lparr>st_events := m\<rparr>)"
    using Append_last [of ?s2 "task_RunID t"] r by (metis marshals_plain(1) room_cong(1) room_cong(4))
  ultimately show ?thesis using t(1) by (simp add: claim_tx_def Let_def)
qed

lemma complete_total:
  assumes t: "map_of (st_tasks s) tid = Some t" "task_Status t = TaskRunning"
    and l: "map_of (st_leases s) tid = Some l" and r: "room s (task_RunID t) 1" and m: "marshals (TaskCompletedData tid result)"
  shows "\<exists>s'. complete_tx now tid (lease_Token l) result s = (Inr (task_RunID t), s')"
proof -
  let ?s1 = "s\<lparr>st_tasks := AList.update tid (move_task now TaskCompleted \<lparr>to_Error = []\<rparr> t) (st_tasks s)\<rparr>"
  let ?s2 = "?s1\<lparr>st_leases := AList.update tid (l\<lparr>lease_ExpiresAt := now\<rparr>) (st_leases s)\<rparr>"
  have "TransitionTask now tid TaskRunning TaskCompleted \<lparr>to_Error = []\<rparr> s = (Inr (), ?s1)"
    using t by (simp add: TransitionTask_ok TaskStatus_CanTransitionTo_def TaskStatus_IsTerminal_def)
  moreover have "ReleaseLease tid (lease_Token l) now ?s1 = (Inr (), ?s2)" using l by (simp add: ReleaseLease_ok)
  moreover obtain m where "Append now (task_RunID t) EventTaskCompleted (task_StepID t)
      (TaskCompletedData tid result) ?s2 = (Inr (), ?s2\<lparr>st_events := m\<rparr>)"
    using Append_last [OF _ m, of ?s2 "task_RunID t"] r by (metis room_cong(1) room_cong(4))
  ultimately show ?thesis using t(1) l by (simp add: complete_tx_def)
qed

lemma fail_total:
  assumes t: "map_of (st_tasks s) tid = Some t" "task_Status t = TaskRunning"
    and l: "map_of (st_leases s) tid = Some l" and r: "room s (task_RunID t) (Suc (Suc n))" and e: "\<not> retries t escalated"
  shows "\<exists>s'. fail_tx e now rnd tid (lease_Token l) reason escalated s = (Inr (t, False, zero_time), s')
    \<and> room s' (task_RunID t) n \<and> st_runs s' = st_runs s"
proof -
  let ?s1 = "s\<lparr>st_tasks := AList.update tid (move_task now TaskDeadLetter \<lparr>to_Error = reason\<rparr> t) (st_tasks s)\<rparr>"
  let ?s2 = "?s1\<lparr>st_leases := AList.update tid (l\<lparr>lease_ExpiresAt := now\<rparr>) (st_leases s)\<rparr>"
  have "TransitionTask now tid TaskRunning TaskDeadLetter \<lparr>to_Error = reason\<rparr> s = (Inr (), ?s1)"
    using t by (simp add: TransitionTask_ok TaskStatus_CanTransitionTo_def TaskStatus_IsTerminal_def)
  moreover have "ReleaseLease tid (lease_Token l) now ?s1 = (Inr (), ?s2)" using l by (simp add: ReleaseLease_ok)
  moreover obtain m where m: "Append now (task_RunID t) EventTaskFailed (task_StepID t)
      (TaskFailedData tid reason (task_Attempt t) True) ?s2 = (Inr (), ?s2\<lparr>st_events := m\<rparr>)"
    "room (?s2\<lparr>st_events := m\<rparr>) (task_RunID t) (Suc n)"
    using Append_total [of ?s2 "task_RunID t" "Suc n" "TaskFailedData tid reason (task_Attempt t) True"] r
    by (simp only: room_cong marshals_plain) blast
  moreover obtain m' where m': "Append now (task_RunID t) EventTaskDeadLettered (task_StepID t)
      (TaskRetryScheduledData tid (task_Attempt t) reason zero_time) (?s2\<lparr>st_events := m\<rparr>)
        = (Inr (), ?s2\<lparr>st_events := m, st_events := m'\<rparr>)" "room (?s2\<lparr>st_events := m, st_events := m'\<rparr>) (task_RunID t) n"
    using Append_total [OF m(2) marshals_plain(3)] by blast
  ultimately have "fail_tx e now rnd tid (lease_Token l) reason escalated s = (Inr (t, False, zero_time), ?s2\<lparr>st_events := m, st_events := m'\<rparr>)"
    using t(1) l e by (auto simp: fail_tx_def Let_def retries_def)
  then show ?thesis using m' by (intro exI [of _ "?s2\<lparr>st_events := m, st_events := m'\<rparr>"]) simp
qed

section \<open>What becomes of the run\<close>

text \<open>The run has ended in the state \<open>nxt\<close>, with one event of the given type closing its history.\<close>

definition ended_with :: "time \<Rightarrow> Run \<Rightarrow> RunState \<Rightarrow> EventType \<Rightarrow> world \<Rightarrow> world \<Rightarrow> bool" where
  "ended_with now run nxt evt w w' \<longleftrightarrow>
     map_of (st_runs (w_st w')) (run_ID run) = Some (apply_state now nxt run)
     \<and> logs (run_ID run) [(evt, [])] (events_of (w_st w)) (events_of (w_st w'))
     \<and> st_tasks (w_st w') = st_tasks (w_st w)"

text \<open>The event was made with these data: its payload is their envelope.\<close>

definition carries :: "Event \<Rightarrow> EventData \<Rightarrow> bool" where
  "carries ev data \<longleftrightarrow>
     NewEvent (ev_RunID ev) (ev_Seq ev) (ev_Type ev) (ev_StepID ev) data = Inr (ev\<lparr>ev_CreatedAt := zero_time\<rparr>)"

lemma Append_carries:
  assumes "Append now r ty step data s = (Inr u, s')"
  shows "carries (last (events_of s' r)) data"
proof -
  obtain ev where ev: "appends r ty step data s s' ev" using Append_ok [OF assms] ..
  then have new: "NewEvent r (incr64 (max_seq 0 (events_of s r))) ty step data = Inr (ev\<lparr>ev_CreatedAt := zero_time\<rparr>)"
    by (simp add: appends_def)
  have "last (events_of s' r) = ev" using appendsD(4) [OF ev] by simp
  then show ?thesis using new NewEvent_fields [OF new] by (simp add: carries_def)
qed

lemma finish_moves:
  assumes run: "map_of (st_runs (w_st w)) (run_ID run) = Some run"
    and nxt: "rs_Status nxt = run_Status run \<or> RunStatus_CanTransitionTo (run_Status run) (rs_Status nxt)" and d: "marshals data" and r: "room (w_st w) (run_ID run) 1"
  shows "\<exists>w'. finish run nxt evt data w = (None, w') \<and> ended_with (w_now w) run nxt evt w w'
    \<and> carries (last (events_of (w_st w') (run_ID run))) data"
proof -
  let ?s = "(w_st w)\<lparr>st_runs := AList.update (run_ID run) (apply_state (w_now w) nxt run) (st_runs (w_st w))\<rparr>"
  have a: "AdvanceRun (w_now w) (run_ID run) (run_Version run) nxt (w_st w) = (Inr (), ?s)"
    using run nxt by (intro AdvanceRun_current) simp_all
  obtain m where m: "Append (w_now w) (run_ID run) evt [] data ?s = (Inr (), ?s\<lparr>st_events := m\<rparr>)"
    using Append_last [OF room_put_run d] r by blast
  obtain m' where "?s\<lparr>st_events := m\<rparr> = ?s\<lparr>st_events := m'\<rparr>" "logs (run_ID run) [(evt, [])] (events_of ?s) (histories m')"
    using Append_logs [OF m] by blast
  then have "logs (run_ID run) [(evt, [])] (events_of (w_st w)) (events_of (?s\<lparr>st_events := m\<rparr>))" by simp
  moreover have "in_tx (finish_tx (w_now w) run nxt evt data) w = (Inr (), w\<lparr>w_st := ?s\<lparr>st_events := m\<rparr>\<rparr>)"
    using a m by (simp add: finish_tx_def)
  ultimately show ?thesis
    using Append_carries [OF m]
    by (intro exI [of _ "w\<lparr>w_st := ?s\<lparr>st_events := m\<rparr>\<rparr>"]) (simp add: finish_def ended_with_def del: in_tx_ok)
qed

lemma finish_total:
  assumes "map_of (st_runs (w_st w)) (run_ID run) = Some run" "run_Status run = RunRunning"
    and "RunStatus_CanTransitionTo RunRunning (rs_Status nxt)" and "marshals data" and "room (w_st w) (run_ID run) 1"
  shows "\<exists>w'. finish run nxt evt data w = (None, w') \<and> ended_with (w_now w) run nxt evt w w'
    \<and> carries (last (events_of (w_st w') (run_ID run))) data"
  using assms by (intro finish_moves) simp_all

text \<open>
  A run that has ended is not protected from a decision to end it the same way: \<open>AdvanceRun\<close>
  refuses a change of status, not an advance that keeps it. \<open>Advance\<close> looks at the status before it
  resumes a wait and not after it has read the run again (engine.go:484), so an advance that
  resumed a run which another one has ended since closes its history a second time.
\<close>

lemma ended_again:
  assumes "map_of (st_runs (w_st w)) (run_ID run) = Some run" "run_Status run = RunCompleted"
    and "e_decide e (w_asked w) run h = Inr d" "d_Kind d = DecideComplete" "marshals (RunCompletedData (d_Output d))"
    and "room (w_st w) (run_ID run) 1"
  shows "\<exists>w'. decide e run h w = (Return None, w') \<and> ended_with (w_now w) run
     \<lparr>rs_Status = RunCompleted, rs_Output = d_Output d, rs_LastError = [], rs_AvailableAt = None\<rparr> EventRunCompleted w w'"
  using finish_moves [of "w\<lparr>w_asked := Suc (w_asked w)\<rparr>" run "\<lparr>rs_Status = RunCompleted, rs_Output = d_Output d,
      rs_LastError = [], rs_AvailableAt = None\<rparr>" "RunCompletedData (d_Output d)" EventRunCompleted] assms
  by (auto simp: decide_def act_def ended_with_def)

text \<open>An agent's decision to complete ends the run with its output.\<close>

lemma act_completes:
  assumes run: "map_of (st_runs (w_st w)) (run_ID run) = Some run" "run_Status run = RunRunning"
    and d: "d_Kind d = DecideComplete" "marshals (RunCompletedData (d_Output d))" and r: "room (w_st w) (run_ID run) 1"
  shows "\<exists>w'. act e run d w = (Return None, w') \<and> ended_with (w_now w) run
     \<lparr>rs_Status = RunCompleted, rs_Output = d_Output d, rs_LastError = [], rs_AvailableAt = None\<rparr> EventRunCompleted w w'"
proof -
  let ?nxt = "\<lparr>rs_Status = RunCompleted, rs_Output = d_Output d, rs_LastError = [], rs_AvailableAt = None\<rparr>"
  have "RunStatus_CanTransitionTo RunRunning (rs_Status ?nxt)"
    by (simp add: RunStatus_CanTransitionTo_def RunStatus_IsTerminal_def)
  from finish_total [OF run this d(2) r, of EventRunCompleted] show ?thesis using d(1) by (auto simp: act_def)
qed

lemma failRun_total:
  assumes run: "map_of (st_runs (w_st w)) rid = Some run" "run_ID run = rid" "run_Status run = RunRunning"
    and r: "room (w_st w) rid 1"
  shows "\<exists>w'. failRun rid reason w = (None, w') \<and> ended_with (w_now w) run (failed_state reason) EventRunFailed w w'
    \<and> carries (last (events_of (w_st w') rid)) (RunFailedData reason)"
  using finish_total [of w run "failed_state reason" "RunFailedData reason"] assms
  by (auto simp: failRun_def GetRun_def failed_state_def RunStatus_IsTerminal_def RunStatus_CanTransitionTo_def)

text \<open>A failure that nobody retries, of a step that is not a child, ends the run with it.\<close>

definition failure_reason :: "Task \<Rightarrow> go_error \<Rightarrow> string" where
  "failure_reason t cause =
     (if Is cause ErrEscalated then ''task '' @ task_ID t @ '' needs human resolution: '' @ err_text cause
      else ''task '' @ task_ID t @ '' exhausted '' @ show_int (task_Attempt t) @ '' attempts: '' @ err_text cause)"

lemma FailTask_final:
  assumes ok: "store_ok (w_st w)" and t: "map_of (st_tasks (w_st w)) tid = Some t" "task_Status t = TaskRunning"
    and l: "map_of (st_leases (w_st w)) tid = Some l"
    and last: "\<not> retries t (Is cause ErrEscalated)" "Is cause ErrEscalated \<or> StepID_Parent (task_StepID t) = None"
    and run: "map_of (st_runs (w_st w)) (task_RunID t) = Some run" "run_Status run = RunRunning"
    and space: "int (length (events_of (w_st w) (task_RunID t))) + 3 \<le> max_int64"
  shows "\<exists>w'. FailTask e tid (lease_Token l) cause w = Some (None, w')
    \<and> map_of (st_runs (w_st w')) (task_RunID t) = Some (apply_state (w_now w) (failed_state (failure_reason t cause)) run)
    \<and> carries (last (events_of (w_st w') (task_RunID t))) (RunFailedData (failure_reason t cause))
    \<and> map_of (st_tasks (w_st w')) tid = Some (move_task (w_now w) TaskDeadLetter \<lparr>to_Error = err_text cause\<rparr> t)
    \<and> logs (task_RunID t) [(EventTaskFailed, task_StepID t), (EventTaskDeadLettered, task_StepID t), (EventRunFailed, [])]
        (events_of (w_st w)) (events_of (w_st w'))"
proof -
  let ?now = "w_now w" and ?rid = "task_RunID t" and ?rnd = "e_rand e (w_rands w)"
  have rid: "run_ID run = ?rid" using ok run(1) by (auto simp: store_ok_def dest: keyedD)
  have "room (w_st w) ?rid (Suc (Suc 1))" using ok run(1) space by (intro roomI) (auto simp: has_def)
  from fail_total [OF t l this last(1), of e ?now ?rnd "err_text cause"] obtain s1 where
    s1: "fail_tx e ?now ?rnd tid (lease_Token l) (err_text cause) (Is cause ErrEscalated) (w_st w) = (Inr (t, False, zero_time), s1)"
      "room s1 ?rid 1" "st_runs s1 = st_runs (w_st w)" by auto
  let ?w1 = "w\<lparr>w_rands := Suc (w_rands w), w_st := s1\<rparr>"
  have tasks: "map_of (st_tasks s1) tid = Some (move_task ?now TaskDeadLetter \<lparr>to_Error = err_text cause\<rparr> t)"
    and lg: "logs ?rid [(EventTaskFailed, task_StepID t), (EventTaskDeadLettered, task_StepID t)] (events_of (w_st w)) (events_of s1)"
    using s1(1) t l last(1) by (auto elim!: fail_tx_ok simp: task_writes_def)
  let ?msg = "failure_reason t cause"
  have tid: "task_ID t = tid" using ok t(1) by (auto simp: store_ok_def task_ok_def dest: keyedD)
  obtain w' where w': "failRun ?rid ?msg ?w1 = (None, w')" "ended_with ?now run (failed_state ?msg) EventRunFailed ?w1 w'"
    "carries (last (events_of (w_st w') ?rid)) (RunFailedData ?msg)"
    using failRun_total [of ?w1 ?rid run ?msg] run rid s1(2,3) by auto
  have "FailTask e tid (lease_Token l) cause w = Some (failRun ?rid ?msg ?w1)"
    using s1(1) last(2) tid by (auto simp: FailTask_def Let_def in_tx_def RunInTx_def failure_reason_def split: if_splits)
  then show ?thesis
    using w' tasks logs_trans [OF lg] rid by (intro exI [of _ w']) (simp add: ended_with_def)
qed

lemma dispatch_total:
  assumes run: "map_of (st_runs (w_st w)) (run_ID run) = Some run" "run_Status run = RunRunning"
    and new: "map_of (st_stepIndex (w_st w)) (run_ID run, d_StepID d) = None"
      "map_of (st_tasks (w_st w)) (e_newTaskID e (w_taskIDs w)) = None"
    and r: "room (w_st w) (run_ID run) 1"
    and m: "marshals (TaskCreatedData (e_newTaskID e (w_taskIDs w)) (d_TaskType d) (d_Payload d))"
  shows "\<exists>w'. dispatch e run d w = (None, w') \<and> dispatched (w_now w) run
    (new_task e (run_ID run) (e_newTaskID e (w_taskIDs w)) (d_StepID d) (d_TaskType d) (d_Payload d)) (w_st w) (w_st w')"
proof -
  let ?t = "new_task e (run_ID run) (e_newTaskID e (w_taskIDs w)) (d_StepID d) (d_TaskType d) (d_Payload d)"
  let ?s1 = "(w_st w)\<lparr>st_runs := AList.update (run_ID run) (apply_state (w_now w) (running_state run None) run) (st_runs (w_st w))\<rparr>"
  let ?s2 = "?s1\<lparr>st_tasks := AList.update (task_ID ?t) (?t\<lparr>task_CreatedAt := w_now w, task_UpdatedAt := w_now w\<rparr>) (st_tasks (w_st w)),
     st_stepIndex := AList.update (run_ID run, d_StepID d) (task_ID ?t) (st_stepIndex (w_st w))\<rparr>"
  have 1: "AdvanceRun (w_now w) (run_ID run) (run_Version run) (running_state run None) (w_st w) = (Inr (), ?s1)"
    using run by (intro AdvanceRun_current) (simp_all add: running_state_def)
  have 2: "CreateTask (w_now w) ?t ?s1 = (Inr (), ?s2)"
    using new run by (simp add: CreateTask_ok new_task_def has_def)
  obtain m where 3: "Append (w_now w) (run_ID run) EventTaskCreated (d_StepID d)
      (TaskCreatedData (task_ID ?t) (d_TaskType d) (d_Payload d)) ?s2 = (Inr (), ?s2\<lparr>st_events := m\<rparr>)"
    using Append_last [OF _ m, of ?s2 "run_ID run"] r by (simp add: new_task_def) blast
  have "\<exists>s'. EnqueueDelivery (w_now w) (task_ID ?t) zero_time (?s2\<lparr>st_events := m\<rparr>) = (Inr (), s')"
    by (simp add: EnqueueDelivery_ok)
  then obtain s' where "dispatch_tx (w_now w) run ?t (w_st w) = (Inr (), s')"
    using 1 2 3 by (auto simp: dispatch_tx_def put_task_def new_task_def)
  then show ?thesis
    using dispatch_tx_ok [of "w_now w" run ?t "w_st w"]
    by (intro exI [of _ "wake (w\<lparr>w_taskIDs := Suc (w_taskIDs w), w_st := s'\<rparr>)"])
      (auto simp: dispatch_def Let_def in_tx_def RunInTx_def wake_def)
qed

end
