(* ===== verification/Rounds.thy ===== *)
theory Rounds
  imports Progress
begin

text \<open>
  What the recursion of \<open>Advance\<close> and the outcome of a decision rest on outside the engine: an
  agent whose wait has a deadline in the past is asked again and again within one call, and a
  worker that disconnects while it is deciding costs the run its life.
\<close>

section \<open>Passes that go round\<close>

text \<open>The first \<open>n\<close> passes of one call of \<open>Advance\<close>; \<open>Again\<close>, when none of them has returned.\<close>

fun rounds :: "engine \<Rightarrow> RunID \<Rightarrow> nat \<Rightarrow> world \<Rightarrow> pass \<times> world" where
  "rounds e rid 0 w = (Again, w)"
| "rounds e rid (Suc n) w =
     (case advance_pass e rid w of (Return r, w) \<Rightarrow> (Return r, w) | (Again, w) \<Rightarrow> rounds e rid n w)"

lemma rounds_Advance: "rounds e rid n w = (Again, w') \<Longrightarrow> Advance e rid w = Advance e rid w'"
proof (induction n arbitrary: w)
  case (Suc n)
  obtain p v where p: "advance_pass e rid w = (p, v)" by fastforce
  with Suc.prems have "p = Again" "rounds e rid n v = (Again, w')" by (cases p; simp)+
  with Suc.IH p Advance_Again show ?case by metis
qed simp

lemma advancing_total:
  assumes run: "map_of (st_runs s) (run_ID run) = Some run" "run_Status run = RunRunning" "rs_Status nxt = RunRunning"
    and r: "room s (run_ID run) 1" and d: "marshals data"
  shows "\<exists>s'. tx_bind (AdvanceRun now (run_ID run) (run_Version run) nxt) (\<lambda>_. Append now (run_ID run) evt st data) s = (Inr (), s')"
proof -
  let ?s = "s\<lparr>st_runs := AList.update (run_ID run) (apply_state now nxt run) (st_runs s)\<rparr>"
  have "AdvanceRun now (run_ID run) (run_Version run) nxt s = (Inr (), ?s)"
    using run by (intro AdvanceRun_current) simp_all
  then show ?thesis using Append_last [OF room_put_run d, of s "run_ID run"] r by simp blast
qed

text \<open>
  The waits of an agent that waits for the signal \<open>name\<close> with the deadline \<open>dl\<close>, which is over.
\<close>

definition overdue :: "StepID \<Rightarrow> string \<Rightarrow> time \<Rightarrow> Wait" where
  "overdue step name dl = \<lparr>wait_Kind = WaitSignal, wait_StepID = step, wait_Until = dl, wait_Signal = name\<rparr>"

definition overdue_decision :: "StepID \<Rightarrow> string \<Rightarrow> time \<Rightarrow> Decision \<Rightarrow> bool" where
  "overdue_decision step name dl d \<longleftrightarrow> d_Kind d = DecideWaitForSignal \<and> d_StepID d = step
     \<and> d_Signal d = \<lparr>sw_Name = name, sw_Deadline = dl\<rparr>"

definition spins :: "engine \<Rightarrow> RunID \<Rightarrow> StepID \<Rightarrow> string \<Rightarrow> time \<Rightarrow> world \<Rightarrow> bool" where
  "spins e rid step name dl w \<longleftrightarrow> store_ok (w_st w) \<and> st_signals (w_st w) = []
     \<and> (\<exists>run. map_of (st_runs (w_st w)) rid = Some run \<and> run_Status run = RunRunning \<and> run_AgentName run = e_agent e)
     \<and> (\<forall>ev \<in> set (events_of (w_st w) rid). ev_Type ev \<noteq> EventFanOutStarted)
     \<and> PendingWait (events_of (w_st w) rid) \<in> {None, Some (overdue step name dl)}"

lemma marshals_waits [simp]:
  "time_marshalable dl \<Longrightarrow> marshals (SignalWaitStartedData n dl)"
  "time_marshalable dl \<Longrightarrow> marshals (SignalWaitTimedOutData n dl)"
  by (simp_all add: marshals_def marshal_data_def struct_def field_defs)

lemma running_state_status: "rs_Status (running_state run av) = RunRunning"
  by (simp add: running_state_def)

text \<open>Parking on an overdue wait.\<close>

lemma parks_overdue:
  assumes ok: "store_ok (w_st w)" and run: "map_of (st_runs (w_st w)) (run_ID run) = Some run" "run_Status run = RunRunning"
    and space: "int (length (events_of (w_st w) (run_ID run))) < max_int64"
    and dl: "\<not> time_IsZero dl" "time_marshalable dl"
  shows "\<exists>w' ev. park run dl EventSignalWaitStarted step (SignalWaitStartedData name dl) w = (None, w')
    \<and> events_of (w_st w') (run_ID run) = events_of (w_st w) (run_ID run) @ [ev] \<and> ev_Type ev = EventSignalWaitStarted
    \<and> opened_wait ev = overdue step name dl \<and> store_ok (w_st w') \<and> st_signals (w_st w') = st_signals (w_st w)
    \<and> w_now w' = w_now w \<and> map_of (st_runs (w_st w')) (run_ID run) = Some (apply_state (w_now w) (running_state run (Some dl)) run)"
proof -
  let ?data = "SignalWaitStartedData name dl"
  have "room (w_st w) (run_ID run) 1" using ok run(1) space by (intro roomI) (auto simp: has_def)
  then obtain s' where tx: "park_tx (w_now w) run dl EventSignalWaitStarted step ?data (w_st w) = (Inr (), s')"
    using advancing_total [OF run running_state_status _ marshals_waits(1) [OF dl(2)]] unfolding park_tx_def by blast
  have ok': "store_ok s'"
    by (rule tx_keeps_ok [of "park_tx (w_now w) run dl EventSignalWaitStarted step ?data", OF _ tx ok]) simp
  from advancing_tx [OF ok run(1) tx [unfolded park_tx_def]] obtain ev s1 where
    ev: "appends (run_ID run) EventSignalWaitStarted step ?data s1 s' ev"
    and evs: "events_of s' (run_ID run) = events_of (w_st w) (run_ID run) @ [ev]" "st_signals s' = st_signals (w_st w)"
      "map_of (st_runs s') (run_ID run) = Some (apply_state (w_now w) (running_state run (Some dl)) run)" by blast
  have "Decode_SignalWaitStarted (ev\<lparr>ev_CreatedAt := zero_time\<rparr>) = ((name, dl), None)"
    using appends_new [OF ev] Decode_SignalWaitStarted_NewEvent by blast
  then have "opened_wait ev = overdue step name dl"
    using appendsD(1,2) [OF ev] dl(1) by (simp add: opened_wait_def signal_wait_def overdue_def)
  moreover have "in_tx (park_tx (w_now w) run dl EventSignalWaitStarted step ?data) w = (Inr (), w\<lparr>w_st := s'\<rparr>)" using tx by simp
  then have "park run dl EventSignalWaitStarted step ?data w = (None, w\<lparr>w_st := s'\<rparr>)" by (simp add: park_def del: in_tx_ok)
  ultimately show ?thesis using evs ok' appendsD(1) [OF ev] by (intro exI [of _ "w\<lparr>w_st := s'\<rparr>"] exI [of _ ev]) simp
qed

text \<open>Resuming from one: no signal has come, so the wait has timed out.\<close>

lemma resumes_overdue:
  assumes ok: "store_ok (w_st w)" and run: "map_of (st_runs (w_st w)) (run_ID run) = Some run" "run_Status run = RunRunning"
    and space: "int (length (events_of (w_st w) (run_ID run))) < max_int64"
    and dl: "dl \<le> w_now w" "time_marshalable dl" and none: "st_signals (w_st w) = []"
    and wt: "PendingWait (History (w_st w) (run_ID run)) = Some (overdue step name dl)"
  shows "\<exists>w' run' ev. resume run (History (w_st w) (run_ID run)) w = (Inr (Some (run', events_of (w_st w') (run_ID run))), w')
    \<and> events_of (w_st w') (run_ID run) = events_of (w_st w) (run_ID run) @ [ev] \<and> ev_Type ev = EventSignalWaitTimedOut
    \<and> ev_StepID ev = step \<and> store_ok (w_st w') \<and> st_signals (w_st w') = [] \<and> w_now w' = w_now w \<and> run_ID run' = run_ID run
    \<and> run_Status run' = RunRunning \<and> run_AgentName run' = run_AgentName run \<and> map_of (st_runs (w_st w')) (run_ID run) = Some run'
    \<and> w_asked w' = w_asked w"
proof -
  let ?data = "SignalWaitTimedOutData name dl" and ?wt = "overdue step name dl"
  let ?run' = "apply_state (w_now w) (running_state run None) run"
  have over: "waitIsOver w run (History (w_st w) (run_ID run)) ?wt = Some (EventSignalWaitTimedOut, ?data)"
    using none dl(1) by (simp add: waitIsOver_def overdue_def unconsumedSignal_def Signals_def sortSignals_def vals_def Wait_Elapsed_def)
  have "room (w_st w) (run_ID run) 1" using ok run(1) space by (intro roomI) (auto simp: has_def)
  then obtain s' where tx: "resume_tx (w_now w) run ?wt EventSignalWaitTimedOut ?data (w_st w) = (Inr (), s')"
    using advancing_total [OF run running_state_status _ marshals_waits(2) [OF dl(2)]] unfolding resume_tx_def by blast
  have ok': "store_ok s'"
    by (rule tx_keeps_ok [of "resume_tx (w_now w) run ?wt EventSignalWaitTimedOut ?data", OF _ tx ok]) simp
  from advancing_tx [OF ok run(1) tx [unfolded resume_tx_def]] obtain ev s1 where
    ev: "appends (run_ID run) EventSignalWaitTimedOut (wait_StepID ?wt) ?data s1 s' ev"
    and evs: "events_of s' (run_ID run) = events_of (w_st w) (run_ID run) @ [ev]" "st_signals s' = st_signals (w_st w)"
      "map_of (st_runs s') (run_ID run) = Some ?run'" by blast
  have "in_tx (resume_tx (w_now w) run ?wt EventSignalWaitTimedOut ?data) w = (Inr (), w\<lparr>w_st := s'\<rparr>)" using tx by simp
  moreover have "History s' (run_ID run) = events_of s' (run_ID run)" using History_events [OF ok'] evs(1) space by simp
  moreover have "run_ID ?run' = run_ID run" "run_AgentName ?run' = run_AgentName run" by (simp_all add: apply_state_def)
  ultimately have "resume run (History (w_st w) (run_ID run)) w = (Inr (Some (?run', events_of s' (run_ID run))), w\<lparr>w_st := s'\<rparr>)"
    using wt over evs(3) by (simp add: resume_def GetRun_def del: in_tx_ok)
  then show ?thesis using evs ok' none appendsD(1,2) [OF ev]
    by (intro exI [of _ "w\<lparr>w_st := s'\<rparr>"] exI [of _ ?run'] exI [of _ ev]) (simp add: overdue_def apply_state_def running_state_def)
qed

text \<open>So one pass parks the run on the same wait again, and takes no signal.\<close>

lemma deciding_spins:
  assumes ok: "store_ok (w_st w)" and run: "map_of (st_runs (w_st w)) (run_ID run) = Some run" "run_Status run = RunRunning"
      "run_AgentName run = e_agent e"
    and space: "int (length (events_of (w_st w) (run_ID run))) < max_int64" and dl: "\<not> time_IsZero dl" "time_marshalable dl"
    and asks: "\<And>n run h. \<exists>d. e_decide e n run h = Inr d \<and> overdue_decision step name dl d"
    and none: "st_signals (w_st w) = []" and fan: "\<forall>ev \<in> set (events_of (w_st w) (run_ID run)). ev_Type ev \<noteq> EventFanOutStarted"
  shows "\<exists>w'. decide e run h w = (Again, w') \<and> spins e (run_ID run) step name dl w' \<and> w_now w' = w_now w
    \<and> length (events_of (w_st w') (run_ID run)) = Suc (length (events_of (w_st w) (run_ID run)))"
proof -
  let ?w = "w\<lparr>w_asked := Suc (w_asked w)\<rparr>"
  obtain d where d: "e_decide e (w_asked w) run h = Inr d" "overdue_decision step name dl d" using asks by blast
  from parks_overdue [of ?w run dl step name] ok run space dl obtain w' ev where
    w': "park run dl EventSignalWaitStarted step (SignalWaitStartedData name dl) ?w = (None, w')"
      "events_of (w_st w') (run_ID run) = events_of (w_st w) (run_ID run) @ [ev]" "ev_Type ev = EventSignalWaitStarted"
      "opened_wait ev = overdue step name dl" "store_ok (w_st w')" "st_signals (w_st w') = st_signals (w_st w)" "w_now w' = w_now w"
      "map_of (st_runs (w_st w')) (run_ID run) = Some (apply_state (w_now w) (running_state run (Some dl)) run)" by auto
  have "decide e run h w = (Again, w')" using d w'(1) dl(1) by (simp add: decide_def act_def overdue_decision_def)
  moreover have "PendingWait (events_of (w_st w') (run_ID run)) = Some (overdue step name dl)"
    using w'(2-4) by (simp add: PendingWait_after_open opens_wait_def)
  moreover have "run_AgentName (apply_state (w_now w) (running_state run (Some dl)) run) = e_agent e"
    "run_Status (apply_state (w_now w) (running_state run (Some dl)) run) = RunRunning"
    using run(3) by (simp_all add: apply_state_def running_state_def)
  ultimately show ?thesis using w' none fan by (auto simp: spins_def)
qed

lemma spins_round:
  assumes s: "spins e rid step name dl w" and space: "int (length (events_of (w_st w) rid)) + 2 \<le> max_int64"
    and dl: "\<not> time_IsZero dl" "time_marshalable dl" "dl \<le> w_now w"
    and asks: "\<And>n run h. \<exists>d. e_decide e n run h = Inr d \<and> overdue_decision step name dl d"
  shows "\<exists>w'. advance_pass e rid w = (Again, w') \<and> spins e rid step name dl w' \<and> w_now w' = w_now w
    \<and> length (events_of (w_st w') rid) \<le> length (events_of (w_st w) rid) + 2"
proof -
  from s obtain run where ok: "store_ok (w_st w)" and none: "st_signals (w_st w) = []"
    and run: "map_of (st_runs (w_st w)) rid = Some run" "run_Status run = RunRunning" "run_AgentName run = e_agent e"
    and fan: "\<forall>ev \<in> set (events_of (w_st w) rid). ev_Type ev \<noteq> EventFanOutStarted"
    and wt: "PendingWait (events_of (w_st w) rid) \<in> {None, Some (overdue step name dl)}" by (auto simp: spins_def)
  have rid: "run_ID run = rid" using ok run(1) by (auto simp: store_ok_def dest: keyedD)
  have h: "History (w_st w) rid = events_of (w_st w) rid" using History_events [OF ok] space by simp
  have pass: "advance_pass e rid w = (case resume run (History (w_st w) rid) w of
      (Inl err, w) \<Rightarrow> (Return (Some err), w) | (Inr None, w) \<Rightarrow> (Return None, w)
    | (Inr (Some (run, history)), w) \<Rightarrow> (case PendingFanOut history of Some _ \<Rightarrow> (Return None, w) | None \<Rightarrow> decide e run history w))"
    using run by (simp add: advance_pass_def GetRun_def RunStatus_IsTerminal_def)
  show ?thesis
  proof (cases "PendingWait (events_of (w_st w) rid)")
    case None
    then have "advance_pass e rid w = decide e run (events_of (w_st w) rid) w"
      using pass fan h by (simp add: resume_def PendingFanOut_none)
    with deciding_spins [OF ok _ run(2,3) _ dl(1,2) asks none, of "events_of (w_st w) rid"] run(1) rid space fan show ?thesis by force
  next
    case (Some x)
    then have "PendingWait (History (w_st w) (run_ID run)) = Some (overdue step name dl)" using wt h rid by simp
    from resumes_overdue [OF ok _ run(2) _ dl(3,2) none this] run(1) rid space obtain w1 run1 ev where
      r: "resume run (History (w_st w) rid) w = (Inr (Some (run1, events_of (w_st w1) rid)), w1)"
      and e1: "events_of (w_st w1) rid = events_of (w_st w) rid @ [ev]" "ev_Type ev = EventSignalWaitTimedOut"
      and w1: "store_ok (w_st w1)" "st_signals (w_st w1) = []" "w_now w1 = w_now w" "run_ID run1 = rid" "run_Status run1 = RunRunning"
        "run_AgentName run1 = e_agent e" "map_of (st_runs (w_st w1)) rid = Some run1" using run(3) by fastforce
    have f1: "\<forall>ev \<in> set (events_of (w_st w1) rid). ev_Type ev \<noteq> EventFanOutStarted" using fan e1 by auto
    have "advance_pass e rid w = decide e run1 (events_of (w_st w1) rid) w1"
      using pass r f1 by (simp add: PendingFanOut_none)
    with deciding_spins [OF w1(1) _ w1(5,6) _ dl(1,2) asks w1(2), of "events_of (w_st w1) rid"] w1 e1(1) f1 space show ?thesis by force
  qed
qed

lemma spins_rounds:
  assumes dl: "\<not> time_IsZero dl" "time_marshalable dl" "dl \<le> w_now w"
    and asks: "\<And>n run h. \<exists>d. e_decide e n run h = Inr d \<and> overdue_decision step name dl d"
    and s: "spins e rid step name dl w" and space: "int (length (events_of (w_st w) rid)) + 2 * int n \<le> max_int64"
  shows "\<exists>w'. rounds e rid n w = (Again, w') \<and> st_signals (w_st w') = []"
  using s space dl(3)
proof (induction n arbitrary: w)
  case 0
  then show ?case by (simp add: spins_def)
next
  case (Suc n)
  from spins_round [OF Suc.prems(1) _ dl(1,2) Suc.prems(3) asks] Suc.prems(2) obtain v where
    v: "advance_pass e rid w = (Again, v)" "spins e rid step name dl v" "w_now v = w_now w"
      "length (events_of (w_st v) rid) \<le> length (events_of (w_st w) rid) + 2" by auto
  with Suc.prems have "\<exists>w'. rounds e rid n v = (Again, w') \<and> st_signals (w_st w') = []" by (intro Suc.IH) auto
  with v(1) show ?case by simp
qed

section \<open>Deciding on a connected worker\<close>

text \<open>With no worker of the pinned version connected, the run is left as it is.\<close>

lemma decide_without_worker:
  assumes "e_decide e (w_asked w) run h = fst (remote_Decide ask agent run h g)"
    and "pickDecider (run_AgentName run) (run_AgentVersion run) g = (Inl none, g')"
  shows "\<exists>err. decide e run h w = (Return (Some err), w\<lparr>w_asked := Suc (w_asked w)\<rparr>) \<and> Is err ErrUnavailable"
  using assms pickDecider_unavailable [OF assms(2)] by (simp add: remote_Decide_def decide_def)

text \<open>A worker that goes away while it is asked is not "unavailable": the run is failed.\<close>

lemma decide_disconnected:
  assumes "e_decide e (w_asked w) run h = fst (remote_Decide ask agent run h g)"
    and "pickDecider (run_AgentName run) (run_AgentVersion run) g = (Inr sess, g')"
    and gone: "ask sess run h = StreamDone \<and> se_cause sess \<in> {None, Some (sentinel_err ErrWorkerGone)} \<or> ask sess run h = Received None"
    and ok: "store_ok (w_st w)" and run: "map_of (st_runs (w_st w)) (run_ID run) = Some run" "run_Status run = RunRunning"
    and space: "int (length (events_of (w_st w) (run_ID run))) < max_int64"
  shows "\<exists>w' msg. decide e run h w = (Return None, w')
    \<and> map_of (st_runs (w_st w')) (run_ID run) = Some (apply_state (w_now w) (failed_state msg) run)"
proof -
  let ?w = "w\<lparr>w_asked := Suc (w_asked w)\<rparr>"
  obtain err where err: "e_decide e (w_asked w) run h = Inl err" "\<not> Is err ErrUnavailable"
    using assms(1,2) gone by (auto simp: remote_Decide_def call_result_def resultOf_def closedErr_def split: option.splits)
  have "room (w_st ?w) (run_ID run) 1" using ok run(1) space by (simp add: roomI has_def)
  moreover have "RunStatus_CanTransitionTo RunRunning (rs_Status (failed_state msg))" for msg
    by (simp add: failed_state_def RunStatus_CanTransitionTo_def RunStatus_IsTerminal_def)
  ultimately obtain w' where
    w': "finish run (failed_state (''decide: '' @ err_text err)) EventRunFailed (RunFailedData (err_text err)) ?w = (None, w')"
      "ended_with (w_now w) run (failed_state (''decide: '' @ err_text err)) EventRunFailed ?w w'"
    using finish_total [of ?w run "failed_state (''decide: '' @ err_text err)" "RunFailedData (err_text err)" EventRunFailed] run by auto
  have "decide e run h w = (Return None, w')" unfolding decide_def Let_def using err w'(1) by simp
  with w'(2) show ?thesis unfolding ended_with_def by blast
qed

section \<open>A step that is named like a child\<close>

text \<open>
  \<open>FailTask\<close> tells a child of a fan-out by the form of its step's name. A plain step of that form
  is left to the agent, and an agent that asks for it again gets nothing: the task is there.
\<close>

lemma logs_fail:
  assumes "logs r [(EventTaskFailed, a), (EventTaskDeadLettered, b)] h h'"
  shows "\<exists>es. h' r = h r @ es \<and> (\<forall>e \<in> set es. wait_neutral e \<and> ev_Type e \<noteq> EventFanOutStarted) \<and> length es = 2"
proof -
  obtain es where "h' = h(r := h r @ es)" "map (\<lambda>e. (ev_Type e, ev_StepID e)) es = [(EventTaskFailed, a), (EventTaskDeadLettered, b)]"
    using assms by (auto simp: logs_def)
  moreover from this(2) obtain x y where "es = [x, y]" "ev_Type x = EventTaskFailed" "ev_Type y = EventTaskDeadLettered"
    by (auto simp only: list.map map_eq_Cons_conv map_is_Nil_conv prod.inject)
  ultimately show ?thesis by (intro exI [of _ es]) (simp add: wait_neutral_def)
qed

lemma FailTask_dotted:
  assumes ok: "store_ok (w_st w)" and t: "map_of (st_tasks (w_st w)) tid = Some t" "task_Status t = TaskRunning"
    and l: "map_of (st_leases (w_st w)) tid = Some l"
    and last: "Task_Exhausted t" "\<not> Is cause ErrEscalated" "StepID_Parent (task_StepID t) = Some parent"
    and run: "map_of (st_runs (w_st w)) (task_RunID t) = Some run" "run_Status run = RunRunning" "run_AgentName run = e_agent e"
    and plain: "\<forall>ev \<in> set (events_of (w_st w) (task_RunID t)). ev_Type ev \<noteq> EventFanOutStarted"
      "PendingWait (events_of (w_st w) (task_RunID t)) = None"
    and asks: "\<And>n run h. \<exists>d. e_decide e n run h = Inr d \<and> d_Kind d = DecideCallTool \<and> d_StepID d = task_StepID t"
    and space: "int (length (events_of (w_st w) (task_RunID t))) + 3 \<le> max_int64"
  shows "\<exists>w'. FailTask e tid (lease_Token l) cause w = Some (None, w')
    \<and> map_option task_Status (map_of (st_tasks (w_st w')) tid) = Some TaskDeadLetter
    \<and> map_of (st_runs (w_st w')) (task_RunID t) = Some run"
proof -
  let ?now = "w_now w" and ?rid = "task_RunID t" and ?rnd = "e_rand e (w_rands w)"
  have rid: "run_ID run = ?rid" using ok run(1) by (auto simp: store_ok_def dest: keyedD)
  have nr: "\<not> retries t (Is cause ErrEscalated)" using last by (simp add: retries_def)
  have "room (w_st w) ?rid (Suc (Suc 1))" using ok run(1) space by (intro roomI) (auto simp: has_def)
  from fail_total [OF t l this nr, of e ?now ?rnd "err_text cause"] obtain s1 where
    s1: "fail_tx e ?now ?rnd tid (lease_Token l) (err_text cause) (Is cause ErrEscalated) (w_st w) = (Inr (t, False, zero_time), s1)"
      "st_runs s1 = st_runs (w_st w)" by auto
  have ok1: "store_ok s1"
    by (rule tx_keeps_ok [of "fail_tx e ?now ?rnd tid (lease_Token l) (err_text cause) (Is cause ErrEscalated)", OF _ s1(1) ok]) simp
  have writes: "task_writes (w_st w) s1 tid (move_task ?now TaskDeadLetter \<lparr>to_Error = err_text cause\<rparr> t) (l\<lparr>lease_ExpiresAt := ?now\<rparr>)
      ?rid [(EventTaskFailed, task_StepID t), (EventTaskDeadLettered, task_StepID t)]"
    using s1(1) t l nr by (auto elim!: fail_tx_ok)
  then obtain es where es: "events_of s1 ?rid = events_of (w_st w) ?rid @ es" "length es = 2"
    "\<forall>e \<in> set es. wait_neutral e \<and> ev_Type e \<noteq> EventFanOutStarted" unfolding task_writes_def by (auto dest: logs_fail)
  let ?w1 = "w\<lparr>w_rands := Suc (w_rands w), w_st := s1\<rparr>" and ?h = "events_of s1 ?rid"
  have h: "History s1 ?rid = ?h" using History_events [OF ok1] es(1,2) space by simp
  have "PendingWait ?h = None" using PendingWait_neutral es(1,3) plain(2) by metis
  moreover have "PendingFanOut ?h = None" using plain(1) es(1,3) by (intro PendingFanOut_none) auto
  moreover obtain d where d: "e_decide e (w_asked w) run ?h = Inr d" "d_Kind d = DecideCallTool" "d_StepID d = task_StepID t"
    using asks by blast
  ultimately have pass: "advance_pass e ?rid ?w1 = apfst Return (dispatch e run d (?w1\<lparr>w_asked := Suc (w_asked w)\<rparr>))"
    using run s1(2) h by (simp add: advance_pass_def GetRun_def RunStatus_IsTerminal_def resume_def decide_def act_def)
  have "map_of (st_stepIndex (w_st w)) (?rid, task_StepID t) = Some tid" using keyedD [OF tasks_keyed [OF ok] t(1)] by (simp add: task_ok_def)
  then have "map_of (st_stepIndex s1) (?rid, task_StepID t) \<noteq> None" using writes by (simp add: task_writes_def)
  then have "dispatch e run d (?w1\<lparr>w_asked := Suc (w_asked w)\<rparr>) = (None, ?w1\<lparr>w_asked := Suc (w_asked w), w_taskIDs := Suc (w_taskIDs w)\<rparr>)"
    using dispatch_existing [of "?w1\<lparr>w_asked := Suc (w_asked w)\<rparr>" run d e] run s1(2) rid d(3) by simp
  with pass have "Advance e ?rid ?w1 = Some (None, ?w1\<lparr>w_asked := Suc (w_asked w), w_taskIDs := Suc (w_taskIDs w)\<rparr>)"
    by (intro Advance_Return) simp
  moreover have "FailTask e tid (lease_Token l) cause w = Advance e ?rid ?w1"
    using s1(1) last by (simp add: FailTask_def Let_def in_tx_def RunInTx_def)
  ultimately show ?thesis using writes run(1) s1(2) by (simp add: task_writes_def move_task_status)
qed

end
