(* ===== verification/Samples.thy ===== *)
theory Samples
  imports Rounds
begin

text \<open>
  Concrete agents and the worlds they lead to. Each world is what the operations of the model
  compute from the empty store; the properties of the root theory are applied to them.
\<close>

declare Advance.simps [code]

section \<open>Agents\<close>

definition seen_event :: "EventType \<Rightarrow> Event list \<Rightarrow> bool" where
  "seen_event ty h \<longleftrightarrow> ty \<in> set (map ev_Type h)"

text \<open>Calls one tool and completes with its result.\<close>

definition pay_agent :: "Event list \<Rightarrow> Decision" where
  "pay_agent h =
     (if seen_event EventTaskCompleted h then zero_decision\<lparr>d_Kind := DecideComplete, d_Output := RawJSON (JStr ''paid'')\<rparr>
      else zero_decision\<lparr>d_Kind := DecideCallTool, d_StepID := ''S1'', d_TaskType := ''pay''\<rparr>)"

text \<open>Calls two tools at once and completes when one has answered.\<close>

definition fan_agent :: "Event list \<Rightarrow> Decision" where
  "fan_agent h =
     (if seen_event EventFanOutStarted h then zero_decision\<lparr>d_Kind := DecideComplete\<rparr>
      else zero_decision\<lparr>d_Kind := DecideCallToolParallel, d_StepID := ''S1'',
        d_Calls := [\<lparr>c_TaskType = ''pay'', c_Payload = RawNil\<rparr>, \<lparr>c_TaskType = ''pay'', c_Payload = RawNil\<rparr>],
        d_Join := zero_join\<lparr>jp_Kind := JoinAll\<rparr>\<rparr>)"

text \<open>Waits for a signal, with the given deadline (zero: for ever), and completes after it.\<close>

definition wait_agent :: "time \<Rightarrow> Event list \<Rightarrow> Decision" where
  "wait_agent deadline h =
     (if seen_event EventSignalReceived h then zero_decision\<lparr>d_Kind := DecideComplete\<rparr>
      else zero_decision\<lparr>d_Kind := DecideWaitForSignal, d_StepID := ''S1'',
        d_Signal := \<lparr>sw_Name = ''go'', sw_Deadline = deadline\<rparr>\<rparr>)"

definition no_backoff :: RetryPolicy where
  "no_backoff = \<lparr>rp_MaxAttempts = 1, rp_InitialBackoff = 0, rp_MaxBackoff = 0, rp_Multiplier = 1, rp_Jitter = 0\<rparr>"

definition nth_id :: "string \<Rightarrow> nat \<Rightarrow> string" where
  "nth_id p n = p @ replicate n CHR ''i''"

definition sample_engine :: "(Event list \<Rightarrow> Decision) \<Rightarrow> engine" where
  "sample_engine agent = \<lparr>e_agent = ''shop'', e_agentVersion = ''v1'', e_leaseTTL = 10, e_retry = no_backoff,
     e_float = (\<lambda>x. x), e_rand = (\<lambda>_. 0), e_decide = (\<lambda>_ _ h. Inr (agent h)), e_newRunID = nth_id ''r'',
     e_newTaskID = nth_id ''t'', e_newEffectID = nth_id ''e'', e_publish = (\<lambda>_ _. None)\<rparr>"

definition world0 :: world where
  "world0 = \<lparr>w_st = newState, w_now = 100, w_runIDs = 0, w_taskIDs = 0, w_effectIDs = 0, w_rands = 0,
     w_asked = 0, w_wakes = 0, w_publishes = 0, w_sent = []\<rparr>"

definition world_at :: "state \<Rightarrow> world" where
  "world_at s = \<lparr>w_st = s, w_now = 100, w_runIDs = 1, w_taskIDs = 1, w_effectIDs = 0, w_rands = 0,
     w_asked = 0, w_wakes = 0, w_publishes = 0, w_sent = []\<rparr>"

section \<open>The life of a run that waits for a signal, calls a tool and completes\<close>

definition sample_run :: "state \<Rightarrow> Run" where
  "sample_run s = (case map_of (st_runs s) ''r'' of Some r \<Rightarrow> r | None \<Rightarrow> new_run (sample_engine pay_agent) ''r'' RawNil)"

definition sample_task :: Task where
  "sample_task = new_task (sample_engine pay_agent) ''r'' ''t'' ''S1'' ''pay'' RawNil"

definition sample_signal :: Signal where
  "sample_signal = \<lparr>sig_RunID = ''r'', sig_ID = ''s1'', sig_Name = ''go'', sig_Payload = RawNil, sig_CreatedAt = zero_time\<rparr>"

definition sample_worker :: Worker where
  "sample_worker = \<lparr>worker_ID = ''w'', worker_Type = ''tools'', worker_Status = WorkerActive,
     worker_LastHeartbeat = None, worker_RegisteredAt = zero_time\<rparr>"

definition sample_wait :: Wait where
  "sample_wait = \<lparr>wait_Kind = WaitSignal, wait_StepID = ''S0'', wait_Until = Indefinite, wait_Signal = ''go''\<rparr>"

definition sample_started :: state where
  "sample_started = snd (RunInTx (start_tx 100 (new_run (sample_engine pay_agent) ''r'' RawNil)) newState)"

definition sample_parked :: state where
  "sample_parked = snd (RunInTx (park_tx 100 (sample_run sample_started) Indefinite EventSignalWaitStarted ''S0''
     (SignalWaitStartedData ''go'' zero_time)) sample_started)"

definition sample_signalled :: state where
  "sample_signalled = snd (RunInTx (signal_tx 100 sample_signal) sample_parked)"

definition sample_resumed :: state where
  "sample_resumed = snd (RunInTx (resume_tx 100 (sample_run sample_signalled) sample_wait EventSignalReceived
     (SignalReceivedData ''go'' ''s1'' RawNil)) sample_signalled)"

definition sample_dispatching :: state where
  "sample_dispatching = snd (RunInTx (dispatch_tx 100 (sample_run sample_resumed) sample_task) sample_resumed)"

definition sample_registered :: state where
  "sample_registered = snd (RunInTx (RegisterWorkerTx 100 sample_worker) sample_dispatching)"

definition sample_claimed :: state where
  "sample_claimed = snd (RunInTx (claim_tx 100 10 ''t'' ''w'') sample_registered)"

definition sample_settled :: state where
  "sample_settled = snd (RunInTx (complete_tx 100 ''t'' 1 RawNil) sample_claimed)"

definition sample_finished :: state where
  "sample_finished = snd (RunInTx (finish_tx 100 (sample_run sample_settled) \<lparr>rs_Status = RunCompleted, rs_Output = RawNil,
     rs_LastError = [], rs_AvailableAt = None\<rparr> EventRunCompleted (RunCompletedData RawNil)) sample_settled)"

definition sample_trace :: "state list" where
  "sample_trace = [sample_finished, sample_settled, sample_claimed, sample_registered, sample_dispatching, sample_resumed, sample_signalled, sample_parked, sample_started, newState]"

lemma trace_next:
  "trace (s # ss) \<Longrightarrow> writes (s # ss) (\<lambda>s. snd (RunInTx m s)) \<Longrightarrow> t = snd (RunInTx m s) \<Longrightarrow> trace (t # s # ss)"
  using trace.step by simp

lemma sample_resume: "map_of (st_runs sample_signalled) (run_ID (sample_run sample_signalled)) = Some (sample_run sample_signalled)"
  "''s1'' \<notin> set (ConsumedSignals (events_of sample_signalled (run_ID (sample_run sample_signalled))))"
  by code_simp+

lemma sample_trace: "trace sample_trace"
  unfolding sample_trace_def
proof (intro trace_next [OF _ _ sample_finished_def] trace_next [OF _ _ sample_settled_def]
    trace_next [OF _ _ sample_claimed_def] trace_next [OF _ _ sample_registered_def]
    trace_next [OF _ _ sample_dispatching_def] trace_next [OF _ _ sample_resumed_def]
    trace_next [OF _ _ sample_signalled_def] trace_next [OF _ _ sample_parked_def]
    trace_next [OF _ _ sample_started_def] trace.initial)
  show "writes [sample_signalled, sample_parked, sample_started, newState]
     (\<lambda>s. snd (RunInTx (resume_tx 100 (sample_run sample_signalled) sample_wait EventSignalReceived
        (SignalReceivedData ''go'' ''s1'' RawNil)) s))"
    using sample_resume by (intro writes.resume [of sample_signalled]) (auto simp: ends_wait_def)
  have "run_ID (sample_run sample_resumed) = ''r''" by code_simp
  then show "writes [sample_resumed, sample_signalled, sample_parked, sample_started, newState]
     (\<lambda>s. snd (RunInTx (dispatch_tx 100 (sample_run sample_resumed) sample_task) s))"
    by (intro writes.dispatch) (simp_all add: sample_task_def)
qed (auto intro!: writes.intros simp: ends_run_def starts_wait_def RunStatus_IsTerminal_def)

text \<open>Every state of the sample has its own trace, the ones before it.\<close>

lemma sample_traces:
  "trace [sample_settled, sample_claimed, sample_registered, sample_dispatching, sample_resumed, sample_signalled, sample_parked, sample_started, newState]"
  "trace [sample_claimed, sample_registered, sample_dispatching, sample_resumed, sample_signalled, sample_parked, sample_started, newState]"
  "trace [sample_registered, sample_dispatching, sample_resumed, sample_signalled, sample_parked, sample_started, newState]"
  "trace [sample_resumed, sample_signalled, sample_parked, sample_started, newState]"
  "trace [sample_signalled, sample_parked, sample_started, newState]"
  "trace [sample_parked, sample_started, newState]"
  "trace [sample_started, newState]"
  using sample_trace unfolding sample_trace_def by (blast dest: trace_tail)+

lemmas sample_ok = sample_traces [THEN trace_ok, simplified] sample_trace [unfolded sample_trace_def, THEN trace_ok, simplified]

text \<open>What some of them hold.\<close>

lemma sample_runs:
  "map_of (st_runs sample_parked) ''r'' = Some (sample_run sample_parked)"
  "map_of (st_runs sample_resumed) ''r'' = Some (sample_run sample_resumed)"
  by code_simp+

lemma sample_lease:
  "\<exists>l. map_of (st_leases sample_claimed) ''t'' = Some l \<and> lease_Token l = 1 \<and> lease_WorkerID l = ''w''"
proof -
  have "map_option (\<lambda>l. (lease_Token l, lease_WorkerID l)) (map_of (st_leases sample_claimed) ''t'') = Some (1, ''w'')"
    by code_simp
  then show ?thesis by auto
qed

lemma sample_claim:
  "\<exists>t. map_of (st_tasks sample_claimed) ''t'' = Some t \<and> task_Status t = TaskRunning \<and> task_RunID t = ''r''
     \<and> task_StepID t = ''S1'' \<and> Task_Exhausted t"
proof -
  have "map_option (\<lambda>t. (task_Status t, task_RunID t, task_StepID t, Task_Exhausted t)) (map_of (st_tasks sample_claimed) ''t'')
      = Some (TaskRunning, ''r'', ''S1'', True)" by code_simp
  then show ?thesis by auto
qed

lemma sample_settlement:
  "\<exists>t l. map_of (st_tasks sample_settled) ''t'' = Some t \<and> task_Status t \<noteq> TaskRunning
     \<and> map_of (st_leases sample_settled) ''t'' = Some l"
proof -
  have "map_option task_Status (map_of (st_tasks sample_settled) ''t'') = Some TaskCompleted"
    "map_option lease_Token (map_of (st_leases sample_settled) ''t'') = Some 1" by code_simp+
  then show ?thesis by auto
qed

lemma sample_pending:
  "\<exists>t. map_of (st_tasks sample_registered) ''t'' = Some t \<and> task_Status t = TaskPending \<and> task_RunID t = ''r''
     \<and> has (st_workers sample_registered) ''w'' \<and> map_of (st_leases sample_registered) ''t'' = None
     \<and> length (events_of sample_registered ''r'') = 4"
proof -
  have "map_option (\<lambda>t. (task_Status t, task_RunID t)) (map_of (st_tasks sample_registered) ''t'') = Some (TaskPending, ''r'')"
    "map_option worker_ID (map_of (st_workers sample_registered) ''w'') = Some ''w''"
    "map_option lease_Token (map_of (st_leases sample_registered) ''t'') = None"
    "length (events_of sample_registered ''r'') = 4" by code_simp+
  then show ?thesis by (auto simp: has_def)
qed

text \<open>A result is a success.\<close>

lemma succeeded: "isl (fst p) = False \<Longrightarrow> \<exists>x y. p = (Inr x, y)"
  by (cases p; cases "fst p") auto

lemma sample_claims: "\<exists>c w'. ClaimTask (sample_engine pay_agent) ''t'' ''w'' (world_at sample_registered) = (Inr c, w')"
  by (rule succeeded) code_simp

lemma sample_fails: "\<exists>v s'. fail_tx (sample_engine pay_agent) 100 0 ''t'' 1 ''no'' False sample_claimed = (Inr v, s')"
  by (rule succeeded) code_simp

section \<open>Tools and effects\<close>

definition sample_tool :: "EffectClass \<Rightarrow> unit ToolDescriptor" where
  "sample_tool c = \<lparr>td_Name = ''pay'', td_Class = c,
     td_Handler = (\<lambda>c p. (Returned (RawJSON (JStr ''receipt'')) None, p)), td_Reconciler = None, td_KeyTTL = 0\<rparr>"

definition sample_sys :: "state \<Rightarrow> unit sys" where
  "sample_sys s = \<lparr>sys_world = world_at s, sys_outside = (), sys_calls = []\<rparr>"

text \<open>After one execution, and with the row moved back to where a crash during the call leaves it.\<close>

definition sample_committed :: "unit sys" where
  "sample_committed = snd (Execute (sample_engine pay_agent) [(''pay'', sample_tool ClassIdempotentByKey)] sample_task (sample_sys sample_claimed))"

definition sample_running_effect :: Effect where
  "sample_running_effect = (fresh_row ''e'' sample_task ClassQueryable ''k'')\<lparr>eff_Status := EffectRunning\<rparr>"

definition sample_running :: "unit sys" where
  "sample_running = sample_sys (sample_claimed\<lparr>st_effects := [(''k'', sample_running_effect)]\<rparr>)"

lemma sample_executes:
  "\<exists>x'. Execute (sample_engine pay_agent) [(''pay'', sample_tool ClassIdempotentByKey)] sample_task (sample_sys sample_claimed)
     = (Inr (RawJSON (JStr ''receipt'')), x')"
proof -
  have "fst (Execute (sample_engine pay_agent) [(''pay'', sample_tool ClassIdempotentByKey)] sample_task (sample_sys sample_claimed))
     = Inr (RawJSON (JStr ''receipt''))" by code_simp
  then show ?thesis by (metis prod.collapse)
qed

lemma sample_row:
  "\<exists>row. map_of (st_effects (w_st (sys_world sample_committed))) (effect_key sample_task) = Some row
     \<and> eff_Status row = EffectCommitted \<and> eff_Response row = RawJSON (JStr ''receipt'')"
proof -
  have "map_option (\<lambda>row. (eff_Status row, eff_Response row))
     (map_of (st_effects (w_st (sys_world sample_committed))) (effect_key sample_task))
       = Some (EffectCommitted, RawJSON (JStr ''receipt''))" by code_simp
  then show ?thesis by auto
qed

lemma sample_hosted: "hosted [(''pay'', sample_tool ClassUnreconcilable)] sample_task (sample_tool ClassUnreconcilable) sample_committed"
proof -
  have "map_option run_ID (map_of (st_runs (w_st (sys_world sample_committed))) ''r'') = Some ''r''"
    "map_option task_ID (map_of (st_tasks (w_st (sys_world sample_committed))) ''t'') = Some ''t''" by code_simp+
  then show ?thesis
    by (auto simp: hosted_def Lookup_def has_def sample_task_def new_task_def sample_tool_def EffectClass_HasConsequence_def
        EffectClass_Valid_def)
qed

lemma sample_running_row: "map_option eff_Status (ledger sample_running (eff_Key sample_running_effect)) = Some EffectRunning"
  by code_simp

lemma sample_waits_ahead:
  "e_decide (sample_engine (wait_agent zero_time)) n run h = Inr d \<Longrightarrow> d_Kind d = DecideWaitForSignal
     \<Longrightarrow> time_IsZero (sw_Deadline (d_Signal d))"
  by (auto simp: sample_engine_def wait_agent_def time_IsZero_def split: if_splits)

section \<open>A fan-out of two calls, one of them held by a worker that has gone silent\<close>

definition fan_started :: state where
  "fan_started = snd (RunInTx (start_tx 100 (new_run (sample_engine fan_agent) ''r'' RawNil)) newState)"

definition fan_forked :: state where
  "fan_forked = snd (RunInTx (fanout_tx 100 (sample_run fan_started) ''S1'' [''pay'', ''pay''] (zero_join\<lparr>jp_Kind := JoinAll\<rparr>)
     (fan_tasks (sample_engine fan_agent) (sample_run fan_started) (fan_agent []) 0)) fan_started)"

definition fan_workers :: state where
  "fan_workers = snd (RunInTx (RegisterWorkerTx 100 reaper_worker) (snd (RunInTx (RegisterWorkerTx 100 sample_worker) fan_forked)))"

definition fan_held :: state where
  "fan_held = snd (RunInTx (claim_tx 100 10 ''t'' ''w'') fan_workers)"

definition fan_lease :: Lease where
  "fan_lease = \<lparr>lease_TaskID = ''t'', lease_WorkerID = ''w'', lease_Token = 1, lease_AcquiredAt = 100,
     lease_ExpiresAt = 110, lease_HeartbeatAt = 100\<rparr>"

definition fan_world :: world where
  "fan_world = (world_at fan_held)\<lparr>w_now := 200\<rparr>"

lemma fan_traces: "trace [fan_started, newState]" "trace [fan_forked, fan_started, newState]"
proof -
  show s: "trace [fan_started, newState]"
    by (rule trace_next [OF trace.initial _ fan_started_def]) (rule writes.start, simp)
  have "task_RunID t = run_ID (sample_run fan_started) \<and> fresh_task t"
    if "t \<in> set (fan_tasks (sample_engine fan_agent) (sample_run fan_started) (fan_agent []) 0)" for t
    using fan_tasks_new [OF that] by simp
  then show "trace [fan_forked, fan_started, newState]"
    by (intro trace_next [OF s _ fan_forked_def] writes.fanout) simp
qed

lemma fan_held_ok: "store_ok fan_held"
proof -
  have "store_ok fan_forked" using trace_ok [OF fan_traces(2)] by simp
  then have "store_ok (snd (RunInTx (RegisterWorkerTx 100 reaper_worker) (snd (RunInTx (RegisterWorkerTx 100 sample_worker) fan_forked))))"
    using integrity.L_register by (simp add: keeps_ok_def)
  then show ?thesis using integrity.L_claim unfolding fan_held_def fan_workers_def by (simp add: keeps_ok_def)
qed

lemma fan_facts:
  "\<exists>t. map_of (st_tasks fan_held) ''t'' = Some t \<and> task_Status t = TaskRunning \<and> Task_Exhausted t \<and> task_RunID t = ''r''"
  "PendingWait (History fan_held ''r'') = None" "PendingFanOut (History fan_held ''r'') \<noteq> None"
  "length (events_of fan_held ''r'') = 5"
  "\<exists>s'. reclaim_tx 200 fan_lease fan_held = (Inr False, s') \<and> s' \<noteq> fan_held"
proof -
  have "map_option (\<lambda>t. (task_Status t, Task_Exhausted t, task_RunID t)) (map_of (st_tasks fan_held) ''t'') = Some (TaskRunning, True, ''r'')"
    by code_simp
  then show "\<exists>t. map_of (st_tasks fan_held) ''t'' = Some t \<and> task_Status t = TaskRunning \<and> Task_Exhausted t \<and> task_RunID t = ''r''"
    by auto
  show "PendingWait (History fan_held ''r'') = None" "length (events_of fan_held ''r'') = 5" by code_simp+
  have "map_option fo_StepID (PendingFanOut (History fan_held ''r'')) = Some ''S1''" by code_simp
  then show "PendingFanOut (History fan_held ''r'') \<noteq> None" by auto
  have "fst (reclaim_tx 200 fan_lease fan_held) = Inr False"
    "length (events_of (snd (reclaim_tx 200 fan_lease fan_held)) ''r'') \<noteq> length (events_of fan_held ''r'')" by code_simp+
  then show "\<exists>s'. reclaim_tx 200 fan_lease fan_held = (Inr False, s') \<and> s' \<noteq> fan_held"
    by (metis prod.collapse)
qed

lemma fan_history:
  "\<exists>before e es. History fan_held ''r'' = before @ e # es \<and> fan_loop fan_init before \<noteq> None \<and> ev_Type e = EventFanOutStarted
     \<and> Decode_FanOutStarted e = (([''pay'', ''pay''], ''ALL''), None) \<and> (\<forall>x \<in> set es. ev_Type x \<noteq> EventFanOutStarted)"
proof -
  let ?h = "History fan_held ''r''"
  have l: "length ?h = 5" and t: "map ev_Type ?h = [EventRunStarted, EventFanOutStarted, EventTaskCreated, EventTaskCreated, EventTaskClaimed]"
    and d: "Decode_FanOutStarted (?h ! 1) = (([''pay'', ''pay''], ''ALL''), None)" by code_simp+
  from l obtain a b c d' f where h: "?h = [a, b, c, d', f]" by (auto simp: length_Suc_conv eval_nat_numeral)
  with t d have "ev_Type a = EventRunStarted" "ev_Type b = EventFanOutStarted" "ev_Type c = EventTaskCreated"
    "ev_Type d' = EventTaskCreated" "ev_Type f = EventTaskClaimed" "Decode_FanOutStarted b = (([''pay'', ''pay''], ''ALL''), None)"
    by simp_all
  then show ?thesis unfolding h by (intro exI [of _ "[a]"] exI [of _ b] exI [of _ "[c, d', f]"]) simp
qed

definition sample_fan :: FanOut where
  "sample_fan = \<lparr>fo_StepID = ''S1'', fo_Join = \<lparr>jp_Kind = JoinQuorum, jp_Quorum = 2\<rparr>,
     fo_Children = [\<lparr>ch_StepID = ''S1.0'', ch_Index = 0, ch_Tool = ''pay'', ch_Settled = True, ch_Succeeded = True,
         ch_Result = RawNil, ch_Error = []\<rparr>,
       \<lparr>ch_StepID = ''S1.1'', ch_Index = 1, ch_Tool = ''pay'', ch_Settled = False, ch_Succeeded = False,
         ch_Result = RawNil, ch_Error = []\<rparr>]\<rparr>"

section \<open>A task with an attempt left, held by a silent worker\<close>

text \<open>The run has started, the task was dispatched, and the worker has claimed it.\<close>

definition held :: "Task \<Rightarrow> state" where
  "held t = snd (RunInTx (claim_tx 100 10 ''t'' ''w'') (snd (RunInTx (RegisterWorkerTx 100 reaper_worker)
     (snd (RunInTx (RegisterWorkerTx 100 sample_worker) (snd (RunInTx (dispatch_tx 100 (sample_run sample_started) t) sample_started)))))))"

lemma held_ok:
  assumes "fresh_task t" "task_RunID t = ''r''"
  shows "store_ok (held t)"
proof -
  have "run_ID (sample_run sample_started) = ''r''" by code_simp
  moreover have "store_ok sample_started" using sample_ok by blast
  ultimately have "store_ok (snd (RunInTx (dispatch_tx 100 (sample_run sample_started) t) sample_started))"
    using integrity.L_dispatch assms by (simp add: keeps_ok_def)
  then show ?thesis using integrity.L_register integrity.L_claim unfolding held_def by (simp add: keeps_ok_def)
qed

definition retry_held :: state where
  "retry_held = held (sample_task\<lparr>task_MaxAttempts := 2\<rparr>)"

definition retry_world :: world where
  "retry_world = (world_at retry_held)\<lparr>w_now := 200\<rparr>"

lemma retry_now: "w_now retry_world = 200" "w_st retry_world = retry_held"
  by (simp_all add: retry_world_def world_at_def)

lemma retry_ok: "store_ok (w_st retry_world)"
  unfolding retry_now retry_held_def by (rule held_ok) (simp_all add: fresh_task_def sample_task_def new_task_def)

lemma retry_facts:
  "\<exists>w'. in_tx (reclaim_tx 200 fan_lease) retry_world = (Inr True, w')"
  "\<exists>l. map_of (st_leases (w_st retry_world)) ''t'' = Some l \<and> lease_Token l = 1"
proof -
  have "fst (in_tx (reclaim_tx 200 fan_lease) retry_world) = Inr True" by code_simp
  then show "\<exists>w'. in_tx (reclaim_tx 200 fan_lease) retry_world = (Inr True, w')" by (metis prod.collapse)
  have "map_option lease_Token (map_of (st_leases (w_st retry_world)) ''t'') = Some 1" by code_simp
  then show "\<exists>l. map_of (st_leases (w_st retry_world)) ''t'' = Some l \<and> lease_Token l = 1" by auto
qed

definition sample_relay :: Relay where
  "sample_relay = NewRelay 0 0"

section \<open>A gateway with one worker\<close>

definition gateway_engine :: "(session \<Rightarrow> Run \<Rightarrow> Event list \<Rightarrow> ending) \<Rightarrow> Gateway \<Rightarrow> engine" where
  "gateway_engine ask g = (sample_engine pay_agent)\<lparr>e_decide := (\<lambda>_ run h. fst (remote_Decide ask ''shop'' run h g))\<rparr>"

definition sample_gateway :: Gateway where
  "sample_gateway = snd (register (Inr (CM_Register ''shop'' ''v1'' ''w'' ''py'' True [] 1)) None Gateway_New)"

definition sample_session :: session where
  "sample_session = \<lparr>se_id = ''s1'', se_agent = ''shop'', se_version = ''v1'', se_worker = ''w'', se_runtime = ''py'',
     se_decides = True, se_tools = [], se_seq = 0, se_pending = [], se_closed = False, se_cause = None\<rparr>"

lemma gateway_picks:
  "\<exists>g'. pickDecider (run_AgentName (sample_run sample_started)) (run_AgentVersion (sample_run sample_started)) sample_gateway
     = (Inr sample_session, g')"
proof -
  have "show_nat 1 = ''1''" by code_simp
  then have g: "agent_sessions sample_gateway ''shop'' = [sample_session]"
    by (simp add: sample_gateway_def register_def Gateway_New_def Let_def agent_ids_def agent_sessions_def map_filter_simps
        sample_session_def)
  have "run_AgentName (sample_run sample_started) = ''shop''" "run_AgentVersion (sample_run sample_started) = ''v1''" by code_simp+
  then show ?thesis by (simp add: pickDecider_def g round_robin_def Let_def) (simp add: sample_session_def)
qed

lemma sample_spins: "spins (sample_engine (\<lambda>_. wait_agent 50 [])) ''r'' ''S1'' ''go'' 50 (world_at sample_started)"
proof -
  have "map_of (st_runs sample_started) ''r'' = Some (sample_run sample_started)" "run_Status (sample_run sample_started) = RunRunning"
    "run_AgentName (sample_run sample_started) = ''shop''" "st_signals sample_started = []"
    "PendingWait (events_of sample_started ''r'') = None" "map ev_Type (events_of sample_started ''r'') = [EventRunStarted]" by code_simp+
  moreover from this(6) have "\<forall>ev \<in> set (events_of sample_started ''r''). ev_Type ev \<noteq> EventFanOutStarted" by auto
  ultimately show ?thesis using sample_ok by (simp add: spins_def world_at_def sample_engine_def)
qed

section \<open>A plain step with the name of a child\<close>

definition dotted_held :: state where
  "dotted_held = held (sample_task\<lparr>task_StepID := ''S1.5''\<rparr>)"

definition dotted_agent :: "Event list \<Rightarrow> Decision" where
  "dotted_agent h = (pay_agent [])\<lparr>d_StepID := ''S1.5''\<rparr>"

lemma dotted_ok: "store_ok dotted_held"
  unfolding dotted_held_def
  by (rule held_ok) (simp_all add: fresh_task_def sample_task_def new_task_def maxAttempts_def defaultMaxAttempts_def)

lemma dotted_facts:
  "\<exists>t. map_of (st_tasks dotted_held) ''t'' = Some t \<and> task_Status t = TaskRunning \<and> Task_Exhausted t \<and> task_RunID t = ''r''
     \<and> task_StepID t = ''S1.5''"
  "\<exists>l. map_of (st_leases dotted_held) ''t'' = Some l \<and> lease_Token l = 1"
  "map_of (st_runs dotted_held) ''r'' = Some (sample_run dotted_held)" "run_Status (sample_run dotted_held) = RunRunning"
  "run_AgentName (sample_run dotted_held) = ''shop''" "PendingWait (events_of dotted_held ''r'') = None"
  "length (events_of dotted_held ''r'') = 3" "\<forall>ev \<in> set (events_of dotted_held ''r''). ev_Type ev \<noteq> EventFanOutStarted"
  "StepID_Parent ''S1.5'' = Some ''S1''"
proof -
  have "map_option (\<lambda>t. (task_Status t, Task_Exhausted t, task_RunID t, task_StepID t)) (map_of (st_tasks dotted_held) ''t'')
      = Some (TaskRunning, True, ''r'', ''S1.5'')" by code_simp
  then show "\<exists>t. map_of (st_tasks dotted_held) ''t'' = Some t \<and> task_Status t = TaskRunning \<and> Task_Exhausted t \<and> task_RunID t = ''r''
     \<and> task_StepID t = ''S1.5''" by auto
  have "map_option lease_Token (map_of (st_leases dotted_held) ''t'') = Some 1" by code_simp
  then show "\<exists>l. map_of (st_leases dotted_held) ''t'' = Some l \<and> lease_Token l = 1" by auto
  have "map ev_Type (events_of dotted_held ''r'') = [EventRunStarted, EventTaskCreated, EventTaskClaimed]" by code_simp
  then show "\<forall>ev \<in> set (events_of dotted_held ''r''). ev_Type ev \<noteq> EventFanOutStarted" by auto
  show "map_of (st_runs dotted_held) ''r'' = Some (sample_run dotted_held)" "run_Status (sample_run dotted_held) = RunRunning"
    "run_AgentName (sample_run dotted_held) = ''shop''" "PendingWait (events_of dotted_held ''r'') = None"
    "length (events_of dotted_held ''r'') = 3" "StepID_Parent ''S1.5'' = Some ''S1''" by code_simp+
qed

end
