(* ===== verification/Sql.thy ===== *)
theory Sql
  imports StoreLaws
begin

text \<open>
  The tables of the PostgreSQL adapter and the statements it sends: the columns of
  internal/store/migrations that the code writes or reads, with their constraints, and the
  errors of internal/store/postgres/errors.go. The meaning of a statement is the documented
  meaning of its SQL in one transaction that no other transaction overlaps: an INSERT checks
  the unique indexes in the order they were created and then the foreign keys, an UPDATE
  changes the rows its WHERE selects, and after an error of the server every later statement
  of the transaction is refused. A sequence is not rolled back.
\<close>

section \<open>What the database does to values\<close>

text \<open>
  Three things are the database's own and so are parameters: what a JSONB column reads back for
  a document (it reorders keys and drops repeated ones; \<open>None\<close> is a document it refuses), what a
  TIMESTAMPTZ column keeps of an instant (microseconds), and the sort key of a text under the
  collation of the database.
\<close>

record dialect =
  db_json :: "json \<Rightarrow> json option"
  db_stamp :: "time \<Rightarrow> time"
  db_key :: "string \<Rightarrow> string"

section \<open>Driver errors (errors.go)\<close>

text \<open>
  What a driver call can return: no rows, a server error with its SQLSTATE and constraint, or
  any other error.
\<close>

datatype driver_error = NoRows | PqError string string string | OtherError go_error

definition translate :: "string \<Rightarrow> driver_error option \<Rightarrow> go_error option" where
  "translate op r =
     (case r of
        None \<Rightarrow> None
      | Some NoRows \<Rightarrow> Some (wrap op ErrNotFound)
      | Some (OtherError err) \<Rightarrow> Some (wrap_err op err)
      | Some (PqError code constraint msg) \<Rightarrow>
          let op' = op @ '' (constraint '' @ constraint @ '')'' in
          Some (if code = ''23505'' then
                  if constraint = ''tasks_run_id_step_id_key'' then wrap op ErrTaskExists
                  else if constraint = ''events_pkey'' then wrap op ErrSeqConflict
                  else if constraint = ''signals_pkey'' then wrap op ErrSignalExists
                  else if constraint = ''effects_idempotency_key_key'' then wrap op ErrEffectExists
                  else if constraint = ''runs_pkey'' \<or> constraint = ''tasks_pkey'' \<or> constraint = ''effects_pkey''
                  then wrap op ErrConflict
                  else wrap op' ErrConflict
                else if code = ''23503'' then wrap op' ErrNotFound
                else if code = ''40001'' \<or> code = ''40P01'' then wrap op ErrConflict
                else wrap_err op (errors_New msg)))"

definition unique_violation :: "string \<Rightarrow> driver_error" where
  "unique_violation name = PqError ''23505'' name
     (''pq: duplicate key value violates unique constraint '' @ name)"

definition fk_violation :: "string \<Rightarrow> driver_error" where
  "fk_violation name = PqError ''23503'' name (''pq: violates foreign key constraint '' @ name)"

definition bad_input :: driver_error where
  "bad_input = PqError ''22P02'' [] ''pq: invalid input syntax''"

definition out_of_range :: driver_error where
  "out_of_range = PqError ''22003'' [] ''pq: integer out of range''"

definition in_failed_tx :: driver_error where
  "in_failed_tx = PqError ''25P02'' []
     ''pq: current transaction is aborted, commands ignored until end of transaction block''"

section \<open>Tables (migrations 0001 to 0005)\<close>

record runs_row =
  rr_run_id :: RunID
  rr_agent_name :: string
  rr_agent_version :: string
  rr_status :: RunStatus
  rr_version :: int
  rr_input :: "json option"
  rr_output :: "json option"
  rr_last_error :: "string option"
  rr_available_at :: "time option"
  rr_created_at :: time
  rr_updated_at :: time
  rr_completed_at :: "time option"

record events_row =
  er_run_id :: RunID
  er_seq :: int
  er_event_type :: EventType
  er_step_id :: "StepID option"
  er_payload :: json
  er_created_at :: time

record tasks_row =
  tr_task_id :: TaskID
  tr_run_id :: RunID
  tr_step_id :: StepID
  tr_task_type :: string
  tr_payload :: json
  tr_status :: TaskStatus
  tr_priority :: int
  tr_available_at :: time
  tr_attempt :: int
  tr_max_attempts :: int
  tr_last_error :: "string option"
  tr_created_at :: time
  tr_updated_at :: time
  tr_completed_at :: "time option"

record effects_row =
  fr_effect_id :: EffectID
  fr_task_id :: TaskID
  fr_run_id :: RunID
  fr_effect_type :: string
  fr_effect_class :: EffectClass
  fr_idempotency_key :: IdempotencyKey
  fr_status :: EffectStatus
  fr_request :: "json option"
  fr_response :: "json option"
  fr_external_ref :: "string option"
  fr_last_error :: "string option"
  fr_created_at :: time
  fr_updated_at :: time
  fr_committed_at :: "time option"

record outbox_row =
  or_outbox_id :: int
  or_task_id :: TaskID
  or_subject :: string
  or_payload :: json
  or_published_at :: "time option"
  or_attempts :: int
  or_last_error :: "string option"
  or_created_at :: time
  or_available_at :: "time option"

record workers_row =
  wr_worker_id :: string
  wr_worker_type :: string
  wr_status :: WorkerStatus
  wr_last_heartbeat :: "time option"
  wr_registered_at :: time

record leases_row =
  lr_task_id :: TaskID
  lr_worker_id :: string
  lr_fencing_token :: int
  lr_acquired_at :: time
  lr_expires_at :: time
  lr_heartbeat_at :: time

record signals_row =
  sr_run_id :: RunID
  sr_signal_id :: SignalID
  sr_name :: string
  sr_payload :: "json option"
  sr_created_at :: time

text \<open>
  The database as one transaction sees it: the tables, the sequence of \<open>task_outbox\<close>, and
  whether the transaction has failed.
\<close>

record pgstate =
  pg_runs :: "runs_row list"
  pg_events :: "events_row list"
  pg_tasks :: "tasks_row list"
  pg_effects :: "effects_row list"
  pg_outbox :: "outbox_row list"
  pg_workers :: "workers_row list"
  pg_leases :: "leases_row list"
  pg_signals :: "signals_row list"
  pg_outbox_seq :: int
  pg_aborted :: bool

definition empty_database :: pgstate where
  "empty_database = \<lparr>pg_runs = [], pg_events = [], pg_tasks = [], pg_effects = [], pg_outbox = [],
     pg_workers = [], pg_leases = [], pg_signals = [], pg_outbox_seq = 0, pg_aborted = False\<rparr>"

section \<open>Statements\<close>

text \<open>
  A statement yields an error of the driver or a result. When the server refuses it, the
  transaction is aborted and its only trace is a sequence value it took.
\<close>

type_synonym 'a stmt = "pgstate \<Rightarrow> (driver_error + 'a) \<times> pgstate"

definition exec_stmt :: "'a stmt \<Rightarrow> 'a stmt" where
  "exec_stmt f p =
     (if pg_aborted p then (Inl in_failed_tx, p)
      else case f p of
        (Inl e, q) \<Rightarrow> (Inl e, p\<lparr>pg_outbox_seq := pg_outbox_seq q, pg_aborted := True\<rparr>)
      | (Inr x, q) \<Rightarrow> (Inr x, q))"

text \<open>A query, and the first row of one: an empty answer is \<open>sql.ErrNoRows\<close>, which no server raised.\<close>

definition sql_query :: "(pgstate \<Rightarrow> 'r list) \<Rightarrow> 'r list stmt" where
  "sql_query q = exec_stmt (\<lambda>p. (Inr (q p), p))"

definition sql_query_row :: "(pgstate \<Rightarrow> 'r list) \<Rightarrow> 'r stmt" where
  "sql_query_row q p =
     (case sql_query q p of
        (Inl e, p') \<Rightarrow> (Inl e, p')
      | (Inr [], p') \<Rightarrow> (Inl NoRows, p')
      | (Inr (r # _), p') \<Rightarrow> (Inr r, p'))"

text \<open>The rows of an UPDATE, and how many they were; an error in one row is an error of the statement.\<close>

fun update_where :: "('r \<Rightarrow> bool) \<Rightarrow> ('r \<Rightarrow> driver_error + 'r) \<Rightarrow> 'r list \<Rightarrow> driver_error + ('r list \<times> int)" where
  "update_where P f [] = Inr ([], 0)"
| "update_where P f (r # rs) =
     (case (if P r then f r else Inr r) of
        Inl e \<Rightarrow> Inl e
      | Inr r' \<Rightarrow> (case update_where P f rs of
          Inl e \<Rightarrow> Inl e
        | Inr (rs', n) \<Rightarrow> Inr (r' # rs', if P r then n + 1 else n)))"

text \<open>The first constraint of a list that is violated.\<close>

fun violated :: "(bool \<times> driver_error) list \<Rightarrow> driver_error option" where
  "violated [] = None"
| "violated ((bad, e) # cs) = (if bad then Some e else violated cs)"

definition checked :: "(bool \<times> driver_error) list \<Rightarrow> 'a \<Rightarrow> driver_error + 'a" where
  "checked cs x = (case violated cs of Some e \<Rightarrow> Inl e | None \<Rightarrow> Inr x)"

section \<open>Values in and out of columns (tx.go, postgres.go)\<close>

text \<open>A parameter that is \<open>RawNil\<close> is NULL; other bytes have to be a document.\<close>

definition jsonOrNull :: "raw \<Rightarrow> raw" where
  "jsonOrNull r = (if raw_empty r then RawNil else r)"

definition jsonOrEmptyObject :: "raw \<Rightarrow> raw" where
  "jsonOrEmptyObject r = (if raw_empty r then RawJSON (JObj []) else r)"

definition nullIfEmpty :: "string \<Rightarrow> string option" where
  "nullIfEmpty s = (if s = [] then None else Some s)"

definition rawOrNil :: "json option \<Rightarrow> raw" where
  "rawOrNil b = (case b of None \<Rightarrow> RawNil | Some j \<Rightarrow> RawJSON j)"

definition limitOrAll :: "int \<Rightarrow> int" where
  "limitOrAll limit = (if limit \<le> 0 then 1073741824 else limit)"

definition jsonb :: "dialect \<Rightarrow> raw \<Rightarrow> driver_error + json option" where
  "jsonb D r = (case r of RawNil \<Rightarrow> Inr None
     | RawJSON j \<Rightarrow> (case db_json D j of None \<Rightarrow> Inl bad_input | Some j' \<Rightarrow> Inr (Some j'))
     | RawBytes _ \<Rightarrow> Inl bad_input)"

definition int4 :: "int \<Rightarrow> driver_error + int" where
  "int4 i = (if - 2147483648 \<le> i \<and> i \<le> 2147483647 then Inr i else Inl out_of_range)"

definition int8 :: "int \<Rightarrow> driver_error + int" where
  "int8 i = (if in_int64 i then Inr i else Inl out_of_range)"

definition coalesce :: "'a option \<Rightarrow> 'a option \<Rightarrow> 'a option" where
  "coalesce a b = (case a of None \<Rightarrow> b | Some _ \<Rightarrow> a)"

definition text_of :: "string option \<Rightarrow> string" where
  "text_of v = (case v of None \<Rightarrow> [] | Some s \<Rightarrow> s)"

text \<open>Chaining what can be refused.\<close>

definition and_then :: "'e + 'a \<Rightarrow> ('a \<Rightarrow> 'e + 'b) \<Rightarrow> 'e + 'b" where
  "and_then r f = (case r of Inl e \<Rightarrow> Inl e | Inr x \<Rightarrow> f x)"

lemma and_then_simps [simp]: "and_then (Inl e) f = Inl e" "and_then (Inr x) f = f x"
  by (simp_all add: and_then_def)

definition scanRun :: "runs_row \<Rightarrow> Run" where
  "scanRun r = \<lparr>run_ID = rr_run_id r, run_AgentName = rr_agent_name r, run_AgentVersion = rr_agent_version r,
     run_Status = rr_status r, run_Version = rr_version r, run_Input = rawOrNil (rr_input r),
     run_Output = rawOrNil (rr_output r), run_LastError = text_of (rr_last_error r),
     run_AvailableAt = rr_available_at r, run_CreatedAt = rr_created_at r, run_UpdatedAt = rr_updated_at r,
     run_CompletedAt = rr_completed_at r\<rparr>"

definition scanTask :: "tasks_row \<Rightarrow> Task" where
  "scanTask r = \<lparr>task_ID = tr_task_id r, task_RunID = tr_run_id r, task_StepID = tr_step_id r,
     task_Type = tr_task_type r, task_Payload = RawJSON (tr_payload r), task_Status = tr_status r,
     task_Attempt = tr_attempt r, task_MaxAttempts = tr_max_attempts r,
     task_LastError = text_of (tr_last_error r), task_CreatedAt = tr_created_at r,
     task_UpdatedAt = tr_updated_at r, task_CompletedAt = tr_completed_at r\<rparr>"

definition scanEvent :: "events_row \<Rightarrow> Event" where
  "scanEvent r = \<lparr>ev_RunID = er_run_id r, ev_Seq = er_seq r, ev_Type = er_event_type r,
     ev_StepID = text_of (er_step_id r), ev_Payload = RawJSON (er_payload r),
     ev_CreatedAt = er_created_at r\<rparr>"

definition scanEffect :: "effects_row \<Rightarrow> Effect" where
  "scanEffect r = \<lparr>eff_ID = fr_effect_id r, eff_TaskID = fr_task_id r, eff_RunID = fr_run_id r,
     eff_Type = fr_effect_type r, eff_Class = fr_effect_class r, eff_Key = fr_idempotency_key r,
     eff_Status = fr_status r, eff_Request = rawOrNil (fr_request r), eff_Response = rawOrNil (fr_response r),
     eff_ExternalRef = text_of (fr_external_ref r), eff_LastError = text_of (fr_last_error r),
     eff_CreatedAt = fr_created_at r, eff_UpdatedAt = fr_updated_at r, eff_CommittedAt = fr_committed_at r\<rparr>"

definition scanLease :: "leases_row \<Rightarrow> Lease" where
  "scanLease r = \<lparr>lease_TaskID = lr_task_id r, lease_WorkerID = lr_worker_id r, lease_Token = lr_fencing_token r,
     lease_AcquiredAt = lr_acquired_at r, lease_ExpiresAt = lr_expires_at r, lease_HeartbeatAt = lr_heartbeat_at r\<rparr>"

definition scanDelivery :: "outbox_row \<Rightarrow> Delivery" where
  "scanDelivery r = \<lparr>del_ID = or_outbox_id r, del_TaskID = or_task_id r, del_Attempts = or_attempts r,
     del_LastError = text_of (or_last_error r), del_CreatedAt = or_created_at r,
     del_AvailableAt = (case or_available_at r of None \<Rightarrow> zero_time | Some t \<Rightarrow> t)\<rparr>"

definition scanSignal :: "signals_row \<Rightarrow> Signal" where
  "scanSignal r = \<lparr>sig_RunID = sr_run_id r, sig_ID = sr_signal_id r, sig_Name = sr_name r,
     sig_Payload = rawOrNil (sr_payload r), sig_CreatedAt = sr_created_at r\<rparr>"

text \<open>The row of a worker, which the runtime never reads back.\<close>

definition worker_of :: "workers_row \<Rightarrow> Worker" where
  "worker_of r = \<lparr>worker_ID = wr_worker_id r, worker_Type = wr_worker_type r, worker_Status = wr_status r,
     worker_LastHeartbeat = wr_last_heartbeat r, worker_RegisteredAt = wr_registered_at r\<rparr>"

end
