(* ===== verification/Postgres.thy ===== *)
theory Postgres
  imports Sql
begin

text \<open>
  The PostgreSQL adapter, internal/store/postgres/{postgres,tx,effects,signals,outbox,leases}.go:
  transactions, the operations of core.Tx and the reads of core.Store, over the tables and
  statements of theory Sql. As in theory Store an operation takes the instant its clock shows.
  That its results agree with the in-memory store is the matter of theory Adapters.
\<close>

section \<open>Transactions (postgres.go)\<close>

type_synonym 'a ptx = "pgstate \<Rightarrow> (go_error + 'a) \<times> pgstate"

definition preturn :: "'a \<Rightarrow> 'a ptx" where "preturn x p = (Inr x, p)"

definition perror :: "go_error \<Rightarrow> 'a ptx" where "perror e p = (Inl e, p)"

definition pbind :: "'a ptx \<Rightarrow> ('a \<Rightarrow> 'b ptx) \<Rightarrow> 'b ptx" where
  "pbind m f p = (case m p of (Inl e, p') \<Rightarrow> (Inl e, p') | (Inr x, p') \<Rightarrow> f x p')"

text \<open>A statement whose error, if any, goes through \<open>translate\<close>.\<close>

definition translated :: "string \<Rightarrow> 'a stmt \<Rightarrow> 'a ptx" where
  "translated op m p =
     (case m p of
        (Inl e, p') \<Rightarrow> (case translate op (Some e) of Some err \<Rightarrow> (Inl err, p') | None \<Rightarrow> (Inl (errors_New []), p'))
      | (Inr x, p') \<Rightarrow> (Inr x, p'))"

text \<open>
  \<open>RunInTx\<close>: an error of the function rolls back; so does a COMMIT of a transaction in which a
  statement failed, which the driver reports as an error. The sequence keeps what it handed out.
\<close>

definition Pg_RunInTx :: "'a ptx \<Rightarrow> 'a ptx" where
  "Pg_RunInTx f p =
     (case f (p\<lparr>pg_aborted := False\<rparr>) of
        (Inl err, q) \<Rightarrow> (Inl err, p\<lparr>pg_outbox_seq := pg_outbox_seq q\<rparr>)
      | (Inr x, q) \<Rightarrow>
          if pg_aborted q then
            (Inl (wrap_err ''commit'' (errors_New ''pq: Could not complete operation in a failed transaction'')),
             p\<lparr>pg_outbox_seq := pg_outbox_seq q\<rparr>)
          else (Inr x, q))"

text \<open>INSERT of one row and UPDATE: \<open>args\<close> are the parameters as the server takes them.\<close>

definition sql_insert ::
  "driver_error + 'a \<Rightarrow> (pgstate \<Rightarrow> (bool \<times> driver_error) list) \<Rightarrow> ('a \<Rightarrow> pgstate \<Rightarrow> pgstate) \<Rightarrow> unit stmt" where
  "sql_insert args constraints put =
     exec_stmt (\<lambda>p. case and_then args (\<lambda>a. checked (constraints p) (put a p)) of
        Inl e \<Rightarrow> (Inl e, p) | Inr q \<Rightarrow> (Inr (), q))"

definition sql_update ::
  "driver_error + 'a \<Rightarrow> (pgstate \<Rightarrow> 'r list) \<Rightarrow> ('r list \<Rightarrow> pgstate \<Rightarrow> pgstate)
     \<Rightarrow> ('r \<Rightarrow> bool) \<Rightarrow> ('a \<Rightarrow> 'r \<Rightarrow> driver_error + 'r) \<Rightarrow> int stmt" where
  "sql_update args get put P f =
     exec_stmt (\<lambda>p. case and_then args (\<lambda>a. update_where P (f a) (get p)) of
        Inl e \<Rightarrow> (Inl e, p) | Inr (rows, n) \<Rightarrow> (Inr n, put rows p))"

abbreviation put_runs :: "runs_row list \<Rightarrow> pgstate \<Rightarrow> pgstate" where
  "put_runs rows p \<equiv> p\<lparr>pg_runs := rows\<rparr>"

abbreviation put_tasks :: "tasks_row list \<Rightarrow> pgstate \<Rightarrow> pgstate" where
  "put_tasks rows p \<equiv> p\<lparr>pg_tasks := rows\<rparr>"

abbreviation put_effects :: "effects_row list \<Rightarrow> pgstate \<Rightarrow> pgstate" where
  "put_effects rows p \<equiv> p\<lparr>pg_effects := rows\<rparr>"

abbreviation put_outbox :: "outbox_row list \<Rightarrow> pgstate \<Rightarrow> pgstate" where
  "put_outbox rows p \<equiv> p\<lparr>pg_outbox := rows\<rparr>"

abbreviation put_leases :: "leases_row list \<Rightarrow> pgstate \<Rightarrow> pgstate" where
  "put_leases rows p \<equiv> p\<lparr>pg_leases := rows\<rparr>"

text \<open>Whether a table has a row for a key, and the rows that have it.\<close>

definition present :: "('r \<Rightarrow> 'k) \<Rightarrow> 'k \<Rightarrow> 'r list \<Rightarrow> bool" where
  "present key k rows \<longleftrightarrow> list_ex (\<lambda>r. key r = k) rows"

definition with_key :: "('r \<Rightarrow> 'k) \<Rightarrow> 'k \<Rightarrow> 'r list \<Rightarrow> 'r list" where
  "with_key key k rows = filter (\<lambda>r. key r = k) rows"

definition quoted :: "string \<Rightarrow> string" where
  "quoted s = CHR 0x22 # s @ [CHR 0x22]"

section \<open>Runs, tasks and events (tx.go)\<close>

definition Pg_GetTask :: "TaskID \<Rightarrow> Task ptx" where
  "Pg_GetTask tid =
     pbind (translated (''get task '' @ tid) (sql_query_row (\<lambda>p. with_key tr_task_id tid (pg_tasks p))))
       (\<lambda>row. preturn (scanTask row))"

definition Pg_CreateRun :: "dialect \<Rightarrow> time \<Rightarrow> Run \<Rightarrow> unit ptx" where
  "Pg_CreateRun D now r =
     (if \<not> RunStatus_Valid (run_Status r) then
        perror (wrap (''create run '' @ run_ID r @ '': status '' @ quoted (RunStatus_text (run_Status r)))
          ErrInvalidTransition)
      else translated (''create run '' @ run_ID r)
        (sql_insert (jsonb D (jsonOrNull (run_Input r)))
          (\<lambda>p. [(present rr_run_id (run_ID r) (pg_runs p), unique_violation ''runs_pkey'')])
          (\<lambda>input p. p\<lparr>pg_runs := pg_runs p @
            [\<lparr>rr_run_id = run_ID r, rr_agent_name = run_AgentName r, rr_agent_version = run_AgentVersion r,
              rr_status = run_Status r, rr_version = run_Version r, rr_input = input, rr_output = None,
              rr_last_error = None, rr_available_at = None, rr_created_at = db_stamp D now,
              rr_updated_at = db_stamp D now, rr_completed_at = None\<rparr>]\<rparr>)))"

definition Pg_AdvanceRun :: "dialect \<Rightarrow> time \<Rightarrow> RunID \<Rightarrow> int \<Rightarrow> RunState \<Rightarrow> unit ptx" where
  "Pg_AdvanceRun D now rid expectedVersion nxt =
     (let op = ''advance run '' @ rid in
      pbind (translated op (sql_query_row (\<lambda>p. with_key rr_run_id rid (pg_runs p)))) (\<lambda>row.
        if rr_version row \<noteq> expectedVersion then
          perror (wrap (op @ '': at version '' @ show_int (rr_version row) @ '', expected ''
            @ show_int expectedVersion) ErrConflict)
        else if rs_Status nxt \<noteq> rr_status row \<and> \<not> RunStatus_CanTransitionTo (rr_status row) (rs_Status nxt) then
          perror (wrap (op @ '': '' @ RunStatus_text (rr_status row) @ '' -> '' @ RunStatus_text (rs_Status nxt))
            ErrInvalidTransition)
        else
          pbind (translated op
            (sql_update (jsonb D (jsonOrNull (rs_Output nxt))) pg_runs put_runs
              (\<lambda>r. rr_run_id r = rid \<and> rr_version r = expectedVersion)
              (\<lambda>output r. and_then (int8 (rr_version r + 1)) (\<lambda>version.
                Inr (r\<lparr>rr_status := rs_Status nxt, rr_output := output,
                   rr_last_error := nullIfEmpty (rs_LastError nxt),
                   rr_available_at := map_option (db_stamp D) (rs_AvailableAt nxt), rr_version := version,
                   rr_updated_at := db_stamp D now,
                   rr_completed_at := (if RunStatus_IsTerminal (rs_Status nxt) then Some (db_stamp D now) else None)\<rparr>)))))
            (\<lambda>_. preturn ())))"

definition Pg_CreateTask :: "dialect \<Rightarrow> time \<Rightarrow> Task \<Rightarrow> unit ptx" where
  "Pg_CreateTask D now t =
     (if \<not> TaskStatus_Valid (task_Status t) then
        perror (wrap (''create task '' @ task_ID t @ '': status '' @ quoted (TaskStatus_text (task_Status t)))
          ErrInvalidTransition)
      else translated (''create task '' @ task_ID t)
        (sql_insert
          (and_then (jsonb D (jsonOrEmptyObject (task_Payload t))) (\<lambda>payload.
           and_then (int4 (task_Attempt t)) (\<lambda>attempt.
           and_then (int4 (task_MaxAttempts t)) (\<lambda>maxi. Inr (payload, attempt, maxi)))))
          (\<lambda>p. [(present tr_task_id (task_ID t) (pg_tasks p), unique_violation ''tasks_pkey''),
                (list_ex (\<lambda>x. tr_run_id x = task_RunID t \<and> tr_step_id x = task_StepID t) (pg_tasks p),
                 unique_violation ''tasks_run_id_step_id_key''),
                (\<not> present rr_run_id (task_RunID t) (pg_runs p), fk_violation ''tasks_run_id_fkey'')])
          (\<lambda>(payload, attempt, maxi) p. p\<lparr>pg_tasks := pg_tasks p @
            [\<lparr>tr_task_id = task_ID t, tr_run_id = task_RunID t, tr_step_id = task_StepID t,
              tr_task_type = task_Type t, tr_payload = (case payload of Some j \<Rightarrow> j | None \<Rightarrow> JNull),
              tr_status = task_Status t, tr_priority = 0, tr_available_at = db_stamp D now,
              tr_attempt = attempt, tr_max_attempts = maxi, tr_last_error = None,
              tr_created_at = db_stamp D now, tr_updated_at = db_stamp D now, tr_completed_at = None\<rparr>]\<rparr>)))"

definition Pg_TransitionTask ::
  "dialect \<Rightarrow> time \<Rightarrow> TaskID \<Rightarrow> TaskStatus \<Rightarrow> TaskStatus \<Rightarrow> TaskOutcome \<Rightarrow> unit ptx" where
  "Pg_TransitionTask D now tid frm to out =
     (let op = ''transition task '' @ tid in
      pbind (translated op (sql_query_row (\<lambda>p. with_key tr_task_id tid (pg_tasks p)))) (\<lambda>row.
        if tr_status row \<noteq> frm then
          perror (wrap (op @ '': is '' @ TaskStatus_text (tr_status row) @ '', expected '' @ TaskStatus_text frm)
            ErrConflict)
        else if \<not> TaskStatus_CanTransitionTo frm to then
          perror (wrap (op @ '': '' @ TaskStatus_text frm @ '' -> '' @ TaskStatus_text to) ErrInvalidTransition)
        else
          pbind (translated op
            (sql_update (Inr ()) pg_tasks put_tasks
              (\<lambda>r. tr_task_id r = tid \<and> tr_status r = frm)
              (\<lambda>_ r. and_then (int4 (tr_attempt r + (if to = TaskRunning then 1 else 0))) (\<lambda>attempt.
                Inr (r\<lparr>tr_status := to, tr_attempt := attempt,
                   tr_last_error := coalesce (nullIfEmpty (to_Error out)) (tr_last_error r),
                   tr_updated_at := db_stamp D now,
                   tr_completed_at := (if TaskStatus_IsTerminal to then Some (db_stamp D now) else None)\<rparr>)))))
            (\<lambda>_. preturn ())))"

text \<open>\<open>COALESCE (MAX (seq), 0) + 1\<close> over the rows of the run.\<close>

definition max_of :: "int list \<Rightarrow> int" where
  "max_of xs = (case xs of [] \<Rightarrow> 0 | x # xs \<Rightarrow> fold max xs x)"

definition Pg_NextSeq :: "RunID \<Rightarrow> int ptx" where
  "Pg_NextSeq rid =
     (let op = ''next seq for run '' @ rid in
      pbind (translated op (sql_query (\<lambda>p. with_key rr_run_id rid (pg_runs p)))) (\<lambda>rows.
        if rows = [] then perror (wrap op ErrNotFound)
        else translated op (exec_stmt (\<lambda>p.
          (int8 (max_of (map er_seq (with_key er_run_id rid (pg_events p))) + 1), p)))))"

definition Pg_AppendEvent :: "dialect \<Rightarrow> time \<Rightarrow> Event \<Rightarrow> unit ptx" where
  "Pg_AppendEvent D now e =
     translated (''append event '' @ ev_RunID e @ '' seq '' @ show_int (ev_Seq e))
       (sql_insert (jsonb D (jsonOrEmptyObject (ev_Payload e)))
         (\<lambda>p. [(list_ex (\<lambda>x. er_run_id x = ev_RunID e \<and> er_seq x = ev_Seq e) (pg_events p),
                unique_violation ''events_pkey''),
               (\<not> present rr_run_id (ev_RunID e) (pg_runs p), fk_violation ''events_run_id_fkey'')])
         (\<lambda>payload p. p\<lparr>pg_events := pg_events p @
           [\<lparr>er_run_id = ev_RunID e, er_seq = ev_Seq e, er_event_type = ev_Type e,
             er_step_id = nullIfEmpty (ev_StepID e),
             er_payload = (case payload of Some j \<Rightarrow> j | None \<Rightarrow> JNull), er_created_at = db_stamp D now\<rparr>]\<rparr>))"

text \<open>core.Append over this transaction (internal/core/append.go).\<close>

definition Pg_Append :: "dialect \<Rightarrow> time \<Rightarrow> RunID \<Rightarrow> EventType \<Rightarrow> StepID \<Rightarrow> EventData \<Rightarrow> unit ptx" where
  "Pg_Append D now rid typ step data =
     pbind (Pg_NextSeq rid) (\<lambda>seq.
       case NewEvent rid seq typ step data of
         Inl err \<Rightarrow> perror err
       | Inr ev \<Rightarrow> Pg_AppendEvent D now ev)"

section \<open>The effect ledger (effects.go)\<close>

definition Pg_ReserveEffect :: "dialect \<Rightarrow> time \<Rightarrow> Effect \<Rightarrow> unit ptx" where
  "Pg_ReserveEffect D now e =
     (if \<not> EffectStatus_Valid (eff_Status e) then
        perror (wrap (''reserve effect '' @ eff_Key e @ '': status '' @ quoted (EffectStatus_text (eff_Status e)))
          ErrInvalidTransition)
      else if \<not> EffectClass_Valid (eff_Class e) then
        perror (wrap (''reserve effect '' @ eff_Key e @ '': class '' @ quoted (EffectClass_text (eff_Class e)))
          ErrInvalidTransition)
      else translated (''reserve effect '' @ eff_Key e)
        (sql_insert (jsonb D (jsonOrNull (eff_Request e)))
          (\<lambda>p. [(present fr_effect_id (eff_ID e) (pg_effects p), unique_violation ''effects_pkey''),
                (present fr_idempotency_key (eff_Key e) (pg_effects p),
                 unique_violation ''effects_idempotency_key_key''),
                (\<not> present tr_task_id (eff_TaskID e) (pg_tasks p), fk_violation ''effects_task_id_fkey''),
                (\<not> present rr_run_id (eff_RunID e) (pg_runs p), fk_violation ''effects_run_id_fkey'')])
          (\<lambda>request p. p\<lparr>pg_effects := pg_effects p @
            [\<lparr>fr_effect_id = eff_ID e, fr_task_id = eff_TaskID e, fr_run_id = eff_RunID e,
              fr_effect_type = eff_Type e, fr_effect_class = eff_Class e, fr_idempotency_key = eff_Key e,
              fr_status = eff_Status e, fr_request = request, fr_response = None, fr_external_ref = None,
              fr_last_error = None, fr_created_at = db_stamp D now, fr_updated_at = db_stamp D now,
              fr_committed_at = None\<rparr>]\<rparr>)))"

definition Pg_GetEffect :: "IdempotencyKey \<Rightarrow> Effect ptx" where
  "Pg_GetEffect key =
     pbind (translated (''get effect '' @ key)
       (sql_query_row (\<lambda>p. with_key fr_idempotency_key key (pg_effects p)))) (\<lambda>row. preturn (scanEffect row))"

definition Pg_TransitionEffect ::
  "dialect \<Rightarrow> time \<Rightarrow> IdempotencyKey \<Rightarrow> EffectStatus \<Rightarrow> EffectStatus \<Rightarrow> EffectOutcome \<Rightarrow> unit ptx" where
  "Pg_TransitionEffect D now key frm to out =
     (let op = ''transition effect '' @ key in
      pbind (translated op (sql_query_row (\<lambda>p. with_key fr_idempotency_key key (pg_effects p)))) (\<lambda>row.
        if fr_status row \<noteq> frm then
          perror (wrap (op @ '': is '' @ EffectStatus_text (fr_status row) @ '', expected ''
            @ EffectStatus_text frm) ErrConflict)
        else if \<not> EffectStatus_CanTransitionTo frm to then
          perror (wrap (op @ '': '' @ EffectStatus_text frm @ '' -> '' @ EffectStatus_text to) ErrInvalidTransition)
        else
          pbind (translated op
            (sql_update (jsonb D (jsonOrNull (eo_Response out))) pg_effects put_effects
              (\<lambda>r. fr_idempotency_key r = key \<and> fr_status r = frm)
              (\<lambda>response r. Inr (r\<lparr>fr_status := to, fr_response := coalesce response (fr_response r),
                 fr_external_ref := coalesce (nullIfEmpty (eo_ExternalRef out)) (fr_external_ref r),
                 fr_last_error := coalesce (nullIfEmpty (eo_Error out)) (fr_last_error r),
                 fr_updated_at := db_stamp D now,
                 fr_committed_at := coalesce (if to = EffectCommitted then Some (db_stamp D now) else None)
                   (fr_committed_at r)\<rparr>))))
            (\<lambda>_. preturn ())))"

section \<open>Signals (signals.go)\<close>

definition Pg_RecordSignal :: "dialect \<Rightarrow> time \<Rightarrow> Signal \<Rightarrow> unit ptx" where
  "Pg_RecordSignal D now sg =
     translated ''record signal''
       (sql_insert (jsonb D (jsonOrNull (sig_Payload sg)))
         (\<lambda>p. [(list_ex (\<lambda>x. sr_run_id x = sig_RunID sg \<and> sr_signal_id x = sig_ID sg) (pg_signals p),
                unique_violation ''signals_pkey''),
               (\<not> present rr_run_id (sig_RunID sg) (pg_runs p), fk_violation ''signals_run_id_fkey'')])
         (\<lambda>payload p. p\<lparr>pg_signals := pg_signals p @
           [\<lparr>sr_run_id = sig_RunID sg, sr_signal_id = sig_ID sg, sr_name = sig_Name sg,
             sr_payload = payload, sr_created_at = db_stamp D now\<rparr>]\<rparr>))"

definition Pg_ReleaseRun :: "dialect \<Rightarrow> time \<Rightarrow> RunID \<Rightarrow> unit ptx" where
  "Pg_ReleaseRun D now rid =
     pbind (translated ''release run''
       (sql_update (Inr ()) pg_runs put_runs (\<lambda>r. rr_run_id r = rid)
         (\<lambda>_ r. Inr (r\<lparr>rr_available_at := None, rr_updated_at := db_stamp D now\<rparr>))))
       (\<lambda>n. if n = 0 then perror (wrap ''release run'' ErrNotFound) else preturn ())"

section \<open>The outbox (outbox.go)\<close>

text \<open>The default of \<open>outbox_id\<close> takes the next sequence value before any constraint is checked.\<close>

definition insert_delivery :: "dialect \<Rightarrow> time \<Rightarrow> TaskID \<Rightarrow> time \<Rightarrow> unit stmt" where
  "insert_delivery D now tid availableAt = exec_stmt (\<lambda>p.
     case and_then (jsonb D (EncodeDelivery tid)) (\<lambda>payload.
          and_then (int8 (pg_outbox_seq p + 1)) (\<lambda>oid. Inr (payload, oid))) of
       Inl e \<Rightarrow> (Inl e, p)
     | Inr (payload, oid) \<Rightarrow>
         let p' = p\<lparr>pg_outbox_seq := oid\<rparr> in
         if \<not> present tr_task_id tid (pg_tasks p) then (Inl (fk_violation ''task_outbox_task_id_fkey''), p')
         else (Inr (), p'\<lparr>pg_outbox := pg_outbox p @
           [\<lparr>or_outbox_id = oid, or_task_id = tid, or_subject = ''veya.tasks.work'',
             or_payload = (case payload of Some j \<Rightarrow> j | None \<Rightarrow> JNull), or_published_at = None,
             or_attempts = 0, or_last_error = None, or_created_at = db_stamp D now,
             or_available_at = (if time_IsZero availableAt then None else Some (db_stamp D availableAt))\<rparr>]\<rparr>))"

definition Pg_EnqueueDelivery :: "dialect \<Rightarrow> time \<Rightarrow> TaskID \<Rightarrow> time \<Rightarrow> unit ptx" where
  "Pg_EnqueueDelivery D now tid availableAt =
     translated (''enqueue delivery for task '' @ tid) (insert_delivery D now tid availableAt)"

definition Pg_MarkDelivered :: "dialect \<Rightarrow> time \<Rightarrow> int list \<Rightarrow> unit ptx" where
  "Pg_MarkDelivered D now ids =
     (if ids = [] then preturn ()
      else pbind (translated ''mark deliveries published''
        (sql_update (Inr ()) pg_outbox put_outbox (\<lambda>r. or_outbox_id r \<in> set ids)
          (\<lambda>_ r. Inr (r\<lparr>or_published_at := Some (db_stamp D now)\<rparr>)))) (\<lambda>_. preturn ()))"

definition Pg_FailDelivery :: "int \<Rightarrow> string \<Rightarrow> unit ptx" where
  "Pg_FailDelivery did cause =
     (let op = ''fail delivery '' @ show_int did in
      pbind (translated op
        (sql_update (Inr ()) pg_outbox put_outbox (\<lambda>r. or_outbox_id r = did)
          (\<lambda>_ r. and_then (int4 (or_attempts r + 1)) (\<lambda>attempts.
             Inr (r\<lparr>or_attempts := attempts, or_last_error := nullIfEmpty cause\<rparr>)))))
        (\<lambda>n. if n = 0 then perror (wrap op ErrNotFound) else preturn ()))"

section \<open>Workers and leases (leases.go)\<close>

definition with_defaults :: "Worker \<Rightarrow> Worker" where
  "with_defaults w = w\<lparr>worker_Status := (if worker_Status w = WorkerStatusOther [] then WorkerActive
       else worker_Status w),
     worker_Type := (if worker_Type w = [] then ''generic'' else worker_Type w)\<rparr>"

text \<open>The enum \<open>worker_status\<close> refuses any other text.\<close>

definition worker_enum :: "WorkerStatus \<Rightarrow> driver_error + WorkerStatus" where
  "worker_enum s = (case s of WorkerStatusOther _ \<Rightarrow> Inl bad_input | _ \<Rightarrow> Inr s)"

definition upsert_worker :: "dialect \<Rightarrow> time \<Rightarrow> Worker \<Rightarrow> WorkerStatus \<Rightarrow> workers_row list \<Rightarrow> workers_row list" where
  "upsert_worker D now w status rows =
     (if present wr_worker_id (worker_ID w) rows then
        map (\<lambda>r. if wr_worker_id r = worker_ID w
          then r\<lparr>wr_worker_type := worker_Type w, wr_status := status, wr_last_heartbeat := Some (db_stamp D now)\<rparr>
          else r) rows
      else rows @ [\<lparr>wr_worker_id = worker_ID w, wr_worker_type = worker_Type w, wr_status = status,
        wr_last_heartbeat = Some (db_stamp D now), wr_registered_at = db_stamp D now\<rparr>])"

definition Pg_RegisterWorker :: "dialect \<Rightarrow> time \<Rightarrow> Worker \<Rightarrow> unit ptx" where
  "Pg_RegisterWorker D now worker =
     (if worker_ID worker = [] then perror (wrap ''register worker: id is empty'' ErrInvalidTransition)
      else let w = with_defaults worker in
        translated (''register worker '' @ worker_ID w)
          (sql_insert (worker_enum (worker_Status w)) (\<lambda>_. [])
            (\<lambda>status p. p\<lparr>pg_workers := upsert_worker D now w status (pg_workers p)\<rparr>)))"

text \<open>
  The upsert of a lease: a new row, or the existing row where its lease has run out; where it
  has not, no row is returned. The foreign keys are checked on the row that was written.
\<close>

definition upsert_lease :: "dialect \<Rightarrow> TaskID \<Rightarrow> string \<Rightarrow> time \<Rightarrow> time \<Rightarrow> leases_row list stmt" where
  "upsert_lease D tid workerID now expiresAt = exec_stmt (\<lambda>p.
     let fresh = \<lparr>lr_task_id = tid, lr_worker_id = workerID, lr_fencing_token = 1,
           lr_acquired_at = db_stamp D now, lr_expires_at = db_stamp D expiresAt,
           lr_heartbeat_at = db_stamp D now\<rparr>;
         fks = [(\<not> present tr_task_id tid (pg_tasks p), fk_violation ''leases_task_id_fkey''),
                (\<not> present wr_worker_id workerID (pg_workers p), fk_violation ''leases_worker_id_fkey'')]
     in case with_key lr_task_id tid (pg_leases p) of
          [] \<Rightarrow> (case checked fks (p\<lparr>pg_leases := pg_leases p @ [fresh]\<rparr>) of
                   Inl e \<Rightarrow> (Inl e, p) | Inr q \<Rightarrow> (Inr [fresh], q))
        | old # _ \<Rightarrow>
            if db_stamp D now < lr_expires_at old then (Inr [], p)
            else (case and_then (int8 (lr_fencing_token old + 1)) (\<lambda>token.
                    let taken = fresh\<lparr>lr_fencing_token := token\<rparr> in
                    map_sum (\<lambda>e. e) (\<lambda>q. (taken, q)) (checked fks
                      (p\<lparr>pg_leases := map (\<lambda>r. if lr_task_id r = tid then taken else r) (pg_leases p)\<rparr>))) of
                   Inl e \<Rightarrow> (Inl e, p) | Inr (taken, q) \<Rightarrow> (Inr [taken], q)))"

definition Pg_AcquireLease :: "dialect \<Rightarrow> TaskID \<Rightarrow> string \<Rightarrow> time \<Rightarrow> time \<Rightarrow> Lease ptx" where
  "Pg_AcquireLease D tid workerID now expiresAt =
     (let op = ''acquire lease on '' @ tid in
      pbind (translated op (upsert_lease D tid workerID now expiresAt)) (\<lambda>rows.
        case rows of [] \<Rightarrow> perror (wrap op ErrLeaseHeld) | row # _ \<Rightarrow> preturn (scanLease row)))"

definition Pg_GetLease :: "TaskID \<Rightarrow> Lease ptx" where
  "Pg_GetLease tid =
     pbind (translated (''get lease on '' @ tid) (sql_query_row (\<lambda>p. with_key lr_task_id tid (pg_leases p))))
       (\<lambda>row. preturn (scanLease row))"

definition assertFenced :: "string \<Rightarrow> TaskID \<Rightarrow> int \<Rightarrow> int \<Rightarrow> unit ptx" where
  "assertFenced op tid token n =
     (if 0 < n then preturn ()
      else pbind (translated op (sql_query_row (\<lambda>p. with_key lr_task_id tid (pg_leases p)))) (\<lambda>row.
        perror (wrap (op @ '': at token '' @ show_int (lr_fencing_token row) @ '', presented '' @ show_int token)
          ErrFenced)))"

definition Pg_ExtendLease :: "dialect \<Rightarrow> time \<Rightarrow> TaskID \<Rightarrow> int \<Rightarrow> time \<Rightarrow> unit ptx" where
  "Pg_ExtendLease D now tid token expiresAt =
     (let op = ''extend lease on '' @ tid in
      pbind (translated op
        (sql_update (Inr ()) pg_leases put_leases (\<lambda>r. lr_task_id r = tid \<and> lr_fencing_token r = token)
          (\<lambda>_ r. Inr (r\<lparr>lr_expires_at := db_stamp D expiresAt, lr_heartbeat_at := db_stamp D now\<rparr>))))
        (assertFenced op tid token))"

definition Pg_ReleaseLease :: "dialect \<Rightarrow> TaskID \<Rightarrow> int \<Rightarrow> time \<Rightarrow> unit ptx" where
  "Pg_ReleaseLease D tid token now =
     (let op = ''release lease on '' @ tid in
      pbind (translated op
        (sql_update (Inr ()) pg_leases put_leases (\<lambda>r. lr_task_id r = tid \<and> lr_fencing_token r = token)
          (\<lambda>_ r. Inr (r\<lparr>lr_expires_at := db_stamp D now\<rparr>))))
        (assertFenced op tid token))"

section \<open>Reads (postgres.go, effects.go, signals.go, outbox.go, leases.go)\<close>

text \<open>A read outside a transaction; its only error that is not the connection's is a missing row.\<close>

definition read_row :: "string \<Rightarrow> ('r \<Rightarrow> 'a) \<Rightarrow> 'r list \<Rightarrow> go_error + 'a" where
  "read_row op scan rows =
     (case rows of
        [] \<Rightarrow> (case translate op (Some NoRows) of Some err \<Rightarrow> Inl err | None \<Rightarrow> Inl (errors_New []))
      | row # _ \<Rightarrow> Inr (scan row))"

definition Pg_GetRun :: "pgstate \<Rightarrow> RunID \<Rightarrow> go_error + Run" where
  "Pg_GetRun p rid = read_row (''get run '' @ rid) scanRun (with_key rr_run_id rid (pg_runs p))"

definition Pg_Store_GetTask :: "pgstate \<Rightarrow> TaskID \<Rightarrow> go_error + Task" where
  "Pg_Store_GetTask p tid = read_row (''get task '' @ tid) scanTask (with_key tr_task_id tid (pg_tasks p))"

definition Pg_Store_GetEffect :: "pgstate \<Rightarrow> IdempotencyKey \<Rightarrow> go_error + Effect" where
  "Pg_Store_GetEffect p key =
     read_row (''get effect '' @ key) scanEffect (with_key fr_idempotency_key key (pg_effects p))"

definition Pg_ListTasks :: "dialect \<Rightarrow> pgstate \<Rightarrow> RunID \<Rightarrow> Task list" where
  "Pg_ListTasks D p rid = map scanTask
     (sort_key (\<lambda>r. (tr_created_at r, db_key D (tr_task_id r))) (with_key tr_run_id rid (pg_tasks p)))"

definition Pg_History :: "pgstate \<Rightarrow> RunID \<Rightarrow> Event list" where
  "Pg_History p rid = map scanEvent (sort_key er_seq (with_key er_run_id rid (pg_events p)))"

definition sql_limit :: "int \<Rightarrow> 'a list \<Rightarrow> 'a list" where
  "sql_limit n xs = take (nat n) xs"

definition Pg_PendingTasks :: "dialect \<Rightarrow> pgstate \<Rightarrow> time \<Rightarrow> int \<Rightarrow> Task list" where
  "Pg_PendingTasks D p now limit = map scanTask (sql_limit (limitOrAll limit)
     (sort_key (\<lambda>r. (- tr_priority r, tr_created_at r, db_key D (tr_task_id r)))
       (filter (\<lambda>r. tr_status r = TaskPending \<and> tr_available_at r \<le> db_stamp D now) (pg_tasks p))))"

definition Pg_RunsAwaitingAdvance :: "dialect \<Rightarrow> pgstate \<Rightarrow> time \<Rightarrow> int \<Rightarrow> RunID list" where
  "Pg_RunsAwaitingAdvance D p now limit = sql_limit (limitOrAll limit)
     (sort_key (db_key D) (map rr_run_id (filter (\<lambda>r. rr_status r = RunRunning
        \<and> (case rr_available_at r of None \<Rightarrow> True | Some t \<Rightarrow> t \<le> db_stamp D now)
        \<and> \<not> list_ex (\<lambda>t. tr_run_id t = rr_run_id r \<and> (tr_status t = TaskPending \<or> tr_status t = TaskRunning))
              (pg_tasks p)) (pg_runs p))))"

definition Pg_NextWakeUp :: "dialect \<Rightarrow> pgstate \<Rightarrow> time \<Rightarrow> time option" where
  "Pg_NextWakeUp D p after =
     (case sort (filter (\<lambda>t. db_stamp D after < t)
        (List.map_filter rr_available_at (filter (\<lambda>r. rr_status r = RunRunning) (pg_runs p)))) of
        [] \<Rightarrow> None | t # _ \<Rightarrow> Some t)"

definition Pg_ListEffects :: "dialect \<Rightarrow> pgstate \<Rightarrow> RunID \<Rightarrow> Effect list" where
  "Pg_ListEffects D p rid = map scanEffect
     (sort_key (\<lambda>r. (fr_created_at r, db_key D (fr_idempotency_key r))) (with_key fr_run_id rid (pg_effects p)))"

definition Pg_UnresolvedEffects :: "dialect \<Rightarrow> pgstate \<Rightarrow> time \<Rightarrow> int \<Rightarrow> Effect list" where
  "Pg_UnresolvedEffects D p before limit = map scanEffect (sql_limit (limitOrAll limit)
     (sort_key (\<lambda>r. (fr_updated_at r, db_key D (fr_idempotency_key r)))
       (filter (\<lambda>r. (fr_status r = EffectRunning \<or> fr_status r = EffectUnknown)
          \<and> fr_updated_at r < db_stamp D before) (pg_effects p))))"

definition Pg_Signals :: "dialect \<Rightarrow> pgstate \<Rightarrow> RunID \<Rightarrow> string \<Rightarrow> Signal list" where
  "Pg_Signals D p rid name = map scanSignal
     (sort_key (\<lambda>r. (sr_created_at r, db_key D (sr_signal_id r)))
       (filter (\<lambda>r. sr_run_id r = rid \<and> sr_name r = name) (pg_signals p)))"

definition Pg_PendingDeliveries :: "dialect \<Rightarrow> pgstate \<Rightarrow> time \<Rightarrow> int \<Rightarrow> Delivery list" where
  "Pg_PendingDeliveries D p now limit = map scanDelivery (sql_limit (limitOrAll limit)
     (sort_key or_outbox_id (filter (\<lambda>r. or_published_at r = None
        \<and> (case or_available_at r of None \<Rightarrow> True | Some t \<Rightarrow> t \<le> db_stamp D now)) (pg_outbox p))))"

definition Pg_ExpiredLeases :: "dialect \<Rightarrow> pgstate \<Rightarrow> time \<Rightarrow> int \<Rightarrow> Lease list" where
  "Pg_ExpiredLeases D p now limit = map scanLease (sql_limit (limitOrAll limit)
     (sort_key (\<lambda>r. (lr_expires_at r, db_key D (lr_task_id r)))
       (filter (\<lambda>r. lr_expires_at r \<le> db_stamp D now
          \<and> list_ex (\<lambda>t. tr_task_id t = lr_task_id r \<and> (tr_status t = TaskPending \<or> tr_status t = TaskRunning))
              (pg_tasks p)) (pg_leases p))))"

end
