(* ===== verification/Adapters.thy ===== *)
theory Adapters
  imports Postgres
begin

text \<open>
  The two stores behind core.Store agree: the relation between the tables of PostgreSQL and the
  maps of the in-memory store, and that each operation of core.Tx, given arguments that both
  represent, has the same outcome on both and leaves related states. Outcomes are compared by
  value and, for errors, by the sentinels a caller can test; documents by what a JSONB column
  reads back. What an operation needs for that is stated with it in theories Agreement and AgreementOps.
\<close>

section \<open>Tables and maps\<close>

definition canon_map :: "('v \<Rightarrow> 'v) \<Rightarrow> ('k \<times> 'v) list \<Rightarrow> ('k \<times> 'v) list" where
  "canon_map c m = map (\<lambda>(k, v). (k, c v)) m"

definition same_table :: "('r \<Rightarrow> 'k) \<Rightarrow> ('r \<Rightarrow> 'v) \<Rightarrow> ('v \<Rightarrow> 'v) \<Rightarrow> 'r list \<Rightarrow> ('k \<times> 'v) list \<Rightarrow> bool" where
  "same_table key scan c rows m \<longleftrightarrow>
     distinct (map key rows) \<and> map (\<lambda>r. (key r, scan r)) rows = canon_map c m"

lemma canon_map_keys [simp]: "map fst (canon_map c m) = map fst m"
  by (simp add: canon_map_def comp_def case_prod_beta)

lemma map_of_canon_map: "map_of (canon_map c m) k = map_option c (map_of m k)"
  by (induction m) (auto simp: canon_map_def)

lemma canon_map_update: "canon_map c (AList.update k v m) = AList.update k (c v) (canon_map c m)"
  by (induction m) (auto simp: canon_map_def)

lemma canon_map_id [simp]: "canon_map (\<lambda>v. v) m = m"
  by (simp add: canon_map_def)

lemma update_absent: "k \<notin> set (map fst m) \<Longrightarrow> AList.update k v m = m @ [(k, v)]"
  by (induction m) auto

lemma same_table_keys: "same_table key scan c rows m \<Longrightarrow> map fst m = map key rows"
proof -
  assume "same_table key scan c rows m"
  then have "map fst (map (\<lambda>r. (key r, scan r)) rows) = map fst (canon_map c m)"
    by (simp add: same_table_def)
  then show ?thesis by (simp add: comp_def)
qed

lemma same_table_present: "same_table key scan c rows m \<Longrightarrow> present key k rows \<longleftrightarrow> map_of m k \<noteq> None"
proof -
  assume "same_table key scan c rows m"
  then have "map fst m = map key rows" by (rule same_table_keys)
  then have "fst ` set m = key ` set rows" by (metis list.set_map)
  then show ?thesis by (auto simp: present_def list_ex_iff map_of_eq_None_iff)
qed

lemma with_key_Nil: "with_key key k rows = [] \<longleftrightarrow> \<not> present key k rows"
  by (auto simp: with_key_def present_def list_ex_iff filter_empty_conv)

lemma map_of_rows:
  "distinct (map key rows) \<Longrightarrow> row \<in> set rows \<Longrightarrow> map_of (map (\<lambda>r. (key r, scan r)) rows) (key row) = Some (scan row)"
  by (rule map_of_is_SomeI) (auto simp: comp_def)

lemma with_key_unique:
  "distinct (map key rows) \<Longrightarrow> row \<in> set rows \<Longrightarrow> with_key key (key row) rows = [row]"
proof (induction rows)
  case (Cons r rows)
  show ?case
  proof (cases "row = r")
    case True
    with Cons.prems have "filter (\<lambda>x. key x = key r) rows = []"
      by (auto simp: filter_empty_conv) (metis image_eqI)
    with True show ?thesis by (simp add: with_key_def)
  next
    case False
    with Cons have "row \<in> set rows" "key r \<noteq> key row" by auto
    with Cons show ?thesis by (simp add: with_key_def)
  qed
qed simp

lemma same_table_row:
  assumes "same_table key scan c rows m" and "map_of m k = Some v"
  obtains row where "row \<in> set rows" "key row = k" "scan row = c v" "with_key key k rows = [row]"
proof -
  from assms have "present key k rows" by (simp add: same_table_present)
  then obtain row where row: "row \<in> set rows" "key row = k"
    by (auto simp: present_def list_ex_iff)
  from assms(1) have d: "distinct (map key rows)"
    and eq: "map (\<lambda>r. (key r, scan r)) rows = canon_map c m"
    by (simp_all add: same_table_def)
  from map_of_rows [OF d row(1), of scan] eq row(2) assms(2) have "scan row = c v"
    by (simp add: map_of_canon_map)
  with row with_key_unique [OF d row(1)] show ?thesis by (intro that [of row]) simp_all
qed

lemma same_table_none: "same_table key scan c rows m \<Longrightarrow> map_of m k = None \<Longrightarrow> with_key key k rows = []"
  by (simp add: with_key_Nil same_table_present)

lemma same_table_insert:
  assumes "same_table key scan c rows m" "map_of m k = None" "key row = k" "scan row = c v"
  shows "same_table key scan c (rows @ [row]) (AList.update k v m)"
proof -
  from assms have k: "k \<notin> set (map key rows)"
    by (metis same_table_keys map_of_eq_None_iff list.set_map)
  with assms(1) have "k \<notin> set (map fst (canon_map c m))"
    by (simp add: same_table_keys)
  then have "AList.update k (c v) (canon_map c m) = canon_map c m @ [(k, c v)]"
    by (rule update_absent)
  with assms k show ?thesis
    by (simp add: same_table_def canon_map_update)
qed

text \<open>An UPDATE by key: which row it changes, and that nothing else moves.\<close>

lemma update_where_none: "(\<And>r. r \<in> set rows \<Longrightarrow> \<not> P r) \<Longrightarrow> update_where P f rows = Inr (rows, 0)"
  by (induction rows) auto

lemma update_where_one:
  assumes "distinct (map key rows)" "row \<in> set rows" "\<And>r. r \<in> set rows \<Longrightarrow> P r \<longleftrightarrow> key r = key row"
  shows "update_where P f rows =
    (case f row of Inl e \<Rightarrow> Inl e | Inr row' \<Rightarrow> Inr (map (\<lambda>r. if key r = key row then row' else r) rows, 1))"
  using assms
proof (induction rows)
  case (Cons r rows)
  show ?case
  proof (cases "r = row")
    case True
    with Cons.prems(1) have "key row \<notin> key ` set rows" by simp
    then have no: "\<And>x. x \<in> set rows \<Longrightarrow> key x \<noteq> key row" by (metis image_eqI)
    with Cons.prems(3) have "update_where P f rows = Inr (rows, 0)"
      by (intro update_where_none) auto
    moreover have "map (\<lambda>x. if key x = key row then y else x) rows = rows" for y
      using no by (simp add: map_idI)
    ultimately show ?thesis using True Cons.prems(3) [of r] by (auto split: sum.split)
  next
    case False
    with Cons.prems have row: "row \<in> set rows" "key r \<noteq> key row" by auto
    with Cons.prems(3) [of r] have "\<not> P r" by simp
    with Cons row show ?thesis by (auto split: sum.split)
  qed
qed simp

lemma update_present:
  assumes "distinct (map fst m)" "(k, w) \<in> set m"
  shows "AList.update k v m = map (\<lambda>(x, y). (x, if x = k then v else y)) m"
  using assms
proof (induction m)
  case (Cons xy m)
  obtain x y where xy: "xy = (x, y)" by (cases xy)
  show ?case
  proof (cases "x = k")
    case True
    with Cons.prems xy have "k \<notin> fst ` set m" by auto
    then have "map (\<lambda>(x, y). (x, if x = k then v else y)) m = m"
      by (intro map_idI) (auto split: prod.split, force)
    with True xy show ?thesis by simp
  next
    case False
    with Cons xy show ?thesis by simp
  qed
qed simp

lemma same_table_update:
  assumes tab: "same_table key scan c rows m" and row: "row \<in> set rows" "key row = k"
    and new: "key row' = k" "scan row' = c v"
  shows "same_table key scan c (map (\<lambda>r. if key r = k then row' else r) rows) (AList.update k v m)"
proof -
  from tab have d: "distinct (map key rows)" and eq: "map (\<lambda>r. (key r, scan r)) rows = canon_map c m"
    by (simp_all add: same_table_def)
  have keys: "map key (map (\<lambda>r. if key r = k then row' else r) rows) = map key rows"
    using new by simp
  have "AList.update k (c v) (map (\<lambda>r. (key r, scan r)) rows) =
      map (\<lambda>(x, y). (x, if x = k then c v else y)) (map (\<lambda>r. (key r, scan r)) rows)"
    using d row by (intro update_present) (auto simp: comp_def)
  also have "\<dots> = map (\<lambda>r. (key r, scan r)) (map (\<lambda>r. if key r = k then row' else r) rows)"
    using new by auto
  finally have "map (\<lambda>r. (key r, scan r)) (map (\<lambda>r. if key r = k then row' else r) rows)
      = canon_map c (AList.update k v m)"
    by (simp add: canon_map_update eq)
  moreover from d have "distinct (map key (map (\<lambda>r. if key r = k then row' else r) rows))"
    by (simp only: keys)
  ultimately show ?thesis by (simp only: same_table_def)
qed

lemma updated_keys [simp]: "key row' = k \<Longrightarrow> map key (map (\<lambda>r. if key r = k then row' else r) rows) = map key rows"
  by simp

lemma in_updated: "x \<in> set (map (\<lambda>r. if key r = k then row' else r) rows) \<Longrightarrow> x = row' \<or> x \<in> set rows"
  by auto

section \<open>Values\<close>

text \<open>
  A document a JSONB column takes, and what it reads back; a payload column is NOT NULL and gets
  the empty object for an absent document. An instant of whole microseconds is kept as it is.
\<close>

definition storable :: "dialect \<Rightarrow> raw \<Rightarrow> bool" where
  "storable D r = (case r of RawNil \<Rightarrow> True | RawJSON j \<Rightarrow> db_json D j \<noteq> None | RawBytes _ \<Rightarrow> False)"

definition canon_raw :: "dialect \<Rightarrow> raw \<Rightarrow> raw" where
  "canon_raw D r = (case r of RawJSON j \<Rightarrow> rawOrNil (db_json D j) | _ \<Rightarrow> RawNil)"

definition canon_payload :: "dialect \<Rightarrow> raw \<Rightarrow> raw" where
  "canon_payload D r = canon_raw D (jsonOrEmptyObject r)"

definition whole :: "dialect \<Rightarrow> time \<Rightarrow> bool" where "whole D t \<longleftrightarrow> db_stamp D t = t"

lemma whole_stamp [simp]: "whole D t \<Longrightarrow> db_stamp D t = t"
  by (simp add: whole_def)

lemma jsonb_null: "storable D r \<Longrightarrow> \<exists>v. jsonb D (jsonOrNull r) = Inr v \<and> rawOrNil v = canon_raw D r"
  by (cases r) (auto simp: storable_def canon_raw_def jsonb_def jsonOrNull_def raw_empty_def rawOrNil_def
      split: option.splits)

lemma jsonb_null_nil: "storable D r \<Longrightarrow> jsonb D (jsonOrNull r) = Inr None \<longleftrightarrow> r = RawNil"
  by (cases r) (auto simp: storable_def jsonb_def jsonOrNull_def raw_empty_def split: option.splits)

lemma jsonb_payload:
  "storable D (jsonOrEmptyObject r) \<Longrightarrow> \<exists>j. jsonb D (jsonOrEmptyObject r) = Inr (Some j) \<and> RawJSON j = canon_payload D r"
  by (cases r) (auto simp: storable_def canon_payload_def canon_raw_def jsonb_def jsonOrEmptyObject_def
      raw_empty_def rawOrNil_def split: option.splits if_splits)

lemma text_nullIfEmpty [simp]: "text_of (nullIfEmpty s) = s"
  by (simp add: text_of_def nullIfEmpty_def)

lemma text_coalesce [simp]: "text_of (coalesce (nullIfEmpty s) v) = (if s \<noteq> [] then s else text_of v)"
  by (simp add: text_of_def nullIfEmpty_def coalesce_def)

lemma text_None [simp]: "text_of None = []"
  by (simp add: text_of_def)

lemma rawOrNil_None [simp]: "rawOrNil None = RawNil"
  by (simp add: rawOrNil_def)

definition canon_run :: "dialect \<Rightarrow> Run \<Rightarrow> Run" where
  "canon_run D r = r\<lparr>run_Input := canon_raw D (run_Input r), run_Output := canon_raw D (run_Output r)\<rparr>"

definition canon_task :: "dialect \<Rightarrow> Task \<Rightarrow> Task" where
  "canon_task D t = t\<lparr>task_Payload := canon_payload D (task_Payload t)\<rparr>"

definition canon_event :: "dialect \<Rightarrow> Event \<Rightarrow> Event" where
  "canon_event D e = e\<lparr>ev_Payload := canon_payload D (ev_Payload e)\<rparr>"

definition canon_effect :: "dialect \<Rightarrow> Effect \<Rightarrow> Effect" where
  "canon_effect D e = e\<lparr>eff_Request := canon_raw D (eff_Request e), eff_Response := canon_raw D (eff_Response e)\<rparr>"

definition canon_signal :: "dialect \<Rightarrow> Signal \<Rightarrow> Signal" where
  "canon_signal D x = x\<lparr>sig_Payload := canon_raw D (sig_Payload x)\<rparr>"

lemmas canon_defs = canon_run_def canon_task_def canon_event_def canon_effect_def canon_signal_def
lemmas scan_defs = scanRun_def scanTask_def scanEvent_def scanEffect_def scanLease_def scanDelivery_def
  scanSignal_def worker_of_def

section \<open>The relation\<close>

text \<open>
  Table by table: equal contents, and what the code keeps true of the columns the other store
  does not have. A foreign key is stated over the keys of the table it points at.
\<close>

definition runs_shown :: "dialect \<Rightarrow> runs_row list \<Rightarrow> (RunID \<times> Run) list \<Rightarrow> bool" where
  "runs_shown D rows m \<longleftrightarrow> same_table rr_run_id scanRun (canon_run D) rows m
     \<and> (\<forall>r \<in> set rows. \<not> RunStatus_IsTerminal (rr_status r) \<longrightarrow> rr_completed_at r = None)"

definition tasks_shown :: "dialect \<Rightarrow> RunID list \<Rightarrow> tasks_row list \<Rightarrow> (TaskID \<times> Task) list
    \<Rightarrow> ((RunID \<times> StepID) \<times> TaskID) list \<Rightarrow> bool" where
  "tasks_shown D runs rows m idx \<longleftrightarrow> same_table tr_task_id scanTask (canon_task D) rows m
     \<and> idx = map (\<lambda>r. ((tr_run_id r, tr_step_id r), tr_task_id r)) rows
     \<and> (\<forall>r \<in> set rows. tr_run_id r \<in> set runs \<and> tr_priority r = 0 \<and> TaskStatus_Valid (tr_status r)
          \<and> (\<not> TaskStatus_IsTerminal (tr_status r) \<longrightarrow> tr_completed_at r = None))"

definition stored_events :: "(RunID \<times> Event list) list \<Rightarrow> RunID \<Rightarrow> Event list" where
  "stored_events evs rid = (case map_of evs rid of None \<Rightarrow> [] | Some es \<Rightarrow> es)"

definition events_shown :: "dialect \<Rightarrow> RunID list \<Rightarrow> events_row list \<Rightarrow> (RunID \<times> Event list) list \<Rightarrow> bool" where
  "events_shown D runs rows evs \<longleftrightarrow>
     (\<forall>rid. map scanEvent (with_key er_run_id rid rows) = map (canon_event D) (stored_events evs rid))
     \<and> (\<forall>r \<in> set rows. er_run_id r \<in> set runs \<and> 0 < er_seq r)"

definition signals_shown :: "dialect \<Rightarrow> RunID list \<Rightarrow> signals_row list
    \<Rightarrow> ((RunID \<times> SignalID) \<times> Signal) list \<Rightarrow> bool" where
  "signals_shown D runs rows m \<longleftrightarrow>
     same_table (\<lambda>r. (sr_run_id r, sr_signal_id r)) scanSignal (canon_signal D) rows m
     \<and> (\<forall>r \<in> set rows. sr_run_id r \<in> set runs)"

definition outbox_shown :: "outbox_row list \<Rightarrow> int \<Rightarrow> (int \<times> Delivery) list \<Rightarrow> (int \<times> bool) list \<Rightarrow> int \<Rightarrow> bool" where
  "outbox_shown rows n m pub n' \<longleftrightarrow> same_table or_outbox_id scanDelivery (\<lambda>d. d) rows m \<and> n = n' \<and> 0 \<le> n
     \<and> (\<forall>r \<in> set rows. or_outbox_id r \<le> n \<and> (or_published_at r \<noteq> None \<longleftrightarrow> map_of pub (or_outbox_id r) = Some True))
     \<and> (\<forall>i. map_of pub i = Some True \<longrightarrow> i \<le> n)"

definition mirrors :: "dialect \<Rightarrow> pgstate \<Rightarrow> state \<Rightarrow> bool" where
  "mirrors D p s \<longleftrightarrow> \<not> pg_aborted p
     \<and> runs_shown D (pg_runs p) (st_runs s)
     \<and> tasks_shown D (map rr_run_id (pg_runs p)) (pg_tasks p) (st_tasks s) (st_stepIndex s)
     \<and> events_shown D (map rr_run_id (pg_runs p)) (pg_events p) (st_events s)
     \<and> same_table fr_idempotency_key scanEffect (canon_effect D) (pg_effects p) (st_effects s)
     \<and> same_table lr_task_id scanLease (\<lambda>l. l) (pg_leases p) (st_leases s)
     \<and> same_table wr_worker_id worker_of (\<lambda>w. w) (pg_workers p) (st_workers s)
     \<and> signals_shown D (map rr_run_id (pg_runs p)) (pg_signals p) (st_signals s)
     \<and> outbox_shown (pg_outbox p) (pg_outbox_seq p) (st_deliveries s) (st_published s) (st_deliverySeq s)"

lemma events_of_stored: "events_of s r = stored_events (st_events s) r"
  by (simp add: events_of_def stored_events_def)

lemma tasks_shown_mono: "tasks_shown D runs rows m idx \<Longrightarrow> set runs \<subseteq> set runs' \<Longrightarrow> tasks_shown D runs' rows m idx"
  by (auto simp: tasks_shown_def)

lemma events_shown_mono: "events_shown D runs rows m \<Longrightarrow> set runs \<subseteq> set runs' \<Longrightarrow> events_shown D runs' rows m"
  by (auto simp: events_shown_def)

lemma signals_shown_mono: "signals_shown D runs rows m \<Longrightarrow> set runs \<subseteq> set runs' \<Longrightarrow> signals_shown D runs' rows m"
  by (auto simp: signals_shown_def)

lemma mirrors_empty: "mirrors D empty_database newState"
  by (simp add: mirrors_def empty_database_def newState_def runs_shown_def tasks_shown_def events_shown_def
      signals_shown_def outbox_shown_def same_table_def canon_map_def stored_events_def with_key_def)

text \<open>
  Two operations agree at a pair of states when both succeed, with related values and related
  states, or both fail, with the same sentinels and the same deliveries numbered.
\<close>

definition agrees :: "dialect \<Rightarrow> ('a \<Rightarrow> 'b \<Rightarrow> bool) \<Rightarrow> 'a ptx \<Rightarrow> 'b tx \<Rightarrow> pgstate \<Rightarrow> state \<Rightarrow> bool" where
  "agrees D V m m' p s =
     (case (m p, m' s) of
        ((Inr x, p'), (Inr y, s')) \<Rightarrow> V x y \<and> mirrors D p' s' \<and> st_deliverySeq s \<le> st_deliverySeq s'
      | ((Inl e, p'), (Inl e', s')) \<Rightarrow> err_chain e = err_chain e' \<and> pg_outbox_seq p' = st_deliverySeq s'
          \<and> st_deliverySeq s \<le> st_deliverySeq s'
      | _ \<Rightarrow> False)"

lemma agrees_okI:
  "m p = (Inr x, p') \<Longrightarrow> m' s = (Inr y, s') \<Longrightarrow> V x y \<Longrightarrow> mirrors D p' s' \<Longrightarrow> st_deliverySeq s \<le> st_deliverySeq s'
     \<Longrightarrow> agrees D V m m' p s"
  by (simp add: agrees_def)

lemma agrees_errI:
  "m p = (Inl e, p') \<Longrightarrow> m' s = (Inl e', s') \<Longrightarrow> err_chain e = err_chain e' \<Longrightarrow> pg_outbox_seq p' = st_deliverySeq s'
     \<Longrightarrow> st_deliverySeq s \<le> st_deliverySeq s' \<Longrightarrow> agrees D V m m' p s"
  by (simp add: agrees_def)

lemma agrees_bind:
  assumes "agrees D V m m' p s"
    and "\<And>x y p' s'. V x y \<Longrightarrow> m' s = (Inr y, s') \<Longrightarrow> mirrors D p' s' \<Longrightarrow> agrees D W (f x) (g y) p' s'"
  shows "agrees D W (pbind m f) (tx_bind m' g) p s"
proof -
  obtain r p' where m: "m p = (r, p')" by fastforce
  obtain r' s' where m': "m' s = (r', s')" by fastforce
  show ?thesis
  proof (cases r)
    case (Inl e)
    with assms(1) m m' show ?thesis
      by (auto simp: agrees_def pbind_def tx_bind_def split: sum.splits)
  next
    case (Inr x)
    with assms(1) m m' obtain y where y: "r' = Inr y" "V x y" "mirrors D p' s'" "st_deliverySeq s \<le> st_deliverySeq s'"
      by (auto simp: agrees_def split: sum.splits)
    with m' have "agrees D W (f x) (g y) p' s'" by (intro assms(2)) auto
    with y Inr m m' show ?thesis
      by (auto simp: agrees_def pbind_def tx_bind_def split: sum.splits prod.splits)
  qed
qed

text \<open>A whole transaction: committed on both, or rolled back on both to related states.\<close>

lemma mirrors_rolled_back:
  "mirrors D p s \<Longrightarrow> n = n' \<Longrightarrow> st_deliverySeq s \<le> n' \<Longrightarrow> mirrors D (p\<lparr>pg_outbox_seq := n\<rparr>) (s\<lparr>st_deliverySeq := n'\<rparr>)"
  by (auto simp: mirrors_def outbox_shown_def) (meson order_trans)+

lemma agrees_RunInTx:
  assumes "mirrors D p s" and "agrees D V m m' p s"
  shows "case (Pg_RunInTx m p, RunInTx m' s) of
      ((Inr x, p'), (Inr y, s')) \<Rightarrow> V x y \<and> mirrors D p' s'
    | ((Inl e, p'), (Inl e', s')) \<Rightarrow> err_chain e = err_chain e' \<and> mirrors D p' s'
    | _ \<Rightarrow> False"
proof -
  from assms(1) have "p\<lparr>pg_aborted := False\<rparr> = p" by (cases p) (simp add: mirrors_def)
  then have run: "m (p\<lparr>pg_aborted := False\<rparr>) = m p" by simp
  obtain r p' where m: "m p = (r, p')" by fastforce
  obtain r' s' where m': "m' s = (r', s')" by fastforce
  show ?thesis
  proof (cases r)
    case (Inl e)
    with assms(2) m m' obtain e' where e': "r' = Inl e'" "err_chain e = err_chain e'"
        "pg_outbox_seq p' = st_deliverySeq s'" "st_deliverySeq s \<le> st_deliverySeq s'"
      by (auto simp: agrees_def split: sum.splits)
    with Inl m m' run mirrors_rolled_back [OF assms(1) e'(3)] show ?thesis
      by (simp add: Pg_RunInTx_def RunInTx_def)
  next
    case (Inr x)
    with assms(2) m m' obtain y where y: "r' = Inr y" "V x y" "mirrors D p' s'"
      by (auto simp: agrees_def split: sum.splits)
    then have "\<not> pg_aborted p'" by (simp add: mirrors_def)
    with y Inr m m' run show ?thesis
      by (simp add: Pg_RunInTx_def RunInTx_def)
  qed
qed

end
