(* ===== verification/Agreement.thy ===== *)
theory Agreement
  imports Adapters
begin

text \<open>
  Operation by operation, the PostgreSQL adapter and the in-memory store agree (\<open>agrees\<close> of
  theory Adapters) where the arguments fit the columns: runs, tasks and events. The other
  operations are in theory AgreementOps.
\<close>

section \<open>Running a statement\<close>

lemma translate_Some [simp]: "translate op (Some e) \<noteq> None"
  by (auto simp: translate_def Let_def split: driver_error.splits)

definition refusal :: "string \<Rightarrow> driver_error \<Rightarrow> go_error" where
  "refusal op e = the (translate op (Some e))"

lemma translated_Inl [simp]: "m p = (Inl e, q) \<Longrightarrow> translated op m p = (Inl (refusal op e), q)"
  using translate_Some [of op e] by (auto simp: translated_def refusal_def simp del: translate_Some split: option.split)

lemma translated_Inr [simp]: "m p = (Inr x, q) \<Longrightarrow> translated op m p = (Inr x, q)"
  by (simp add: translated_def)

lemma err_chain_wrap [simp]: "err_chain (wrap ctx s) = err_chain (sentinel_err s)"
  by (simp add: wrap_def wrap_err_def)

lemma err_chain_refusal [simp]:
  "err_chain (refusal op NoRows) = [ErrNotFound]"
  "err_chain (refusal op (unique_violation ''runs_pkey'')) = [ErrConflict]"
  "err_chain (refusal op (unique_violation ''tasks_pkey'')) = [ErrConflict]"
  "err_chain (refusal op (unique_violation ''effects_pkey'')) = [ErrConflict]"
  "err_chain (refusal op (unique_violation ''tasks_run_id_step_id_key'')) = [ErrTaskExists]"
  "err_chain (refusal op (unique_violation ''events_pkey'')) = [ErrSeqConflict]"
  "err_chain (refusal op (unique_violation ''signals_pkey'')) = [ErrSignalExists]"
  "err_chain (refusal op (unique_violation ''effects_idempotency_key_key'')) = [ErrEffectExists]"
  "err_chain (refusal op (fk_violation name)) = [ErrNotFound]"
  by (simp_all add: refusal_def translate_def unique_violation_def fk_violation_def wrap_def wrap_err_def sentinel_err_def)

lemma err_chain_sentinel [simp]:
  "s \<noteq> ErrNoWorker \<Longrightarrow> s \<noteq> ErrAgentVersion \<Longrightarrow> err_chain (sentinel_err s) = [s]"
  by (simp add: sentinel_err_def)

lemma pbind_simps:
  "m p = (Inl e, q) \<Longrightarrow> pbind m f p = (Inl e, q)"
  "m p = (Inr x, q) \<Longrightarrow> pbind m f p = f x q"
  by (simp_all add: pbind_def)

lemma perror_simp [simp]: "perror e p = (Inl e, p)" by (simp add: perror_def)

lemma preturn_simp [simp]: "preturn x p = (Inr x, p)" by (simp add: preturn_def)

lemma sql_query_row_simps:
  "\<not> pg_aborted p \<Longrightarrow> q p = [] \<Longrightarrow> sql_query_row q p = (Inl NoRows, p)"
  "\<not> pg_aborted p \<Longrightarrow> q p = r # rs \<Longrightarrow> sql_query_row q p = (Inr r, p)"
  by (simp_all add: sql_query_row_def sql_query_def exec_stmt_def)

lemma sql_insert_ok:
  "\<not> pg_aborted p \<Longrightarrow> args = Inr a \<Longrightarrow> violated (cs p) = None \<Longrightarrow> sql_insert args cs put p = (Inr (), put a p)"
  by (simp add: sql_insert_def exec_stmt_def checked_def)

lemma sql_insert_refused:
  "\<not> pg_aborted p \<Longrightarrow> args = Inr a \<Longrightarrow> violated (cs p) = Some e \<Longrightarrow>
     sql_insert args cs put p = (Inl e, p\<lparr>pg_aborted := True\<rparr>)"
  by (simp add: sql_insert_def exec_stmt_def checked_def)

lemma sql_update_ok:
  "\<not> pg_aborted p \<Longrightarrow> args = Inr a \<Longrightarrow> update_where P (f a) (get p) = Inr (rows, n) \<Longrightarrow>
     sql_update args get put P f p = (Inr n, put rows p)"
  by (simp add: sql_update_def exec_stmt_def)

text \<open>An UPDATE of the one row of a key.\<close>

lemma sql_update_row:
  assumes "\<not> pg_aborted p" "args = Inr a" "distinct (map key (get p))" "row \<in> set (get p)" "key row = k"
    and "\<And>r. r \<in> set (get p) \<Longrightarrow> P r \<longleftrightarrow> key r = k" and "f a row = Inr row'"
  shows "sql_update args get put P f p = (Inr 1, put (map (\<lambda>r. if key r = k then row' else r) (get p)) p)"
  using assms update_where_one [of key "get p" row P "f a"] by (simp add: sql_update_ok)

lemma sql_update_missing:
  "\<not> pg_aborted p \<Longrightarrow> args = Inr a \<Longrightarrow> (\<And>r. r \<in> set (get p) \<Longrightarrow> \<not> P r) \<Longrightarrow>
     sql_update args get put P f p = (Inr 0, put (get p) p)"
  by (simp add: sql_update_ok update_where_none)

section \<open>Replacing one table\<close>

lemma mirrorsD:
  assumes "mirrors D p s"
  shows "\<not> pg_aborted p" "runs_shown D (pg_runs p) (st_runs s)"
    "tasks_shown D (map rr_run_id (pg_runs p)) (pg_tasks p) (st_tasks s) (st_stepIndex s)"
    "events_shown D (map rr_run_id (pg_runs p)) (pg_events p) (st_events s)"
    "same_table fr_idempotency_key scanEffect (canon_effect D) (pg_effects p) (st_effects s)"
    "same_table lr_task_id scanLease (\<lambda>l. l) (pg_leases p) (st_leases s)"
    "same_table wr_worker_id worker_of (\<lambda>w. w) (pg_workers p) (st_workers s)"
    "signals_shown D (map rr_run_id (pg_runs p)) (pg_signals p) (st_signals s)"
    "outbox_shown (pg_outbox p) (pg_outbox_seq p) (st_deliveries s) (st_published s) (st_deliverySeq s)"
    "pg_outbox_seq p = st_deliverySeq s"
  using assms by (simp_all add: mirrors_def) (simp add: outbox_shown_def)

lemma mirrors_runs:
  assumes "mirrors D p s" "runs_shown D rows m" "rr_run_id ` set (pg_runs p) \<subseteq> rr_run_id ` set rows"
  shows "mirrors D (p\<lparr>pg_runs := rows\<rparr>) (s\<lparr>st_runs := m\<rparr>)"
proof -
  from assms(3) have sub: "set (map rr_run_id (pg_runs p)) \<subseteq> set (map rr_run_id rows)" by simp
  from assms(1,2) show ?thesis
    by (simp add: mirrors_def tasks_shown_mono [OF _ sub] events_shown_mono [OF _ sub] signals_shown_mono [OF _ sub])
qed

lemma mirrors_tasks:
  "mirrors D p s \<Longrightarrow> tasks_shown D (map rr_run_id (pg_runs p)) rows m idx
     \<Longrightarrow> mirrors D (p\<lparr>pg_tasks := rows\<rparr>) (s\<lparr>st_tasks := m, st_stepIndex := idx\<rparr>)"
  by (simp add: mirrors_def)

lemma mirrors_events:
  "mirrors D p s \<Longrightarrow> events_shown D (map rr_run_id (pg_runs p)) rows m
     \<Longrightarrow> mirrors D (p\<lparr>pg_events := rows\<rparr>) (s\<lparr>st_events := m\<rparr>)"
  by (simp add: mirrors_def)

lemma mirrors_effects:
  "mirrors D p s \<Longrightarrow> same_table fr_idempotency_key scanEffect (canon_effect D) rows m
     \<Longrightarrow> mirrors D (p\<lparr>pg_effects := rows\<rparr>) (s\<lparr>st_effects := m\<rparr>)"
  by (simp add: mirrors_def)

lemma mirrors_leases:
  "mirrors D p s \<Longrightarrow> same_table lr_task_id scanLease (\<lambda>l. l) rows m
     \<Longrightarrow> mirrors D (p\<lparr>pg_leases := rows\<rparr>) (s\<lparr>st_leases := m\<rparr>)"
  by (simp add: mirrors_def)

lemma mirrors_workers:
  "mirrors D p s \<Longrightarrow> same_table wr_worker_id worker_of (\<lambda>w. w) rows m
     \<Longrightarrow> mirrors D (p\<lparr>pg_workers := rows\<rparr>) (s\<lparr>st_workers := m\<rparr>)"
  by (simp add: mirrors_def)

lemma mirrors_signals:
  "mirrors D p s \<Longrightarrow> signals_shown D (map rr_run_id (pg_runs p)) rows m
     \<Longrightarrow> mirrors D (p\<lparr>pg_signals := rows\<rparr>) (s\<lparr>st_signals := m\<rparr>)"
  by (simp add: mirrors_def)

lemma run_known: "mirrors D p s \<Longrightarrow> present rr_run_id r (pg_runs p) \<longleftrightarrow> map_of (st_runs s) r \<noteq> None"
  by (auto simp: mirrors_def runs_shown_def dest: same_table_present)

lemma present_iff: "present key k rows \<longleftrightarrow> k \<in> set (map key rows)"
  by (auto simp: present_def list_ex_iff)

lemma run_in_keys: "mirrors D p s \<Longrightarrow> r \<in> set (map rr_run_id (pg_runs p)) \<longleftrightarrow> map_of (st_runs s) r \<noteq> None"
  using run_known by (metis present_iff)

lemma same_row: "distinct (map key rows) \<Longrightarrow> x \<in> set rows \<Longrightarrow> row \<in> set rows \<Longrightarrow> key x = key row \<Longrightarrow> x = row"
  by (auto simp: distinct_map inj_on_def)

lemma task_known: "mirrors D p s \<Longrightarrow> present tr_task_id t (pg_tasks p) \<longleftrightarrow> map_of (st_tasks s) t \<noteq> None"
  by (auto simp: mirrors_def tasks_shown_def dest: same_table_present)

lemma worker_known: "mirrors D p s \<Longrightarrow> present wr_worker_id w (pg_workers p) \<longleftrightarrow> map_of (st_workers s) w \<noteq> None"
  by (auto simp: mirrors_def dest: same_table_present)

section \<open>Runs\<close>

definition run_fits :: "dialect \<Rightarrow> time \<Rightarrow> Run \<Rightarrow> bool" where
  "run_fits D now r \<longleftrightarrow> RunStatus_Valid (run_Status r) \<and> storable D (run_Input r) \<and> whole D now
     \<and> run_Output r = RawNil \<and> run_LastError r = [] \<and> run_AvailableAt r = None \<and> run_CompletedAt r = None"

lemma CreateRun_agrees:
  assumes m: "mirrors D p s" and fits: "run_fits D now r"
  shows "agrees D (=) (Pg_CreateRun D now r) (CreateRun now r) p s"
proof (cases "map_of (st_runs s) (run_ID r)")
  case None
  from fits obtain input where input: "jsonb D (jsonOrNull (run_Input r)) = Inr input"
      "rawOrNil input = canon_raw D (run_Input r)"
    using jsonb_null by (metis run_fits_def)
  let ?row = "\<lparr>rr_run_id = run_ID r, rr_agent_name = run_AgentName r, rr_agent_version = run_AgentVersion r,
      rr_status = run_Status r, rr_version = run_Version r, rr_input = input, rr_output = None,
      rr_last_error = None, rr_available_at = None, rr_created_at = db_stamp D now,
      rr_updated_at = db_stamp D now, rr_completed_at = None\<rparr>"
  from None m have "\<not> present rr_run_id (run_ID r) (pg_runs p)" by (simp add: run_known)
  with fits m input have pg: "Pg_CreateRun D now r p = (Inr (), p\<lparr>pg_runs := pg_runs p @ [?row]\<rparr>)"
    by (simp add: Pg_CreateRun_def run_fits_def sql_insert_ok mirrorsD)
  from None fits have mem: "CreateRun now r s = (Inr (), s\<lparr>st_runs := AList.update (run_ID r)
      (r\<lparr>run_CreatedAt := now, run_UpdatedAt := now\<rparr>) (st_runs s)\<rparr>)"
    by (simp add: CreateRun_def run_fits_def)
  have "scanRun ?row = canon_run D (r\<lparr>run_CreatedAt := now, run_UpdatedAt := now\<rparr>)"
    using fits input by (cases r) (simp add: scanRun_def canon_run_def run_fits_def canon_raw_def)
  with None mirrorsD(2) [OF m] have "runs_shown D (pg_runs p @ [?row])
      (AList.update (run_ID r) (r\<lparr>run_CreatedAt := now, run_UpdatedAt := now\<rparr>) (st_runs s))"
    by (auto simp: runs_shown_def intro!: same_table_insert)
  then show ?thesis
    by (auto simp: agrees_def pg mem intro!: mirrors_runs [OF m])
next
  case (Some old)
  with m have "present rr_run_id (run_ID r) (pg_runs p)" by (simp add: run_known)
  moreover from fits obtain input where "jsonb D (jsonOrNull (run_Input r)) = Inr input"
    using jsonb_null by (metis run_fits_def)
  ultimately show ?thesis
    using Some fits m
    by (auto simp: agrees_def Pg_CreateRun_def run_fits_def sql_insert_refused mirrorsD CreateRun_def)
qed

definition state_fits :: "dialect \<Rightarrow> time \<Rightarrow> int \<Rightarrow> RunState \<Rightarrow> bool" where
  "state_fits D now v nxt \<longleftrightarrow> storable D (rs_Output nxt) \<and> whole D now \<and> in_int64 (v + 1)
     \<and> (case rs_AvailableAt nxt of None \<Rightarrow> True | Some t \<Rightarrow> whole D t)"

lemma run_row:
  assumes "mirrors D p s" "map_of (st_runs s) rid = Some r"
  obtains row where "row \<in> set (pg_runs p)" "rr_run_id row = rid" "scanRun row = canon_run D r"
    "with_key rr_run_id rid (pg_runs p) = [row]" "distinct (map rr_run_id (pg_runs p))"
proof -
  from assms(1) have tab: "same_table rr_run_id scanRun (canon_run D) (pg_runs p) (st_runs s)"
    by (simp add: mirrors_def runs_shown_def)
  then have "distinct (map rr_run_id (pg_runs p))" by (simp add: same_table_def)
  with same_table_row [OF tab assms(2)] that show ?thesis by metis
qed

lemma run_row_fields:
  assumes "scanRun row = canon_run D r"
  shows "rr_version row = run_Version r" "rr_status row = run_Status r" "rr_run_id row = run_ID r"
    "rr_completed_at row = run_CompletedAt r"
  using arg_cong [OF assms, of run_Version] arg_cong [OF assms, of run_Status] arg_cong [OF assms, of run_ID]
    arg_cong [OF assms, of run_CompletedAt]
  by (simp_all add: scanRun_def canon_run_def)

lemma runs_shown_update:
  assumes "runs_shown D rows m" "row \<in> set rows" "rr_run_id row = k" "rr_run_id row' = k" "scanRun row' = canon_run D r'"
    and "RunStatus_IsTerminal (rr_status row') \<or> rr_completed_at row' = None"
  shows "runs_shown D (map (\<lambda>r. if rr_run_id r = k then row' else r) rows) (AList.update k r' m)"
  using assms unfolding runs_shown_def by (auto intro!: same_table_update)

lemma mirrors_update_run:
  assumes "mirrors D p s" "rr_run_id row' = k"
    and "runs_shown D (map (\<lambda>r. if rr_run_id r = k then row' else r) (pg_runs p)) m"
  shows "mirrors D (p\<lparr>pg_runs := map (\<lambda>r. if rr_run_id r = k then row' else r) (pg_runs p)\<rparr>) (s\<lparr>st_runs := m\<rparr>)"
proof (rule mirrors_runs [OF assms(1,3)])
  have "map rr_run_id (map (\<lambda>r. if rr_run_id r = k then row' else r) (pg_runs p)) = map rr_run_id (pg_runs p)"
    using assms(2) by simp
  then show "rr_run_id ` set (pg_runs p) \<subseteq> rr_run_id ` set (map (\<lambda>r. if rr_run_id r = k then row' else r) (pg_runs p))"
    by (metis list.set_map order_refl)
qed

lemma AdvanceRun_agrees:
  assumes m: "mirrors D p s" and fits: "state_fits D now v nxt"
  shows "agrees D (=) (Pg_AdvanceRun D now rid v nxt) (AdvanceRun now rid v nxt) p s"
proof (cases "map_of (st_runs s) rid")
  case None
  with m have "with_key rr_run_id rid (pg_runs p) = []" by (simp add: with_key_Nil run_known)
  with None m show ?thesis
    by (simp add: agrees_def Pg_AdvanceRun_def AdvanceRun_def Let_def pbind_simps sql_query_row_simps mirrorsD)
next
  case (Some r)
  from run_row [OF m Some] obtain row where row: "row \<in> set (pg_runs p)" "rr_run_id row = rid"
      "scanRun row = canon_run D r" "with_key rr_run_id rid (pg_runs p) = [row]"
      "distinct (map rr_run_id (pg_runs p))" by blast
  note fields = run_row_fields [OF row(3)]
  note run = Pg_AdvanceRun_def Let_def pbind_simps sql_query_row_simps mirrorsD [OF m] row fields
  show ?thesis
  proof (cases "run_Version r = v
      \<and> (rs_Status nxt = run_Status r \<or> RunStatus_CanTransitionTo (run_Status r) (rs_Status nxt))")
    case False
    with Some show ?thesis by (auto simp: agrees_def AdvanceRun_def run)
  next
    case True
    from fits obtain out where out: "jsonb D (jsonOrNull (rs_Output nxt)) = Inr out"
        "rawOrNil out = canon_raw D (rs_Output nxt)"
      using jsonb_null by (metis state_fits_def)
    let ?row' = "row\<lparr>rr_status := rs_Status nxt, rr_output := out, rr_last_error := nullIfEmpty (rs_LastError nxt),
        rr_available_at := map_option (db_stamp D) (rs_AvailableAt nxt), rr_version := v + 1,
        rr_updated_at := db_stamp D now,
        rr_completed_at := (if RunStatus_IsTerminal (rs_Status nxt) then Some (db_stamp D now) else None)\<rparr>"
    let ?rows = "map (\<lambda>r. if rr_run_id r = rid then ?row' else r) (pg_runs p)"
    have P: "rr_run_id x = rid \<and> rr_version x = v \<longleftrightarrow> rr_run_id x = rid" if "x \<in> set (pg_runs p)" for x
      using with_key_unique [OF row(5) that] row True fields by auto
    have up: "sql_update (jsonb D (jsonOrNull (rs_Output nxt))) pg_runs put_runs
        (\<lambda>r. rr_run_id r = rid \<and> rr_version r = v)
        (\<lambda>output r. and_then (int8 (rr_version r + 1)) (\<lambda>version.
          Inr (r\<lparr>rr_status := rs_Status nxt, rr_output := output, rr_last_error := nullIfEmpty (rs_LastError nxt),
             rr_available_at := map_option (db_stamp D) (rs_AvailableAt nxt), rr_version := version,
             rr_updated_at := db_stamp D now,
             rr_completed_at := (if RunStatus_IsTerminal (rs_Status nxt) then Some (db_stamp D now) else None)\<rparr>))) p
        = (Inr 1, put_runs ?rows p)"
      using True fields fits out row P
      by (intro sql_update_row [where key = rr_run_id and row = row and k = rid])
        (simp_all add: int8_def state_fits_def mirrorsD [OF m])
    have pg: "Pg_AdvanceRun D now rid v nxt p = (Inr (), put_runs ?rows p)"
      using True up by (auto simp: run)
    have mem: "AdvanceRun now rid v nxt s = (Inr (), s\<lparr>st_runs := AList.update rid (apply_state now nxt r) (st_runs s)\<rparr>)"
      using Some True by (auto simp: AdvanceRun_def)
    from mirrorsD(2) [OF m] row(1) fields have settled: "\<not> RunStatus_IsTerminal (run_Status r) \<Longrightarrow> run_CompletedAt r = None"
      by (metis runs_shown_def)
    have "scanRun ?row' = canon_run D (apply_state now nxt r)"
    proof -
      have "map_option (db_stamp D) (rs_AvailableAt nxt) = rs_AvailableAt nxt"
        using fits by (auto simp: state_fits_def split: option.splits)
      moreover have "RunStatus_IsTerminal (rs_Status nxt) \<or> run_CompletedAt r = None"
        using True settled by (auto simp: RunStatus_CanTransitionTo_def split: if_splits)
      ultimately show ?thesis
        using row(3) True fits out(2) by (cases r) (auto simp: scanRun_def canon_run_def apply_state_def state_fits_def wrap64_id)
    qed
    then have "runs_shown D ?rows (AList.update rid (apply_state now nxt r) (st_runs s))"
      using row by (intro runs_shown_update [OF mirrorsD(2) [OF m] row(1,2)]) auto
    then have "mirrors D (put_runs ?rows p) (s\<lparr>st_runs := AList.update rid (apply_state now nxt r) (st_runs s)\<rparr>)"
      using row by (intro mirrors_update_run [OF m]) simp_all
    then show ?thesis
      by (simp add: agrees_def pg mem)
  qed
qed

lemma ReleaseRun_agrees:
  assumes m: "mirrors D p s" and now: "whole D now"
  shows "agrees D (=) (Pg_ReleaseRun D now rid) (ReleaseRun now rid) p s"
proof (cases "map_of (st_runs s) rid")
  case None
  with m have "\<not> present rr_run_id rid (pg_runs p)" by (simp add: run_known)
  then have "\<And>r. r \<in> set (pg_runs p) \<Longrightarrow> rr_run_id r \<noteq> rid" by (auto simp: present_def list_ex_iff)
  with None m show ?thesis
    by (simp add: agrees_def Pg_ReleaseRun_def ReleaseRun_def pbind_simps sql_update_missing mirrorsD)
next
  case (Some r)
  from run_row [OF m Some] obtain row where row: "row \<in> set (pg_runs p)" "rr_run_id row = rid"
      "scanRun row = canon_run D r" "distinct (map rr_run_id (pg_runs p))" by blast
  let ?row' = "row\<lparr>rr_available_at := None, rr_updated_at := db_stamp D now\<rparr>"
  let ?rows = "map (\<lambda>r. if rr_run_id r = rid then ?row' else r) (pg_runs p)"
  have up: "sql_update (Inr ()) pg_runs put_runs (\<lambda>r. rr_run_id r = rid)
      (\<lambda>_ r. Inr (r\<lparr>rr_available_at := None, rr_updated_at := db_stamp D now\<rparr>)) p = (Inr 1, put_runs ?rows p)"
    using row by (intro sql_update_row [where key = rr_run_id and row = row and k = rid])
      (simp_all add: mirrorsD [OF m])
  then have pg: "Pg_ReleaseRun D now rid p = (Inr (), put_runs ?rows p)"
    by (simp add: Pg_ReleaseRun_def pbind_simps)
  let ?r' = "r\<lparr>run_AvailableAt := None, run_UpdatedAt := now\<rparr>"
  have "scanRun ?row' = canon_run D ?r'"
    using row(3) now by (cases r) (auto simp: scanRun_def canon_run_def)
  moreover have "RunStatus_IsTerminal (rr_status row) \<or> rr_completed_at row = None"
    using mirrorsD(2) [OF m] row(1) by (auto simp: runs_shown_def)
  ultimately have "runs_shown D ?rows (AList.update rid ?r' (st_runs s))"
    using row by (intro runs_shown_update [OF mirrorsD(2) [OF m] row(1,2)]) auto
  then have "mirrors D (put_runs ?rows p) (s\<lparr>st_runs := AList.update rid ?r' (st_runs s)\<rparr>)"
    using row by (intro mirrors_update_run [OF m]) simp_all
  with Some show ?thesis
    by (simp add: agrees_def pg ReleaseRun_def)
qed

section \<open>Tasks\<close>

definition in_int4 :: "int \<Rightarrow> bool" where "in_int4 i \<longleftrightarrow> - 2147483648 \<le> i \<and> i \<le> 2147483647"

lemma int4_ok [simp]: "in_int4 i \<Longrightarrow> int4 i = Inr i"
  by (simp add: in_int4_def int4_def)

definition task_fits :: "dialect \<Rightarrow> time \<Rightarrow> Task \<Rightarrow> state \<Rightarrow> bool" where
  "task_fits D now t s \<longleftrightarrow> TaskStatus_Valid (task_Status t) \<and> storable D (jsonOrEmptyObject (task_Payload t))
     \<and> whole D now \<and> in_int4 (task_Attempt t) \<and> in_int4 (task_MaxAttempts t) \<and> task_LastError t = []
     \<and> task_CompletedAt t = None \<and> map_of (st_tasks s) (task_ID t) = None"

lemma task_row:
  assumes "mirrors D p s" "map_of (st_tasks s) tid = Some t"
  obtains row where "row \<in> set (pg_tasks p)" "tr_task_id row = tid" "scanTask row = canon_task D t"
    "with_key tr_task_id tid (pg_tasks p) = [row]" "distinct (map tr_task_id (pg_tasks p))"
proof -
  from assms(1) have tab: "same_table tr_task_id scanTask (canon_task D) (pg_tasks p) (st_tasks s)"
    by (simp add: mirrors_def tasks_shown_def)
  then have "distinct (map tr_task_id (pg_tasks p))" by (simp add: same_table_def)
  with same_table_row [OF tab assms(2)] that show ?thesis by metis
qed

lemma task_row_fields:
  assumes "scanTask row = canon_task D t"
  shows "tr_task_id row = task_ID t" "tr_run_id row = task_RunID t" "tr_step_id row = task_StepID t"
    "tr_status row = task_Status t" "tr_attempt row = task_Attempt t" "tr_completed_at row = task_CompletedAt t"
    "tr_created_at row = task_CreatedAt t"
  using arg_cong [OF assms, of task_ID] arg_cong [OF assms, of task_RunID] arg_cong [OF assms, of task_StepID]
    arg_cong [OF assms, of task_Status] arg_cong [OF assms, of task_Attempt]
    arg_cong [OF assms, of task_CompletedAt] arg_cong [OF assms, of task_CreatedAt]
  by (simp_all add: scanTask_def canon_task_def)

lemma Pg_GetTask_agrees:
  assumes m: "mirrors D p s"
  shows "agrees D (\<lambda>a b. a = canon_task D b) (Pg_GetTask tid) (GetTask tid) p s"
proof (cases "map_of (st_tasks s) tid")
  case None
  with m have "with_key tr_task_id tid (pg_tasks p) = []" by (simp add: with_key_Nil task_known)
  with None m show ?thesis
    by (simp add: agrees_def Pg_GetTask_def GetTask_def pbind_simps sql_query_row_simps mirrorsD)
next
  case (Some t)
  from task_row [OF m Some] obtain row where row: "scanTask row = canon_task D t"
      "with_key tr_task_id tid (pg_tasks p) = [row]" by blast
  with Some m show ?thesis
    by (simp add: agrees_def Pg_GetTask_def GetTask_def pbind_simps sql_query_row_simps mirrorsD(1))
qed

lemma step_known:
  assumes "mirrors D p s"
  shows "list_ex (\<lambda>x. tr_run_id x = r \<and> tr_step_id x = step) (pg_tasks p) \<longleftrightarrow> map_of (st_stepIndex s) (r, step) \<noteq> None"
  using assms by (auto simp: mirrors_def tasks_shown_def map_of_eq_None_iff list_ex_iff image_iff)

lemma step_known_run:
  assumes "mirrors D p s" "map_of (st_stepIndex s) (r, step) \<noteq> None"
  shows "map_of (st_runs s) r \<noteq> None"
proof -
  from step_known [OF assms(1), of r step] assms(2)
  obtain x where x: "x \<in> set (pg_tasks p)" "tr_run_id x = r" by (auto simp: list_ex_iff)
  with mirrorsD(3) [OF assms(1)] have "r \<in> set (map rr_run_id (pg_runs p))"
    by (auto simp: tasks_shown_def)
  with run_in_keys [OF assms(1)] show ?thesis by blast
qed

lemma CreateTask_agrees:
  assumes m: "mirrors D p s" and fits: "task_fits D now t s"
  shows "agrees D (=) (Pg_CreateTask D now t) (CreateTask now t) p s"
proof -
  from fits obtain payload where payload: "jsonb D (jsonOrEmptyObject (task_Payload t)) = Inr (Some payload)"
      "RawJSON payload = canon_payload D (task_Payload t)"
    using jsonb_payload by (metis task_fits_def)
  let ?t = "t\<lparr>task_CreatedAt := now, task_UpdatedAt := now\<rparr>"
  let ?row = "\<lparr>tr_task_id = task_ID t, tr_run_id = task_RunID t, tr_step_id = task_StepID t,
      tr_task_type = task_Type t, tr_payload = payload, tr_status = task_Status t, tr_priority = 0,
      tr_available_at = db_stamp D now, tr_attempt = task_Attempt t, tr_max_attempts = task_MaxAttempts t,
      tr_last_error = None, tr_created_at = db_stamp D now, tr_updated_at = db_stamp D now, tr_completed_at = None\<rparr>"
  from fits m have fresh: "\<not> present tr_task_id (task_ID t) (pg_tasks p)"
    by (simp add: task_known task_fits_def)
  note run = Pg_CreateTask_def sql_insert_ok sql_insert_refused mirrorsD [OF m] payload(1)
    fresh run_known [OF m] step_known [OF m]
  show ?thesis
  proof (cases "map_of (st_runs s) (task_RunID t) \<noteq> None \<and> map_of (st_stepIndex s) (task_RunID t, task_StepID t) = None")
    case False
    with fits step_known_run [OF m, of "task_RunID t" "task_StepID t"] show ?thesis
      by (auto simp: agrees_def CreateTask_def task_fits_def run)
  next
    case True
    with fits have pg: "Pg_CreateTask D now t p = (Inr (), put_tasks (pg_tasks p @ [?row]) p)"
      by (simp add: task_fits_def run)
    from True fits have mem: "CreateTask now t s = (Inr (), s\<lparr>st_tasks := AList.update (task_ID t) ?t (st_tasks s),
        st_stepIndex := AList.update (task_RunID t, task_StepID t) (task_ID t) (st_stepIndex s)\<rparr>)"
      by (simp add: CreateTask_def task_fits_def)
    have scan: "scanTask ?row = canon_task D ?t"
      using fits payload(2) by (cases t) (simp add: scanTask_def canon_task_def task_fits_def)
    have "same_table tr_task_id scanTask (canon_task D) (pg_tasks p @ [?row])
        (AList.update (task_ID t) ?t (st_tasks s))"
      using mirrorsD(3) [OF m] fits scan by (intro same_table_insert) (auto simp: tasks_shown_def task_fits_def)
    moreover have "AList.update (task_RunID t, task_StepID t) (task_ID t) (st_stepIndex s)
        = st_stepIndex s @ [((task_RunID t, task_StepID t), task_ID t)]"
      using True by (intro update_absent) (auto simp: map_of_eq_None_iff)
    moreover have "task_RunID t \<in> set (map rr_run_id (pg_runs p))"
      using True run_in_keys [OF m] by blast
    ultimately have "tasks_shown D (map rr_run_id (pg_runs p)) (pg_tasks p @ [?row])
        (AList.update (task_ID t) ?t (st_tasks s))
        (AList.update (task_RunID t, task_StepID t) (task_ID t) (st_stepIndex s))"
      using mirrorsD(3) [OF m] fits by (auto simp: tasks_shown_def task_fits_def)
    then show ?thesis
      by (auto simp: agrees_def pg mem intro!: mirrors_tasks [OF m])
  qed
qed

definition attempt_fits :: "TaskID \<Rightarrow> state \<Rightarrow> bool" where
  "attempt_fits tid s \<longleftrightarrow> (case map_of (st_tasks s) tid of None \<Rightarrow> True
     | Some t \<Rightarrow> in_int4 (task_Attempt t) \<and> in_int4 (task_Attempt t + 1))"

lemma TransitionTask_agrees:
  assumes m: "mirrors D p s" and now: "whole D now" and fits: "attempt_fits tid s"
  shows "agrees D (=) (Pg_TransitionTask D now tid frm to out) (TransitionTask now tid frm to out) p s"
proof (cases "map_of (st_tasks s) tid")
  case None
  with m have "with_key tr_task_id tid (pg_tasks p) = []" by (simp add: with_key_Nil task_known)
  with None m show ?thesis
    by (simp add: agrees_def Pg_TransitionTask_def TransitionTask_def Let_def pbind_simps sql_query_row_simps mirrorsD)
next
  case (Some t)
  from task_row [OF m Some] obtain row where row: "row \<in> set (pg_tasks p)" "tr_task_id row = tid"
      "scanTask row = canon_task D t" "with_key tr_task_id tid (pg_tasks p) = [row]"
      "distinct (map tr_task_id (pg_tasks p))" by blast
  note fields = task_row_fields [OF row(3)]
  note run = Pg_TransitionTask_def Let_def pbind_simps sql_query_row_simps mirrorsD [OF m] row fields
  show ?thesis
  proof (cases "task_Status t = frm \<and> TaskStatus_CanTransitionTo frm to")
    case False
    with Some show ?thesis by (auto simp: agrees_def TransitionTask_def run)
  next
    case True
    let ?row' = "row\<lparr>tr_status := to, tr_attempt := task_Attempt t + (if to = TaskRunning then 1 else 0),
        tr_last_error := coalesce (nullIfEmpty (to_Error out)) (tr_last_error row), tr_updated_at := db_stamp D now,
        tr_completed_at := (if TaskStatus_IsTerminal to then Some (db_stamp D now) else None)\<rparr>"
    let ?rows = "map (\<lambda>r. if tr_task_id r = tid then ?row' else r) (pg_tasks p)"
    have P: "tr_task_id x = tid \<and> tr_status x = frm \<longleftrightarrow> tr_task_id x = tid" if "x \<in> set (pg_tasks p)" for x
      using with_key_unique [OF row(5) that] row True fields by auto
    from fits Some have small: "in_int4 (task_Attempt t)" "in_int4 (task_Attempt t + 1)"
      by (simp_all add: attempt_fits_def)
    have up: "sql_update (Inr ()) pg_tasks put_tasks (\<lambda>r. tr_task_id r = tid \<and> tr_status r = frm)
        (\<lambda>_ r. and_then (int4 (tr_attempt r + (if to = TaskRunning then 1 else 0))) (\<lambda>attempt.
          Inr (r\<lparr>tr_status := to, tr_attempt := attempt,
             tr_last_error := coalesce (nullIfEmpty (to_Error out)) (tr_last_error r),
             tr_updated_at := db_stamp D now,
             tr_completed_at := (if TaskStatus_IsTerminal to then Some (db_stamp D now) else None)\<rparr>))) p
        = (Inr 1, put_tasks ?rows p)"
      using True fields row P small
      by (intro sql_update_row [where key = tr_task_id and row = row and k = tid])
        (simp_all add: mirrorsD [OF m])
    have pg: "Pg_TransitionTask D now tid frm to out p = (Inr (), put_tasks ?rows p)"
      using True up by (auto simp: run)
    have mem: "TransitionTask now tid frm to out s = (Inr (), s\<lparr>st_tasks := AList.update tid (move_task now to out t) (st_tasks s)\<rparr>)"
      using Some True by (auto simp: TransitionTask_def)
    from mirrorsD(3) [OF m] have shown: "tasks_shown D (map rr_run_id (pg_runs p)) (pg_tasks p) (st_tasks s) (st_stepIndex s)" .
    then have cols: "tr_run_id row \<in> set (map rr_run_id (pg_runs p))" "tr_priority row = 0"
        "TaskStatus_Valid to"
        "\<not> TaskStatus_IsTerminal (tr_status row) \<Longrightarrow> tr_completed_at row = None"
      using row(1) True task_machine.can_valid [of frm to] by (simp_all add: tasks_shown_def)
    have "\<not> TaskStatus_IsTerminal frm"
      using True by (auto simp: TaskStatus_CanTransitionTo_def split: if_splits)
    with cols(4) fields True have open_task: "task_CompletedAt t = None" by simp
    have wrap: "wrap64 (task_Attempt t + 1) = task_Attempt t + 1"
      using small by (intro wrap64_id) (simp add: in_int4_def in_int64_def min_int64_def max_int64_def)
    have "scanTask ?row' = canon_task D (move_task now to out t)"
      using row(3) now open_task wrap by (cases t) (auto simp: scanTask_def canon_task_def move_task_def)
    then have "same_table tr_task_id scanTask (canon_task D) ?rows (AList.update tid (move_task now to out t) (st_tasks s))"
      using row shown by (intro same_table_update) (auto simp: tasks_shown_def)
    moreover have "map (\<lambda>r. ((tr_run_id r, tr_step_id r), tr_task_id r)) ?rows
        = map (\<lambda>r. ((tr_run_id r, tr_step_id r), tr_task_id r)) (pg_tasks p)"
      using same_row [OF row(5) _ row(1)] row(2) by auto
    ultimately have "tasks_shown D (map rr_run_id (pg_runs p)) ?rows
        (AList.update tid (move_task now to out t) (st_tasks s)) (st_stepIndex s)"
      using shown cols unfolding tasks_shown_def by auto
    then have "mirrors D (put_tasks ?rows p)
        (s\<lparr>st_tasks := AList.update tid (move_task now to out t) (st_tasks s), st_stepIndex := st_stepIndex s\<rparr>)"
      by (rule mirrors_tasks [OF m])
    then show ?thesis
      by (simp add: agrees_def pg mem)
  qed
qed

section \<open>Events\<close>

lemma events_rows:
  assumes "mirrors D p s"
  shows "map scanEvent (with_key er_run_id r (pg_events p)) = map (canon_event D) (events_of s r)"
  using assms by (simp add: mirrors_def events_shown_def events_of_stored)

lemma max_seq_fold: "max_seq m es = fold max (map ev_Seq es) m"
  by (induction es arbitrary: m) (auto simp: max_def intro: arg_cong [where f = "fold _ _"])

lemma max_of_fold: "(\<And>x. x \<in> set xs \<Longrightarrow> 0 < x) \<Longrightarrow> max_of xs = fold max xs 0"
proof (cases xs)
  case (Cons a ys)
  assume "\<And>x. x \<in> set xs \<Longrightarrow> 0 < x"
  with Cons have "0 < a" by simp
  with Cons show ?thesis by (simp add: max_of_def max_def)
qed (simp add: max_of_def)

lemma seqs_rows:
  assumes "mirrors D p s"
  shows "map er_seq (with_key er_run_id r (pg_events p)) = map ev_Seq (events_of s r)"
proof -
  have "map er_seq (with_key er_run_id r (pg_events p)) = map ev_Seq (map scanEvent (with_key er_run_id r (pg_events p)))"
    by (simp add: scanEvent_def)
  also have "\<dots> = map ev_Seq (events_of s r)"
    by (simp add: events_rows [OF assms] canon_event_def)
  finally show ?thesis .
qed

lemma max_rows:
  assumes "mirrors D p s"
  shows "max_of (map er_seq (with_key er_run_id r (pg_events p))) = max_seq 0 (events_of s r)"
proof -
  have "max_of (map er_seq (with_key er_run_id r (pg_events p))) = fold max (map er_seq (with_key er_run_id r (pg_events p))) 0"
    using mirrorsD(4) [OF assms] by (intro max_of_fold) (auto simp: events_shown_def with_key_def)
  then show ?thesis by (simp only: seqs_rows [OF assms] max_seq_fold)
qed

definition seq_fits :: "RunID \<Rightarrow> state \<Rightarrow> bool" where
  "seq_fits rid s \<longleftrightarrow> max_seq 0 (events_of s rid) < max_int64"

lemma max_seq_ge: "m \<le> max_seq m es"
  by (induction es arbitrary: m) (auto, meson less_imp_le order_trans)

lemma NextSeq_agrees:
  assumes m: "mirrors D p s" and fits: "seq_fits rid s"
  shows "agrees D (=) (Pg_NextSeq rid) (NextSeq rid) p s"
proof (cases "map_of (st_runs s) rid")
  case None
  with m have "with_key rr_run_id rid (pg_runs p) = []" by (simp add: with_key_Nil run_known)
  with None m show ?thesis
    by (simp add: agrees_def Pg_NextSeq_def NextSeq_def Let_def pbind_simps sql_query_def exec_stmt_def mirrorsD)
next
  case (Some r)
  with m have "with_key rr_run_id rid (pg_runs p) \<noteq> []" by (simp add: with_key_Nil run_known)
  moreover have "0 \<le> max_seq 0 (events_of s rid)" by (rule max_seq_ge)
  ultimately show ?thesis
    using Some m fits
    by (simp add: agrees_def Pg_NextSeq_def NextSeq_def Let_def pbind_simps sql_query_def exec_stmt_def mirrorsD(1)
        max_rows [OF m] seq_fits_def int8_def in_int64_def min_int64_def max_int64_def incr64_eq)
qed

definition event_fits :: "dialect \<Rightarrow> time \<Rightarrow> Event \<Rightarrow> bool" where
  "event_fits D now e \<longleftrightarrow> storable D (jsonOrEmptyObject (ev_Payload e)) \<and> whole D now \<and> 0 < ev_Seq e"

lemma stored_update: "stored_events (AList.update r es m) r' = (if r' = r then es else stored_events m r')"
  by (simp add: stored_events_def)

lemma AppendEvent_agrees:
  assumes m: "mirrors D p s" and fits: "event_fits D now e"
  shows "agrees D (=) (Pg_AppendEvent D now e) (AppendEvent now e) p s"
proof -
  from fits obtain payload where payload: "jsonb D (jsonOrEmptyObject (ev_Payload e)) = Inr (Some payload)"
      "RawJSON payload = canon_payload D (ev_Payload e)"
    using jsonb_payload by (metis event_fits_def)
  let ?r = "ev_RunID e"
  let ?row = "\<lparr>er_run_id = ?r, er_seq = ev_Seq e, er_event_type = ev_Type e,
      er_step_id = nullIfEmpty (ev_StepID e), er_payload = payload, er_created_at = db_stamp D now\<rparr>"
  have taken: "list_ex (\<lambda>x. er_run_id x = ?r \<and> er_seq x = ev_Seq e) (pg_events p)
      \<longleftrightarrow> list_ex (\<lambda>x. ev_Seq x = ev_Seq e) (events_of s ?r)"
  proof -
    have "list_ex (\<lambda>x. er_run_id x = ?r \<and> er_seq x = ev_Seq e) (pg_events p)
        \<longleftrightarrow> ev_Seq e \<in> set (map er_seq (with_key er_run_id ?r (pg_events p)))"
      by (force simp: list_ex_iff with_key_def)
    also have "\<dots> \<longleftrightarrow> list_ex (\<lambda>x. ev_Seq x = ev_Seq e) (events_of s ?r)"
      unfolding seqs_rows [OF m] list_ex_iff set_map image_iff by metis
    finally show ?thesis .
  qed
  note run = Pg_AppendEvent_def sql_insert_ok sql_insert_refused mirrorsD [OF m] payload(1) taken run_known [OF m]
  have orphan: "map_of (st_runs s) ?r = None \<Longrightarrow> events_of s ?r = []"
  proof -
    assume "map_of (st_runs s) ?r = None"
    with run_in_keys [OF m] have "?r \<notin> set (map rr_run_id (pg_runs p))" by blast
    with mirrorsD(4) [OF m] have "with_key er_run_id ?r (pg_events p) = []"
      unfolding events_shown_def with_key_def filter_empty_conv by metis
    with events_rows [OF m, of ?r] show ?thesis by simp
  qed
  show ?thesis
  proof (cases "map_of (st_runs s) ?r \<noteq> None \<and> \<not> list_ex (\<lambda>x. ev_Seq x = ev_Seq e) (events_of s ?r)")
    case False
    then show ?thesis
      using orphan by (cases "map_of (st_runs s) ?r") (auto simp: agrees_def AppendEvent_def run)
  next
    case True
    then have pg: "Pg_AppendEvent D now e p = (Inr (), p\<lparr>pg_events := pg_events p @ [?row]\<rparr>)"
      by (simp add: run)
    let ?evs = "AList.update ?r (events_of s ?r @ [e\<lparr>ev_CreatedAt := now\<rparr>]) (st_events s)"
    from True have mem: "AppendEvent now e s = (Inr (), s\<lparr>st_events := ?evs\<rparr>)"
      by (auto simp: AppendEvent_def)
    have scan: "scanEvent ?row = canon_event D (e\<lparr>ev_CreatedAt := now\<rparr>)"
      using fits payload(2) by (cases e) (simp add: scanEvent_def canon_event_def event_fits_def)
    have "?r \<in> set (map rr_run_id (pg_runs p))"
      using True run_in_keys [OF m] by blast
    moreover have "map scanEvent (with_key er_run_id r (pg_events p @ [?row])) = map (canon_event D) (stored_events ?evs r)" for r
      using events_rows [OF m, of r] scan by (auto simp: stored_update events_of_stored with_key_def)
    ultimately have "events_shown D (map rr_run_id (pg_runs p)) (pg_events p @ [?row]) ?evs"
      using mirrorsD(4) [OF m] fits by (auto simp: events_shown_def event_fits_def)
    then show ?thesis
      by (auto simp: agrees_def pg mem intro!: mirrors_events [OF m])
  qed
qed

text \<open>core.Append: the number is read and used in the same transaction.\<close>

definition append_fits :: "dialect \<Rightarrow> time \<Rightarrow> RunID \<Rightarrow> EventType \<Rightarrow> StepID \<Rightarrow> EventData \<Rightarrow> state \<Rightarrow> bool" where
  "append_fits D now rid typ step data s \<longleftrightarrow> seq_fits rid s \<and> whole D now
     \<and> (case NewEvent rid (incr64 (max_seq 0 (events_of s rid))) typ step data of
          Inl _ \<Rightarrow> True | Inr ev \<Rightarrow> storable D (jsonOrEmptyObject (ev_Payload ev)))"

lemma Append_agrees:
  assumes m: "mirrors D p s" and fits: "append_fits D now rid typ step data s"
  shows "agrees D (=) (Pg_Append D now rid typ step data) (Append now rid typ step data) p s"
  unfolding Pg_Append_def Append_def
proof (rule agrees_bind [OF NextSeq_agrees [OF m]])
  from fits show "seq_fits rid s" by (simp add: append_fits_def)
  fix x y p' s'
  assume x: "x = y" and next_seq: "NextSeq rid s = (Inr y, s')" and m': "mirrors D p' s'"
  from next_seq have y: "y = incr64 (max_seq 0 (events_of s rid))" "s' = s"
    by (auto simp: NextSeq_def split: option.splits)
  show "agrees D (=) (case NewEvent rid x typ step data of Inl err \<Rightarrow> perror err | Inr ev \<Rightarrow> Pg_AppendEvent D now ev)
      (case NewEvent rid y typ step data of Inl err \<Rightarrow> tx_error err | Inr ev \<Rightarrow> AppendEvent now ev) p' s'"
  proof (cases "NewEvent rid y typ step data")
    case (Inl err)
    with x m' show ?thesis
      by (simp add: agrees_def tx_error_def mirrorsD)
  next
    case (Inr ev)
    have "0 \<le> max_seq 0 (events_of s rid)" by (rule max_seq_ge)
    with fits y have "0 < y" by (simp add: append_fits_def seq_fits_def incr64_eq)
    with Inr have "0 < ev_Seq ev" by (auto dest: NewEvent_fields)
    with fits y Inr have "event_fits D now ev" by (simp add: event_fits_def append_fits_def)
    with x Inr AppendEvent_agrees [OF m'] show ?thesis by simp
  qed
qed

end
