(* ===== verification/AgreementOps.thy ===== *)
theory AgreementOps
  imports Agreement
begin

text \<open>
  The agreement of the two stores, continued from theory Agreement: the effect ledger, signals,
  workers and leases, and the outbox.
\<close>

section \<open>Effects\<close>

definition effect_fits :: "dialect \<Rightarrow> time \<Rightarrow> Effect \<Rightarrow> state \<Rightarrow> bool" where
  "effect_fits D now e s \<longleftrightarrow> EffectStatus_Valid (eff_Status e) \<and> EffectClass_Valid (eff_Class e)
     \<and> storable D (eff_Request e) \<and> whole D now \<and> eff_Response e = RawNil \<and> eff_ExternalRef e = []
     \<and> eff_LastError e = [] \<and> eff_CommittedAt e = None
     \<and> list_all (\<lambda>(k, x). eff_ID x \<noteq> eff_ID e) (st_effects s)
     \<and> (map_of (st_effects s) (eff_Key e) = None \<or> has (st_runs s) (eff_RunID e) \<and> has (st_tasks s) (eff_TaskID e))"

lemma effect_known: "mirrors D p s \<Longrightarrow> present fr_idempotency_key k (pg_effects p) \<longleftrightarrow> map_of (st_effects s) k \<noteq> None"
  by (auto simp: mirrors_def dest: same_table_present)

lemma effect_ids:
  assumes "mirrors D p s"
  shows "present fr_effect_id i (pg_effects p) \<longleftrightarrow> \<not> list_all (\<lambda>(k, x). eff_ID x \<noteq> i) (st_effects s)"
proof -
  from mirrorsD(5) [OF assms] have "map (\<lambda>r. (fr_idempotency_key r, scanEffect r)) (pg_effects p) = canon_map (canon_effect D) (st_effects s)"
    by (simp add: same_table_def)
  then have "map eff_ID (map snd (map (\<lambda>r. (fr_idempotency_key r, scanEffect r)) (pg_effects p)))
      = map eff_ID (map snd (canon_map (canon_effect D) (st_effects s)))" by simp
  then have ids: "map fr_effect_id (pg_effects p) = map (\<lambda>(k, x). eff_ID x) (st_effects s)"
    by (simp add: comp_def scanEffect_def canon_map_def canon_effect_def case_prod_beta)
  have "present fr_effect_id i (pg_effects p) \<longleftrightarrow> i \<in> set (map fr_effect_id (pg_effects p))"
    by (rule present_iff)
  also have "\<dots> \<longleftrightarrow> \<not> list_all (\<lambda>(k, x). eff_ID x \<noteq> i) (st_effects s)"
    unfolding ids by (force simp: list_all_iff)
  finally show ?thesis .
qed

lemma effect_row:
  assumes "mirrors D p s" "map_of (st_effects s) k = Some e"
  obtains row where "row \<in> set (pg_effects p)" "fr_idempotency_key row = k" "scanEffect row = canon_effect D e"
    "with_key fr_idempotency_key k (pg_effects p) = [row]" "distinct (map fr_idempotency_key (pg_effects p))"
    "fr_status row = eff_Status e"
proof -
  from mirrorsD(5) [OF assms(1)] have tab: "same_table fr_idempotency_key scanEffect (canon_effect D) (pg_effects p) (st_effects s)" .
  then have d: "distinct (map fr_idempotency_key (pg_effects p))" by (simp add: same_table_def)
  from same_table_row [OF tab assms(2)] obtain row where row: "row \<in> set (pg_effects p)" "fr_idempotency_key row = k"
      "scanEffect row = canon_effect D e" "with_key fr_idempotency_key k (pg_effects p) = [row]" by metis
  from arg_cong [OF row(3), of eff_Status] have "fr_status row = eff_Status e"
    by (simp add: scanEffect_def canon_effect_def)
  with row d show ?thesis by (intro that [of row])
qed

lemma Pg_GetEffect_agrees:
  assumes m: "mirrors D p s"
  shows "agrees D (\<lambda>a b. a = canon_effect D b) (Pg_GetEffect k) (GetEffect k) p s"
proof (cases "map_of (st_effects s) k")
  case None
  with m have "with_key fr_idempotency_key k (pg_effects p) = []" by (simp add: with_key_Nil effect_known)
  with None m show ?thesis
    by (simp add: agrees_def Pg_GetEffect_def GetEffect_def pbind_simps sql_query_row_simps mirrorsD)
next
  case (Some e)
  from effect_row [OF m Some] obtain row where row: "scanEffect row = canon_effect D e"
      "with_key fr_idempotency_key k (pg_effects p) = [row]" by blast
  with Some m show ?thesis
    by (simp add: agrees_def Pg_GetEffect_def GetEffect_def pbind_simps sql_query_row_simps mirrorsD(1))
qed

lemma ReserveEffect_agrees:
  assumes m: "mirrors D p s" and fits: "effect_fits D now e s"
  shows "agrees D (=) (Pg_ReserveEffect D now e) (ReserveEffect now e) p s"
proof -
  from fits obtain request where request: "jsonb D (jsonOrNull (eff_Request e)) = Inr request"
      "rawOrNil request = canon_raw D (eff_Request e)"
    using jsonb_null by (metis effect_fits_def)
  let ?e = "e\<lparr>eff_CreatedAt := now, eff_UpdatedAt := now\<rparr>"
  let ?row = "\<lparr>fr_effect_id = eff_ID e, fr_task_id = eff_TaskID e, fr_run_id = eff_RunID e,
      fr_effect_type = eff_Type e, fr_effect_class = eff_Class e, fr_idempotency_key = eff_Key e,
      fr_status = eff_Status e, fr_request = request, fr_response = None, fr_external_ref = None,
      fr_last_error = None, fr_created_at = db_stamp D now, fr_updated_at = db_stamp D now, fr_committed_at = None\<rparr>"
  from fits m have fresh: "\<not> present fr_effect_id (eff_ID e) (pg_effects p)"
    by (simp add: effect_ids effect_fits_def)
  note run = Pg_ReserveEffect_def sql_insert_ok sql_insert_refused mirrorsD [OF m] request(1)
    fresh run_known [OF m] task_known [OF m] effect_known [OF m]
  show ?thesis
  proof (cases "map_of (st_runs s) (eff_RunID e) \<noteq> None \<and> map_of (st_tasks s) (eff_TaskID e) \<noteq> None
      \<and> map_of (st_effects s) (eff_Key e) = None")
    case False
    with fits show ?thesis
      by (auto simp: agrees_def ReserveEffect_def effect_fits_def has_def run)
  next
    case True
    with fits have pg: "Pg_ReserveEffect D now e p = (Inr (), put_effects (pg_effects p @ [?row]) p)"
      by (simp add: effect_fits_def run)
    from True fits have mem: "ReserveEffect now e s = (Inr (), s\<lparr>st_effects := AList.update (eff_Key e) ?e (st_effects s)\<rparr>)"
      by (simp add: ReserveEffect_def effect_fits_def)
    have "scanEffect ?row = canon_effect D ?e"
      using fits request(2) by (cases e) (simp add: scanEffect_def canon_effect_def effect_fits_def canon_raw_def)
    with True have "same_table fr_idempotency_key scanEffect (canon_effect D) (pg_effects p @ [?row])
        (AList.update (eff_Key e) ?e (st_effects s))"
      using mirrorsD(5) [OF m] by (intro same_table_insert) simp_all
    then show ?thesis
      by (auto simp: agrees_def pg mem intro!: mirrors_effects [OF m])
  qed
qed

lemma coalesce_if: "coalesce (if c then Some x else None) v = (if c then Some x else v)"
  by (simp add: coalesce_def)

lemma TransitionEffect_agrees:
  assumes m: "mirrors D p s" and now: "whole D now" and fits: "storable D (eo_Response out)"
  shows "agrees D (=) (Pg_TransitionEffect D now k frm to out) (TransitionEffect now k frm to out) p s"
proof (cases "map_of (st_effects s) k")
  case None
  with m have "with_key fr_idempotency_key k (pg_effects p) = []" by (simp add: with_key_Nil effect_known)
  with None m show ?thesis
    by (simp add: agrees_def Pg_TransitionEffect_def TransitionEffect_def Let_def pbind_simps sql_query_row_simps mirrorsD)
next
  case (Some e)
  from effect_row [OF m Some] obtain row where row: "row \<in> set (pg_effects p)" "fr_idempotency_key row = k"
      "scanEffect row = canon_effect D e" "with_key fr_idempotency_key k (pg_effects p) = [row]"
      "distinct (map fr_idempotency_key (pg_effects p))" "fr_status row = eff_Status e" by blast
  note run = Pg_TransitionEffect_def Let_def pbind_simps sql_query_row_simps mirrorsD(1) [OF m] row
  show ?thesis
  proof (cases "eff_Status e = frm \<and> EffectStatus_CanTransitionTo frm to")
    case False
    with Some m show ?thesis by (auto simp: agrees_def TransitionEffect_def run mirrorsD(10))
  next
    case True
    from fits obtain response where response: "jsonb D (jsonOrNull (eo_Response out)) = Inr response"
        "rawOrNil response = canon_raw D (eo_Response out)"
      using jsonb_null by blast
    have absent: "response = None \<longleftrightarrow> eo_Response out = RawNil"
      using jsonb_null_nil [OF fits] response(1) by auto
    let ?row' = "row\<lparr>fr_status := to, fr_response := coalesce response (fr_response row),
        fr_external_ref := coalesce (nullIfEmpty (eo_ExternalRef out)) (fr_external_ref row),
        fr_last_error := coalesce (nullIfEmpty (eo_Error out)) (fr_last_error row), fr_updated_at := db_stamp D now,
        fr_committed_at := coalesce (if to = EffectCommitted then Some (db_stamp D now) else None) (fr_committed_at row)\<rparr>"
    let ?rows = "map (\<lambda>r. if fr_idempotency_key r = k then ?row' else r) (pg_effects p)"
    have P: "fr_idempotency_key x = k \<and> fr_status x = frm \<longleftrightarrow> fr_idempotency_key x = k" if "x \<in> set (pg_effects p)" for x
      using same_row [OF row(5) that row(1)] row True by auto
    have up: "sql_update (jsonb D (jsonOrNull (eo_Response out))) pg_effects put_effects
        (\<lambda>r. fr_idempotency_key r = k \<and> fr_status r = frm)
        (\<lambda>response r. Inr (r\<lparr>fr_status := to, fr_response := coalesce response (fr_response r),
           fr_external_ref := coalesce (nullIfEmpty (eo_ExternalRef out)) (fr_external_ref r),
           fr_last_error := coalesce (nullIfEmpty (eo_Error out)) (fr_last_error r),
           fr_updated_at := db_stamp D now,
           fr_committed_at := coalesce (if to = EffectCommitted then Some (db_stamp D now) else None)
             (fr_committed_at r)\<rparr>)) p = (Inr 1, put_effects ?rows p)"
      using row P response(1)
      by (intro sql_update_row [where key = fr_idempotency_key and row = row and k = k])
        (simp_all add: mirrorsD(1) [OF m])
    have pg: "Pg_TransitionEffect D now k frm to out p = (Inr (), put_effects ?rows p)"
      using True up by (auto simp: run)
    have mem: "TransitionEffect now k frm to out s = (Inr (), s\<lparr>st_effects := AList.update k (move_effect now to out e) (st_effects s)\<rparr>)"
      using Some True by (auto simp: TransitionEffect_def)
    have "rawOrNil (coalesce response (fr_response row)) =
        (if eo_Response out \<noteq> RawNil then canon_raw D (eo_Response out) else rawOrNil (fr_response row))"
      using absent response(2) by (auto simp: coalesce_def split: option.splits)
    then have "scanEffect ?row' = canon_effect D (move_effect now to out e)"
      using row(3) now by (cases e) (auto simp: scanEffect_def canon_effect_def move_effect_def coalesce_if)
    then have "same_table fr_idempotency_key scanEffect (canon_effect D) ?rows (AList.update k (move_effect now to out e) (st_effects s))"
      using row mirrorsD(5) [OF m] by (intro same_table_update) auto
    then have "mirrors D (put_effects ?rows p) (s\<lparr>st_effects := AList.update k (move_effect now to out e) (st_effects s)\<rparr>)"
      by (rule mirrors_effects [OF m])
    then show ?thesis
      by (simp add: agrees_def pg mem)
  qed
qed

section \<open>Signals\<close>

lemma RecordSignal_agrees:
  assumes m: "mirrors D p s" and now: "whole D now" and fits: "storable D (sig_Payload sg)"
  shows "agrees D (=) (Pg_RecordSignal D now sg) (RecordSignal now sg) p s"
proof -
  from fits obtain payload where payload: "jsonb D (jsonOrNull (sig_Payload sg)) = Inr payload"
      "rawOrNil payload = canon_raw D (sig_Payload sg)"
    using jsonb_null by blast
  let ?k = "(sig_RunID sg, sig_ID sg)"
  let ?sg = "sg\<lparr>sig_CreatedAt := now\<rparr>"
  let ?row = "\<lparr>sr_run_id = sig_RunID sg, sr_signal_id = sig_ID sg, sr_name = sig_Name sg,
      sr_payload = payload, sr_created_at = db_stamp D now\<rparr>"
  from mirrorsD(8) [OF m] have tab: "same_table (\<lambda>r. (sr_run_id r, sr_signal_id r)) scanSignal (canon_signal D) (pg_signals p) (st_signals s)"
    and fk: "\<And>r. r \<in> set (pg_signals p) \<Longrightarrow> sr_run_id r \<in> set (map rr_run_id (pg_runs p))"
    by (simp_all add: signals_shown_def)
  from same_table_present [OF tab, of ?k]
  have taken: "list_ex (\<lambda>x. sr_run_id x = sig_RunID sg \<and> sr_signal_id x = sig_ID sg) (pg_signals p)
      \<longleftrightarrow> map_of (st_signals s) ?k \<noteq> None"
    by (simp add: present_def)
  have orphan: "map_of (st_runs s) (sig_RunID sg) = None \<Longrightarrow> map_of (st_signals s) ?k = None"
    using taken fk run_in_keys [OF m, of "sig_RunID sg"] unfolding list_ex_iff by metis
  note run = Pg_RecordSignal_def sql_insert_ok sql_insert_refused mirrorsD [OF m] payload(1) taken run_known [OF m]
  show ?thesis
  proof (cases "map_of (st_runs s) (sig_RunID sg) \<noteq> None \<and> map_of (st_signals s) ?k = None")
    case False
    with orphan show ?thesis by (auto simp: agrees_def RecordSignal_def run)
  next
    case True
    then have pg: "Pg_RecordSignal D now sg p = (Inr (), p\<lparr>pg_signals := pg_signals p @ [?row]\<rparr>)"
      by (simp add: run)
    from True have mem: "RecordSignal now sg s = (Inr (), s\<lparr>st_signals := AList.update ?k ?sg (st_signals s)\<rparr>)"
      by (simp add: RecordSignal_def)
    have "scanSignal ?row = canon_signal D ?sg"
      using now payload(2) by (cases sg) (simp add: scanSignal_def canon_signal_def)
    with True tab have "same_table (\<lambda>r. (sr_run_id r, sr_signal_id r)) scanSignal (canon_signal D)
        (pg_signals p @ [?row]) (AList.update ?k ?sg (st_signals s))"
      by (intro same_table_insert) simp_all
    moreover have "sig_RunID sg \<in> set (map rr_run_id (pg_runs p))"
      using True run_in_keys [OF m] by blast
    ultimately have "signals_shown D (map rr_run_id (pg_runs p)) (pg_signals p @ [?row]) (AList.update ?k ?sg (st_signals s))"
      using fk by (auto simp: signals_shown_def)
    then show ?thesis
      by (auto simp: agrees_def pg mem intro!: mirrors_signals [OF m])
  qed
qed

section \<open>The outbox\<close>

definition delivery_fits :: "dialect \<Rightarrow> time \<Rightarrow> TaskID \<Rightarrow> time \<Rightarrow> state \<Rightarrow> bool" where
  "delivery_fits D now tid availableAt s \<longleftrightarrow> map_of (st_tasks s) tid \<noteq> None \<and> whole D now
     \<and> (time_IsZero availableAt \<or> whole D availableAt) \<and> storable D (EncodeDelivery tid)
     \<and> st_deliverySeq s < max_int64"

lemma jsonb_delivery: "storable D (EncodeDelivery tid) \<Longrightarrow> \<exists>j. jsonb D (EncodeDelivery tid) = Inr (Some j)"
  by (auto simp: EncodeDelivery_def struct_def field_defs storable_def jsonb_def split: option.splits)

lemma mirrors_outbox:
  "mirrors D p s \<Longrightarrow> outbox_shown rows n m pub n'
     \<Longrightarrow> mirrors D (p\<lparr>pg_outbox := rows, pg_outbox_seq := n\<rparr>)
           (s\<lparr>st_deliveries := m, st_published := pub, st_deliverySeq := n'\<rparr>)"
  by (simp add: mirrors_def)

lemma EnqueueDelivery_agrees:
  assumes m: "mirrors D p s" and fits: "delivery_fits D now tid availableAt s"
  shows "agrees D (=) (Pg_EnqueueDelivery D now tid availableAt) (EnqueueDelivery now tid availableAt) p s"
proof -
  from fits obtain payload where payload: "jsonb D (EncodeDelivery tid) = Inr (Some payload)"
    using jsonb_delivery by (metis delivery_fits_def)
  let ?n = "st_deliverySeq s + 1"
  let ?d = "\<lparr>del_ID = ?n, del_TaskID = tid, del_Attempts = 0, del_LastError = [], del_CreatedAt = now,
      del_AvailableAt = availableAt\<rparr>"
  let ?row = "\<lparr>or_outbox_id = ?n, or_task_id = tid, or_subject = ''veya.tasks.work'', or_payload = payload,
      or_published_at = None, or_attempts = 0, or_last_error = None, or_created_at = db_stamp D now,
      or_available_at = (if time_IsZero availableAt then None else Some (db_stamp D availableAt))\<rparr>"
  from mirrorsD(9) [OF m] have tab: "same_table or_outbox_id scanDelivery (\<lambda>d. d) (pg_outbox p) (st_deliveries s)"
    and n: "pg_outbox_seq p = st_deliverySeq s" "0 \<le> st_deliverySeq s"
    and ids: "\<And>r. r \<in> set (pg_outbox p) \<Longrightarrow> or_outbox_id r \<le> st_deliverySeq s"
    and pub: "\<And>i. map_of (st_published s) i = Some True \<Longrightarrow> i \<le> st_deliverySeq s"
    by (auto simp: outbox_shown_def)
  from fits n have "in_int64 ?n" by (simp add: delivery_fits_def in_int64_def min_int64_def)
  moreover from fits m have "present tr_task_id tid (pg_tasks p)" by (simp add: task_known delivery_fits_def)
  ultimately have pg: "Pg_EnqueueDelivery D now tid availableAt p
      = (Inr (), p\<lparr>pg_outbox := pg_outbox p @ [?row], pg_outbox_seq := ?n\<rparr>)"
    using payload n by (simp add: Pg_EnqueueDelivery_def insert_delivery_def exec_stmt_def mirrorsD(1) [OF m] int8_def Let_def)
  from fits n have mem: "EnqueueDelivery now tid availableAt s
      = (Inr (), s\<lparr>st_deliveries := AList.update ?n ?d (st_deliveries s), st_published := st_published s, st_deliverySeq := ?n\<rparr>)"
    by (auto simp: EnqueueDelivery_def delivery_fits_def incr64_eq Let_def)
  have absent: "map_of (st_deliveries s) ?n = None"
    using same_table_present [OF tab, of ?n] ids by (force simp: present_def list_ex_iff)
  have unpublished: "map_of (st_published s) ?n \<noteq> Some True"
    using pub [of ?n] by auto
  have "scanDelivery ?row = ?d"
    using fits by (auto simp: scanDelivery_def delivery_fits_def time_IsZero_def)
  with absent tab have "same_table or_outbox_id scanDelivery (\<lambda>d. d) (pg_outbox p @ [?row])
      (AList.update ?n ?d (st_deliveries s))"
    by (intro same_table_insert) simp_all
  then have "outbox_shown (pg_outbox p @ [?row]) ?n (AList.update ?n ?d (st_deliveries s)) (st_published s) ?n"
    using mirrorsD(9) [OF m] unpublished by (force simp: outbox_shown_def)
  then have "mirrors D (p\<lparr>pg_outbox := pg_outbox p @ [?row], pg_outbox_seq := ?n\<rparr>)
      (s\<lparr>st_deliveries := AList.update ?n ?d (st_deliveries s), st_published := st_published s, st_deliverySeq := ?n\<rparr>)"
    by (rule mirrors_outbox [OF m])
  then show ?thesis
    by (simp add: agrees_def pg mem)
qed

text \<open>A delivery for a task that does not exist is refused by both, but the sequence has moved.\<close>

lemma EnqueueDelivery_orphan:
  assumes m: "mirrors D p s" and "map_of (st_tasks s) tid = None" "storable D (EncodeDelivery tid)"
    "st_deliverySeq s < max_int64"
  shows "\<exists>e e' q. Pg_EnqueueDelivery D now tid availableAt p = (Inl e, q) \<and> err_chain e = [ErrNotFound]
     \<and> pg_outbox_seq q = pg_outbox_seq p + 1 \<and> EnqueueDelivery now tid availableAt s = (Inl e', s)
     \<and> err_chain e' = [ErrNotFound]"
proof -
  from assms obtain payload where payload: "jsonb D (EncodeDelivery tid) = Inr (Some payload)"
    using jsonb_delivery by metis
  from mirrorsD(9) [OF m] have n: "pg_outbox_seq p = st_deliverySeq s" "0 \<le> st_deliverySeq s"
    by (simp_all add: outbox_shown_def)
  with assms have "in_int64 (st_deliverySeq s + 1)" by (simp add: in_int64_def min_int64_def)
  moreover from assms have "\<not> present tr_task_id tid (pg_tasks p)" by (simp add: task_known)
  ultimately show ?thesis
    using assms(2) payload n
    by (simp add: Pg_EnqueueDelivery_def EnqueueDelivery_def insert_delivery_def exec_stmt_def mirrorsD(1) [OF m] int8_def Let_def)
qed

lemma mark_published: "map_of (foldl (\<lambda>m i. AList.update i True m) pub ids) j = (if j \<in> set ids then Some True else map_of pub j)"
  by (induction ids arbitrary: pub) auto

lemma update_where_all:
  "update_where P (\<lambda>r. Inr (g r)) rows = Inr (map (\<lambda>r. if P r then g r else r) rows, int (length (filter P rows)))"
  by (induction rows) auto

lemma MarkDelivered_agrees:
  assumes m: "mirrors D p s" and fits: "list_all (\<lambda>i. i \<le> st_deliverySeq s) ids"
  shows "agrees D (=) (Pg_MarkDelivered D now ids) (MarkDelivered ids) p s"
proof (cases "ids = []")
  case True
  with m show ?thesis by (simp add: agrees_def Pg_MarkDelivered_def MarkDelivered_def)
next
  case False
  let ?g = "\<lambda>r. if or_outbox_id r \<in> set ids then r\<lparr>or_published_at := Some (db_stamp D now)\<rparr> else r"
  let ?pub = "foldl (\<lambda>m i. AList.update i True m) (st_published s) ids"
  from False have pg: "Pg_MarkDelivered D now ids p
      = (Inr (), p\<lparr>pg_outbox := map ?g (pg_outbox p), pg_outbox_seq := pg_outbox_seq p\<rparr>)"
    by (simp add: Pg_MarkDelivered_def pbind_simps sql_update_def exec_stmt_def mirrorsD(1) [OF m] update_where_all)
  have mem: "MarkDelivered ids s = (Inr (), s\<lparr>st_deliveries := st_deliveries s, st_published := ?pub,
      st_deliverySeq := st_deliverySeq s\<rparr>)"
    by (simp add: MarkDelivered_def)
  have "map (\<lambda>r. (or_outbox_id r, scanDelivery r)) (map ?g (pg_outbox p))
      = map (\<lambda>r. (or_outbox_id r, scanDelivery r)) (pg_outbox p)"
    "map or_outbox_id (map ?g (pg_outbox p)) = map or_outbox_id (pg_outbox p)"
    by (auto simp: scanDelivery_def)
  with mirrorsD(9) [OF m] have "same_table or_outbox_id scanDelivery (\<lambda>d. d) (map ?g (pg_outbox p)) (st_deliveries s)"
    by (simp only: same_table_def outbox_shown_def)
  then have "outbox_shown (map ?g (pg_outbox p)) (pg_outbox_seq p) (st_deliveries s) ?pub (st_deliverySeq s)"
    using mirrorsD(9) [OF m] fits by (auto simp: outbox_shown_def mark_published list_all_iff)
  then have "mirrors D (p\<lparr>pg_outbox := map ?g (pg_outbox p), pg_outbox_seq := pg_outbox_seq p\<rparr>)
      (s\<lparr>st_deliveries := st_deliveries s, st_published := ?pub, st_deliverySeq := st_deliverySeq s\<rparr>)"
    by (rule mirrors_outbox [OF m])
  then show ?thesis
    by (simp only: agrees_def pg mem) simp
qed

definition failure_fits :: "int \<Rightarrow> state \<Rightarrow> bool" where
  "failure_fits did s \<longleftrightarrow> (case map_of (st_deliveries s) did of None \<Rightarrow> True
     | Some d \<Rightarrow> in_int4 (del_Attempts d + 1))"

lemma FailDelivery_agrees:
  assumes m: "mirrors D p s" and fits: "failure_fits did s"
  shows "agrees D (=) (Pg_FailDelivery did cause) (FailDelivery did cause) p s"
proof -
  from mirrorsD(9) [OF m] have tab: "same_table or_outbox_id scanDelivery (\<lambda>d. d) (pg_outbox p) (st_deliveries s)"
    by (simp add: outbox_shown_def)
  show ?thesis
  proof (cases "map_of (st_deliveries s) did")
    case None
    with same_table_present [OF tab] have "\<not> present or_outbox_id did (pg_outbox p)" by simp
    then have "\<And>r. r \<in> set (pg_outbox p) \<Longrightarrow> or_outbox_id r \<noteq> did" by (auto simp: present_def list_ex_iff)
    with None m show ?thesis
      by (simp add: agrees_def Pg_FailDelivery_def FailDelivery_def Let_def pbind_simps sql_update_missing mirrorsD)
  next
    case (Some d)
    from tab have dist: "distinct (map or_outbox_id (pg_outbox p))" by (simp add: same_table_def)
    from same_table_row [OF tab Some] obtain row where row: "row \<in> set (pg_outbox p)" "or_outbox_id row = did"
        "scanDelivery row = d" by metis
    from row(3) have attempts: "or_attempts row = del_Attempts d" by (auto simp: scanDelivery_def)
    from fits Some have small: "in_int4 (del_Attempts d + 1)" by (simp add: failure_fits_def)
    let ?row' = "row\<lparr>or_attempts := del_Attempts d + 1, or_last_error := nullIfEmpty cause\<rparr>"
    let ?d' = "d\<lparr>del_Attempts := incr64 (del_Attempts d), del_LastError := cause\<rparr>"
    let ?rows = "map (\<lambda>r. if or_outbox_id r = did then ?row' else r) (pg_outbox p)"
    have up: "sql_update (Inr ()) pg_outbox put_outbox (\<lambda>r. or_outbox_id r = did)
        (\<lambda>_ r. and_then (int4 (or_attempts r + 1)) (\<lambda>attempts.
           Inr (r\<lparr>or_attempts := attempts, or_last_error := nullIfEmpty cause\<rparr>))) p = (Inr 1, put_outbox ?rows p)"
      using row attempts small dist
      by (intro sql_update_row [where key = or_outbox_id and row = row and k = did])
        (simp_all add: mirrorsD(1) [OF m])
    then have pg: "Pg_FailDelivery did cause p = (Inr (), p\<lparr>pg_outbox := ?rows, pg_outbox_seq := pg_outbox_seq p\<rparr>)"
      by (simp add: Pg_FailDelivery_def Let_def pbind_simps)
    from Some have mem: "FailDelivery did cause s = (Inr (), s\<lparr>st_deliveries := AList.update did ?d' (st_deliveries s),
        st_published := st_published s, st_deliverySeq := st_deliverySeq s\<rparr>)"
      by (simp add: FailDelivery_def)
    have "incr64 (del_Attempts d) = del_Attempts d + 1"
      using small by (intro wrap64_id) (simp add: in_int4_def in_int64_def min_int64_def max_int64_def)
    with row(3) have "scanDelivery ?row' = ?d'" by (auto simp: scanDelivery_def)
    then have "same_table or_outbox_id scanDelivery (\<lambda>d. d) ?rows (AList.update did ?d' (st_deliveries s))"
      using row by (intro same_table_update [OF tab row(1)]) auto
    then have "outbox_shown ?rows (pg_outbox_seq p) (AList.update did ?d' (st_deliveries s)) (st_published s) (st_deliverySeq s)"
      using mirrorsD(9) [OF m] row by (auto simp: outbox_shown_def)
    then have "mirrors D (p\<lparr>pg_outbox := ?rows, pg_outbox_seq := pg_outbox_seq p\<rparr>)
        (s\<lparr>st_deliveries := AList.update did ?d' (st_deliveries s), st_published := st_published s,
           st_deliverySeq := st_deliverySeq s\<rparr>)"
      by (rule mirrors_outbox [OF m])
    then show ?thesis
      by (simp only: agrees_def pg mem) simp
  qed
qed

section \<open>Workers and leases\<close>

definition worker_fits :: "dialect \<Rightarrow> time \<Rightarrow> Worker \<Rightarrow> bool" where
  "worker_fits D now w \<longleftrightarrow> whole D now \<and> (worker_ID w = [] \<or> worker_Type w \<noteq> []
     \<and> (case worker_Status w of WorkerStatusOther _ \<Rightarrow> False | _ \<Rightarrow> True))"

lemma worker_row_registered:
  assumes m: "mirrors D p s" and row: "row \<in> set (pg_workers p)"
  shows "map_of (st_workers s) (wr_worker_id row) = Some (worker_of row)"
proof -
  from mirrorsD(7) [OF m] have "distinct (map wr_worker_id (pg_workers p))"
    "map (\<lambda>r. (wr_worker_id r, worker_of r)) (pg_workers p) = st_workers s"
    by (simp_all add: same_table_def)
  with map_of_rows [OF _ row, of wr_worker_id worker_of] show ?thesis by simp
qed

lemma RegisterWorker_agrees:
  assumes m: "mirrors D p s" and fits: "worker_fits D now w"
  shows "agrees D (=) (Pg_RegisterWorker D now w) (RegisterWorkerTx now w) p s"
proof (cases "worker_ID w = []")
  case True
  with m show ?thesis by (simp add: agrees_def Pg_RegisterWorker_def RegisterWorkerTx_def mirrorsD)
next
  case False
  let ?k = "worker_ID w"
  from fits False have "with_defaults w = w" and enum: "worker_enum (worker_Status w) = Inr (worker_Status w)"
    by (auto simp: worker_fits_def with_defaults_def worker_enum_def split: WorkerStatus.splits)
  with False have pg: "Pg_RegisterWorker D now w p
      = (Inr (), p\<lparr>pg_workers := upsert_worker D now w (worker_Status w) (pg_workers p)\<rparr>)"
    by (simp add: Pg_RegisterWorker_def Let_def sql_insert_ok mirrorsD(1) [OF m])
  let ?w = "w\<lparr>worker_RegisteredAt := (case map_of (st_workers s) ?k of Some existing \<Rightarrow> worker_RegisteredAt existing
      | None \<Rightarrow> now), worker_LastHeartbeat := Some now\<rparr>"
  from False have mem: "RegisterWorkerTx now w s = (Inr (), s\<lparr>st_workers := AList.update ?k ?w (st_workers s)\<rparr>)"
    by (simp add: RegisterWorkerTx_def Let_def)
  from fits have now: "whole D now" by (simp add: worker_fits_def)
  from mirrorsD(7) [OF m] have tab: "same_table wr_worker_id worker_of (\<lambda>w. w) (pg_workers p) (st_workers s)" .
  have "same_table wr_worker_id worker_of (\<lambda>w. w) (upsert_worker D now w (worker_Status w) (pg_workers p))
      (AList.update ?k ?w (st_workers s))"
  proof (cases "map_of (st_workers s) ?k")
    case None
    with m have "\<not> present wr_worker_id ?k (pg_workers p)" by (simp add: worker_known)
    with None tab now show ?thesis
      by (auto simp: upsert_worker_def worker_of_def intro!: same_table_insert)
  next
    case (Some old)
    with m have known: "present wr_worker_id ?k (pg_workers p)" by (simp add: worker_known)
    from tab have dist: "distinct (map wr_worker_id (pg_workers p))" by (simp add: same_table_def)
    from same_table_row [OF tab Some] obtain row where row: "row \<in> set (pg_workers p)" "wr_worker_id row = ?k"
        "worker_of row = old" by metis
    let ?row' = "row\<lparr>wr_worker_type := worker_Type w, wr_status := worker_Status w,
        wr_last_heartbeat := Some (db_stamp D now)\<rparr>"
    have "upsert_worker D now w (worker_Status w) (pg_workers p)
        = map (\<lambda>r. if wr_worker_id r = ?k then ?row' else r) (pg_workers p)"
      using known same_row [OF dist _ row(1)] row(2) by (auto simp: upsert_worker_def)
    moreover have "worker_of ?row' = ?w"
      using row now Some by (auto simp: worker_of_def)
    ultimately show ?thesis
      using same_table_update [OF tab row(1,2), of ?row' ?w] row(2) by simp
  qed
  then have "mirrors D (p\<lparr>pg_workers := upsert_worker D now w (worker_Status w) (pg_workers p)\<rparr>)
      (s\<lparr>st_workers := AList.update ?k ?w (st_workers s)\<rparr>)"
    by (rule mirrors_workers [OF m])
  then show ?thesis
    by (simp only: agrees_def pg mem) simp
qed

lemma lease_row:
  assumes "mirrors D p s" "map_of (st_leases s) tid = Some l"
  obtains row where "row \<in> set (pg_leases p)" "lr_task_id row = tid" "scanLease row = l"
    "with_key lr_task_id tid (pg_leases p) = [row]" "distinct (map lr_task_id (pg_leases p))"
    "lr_fencing_token row = lease_Token l" "lr_expires_at row = lease_ExpiresAt l"
proof -
  from mirrorsD(6) [OF assms(1)] have tab: "same_table lr_task_id scanLease (\<lambda>l. l) (pg_leases p) (st_leases s)" .
  then have d: "distinct (map lr_task_id (pg_leases p))" by (simp add: same_table_def)
  from same_table_row [OF tab assms(2)] obtain row where row: "row \<in> set (pg_leases p)" "lr_task_id row = tid"
      "scanLease row = l" "with_key lr_task_id tid (pg_leases p) = [row]" by metis
  from row(3) have "lr_fencing_token row = lease_Token l" "lr_expires_at row = lease_ExpiresAt l"
    by (auto simp: scanLease_def)
  with row d show ?thesis by (intro that [of row])
qed

lemma lease_known: "mirrors D p s \<Longrightarrow> with_key lr_task_id tid (pg_leases p) = [] \<longleftrightarrow> map_of (st_leases s) tid = None"
  by (auto simp: with_key_Nil same_table_present dest: mirrorsD(6))

lemma Pg_GetLease_agrees:
  assumes m: "mirrors D p s"
  shows "agrees D (=) (Pg_GetLease tid) (GetLease tid) p s"
proof (cases "map_of (st_leases s) tid")
  case None
  with m have "with_key lr_task_id tid (pg_leases p) = []" by (simp add: lease_known)
  with None m show ?thesis
    by (simp add: agrees_def Pg_GetLease_def GetLease_def pbind_simps sql_query_row_simps mirrorsD)
next
  case (Some l)
  from lease_row [OF m Some] obtain row where row: "scanLease row = l" "with_key lr_task_id tid (pg_leases p) = [row]"
    by metis
  with Some m show ?thesis
    by (simp add: agrees_def Pg_GetLease_def GetLease_def pbind_simps sql_query_row_simps mirrorsD(1))
qed

text \<open>
  The upsert decides about a live lease before it looks at the worker, the in-memory store after.
\<close>

definition claim_fits :: "dialect \<Rightarrow> TaskID \<Rightarrow> string \<Rightarrow> time \<Rightarrow> time \<Rightarrow> state \<Rightarrow> bool" where
  "claim_fits D tid workerID now expiresAt s \<longleftrightarrow> whole D now \<and> whole D expiresAt
     \<and> (case map_of (st_leases s) tid of None \<Rightarrow> True
        | Some l \<Rightarrow> in_int64 (lease_Token l + 1)
            \<and> (Lease_Expired l now \<or> has (st_tasks s) tid \<and> has (st_workers s) workerID))"

lemma AcquireLease_agrees:
  assumes m: "mirrors D p s" and fits: "claim_fits D tid workerID now expiresAt s"
  shows "agrees D (=) (Pg_AcquireLease D tid workerID now expiresAt) (AcquireLease tid workerID now expiresAt) p s"
proof -
  from fits have times: "whole D now" "whole D expiresAt" by (simp_all add: claim_fits_def)
  from mirrorsD(6) [OF m] have tab: "same_table lr_task_id scanLease (\<lambda>l. l) (pg_leases p) (st_leases s)" .
  let ?fresh = "\<lparr>lr_task_id = tid, lr_worker_id = workerID, lr_fencing_token = 1,
      lr_acquired_at = db_stamp D now, lr_expires_at = db_stamp D expiresAt, lr_heartbeat_at = db_stamp D now\<rparr>"
  let ?lease = "\<lambda>token. \<lparr>lease_TaskID = tid, lease_WorkerID = workerID, lease_Token = token,
      lease_AcquiredAt = now, lease_ExpiresAt = expiresAt, lease_HeartbeatAt = now\<rparr>"
  have scan: "scanLease (?fresh\<lparr>lr_fencing_token := token\<rparr>) = ?lease token" for token
    using times by (simp add: scanLease_def)
  note run = Pg_AcquireLease_def upsert_lease_def exec_stmt_def Let_def pbind_def checked_def mirrorsD(1) [OF m]
    task_known [OF m] worker_known [OF m]
  show ?thesis
  proof (cases "map_of (st_leases s) tid")
    case None
    with m have none: "with_key lr_task_id tid (pg_leases p) = []" by (simp add: lease_known)
    show ?thesis
    proof (cases "map_of (st_tasks s) tid \<noteq> None \<and> map_of (st_workers s) workerID \<noteq> None")
      case False
      with None none m show ?thesis by (auto simp: agrees_def AcquireLease_def run mirrorsD)
    next
      case True
      have "mirrors D (p\<lparr>pg_leases := pg_leases p @ [?fresh]\<rparr>)
          (s\<lparr>st_leases := AList.update tid (?lease 1) (st_leases s)\<rparr>)"
        using scan [of 1] None by (intro mirrors_leases [OF m] same_table_insert [OF tab]) simp_all
      with True None none scan [of 1] show ?thesis
        by (auto simp: agrees_def AcquireLease_def run)
    qed
  next
    case (Some l)
    from lease_row [OF m Some] obtain row where row: "row \<in> set (pg_leases p)" "lr_task_id row = tid"
        "scanLease row = l" "with_key lr_task_id tid (pg_leases p) = [row]"
        "lr_fencing_token row = lease_Token l" "lr_expires_at row = lease_ExpiresAt l"
      by metis
    show ?thesis
    proof (cases "Lease_Expired l now")
      case False
      with fits Some row m show ?thesis
        by (auto simp: agrees_def AcquireLease_def run claim_fits_def has_def Lease_Expired_def times mirrorsD)
    next
      case True
      let ?token = "lease_Token l + 1"
      from fits Some have token: "int8 ?token = Inr ?token" "incr64 (lease_Token l) = ?token"
        by (simp_all add: claim_fits_def int8_def wrap64_id)
      show ?thesis
      proof (cases "map_of (st_tasks s) tid \<noteq> None \<and> map_of (st_workers s) workerID \<noteq> None")
        case False
        with True Some row m token show ?thesis
          by (auto simp: agrees_def AcquireLease_def run Lease_Expired_def times mirrorsD)
      next
        case known: True
        let ?taken = "\<lparr>lr_task_id = tid, lr_worker_id = workerID, lr_fencing_token = ?token,
            lr_acquired_at = now, lr_expires_at = expiresAt, lr_heartbeat_at = now\<rparr>"
        have "mirrors D (put_leases (map (\<lambda>r. if lr_task_id r = tid then ?taken else r) (pg_leases p)) p)
            (s\<lparr>st_leases := AList.update tid (?lease ?token) (st_leases s)\<rparr>)"
          by (intro mirrors_leases [OF m] same_table_update [OF tab row(1,2)]) (simp_all add: scanLease_def)
        with known True Some row token show ?thesis
          by (auto simp: agrees_def AcquireLease_def run Lease_Expired_def times scanLease_def)
      qed
    qed
  qed
qed

text \<open>The two fenced updates.\<close>

lemma fenced_update_agrees:
  assumes m: "mirrors D p s"
    and pg: "\<And>p. m_pg p = pbind (translated op (sql_update (Inr ()) pg_leases put_leases
        (\<lambda>r. lr_task_id r = tid \<and> lr_fencing_token r = token) (\<lambda>_ r. Inr (g r)))) (assertFenced op tid token) p"
    and mem: "m_mem s = (case map_of (st_leases s) tid of
        None \<Rightarrow> (Inl (wrap ctx ErrNotFound), s)
      | Some l \<Rightarrow>
          if lease_Token l \<noteq> token then (Inl (fenced tid (lease_Token l) token), s)
          else (Inr (), s\<lparr>st_leases := AList.update tid (h l) (st_leases s)\<rparr>))"
    and key: "\<And>r. lr_task_id (g r) = lr_task_id r" and scan: "\<And>r. scanLease (g r) = h (scanLease r)"
  shows "agrees D (=) m_pg m_mem p s"
proof -
  from mirrorsD(6) [OF m] have tab: "same_table lr_task_id scanLease (\<lambda>l. l) (pg_leases p) (st_leases s)" .
  note run = pg mem pbind_simps assertFenced_def sql_query_row_simps mirrorsD(1) [OF m]
  show ?thesis
  proof (cases "map_of (st_leases s) tid")
    case None
    with m have none: "with_key lr_task_id tid (pg_leases p) = []" by (simp add: lease_known)
    then have "\<And>r. r \<in> set (pg_leases p) \<Longrightarrow> lr_task_id r \<noteq> tid" by (auto simp: with_key_def filter_empty_conv)
    with None none m show ?thesis by (simp add: agrees_def run sql_update_missing mirrorsD)
  next
    case (Some l)
    from lease_row [OF m Some] obtain row where row: "row \<in> set (pg_leases p)" "lr_task_id row = tid"
        "scanLease row = l" "with_key lr_task_id tid (pg_leases p) = [row]" "distinct (map lr_task_id (pg_leases p))"
        "lr_fencing_token row = lease_Token l" by metis
    show ?thesis
    proof (cases "lease_Token l = token")
      case False
      then have "\<And>r. r \<in> set (pg_leases p) \<Longrightarrow> \<not> (lr_task_id r = tid \<and> lr_fencing_token r = token)"
        using same_row [OF row(5) _ row(1)] row(2,6) by metis
      with False Some row m show ?thesis by (simp add: agrees_def run sql_update_missing fenced_def mirrorsD)
    next
      case True
      let ?rows = "map (\<lambda>r. if lr_task_id r = tid then g row else r) (pg_leases p)"
      have P: "lr_task_id x = tid \<and> lr_fencing_token x = token \<longleftrightarrow> lr_task_id x = tid" if "x \<in> set (pg_leases p)" for x
        using same_row [OF row(5) that row(1)] row True by auto
      have up: "sql_update (Inr ()) pg_leases put_leases (\<lambda>r. lr_task_id r = tid \<and> lr_fencing_token r = token)
          (\<lambda>_ r. Inr (g r)) p = (Inr 1, put_leases ?rows p)"
        using row P by (intro sql_update_row [where key = lr_task_id and row = row and k = tid])
          (simp_all add: mirrorsD(1) [OF m])
      have "mirrors D (put_leases ?rows p) (s\<lparr>st_leases := AList.update tid (h l) (st_leases s)\<rparr>)"
        using key [of row] scan [of row] row(2,3)
        by (intro mirrors_leases [OF m] same_table_update [OF tab row(1,2)]) simp_all
      with True Some up show ?thesis by (simp add: agrees_def run)
    qed
  qed
qed

lemma ExtendLease_agrees:
  assumes m: "mirrors D p s" and times: "whole D now" "whole D expiresAt"
  shows "agrees D (=) (Pg_ExtendLease D now tid token expiresAt) (ExtendLease now tid token expiresAt) p s"
  by (rule fenced_update_agrees [OF m, where op = "''extend lease on '' @ tid" and ctx = "''lease for task '' @ tid"
        and g = "\<lambda>r. r\<lparr>lr_expires_at := db_stamp D expiresAt, lr_heartbeat_at := db_stamp D now\<rparr>"
        and h = "\<lambda>l. l\<lparr>lease_ExpiresAt := expiresAt, lease_HeartbeatAt := now\<rparr>"])
    (simp_all add: Pg_ExtendLease_def ExtendLease_def Let_def scanLease_def times)

lemma ReleaseLease_agrees:
  assumes m: "mirrors D p s" and now: "whole D now"
  shows "agrees D (=) (Pg_ReleaseLease D tid token now) (ReleaseLease tid token now) p s"
  by (rule fenced_update_agrees [OF m, where op = "''release lease on '' @ tid" and ctx = "''lease for task '' @ tid"
        and g = "\<lambda>r. r\<lparr>lr_expires_at := db_stamp D now\<rparr>" and h = "\<lambda>l. l\<lparr>lease_ExpiresAt := now\<rparr>"])
    (simp_all add: Pg_ReleaseLease_def ReleaseLease_def Let_def scanLease_def now)

end
