(* ===== verification/Interchange.thy ===== *)
theory Interchange
  imports AgreementOps Recovery
begin

text \<open>
  The stores are interchangeable: the transactions of the runtime as sequences of operations of
  core.Tx, run on either store, and that from empty stores every history of transactions whose
  arguments fit the columns has the same outcomes and leaves stores that read the same.
\<close>

section \<open>Transactions as sequences of operations\<close>

text \<open>
  The operations of core.Tx that a transaction performs, with core.Append and the engine's
  \<open>assertToken\<close>, which use no other. A transaction stops at its first error.
\<close>

datatype txop =
    OpCreateRun Run | OpAdvanceRun RunID int RunState | OpReleaseRun RunID
  | OpCreateTask Task | OpTransitionTask TaskID TaskStatus TaskStatus TaskOutcome
  | OpAppend RunID EventType StepID EventData
  | OpReserveEffect Effect | OpTransitionEffect IdempotencyKey EffectStatus EffectStatus EffectOutcome
  | OpRecordSignal Signal
  | OpEnqueueDelivery TaskID time | OpMarkDelivered "int list" | OpFailDelivery int string
  | OpRegisterWorker Worker | OpAcquireLease TaskID string time
  | OpExtendLease TaskID int time | OpReleaseLease TaskID int
  | OpAssertToken TaskID int

definition Pg_assertToken :: "TaskID \<Rightarrow> int \<Rightarrow> unit ptx" where
  "Pg_assertToken tid token = pbind (Pg_GetLease tid) (\<lambda>l.
     if lease_Token l \<noteq> token then perror (fenced tid (lease_Token l) token) else preturn ())"

fun mem_op :: "time \<Rightarrow> txop \<Rightarrow> unit tx" where
  "mem_op now (OpCreateRun r) = CreateRun now r"
| "mem_op now (OpAdvanceRun rid v nxt) = AdvanceRun now rid v nxt"
| "mem_op now (OpReleaseRun rid) = ReleaseRun now rid"
| "mem_op now (OpCreateTask t) = CreateTask now t"
| "mem_op now (OpTransitionTask tid frm to out) = TransitionTask now tid frm to out"
| "mem_op now (OpAppend rid typ step data) = Append now rid typ step data"
| "mem_op now (OpReserveEffect e) = ReserveEffect now e"
| "mem_op now (OpTransitionEffect k frm to out) = TransitionEffect now k frm to out"
| "mem_op now (OpRecordSignal sg) = RecordSignal now sg"
| "mem_op now (OpEnqueueDelivery tid av) = EnqueueDelivery now tid av"
| "mem_op now (OpMarkDelivered ids) = MarkDelivered ids"
| "mem_op now (OpFailDelivery did cause) = FailDelivery did cause"
| "mem_op now (OpRegisterWorker w) = RegisterWorkerTx now w"
| "mem_op now (OpAcquireLease tid wid expiresAt) = tx_bind (AcquireLease tid wid now expiresAt) (\<lambda>_. tx_return ())"
| "mem_op now (OpExtendLease tid token expiresAt) = ExtendLease now tid token expiresAt"
| "mem_op now (OpReleaseLease tid token) = ReleaseLease tid token now"
| "mem_op now (OpAssertToken tid token) = assertToken tid token"

fun pg_op :: "dialect \<Rightarrow> time \<Rightarrow> txop \<Rightarrow> unit ptx" where
  "pg_op D now (OpCreateRun r) = Pg_CreateRun D now r"
| "pg_op D now (OpAdvanceRun rid v nxt) = Pg_AdvanceRun D now rid v nxt"
| "pg_op D now (OpReleaseRun rid) = Pg_ReleaseRun D now rid"
| "pg_op D now (OpCreateTask t) = Pg_CreateTask D now t"
| "pg_op D now (OpTransitionTask tid frm to out) = Pg_TransitionTask D now tid frm to out"
| "pg_op D now (OpAppend rid typ step data) = Pg_Append D now rid typ step data"
| "pg_op D now (OpReserveEffect e) = Pg_ReserveEffect D now e"
| "pg_op D now (OpTransitionEffect k frm to out) = Pg_TransitionEffect D now k frm to out"
| "pg_op D now (OpRecordSignal sg) = Pg_RecordSignal D now sg"
| "pg_op D now (OpEnqueueDelivery tid av) = Pg_EnqueueDelivery D now tid av"
| "pg_op D now (OpMarkDelivered ids) = Pg_MarkDelivered D now ids"
| "pg_op D now (OpFailDelivery did cause) = Pg_FailDelivery did cause"
| "pg_op D now (OpRegisterWorker w) = Pg_RegisterWorker D now w"
| "pg_op D now (OpAcquireLease tid wid expiresAt) = pbind (Pg_AcquireLease D tid wid now expiresAt) (\<lambda>_. preturn ())"
| "pg_op D now (OpExtendLease tid token expiresAt) = Pg_ExtendLease D now tid token expiresAt"
| "pg_op D now (OpReleaseLease tid token) = Pg_ReleaseLease D tid token now"
| "pg_op D now (OpAssertToken tid token) = Pg_assertToken tid token"

text \<open>
  What the columns ask of the arguments, at the state the operation runs in: documents JSONB
  accepts, instants of whole microseconds, integers in the range of their column, identities
  that are fresh where the code generates them.
\<close>

fun op_fits :: "dialect \<Rightarrow> time \<Rightarrow> txop \<Rightarrow> state \<Rightarrow> bool" where
  "op_fits D now (OpCreateRun r) s = run_fits D now r"
| "op_fits D now (OpAdvanceRun rid v nxt) s = state_fits D now v nxt"
| "op_fits D now (OpReleaseRun rid) s = whole D now"
| "op_fits D now (OpCreateTask t) s = task_fits D now t s"
| "op_fits D now (OpTransitionTask tid frm to out) s = (whole D now \<and> attempt_fits tid s)"
| "op_fits D now (OpAppend rid typ step data) s = append_fits D now rid typ step data s"
| "op_fits D now (OpReserveEffect e) s = effect_fits D now e s"
| "op_fits D now (OpTransitionEffect k frm to out) s = (whole D now \<and> storable D (eo_Response out))"
| "op_fits D now (OpRecordSignal sg) s = (whole D now \<and> storable D (sig_Payload sg))"
| "op_fits D now (OpEnqueueDelivery tid av) s = delivery_fits D now tid av s"
| "op_fits D now (OpMarkDelivered ids) s = list_all (\<lambda>i. i \<le> st_deliverySeq s) ids"
| "op_fits D now (OpFailDelivery did cause) s = failure_fits did s"
| "op_fits D now (OpRegisterWorker w) s = worker_fits D now w"
| "op_fits D now (OpAcquireLease tid wid expiresAt) s = claim_fits D tid wid now expiresAt s"
| "op_fits D now (OpExtendLease tid token expiresAt) s = (whole D now \<and> whole D expiresAt)"
| "op_fits D now (OpReleaseLease tid token) s = whole D now"
| "op_fits D now (OpAssertToken tid token) s = True"

lemma agrees_return [simp]: "mirrors D p s \<Longrightarrow> agrees D (=) (preturn x) (tx_return x) p s"
  by (simp add: agrees_def tx_return_def)

lemma assertToken_agrees:
  assumes m: "mirrors D p s"
  shows "agrees D (=) (Pg_assertToken tid token) (assertToken tid token) p s"
  unfolding Pg_assertToken_def assertToken_def
proof (rule agrees_bind [OF Pg_GetLease_agrees [OF m]])
  fix a b :: Lease and p' s'
  assume "a = b" "mirrors D p' s'"
  then show "agrees D (=) (if lease_Token a \<noteq> token then perror (fenced tid (lease_Token a) token) else preturn ())
      (if lease_Token b \<noteq> token then tx_error (fenced tid (lease_Token b) token) else tx_return ()) p' s'"
    by (simp add: agrees_def tx_error_def tx_return_def mirrorsD)
qed

lemma op_agrees:
  assumes m: "mirrors D p s" and fits: "op_fits D now op s"
  shows "agrees D (=) (pg_op D now op) (mem_op now op) p s"
proof (cases op)
  case (OpAcquireLease tid wid expiresAt)
  with m fits show ?thesis
    by (auto intro!: agrees_bind [OF AcquireLease_agrees])
qed (use m fits in \<open>simp_all add: CreateRun_agrees AdvanceRun_agrees ReleaseRun_agrees CreateTask_agrees
    TransitionTask_agrees Append_agrees ReserveEffect_agrees TransitionEffect_agrees RecordSignal_agrees
    EnqueueDelivery_agrees MarkDelivered_agrees FailDelivery_agrees RegisterWorker_agrees
    ExtendLease_agrees ReleaseLease_agrees assertToken_agrees\<close>)

fun mem_script :: "time \<Rightarrow> txop list \<Rightarrow> unit tx" where
  "mem_script now [] = tx_return ()"
| "mem_script now (op # ops) = tx_bind (mem_op now op) (\<lambda>_. mem_script now ops)"

fun pg_script :: "dialect \<Rightarrow> time \<Rightarrow> txop list \<Rightarrow> unit ptx" where
  "pg_script D now [] = preturn ()"
| "pg_script D now (op # ops) = pbind (pg_op D now op) (\<lambda>_. pg_script D now ops)"

fun script_fits :: "dialect \<Rightarrow> time \<Rightarrow> txop list \<Rightarrow> state \<Rightarrow> bool" where
  "script_fits D now [] s = True"
| "script_fits D now (op # ops) s = (op_fits D now op s \<and>
     (case mem_op now op s of (Inl _, _) \<Rightarrow> True | (Inr _, s') \<Rightarrow> script_fits D now ops s'))"

lemma script_agrees:
  "mirrors D p s \<Longrightarrow> script_fits D now ops s \<Longrightarrow> agrees D (=) (pg_script D now ops) (mem_script now ops) p s"
proof (induction ops arbitrary: p s)
  case (Cons op ops)
  from Cons.prems(2) have fits: "op_fits D now op s" by simp
  have "script_fits D now ops s'" if "mem_op now op s = (Inr y, s')" for y s'
    using Cons.prems(2) that by simp
  then show ?case
    using Cons.IH by (auto intro!: agrees_bind [OF op_agrees [OF Cons.prems(1) fits]])
qed simp

text \<open>
  A transaction is a sequence of operations, or reads a task first and goes on with what it
  makes of it. What it makes may not depend on the formatting of the task's payload.
\<close>

datatype txn = Script "txop list" | WithTask TaskID "Task \<Rightarrow> txop list"

fun mem_txn :: "time \<Rightarrow> txn \<Rightarrow> unit tx" where
  "mem_txn now (Script ops) = mem_script now ops"
| "mem_txn now (WithTask tid f) = tx_bind (GetTask tid) (\<lambda>t. mem_script now (f t))"

fun pg_txn :: "dialect \<Rightarrow> time \<Rightarrow> txn \<Rightarrow> unit ptx" where
  "pg_txn D now (Script ops) = pg_script D now ops"
| "pg_txn D now (WithTask tid f) = pbind (Pg_GetTask tid) (\<lambda>t. pg_script D now (f t))"

fun txn_fits :: "dialect \<Rightarrow> time \<Rightarrow> txn \<Rightarrow> state \<Rightarrow> bool" where
  "txn_fits D now (Script ops) s = script_fits D now ops s"
| "txn_fits D now (WithTask tid f) s =
     (case map_of (st_tasks s) tid of None \<Rightarrow> True
      | Some t \<Rightarrow> f (canon_task D t) = f t \<and> script_fits D now (f t) s)"

lemma txn_agrees:
  assumes m: "mirrors D p s" and fits: "txn_fits D now x s"
  shows "agrees D (=) (pg_txn D now x) (mem_txn now x) p s"
proof (cases x)
  case (Script ops)
  with m fits show ?thesis by (simp add: script_agrees)
next
  case (WithTask tid f)
  have "agrees D (=) (pg_script D now (f a)) (mem_script now (f b)) p' s'"
    if "a = canon_task D b" "GetTask tid s = (Inr b, s')" "mirrors D p' s'" for a b p' s'
    using that fits WithTask by (auto simp: GetTask_def split: option.splits intro!: script_agrees)
  then show ?thesis
    unfolding WithTask pg_txn.simps mem_txn.simps by (intro agrees_bind [OF Pg_GetTask_agrees [OF m]])
qed

section \<open>Histories\<close>

text \<open>
  Transactions one after the other, each at its instant; the outcome of each is \<open>None\<close> when it
  committed and otherwise the sentinels of its error.
\<close>

definition outcome :: "go_error + 'a \<Rightarrow> sentinel list option" where
  "outcome r = (case r of Inl e \<Rightarrow> Some (err_chain e) | Inr _ \<Rightarrow> None)"

fun mem_history :: "(time \<times> txn) list \<Rightarrow> state \<Rightarrow> sentinel list option list \<times> state" where
  "mem_history [] s = ([], s)"
| "mem_history ((now, x) # xs) s =
     (case RunInTx (mem_txn now x) s of (r, s) \<Rightarrow>
        (case mem_history xs s of (rs, s) \<Rightarrow> (outcome r # rs, s)))"

fun pg_history :: "dialect \<Rightarrow> (time \<times> txn) list \<Rightarrow> pgstate \<Rightarrow> sentinel list option list \<times> pgstate" where
  "pg_history D [] p = ([], p)"
| "pg_history D ((now, x) # xs) p =
     (case Pg_RunInTx (pg_txn D now x) p of (r, p) \<Rightarrow>
        (case pg_history D xs p of (rs, p) \<Rightarrow> (outcome r # rs, p)))"

fun history_fits :: "dialect \<Rightarrow> (time \<times> txn) list \<Rightarrow> state \<Rightarrow> bool" where
  "history_fits D [] s = True"
| "history_fits D ((now, x) # xs) s = (txn_fits D now x s \<and> history_fits D xs (snd (RunInTx (mem_txn now x) s)))"

lemma histories_agree:
  "mirrors D p s \<Longrightarrow> history_fits D xs s \<Longrightarrow>
     fst (pg_history D xs p) = fst (mem_history xs s) \<and> mirrors D (snd (pg_history D xs p)) (snd (mem_history xs s))"
proof (induction xs arbitrary: p s)
  case (Cons nx xs)
  obtain now x where nx: "nx = (now, x)" by (cases nx)
  obtain r p' where pg: "Pg_RunInTx (pg_txn D now x) p = (r, p')" by fastforce
  obtain r' s' where mem: "RunInTx (mem_txn now x) s = (r', s')" by fastforce
  from Cons.prems nx mem have fits: "txn_fits D now x s" "history_fits D xs s'" by simp_all
  from agrees_RunInTx [OF Cons.prems(1) txn_agrees [OF Cons.prems(1) fits(1)]] pg mem
  have "outcome r = outcome r'" "mirrors D p' s'"
    by (auto simp: outcome_def split: sum.splits)
  with Cons.IH [OF this(2) fits(2)] nx pg mem show ?case
    by (auto split: prod.splits)
qed simp

section \<open>The transactions of the runtime\<close>

text \<open>
  The transactions of the engine, the effect executor and the relay, as sequences of operations:
  each is what the component runs on the in-memory store, so by the theorems above it does the
  same on PostgreSQL.
\<close>

lemma tx_bind_tx_return [simp]: "tx_bind m tx_return = m"
proof
  fix s show "tx_bind m tx_return s = m s"
    by (auto simp: tx_bind_def tx_return_def split: prod.split sum.split)
qed

lemma tx_bind_assoc: "tx_bind (tx_bind m f) g = tx_bind m (\<lambda>x. tx_bind (f x) g)"
  by (auto simp: tx_bind_def fun_eq_iff split: prod.split sum.split)

lemma tx_return_bind [simp]: "tx_bind (tx_return x) f = f x"
  by (auto simp: tx_bind_def tx_return_def fun_eq_iff)

lemma mem_script_append: "mem_script now (xs @ ys) = tx_bind (mem_script now xs) (\<lambda>_. mem_script now ys)"
  by (induction xs) (simp_all add: tx_bind_assoc)

definition start_script :: "Run \<Rightarrow> txop list" where
  "start_script run = [OpCreateRun run, OpAppend (run_ID run) EventRunStarted []
     (RunStartedData (run_AgentName run) (run_AgentVersion run) (run_Input run))]"

definition task_script :: "Task \<Rightarrow> txop list" where
  "task_script t = [OpCreateTask t, OpAppend (task_RunID t) EventTaskCreated (task_StepID t)
     (TaskCreatedData (task_ID t) (task_Type t) (task_Payload t)), OpEnqueueDelivery (task_ID t) zero_time]"

definition dispatch_script :: "Run \<Rightarrow> Task \<Rightarrow> txop list" where
  "dispatch_script run t = OpAdvanceRun (run_ID run) (run_Version run) (running_state run None) # task_script t"

definition fanout_script :: "Run \<Rightarrow> StepID \<Rightarrow> string list \<Rightarrow> JoinPolicy \<Rightarrow> Task list \<Rightarrow> txop list" where
  "fanout_script run step tools join ts =
     [OpAdvanceRun (run_ID run) (run_Version run) (running_state run None),
      OpAppend (run_ID run) EventFanOutStarted step (FanOutStartedData tools (JoinPolicy_String join))]
     @ concat (map task_script ts)"

definition move_script :: "Run \<Rightarrow> RunState \<Rightarrow> EventType \<Rightarrow> StepID \<Rightarrow> EventData \<Rightarrow> txop list" where
  "move_script run nxt evt step data =
     [OpAdvanceRun (run_ID run) (run_Version run) nxt, OpAppend (run_ID run) evt step data]"

definition claim_script :: "time \<Rightarrow> duration \<Rightarrow> TaskID \<Rightarrow> string \<Rightarrow> Task \<Rightarrow> txop list" where
  "claim_script now ttl tid workerID task =
     [OpTransitionTask tid TaskPending TaskRunning \<lparr>to_Error = []\<rparr>,
      OpAcquireLease tid workerID (time_Add now ttl),
      OpAppend (task_RunID task) EventTaskClaimed (task_StepID task)
        (TaskClaimedData tid workerID (incr64 (task_Attempt task)))]"

definition complete_script :: "TaskID \<Rightarrow> int \<Rightarrow> raw \<Rightarrow> Task \<Rightarrow> txop list" where
  "complete_script tid token result task =
     [OpAssertToken tid token, OpTransitionTask tid TaskRunning TaskCompleted \<lparr>to_Error = []\<rparr>,
      OpReleaseLease tid token,
      OpAppend (task_RunID task) EventTaskCompleted (task_StepID task) (TaskCompletedData tid result)]"

definition fail_script :: "engine \<Rightarrow> time \<Rightarrow> rat \<Rightarrow> TaskID \<Rightarrow> int \<Rightarrow> string \<Rightarrow> bool \<Rightarrow> Task \<Rightarrow> txop list" where
  "fail_script e now rnd tid token reason escalated task =
     (let retry = (\<not> Task_Exhausted task \<and> \<not> escalated);
          delay = Backoff (e_float e) rnd (e_retry e) (task_Attempt task);
          notBefore = (if retry \<and> 0 < delay then time_Add now delay else zero_time)
      in [OpAssertToken tid token,
          OpTransitionTask tid TaskRunning (if retry then TaskPending else TaskDeadLetter) \<lparr>to_Error = reason\<rparr>,
          OpReleaseLease tid token,
          OpAppend (task_RunID task) EventTaskFailed (task_StepID task)
            (TaskFailedData tid reason (task_Attempt task) (\<not> retry)),
          OpAppend (task_RunID task) (if retry then EventTaskRetryScheduled else EventTaskDeadLettered)
            (task_StepID task) (TaskRetryScheduledData tid (task_Attempt task) reason notBefore)]
         @ (if retry then [OpEnqueueDelivery tid notBefore] else []))"

definition signal_script :: "Signal \<Rightarrow> txop list" where
  "signal_script sg = [OpRecordSignal sg, OpReleaseRun (sig_RunID sg)]"

definition reserve_script :: "Task \<Rightarrow> Effect \<Rightarrow> txop list" where
  "reserve_script task fresh = [OpReserveEffect fresh,
     OpAppend (task_RunID task) EventEffectCreated (task_StepID task) (effectData fresh [])]"

definition outcomes_script :: "int list \<Rightarrow> (int \<times> string) list \<Rightarrow> txop list" where
  "outcomes_script delivered failed = OpMarkDelivered delivered # map (\<lambda>(did, cause). OpFailDelivery did cause) failed"

lemma start_tx_script: "start_tx now run = mem_script now (start_script run)"
  by (simp add: start_tx_def start_script_def)

lemma put_task_script: "put_task now t = mem_script now (task_script t)"
  by (simp add: put_task_def task_script_def)

lemma dispatch_tx_script: "dispatch_tx now run t = mem_script now (dispatch_script run t)"
  by (simp add: dispatch_tx_def dispatch_script_def put_task_script)

lemma put_tasks_script: "tx_seq (map (put_task now) ts) = mem_script now (concat (map task_script ts))"
  by (induction ts) (simp_all add: mem_script_append put_task_script)

lemma fanout_tx_script: "fanout_tx now run step tools join ts = mem_script now (fanout_script run step tools join ts)"
  by (simp add: fanout_tx_def fanout_script_def put_tasks_script)

lemma finish_tx_script: "finish_tx now run nxt evt data = mem_script now (move_script run nxt evt [] data)"
  by (simp add: finish_tx_def move_script_def)

lemma park_tx_script:
  "park_tx now run until evt step data = mem_script now (move_script run (running_state run (Some until)) evt step data)"
  by (simp add: park_tx_def move_script_def)

lemma resume_tx_script:
  "resume_tx now run wt evt data = mem_script now (move_script run (running_state run None) evt (wait_StepID wt) data)"
  by (simp add: resume_tx_def move_script_def)

lemma claim_tx_script:
  "tx_bind (claim_tx now ttl tid workerID) (\<lambda>_. tx_return ()) = mem_txn now (WithTask tid (claim_script now ttl tid workerID))"
  by (simp add: claim_tx_def claim_script_def tx_bind_assoc Let_def)

lemma complete_tx_script:
  "tx_bind (complete_tx now tid token result) (\<lambda>_. tx_return ()) = mem_txn now (WithTask tid (complete_script tid token result))"
  by (simp add: complete_tx_def complete_script_def tx_bind_assoc)

lemma fail_tx_script:
  "tx_bind (fail_tx e now rnd tid token reason escalated) (\<lambda>_. tx_return ())
     = mem_txn now (WithTask tid (fail_script e now rnd tid token reason escalated))"
proof -
  have if_bind: "tx_bind (if b then x else y) g = (if b then tx_bind x g else tx_bind y g)" for b x y and g :: "_ \<Rightarrow> unit tx"
    by simp
  show ?thesis
    by (simp add: fail_tx_def fail_script_def tx_bind_assoc Let_def if_bind cong: if_cong)
      (rule arg_cong [where f = "tx_bind (GetTask tid)"], auto simp: fun_eq_iff)
qed

lemma signal_tx_script: "signal_tx now sg = mem_script now (signal_script sg)"
  by (simp add: signal_tx_def signal_script_def)

lemma reserve_tx_script: "reserve_tx now task fresh = mem_script now (reserve_script task fresh)"
  by (simp add: reserve_tx_def reserve_script_def)

lemma mark_outcomes_tx_script: "mark_outcomes_tx delivered failed = mem_script now (outcomes_script delivered failed)"
proof -
  have "tx_seq (map (\<lambda>(did, cause). FailDelivery did cause) failed)
      = mem_script now (map (\<lambda>(did, cause). OpFailDelivery did cause) failed)"
    by (induction failed) auto
  then show ?thesis by (simp add: mark_outcomes_tx_def outcomes_script_def)
qed

text \<open>The moves of a row of the ledger, with or without an event; escalations; markings as unknown.\<close>

definition effect_script :: "RunID \<Rightarrow> StepID \<Rightarrow> Effect \<Rightarrow> EffectStatus \<Rightarrow> EffectStatus \<Rightarrow> EffectOutcome
    \<Rightarrow> EventType option \<Rightarrow> string \<Rightarrow> txop list" where
  "effect_script rid step eff frm to out ev detail = OpTransitionEffect (eff_Key eff) frm to out #
     (case ev of None \<Rightarrow> []
      | Some evt \<Rightarrow> [OpAppend rid evt step (effectData (eff\<lparr>eff_Status := to, eff_Response := eo_Response out,
          eff_ExternalRef := eo_ExternalRef out, eff_LastError := eo_Error out\<rparr>) detail)])"

lemma effect_tx_script:
  "effect_tx now rid step eff frm to out ev detail = mem_script now (effect_script rid step eff frm to out ev detail)"
  by (simp add: effect_tx_def effect_script_def split: option.split)

lemma escalate_tx_script:
  "escalate_tx now task eff reason = mem_script now
     [OpAppend (task_RunID task) EventEffectEscalated (task_StepID task) (effectData eff reason)]"
  by (simp add: escalate_tx_def)

lemma mark_tx_script:
  "mark_tx now eff = mem_script now (effect_script (eff_RunID eff) [] eff EffectRunning EffectUnknown owner_stopped None []
     @ [OpAppend (eff_RunID eff) EventEffectUnknown []
          (effectData (eff\<lparr>eff_Status := EffectUnknown, eff_LastError := eo_Error owner_stopped\<rparr>) [])])"
  by (simp add: mark_tx_def effect_script_def)

lemma repark_tx_script:
  "repark_tx now run wt = mem_script now
     [OpAdvanceRun (run_ID run) (run_Version run) (running_state run (Some (wait_Until wt)))]"
  by (simp add: repark_tx_def)

lemma heartbeat_script: "ExtendLease now tid token expires = mem_script now [OpExtendLease tid token expires]"
  by simp

lemma register_script: "RegisterWorkerTx now wk = mem_script now [OpRegisterWorker wk]"
  by simp

text \<open>
  Every transaction of the engine, the executor, the reconciler and the relay. The reaper's branches
  on what \<open>AcquireLease\<close> answered, and is a client of theory Clients.
\<close>

lemmas engine_scripts = start_tx_script dispatch_tx_script fanout_tx_script finish_tx_script park_tx_script
  repark_tx_script resume_tx_script claim_tx_script heartbeat_script complete_tx_script fail_tx_script
  signal_tx_script register_script reserve_tx_script effect_tx_script escalate_tx_script mark_tx_script
  mark_outcomes_tx_script

end
