(* ===== verification/StoreReads.thy ===== *)
theory StoreReads
  imports Interchange
begin

text \<open>
  The reads of core.Store agree on related stores: the same rows in the same order, under the
  collation of plain byte order, for limits and tables below the 2^30 rows that \<open>limitOrAll\<close> stands
  for. Documents are compared by what a JSONB column reads back.
\<close>

section \<open>Order and limits\<close>

lemma map_insort_key: "(\<And>x. f x = g (h x)) \<Longrightarrow> map h (insort_key f x xs) = insort_key g (h x) (map h xs)"
  by (induction xs) auto

lemma map_sort_key: "(\<And>x. f x = g (h x)) \<Longrightarrow> map h (sort_key f xs) = sort_key g (map h xs)"
  by (induction xs) (auto simp: map_insort_key)

lemma sql_limited: "int (length xs) \<le> 1073741824 \<Longrightarrow> sql_limit (limitOrAll n) xs = limited n xs"
  by (auto simp: sql_limit_def limitOrAll_def limited_def nat_le_iff)

lemma limited_map: "limited n (map f xs) = map f (limited n xs)"
  by (simp add: limited_def take_map)

lemma filter_vals: "filter P (vals m) = map snd (filter (\<lambda>kv. P (snd kv)) m)"
  by (simp add: vals_def filter_map comp_def)

lemma same_table_vals: "same_table key scan c rows m \<Longrightarrow> map scan rows = map c (vals m)"
proof -
  assume "same_table key scan c rows m"
  then have "map snd (map (\<lambda>r. (key r, scan r)) rows) = map snd (canon_map c m)"
    by (simp add: same_table_def)
  then show ?thesis by (simp add: comp_def canon_map_def vals_def case_prod_beta)
qed

text \<open>A query: the rows a WHERE selects are the values a filter selects.\<close>

lemma query_filter:
  assumes "map scan rows = map c (vals m)"
    and "\<And>r. r \<in> set rows \<Longrightarrow> P r = Q (scan r)" and "\<And>v. Q (c v) = Q v"
  shows "map scan (filter P rows) = map c (filter Q (vals m))"
proof -
  have "filter P rows = filter (\<lambda>r. Q (scan r)) rows"
    using assms(2) by (rule filter_cong [OF refl])
  then have "map scan (filter P rows) = filter Q (map scan rows)"
    by (simp add: filter_map comp_def)
  also have "\<dots> = map c (filter Q (vals m))"
    using assms(1,3) by (simp add: filter_map comp_def)
  finally show ?thesis .
qed

lemma query_pairs:
  assumes "same_table key scan c rows m"
    and "\<And>r. r \<in> set rows \<Longrightarrow> P r = Q (key r) (scan r)" and "\<And>k v. Q k (c v) = Q k v"
  shows "map (\<lambda>r. (key r, scan r)) (filter P rows) = canon_map c (filter (\<lambda>(k, v). Q k v) m)"
proof -
  have "filter P rows = filter (\<lambda>r. Q (key r) (scan r)) rows"
    using assms(2) by (rule filter_cong [OF refl])
  then have "map (\<lambda>r. (key r, scan r)) (filter P rows) = filter (\<lambda>(k, v). Q k v) (map (\<lambda>r. (key r, scan r)) rows)"
    by (simp add: filter_map comp_def)
  also have "\<dots> = canon_map c (filter (\<lambda>(k, v). Q k v) m)"
    using assms(1,3) by (simp add: same_table_def canon_map_def filter_map comp_def case_prod_unfold)
  finally show ?thesis .
qed

text \<open>\<open>WHERE P ORDER BY f\<close>, and the sorted filter over the values of a map.\<close>

lemma query_sorted:
  assumes "map scan rows = map c vs" and "\<And>r. f r = g (scan r)" and "\<And>v. g (c v) = g v"
  shows "map scan (sort_key f rows) = map c (sort_key g vs)"
proof -
  have "map scan (sort_key f rows) = sort_key g (map scan rows)"
    using assms(2) by (rule map_sort_key)
  also have "\<dots> = map c (sort_key g vs)"
    using assms(1) map_sort_key [of g g c vs] assms(3) by simp
  finally show ?thesis .
qed

definition byte_order :: "dialect \<Rightarrow> bool" where "byte_order D \<longleftrightarrow> db_key D = (\<lambda>s. s)"

section \<open>Rows by key\<close>

lemma GetRun_reads:
  assumes m: "mirrors D p s"
  shows "case GetRun s rid of Inr r \<Rightarrow> Pg_GetRun p rid = Inr (canon_run D r)
    | Inl e \<Rightarrow> (\<exists>e'. Pg_GetRun p rid = Inl e' \<and> err_chain e' = err_chain e)"
proof (cases "map_of (st_runs s) rid")
  case None
  with m have "with_key rr_run_id rid (pg_runs p) = []" by (simp add: with_key_Nil run_known)
  with None show ?thesis
    by (simp add: GetRun_def Pg_GetRun_def read_row_def translate_def)
next
  case (Some r)
  from run_row [OF m Some] obtain row where "scanRun row = canon_run D r" "with_key rr_run_id rid (pg_runs p) = [row]"
    by metis
  with Some show ?thesis by (simp add: GetRun_def Pg_GetRun_def read_row_def)
qed

lemma GetTask_reads:
  assumes m: "mirrors D p s"
  shows "case Store_GetTask s tid of Inr t \<Rightarrow> Pg_Store_GetTask p tid = Inr (canon_task D t)
    | Inl e \<Rightarrow> (\<exists>e'. Pg_Store_GetTask p tid = Inl e' \<and> err_chain e' = err_chain e)"
proof (cases "map_of (st_tasks s) tid")
  case None
  with m have "with_key tr_task_id tid (pg_tasks p) = []" by (simp add: with_key_Nil task_known)
  with None show ?thesis
    by (simp add: Store_GetTask_def Pg_Store_GetTask_def read_row_def translate_def)
next
  case (Some t)
  from task_row [OF m Some] obtain row where "scanTask row = canon_task D t" "with_key tr_task_id tid (pg_tasks p) = [row]"
    by metis
  with Some show ?thesis by (simp add: Store_GetTask_def Pg_Store_GetTask_def read_row_def)
qed

lemma GetEffect_reads:
  assumes m: "mirrors D p s"
  shows "case Store_GetEffect s k of Inr e \<Rightarrow> Pg_Store_GetEffect p k = Inr (canon_effect D e)
    | Inl e \<Rightarrow> (\<exists>e'. Pg_Store_GetEffect p k = Inl e' \<and> err_chain e' = err_chain e)"
proof (cases "map_of (st_effects s) k")
  case None
  with m have "with_key fr_idempotency_key k (pg_effects p) = []" by (simp add: with_key_Nil effect_known)
  with None show ?thesis
    by (simp add: Store_GetEffect_def Pg_Store_GetEffect_def read_row_def translate_def)
next
  case (Some e)
  from effect_row [OF m Some] obtain row where "scanEffect row = canon_effect D e"
      "with_key fr_idempotency_key k (pg_effects p) = [row]" by metis
  with Some show ?thesis by (simp add: Store_GetEffect_def Pg_Store_GetEffect_def read_row_def)
qed

section \<open>Lists\<close>

lemma History_reads:
  assumes m: "mirrors D p s"
  shows "Pg_History p rid = map (canon_event D) (History s rid)"
  unfolding Pg_History_def History_def
  by (rule query_sorted [OF events_rows [OF m]]) (simp_all add: scanEvent_def canon_event_def)

lemma task_vals: "mirrors D p s \<Longrightarrow> map scanTask (pg_tasks p) = map (canon_task D) (vals (st_tasks s))"
  by (auto simp: mirrors_def tasks_shown_def dest: same_table_vals)

lemma ListTasks_reads:
  assumes m: "mirrors D p s" and order: "byte_order D"
  shows "Pg_ListTasks D p rid = map (canon_task D) (ListTasks s rid)"
  unfolding Pg_ListTasks_def ListTasks_def sortTasks_def with_key_def
  by (rule query_sorted [OF query_filter [OF task_vals [OF m]]])
    (use order in \<open>simp_all add: scanTask_def canon_task_def byte_order_def\<close>)

lemma run_vals: "mirrors D p s \<Longrightarrow> map scanRun (pg_runs p) = map (canon_run D) (vals (st_runs s))"
  by (auto simp: mirrors_def runs_shown_def dest: same_table_vals)

lemma ListEffects_reads:
  assumes m: "mirrors D p s" and order: "byte_order D"
  shows "Pg_ListEffects D p rid = map (canon_effect D) (ListEffects s rid)"
  unfolding Pg_ListEffects_def ListEffects_def sortEffects_def with_key_def
  by (rule query_sorted [OF query_filter [OF same_table_vals [OF mirrorsD(5) [OF m]]]])
    (use order in \<open>simp_all add: scanEffect_def canon_effect_def byte_order_def\<close>)

lemma Signals_reads:
  assumes m: "mirrors D p s" and order: "byte_order D"
  shows "Pg_Signals D p rid name = map (canon_signal D) (Signals s rid name)"
proof -
  have "map scanSignal (pg_signals p) = map (canon_signal D) (vals (st_signals s))"
    using mirrorsD(8) [OF m] by (auto simp: signals_shown_def dest: same_table_vals)
  then show ?thesis
    unfolding Pg_Signals_def Signals_def sortSignals_def
    by (rule query_sorted [OF query_filter])
      (use order in \<open>simp_all add: scanSignal_def canon_signal_def byte_order_def\<close>)
qed

text \<open>The queues: what a limit cuts off.\<close>

definition small_tables :: "pgstate \<Rightarrow> bool" where
  "small_tables p \<longleftrightarrow> int (length (pg_runs p)) \<le> 1073741824 \<and> int (length (pg_tasks p)) \<le> 1073741824
     \<and> int (length (pg_effects p)) \<le> 1073741824 \<and> int (length (pg_outbox p)) \<le> 1073741824
     \<and> int (length (pg_leases p)) \<le> 1073741824"

lemma sorted_limited_query:
  assumes "int (length rows) \<le> 1073741824"
  shows "sql_limit (limitOrAll n) (sort_key f (filter P rows)) = limited n (sort_key f (filter P rows))"
proof (rule sql_limited)
  have "int (length (filter P rows)) \<le> int (length rows)" by simp
  from order_trans [OF this assms] show "int (length (sort_key f (filter P rows))) \<le> 1073741824" by simp
qed

lemma sort_key_same:
  "(\<And>x y. x \<in> set xs \<Longrightarrow> y \<in> set xs \<Longrightarrow> f x \<le> f y \<longleftrightarrow> g x \<le> g y) \<Longrightarrow> sort_key f xs = sort_key g xs"
proof (induction xs)
  case (Cons x xs)
  have "insort_key f x ys = insort_key g x ys" if "set ys \<subseteq> set xs" for ys
    using that Cons.prems by (induction ys) auto
  from this [of "sort_key g xs"] Cons show ?case by simp
qed simp

lemma PendingTasks_reads:
  assumes m: "mirrors D p s" and order: "byte_order D" and small: "small_tables p" and now: "whole D now"
    and due: "list_all (\<lambda>r. tr_available_at r \<le> now) (pg_tasks p)"
  shows "Pg_PendingTasks D p now n = map (canon_task D) (PendingTasks s n)"
proof -
  let ?P = "\<lambda>r. tr_status r = TaskPending \<and> tr_available_at r \<le> db_stamp D now"
  let ?Q = "\<lambda>t. task_Status t = TaskPending"
  have cols: "tr_priority r = 0" if "r \<in> set (pg_tasks p)" for r
    using mirrorsD(3) [OF m] that by (simp add: tasks_shown_def)
  have "map scanTask (filter ?P (pg_tasks p)) = map (canon_task D) (filter ?Q (vals (st_tasks s)))"
    using due now by (intro query_filter [OF task_vals [OF m]]) (auto simp: scanTask_def canon_task_def list_all_iff)
  then have "map scanTask (sort_key (\<lambda>r. (tr_created_at r, tr_task_id r)) (filter ?P (pg_tasks p)))
      = map (canon_task D) (sortTasks (filter ?Q (vals (st_tasks s))))"
    unfolding sortTasks_def by (rule query_sorted) (simp_all add: scanTask_def canon_task_def)
  moreover have "sort_key (\<lambda>r. (- tr_priority r, tr_created_at r, db_key D (tr_task_id r))) (filter ?P (pg_tasks p))
      = sort_key (\<lambda>r. (tr_created_at r, tr_task_id r)) (filter ?P (pg_tasks p))"
    using cols order by (intro sort_key_same) (auto simp: byte_order_def)
  ultimately show ?thesis
    using small by (simp add: Pg_PendingTasks_def PendingTasks_def sorted_limited_query small_tables_def
        limited_map [symmetric])
qed

lemma open_status:
  "TaskStatus_Valid st \<Longrightarrow> st = TaskPending \<or> st = TaskRunning \<longleftrightarrow> \<not> TaskStatus_IsTerminal st"
  by (cases st) (auto simp: TaskStatus_Valid_def TaskStatus_IsTerminal_def)

lemma run_open:
  assumes m: "mirrors D p s"
  shows "list_ex (\<lambda>t. tr_run_id t = rid \<and> (tr_status t = TaskPending \<or> tr_status t = TaskRunning)) (pg_tasks p)
     \<longleftrightarrow> rid \<in> set (map task_RunID (filter (\<lambda>t. \<not> TaskStatus_IsTerminal (task_Status t)) (vals (st_tasks s))))"
proof -
  have "map scanTask (filter (\<lambda>t. tr_status t = TaskPending \<or> tr_status t = TaskRunning) (pg_tasks p))
      = map (canon_task D) (filter (\<lambda>t. \<not> TaskStatus_IsTerminal (task_Status t)) (vals (st_tasks s)))"
    using mirrorsD(3) [OF m] open_status
    by (intro query_filter [OF task_vals [OF m]]) (simp_all add: tasks_shown_def scanTask_def canon_task_def)
  then have "map task_RunID (map scanTask (filter (\<lambda>t. tr_status t = TaskPending \<or> tr_status t = TaskRunning) (pg_tasks p)))
      = map task_RunID (map (canon_task D) (filter (\<lambda>t. \<not> TaskStatus_IsTerminal (task_Status t)) (vals (st_tasks s))))"
    by (rule arg_cong)
  then have eq: "map tr_run_id (filter (\<lambda>t. tr_status t = TaskPending \<or> tr_status t = TaskRunning) (pg_tasks p))
      = map task_RunID (filter (\<lambda>t. \<not> TaskStatus_IsTerminal (task_Status t)) (vals (st_tasks s)))"
    by (simp add: scanTask_def canon_task_def comp_def)
  show ?thesis
    unfolding eq [symmetric] by (force simp: list_ex_iff)
qed

lemma RunsAwaitingAdvance_reads:
  assumes m: "mirrors D p s" and order: "byte_order D" and small: "small_tables p" and now: "whole D now"
  shows "Pg_RunsAwaitingAdvance D p now n = RunsAwaitingAdvance s now n"
proof -
  let ?open = "map task_RunID (filter (\<lambda>t. \<not> TaskStatus_IsTerminal (task_Status t)) (vals (st_tasks s)))"
  let ?P = "\<lambda>r. rr_status r = RunRunning \<and> (case rr_available_at r of None \<Rightarrow> True | Some t \<Rightarrow> t \<le> db_stamp D now)
      \<and> \<not> list_ex (\<lambda>t. tr_run_id t = rr_run_id r \<and> (tr_status t = TaskPending \<or> tr_status t = TaskRunning)) (pg_tasks p)"
  let ?Q = "\<lambda>rid r. run_Status r = RunRunning \<and> rid \<notin> set ?open \<and> \<not> Run_IsWaiting r now"
  have "map (\<lambda>r. (rr_run_id r, scanRun r)) (filter ?P (pg_runs p)) = canon_map (canon_run D) (filter (\<lambda>(k, v). ?Q k v) (st_runs s))"
  proof (rule query_pairs)
    show "same_table rr_run_id scanRun (canon_run D) (pg_runs p) (st_runs s)"
      using mirrorsD(2) [OF m] by (simp add: runs_shown_def)
    show "?P r = ?Q (rr_run_id r) (scanRun r)" for r
      using now by (auto simp: run_open [OF m] scanRun_def Run_IsWaiting_def split: option.split)
    show "?Q k (canon_run D v) = ?Q k v" for k v
      by (simp add: canon_run_def Run_IsWaiting_def)
  qed
  then have "map fst (map (\<lambda>r. (rr_run_id r, scanRun r)) (filter ?P (pg_runs p)))
      = map fst (canon_map (canon_run D) (filter (\<lambda>(k, v). ?Q k v) (st_runs s)))"
    by (rule arg_cong)
  then have eq: "map rr_run_id (filter ?P (pg_runs p)) = map fst (filter (\<lambda>(k, v). ?Q k v) (st_runs s))"
    by (simp add: comp_def)
  have "int (length (filter ?P (pg_runs p))) \<le> int (length (pg_runs p))" by simp
  also have "\<dots> \<le> 1073741824" using small by (simp add: small_tables_def)
  finally have "sql_limit (limitOrAll n) (sort (map rr_run_id (filter ?P (pg_runs p))))
      = limited n (sort (map rr_run_id (filter ?P (pg_runs p))))"
    by (intro sql_limited) simp
  with order show ?thesis
    by (simp add: Pg_RunsAwaitingAdvance_def RunsAwaitingAdvance_def byte_order_def Let_def eq)
qed

lemma UnresolvedEffects_reads:
  assumes m: "mirrors D p s" and order: "byte_order D" and small: "small_tables p" and before: "whole D before"
  shows "Pg_UnresolvedEffects D p before n = map (canon_effect D) (UnresolvedEffects s before n)"
proof -
  let ?P = "\<lambda>r. (fr_status r = EffectRunning \<or> fr_status r = EffectUnknown) \<and> fr_updated_at r < db_stamp D before"
  let ?Q = "\<lambda>e. (eff_Status e = EffectRunning \<or> eff_Status e = EffectUnknown) \<and> eff_UpdatedAt e < before"
  have "map scanEffect (filter ?P (pg_effects p)) = map (canon_effect D) (filter ?Q (vals (st_effects s)))"
    using before by (intro query_filter [OF same_table_vals [OF mirrorsD(5) [OF m]]])
      (simp_all add: scanEffect_def canon_effect_def)
  then have "map scanEffect (sort_key (\<lambda>r. (fr_updated_at r, db_key D (fr_idempotency_key r))) (filter ?P (pg_effects p)))
      = map (canon_effect D) (sort_key (\<lambda>e. (eff_UpdatedAt e, eff_Key e)) (filter ?Q (vals (st_effects s))))"
    using order by (intro query_sorted) (simp_all add: scanEffect_def canon_effect_def byte_order_def)
  with small show ?thesis
    by (simp add: Pg_UnresolvedEffects_def UnresolvedEffects_def sorted_limited_query small_tables_def limited_map [symmetric])
qed

lemma PendingDeliveries_reads:
  assumes m: "mirrors D p s" and small: "small_tables p" and now: "whole D now" "0 \<le> now"
  shows "Pg_PendingDeliveries D p now n = PendingDeliveries s now n"
proof -
  let ?P = "\<lambda>r. or_published_at r = None \<and> (case or_available_at r of None \<Rightarrow> True | Some t \<Rightarrow> t \<le> db_stamp D now)"
  let ?Q = "\<lambda>d. \<not> is_published s (del_ID d) \<and> (time_IsZero (del_AvailableAt d) \<or> \<not> now < del_AvailableAt d)"
  have tab: "same_table or_outbox_id scanDelivery (\<lambda>d. d) (pg_outbox p) (st_deliveries s)"
    and pub: "\<And>r. r \<in> set (pg_outbox p) \<Longrightarrow> or_published_at r = None \<longleftrightarrow> map_of (st_published s) (or_outbox_id r) \<noteq> Some True"
    using mirrorsD(9) [OF m] unfolding outbox_shown_def by blast+
  have "is_published s i \<longleftrightarrow> map_of (st_published s) i = Some True" for i
    by (simp add: is_published_def split: option.split)
  then have "map scanDelivery (filter ?P (pg_outbox p)) = map (\<lambda>d. d) (filter ?Q (vals (st_deliveries s)))"
    using pub now by (intro query_filter [OF same_table_vals [OF tab]])
      (auto simp: scanDelivery_def time_IsZero_def zero_time_def split: option.splits)
  then have "map scanDelivery (sort_key or_outbox_id (filter ?P (pg_outbox p)))
      = map (\<lambda>d. d) (sort_key del_ID (filter ?Q (vals (st_deliveries s))))"
    by (rule query_sorted) (simp_all add: scanDelivery_def)
  with small show ?thesis
    by (simp add: Pg_PendingDeliveries_def PendingDeliveries_def sorted_limited_query small_tables_def limited_map [symmetric])
qed

lemma task_open:
  assumes m: "mirrors D p s"
  shows "list_ex (\<lambda>t. tr_task_id t = tid \<and> (tr_status t = TaskPending \<or> tr_status t = TaskRunning)) (pg_tasks p)
     \<longleftrightarrow> (case map_of (st_tasks s) tid of None \<Rightarrow> False | Some t \<Rightarrow> \<not> TaskStatus_IsTerminal (task_Status t))"
proof (cases "map_of (st_tasks s) tid")
  case None
  with m have "\<not> present tr_task_id tid (pg_tasks p)" by (simp add: task_known)
  with None show ?thesis by (auto simp: present_def list_ex_iff)
next
  case (Some t)
  from task_row [OF m Some] obtain row where row: "row \<in> set (pg_tasks p)" "tr_task_id row = tid"
      "scanTask row = canon_task D t" "distinct (map tr_task_id (pg_tasks p))" by metis
  have "list_ex (\<lambda>t. tr_task_id t = tid \<and> (tr_status t = TaskPending \<or> tr_status t = TaskRunning)) (pg_tasks p)
      \<longleftrightarrow> tr_status row = TaskPending \<or> tr_status row = TaskRunning"
    using same_row [OF row(4) _ row(1)] row(1,2) unfolding list_ex_iff by metis
  moreover from mirrorsD(3) [OF m] row(1) have "TaskStatus_Valid (tr_status row)" by (simp add: tasks_shown_def)
  ultimately show ?thesis
    using Some task_row_fields(4) [OF row(3)] open_status [of "tr_status row"] by simp
qed

lemma ExpiredLeases_reads:
  assumes m: "mirrors D p s" and order: "byte_order D" and small: "small_tables p" and now: "whole D now"
  shows "Pg_ExpiredLeases D p now n = ExpiredLeases s now n"
proof -
  let ?P = "\<lambda>r. lr_expires_at r \<le> db_stamp D now
      \<and> list_ex (\<lambda>t. tr_task_id t = lr_task_id r \<and> (tr_status t = TaskPending \<or> tr_status t = TaskRunning)) (pg_tasks p)"
  let ?Q = "\<lambda>tid l. Lease_Expired l now
      \<and> (case map_of (st_tasks s) tid of None \<Rightarrow> False | Some t \<Rightarrow> \<not> TaskStatus_IsTerminal (task_Status t))"
  have "map (\<lambda>r. (lr_task_id r, scanLease r)) (filter ?P (pg_leases p)) = canon_map (\<lambda>l. l) (filter (\<lambda>(k, v). ?Q k v) (st_leases s))"
    by (rule query_pairs [OF mirrorsD(6) [OF m]])
      (use now in \<open>simp_all add: task_open [OF m] scanLease_def Lease_Expired_def not_less\<close>)
  then have "map snd (map (\<lambda>r. (lr_task_id r, scanLease r)) (filter ?P (pg_leases p)))
      = map snd (canon_map (\<lambda>l. l) (filter (\<lambda>(k, v). ?Q k v) (st_leases s)))"
    by (rule arg_cong)
  then have "map scanLease (filter ?P (pg_leases p)) = map (\<lambda>l. l) (map snd (filter (\<lambda>(k, v). ?Q k v) (st_leases s)))"
    by (simp add: comp_def)
  then have "map scanLease (sort_key (\<lambda>r. (lr_expires_at r, db_key D (lr_task_id r))) (filter ?P (pg_leases p)))
      = map (\<lambda>l. l) (sort_key (\<lambda>l. (lease_ExpiresAt l, lease_TaskID l)) (map snd (filter (\<lambda>(k, v). ?Q k v) (st_leases s))))"
    by (rule query_sorted) (use order in \<open>simp_all add: scanLease_def byte_order_def\<close>)
  with small show ?thesis
    by (simp add: Pg_ExpiredLeases_def ExpiredLeases_def sorted_limited_query small_tables_def limited_map [symmetric])
qed

section \<open>The next wake-up\<close>

definition wakes_of :: "time \<Rightarrow> Run list \<Rightarrow> time list" where
  "wakes_of after rs = filter (\<lambda>t. after < t) (List.map_filter run_AvailableAt (filter (\<lambda>r. run_Status r = RunRunning) rs))"

lemma wakes_of_Cons:
  "wakes_of after (r # rs) = (case run_AvailableAt r of
     None \<Rightarrow> wakes_of after rs
   | Some t \<Rightarrow> if run_Status r = RunRunning \<and> after < t then t # wakes_of after rs else wakes_of after rs)"
  by (auto simp: wakes_of_def List.map_filter_def split: option.split)

lemma wake_step_eq: "wake_step after acc r = (case run_AvailableAt r of None \<Rightarrow> acc
   | Some t \<Rightarrow> if run_Status r = RunRunning \<and> after < t
       then (case acc of None \<Rightarrow> Some t | Some x \<Rightarrow> Some (min x t)) else acc)"
  by (auto simp: wake_step_def min_def split: option.split)

lemma Min_min: "finite A \<Longrightarrow> Min (insert (min x t) A) = Min (insert x (insert t A))" for x t :: time
  by (cases "A = {}") (auto simp: min.assoc)

lemma wake_fold_Some: "foldl (wake_step after) (Some x) rs = Some (Min (set (x # wakes_of after rs)))"
proof (induction rs arbitrary: x)
  case Nil
  then show ?case by (simp add: wakes_of_def List.map_filter_def)
next
  case (Cons r rs)
  show ?case
  proof (cases "\<exists>t. run_AvailableAt r = Some t \<and> run_Status r = RunRunning \<and> after < t")
    case True
    then obtain t where "run_AvailableAt r = Some t" "run_Status r = RunRunning" "after < t" by blast
    then show ?thesis
      using Cons.IH [of "min x t"] by (simp add: wake_step_eq wakes_of_Cons Min_min del: Min_insert)
  next
    case False
    then have "wake_step after (Some x) r = Some x" "wakes_of after (r # rs) = wakes_of after rs"
      by (auto simp: wake_step_eq wakes_of_Cons split: option.split)
    then show ?thesis using Cons.IH [of x] by simp
  qed
qed

lemma wake_fold: "foldl (wake_step after) None rs = (case wakes_of after rs of [] \<Rightarrow> None | t # ts \<Rightarrow> Some (Min (set (t # ts))))"
proof (induction rs)
  case Nil
  then show ?case by (simp add: wakes_of_def List.map_filter_def)
next
  case (Cons r rs)
  show ?case
  proof (cases "\<exists>t. run_AvailableAt r = Some t \<and> run_Status r = RunRunning \<and> after < t")
    case True
    then obtain t where "run_AvailableAt r = Some t" "run_Status r = RunRunning" "after < t" by blast
    then have "wake_step after None r = Some t" "wakes_of after (r # rs) = t # wakes_of after rs"
      by (simp_all add: wake_step_eq wakes_of_Cons)
    then show ?thesis
      using wake_fold_Some [of after t rs] by simp
  next
    case False
    then have "wake_step after None r = None" "wakes_of after (r # rs) = wakes_of after rs"
      by (auto simp: wake_step_eq wakes_of_Cons split: option.split)
    then show ?thesis using Cons.IH by simp
  qed
qed

lemma map_filter_of_map: "List.map_filter f xs = List.map_filter (\<lambda>x. x) (map f xs)"
  by (simp add: List.map_filter_def filter_map comp_def)

lemma sort_head: "xs \<noteq> [] \<Longrightarrow> \<exists>ys. sort xs = Min (set xs) # ys" for xs :: "time list"
proof -
  assume "xs \<noteq> []"
  then obtain y ys where ys: "sort xs = y # ys" by (cases "sort xs") (auto dest: arg_cong [where f = length])
  then have "sorted (y # ys)" by (metis sorted_sort)
  moreover from ys have "set xs = set (y # ys)" by (metis set_sort)
  ultimately have "Min (set xs) = y" by (auto intro!: Min_eqI)
  with ys show ?thesis by simp
qed

lemma NextWakeUp_reads:
  assumes m: "mirrors D p s" and after: "whole D after"
  shows "Pg_NextWakeUp D p after = NextWakeUp s after"
proof -
  let ?rows = "filter (\<lambda>r. rr_status r = RunRunning) (pg_runs p)"
  let ?runs = "filter (\<lambda>r. run_Status r = RunRunning) (vals (st_runs s))"
  have "map scanRun ?rows = map (canon_run D) ?runs"
    by (rule query_filter [OF run_vals [OF m]]) (simp_all add: scanRun_def canon_run_def)
  then have "map run_AvailableAt (map scanRun ?rows) = map run_AvailableAt (map (canon_run D) ?runs)"
    by (rule arg_cong)
  then have "map rr_available_at ?rows = map run_AvailableAt ?runs"
    by (simp add: scanRun_def canon_run_def comp_def)
  then have "List.map_filter rr_available_at ?rows = List.map_filter run_AvailableAt ?runs"
    by (metis map_filter_of_map)
  then have "Pg_NextWakeUp D p after = (case sort (wakes_of after (vals (st_runs s))) of [] \<Rightarrow> None | t # _ \<Rightarrow> Some t)"
    using after by (simp add: Pg_NextWakeUp_def wakes_of_def)
  then show ?thesis
    using sort_head [of "wakes_of after (vals (st_runs s))"]
    by (cases "wakes_of after (vals (st_runs s))") (auto simp: NextWakeUp_def wake_fold)
qed

end
