(* ===== verification/PgSamples.thy ===== *)
theory PgSamples
  imports Samples StoreReads
begin

text \<open>
  A database to try the two stores on, and a history that starts a run, dispatches and completes
  a task, receives a signal twice and loses a race.
\<close>

text \<open>JSONB orders keys by length first; the driver keeps microseconds; texts are ordered by bytes.\<close>

definition sample_dialect :: dialect where
  "sample_dialect = \<lparr>db_json = (\<lambda>j. Some (case j of JObj kvs \<Rightarrow> JObj (sort_key (\<lambda>(k, _). length k) kvs) | _ \<Rightarrow> j)),
     db_stamp = (\<lambda>t. (t + 500) div 1000 * 1000), db_key = (\<lambda>s. s)\<rparr>"

definition pg_sample_run :: Run where
  "pg_sample_run = new_run (sample_engine pay_agent) ''r'' (RawJSON (JObj [(''order'', JNum 7), (''n'', JNum 1)]))"

definition pg_sample_task :: Task where
  "pg_sample_task = new_task (sample_engine pay_agent) ''r'' ''t'' ''S1'' ''pay'' RawNil"

definition sample_history :: "(time \<times> txn) list" where
  "sample_history =
     [(1000, Script (start_script pg_sample_run)),
      (2000, Script (dispatch_script pg_sample_run pg_sample_task)),
      (3000, Script (dispatch_script pg_sample_run pg_sample_task)),
      (3000, Script [OpRegisterWorker sample_worker]),
      (4000, WithTask ''t'' (claim_script 4000 10000 ''t'' ''w'')),
      (5000, Script (signal_script sample_signal)),
      (5000, Script (signal_script sample_signal)),
      (6000, WithTask ''t'' (complete_script ''t'' 1 (RawJSON (JStr ''paid'')))),
      (7000, Script (outcomes_script [1] [(1, ''late'')]))]"

lemma sample_history_fits: "history_fits sample_dialect sample_history newState"
  by code_simp

lemma sample_history_outcomes:
  "fst (mem_history sample_history newState)
     = [None, None, Some [ErrConflict], None, None, None, Some [ErrSignalExists], None, None]"
  by code_simp

lemma sample_byte_order: "byte_order sample_dialect"
  by (simp add: byte_order_def sample_dialect_def)

lemma sample_whole: "whole sample_dialect 8000"
  by (simp add: whole_def sample_dialect_def)

lemma sample_small: "small_tables (snd (pg_history sample_dialect sample_history empty_database))"
proof -
  have "length (pg_runs (snd (pg_history sample_dialect sample_history empty_database))) = 1"
    "length (pg_tasks (snd (pg_history sample_dialect sample_history empty_database))) = 1"
    "length (pg_effects (snd (pg_history sample_dialect sample_history empty_database))) = 0"
    "length (pg_outbox (snd (pg_history sample_dialect sample_history empty_database))) = 1"
    "length (pg_leases (snd (pg_history sample_dialect sample_history empty_database))) = 1"
    by code_simp+
  then show ?thesis by (simp add: small_tables_def)
qed

lemma sample_due: "list_all (\<lambda>r. tr_available_at r \<le> 8000) (pg_tasks (snd (pg_history sample_dialect sample_history empty_database)))"
  by code_simp

lemma sample_history_types: "map ev_Type (History (snd (mem_history sample_history newState)) ''r'')
    = [EventRunStarted, EventTaskCreated, EventTaskClaimed, EventTaskCompleted]"
  by code_simp

end
