(* ===== verification/OperatorLaws.thy ===== *)
theory OperatorLaws
  imports Progress
begin

text \<open>
  What an operator's resolution of an effect has done (cmd/veya/effects.go), when it goes
  through, and which effects it can settle.
\<close>

text \<open>The row and the history after a resolution; nothing else of the store has moved.\<close>

definition resolved_to :: "EffectStatus \<Rightarrow> string \<Rightarrow> state \<Rightarrow> state \<Rightarrow> Effect \<Rightarrow> bool" where
  "resolved_to target ref s s' e \<longleftrightarrow>
     (\<exists>e' ev. map_of (st_effects s') (eff_Key e) = Some e'
        \<and> eff_Status e' = target \<and> eff_ExternalRef e' = (if ref \<noteq> [] then ref else eff_ExternalRef e)
        \<and> eff_Response e' = eff_Response e
        \<and> (\<forall>k. k \<noteq> eff_Key e \<longrightarrow> map_of (st_effects s') k = map_of (st_effects s) k)
        \<and> ev_Type ev = EventEffectReconciled
        \<and> events_of s' (eff_RunID e) = events_of s (eff_RunID e) @ [ev]
        \<and> s' = s\<lparr>st_effects := st_effects s', st_events := st_events s'\<rparr>)"

lemma owner_stopped_moves [simp]:
  "eff_ExternalRef (move_effect now to owner_stopped e) = eff_ExternalRef e"
  "eff_Response (move_effect now to owner_stopped e) = eff_Response e"
  by (simp_all add: move_effect_def owner_stopped_def no_outcome_def)

lemma resolve_tx_ok:
  assumes "resolve_tx now e target ref detail s = (Inr u, s')" and "map_of (st_effects s) (eff_Key e) = Some e"
  shows "resolved_to target ref s s' e"
proof -
  let ?out = "\<lparr>eo_Response = RawNil, eo_ExternalRef = ref, eo_Error = (if target = EffectFailed then detail else [])\<rparr>"
  let ?data = "EffectData (eff_TaskID e) (eff_Key e) (eff_Type e) (eff_Class e) target ref RawNil [] detail"
  obtain e1 m where m: "Append now (eff_RunID e) EventEffectReconciled [] ?data
        (s\<lparr>st_effects := m\<rparr>) = (Inr u, s')"
    and e1: "m = AList.update (eff_Key e) (move_effect now target ?out e1) (st_effects s)
        \<or> m = AList.update (eff_Key e) (move_effect now target ?out e1)
            (AList.update (eff_Key e) e1 (st_effects s))"
    and same: "eff_ExternalRef e1 = eff_ExternalRef e" "eff_Response e1 = eff_Response e"
  proof (cases "eff_Status e = EffectRunning")
    case True
    with assms that [of _ "move_effect now EffectUnknown owner_stopped e"] show ?thesis
      by (auto simp: resolve_tx_def TransitionEffect_ok)
  next
    case False
    with assms that [of _ e] show ?thesis by (auto simp: resolve_tx_def TransitionEffect_ok)
  qed
  obtain ev where ev: "appends (eff_RunID e) EventEffectReconciled [] ?data (s\<lparr>st_effects := m\<rparr>) s' ev"
    using Append_ok [OF m] by blast
  note a = appendsD [OF ev]
  have s': "s' = s\<lparr>st_effects := m, st_events := st_events s'\<rparr>" using a(5) by simp
  then have eff: "st_effects s' = m" by (metis state.select_convs(5) state.surjective state.update_convs(4) state.update_convs(5))
  show ?thesis
    unfolding resolved_to_def eff
    using a(1,4) e1 same s' by (intro exI [of _ "move_effect now target ?out e1"] exI [of _ ev])
      (auto simp: move_effect_def events_of_cong)
qed


lemma marshals_resolution [simp]: "marshals (EffectData tid key ty cl status ref RawNil err detail)"
  by (simp add: marshals_def marshal_data_def struct_def field_defs raw_empty_def)

definition settleable :: "resolve_flags \<Rightarrow> EffectStatus \<Rightarrow> bool" where
  "settleable f status \<longleftrightarrow> status = EffectRunning \<or> status = EffectUnknown \<or> (status = EffectPending \<and> \<not> rf_committed f)"

abbreviation settled_as :: "resolve_flags \<Rightarrow> EffectStatus" where
  "settled_as f \<equiv> (if rf_committed f then EffectCommitted else EffectFailed)"

lemma resolve_tx_total:
  assumes e: "map_of (st_effects s) (eff_Key e) = Some e" and st: "settleable f (eff_Status e)"
    and r: "room s (eff_RunID e) 1"
  shows "\<exists>s'. resolve_tx now e (settled_as f) ref detail s = (Inr (), s')"
proof -
  have app: "\<exists>s'. Append now (eff_RunID e) EventEffectReconciled [] (EffectData tid key ty cl to ref RawNil [] detail)
      (s\<lparr>st_effects := m\<rparr>) = (Inr (), s')" for tid key ty cl to m
    using Append_last [of "s\<lparr>st_effects := m\<rparr>" "eff_RunID e"] r by (metis marshals_resolution room_cong(3))
  show ?thesis
    using e st app
    by (cases "eff_Status e = EffectRunning")
      (auto simp: resolve_tx_def TransitionEffect_ok EffectStatus_CanTransitionTo_def settleable_def move_effect_def)
qed

lemma resolve_tx_settleable:
  "resolve_tx now e (settled_as f) ref detail s = (Inr u, s') \<Longrightarrow> EffectStatus_Valid (eff_Status e)
     \<Longrightarrow> \<not> EffectStatus_IsResolved (eff_Status e) \<Longrightarrow> settleable f (eff_Status e)"
  by (cases "eff_Status e") (auto simp: resolve_tx_def TransitionEffect_ok EffectStatus_CanTransitionTo_def
      settleable_def EffectStatus_Valid_def EffectStatus_IsResolved_def split: if_splits)

lemma stored_effect:
  "store_ok s \<Longrightarrow> map_of (st_effects s) k = Some e \<Longrightarrow> eff_Key e = k \<and> EffectStatus_Valid (eff_Status e)"
  by (auto simp: store_ok_def effect_ok_def dest: keyedD)

lemma cmdEffectsResolve_ok:
  assumes ok: "store_ok (w_st w)" and e: "map_of (st_effects (w_st w)) key = Some e"
    and r: "room (w_st w) (eff_RunID e) 1"
  shows "(\<exists>t w'. cmdEffectsResolve None f [key] w = (Inr t, w')) \<longleftrightarrow>
      rf_committed f \<noteq> rf_notExecuted f \<and> \<not> (rf_committed f \<and> rf_ref f = []) \<and> settleable f (eff_Status e)"
proof -
  note k = stored_effect [OF ok e]
  have total: "\<exists>s'. resolve_tx (w_now w) e (settled_as f) (rf_ref f) (resolve_detail f) (w_st w) = (Inr (), s')"
    if "settleable f (eff_Status e)"
    using resolve_tx_total [OF _ that r] e k by simp
  have "\<not> EffectStatus_IsResolved (eff_Status e)" if "settleable f (eff_Status e)"
    using that by (auto simp: settleable_def EffectStatus_IsResolved_def)
  with total resolve_tx_settleable [of "w_now w" e f "rf_ref f" "resolve_detail f" "w_st w"] k show ?thesis
    by (auto simp: cmdEffectsResolve_def Store_GetEffect_def e Let_def split: prod.splits sum.splits)
      (metis Inl_Inr_False in_tx_done prod.inject sum.distinct(1))+
qed

lemma cmdEffectsResolve_done:
  assumes ok: "store_ok (w_st w)" and c: "cmdEffectsResolve opened f [key] w = (Inr t, w')"
  shows "t = settled_as f \<and> (\<exists>e. map_of (st_effects (w_st w)) key = Some e \<and> eff_Key e = key
      \<and> resolved_to t (rf_ref f) (w_st w) (w_st w') e)"
proof -
  obtain e s' u where e: "map_of (st_effects (w_st w)) key = Some e" and t: "t = settled_as f"
    and tx: "resolve_tx (w_now w) e t (rf_ref f) (resolve_detail f) (w_st w) = (Inr u, s')" and w': "w' = w\<lparr>w_st := s'\<rparr>"
    using c by (auto simp: cmdEffectsResolve_def Store_GetEffect_def Let_def
        split: if_splits option.splits prod.splits sum.splits)
  from stored_effect [OF ok e] resolve_tx_ok [OF tx] e t w' show ?thesis by auto
qed

lemma cmdEffectsResolve_refused:
  "cmdEffectsResolve opened f args w = (Inl err, w') \<Longrightarrow> same_but_seq (w_st w) (w_st w')"
  by (auto simp: cmdEffectsResolve_def same_but_seq_def Let_def
      split: list.splits if_splits option.splits prod.splits sum.splits dest!: in_tx_failed)

end
