(* ===== verification/Backoffs.thy ===== *)
theory Backoffs
  imports Progress
begin

text \<open>
  What a retry's backoff does and does not hold back. The delivery intent of a requeued task is
  not due before the backoff is over, so the relay leaves it alone; the recovery scan
  (engine/runtime.go) publishes every pending task and does not look at it.
\<close>

section \<open>Advancing a run publishes nothing\<close>

definition silent :: "world \<Rightarrow> world \<Rightarrow> bool" where
  "silent w w' \<longleftrightarrow> w_sent w' = w_sent w \<and> w_publishes w' = w_publishes w \<and> w_now w' = w_now w"

lemma silent_refl [simp]: "silent w w"
  by (simp add: silent_def)

lemma silent_trans: "silent u v \<Longrightarrow> silent v w \<Longrightarrow> silent u w"
  by (simp add: silent_def)

lemma silent_updates [simp]:
  "silent w (w'\<lparr>w_wakes := n\<rparr>) = silent w w'" "silent w (w'\<lparr>w_taskIDs := n\<rparr>) = silent w w'"
  "silent w (w'\<lparr>w_asked := n\<rparr>) = silent w w'" "silent (w\<lparr>w_taskIDs := n\<rparr>) w' = silent w w'"
  "silent (w\<lparr>w_asked := n\<rparr>) w' = silent w w'" "silent w (w'\<lparr>w_st := s\<rparr>) = silent w w'"
  by (simp_all add: silent_def)

lemma in_tx_silent: "in_tx m w = (r, w') \<Longrightarrow> silent w w'"
  by (auto simp: in_tx_def split: prod.splits)

lemma finish_silent: "finish run nxt evt data w = (r, w') \<Longrightarrow> silent w w'"
  by (auto simp: finish_def split: prod.splits sum.splits if_splits dest!: in_tx_silent)

lemma dispatch_silent: "dispatch e run d w = (r, w') \<Longrightarrow> silent w w'"
  by (auto simp: dispatch_def Let_def wake_def split: prod.splits sum.splits if_splits dest!: in_tx_silent)

lemma dispatchParallel_silent: "dispatchParallel e run d w = (r, w') \<Longrightarrow> silent w w'"
  by (auto simp: dispatchParallel_def Let_def wake_def split: prod.splits sum.splits if_splits option.splits
      dest!: in_tx_silent finish_silent)

lemma park_silent: "park run until evt st data w = (r, w') \<Longrightarrow> silent w w'"
  by (auto simp: park_def split: prod.splits sum.splits if_splits dest!: in_tx_silent)

lemma repark_silent: "repark run wt w = (r, w') \<Longrightarrow> silent w w'"
  by (auto simp: repark_def split: prod.splits sum.splits if_splits dest!: in_tx_silent)

lemma resume_silent: "resume run h w = (r, w') \<Longrightarrow> silent w w'"
  by (auto simp: resume_def split: prod.splits sum.splits option.splits if_splits dest!: in_tx_silent repark_silent)

lemma act_silent: "act e run d w = (p, w') \<Longrightarrow> silent w w'"
  by (auto simp: act_def apfst_def map_prod_def Let_def split: DecisionKind.splits prod.splits option.splits if_splits
      dest!: dispatch_silent dispatchParallel_silent park_silent finish_silent)

lemma decide_silent: "decide e run h w = (p, w') \<Longrightarrow> silent w w'"
  by (auto simp: decide_def Let_def apfst_def map_prod_def
      split: sum.splits if_splits prod.splits dest!: act_silent finish_silent)

lemma advance_pass_silent: "advance_pass e rid w = (p, w') \<Longrightarrow> silent w w'"
  by (auto simp: advance_pass_def split: sum.splits if_splits prod.splits option.splits
      dest!: resume_silent decide_silent intro: silent_trans)

lemma Advance_silent: "Advance e rid w = Some (r, w') \<Longrightarrow> silent w w'"
proof -
  have "silent w (snd y)" if "Advance e rid w = Some y" for y
    by (rule Advance.raw_induct [where P = "\<lambda>e rid w y. silent w (snd y)", OF _ that])
      (auto split: prod.splits pass.splits dest!: advance_pass_silent intro: silent_trans)
  then show "Advance e rid w = Some (r, w') \<Longrightarrow> ?thesis" by fastforce
qed

lemma scan_advance_silent: "scan_advance e rids w = Some w' \<Longrightarrow> silent w w'"
  by (induction rids arbitrary: w)
    (auto split: option.splits prod.splits if_splits dest!: Advance_silent intro: silent_trans)

section \<open>What a scan publishes\<close>

lemma scan_publish_sent:
  "(\<And>n tid. e_publish e n tid = None) \<Longrightarrow> w_sent (scan_publish e ts w) = w_sent w @ map task_ID ts"
  by (induction ts arbitrary: w) (simp_all add: publish_def)

lemma ScanOnce_sent:
  assumes "ScanOnce e rt w = Some w'" and "\<And>n tid. e_publish e n tid = None"
  shows "w_sent w' = w_sent w @ map task_ID (PendingTasks (w_st w) (rt_batch rt))"
  using assms scan_publish_sent [of e _ w]
  by (auto simp: ScanOnce_def Let_def silent_def dest!: scan_advance_silent)

lemma PendingTasks_batch:
  assumes t: "map_of (st_tasks s) tid = Some t" "task_Status t = TaskPending"
    and n: "length (filter (\<lambda>t. task_Status t = TaskPending) (vals (st_tasks s))) \<le> nat n"
  shows "t \<in> set (PendingTasks s n)"
proof -
  have "t \<in> set (vals (st_tasks s))"
    using t(1) unfolding vals_def by (force dest: map_of_SomeD)
  with t(2) n show ?thesis by (auto simp: PendingTasks_def limited_def sortTasks_def)
qed

section \<open>A requeued task during its backoff\<close>

text \<open>
  After a failed attempt with a backoff: the delivery intent is there and not due, so the relay
  does not see it, and one scan has published the task all the same.
\<close>

lemma FailTask_requeued:
  assumes f: "FailTask e tid token cause w = Some (r, w1)"
    and t: "map_of (st_tasks (w_st w)) tid = Some t" "\<not> Task_Exhausted t" "\<not> Is cause ErrEscalated"
    and run: "task_Status t = TaskRunning"
    and p: "map_of (st_tasks (w_st w1)) tid = Some t1" "task_Status t1 = TaskPending"
  shows "st_deliveries (w_st w1) = announced (w_st w) tid (w_now w) (not_before e (w_now w) (e_rand e (w_rands w)) t True)
    \<and> silent w w1"
proof -
  let ?w = "w\<lparr>w_rands := Suc (w_rands w)\<rparr>"
  let ?tx = "fail_tx e (w_now w) (e_rand e (w_rands w)) tid token (err_text cause) False"
  obtain x w0 where tx: "in_tx ?tx ?w = (x, w0)" by fastforce
  have keep: "silent w w0" using in_tx_silent [OF tx] by (simp add: silent_def)
  show ?thesis
  proof (cases x)
    case (Inl err)
    with f tx t(3) have "w1 = w0" by (auto simp: FailTask_def Let_def split: if_splits)
    with Inl in_tx_failed [of ?tx ?w err w0] tx obtain q where "w_st w1 = (w_st w)\<lparr>st_deliverySeq := q\<rparr>" by auto
    with p t(1) run show ?thesis by simp
  next
    case (Inr v)
    with tx have ok: "?tx (w_st w) = (Inr v, w_st w0)" by auto
    then obtain u l where u: "map_of (st_tasks (w_st w)) tid = Some u"
        "v = (u, retries u False, not_before e (w_now w) (e_rand e (w_rands w)) u (retries u False))"
        "st_deliveries (w_st w0) = (if retries u False
           then announced (w_st w) tid (w_now w) (not_before e (w_now w) (e_rand e (w_rands w)) u True)
           else st_deliveries (w_st w))"
      by (rule fail_tx_ok) auto
    with t have "retries u False" "u = t" by (simp_all add: retries_def)
    with f tx Inr u t(3) have "w_st w1 = w_st w0 \<and> silent w0 w1"
      by (auto simp: FailTask_def Let_def wake_def split: if_splits)
    with u \<open>retries u False\<close> \<open>u = t\<close> keep show ?thesis by (auto intro: silent_trans)
  qed
qed

lemma published_deliveries:
  "store_ok s \<Longrightarrow> d \<in> set (PendingDeliveries s now n) \<Longrightarrow> time_IsZero (del_AvailableAt d) \<or> del_AvailableAt d \<le> now"
  by (auto simp: PendingDeliveries_def dest!: subsetD [OF set_limited])

lemma backoff_bypassed:
  assumes f: "FailTask e tid token cause w = Some (r, w1)"
    and t: "map_of (st_tasks (w_st w)) tid = Some t" "task_Status t = TaskRunning" "\<not> Task_Exhausted t"
      "\<not> Is cause ErrEscalated"
    and p: "map_of (st_tasks (w_st w1)) tid = Some t1" "task_Status t1 = TaskPending" and ok: "store_ok (w_st w1)"
    and pos: "0 < Backoff (e_float e) (e_rand e (w_rands w)) (e_retry e) (task_Attempt t)"
    and due: "due = time_Add (w_now w) (Backoff (e_float e) (e_rand e (w_rands w)) (e_retry e) (task_Attempt t))"
    and early: "now < due" "\<not> time_IsZero due"
    and n: "length (filter (\<lambda>t. task_Status t = TaskPending) (vals (st_tasks (w_st w1)))) \<le> nat (rt_batch rt)"
    and up: "\<And>n tid. e_publish e n tid = None" and scan: "ScanOnce e rt (w1\<lparr>w_now := now\<rparr>) = Some w2"
  shows "(\<exists>i d. map_of (st_deliveries (w_st w1)) i = Some d \<and> del_TaskID d = tid \<and> del_AvailableAt d = due
        \<and> d \<notin> set (PendingDeliveries (w_st w1) now limit))
    \<and> tid \<in> set (drop (length (w_sent w)) (w_sent w2))"
proof
  from FailTask_requeued [OF f t(1,3,4,2) p]
  have d: "st_deliveries (w_st w1) = announced (w_st w) tid (w_now w) due" and sil: "silent w w1"
    using pos due by (simp_all add: not_before_def Let_def)
  let ?i = "incr64 (st_deliverySeq (w_st w))"
  have "map_of (st_deliveries (w_st w1)) ?i = Some (intent ?i tid (w_now w) due)"
    by (simp add: d announced_def)
  moreover have "intent ?i tid (w_now w) due \<notin> set (PendingDeliveries (w_st w1) now limit)"
    using published_deliveries [OF ok, of "intent ?i tid (w_now w) due" now limit] early by (auto simp: intent_def)
  ultimately show "\<exists>i d. map_of (st_deliveries (w_st w1)) i = Some d \<and> del_TaskID d = tid \<and> del_AvailableAt d = due
        \<and> d \<notin> set (PendingDeliveries (w_st w1) now limit)"
    by (intro exI [of _ ?i] exI [of _ "intent ?i tid (w_now w) due"]) (simp add: intent_def)
  from ok p(1) have "task_ID t1 = tid" by (auto simp: store_ok_def task_ok_def dest: keyedD)
  with PendingTasks_batch [OF p n] have "tid \<in> task_ID ` set (PendingTasks (w_st w1) (rt_batch rt))" by force
  with ScanOnce_sent [OF scan up] sil show "tid \<in> set (drop (length (w_sent w)) (w_sent w2))"
    by (simp add: silent_def)
qed

end
