(* ===== verification/Transports.thy ===== *)
theory Transports
  imports Interchange
begin

text \<open>
  The durable dispatchers: internal/dispatch/postgres/postgres.go, which hands out the rows of
  the tasks table, and internal/dispatch/jetstream/jetstream.go, which carries identities
  through a NATS work queue. What the database and the broker do is an argument of each call.
\<close>

section \<open>The PostgreSQL dispatcher: configuration\<close>

record PgDispatcher =
  pd_visibility :: duration
  pd_minPoll :: duration
  pd_maxPoll :: duration
  pd_closed :: bool

definition millisecond :: duration where "millisecond = 1000000"

definition PgDispatcher_New :: "bool \<Rightarrow> bool \<Rightarrow> duration \<Rightarrow> duration \<Rightarrow> duration \<Rightarrow> go_error + PgDispatcher" where
  "PgDispatcher_New hasDB hasClock visibility minPoll maxPoll =
     (if \<not> hasDB then Inl (errors_New ''dispatch/postgres: DB is required'')
      else if \<not> hasClock then Inl (errors_New ''dispatch/postgres: Clock is required'')
      else
        let visibility = (if visibility \<le> 0 then 30 * second else visibility);
            minPoll = (if minPoll \<le> 0 then 25 * millisecond else minPoll);
            maxPoll = (if maxPoll \<le> 0 then second else maxPoll);
            maxPoll = (if maxPoll < minPoll then minPoll else maxPoll)
        in Inr \<lparr>pd_visibility = visibility, pd_minPoll = minPoll, pd_maxPoll = maxPoll, pd_closed = False\<rparr>)"

definition PgDispatcher_Publish :: "PgDispatcher \<Rightarrow> TaskID \<Rightarrow> go_error option" where
  "PgDispatcher_Publish d tid = (if pd_closed d then Some (sentinel_err ErrDispatcherClosed) else None)"

definition PgDispatcher_Close :: "PgDispatcher \<Rightarrow> PgDispatcher" where
  "PgDispatcher_Close d = d\<lparr>pd_closed := True\<rparr>"

section \<open>The PostgreSQL dispatcher: taking a task\<close>

text \<open>
  The rows \<open>take\<close> may lock: pending, offered by now, not locked by another poller, and first in
  the order of the query, which leaves ties open.
\<close>

definition offered :: "dialect \<Rightarrow> time \<Rightarrow> (TaskID \<Rightarrow> bool) \<Rightarrow> pgstate \<Rightarrow> tasks_row list" where
  "offered D now locked p =
     filter (\<lambda>r. tr_status r = TaskPending \<and> tr_available_at r \<le> db_stamp D now \<and> \<not> locked (tr_task_id r)) (pg_tasks p)"

definition offer_key :: "tasks_row \<Rightarrow> int \<times> time \<times> time" where
  "offer_key r = (- tr_priority r, tr_available_at r, tr_created_at r)"

definition first_offers :: "dialect \<Rightarrow> time \<Rightarrow> (TaskID \<Rightarrow> bool) \<Rightarrow> pgstate \<Rightarrow> tasks_row list" where
  "first_offers D now locked p =
     (let rows = offered D now locked p in filter (\<lambda>r. list_all (\<lambda>x. offer_key r \<le> offer_key x) rows) rows)"

definition defer_task :: "dialect \<Rightarrow> time \<Rightarrow> TaskID \<Rightarrow> pgstate \<Rightarrow> pgstate" where
  "defer_task D until tid p =
     p\<lparr>pg_tasks := map (\<lambda>r. if tr_task_id r = tid then r\<lparr>tr_available_at := db_stamp D until\<rparr> else r) (pg_tasks p)\<rparr>"

datatype take_fault = TakeInterrupted go_error | TakeConnDone | TakeFailed go_error

text \<open>All that one statement may come to: the error of the driver, nothing to take, or one of the rows.\<close>

definition take_task :: "dialect \<Rightarrow> PgDispatcher \<Rightarrow> time \<Rightarrow> (TaskID \<Rightarrow> bool) \<Rightarrow> take_fault option \<Rightarrow> pgstate
    \<Rightarrow> ((go_error + TaskID option) \<times> pgstate) list" where
  "take_task D d now locked fault p =
     (case fault of
        Some (TakeInterrupted err) \<Rightarrow> [(Inl err, p)]
      | Some TakeConnDone \<Rightarrow> [(Inl (sentinel_err ErrDispatcherClosed), p)]
      | Some (TakeFailed err) \<Rightarrow> [(Inl (wrap_err ''dispatch/postgres: take next task'' err), p)]
      | None \<Rightarrow>
          (case first_offers D now locked p of
             [] \<Rightarrow> [(Inr None, p)]
           | rows \<Rightarrow> map (\<lambda>r. (Inr (Some (tr_task_id r)),
                       defer_task D (time_Add now (pd_visibility d)) (tr_task_id r) p)) rows))"

text \<open>
  \<open>Claim\<close> polls. One round: how the first select ends (closed or cancelled, or on), what the
  rest of the system has done, what the statement comes to, and how the second select ends. The
  result is \<open>None\<close> while it still polls; the waits are those it has begun.
\<close>

record poll =
  po_before :: "go_error option"
  po_take :: "pgstate \<Rightarrow> (go_error + TaskID option) \<times> pgstate"
  po_during :: "go_error option"

definition next_wait :: "PgDispatcher \<Rightarrow> duration \<Rightarrow> duration" where
  "next_wait d wait = (let wait = wrap64 (wait * 2) in if pd_maxPoll d < wait then pd_maxPoll d else wait)"

fun claim_polls :: "PgDispatcher \<Rightarrow> duration \<Rightarrow> poll list \<Rightarrow> pgstate
    \<Rightarrow> ((go_error + TaskID) option \<times> duration list) \<times> pgstate" where
  "claim_polls d wait [] p = ((None, []), p)"
| "claim_polls d wait (po # pos) p =
     (case po_before po of
        Some err \<Rightarrow> ((Some (Inl err), []), p)
      | None \<Rightarrow>
          (case po_take po p of
             (Inl err, p) \<Rightarrow> ((Some (Inl err), []), p)
           | (Inr (Some tid), p) \<Rightarrow> ((Some (Inr tid), []), p)
           | (Inr None, p) \<Rightarrow>
               (case po_during po of
                  Some err \<Rightarrow> ((Some (Inl err), [wait]), p)
                | None \<Rightarrow>
                    (case claim_polls d (next_wait d wait) pos p of
                       ((r, waits), p) \<Rightarrow> ((r, wait # waits), p)))))"

definition PgDispatcher_Claim :: "PgDispatcher \<Rightarrow> poll list \<Rightarrow> pgstate
    \<Rightarrow> ((go_error + TaskID) option \<times> duration list) \<times> pgstate" where
  "PgDispatcher_Claim d pos p = claim_polls d (pd_minPoll d) pos p"

section \<open>The JetStream dispatcher\<close>

text \<open>
  The broker's answer to a publish is an argument, and so is a batch: the messages it holds and
  the error it ends with. \<open>Term\<close> and \<open>Ack\<close> are sent to the broker; their failures are logged.
\<close>

datatype broker_fault = BrokerClosed | BrokerFailed go_error

datatype reply = Term raw | Ack raw

definition Jet_Publish :: "bool \<Rightarrow> (raw \<Rightarrow> go_error option) \<Rightarrow> TaskID \<Rightarrow> go_error option" where
  "Jet_Publish shut send tid =
     (if shut then Some (sentinel_err ErrDispatcherClosed)
      else map_option (wrap_err (''jetstream: publish '' @ tid)) (send (EncodeDelivery tid)))"

fun fetch_messages :: "raw list \<Rightarrow> TaskID option \<times> reply list" where
  "fetch_messages [] = (None, [])"
| "fetch_messages (m # ms) =
     (case DecodeDelivery m of
        Inl _ \<Rightarrow> apsnd (\<lambda>rs. Term m # rs) (fetch_messages ms)
      | Inr tid \<Rightarrow> (Some tid, [Ack m]))"

definition broker_error :: "string \<Rightarrow> broker_fault \<Rightarrow> go_error" where
  "broker_error op f =
     (case f of BrokerClosed \<Rightarrow> sentinel_err ErrDispatcherClosed | BrokerFailed err \<Rightarrow> wrap_err op err)"

definition fetchOne :: "broker_fault + (raw list \<times> broker_fault option) \<Rightarrow> (go_error + TaskID option) \<times> reply list" where
  "fetchOne batch =
     (case batch of
        Inl f \<Rightarrow> (Inl (broker_error ''jetstream: fetch'' f), [])
      | Inr (ms, fault) \<Rightarrow>
          (case fetch_messages ms of
             (Some tid, rs) \<Rightarrow> (Inr (Some tid), rs)
           | (None, rs) \<Rightarrow>
               ((case fault of None \<Rightarrow> Inr None | Some f \<Rightarrow> Inl (broker_error ''jetstream: fetch batch'' f)), rs)))"

text \<open>\<open>Claim\<close> fetches until it has a task; each round begins with the select, then a batch.\<close>

fun Jet_Claim :: "(go_error option \<times> (broker_fault + (raw list \<times> broker_fault option))) list
    \<Rightarrow> (go_error + TaskID) option \<times> reply list" where
  "Jet_Claim [] = (None, [])"
| "Jet_Claim ((stop, batch) # rest) =
     (case stop of
        Some err \<Rightarrow> (Some (Inl err), [])
      | None \<Rightarrow>
          (case fetchOne batch of
             (Inl err, rs) \<Rightarrow> (Some (Inl err), rs)
           | (Inr (Some tid), rs) \<Rightarrow> (Some (Inr tid), rs)
           | (Inr None, rs) \<Rightarrow> apsnd (\<lambda>rs'. rs @ rs') (Jet_Claim rest)))"

section \<open>Poison messages\<close>

text \<open>
  Unreadable messages are terminated and the first readable one is acknowledged and claimed; the
  messages after it have no answer. One that the dispatcher has published is readable.
\<close>

lemma fetch_messages_answers:
  "fetch_messages ms = (case dropWhile (\<lambda>m. isl (DecodeDelivery m)) ms of
      [] \<Rightarrow> (None, map Term ms)
    | m # _ \<Rightarrow> (Some (projr (DecodeDelivery m)), map Term (takeWhile (\<lambda>m. isl (DecodeDelivery m)) ms) @ [Ack m]))"
proof (induction ms)
  case (Cons m ms)
  then show ?case
    by (cases "DecodeDelivery m"; cases "dropWhile (\<lambda>m. isl (DecodeDelivery m)) ms")
      (simp_all del: dropWhile_eq_Nil_conv)
qed simp

lemma fetch_published:
  "list_all (\<lambda>m. isl (DecodeDelivery m)) bad \<Longrightarrow> tid \<noteq> []
     \<Longrightarrow> fetch_messages (bad @ EncodeDelivery tid # ms) = (Some tid, map Term bad @ [Ack (EncodeDelivery tid)])"
proof (induction bad)
  case (Cons m bad)
  then show ?case by (cases "DecodeDelivery m") simp_all
qed (simp add: DecodeDelivery_Encode)

section \<open>The waits of a poller\<close>

lemma claim_waits:
  "claim_polls d wait pos p = ((r, waits), p') \<Longrightarrow> lo \<le> wait \<Longrightarrow> wait \<le> pd_maxPoll d \<Longrightarrow> lo \<le> pd_maxPoll d
     \<Longrightarrow> 0 \<le> lo \<Longrightarrow> 2 * pd_maxPoll d \<le> max_int64 \<Longrightarrow> (\<forall>x \<in> set waits. lo \<le> x \<and> x \<le> pd_maxPoll d)"
proof (induction pos arbitrary: wait p waits)
  case (Cons po pos)
  have "wrap64 (wait * 2) = wait * 2"
    using Cons.prems by (intro wrap64_id) (simp add: in_int64_def min_int64_def max_int64_def)
  then have "lo \<le> next_wait d wait" "next_wait d wait \<le> pd_maxPoll d"
    using Cons.prems by (simp_all add: next_wait_def Let_def)
  with Cons show ?case by (auto split: option.splits prod.splits sum.splits)
qed simp


section \<open>What a poller takes\<close>

lemma take_task_taken:
  assumes "(Inr (Some tid), p') \<in> set (take_task D d now locked fault p)"
  shows "\<exists>r \<in> set (pg_tasks p). tr_task_id r = tid \<and> tr_status r = TaskPending \<and> tr_available_at r \<le> db_stamp D now
      \<and> \<not> locked tid \<and> (\<forall>x \<in> set (offered D now locked p). offer_key r \<le> offer_key x)
      \<and> p' = defer_task D (time_Add now (pd_visibility d)) tid p"
proof -
  from assms obtain r where "r \<in> set (first_offers D now locked p)" "tid = tr_task_id r"
      "p' = defer_task D (time_Add now (pd_visibility d)) tid p"
    by (auto simp: take_task_def split: option.splits take_fault.splits list.splits)
  then show ?thesis by (intro bexI [of _ r]) (simp_all add: first_offers_def Let_def offered_def list_all_iff)
qed

text \<open>The task is not offered again before its visibility timeout, and the rest of the table is as it was.\<close>

lemma defer_task_hides:
  assumes "db_stamp D now' < db_stamp D until"
  shows "\<forall>r \<in> set (offered D now' locked (defer_task D until tid p)). tr_task_id r \<noteq> tid"
proof
  fix r
  assume r: "r \<in> set (offered D now' locked (defer_task D until tid p))"
  have late: "tr_available_at x = db_stamp D until" if "x \<in> set (pg_tasks (defer_task D until tid p))" "tr_task_id x = tid" for x
    using that unfolding defer_task_def by (simp, elim imageE) (simp split: if_splits)
  from r have "r \<in> set (pg_tasks (defer_task D until tid p))" "tr_available_at r \<le> db_stamp D now'"
    by (simp_all add: offered_def)
  with late [of r] assms show "tr_task_id r \<noteq> tid" by force
qed

lemma defer_task_only:
  "filter (\<lambda>r. tr_task_id r \<noteq> tid) (pg_tasks (defer_task D until tid p)) = filter (\<lambda>r. tr_task_id r \<noteq> tid) (pg_tasks p)"
  "map (\<lambda>r. r\<lparr>tr_available_at := t\<rparr>) (pg_tasks (defer_task D until tid p)) = map (\<lambda>r. r\<lparr>tr_available_at := t\<rparr>) (pg_tasks p)"
  "defer_task D until tid p = p\<lparr>pg_tasks := pg_tasks (defer_task D until tid p)\<rparr>"
proof -
  let ?g = "\<lambda>r. if tr_task_id r = tid then r\<lparr>tr_available_at := db_stamp D until\<rparr> else r"
  have "filter (\<lambda>r. tr_task_id r \<noteq> tid) (map ?g rows) = filter (\<lambda>r. tr_task_id r \<noteq> tid) rows" for rows
    by (induction rows) simp_all
  then show "filter (\<lambda>r. tr_task_id r \<noteq> tid) (pg_tasks (defer_task D until tid p)) = filter (\<lambda>r. tr_task_id r \<noteq> tid) (pg_tasks p)"
    by (simp add: defer_task_def)
qed (simp_all add: defer_task_def)

section \<open>Retries and the tasks table\<close>

text \<open>
  \<open>keeps_offers p p'\<close>: the rows of the tasks table are still there, each to be offered from the
  instant it was. Every operation of core.Tx keeps it, a retry with a backoff included.
\<close>

definition offers :: "pgstate \<Rightarrow> (TaskID \<times> time) set" where
  "offers p = (\<lambda>r. (tr_task_id r, tr_available_at r)) ` set (pg_tasks p)"

definition keeps_offers :: "'a ptx \<Rightarrow> bool" where
  "keeps_offers m \<longleftrightarrow> (\<forall>p. offers p \<subseteq> offers (snd (m p)))"

lemma keeps_offersI: "(\<And>p. offers p \<subseteq> offers (snd (m p))) \<Longrightarrow> keeps_offers m"
  by (simp add: keeps_offers_def)

lemma keeps_return [simp]: "keeps_offers (preturn x)" "keeps_offers (perror e)"
  by (simp_all add: keeps_offers_def preturn_def perror_def)

lemma keeps_bind: "keeps_offers m \<Longrightarrow> (\<And>x. keeps_offers (f x)) \<Longrightarrow> keeps_offers (pbind m f)"
  unfolding keeps_offers_def pbind_def by (auto split: prod.splits sum.splits) (metis snd_conv subsetD)+

lemma keeps_translated: "(\<And>p. offers p \<subseteq> offers (snd (m p))) \<Longrightarrow> keeps_offers (translated op m)"
  unfolding keeps_offers_def translated_def by (auto split: prod.splits sum.splits option.splits) (metis snd_conv subsetD)+

lemma offers_cong [simp]:
  "offers (p\<lparr>pg_runs := a\<rparr>) = offers p" "offers (p\<lparr>pg_events := b\<rparr>) = offers p"
  "offers (p\<lparr>pg_effects := c\<rparr>) = offers p" "offers (p\<lparr>pg_outbox := d\<rparr>) = offers p"
  "offers (p\<lparr>pg_workers := e\<rparr>) = offers p" "offers (p\<lparr>pg_leases := f\<rparr>) = offers p"
  "offers (p\<lparr>pg_signals := g\<rparr>) = offers p" "offers (p\<lparr>pg_outbox_seq := n\<rparr>) = offers p"
  "offers (p\<lparr>pg_aborted := h\<rparr>) = offers p"
  by (simp_all add: offers_def)

lemma keeps_exec: "(\<And>x q. f p = (Inr x, q) \<Longrightarrow> offers p \<subseteq> offers q) \<Longrightarrow> offers p \<subseteq> offers (snd (exec_stmt f p))"
  by (auto simp: exec_stmt_def split: prod.splits sum.splits)

lemma keeps_query: "offers p \<subseteq> offers (snd (sql_query q p))" "offers p \<subseteq> offers (snd (sql_query_row q' p))"
  by (auto simp: sql_query_def sql_query_row_def exec_stmt_def split: prod.splits sum.splits list.splits)

lemma keeps_insert: "(\<And>a p. offers p \<subseteq> offers (put a p)) \<Longrightarrow> offers p \<subseteq> offers (snd (sql_insert args cs put p))"
  unfolding sql_insert_def
  by (rule keeps_exec) (auto simp: and_then_def checked_def split: sum.splits option.splits)

lemma update_where_offers:
  assumes "update_where P f rows = Inr (rows', n)"
    and "\<And>r r'. f r = Inr r' \<Longrightarrow> tr_task_id r' = tr_task_id r \<and> tr_available_at r' = tr_available_at r"
  shows "map (\<lambda>r. (tr_task_id r, tr_available_at r)) rows' = map (\<lambda>r. (tr_task_id r, tr_available_at r)) rows"
  using assms(1)
proof (induction rows arbitrary: rows' n)
  case (Cons r rows)
  then show ?case by (auto split: sum.splits prod.splits if_splits dest: assms(2))
qed simp


lemma keeps_update:
  assumes "\<And>a r r'. f a r = Inr r' \<Longrightarrow> tr_task_id r' = tr_task_id r \<and> tr_available_at r' = tr_available_at r"
  shows "offers p \<subseteq> offers (snd (sql_update args pg_tasks put_tasks P f p))"
  unfolding sql_update_def
proof (rule keeps_exec)
  fix x q
  assume "(case and_then args (\<lambda>a. update_where P (f a) (pg_tasks p)) of Inl e \<Rightarrow> (Inl e, p)
      | Inr (rows, n) \<Rightarrow> (Inr n, put_tasks rows p)) = (Inr x, q)"
  then obtain a rows n where "update_where P (f a) (pg_tasks p) = Inr (rows, n)" "q = put_tasks rows p"
    by (auto simp: and_then_def split: sum.splits)
  from update_where_offers [OF this(1) assms]
  have "set (map (\<lambda>r. (tr_task_id r, tr_available_at r)) rows) = set (map (\<lambda>r. (tr_task_id r, tr_available_at r)) (pg_tasks p))"
    by simp
  with \<open>q = put_tasks rows p\<close> show "offers p \<subseteq> offers q" by (simp add: offers_def)
qed

lemma keeps_update_other:
  "(\<And>rows p. offers (put rows p) = offers p) \<Longrightarrow> offers p \<subseteq> offers (snd (sql_update args get put P f p))"
  unfolding sql_update_def
  by (rule keeps_exec) (auto simp: and_then_def split: sum.splits)

lemma keeps_if: "(b \<Longrightarrow> keeps_offers m) \<Longrightarrow> (\<not> b \<Longrightarrow> keeps_offers m') \<Longrightarrow> keeps_offers (if b then m else m')"
  by simp

lemmas keeps_rules = keeps_bind keeps_translated keeps_query keeps_insert keeps_if keeps_return

lemma keeps_CreateRun: "keeps_offers (Pg_CreateRun D now r)"
  unfolding Pg_CreateRun_def by (intro keeps_rules) simp

lemma keeps_ReleaseRun: "keeps_offers (Pg_ReleaseRun D now rid)"
  unfolding Pg_ReleaseRun_def Let_def by (intro keeps_rules keeps_update_other) simp

lemma keeps_AdvanceRun: "keeps_offers (Pg_AdvanceRun D now rid v nxt)"
  unfolding Pg_AdvanceRun_def Let_def by (intro keeps_rules keeps_update_other) simp

lemma keeps_tasks:
  "keeps_offers (Pg_GetTask tid)" "keeps_offers (Pg_CreateTask D now t)" "keeps_offers (Pg_TransitionTask D now tid frm to out)"
proof -
  show "keeps_offers (Pg_GetTask tid)" unfolding Pg_GetTask_def by (intro keeps_rules)
  show "keeps_offers (Pg_CreateTask D now t)"
    unfolding Pg_CreateTask_def by (intro keeps_rules) (auto simp: offers_def)
  show "keeps_offers (Pg_TransitionTask D now tid frm to out)"
    unfolding Pg_TransitionTask_def Let_def
    by (intro keeps_rules keeps_update)
      (auto simp: and_then_def int4_def split: sum.splits if_splits)
qed

lemma keeps_Append: "keeps_offers (Pg_Append D now rid ty step data)"
proof -
  have "keeps_offers (Pg_NextSeq rid)"
    unfolding Pg_NextSeq_def Let_def by (intro keeps_rules keeps_exec) auto
  moreover have "keeps_offers (Pg_AppendEvent D now ev)" for ev
    unfolding Pg_AppendEvent_def by (intro keeps_rules) simp
  ultimately show ?thesis
    unfolding Pg_Append_def by (auto intro!: keeps_bind split: sum.splits)
qed

lemma keeps_effects:
  "keeps_offers (Pg_ReserveEffect D now e)" "keeps_offers (Pg_TransitionEffect D now k ef et eo)"
  "keeps_offers (Pg_RecordSignal D now sg)"
  unfolding Pg_ReserveEffect_def Pg_TransitionEffect_def Pg_RecordSignal_def Let_def
  by (intro keeps_rules keeps_update_other; simp)+

lemma keeps_outbox:
  "keeps_offers (Pg_EnqueueDelivery D now tid av)" "keeps_offers (Pg_MarkDelivered D now ids)"
  "keeps_offers (Pg_FailDelivery did cause)"
  unfolding Pg_EnqueueDelivery_def insert_delivery_def Pg_MarkDelivered_def Pg_FailDelivery_def Let_def
  by (intro keeps_rules keeps_update_other keeps_exec; auto split: sum.splits if_splits)+


lemma keeps_workers:
  "keeps_offers (Pg_RegisterWorker D now w)" "keeps_offers (Pg_AcquireLease D tid wid now ex)" "keeps_offers (Pg_GetLease tid)"
proof -
  show "keeps_offers (Pg_RegisterWorker D now w)"
    unfolding Pg_RegisterWorker_def Let_def by (intro keeps_rules keeps_exec) auto
  have "keeps_offers (translated op (upsert_lease D tid wid now ex))" for op
    unfolding upsert_lease_def Let_def
    by (intro keeps_translated keeps_exec) (auto simp: checked_def and_then_def split: list.splits sum.splits option.splits if_splits)
  then show "keeps_offers (Pg_AcquireLease D tid wid now ex)"
    unfolding Pg_AcquireLease_def Let_def by (intro keeps_bind) (auto split: list.split)
  show "keeps_offers (Pg_GetLease tid)" unfolding Pg_GetLease_def by (intro keeps_rules)
qed

lemma keeps_fenced:
  "keeps_offers (Pg_ExtendLease D now tid token ex)" "keeps_offers (Pg_ReleaseLease D tid token now)"
  "keeps_offers (Pg_assertToken tid token)"
proof -
  have "keeps_offers (assertFenced op tid token n)" for op n
    unfolding assertFenced_def by (intro keeps_rules)
  then show "keeps_offers (Pg_ExtendLease D now tid token ex)" "keeps_offers (Pg_ReleaseLease D tid token now)"
    unfolding Pg_ExtendLease_def Pg_ReleaseLease_def Let_def by (intro keeps_rules keeps_update_other; simp)+
  show "keeps_offers (Pg_assertToken tid token)"
    unfolding Pg_assertToken_def by (intro keeps_rules keeps_workers)
qed

lemmas keeps_ops = keeps_CreateRun keeps_AdvanceRun keeps_ReleaseRun keeps_tasks keeps_Append keeps_effects
  keeps_outbox keeps_workers keeps_fenced

lemma keeps_pair [simp]: "keeps_offers (Pair (Inr x))"
  by (simp add: keeps_offers_def)

lemma keeps_op: "keeps_offers (pg_op D now op)"
  by (cases op) (auto simp: keeps_ops intro!: keeps_bind)

lemma keeps_txn: "keeps_offers (pg_txn D now x)"
proof -
  have "keeps_offers (pg_script D now ops)" for ops
    by (induction ops) (auto intro!: keeps_bind keeps_op)
  then show ?thesis by (cases x) (auto intro!: keeps_bind keeps_ops)
qed

lemma keeps_history: "offers p \<subseteq> offers (snd (pg_history D xs p))"
proof (induction xs arbitrary: p)
  case (Cons nx xs)
  obtain now x where nx: "nx = (now, x)" by (cases nx)
  obtain r p' where pg: "Pg_RunInTx (pg_txn D now x) p = (r, p')" by fastforce
  have "offers p \<subseteq> offers (snd (pg_txn D now x (p\<lparr>pg_aborted := False\<rparr>)))"
    using keeps_txn by (metis keeps_offers_def offers_cong(9))
  with pg have "offers p \<subseteq> offers p'"
    by (auto simp: Pg_RunInTx_def split: prod.splits sum.splits if_splits)
  also have "\<dots> \<subseteq> offers (snd (pg_history D xs p'))" by (rule Cons.IH)
  finally show ?case using nx pg by (cases "pg_history D xs p'") simp
qed simp

text \<open>
  A poller's take leaves the stores alike: \<open>tasks.available_at\<close> is the one column the maps have no
  counterpart of. The recovery scan filters on it as the pollers do, so a task that was taken is
  out of its sight until the visibility timeout is over (lemma scan_offers). And what was offered once is offered again as soon as its row is pending, whatever the transactions
  in between have put into the outbox.
\<close>

lemma mirrors_defer: "mirrors D p s \<Longrightarrow> mirrors D (defer_task D until tid p) s"
proof -
  assume m: "mirrors D p s"
  let ?g = "\<lambda>r. if tr_task_id r = tid then r\<lparr>tr_available_at := db_stamp D until\<rparr> else r"
  have same: "map (\<lambda>r. (tr_task_id r, scanTask r)) (map ?g rows) = map (\<lambda>r. (tr_task_id r, scanTask r)) rows"
    "map tr_task_id (map ?g rows) = map tr_task_id rows"
    "map (\<lambda>r. ((tr_run_id r, tr_step_id r), tr_task_id r)) (map ?g rows)
       = map (\<lambda>r. ((tr_run_id r, tr_step_id r), tr_task_id r)) rows" for rows
    by (simp_all add: scanTask_def)
  have rows: "tr_run_id (?g r) = tr_run_id r" "tr_priority (?g r) = tr_priority r" "tr_status (?g r) = tr_status r"
    "tr_completed_at (?g r) = tr_completed_at r" for r
    by simp_all
  have "tasks_shown D runs (map ?g (pg_tasks p)) (st_tasks s) (st_stepIndex s)"
    if "tasks_shown D runs (pg_tasks p) (st_tasks s) (st_stepIndex s)" for runs
    using that unfolding tasks_shown_def same_table_def same by (simp only: set_map ball_simps rows) auto
  with m show ?thesis by (simp add: mirrors_def defer_task_def)
qed

lemma offered_after:
  assumes m: "mirrors D p s" and fits: "history_fits D xs s" and r: "r \<in> set (pg_tasks p)"
  shows "tr_task_id r \<in> tr_task_id ` set (offered D now (\<lambda>_. False) (snd (pg_history D xs p))) \<longleftrightarrow>
    (\<exists>t. map_of (st_tasks (snd (mem_history xs s))) (tr_task_id r) = Some t \<and> task_Status t = TaskPending)
      \<and> tr_available_at r \<le> db_stamp D now"
proof -
  let ?p = "snd (pg_history D xs p)" and ?s = "snd (mem_history xs s)"
  from histories_agree [OF m fits] have m': "mirrors D ?p ?s" by simp
  from r keeps_history [of p D xs] obtain r' where r': "r' \<in> set (pg_tasks ?p)" "tr_task_id r' = tr_task_id r"
      "tr_available_at r' = tr_available_at r"
    by (auto simp: offers_def)
  then have "present tr_task_id (tr_task_id r) (pg_tasks ?p)" by (auto simp: present_def list_ex_iff)
  with task_known [OF m'] obtain t where t: "map_of (st_tasks ?s) (tr_task_id r) = Some t" by auto
  from task_row [OF m' t] obtain row where row: "row \<in> set (pg_tasks ?p)" "tr_task_id row = tr_task_id r"
      "scanTask row = canon_task D t" and d: "distinct (map tr_task_id (pg_tasks ?p))" by metis
  have only: "x = r'" if "x \<in> set (pg_tasks ?p)" "tr_task_id x = tr_task_id r" for x
    using same_row [OF d that(1) r'(1)] that(2) r'(2) by simp
  have "tr_status r' = task_Status t"
    using only [OF row(1,2)] task_row_fields [OF row(3)] by simp
  moreover have "tr_task_id r \<in> tr_task_id ` set (offered D now (\<lambda>_. False) ?p)
      \<longleftrightarrow> tr_status r' = TaskPending \<and> tr_available_at r' \<le> db_stamp D now"
  proof
    assume "tr_task_id r \<in> tr_task_id ` set (offered D now (\<lambda>_. False) ?p)"
    then obtain x where "x \<in> set (offered D now (\<lambda>_. False) ?p)" "tr_task_id x = tr_task_id r" by auto
    with only [of x] show "tr_status r' = TaskPending \<and> tr_available_at r' \<le> db_stamp D now"
      by (simp add: offered_def)
  next
    assume "tr_status r' = TaskPending \<and> tr_available_at r' \<le> db_stamp D now"
    with r'(1) have "r' \<in> set (offered D now (\<lambda>_. False) ?p)" by (simp add: offered_def)
    with r'(2) show "tr_task_id r \<in> tr_task_id ` set (offered D now (\<lambda>_. False) ?p)" by (metis image_eqI)
  qed
  ultimately show ?thesis using t r'(3) by simp
qed

text \<open>
  So a task that a poller has taken is offered again when the visibility timeout is over and the
  task is pending, and at no other time.
\<close>

lemma taken_offered_after:
  assumes m: "mirrors D p s" and taken: "(Inr (Some tid), p') \<in> set (take_task D d now locked fault p)"
    and fits: "history_fits D xs s"
  shows "tid \<in> tr_task_id ` set (offered D later (\<lambda>_. False) (snd (pg_history D xs p'))) \<longleftrightarrow>
    (\<exists>t. map_of (st_tasks (snd (mem_history xs s))) tid = Some t \<and> task_Status t = TaskPending)
      \<and> db_stamp D (time_Add now (pd_visibility d)) \<le> db_stamp D later"
proof -
  from take_task_taken [OF taken] obtain r where r: "r \<in> set (pg_tasks p)" "tr_task_id r = tid"
    and p': "p' = defer_task D (time_Add now (pd_visibility d)) tid p" by auto
  let ?r = "r\<lparr>tr_available_at := db_stamp D (time_Add now (pd_visibility d))\<rparr>"
  have "?r \<in> set (pg_tasks p')" using r by (auto simp: p' defer_task_def image_iff intro!: bexI [of _ r])
  from offered_after [OF mirrors_defer [OF m] fits this [unfolded p'], of later] r(2) show ?thesis
    by (simp add: p')
qed

lemma taken_pending:
  assumes m: "mirrors D p s" and taken: "(Inr (Some tid), p') \<in> set (take_task D d now locked fault p)"
  shows "(\<exists>t. map_of (st_tasks s) tid = Some t \<and> task_Status t = TaskPending) \<and> mirrors D p' s"
proof -
  from take_task_taken [OF taken] obtain r where r: "r \<in> set (pg_tasks p)" "tr_task_id r = tid" "tr_status r = TaskPending"
      "tr_available_at r \<le> db_stamp D now"
    and p': "p' = defer_task D (time_Add now (pd_visibility d)) tid p" by auto
  from r have "tid \<in> tr_task_id ` set (offered D now (\<lambda>_. False) p)"
    by (auto simp: offered_def image_iff intro!: bexI [of _ r])
  with offered_after [OF m _ r(1), of "[]" now] r(2) show ?thesis
    using mirrors_defer [OF m] by (simp add: p')
qed

text \<open>What the recovery scan reads, with a batch that holds the table, is what a poller would be offered.\<close>

lemma scan_offers:
  assumes "length (pg_tasks p) \<le> nat (limitOrAll n)"
  shows "task_ID ` set (Pg_PendingTasks D p now n) = tr_task_id ` set (offered D now (\<lambda>_. False) p)"
proof -
  let ?rows = "filter (\<lambda>r. tr_status r = TaskPending \<and> tr_available_at r \<le> db_stamp D now) (pg_tasks p)"
  have "length ?rows \<le> nat (limitOrAll n)" using assms length_filter_le [of _ "pg_tasks p"] order_trans by blast
  then have "set (Pg_PendingTasks D p now n) = scanTask ` set ?rows"
    by (simp add: Pg_PendingTasks_def sql_limit_def)
  then show ?thesis by (simp add: offered_def image_image scanTask_def)
qed

end
