(* ===== verification/Migrations.thy ===== *)
theory Migrations
  imports GoBase
begin

text \<open>
  The schema and its runner: internal/store/migrations/migrations.go and the five files of SQL
  beside it. The runner does not look into a file, so its model takes what running one does as an
  argument; for the files of the repository it is the catalog below: types, tables with their
  columns, and indexes. A statement of a migration that the server refuses undoes the whole
  file, since each file runs in a transaction of its own.
\<close>

section \<open>The runner (migrations.go)\<close>

text \<open>
  A database as the runner sees it: the versions recorded in \<open>schema_migrations\<close>, \<open>None\<close> where
  that table is missing, and whatever else there is.
\<close>

record 'c database =
  db_versions :: "string list option"
  db_schema :: 'c

type_synonym 'm migration = "string \<times> 'm"

definition ensure_versions :: "'c database \<Rightarrow> 'c database" where
  "ensure_versions db = db\<lparr>db_versions := Some (case db_versions db of None \<Rightarrow> [] | Some vs \<Rightarrow> vs)\<rparr>"

definition appliedVersions :: "'c database \<Rightarrow> string list" where
  "appliedVersions db = (case db_versions db of None \<Rightarrow> [] | Some vs \<Rightarrow> vs)"

text \<open>\<open>fs.Glob\<close> and \<open>sort.Strings\<close>: the embedded files in the order of their names.\<close>

definition all_migrations :: "'m migration list \<Rightarrow> 'm migration list" where
  "all_migrations files = sort_key fst files"

definition applyOne :: "('m \<Rightarrow> 'c \<Rightarrow> go_error + 'c) \<Rightarrow> 'm migration \<Rightarrow> 'c database \<Rightarrow> go_error option \<times> 'c database" where
  "applyOne exec m db =
     (case exec (snd m) (db_schema db) of
        Inl err \<Rightarrow> (Some (wrap_err (''apply '' @ fst m) err), db)
      | Inr c \<Rightarrow>
          if fst m \<in> set (appliedVersions db) then
            (Some (wrap_err (''record '' @ fst m) (errors_New ''pq: duplicate key value'')), db)
          else (None, db\<lparr>db_versions := Some (appliedVersions db @ [fst m]), db_schema := c\<rparr>))"

fun apply_loop :: "('m \<Rightarrow> 'c \<Rightarrow> go_error + 'c) \<Rightarrow> string list \<Rightarrow> 'm migration list \<Rightarrow> string list \<Rightarrow> 'c database
    \<Rightarrow> (string list \<times> go_error option) \<times> 'c database" where
  "apply_loop exec applied [] vs db = ((vs, None), db)"
| "apply_loop exec applied (m # ms) vs db =
     (if fst m \<in> set applied then apply_loop exec applied ms vs db
      else case applyOne exec m db of
        (Some err, db) \<Rightarrow> ((vs, Some err), db)
      | (None, db) \<Rightarrow> apply_loop exec applied ms (vs @ [fst m]) db)"

definition Migrations_Apply :: "('m \<Rightarrow> 'c \<Rightarrow> go_error + 'c) \<Rightarrow> 'm migration list \<Rightarrow> 'c database
    \<Rightarrow> (string list \<times> go_error option) \<times> 'c database" where
  "Migrations_Apply exec files db =
     (let db = ensure_versions db in apply_loop exec (appliedVersions db) (all_migrations files) [] db)"

definition Migrations_Pending :: "'m migration list \<Rightarrow> 'c database \<Rightarrow> string list" where
  "Migrations_Pending files db =
     (let db = ensure_versions db in
      filter (\<lambda>v. v \<notin> set (appliedVersions db)) (map fst (all_migrations files)))"

text \<open>The command of the operator (cmd/veya/main.go): \<open>--dry-run\<close> lists, otherwise it applies.\<close>

definition cmdMigrate :: "('m \<Rightarrow> 'c \<Rightarrow> go_error + 'c) \<Rightarrow> 'm migration list \<Rightarrow> go_error option \<Rightarrow> bool \<Rightarrow> 'c database
    \<Rightarrow> (go_error + string list) \<times> 'c database" where
  "cmdMigrate exec files opened dryRun db =
     (case opened of
        Some err \<Rightarrow> (Inl err, db)
      | None \<Rightarrow>
          if dryRun then (Inr (Migrations_Pending files db), ensure_versions db)
          else (case Migrations_Apply exec files db of
             ((vs, Some err), db) \<Rightarrow> (Inl err, db)
           | ((vs, None), db) \<Rightarrow> (Inr vs, db)))"

section \<open>The catalog\<close>

record catalog =
  cat_types :: "string list"
  cat_tables :: "(string \<times> string list) list"
  cat_indexes :: "(string \<times> string) list"

text \<open>
  A table is given by its columns, the types of the schema its columns have and the tables its
  foreign keys refer to; an index by its table and the columns it mentions. Tables and indexes
  share one name space.
\<close>

datatype ddl =
    CreateType string
  | CreateTable string "string list" "string list" "string list"
  | AddColumn string string
  | CreateIndex string string "string list"
  | DropIndexIfExists string

definition relation_exists :: "string \<Rightarrow> catalog \<Rightarrow> bool" where
  "relation_exists n c \<longleftrightarrow> map_of (cat_tables c) n \<noteq> None \<or> map_of (cat_indexes c) n \<noteq> None"

definition already_exists :: "string \<Rightarrow> go_error" where
  "already_exists n = errors_New (''pq: relation '' @ n @ '' already exists'')"

definition does_not_exist :: "string \<Rightarrow> go_error" where
  "does_not_exist n = errors_New (''pq: '' @ n @ '' does not exist'')"

fun exec_ddl :: "ddl \<Rightarrow> catalog \<Rightarrow> go_error + catalog" where
  "exec_ddl (CreateType n) c =
     (if n \<in> set (cat_types c) then Inl (already_exists n) else Inr (c\<lparr>cat_types := cat_types c @ [n]\<rparr>))"
| "exec_ddl (CreateTable n cols types refs) c =
     (if relation_exists n c then Inl (already_exists n)
      else case find (\<lambda>t. t \<notin> set (cat_types c)) types of
        Some t \<Rightarrow> Inl (does_not_exist t)
      | None \<Rightarrow>
          (case find (\<lambda>r. map_of (cat_tables c) r = None) refs of
             Some r \<Rightarrow> Inl (does_not_exist r)
           | None \<Rightarrow> Inr (c\<lparr>cat_tables := cat_tables c @ [(n, cols)]\<rparr>)))"
| "exec_ddl (AddColumn n col) c =
     (case map_of (cat_tables c) n of
        None \<Rightarrow> Inl (does_not_exist n)
      | Some cols \<Rightarrow>
          if col \<in> set cols then Inl (already_exists col)
          else Inr (c\<lparr>cat_tables := AList.update n (cols @ [col]) (cat_tables c)\<rparr>))"
| "exec_ddl (CreateIndex n tab cols) c =
     (if relation_exists n c then Inl (already_exists n)
      else case map_of (cat_tables c) tab of
        None \<Rightarrow> Inl (does_not_exist tab)
      | Some have \<Rightarrow>
          (case find (\<lambda>x. x \<notin> set have) cols of
             Some x \<Rightarrow> Inl (does_not_exist x)
           | None \<Rightarrow> Inr (c\<lparr>cat_indexes := cat_indexes c @ [(n, tab)]\<rparr>)))"
| "exec_ddl (DropIndexIfExists n) c = Inr (c\<lparr>cat_indexes := AList.delete n (cat_indexes c)\<rparr>)"

fun exec_ddls :: "ddl list \<Rightarrow> catalog \<Rightarrow> go_error + catalog" where
  "exec_ddls [] c = Inr c"
| "exec_ddls (d # ds) c = (case exec_ddl d c of Inl err \<Rightarrow> Inl err | Inr c \<Rightarrow> exec_ddls ds c)"

section \<open>The files\<close>

definition init_sql :: "ddl list" where
  "init_sql =
     [CreateType ''run_status'', CreateType ''task_status'', CreateType ''effect_status'', CreateType ''worker_status'',
      CreateTable ''runs'' [''run_id'', ''agent_name'', ''agent_version'', ''status'', ''version'', ''input'', ''output'',
        ''context'', ''last_error'', ''deadline_at'', ''created_at'', ''updated_at'', ''completed_at''] [''run_status''] [],
      CreateTable ''events'' [''run_id'', ''seq'', ''event_type'', ''step_id'', ''payload'', ''created_at''] [] [''runs''],
      CreateTable ''tasks'' [''task_id'', ''run_id'', ''step_id'', ''parent_step'', ''task_type'', ''payload'', ''status'',
        ''priority'', ''available_at'', ''attempt'', ''max_attempts'', ''last_error'', ''created_at'', ''updated_at'',
        ''completed_at''] [''task_status''] [''runs''],
      CreateTable ''effects'' [''effect_id'', ''task_id'', ''run_id'', ''effect_type'', ''effect_class'', ''idempotency_key'',
        ''status'', ''request'', ''response'', ''external_ref'', ''last_error'', ''created_at'', ''updated_at'',
        ''committed_at''] [''effect_status''] [''tasks'', ''runs''],
      CreateTable ''task_outbox'' [''outbox_id'', ''task_id'', ''subject'', ''payload'', ''published_at'', ''attempts'',
        ''created_at''] [] [''tasks''],
      CreateTable ''workers'' [''worker_id'', ''worker_type'', ''status'', ''capabilities'', ''last_heartbeat'',
        ''registered_at'', ''metadata''] [''worker_status''] [],
      CreateTable ''leases'' [''task_id'', ''worker_id'', ''fencing_token'', ''acquired_at'', ''expires_at'',
        ''heartbeat_at''] [] [''tasks'', ''workers''],
      CreateIndex ''idx_tasks_dispatchable'' ''tasks'' [''priority'', ''available_at'', ''created_at'', ''status''],
      CreateIndex ''idx_tasks_run'' ''tasks'' [''run_id''],
      CreateIndex ''idx_tasks_open'' ''tasks'' [''run_id'', ''status''],
      CreateIndex ''idx_events_run'' ''events'' [''run_id'', ''seq''],
      CreateIndex ''idx_runs_active'' ''runs'' [''updated_at'', ''status''],
      CreateIndex ''idx_effects_run'' ''effects'' [''run_id''],
      CreateIndex ''idx_effects_unresolved'' ''effects'' [''updated_at'', ''status''],
      CreateIndex ''idx_leases_expiry'' ''leases'' [''expires_at''],
      CreateIndex ''idx_workers_heartbeat'' ''workers'' [''last_heartbeat''],
      CreateIndex ''idx_outbox_unpublished'' ''task_outbox'' [''outbox_id'', ''published_at'']]"

definition outbox_relay_sql :: "ddl list" where
  "outbox_relay_sql =
     [AddColumn ''task_outbox'' ''last_error'',
      DropIndexIfExists ''idx_outbox_unpublished'',
      CreateIndex ''idx_outbox_unpublished'' ''task_outbox'' [''outbox_id'', ''published_at''],
      CreateIndex ''idx_outbox_task'' ''task_outbox'' [''task_id'']]"

definition run_suspension_sql :: "ddl list" where
  "run_suspension_sql =
     [AddColumn ''runs'' ''available_at'',
      CreateIndex ''idx_runs_available'' ''runs'' [''available_at'', ''status'']]"

definition signals_sql :: "ddl list" where
  "signals_sql =
     [CreateTable ''signals'' [''run_id'', ''signal_id'', ''name'', ''payload'', ''created_at''] [] [''runs''],
      CreateIndex ''idx_signals_run_name'' ''signals'' [''run_id'', ''name'', ''created_at'']]"

definition retry_backoff_sql :: "ddl list" where
  "retry_backoff_sql =
     [AddColumn ''task_outbox'' ''available_at'',
      DropIndexIfExists ''idx_outbox_unpublished'',
      CreateIndex ''idx_outbox_unpublished'' ''task_outbox'' [''available_at'', ''outbox_id'', ''published_at'']]"

definition schema_files :: "ddl list migration list" where
  "schema_files =
     [(''0001_init.sql'', init_sql), (''0002_outbox_relay.sql'', outbox_relay_sql),
      (''0003_run_suspension.sql'', run_suspension_sql), (''0004_signals.sql'', signals_sql),
      (''0005_retry_backoff.sql'', retry_backoff_sql)]"

definition fresh_database :: "catalog database" where
  "fresh_database = \<lparr>db_versions = None, db_schema = \<lparr>cat_types = [], cat_tables = [], cat_indexes = []\<rparr>\<rparr>"

section \<open>Reset (migrations.go)\<close>

text \<open>
  \<open>DROP TABLE IF EXISTS ... CASCADE\<close> takes the indexes of a table and the foreign keys that refer
  to it along, and no other table; \<open>DROP TYPE IF EXISTS\<close> would be refused for a type in use,
  which none is once the tables that use them are gone.
\<close>

definition reset_tables :: "string list" where
  "reset_tables = [''leases'', ''workers'', ''task_outbox'', ''effects'', ''tasks'', ''events'', ''runs'', ''schema_migrations'']"

definition reset_types :: "string list" where
  "reset_types = [''worker_status'', ''effect_status'', ''task_status'', ''run_status'']"

definition Migrations_Reset :: "catalog database \<Rightarrow> catalog database" where
  "Migrations_Reset db =
     (let c = db_schema db in
      \<lparr>db_versions = (if ''schema_migrations'' \<in> set reset_tables then None else db_versions db),
       db_schema = c\<lparr>cat_tables := filter (\<lambda>(n, _). n \<notin> set reset_tables) (cat_tables c),
         cat_indexes := filter (\<lambda>(_, tab). tab \<notin> set reset_tables) (cat_indexes c),
         cat_types := filter (\<lambda>n. n \<notin> set reset_types) (cat_types c)\<rparr>\<rparr>)"

section \<open>Applied once, in order\<close>

lemma appliedVersions_ensure [simp]: "appliedVersions (ensure_versions db) = appliedVersions db"
  by (simp add: appliedVersions_def ensure_versions_def split: option.split)

lemma Pending_alt:
  "Migrations_Pending files db = filter (\<lambda>v. v \<notin> set (appliedVersions db)) (map fst (all_migrations files))"
  by (simp add: Migrations_Pending_def)

text \<open>What the loop has run is what was pending up to the first file that failed.\<close>

lemma apply_loop_ran:
  assumes "apply_loop exec (appliedVersions db0) ms vs db = ((vs', err), db')"
    and "distinct (map fst ms)" and "appliedVersions db = appliedVersions db0 @ vs"
    and "set (map fst ms) \<inter> set vs = {}"
  shows "\<exists>new rest. vs' = vs @ new \<and> filter (\<lambda>v. v \<notin> set (appliedVersions db0)) (map fst ms) = new @ rest
    \<and> appliedVersions db' = appliedVersions db0 @ vs' \<and> (err = None \<longleftrightarrow> rest = [])"
  using assms
proof (induction ms arbitrary: vs db)
  case (Cons m ms)
  show ?case
  proof (cases "fst m \<in> set (appliedVersions db0)")
    case True
    with Cons show ?thesis by auto
  next
    case False
    obtain e db1 where one: "applyOne exec m db = (e, db1)" by fastforce
    show ?thesis
    proof (cases e)
      case None
      with one False Cons.prems(3) have "appliedVersions db1 = appliedVersions db0 @ (vs @ [fst m])"
        by (auto simp: applyOne_def appliedVersions_def split: sum.splits if_splits)
      with None one False Cons.prems Cons.IH [of "vs @ [fst m]" db1] show ?thesis by auto
    next
      case (Some x)
      with one have "db1 = db" by (auto simp: applyOne_def split: sum.splits if_splits)
      with Some one False Cons.prems show ?thesis by auto
    qed
  qed
qed simp

lemma Apply_ran:
  assumes "Migrations_Apply exec files db = ((vs, err), db')" and "distinct (map fst files)"
  shows "Migrations_Pending files db = vs @ Migrations_Pending files db'
    \<and> appliedVersions db' = appliedVersions db @ vs \<and> (err = None \<longleftrightarrow> Migrations_Pending files db' = [])"
proof -
  have d: "distinct (map fst (all_migrations files))"
    using assms(2) by (simp add: all_migrations_def distinct_map)
  let ?p = "\<lambda>db. filter (\<lambda>v. v \<notin> set (appliedVersions db)) (map fst (all_migrations files))"
  obtain rest where r: "?p db = vs @ rest" "appliedVersions db' = appliedVersions db @ vs" "err = None \<longleftrightarrow> rest = []"
    using apply_loop_ran [of exec db "all_migrations files" "[]" "ensure_versions db"] assms(1) d
    by (auto simp: Migrations_Apply_def Let_def)
  from d have "distinct (?p db)" by simp
  with r(1) have "set vs \<inter> set rest = {}" by simp
  then have "filter (\<lambda>v. v \<notin> set vs) (vs @ rest) = rest"
    by (auto simp: filter_empty_conv intro!: filter_True)
  moreover have "?p db' = filter (\<lambda>v. v \<notin> set vs) (?p db)"
    by (simp add: r(2))
  ultimately have "?p db' = rest" using r(1) by simp
  with r show ?thesis by (simp add: Pending_alt)
qed

lemma Apply_again:
  assumes "Migrations_Pending files db = []"
  shows "Migrations_Apply exec files db = (([], None), ensure_versions db)"
proof -
  have "apply_loop exec applied ms [] d = (([], None), d)" if "\<forall>m \<in> set ms. fst m \<in> set applied" for applied ms d
    using that by (induction ms) auto
  with assms show ?thesis
    by (simp add: Migrations_Apply_def Pending_alt filter_empty_conv)
qed

section \<open>The schema of the repository\<close>

lemma schema_applies:
  "fst (Migrations_Apply exec_ddls schema_files fresh_database) = (map fst schema_files, None)"
  by code_simp

text \<open>The table of signals survives a reset, and the migration that creates it does not.\<close>

lemma reset_strands_signals:
  "let (r, db) = Migrations_Apply exec_ddls schema_files (Migrations_Reset
       (snd (Migrations_Apply exec_ddls schema_files fresh_database)))
   in r = ([''0001_init.sql'', ''0002_outbox_relay.sql'', ''0003_run_suspension.sql''],
           Some (wrap_err ''apply 0004_signals.sql'' (already_exists ''signals'')))
      \<and> Migrations_Pending schema_files db = [''0004_signals.sql'', ''0005_retry_backoff.sql'']"
  by code_simp

end
