(* ===== verification/OpsSamples.thy ===== *)
theory OpsSamples
  imports PgSamples OperatorLaws Backoffs Wiring Migrations
begin

text \<open>
  Concrete inputs for the operator's commands, the retries, the tasks table and the composition
  root.
\<close>

section \<open>An effect left running\<close>

definition stuck_row :: Effect where
  "stuck_row = fresh_row ''e'' sample_task ClassUnreconcilable ''k''"

definition sample_reserved :: state where
  "sample_reserved = snd (RunInTx (reserve_tx 100 sample_task stuck_row) sample_claimed)"

definition sample_stuck :: state where
  "sample_stuck = snd (RunInTx (effect_tx 100 ''r'' ''S1'' stuck_row EffectPending EffectRunning no_outcome None []) sample_reserved)"

definition found_sent :: resolve_flags where
  "found_sent = \<lparr>rf_committed = True, rf_notExecuted = False, rf_ref = ''pay-7'', rf_note = ''seen in the ledger''\<rparr>"

lemma sample_stuck_trace: "\<exists>ss. trace (sample_stuck # ss)"
proof -
  have "trace [sample_reserved, sample_claimed, sample_registered, sample_dispatching, sample_resumed, sample_signalled,
      sample_parked, sample_started, newState]"
    by (intro trace_next [OF sample_traces(2) _ sample_reserved_def] writes.reserve) (simp add: stuck_row_def)
  then have "trace (sample_stuck # [sample_reserved, sample_claimed, sample_registered, sample_dispatching, sample_resumed,
      sample_signalled, sample_parked, sample_started, newState])"
    by (intro trace_next [OF _ _ sample_stuck_def] writes.effect) (simp_all add: effect_event_def)
  then show ?thesis by blast
qed

lemma sample_stuck_facts:
  "\<exists>e. map_of (st_effects sample_stuck) ''k'' = Some e \<and> eff_Status e = EffectRunning \<and> eff_RunID e = ''r''"
  "has (st_runs sample_stuck) ''r'' \<and> length (events_of sample_stuck ''r'') < 100"
proof -
  have "map_option (\<lambda>e. (eff_Status e, eff_RunID e)) (map_of (st_effects sample_stuck) ''k'') = Some (EffectRunning, ''r'')"
    by code_simp
  then show "\<exists>e. map_of (st_effects sample_stuck) ''k'' = Some e \<and> eff_Status e = EffectRunning \<and> eff_RunID e = ''r''" by auto
  have "map_of (st_runs sample_stuck) ''r'' \<noteq> None" by code_simp
  moreover have "length (events_of sample_stuck ''r'') < 100" by code_simp
  ultimately show "has (st_runs sample_stuck) ''r'' \<and> length (events_of sample_stuck ''r'') < 100" by (simp add: has_def)
qed

section \<open>A retry with a backoff\<close>

definition patient_engine :: engine where
  "patient_engine = (sample_engine pay_agent)\<lparr>e_retry := \<lparr>rp_MaxAttempts = 2, rp_InitialBackoff = 50, rp_MaxBackoff = 1000,
     rp_Multiplier = 2, rp_Jitter = 0\<rparr>\<rparr>"

definition patient_failed :: world where
  "patient_failed = snd (the (FailTask patient_engine ''t'' 1 (errors_New ''no'') (world_at retry_held)))"

definition patient_scanned :: world where
  "patient_scanned = the (ScanOnce patient_engine (NewRuntime 0 0) (patient_failed\<lparr>w_now := 120\<rparr>))"

lemma patient_fails: "FailTask patient_engine ''t'' 1 (errors_New ''no'') (world_at retry_held) = Some (None, patient_failed)"
proof -
  have "map_option fst (FailTask patient_engine ''t'' 1 (errors_New ''no'') (world_at retry_held)) = Some None" by code_simp
  then show ?thesis by (auto simp: patient_failed_def)
qed

lemma patient_scans: "ScanOnce patient_engine (NewRuntime 0 0) (patient_failed\<lparr>w_now := 120\<rparr>) = Some patient_scanned"
proof -
  have "ScanOnce patient_engine (NewRuntime 0 0) (patient_failed\<lparr>w_now := 120\<rparr>) \<noteq> None" by code_simp
  then show ?thesis by (auto simp: patient_scanned_def)
qed

lemma patient_facts:
  "\<exists>t. map_of (st_tasks retry_held) ''t'' = Some t \<and> task_Status t = TaskRunning \<and> \<not> Task_Exhausted t \<and> task_Attempt t = 1"
  "\<exists>t. map_of (st_tasks (w_st patient_failed)) ''t'' = Some t \<and> task_Status t = TaskPending"
  "store_ok retry_held"
  "Backoff (\<lambda>x. x) 0 (e_retry patient_engine) 1 = 50"
  "length (filter (\<lambda>t. task_Status t = TaskPending) (vals (st_tasks (w_st patient_failed)))) \<le> nat (rt_batch (NewRuntime 0 0))"
proof -
  have "map_option (\<lambda>t. (task_Status t, Task_Exhausted t, task_Attempt t)) (map_of (st_tasks retry_held) ''t'')
      = Some (TaskRunning, False, 1)"
    by code_simp
  then show "\<exists>t. map_of (st_tasks retry_held) ''t'' = Some t \<and> task_Status t = TaskRunning \<and> \<not> Task_Exhausted t \<and> task_Attempt t = 1"
    by auto
  have "map_option task_Status (map_of (st_tasks (w_st patient_failed)) ''t'') = Some TaskPending" by code_simp
  then show "\<exists>t. map_of (st_tasks (w_st patient_failed)) ''t'' = Some t \<and> task_Status t = TaskPending" by auto
  show "store_ok retry_held" using retry_ok by (simp add: retry_now)
  show "Backoff (\<lambda>x. x) 0 (e_retry patient_engine) 1 = 50" by code_simp
  have "length (filter (\<lambda>t. task_Status t = TaskPending) (vals (st_tasks (w_st patient_failed)))) = 1" by code_simp
  moreover have "rt_batch (NewRuntime 0 0) = 100" by code_simp
  ultimately show "length (filter (\<lambda>t. task_Status t = TaskPending) (vals (st_tasks (w_st patient_failed)))) \<le> nat (rt_batch (NewRuntime 0 0))"
    by simp
qed

section \<open>A poller\<close>

text \<open>The run has started and its task is dispatched; the poller takes it at 8 microseconds.\<close>

definition polled_history :: "(time \<times> txn) list" where
  "polled_history = take 2 sample_history"

definition polled_rows :: pgstate where
  "polled_rows = snd (pg_history sample_dialect polled_history empty_database)"

definition sample_poller :: PgDispatcher where
  "sample_poller = \<lparr>pd_visibility = 4000, pd_minPoll = 1000, pd_maxPoll = 2000, pd_closed = False\<rparr>"

definition polled_after :: pgstate where
  "polled_after = defer_task sample_dialect 12000 ''t'' polled_rows"

definition polled_later :: "(time \<times> txn) list" where
  "polled_later = [(9000, Script [OpRegisterWorker sample_worker])]"

lemma polled_fits: "history_fits sample_dialect polled_history newState"
  "history_fits sample_dialect polled_later (snd (mem_history polled_history newState))"
  by code_simp+

lemma polled_one: "length (pg_tasks (snd (pg_history sample_dialect polled_later polled_after))) = 1"
  by code_simp

lemma polled_takes: "(Inr (Some ''t''), polled_after) \<in> set (take_task sample_dialect sample_poller 8000 (\<lambda>_. False) None polled_rows)"
proof -
  have "map tr_task_id (first_offers sample_dialect 8000 (\<lambda>_. False) polled_rows) = [''t'']" by code_simp
  then show ?thesis by (auto simp: take_task_def polled_after_def sample_poller_def time_Add_def split: list.split)
qed

section \<open>A configuration\<close>

lemma default_valid: "\<exists>c. Validate None DefaultConfig = Inr c"
proof -
  have "\<not> isl (Validate None DefaultConfig)" by code_simp
  then show ?thesis by (cases "Validate None DefaultConfig") auto
qed

end
