(* ===== verification/RetryBounds.thy ===== *)
theory RetryBounds
  imports Engine
begin

text \<open>
  How long a retry waits (core/tool.go): the delay of a capped policy lies between zero and its
  cap, computed in floating point: what the code relies on is that float64 rounds monotonically,
  is exact on the integers up to \<open>2 ^ 53\<close> and errs by half a unit in the last place. Without a cap
  enough attempts leave the range of a duration.
\<close>

definition rounding :: "(rat \<Rightarrow> rat) \<Rightarrow> bool" where
  "rounding fl \<longleftrightarrow> mono fl \<and> fl 0 = 0"

text \<open>
  The part of IEEE 754 double precision that the bound rests on: integers of 53 bits are exact, and
  a result is rounded up by at most half a unit in the last place of a number below \<open>2 ^ 64\<close> (or by
  half the smallest subnormal).
\<close>

definition float64 :: "(rat \<Rightarrow> rat) \<Rightarrow> bool" where
  "float64 fl \<longleftrightarrow> rounding fl \<and> (\<forall>i. \<bar>i\<bar> \<le> 2 ^ 53 \<longrightarrow> fl (of_int i) = of_int i)
     \<and> (\<forall>x. 0 \<le> x \<longrightarrow> x \<le> 2 ^ 64 \<longrightarrow> fl x \<le> x + x / 2 ^ 53 + 1 / 2 ^ 1075)"

lemma float64_rounding: "float64 fl \<Longrightarrow> rounding fl"
  by (simp add: float64_def)

lemma float64_exact: "float64 fl \<Longrightarrow> 0 \<le> i \<Longrightarrow> i \<le> 2 ^ 53 \<Longrightarrow> fl (of_int i) = of_int i"
  by (simp add: float64_def)

lemma float64_up:
  assumes "float64 fl" "0 \<le> x" "x \<le> 2 ^ 51"
  shows "fl x \<le> x + x / 2 ^ 53 + 1 / 2 ^ 60"
proof -
  have "(1 :: rat) / 2 ^ 1075 \<le> 1 / 2 ^ 60" by (intro divide_left_mono power_increasing) simp_all
  moreover have "fl x \<le> x + x / 2 ^ 53 + 1 / 2 ^ 1075"
    using assms unfolding float64_def by (auto intro: order_trans)
  ultimately show ?thesis by linarith
qed

lemma float64_near:
  assumes "float64 fl" "0 \<le> x" "x \<le> y" "y \<le> 2 ^ 50 + 1"
  shows "0 \<le> fl x" "fl x \<le> y + 1 / 7"
proof -
  have "x \<le> 2 ^ 51" using assms(3,4) by simp
  from float64_up [OF assms(1,2) this] have "fl x \<le> x + x / 2 ^ 53 + 1 / 2 ^ 60" .
  moreover have "x / 2 ^ 53 \<le> (2 ^ 50 + 1) / 2 ^ 53" using assms(3,4) by (intro divide_right_mono) simp_all
  moreover have "(2 ^ 50 + 1) / 2 ^ 53 + 1 / 2 ^ 60 \<le> (1 :: rat) / 7" by simp
  ultimately show "fl x \<le> y + 1 / 7" using assms(3) by linarith
  show "0 \<le> fl x" using assms(1,2) monoD [of fl 0 x] by (simp add: float64_def rounding_def)
qed

text \<open>Fixed point with 53 fractional bits, rounded down, is one such rounding.\<close>

definition fixed53 :: "rat \<Rightarrow> rat" where
  "fixed53 x = of_int \<lfloor>x * 2 ^ 53\<rfloor> / 2 ^ 53"

lemma float64_fixed53: "float64 fixed53"
proof -
  have "mono fixed53" unfolding fixed53_def by (intro monoI divide_right_mono) (simp_all add: floor_mono)
  moreover have "fixed53 (of_int i) = of_int i" for i
  proof -
    have "(of_int i :: rat) * 2 ^ 53 = of_int (i * 2 ^ 53)" by simp
    then show ?thesis unfolding fixed53_def by (simp only: floor_of_int) simp
  qed
  moreover have "fixed53 x \<le> x + x / 2 ^ 53 + 1 / 2 ^ 1075" if "0 \<le> x" for x
  proof -
    have "of_int \<lfloor>x * 2 ^ 53\<rfloor> \<le> x * 2 ^ 53" by (rule of_int_floor_le)
    then have "fixed53 x \<le> x" unfolding fixed53_def by (simp add: divide_le_eq)
    moreover have "0 \<le> x / 2 ^ 53" "(0 :: rat) \<le> 1 / 2 ^ 1075" using that by simp_all
    ultimately show ?thesis by linarith
  qed
  ultimately show ?thesis by (simp add: float64_def rounding_def fixed53_def)
qed

lemma rounding_mono: "rounding fl \<Longrightarrow> x \<le> y \<Longrightarrow> fl x \<le> fl y"
  by (simp add: rounding_def monoD)

lemma rounding_nonneg: "rounding fl \<Longrightarrow> 0 \<le> x \<Longrightarrow> 0 \<le> fl x"
  using rounding_mono [of fl 0 x] by (simp add: rounding_def)

lemma backoff_loop_nonneg:
  "rounding fl \<Longrightarrow> 0 \<le> mult \<Longrightarrow> 0 \<le> delay \<Longrightarrow> 0 \<le> backoff_loop fl mult cap delay n"
  by (induction n arbitrary: delay) (auto simp: Let_def rounding_nonneg)

lemma to_duration_bounds:
  assumes "0 \<le> x" "x \<le> of_int cap" "cap \<le> max_int64"
  shows "0 \<le> to_duration x" "to_duration x \<le> cap"
proof -
  from assms have "0 \<le> \<lfloor>x\<rfloor>" "\<lfloor>x\<rfloor> \<le> cap" by (simp_all add: floor_le_iff)
  moreover from this assms have "in_int64 \<lfloor>x\<rfloor>" by (simp add: in_int64_def min_int64_def)
  ultimately show "0 \<le> to_duration x" "to_duration x \<le> cap"
    using assms by (simp_all add: to_duration_def)
qed

text \<open>A result below the next nanosecond is truncated to the cap.\<close>

lemma to_duration_below:
  assumes "0 \<le> x" "x < of_int cap + 1" "cap \<le> max_int64"
  shows "0 \<le> to_duration x" "to_duration x \<le> cap"
proof -
  from assms have "0 \<le> \<lfloor>x\<rfloor>" "\<lfloor>x\<rfloor> \<le> cap" by (simp_all add: floor_le_iff)
  moreover from this assms have "in_int64 \<lfloor>x\<rfloor>" by (simp add: in_int64_def min_int64_def)
  ultimately show "0 \<le> to_duration x" "to_duration x \<le> cap"
    using assms by (simp_all add: to_duration_def)
qed

text \<open>The delay before jitter.\<close>

definition base_delay :: "(rat \<Rightarrow> rat) \<Rightarrow> RetryPolicy \<Rightarrow> int \<Rightarrow> rat" where
  "base_delay fl p attempt =
     (let mult = (if rp_Multiplier p < 1 then 1 else rp_Multiplier p);
          delay = backoff_loop fl mult (rp_MaxBackoff p) (fl (of_int (rp_InitialBackoff p))) (nat (attempt - 1))
      in if 0 < rp_MaxBackoff p \<and> fl (of_int (rp_MaxBackoff p)) < delay
         then fl (of_int (rp_MaxBackoff p)) else delay)"

lemma Backoff_base:
  "Backoff fl rnd p attempt =
     (if rp_InitialBackoff p \<le> 0 \<or> attempt < 1 then 0
      else if rp_Jitter p \<le> 0 then to_duration (base_delay fl p attempt)
      else let jitter = min 1 (rp_Jitter p) in
        to_duration (fl (fl (base_delay fl p attempt * fl (1 - jitter)) + fl (rnd * fl (base_delay fl p attempt * jitter)))))"
  by (simp add: Backoff_def base_delay_def Let_def min_def not_less)

lemma base_delay_bounds:
  assumes "rounding fl" "0 < rp_MaxBackoff p" "fl (of_int (rp_MaxBackoff p)) = of_int (rp_MaxBackoff p)"
    and "0 \<le> rp_InitialBackoff p"
  shows "0 \<le> base_delay fl p attempt" "base_delay fl p attempt \<le> of_int (rp_MaxBackoff p)"
proof -
  let ?cap = "rp_MaxBackoff p"
  define mult where "mult = (if rp_Multiplier p < 1 then 1 else rp_Multiplier p)"
  define delay where "delay = backoff_loop fl mult ?cap (fl (of_int (rp_InitialBackoff p))) (nat (attempt - 1))"
  have "0 \<le> mult" by (simp add: mult_def)
  with assms(1,4) have delay: "0 \<le> delay"
    unfolding delay_def by (metis backoff_loop_nonneg rounding_nonneg of_int_0_le_iff)
  have eq: "base_delay fl p attempt = (if of_int ?cap < delay then of_int ?cap else delay)"
    unfolding base_delay_def Let_def mult_def [symmetric] delay_def [symmetric] assms(3)
    by (simp only: assms(2) simp_thms)
  show "0 \<le> base_delay fl p attempt" "base_delay fl p attempt \<le> of_int ?cap"
    unfolding eq using delay assms(2) by simp_all
qed

text \<open>
  Jitter: of the delay \<open>d\<close> the part \<open>1 - j\<close> is kept and up to \<open>j\<close> is drawn again. The five roundings
  together are off by less than a nanosecond while the delay is below \<open>2 ^ 50\<close> of them.
\<close>

definition jittered :: "(rat \<Rightarrow> rat) \<Rightarrow> rat \<Rightarrow> rat \<Rightarrow> rat \<Rightarrow> rat" where
  "jittered fl rnd d j = fl (fl (d * fl (1 - j)) + fl (rnd * fl (d * j)))"

lemma jittered_bounds:
  assumes fl: "float64 fl" and d: "0 \<le> d" "d \<le> 2 ^ 50" and j: "0 \<le> j" "j \<le> 1" and rnd: "0 \<le> rnd" "rnd \<le> 1"
  shows "0 \<le> jittered fl rnd d j" "jittered fl rnd d j < d + 1"
proof -
  note pos = rounding_nonneg [OF float64_rounding [OF fl]] and up = float64_up [OF fl]
  define a f p s where "a = fl (1 - j)" and "f = fl (d * a)" and "p = fl (d * j)" and "s = fl (rnd * p)"
  have dj: "0 \<le> d * j" "0 \<le> d * (1 - j)" using d j by simp_all
  have split: "d * (1 - j) = d - d * j" by (simp add: right_diff_distrib)
  have k: "0 \<le> 1 - j" "1 - j \<le> 2 ^ 51" using j by simp_all
  have "0 \<le> a" "a \<le> (1 - j) + (1 - j) / 2 ^ 53 + 1 / 2 ^ 60"
    unfolding a_def by (rule pos [OF k(1)], rule up [OF k])
  moreover have "(1 - j) / 2 ^ 53 \<le> 1 / 2 ^ 53" using j(1) by (intro divide_right_mono) simp_all
  ultimately have a: "0 \<le> a" "a \<le> (1 - j) + (1 / 2 ^ 53 + 1 / 2 ^ 60)" by linarith+
  define u :: rat where "u = 1 / 2 ^ 53 + 1 / 2 ^ 60"
  have "d * a \<le> d * ((1 - j) + u)" using a(2) d(1) unfolding u_def by (rule mult_left_mono)
  then have da: "0 \<le> d * a" "d * a \<le> d - d * j + d * u"
    using a(1) d(1) by (simp, simp only: distrib_left split)
  moreover have "d * u \<le> 2 ^ 50 * u" using d(2) by (rule mult_right_mono) (simp add: u_def)
  moreover have "2 ^ 50 * u \<le> 1 / 4" by (simp add: u_def)
  ultimately have da2: "d * a \<le> d - d * j + 1 / 4" by linarith
  note near = float64_near [OF fl]
  have f: "0 \<le> f" "f \<le> d - d * j + 1 / 4 + 1 / 7"
    unfolding f_def by (rule near [OF da(1) da2], use dj(1) d(2) in linarith)+
  have le: "d * j \<le> 2 ^ 50 + 1" using dj(2) split d(2) by linarith
  have p: "0 \<le> p" "p \<le> d * j + 1 / 7" unfolding p_def by (rule near [OF dj(1) order_refl le])+
  have rp: "0 \<le> rnd * p" "rnd * p \<le> p" using rnd p(1) by (simp_all add: mult_left_le_one_le)
  have s: "0 \<le> s" "s \<le> d * j + 1 / 7 + 1 / 7"
    unfolding s_def by (rule near [OF rp(1) order_trans [OF rp(2) p(2)]], use dj(2) split d(2) in linarith)+
  have fs: "0 \<le> f + s" "f + s \<le> d + 3 / 4" using f s by linarith+
  have fs2: "d + 3 / 4 \<le> 2 ^ 50 + 1" using d(2) by linarith
  have eq: "jittered fl rnd d j = fl (f + s)" by (simp add: jittered_def a_def f_def p_def s_def)
  show "0 \<le> jittered fl rnd d j" "jittered fl rnd d j < d + 1"
    unfolding eq using near [OF fs fs2] by linarith+
qed

lemma capped_backoff:
  assumes fl: "float64 fl" and cap: "0 < rp_MaxBackoff p" "rp_MaxBackoff p \<le> max_int64"
    and small: "rp_MaxBackoff p \<le> 2 ^ 50 \<or> rp_Jitter p \<le> 0 \<and> fl (of_int (rp_MaxBackoff p)) = of_int (rp_MaxBackoff p)"
    and rnd: "0 \<le> rnd" "rnd \<le> 1"
  shows "0 \<le> Backoff fl rnd p attempt \<and> Backoff fl rnd p attempt \<le> rp_MaxBackoff p"
proof (cases "rp_InitialBackoff p \<le> 0 \<or> attempt < 1")
  case True
  with cap show ?thesis by (auto simp: Backoff_base)
next
  case False
  let ?d = "base_delay fl p attempt" and ?j = "min 1 (rp_Jitter p)"
  have "fl (of_int (rp_MaxBackoff p)) = of_int (rp_MaxBackoff p)"
    using small float64_exact [OF fl, of "rp_MaxBackoff p"] cap(1) by auto
  from base_delay_bounds [OF float64_rounding [OF fl] cap(1) this] False
  have d: "0 \<le> ?d" "?d \<le> of_int (rp_MaxBackoff p)" by simp_all
  show ?thesis
  proof (cases "rp_Jitter p \<le> 0")
    case True
    with False to_duration_bounds [OF d cap(2)] show ?thesis by (simp add: Backoff_base)
  next
    case jitter: False
    with small have "rp_MaxBackoff p \<le> 2 ^ 50" by simp
    then have "(of_int (rp_MaxBackoff p) :: rat) \<le> of_int (2 ^ 50)" by (simp only: of_int_le_iff)
    with d(2) have "?d \<le> 2 ^ 50" by simp
    from jittered_bounds [OF fl d(1) this _ _ rnd, of ?j] jitter d(2)
    have "0 \<le> jittered fl rnd ?d ?j" "jittered fl rnd ?d ?j < of_int (rp_MaxBackoff p) + 1" by simp_all
    from to_duration_below [OF this cap(2)] False jitter show ?thesis
      by (simp add: Backoff_base Let_def jittered_def)
  qed
qed

text \<open>Ten seconds doubled thirty times are past the largest duration, and the delay is negative.\<close>

definition uncapped :: RetryPolicy where
  "uncapped = \<lparr>rp_MaxAttempts = 40, rp_InitialBackoff = 10 * second, rp_MaxBackoff = 0, rp_Multiplier = 2, rp_Jitter = 0\<rparr>"

lemma uncapped_loop: "backoff_loop (\<lambda>x. x) m 0 d n = d * m ^ n"
  by (induction n arbitrary: d) (simp_all add: mult.assoc)

lemma uncapped_backoff_wraps: "Backoff (\<lambda>x. x) rnd uncapped 31 = min_int64"
  by (simp add: Backoff_def uncapped_def uncapped_loop second_def to_duration_def in_int64_def min_int64_def max_int64_def)

end
