(* ===== verification/Remarks.thy ===== *)
theory Remarks
  imports OpsSamples RetryBounds
begin

text \<open>
  Further consequences: two ways a run is lost that the code does not mean, what a relay marks as
  sent, and which wait a history leaves open. Each with an instance.
\<close>

text \<open>
  FailTask takes any step whose name ends in a dot and a number for a child of a fan-out. When a
  plain step of that name fails for good, the run is not failed but advanced; an agent that asks for the
  step again, as a deterministic one does, gets nothing, and the run stays RUNNING with a dead letter.
\<close>

theorem dotted_step_stalls_run:
  assumes "store_ok (w_st w)" and "map_of (st_tasks (w_st w)) tid = Some t" and "task_Status t = TaskRunning"
    and "map_of (st_leases (w_st w)) tid = Some l"
    and "Task_Exhausted t" and "\<not> Is cause ErrEscalated" and "StepID_Parent (task_StepID t) = Some parent"
    and "map_of (st_runs (w_st w)) (task_RunID t) = Some run" and "run_Status run = RunRunning" and "run_AgentName run = e_agent e"
    and "\<forall>ev \<in> set (events_of (w_st w) (task_RunID t)). ev_Type ev \<noteq> EventFanOutStarted"
    and "PendingWait (events_of (w_st w) (task_RunID t)) = None"
    and "\<forall>n run h. \<exists>d. e_decide e n run h = Inr d \<and> d_Kind d = DecideCallTool \<and> d_StepID d = task_StepID t"
    and "int (length (events_of (w_st w) (task_RunID t))) + 3 \<le> max_int64"
  shows "\<exists>w'. FailTask e tid (lease_Token l) cause w = Some (None, w')
    \<and> map_option task_Status (map_of (st_tasks (w_st w')) tid) = Some TaskDeadLetter
    \<and> map_of (st_runs (w_st w')) (task_RunID t) = Some run"
  using FailTask_dotted [OF assms(1-12) _ assms(14)] assms(13) by blast

theorem dotted_step_stalls_run_witness:
  "\<exists>w'. FailTask (sample_engine dotted_agent) ''t'' 1 (errors_New ''no'') (world_at dotted_held) = Some (None, w')
    \<and> map_of (st_runs (w_st w')) ''r'' = Some (sample_run dotted_held) \<and> run_Status (sample_run dotted_held) = RunRunning"
proof -
  obtain t l where t: "map_of (st_tasks dotted_held) ''t'' = Some t" "task_Status t = TaskRunning" "Task_Exhausted t" "task_RunID t = ''r''"
    "task_StepID t = ''S1.5''" and l: "map_of (st_leases dotted_held) ''t'' = Some l" "lease_Token l = 1"
    using dotted_facts(1,2) by blast
  have d: "\<forall>n run h. \<exists>d. e_decide (sample_engine dotted_agent) n run h = Inr d \<and> d_Kind d = DecideCallTool \<and> d_StepID d = ''S1.5''"
    by (simp add: sample_engine_def dotted_agent_def pay_agent_def seen_event_def)
  show ?thesis
    using dotted_step_stalls_run [of "world_at dotted_held" "''t''" t l "errors_New ''no''" "''S1''" "sample_run dotted_held"
        "sample_engine dotted_agent"] t l d dotted_ok dotted_facts(3-9)
    by (auto simp: world_at_def max_int64_def sample_engine_def)
qed

text \<open>
  The relay marks only what it sent: a delivery that a sweep turns into a published one was
  pending, and in that sweep its task was handed to the dispatcher, which took it.
\<close>

theorem relay_marks_only_sent:
  assumes "store_ok (w_st w)" and "RelayOnce e rl w = ((n, stop), w')"
    and "is_published (w_st w') i" and "\<not> is_published (w_st w) i"
  shows "\<exists>d new. map_of (st_deliveries (w_st w)) i = Some d \<and> w_sent w' = w_sent w @ new \<and> del_TaskID d \<in> set new"
  by (rule RelayOnce_published [OF assms])

theorem relay_marks_only_sent_witness:
  "\<exists>n stop w' d new. RelayOnce (sample_engine pay_agent) sample_relay (world_at sample_registered) = ((n, stop), w')
     \<and> map_of (st_deliveries sample_registered) 1 = Some d \<and> w_sent w' = new \<and> del_TaskID d \<in> set new"
proof -
  obtain n stop w' where r: "RelayOnce (sample_engine pay_agent) sample_relay (world_at sample_registered) = ((n, stop), w')"
    by (metis prod.collapse)
  moreover have "is_published (w_st (snd (RelayOnce (sample_engine pay_agent) sample_relay (world_at sample_registered)))) 1"
    "\<not> is_published sample_registered 1" by code_simp+
  ultimately show ?thesis
    using relay_marks_only_sent [of "world_at sample_registered" "sample_engine pay_agent" sample_relay n stop w' 1] sample_ok
    by (fastforce simp: world_at_def)
qed

text \<open>
  A worker that disconnects in the middle of a decision costs the run its life: the call ends with
  ErrWorkerGone, which is not an ErrUnavailable, so the engine marks the run FAILED.
\<close>

theorem disconnect_while_deciding_fails_run:
  assumes "e_decide e (w_asked w) run h = fst (remote_Decide ask agent run h g)"
    and "pickDecider (run_AgentName run) (run_AgentVersion run) g = (Inr sess, g')"
    and "ask sess run h = StreamDone \<and> se_cause sess \<in> {None, Some (sentinel_err ErrWorkerGone)} \<or> ask sess run h = Received None"
    and "store_ok (w_st w)" and "map_of (st_runs (w_st w)) (run_ID run) = Some run" and "run_Status run = RunRunning"
    and "int (length (events_of (w_st w) (run_ID run))) < max_int64"
  shows "\<exists>w' r'. decide e run h w = (Return None, w')
    \<and> map_of (st_runs (w_st w')) (run_ID run) = Some r' \<and> run_Status r' = RunFailed"
  using decide_disconnected [OF assms] by (auto simp: apply_state_status failed_state_def)

theorem disconnect_while_deciding_fails_run_witness:
  "\<exists>w' r'. decide (gateway_engine (\<lambda>_ _ _. StreamDone) sample_gateway) (sample_run sample_started) [] (world_at sample_started)
      = (Return None, w') \<and> map_of (st_runs (w_st w')) ''r'' = Some r' \<and> run_Status r' = RunFailed"
proof -
  have r: "map_of (st_runs sample_started) ''r'' = Some (sample_run sample_started)" "run_ID (sample_run sample_started) = ''r''"
    "run_Status (sample_run sample_started) = RunRunning" "length (events_of sample_started ''r'') = 1" by code_simp+
  obtain g' where "pickDecider (run_AgentName (sample_run sample_started)) (run_AgentVersion (sample_run sample_started)) sample_gateway
      = (Inr sample_session, g')" using gateway_picks by blast
  then show ?thesis
    using disconnect_while_deciding_fails_run [of "gateway_engine (\<lambda>_ _ _. StreamDone) sample_gateway" "world_at sample_started"
        "sample_run sample_started" "[]" "\<lambda>_ _ _. StreamDone" "''shop''" sample_gateway sample_session] r sample_ok
    by (auto simp: gateway_engine_def world_at_def sample_session_def max_int64_def)
qed

text \<open>
  The fold over history computes the declarative reading: a wait is pending when some event opened
  it and after that event no other wait was opened and none of the three events that end a wait carries
  its step.
\<close>

theorem pending_wait_is_the_last_open:
  shows "PendingWait h = Some w \<longleftrightarrow> (\<exists>before e after. h = before @ e # after \<and> opens_wait e \<and> w = opened_wait e
     \<and> (\<forall>x \<in> set after. \<not> opens_wait x \<and> \<not> closes_wait (ev_StepID e) x))"
  using PendingWait_spec by (simp add: pending_spec_def)

theorem pending_wait_is_the_last_open_witness:
  "\<exists>before e after. History sample_parked ''r'' = before @ e # after \<and> opens_wait e \<and> sample_wait = opened_wait e"
proof -
  have "PendingWait (History sample_parked ''r'') = Some sample_wait" by code_simp
  then show ?thesis using pending_wait_is_the_last_open by blast
qed

end
