(* ===== verification/Meeting.thy ===== *)
theory Meeting
  imports Worker
begin

text \<open>
  The built-in demonstration agent (internal/agents/meeting/meeting.go): its plan, its tools and
  the fake providers behind them, which are the outside world of the executor.
\<close>

definition meeting_Name :: string where "meeting_Name = ''meeting_assistant''"
definition meeting_Version :: string where "meeting_Version = ''v1''"

definition meeting_steps :: "StaticStep list" where
  "meeting_steps =
     [\<lparr>ss_Tool = ''fetch_meeting'', ss_Payload = RawJSON (JObj [(''meeting_id'', JStr ''M-1042'')])\<rparr>,
      \<lparr>ss_Tool = ''summarize'', ss_Payload = RawJSON (JObj [(''style'', JStr ''brief'')])\<rparr>,
      \<lparr>ss_Tool = ''send_summary'', ss_Payload = RawJSON (JObj [(''channel'', JStr ''email'')])\<rparr>]"

definition NewDecider :: "Run \<Rightarrow> Event list \<Rightarrow> go_error + Decision" where
  "NewDecider = Static_Decide meeting_steps"

section \<open>The providers\<close>

record fakeMailbox =
  mb_sent :: "(IdempotencyKey \<times> string) list"
  mb_seq :: int

record fakeModel =
  md_calls :: "(IdempotencyKey \<times> string) list"
  md_seq :: int

record providers =
  pv_mailbox :: fakeMailbox
  pv_model :: fakeModel

definition newFakeMailbox :: fakeMailbox where "newFakeMailbox = \<lparr>mb_sent = [], mb_seq = 0\<rparr>"
definition newFakeModel :: fakeModel where "newFakeModel = \<lparr>md_calls = [], md_seq = 0\<rparr>"

text \<open>\<open>strings.ToUpper\<close> of ASCII letters; other characters stay.\<close>

definition upper :: "char \<Rightarrow> char" where
  "upper c = (if 97 \<le> (of_char c :: nat) \<and> of_char c \<le> (122 :: nat) then char_of (of_char c - 32 :: nat) else c)"

text \<open>\<open>json.Marshal\<close> of a map orders its keys.\<close>

definition send_answer :: "string \<Rightarrow> string \<Rightarrow> raw" where
  "send_answer channel ref =
     RawJSON (JObj [(''channel'', JStr channel), (''delivered'', JBool True), (''reference'', JStr ref)])"

definition Mailbox_send :: "IdempotencyKey \<Rightarrow> string \<Rightarrow> fakeMailbox \<Rightarrow> raw \<times> fakeMailbox" where
  "Mailbox_send key channel m =
     (case map_of (mb_sent m) key of
        Some ref \<Rightarrow> (send_answer channel ref, m)
      | None \<Rightarrow>
          let seq = mb_seq m + 1;
              ref = ''msg_'' @ map upper channel @ ''_'' @ show_int (98374 + seq)
          in (send_answer channel ref, \<lparr>mb_sent = AList.update key ref (mb_sent m), mb_seq = seq\<rparr>))"

definition Mailbox_lookup :: "IdempotencyKey \<Rightarrow> fakeMailbox \<Rightarrow> Resolution" where
  "Mailbox_lookup key m =
     (case map_of (mb_sent m) key of
        None \<Rightarrow> \<lparr>res_Kind = ResolvedNotExecuted, res_Response = RawNil, res_ExternalRef = [],
                  res_Detail = ''no message recorded for this key''\<rparr>
      | Some ref \<Rightarrow> \<lparr>res_Kind = ResolvedCommitted, res_Response = RawNil, res_ExternalRef = ref,
                     res_Detail = ''found by idempotency key''\<rparr>)"

definition Model_complete :: "IdempotencyKey \<Rightarrow> fakeModel \<Rightarrow> raw \<times> fakeModel" where
  "Model_complete key m =
     (let answer = (\<lambda>ref already. RawJSON (JObj [(''reference'', JStr ref), (''replayed'', JBool already),
                      (''summary'', JStr ''Layer 3 ships. Benchmarks next.'')]))
      in case map_of (md_calls m) key of
           Some ref \<Rightarrow> (answer ref True, m)
         | None \<Rightarrow>
             let seq = md_seq m + 1; ref = ''cmpl_'' @ show_int (7730 + seq)
             in (answer ref False, \<lparr>md_calls = AList.update key ref (md_calls m), md_seq = seq\<rparr>))"

section \<open>The tools\<close>

text \<open>A payload read into a struct with one string field.\<close>

definition payload_field :: "string \<Rightarrow> string \<Rightarrow> raw \<Rightarrow> go_error + string" where
  "payload_field tool_name field payload =
     (let bad = Inl (the (NotExecuted (Some (errors_New (tool_name @ '': bad payload''))))) in
      case payload of
        RawJSON j \<Rightarrow>
          (case struct_of j of
             None \<Rightarrow> bad
           | Some kvs \<Rightarrow> (case g_str kvs field of (v, ok) \<Rightarrow> if ok then Inr v else bad))
      | _ \<Rightarrow> bad)"

definition fetch_meeting :: "ToolCall \<Rightarrow> providers \<Rightarrow> handler_result \<times> providers" where
  "fetch_meeting c p =
     (case payload_field ''fetch_meeting'' ''meeting_id'' (call_Payload c) of
        Inl err \<Rightarrow> (Returned RawNil (Some err), p)
      | Inr i \<Rightarrow> (Returned (RawJSON (JObj
           [(''meeting_id'', JStr i), (''notes'', JStr ''Agreed to ship Layer 2. Dispatch benchmarks next.''),
            (''participants'', JArr [JStr ''ana@example.com'', JStr ''bo@example.com'']),
            (''title'', JStr ''Quarterly planning'')])) None, p))"

definition summarize :: "ToolCall \<Rightarrow> providers \<Rightarrow> handler_result \<times> providers" where
  "summarize c p =
     (case Model_complete (call_Key c) (pv_model p) of (answer, m) \<Rightarrow> (Returned answer None, p\<lparr>pv_model := m\<rparr>))"

definition send_summary :: "ToolCall \<Rightarrow> providers \<Rightarrow> handler_result \<times> providers" where
  "send_summary c p =
     (case payload_field ''send_summary'' ''channel'' (call_Payload c) of
        Inl err \<Rightarrow> (Returned RawNil (Some err), p)
      | Inr channel \<Rightarrow>
          (case Mailbox_send (call_Key c) channel (pv_mailbox p) of
             (answer, m) \<Rightarrow> (Returned answer None, p\<lparr>pv_mailbox := m\<rparr>)))"

definition ask_mailbox :: "Effect \<Rightarrow> providers \<Rightarrow> (go_error + Resolution) \<times> providers" where
  "ask_mailbox e p = (Inr (Mailbox_lookup (eff_Key e) (pv_mailbox p)), p)"

text \<open>The registry, or the panic of a registration, and the fresh providers its handlers share.\<close>

definition day :: duration where "day = 24 * 60 * 60 * second"

definition NewTools :: "(string + providers Registry) \<times> providers" where
  "NewTools =
     ((case Func ''fetch_meeting'' fetch_meeting [] of
         Inl panic \<Rightarrow> Inl panic
       | Inr r \<Rightarrow>
           (case Effectful ''summarize'' ClassIdempotentByKey day summarize None r of
              Inl panic \<Rightarrow> Inl panic
            | Inr r \<Rightarrow> Effectful ''send_summary'' ClassQueryable day send_summary (Some ask_mailbox) r)),
      \<lparr>pv_mailbox = newFakeMailbox, pv_model = newFakeModel\<rparr>)"

text \<open>No registration panics.\<close>

definition meeting_tools :: "providers Registry" where
  "meeting_tools = (case fst NewTools of Inl panic \<Rightarrow> [] | Inr r \<Rightarrow> r)"

lemma NewTools_registers:
  "fst NewTools = Inr
     [(''fetch_meeting'', \<lparr>td_Name = ''fetch_meeting'', td_Class = ClassNone, td_Handler = fetch_meeting,
         td_Reconciler = None, td_KeyTTL = 0\<rparr>),
      (''summarize'', \<lparr>td_Name = ''summarize'', td_Class = ClassIdempotentByKey, td_Handler = summarize,
         td_Reconciler = None, td_KeyTTL = day\<rparr>),
      (''send_summary'', \<lparr>td_Name = ''send_summary'', td_Class = ClassQueryable, td_Handler = send_summary,
         td_Reconciler = Some ask_mailbox, td_KeyTTL = day\<rparr>)]"
  by (simp add: NewTools_def Func_def Effectful_def Register_def EffectClass_Valid_def)

section \<open>What the providers keep\<close>

text \<open>
  The references a provider has handed out, by the key it was given. A mailbox has sent one
  message per key, the numbers count the messages.
\<close>

definition vouches :: "providers \<Rightarrow> IdempotencyKey \<Rightarrow> string \<Rightarrow> bool" where
  "vouches p key ref \<longleftrightarrow> map_of (mb_sent (pv_mailbox p)) key = Some ref \<or> map_of (md_calls (pv_model p)) key = Some ref"

definition mailbox_ok :: "fakeMailbox \<Rightarrow> bool" where
  "mailbox_ok m \<longleftrightarrow> distinct (map fst (mb_sent m)) \<and> mb_seq m = int (length (mb_sent m))"

lemma length_update: "length (AList.update k v al) = (if k \<in> set (map fst al) then length al else Suc (length al))"
  by (induction al) auto

lemma mailbox_sends_once:
  assumes "mailbox_ok m" and "Mailbox_send key channel m = (answer, m')"
  shows "mailbox_ok m' \<and> length (mb_sent m') = (if map_of (mb_sent m) key = None then Suc (length (mb_sent m)) else length (mb_sent m))"
  using assms
  by (auto simp: Mailbox_send_def mailbox_ok_def Let_def length_update distinct_update split: option.splits
      simp flip: map_of_eq_None_iff)

end
