(* ===== verification/LedgerTruth.thy ===== *)
theory LedgerTruth
  imports Ledger Operator Meeting
begin

text \<open>
  The ledger tells the truth: when the providers answer honestly and an operator records only
  what is on the provider's books, every committed row of the effect ledger stands for work that
  the provider has done under that key, under the reference the row carries. Proved once for any
  honest provider, through the executor, the reconciler and the operator's command, and used for
  the demonstration's mailbox and model.
\<close>

section \<open>What a step does to the claims of the ledger\<close>

text \<open>
  What the rows of a ledger claim, as pairs of a key and a reference: a committed row claims that
  the work was done, under its reference if it has one (a provider need not give one), and any
  row with a reference claims that the provider knows it. A move without a reference keeps the
  one the row has.
\<close>

definition claims_of :: "(IdempotencyKey \<times> Effect) list \<Rightarrow> (IdempotencyKey \<times> string) set" where
  "claims_of m = {(k, eff_ExternalRef row) |k row. map_of m k = Some row
     \<and> (eff_Status row = EffectCommitted \<or> eff_ExternalRef row \<noteq> [])}"

definition claims :: "'p sys \<Rightarrow> (IdempotencyKey \<times> string) set" where
  "claims x = claims_of (st_effects (w_st (sys_world x)))"

text \<open>What a move of the row under \<open>k\<close> may add.\<close>

definition moved :: "IdempotencyKey \<Rightarrow> EffectStatus \<Rightarrow> EffectOutcome \<Rightarrow> (IdempotencyKey \<times> string) set" where
  "moved k to out = (if to = EffectCommitted \<or> eo_ExternalRef out \<noteq> [] then {(k, eo_ExternalRef out)} else {})"

lemma moved_nothing [simp]:
  "to \<noteq> EffectCommitted \<Longrightarrow> moved k to no_outcome = {}" "moved k EffectUnknown owner_stopped = {}"
  "to \<noteq> EffectCommitted \<Longrightarrow> moved k to (no_outcome\<lparr>eo_Error := err\<rparr>) = {}"
  by (simp_all add: moved_def no_outcome_def owner_stopped_def)

lemma claims_of_move:
  assumes "map_of m k = Some old"
  shows "claims_of (AList.update k (move_effect now to out old) m) \<subseteq> claims_of m \<union> moved k to out"
proof
  fix c assume "c \<in> claims_of (AList.update k (move_effect now to out old) m)"
  then obtain k' row where c: "c = (k', eff_ExternalRef row)"
    and row: "map_of (AList.update k (move_effect now to out old) m) k' = Some row"
    and claim: "eff_Status row = EffectCommitted \<or> eff_ExternalRef row \<noteq> []"
    by (auto simp: claims_of_def)
  show "c \<in> claims_of m \<union> moved k to out"
  proof (cases "k' = k")
    case False
    with row claim c show ?thesis by (auto simp: claims_of_def update_conv')
  next
    case True
    with row have "row = move_effect now to out old" by simp
    then have st: "eff_Status row = to"
      and ref: "eff_ExternalRef row = (if eo_ExternalRef out \<noteq> [] then eo_ExternalRef out else eff_ExternalRef old)"
      by (simp_all add: move_effect_def)
    show ?thesis
    proof (cases "eo_ExternalRef out = [] \<and> eff_ExternalRef old \<noteq> []")
      case True
      with ref assms c \<open>k' = k\<close> show ?thesis by (auto simp: claims_of_def)
    next
      case False
      with ref st claim c \<open>k' = k\<close> show ?thesis by (auto simp: moved_def split: if_splits)
    qed
  qed
qed

lemma claims_of_insert:
  "map_of m k = None \<Longrightarrow> eff_Status row \<noteq> EffectCommitted \<Longrightarrow> eff_ExternalRef row = []
     \<Longrightarrow> claims_of (AList.update k row m) \<subseteq> claims_of m"
  by (auto simp: claims_of_def update_conv' split: if_splits)

lemma TransitionEffect_claims:
  assumes "TransitionEffect now k frm to out s = (Inr u, s')"
  shows "claims_of (st_effects s') \<subseteq> claims_of (st_effects s) \<union> moved k to out"
proof -
  obtain e where "map_of (st_effects s) k = Some e"
    and "st_effects s' = AList.update k (move_effect now to out e) (st_effects s)"
    using assms by (auto simp: TransitionEffect_ok)
  then show ?thesis using claims_of_move by simp
qed

lemma ReserveEffect_claims:
  "ReserveEffect now e s = (Inr u, s') \<Longrightarrow> eff_Status e \<noteq> EffectCommitted \<Longrightarrow> eff_ExternalRef e = []
     \<Longrightarrow> claims_of (st_effects s') \<subseteq> claims_of (st_effects s)"
  using claims_of_insert [of "st_effects s" "eff_Key e"] by (simp add: ReserveEffect_ok)

lemma effect_tx_claims:
  assumes "effect_tx now rid step eff frm to out ev detail s = (Inr u, s')"
  shows "claims_of (st_effects s') \<subseteq> claims_of (st_effects s) \<union> moved (eff_Key eff) to out"
proof -
  obtain s1 v where "TransitionEffect now (eff_Key eff) frm to out s = (Inr v, s1)" "st_effects s' = st_effects s1"
    using assms(1) by (cases ev) (auto simp: effect_tx_def dest!: Append_effects)
  then show ?thesis using TransitionEffect_claims by fastforce
qed

lemma mark_tx_claims:
  assumes "mark_tx now eff s = (Inr u, s')"
  shows "claims_of (st_effects s') \<subseteq> claims_of (st_effects s)"
proof -
  obtain s1 v where t: "TransitionEffect now (eff_Key eff) EffectRunning EffectUnknown owner_stopped s = (Inr v, s1)"
    and "st_effects s' = st_effects s1"
    using assms by (auto simp: mark_tx_def dest!: Append_effects)
  then show ?thesis using TransitionEffect_claims [OF t] by simp
qed

lemma resolve_tx_claims:
  assumes "resolve_tx now eff target ref detail s = (Inr u, s')"
  shows "claims_of (st_effects s') \<subseteq> claims_of (st_effects s)
    \<union> (if target = EffectCommitted \<or> ref \<noteq> [] then {(eff_Key eff, ref)} else {})"
proof -
  let ?out = "\<lparr>eo_Response = RawNil, eo_ExternalRef = ref, eo_Error = (if target = EffectFailed then detail else [])\<rparr>"
  obtain frm s1 s2 v where first: "claims_of (st_effects s1) \<subseteq> claims_of (st_effects s)"
    and t: "TransitionEffect now (eff_Key eff) frm target ?out s1 = (Inr v, s2)" and s2: "st_effects s' = st_effects s2"
  proof (cases "eff_Status eff = EffectRunning")
    case True
    with assms that show ?thesis
      by (auto simp: resolve_tx_def simp del: TransitionEffect_ok dest!: Append_effects TransitionEffect_claims [where to = EffectUnknown])
  next
    case False
    with assms that [of s] show ?thesis by (auto simp: resolve_tx_def dest!: Append_effects)
  qed
  from first TransitionEffect_claims [OF t] s2 show ?thesis by (auto simp: moved_def split: if_splits)
qed

text \<open>A step adds at most the claim \<open>c\<close> and leaves the outside world alone.\<close>

definition adds :: "(IdempotencyKey \<times> string) set \<Rightarrow> 'p sys \<Rightarrow> 'p sys \<Rightarrow> bool" where
  "adds c x x' \<longleftrightarrow> claims x' \<subseteq> claims x \<union> c \<and> sys_outside x' = sys_outside x"

lemma adds_refl [simp]: "adds {} x x" by (simp add: adds_def)

lemma in_tx_claims:
  assumes "in_tx m (sys_world x) = (r, w)"
    and "\<And>s' u. m (w_st (sys_world x)) = (Inr u, s') \<Longrightarrow> claims_of (st_effects s') \<subseteq> claims x \<union> c"
  shows "adds c x (x\<lparr>sys_world := w\<rparr>)"
proof (cases r)
  case (Inl err)
  then show ?thesis using in_tx_effects_failed [OF assms(1) [unfolded Inl]] by (auto simp: adds_def claims_def)
next
  case (Inr u)
  then have "m (w_st (sys_world x)) = (Inr u, w_st w)" using assms(1) by auto
  from assms(2) [OF this] show ?thesis by (simp add: adds_def claims_def)
qed

lemma transition_adds:
  assumes "transition task eff frm to out ev x = (r, x')"
  shows "adds (moved (eff_Key eff) to out) x x'"
proof -
  from assms(1) obtain w where w: "in_tx (effect_tx (w_now (sys_world x)) (task_RunID task) (task_StepID task) eff frm to out ev [])
      (sys_world x) = (r, w)" "x' = x\<lparr>sys_world := w\<rparr>"
    by (auto simp: transition_def in_world_eq)
  show ?thesis unfolding w(2)
    by (rule in_tx_claims [OF w(1)]) (use effect_tx_claims in \<open>fastforce simp: claims_def\<close>)
qed

lemma escalate_adds: "escalate task eff reason x = (err, x') \<Longrightarrow> adds {} x x'"
proof -
  assume e: "escalate task eff reason x = (err, x')"
  then obtain r w where w: "in_tx (escalate_tx (w_now (sys_world x)) task eff reason) (sys_world x) = (r, w)"
    "x' = x\<lparr>sys_world := w\<rparr>"
    by (auto simp: escalate_def in_world_eq in_world_def split: prod.splits)
  show ?thesis unfolding w(2)
    by (rule in_tx_claims [OF w(1)]) (auto simp: escalate_tx_def claims_def dest!: Append_effects)
qed

lemma reserve_adds:
  assumes "in_world (reserve e task d k) x = (r, x')"
  shows "adds {} x x'"
proof -
  let ?f = "fresh_row (e_newEffectID e (w_effectIDs (sys_world x))) task (td_Class d) k"
  let ?x = "x\<lparr>sys_world := (sys_world x)\<lparr>w_effectIDs := Suc (w_effectIDs (sys_world x))\<rparr>\<rparr>"
  obtain a w where w: "in_tx (reserve_tx (w_now (sys_world x)) task ?f) (sys_world ?x) = (a, w)" by fastforce
  have "adds {} ?x (?x\<lparr>sys_world := w\<rparr>)"
  proof (rule in_tx_claims [OF w])
    fix s' u assume "reserve_tx (w_now (sys_world x)) task ?f (w_st (sys_world ?x)) = (Inr u, s')"
    then obtain s1 v where r: "ReserveEffect (w_now (sys_world x)) ?f (w_st (sys_world ?x)) = (Inr v, s1)"
      and "st_effects s' = st_effects s1"
      by (auto simp: reserve_tx_def dest!: Append_effects)
    then show "claims_of (st_effects s') \<subseteq> claims ?x \<union> {}"
      using ReserveEffect_claims [OF r] by (simp add: claims_def fresh_row_def)
  qed
  moreover have "x' = ?x\<lparr>sys_world := w\<rparr>"
    using assms w by (auto simp: in_world_def reserve_def Let_def split: prod.splits sum.splits if_splits simp del: in_tx_ok)
  ultimately show ?thesis by (simp add: adds_def claims_def)
qed

lemma record_outcome_adds:
  assumes "in_world (record_outcome eff to out detail) x = (r, x')"
  shows "adds (moved (eff_Key eff) to out) x x'"
proof -
  obtain a w where w: "in_tx (effect_tx (w_now (sys_world x)) (eff_RunID eff) [] eff EffectUnknown to out (Some EventEffectReconciled) detail)
      (sys_world x) = (a, w)" by fastforce
  then have x': "x' = x\<lparr>sys_world := w\<rparr>"
    using assms(1) by (auto simp: in_world_def record_outcome_def split: sum.splits if_splits simp del: in_tx_ok)
  show ?thesis unfolding x'
  proof (rule in_tx_claims [OF w])
    fix s' u assume "effect_tx (w_now (sys_world x)) (eff_RunID eff) [] eff EffectUnknown to out (Some EventEffectReconciled) detail
      (w_st (sys_world x)) = (Inr u, s')"
    from effect_tx_claims [OF this]
    show "claims_of (st_effects s') \<subseteq> claims x \<union> moved (eff_Key eff) to out"
      by (simp add: claims_def)
  qed
qed

lemma markUnknown_adds:
  assumes "in_world (markUnknown eff) x = (r, x')"
  shows "adds {} x x'"
proof -
  obtain a w where w: "in_tx (mark_tx (w_now (sys_world x)) eff) (sys_world x) = (a, w)" by fastforce
  then have x': "x' = x\<lparr>sys_world := w\<rparr>"
    using assms(1) by (auto simp: in_world_def markUnknown_def split: sum.splits if_splits simp del: in_tx_ok)
  show ?thesis
    unfolding x' by (rule in_tx_claims [OF w]) (use mark_tx_claims in \<open>fastforce simp: claims_def\<close>)
qed

section \<open>Honest providers\<close>

text \<open>
  \<open>did p k ref\<close> is what a provider in the state \<open>p\<close> has on its books: work under the key \<open>k\<close>, with
  the reference \<open>ref\<close>, which is empty for a provider that gives none. It is honest when it never
  forgets what it has done, when a tool that returns has done its work under the key of the call
  and any reference in its answer is the one on the books, and when a lookup that says COMMITTED
  speaks of work that was done under the key it was asked about.
\<close>

locale honest_provider =
  fixes tools :: "'p Registry" and ok :: "'p \<Rightarrow> bool" and did :: "'p \<Rightarrow> IdempotencyKey \<Rightarrow> string \<Rightarrow> bool"
  assumes handler_keeps: "Lookup tools n = Inr d \<Longrightarrow> ok p \<Longrightarrow> td_Handler d c p = (r, p')
      \<Longrightarrow> ok p' \<and> (did p k ref \<longrightarrow> did p' k ref)"
    and handler_honest: "Lookup tools n = Inr d \<Longrightarrow> EffectClass_HasConsequence (td_Class d) \<Longrightarrow> ok p
      \<Longrightarrow> td_Handler d c p = (Returned result None, p')
      \<Longrightarrow> did p' (call_Key c) (externalRef result)"
    and lookup_keeps: "Lookup tools n = Inr d \<Longrightarrow> td_Reconciler d = Some rec \<Longrightarrow> ok p \<Longrightarrow> rec eff p = (a, p')
      \<Longrightarrow> ok p' \<and> (did p k ref \<longrightarrow> did p' k ref)"
    and lookup_honest: "Lookup tools n = Inr d \<Longrightarrow> td_Reconciler d = Some rec \<Longrightarrow> ok p \<Longrightarrow> rec eff p = (Inr res, p')
      \<Longrightarrow> res_Kind res = ResolvedCommitted \<Longrightarrow> did p' (eff_Key eff) (res_ExternalRef res)"

definition truthful :: "('p \<Rightarrow> bool) \<Rightarrow> ('p \<Rightarrow> IdempotencyKey \<Rightarrow> string \<Rightarrow> bool) \<Rightarrow> 'p sys \<Rightarrow> bool" where
  "truthful ok did x \<longleftrightarrow> ok (sys_outside x) \<and> (\<forall>(k, ref) \<in> claims x. did (sys_outside x) k ref)"

definition keeps_truth :: "('p \<Rightarrow> bool) \<Rightarrow> ('p \<Rightarrow> IdempotencyKey \<Rightarrow> string \<Rightarrow> bool) \<Rightarrow> 'p sys \<Rightarrow> 'p sys \<Rightarrow> bool" where
  "keeps_truth ok did x x' \<longleftrightarrow> (truthful ok did x \<longrightarrow> truthful ok did x')"

lemma truth_refl [simp]: "keeps_truth ok did x x"
  by (simp add: keeps_truth_def)

lemma truth_trans: "keeps_truth ok did x y \<Longrightarrow> keeps_truth ok did y z \<Longrightarrow> keeps_truth ok did x z"
  by (simp add: keeps_truth_def)

lemma truth_adds:
  "adds c x x' \<Longrightarrow> (\<And>k ref. ok (sys_outside x) \<Longrightarrow> (k, ref) \<in> c \<Longrightarrow> did (sys_outside x) k ref) \<Longrightarrow> keeps_truth ok did x x'"
  by (fastforce simp: keeps_truth_def truthful_def adds_def)

lemma truth_none: "adds {} x x' \<Longrightarrow> keeps_truth ok did x x'"
  by (erule truth_adds) simp

lemma truth_from_ok: "(ok (sys_outside x) \<Longrightarrow> keeps_truth ok did x x') \<Longrightarrow> keeps_truth ok did x x'"
  by (auto simp: keeps_truth_def truthful_def)

lemma truth_outside:
  "sys_world x' = sys_world x
     \<Longrightarrow> (\<And>k ref. ok (sys_outside x) \<Longrightarrow> ok (sys_outside x') \<and> (did (sys_outside x) k ref \<longrightarrow> did (sys_outside x') k ref))
     \<Longrightarrow> keeps_truth ok did x x'"
  by (auto simp: keeps_truth_def truthful_def claims_def)

context honest_provider
begin

lemma call_truth: "Lookup tools n = Inr d \<Longrightarrow> call d c x = (r, x') \<Longrightarrow> keeps_truth ok did x x'"
  by (rule truth_outside) (auto simp: call_def split: prod.splits dest: handler_keeps)

lemma perform_truth:
  assumes d: "Lookup tools n = Inr d" "EffectClass_HasConsequence (td_Class d)" and "perform task d eff x = (r, x')"
  shows "keeps_truth ok did x x'"
proof (rule truth_from_ok)
  assume good: "ok (sys_outside x)"
  obtain t x1 where t: "transition task eff (eff_Status eff) EffectRunning no_outcome None x = (t, x1)" by fastforce
  have k1: "keeps_truth ok did x x1" using transition_adds [OF t] by (auto intro: truth_none)
  obtain c x2 where c: "call d (callFor task (eff_Key eff)) x1 = (c, x2)" by fastforce
  have k2: "keeps_truth ok did x1 x2" using d(1) c by (rule call_truth)
  show ?thesis
  proof (cases t)
    case (Inl err)
    then show ?thesis using assms(3) t k1 by (simp add: perform_def)
  next
    case (Inr u)
    show ?thesis
    proof (cases c)
      case (Inl err)
      then have "record_failure task eff err x2 = (r, x')" using assms(3) t Inr c by (simp add: perform_def)
      then have "keeps_truth ok did x2 x'"
        by (auto simp: record_failure_def Let_def ClassifyFailure_def split: prod.splits sum.splits if_splits option.splits
            dest!: transition_adds intro: truth_none)
      with k1 k2 show ?thesis by (blast intro: truth_trans)
    next
      case result: (Inr result)
      then obtain p where h: "td_Handler d (callFor task (eff_Key eff)) (sys_outside x1) = (Returned result None, p)" "sys_outside x2 = p"
        using c by (auto simp: call_def split: prod.splits handler_result.splits option.splits)
      have "ok (sys_outside x1)" using transition_adds [OF t] good by (simp add: adds_def)
      from handler_honest [OF d this h(1)] h(2)
      have vouch: "did (sys_outside x2) (eff_Key eff) (externalRef result)"
        by (simp add: callFor_def)
      obtain t2 x3 where t2: "transition task eff EffectRunning EffectCommitted
          \<lparr>eo_Response = result, eo_ExternalRef = externalRef result, eo_Error = []\<rparr> (Some EventEffectCommitted) x2 = (t2, x3)" by fastforce
      have "keeps_truth ok did x2 x3" by (rule truth_adds [OF transition_adds [OF t2]]) (use vouch in \<open>auto simp: moved_def split: if_splits\<close>)
      moreover have "x' = x3" using assms(3) t Inr c result t2 by (auto simp: perform_def split: sum.splits)
      ultimately show ?thesis using k1 k2 by (blast intro: truth_trans)
    qed
  qed
qed

lemma lookup_truth:
  "Lookup tools n = Inr d \<Longrightarrow> td_Reconciler d = Some rec \<Longrightarrow> rec eff (sys_outside x) = (a, p)
     \<Longrightarrow> keeps_truth ok did x (x\<lparr>sys_outside := p\<rparr>)"
  by (rule truth_outside) (auto dest: lookup_keeps)

lemma query_truth:
  assumes d: "Lookup tools n = Inr d" "EffectClass_HasConsequence (td_Class d)" and q: "query task d eff x = (r, x')"
  shows "keeps_truth ok did x x'"
proof (rule truth_from_ok, cases "td_Reconciler d")
  case None
  then show ?thesis using q by (auto simp: query_def apfst_def map_prod_def split: prod.splits dest!: escalate_adds intro: truth_none)
next
  assume good: "ok (sys_outside x)"
  case (Some rec)
  obtain a p where a: "rec eff (sys_outside x) = (a, p)" by fastforce
  let ?x = "x\<lparr>sys_outside := p\<rparr>"
  have first: "keeps_truth ok did x ?x" using d(1) Some a by (rule lookup_truth)
  have "keeps_truth ok did ?x x'"
  proof (cases a)
    case (Inl err)
    with q Some a show ?thesis by (simp add: query_def)
  next
    case (Inr res)
    show ?thesis
    proof (cases "res_Kind res")
      case ResolvedCommitted
      obtain t y where t: "transition task eff EffectUnknown EffectCommitted
          \<lparr>eo_Response = res_Response res, eo_ExternalRef = res_ExternalRef res, eo_Error = []\<rparr>
          (Some EventEffectReconciled) ?x = (t, y)" by fastforce
      have v: "did p (eff_Key eff) (res_ExternalRef res)"
        using lookup_honest [OF d(1) Some good a [unfolded Inr] ResolvedCommitted] by simp
      have "keeps_truth ok did ?x y" by (rule truth_adds [OF transition_adds [OF t]]) (use v in \<open>auto simp: moved_def split: if_splits\<close>)
      moreover have "x' = y" using q Some a Inr ResolvedCommitted t by (auto simp: query_def split: sum.splits)
      ultimately show ?thesis by simp
    next
      case ResolvedNotExecuted
      with q Some a Inr have "perform task d eff ?x = (r, x')" by (simp add: query_def)
      with d show ?thesis by (rule perform_truth)
    qed (use q Some a Inr in \<open>simp_all add: query_def\<close>)
  qed
  with first show ?thesis by (rule truth_trans)
qed

lemma settle_class_truth:
  assumes "Lookup tools n = Inr d" "EffectClass_HasConsequence (td_Class d)" and "settle_class task d eff x = (r, x')"
  shows "keeps_truth ok did x x'"
  using assms(3)
  by (auto simp: settle_class_def apfst_def map_prod_def split: prod.splits if_splits EffectClass.splits
      dest!: escalate_adds intro: truth_none perform_truth [OF assms(1,2)] query_truth [OF assms(1,2)])

lemma resolve_truth:
  assumes d: "Lookup tools n = Inr d" "EffectClass_HasConsequence (td_Class d)" and r: "resolve task d eff x = (r, x')"
  shows "keeps_truth ok did x x'"
proof (cases "eff_Status eff = EffectRunning")
  case False
  with r show ?thesis by (simp add: resolve_def settle_class_truth [OF d])
next
  case True
  obtain t y where t: "transition task eff EffectRunning EffectUnknown owner_stopped (Some EventEffectUnknown) x = (t, y)" by fastforce
  have "adds {} x y" using transition_adds [OF t] by simp
  then have first: "keeps_truth ok did x y" by (rule truth_none)
  show ?thesis
  proof (cases t)
    case (Inr u)
    with r True t have "settle_class task d (eff\<lparr>eff_Status := EffectUnknown, eff_LastError := eo_Error owner_stopped\<rparr>) y = (r, x')"
      by (simp add: resolve_def)
    then have "keeps_truth ok did y x'" by (rule settle_class_truth [OF d])
    with first show ?thesis by (rule truth_trans)
  qed (use r True t first in \<open>simp add: resolve_def\<close>)
qed

text \<open>The executor.\<close>

lemma Execute_truth:
  assumes "Execute e tools task x = (r, x')"
  shows "keeps_truth ok did x x'"
proof (cases "Lookup tools (task_Type task)")
  case (Inl err)
  with assms show ?thesis by (simp add: Execute_def)
next
  case d: (Inr d)
  show ?thesis
  proof (cases "EffectClass_HasConsequence (td_Class d)")
    case False
    with assms d show ?thesis by (simp add: Execute_def call_truth [OF d])
  next
    case True
    obtain a y where a: "in_world (reserve e task d (effect_key task)) x = (a, y)" by fastforce
    have first: "keeps_truth ok did x y" using reserve_adds [OF a] by (rule truth_none)
    have "keeps_truth ok did y x'"
    proof (cases a)
      case (Inl err)
      with assms a show ?thesis by (simp add: Execute_consequence [OF d True])
    next
      case (Inr eff)
      with assms a show ?thesis
        by (auto simp: Execute_consequence [OF d True] apfst_def map_prod_def split: RecoveryAction.splits prod.splits
            dest!: escalate_adds intro: truth_none perform_truth [OF d True] resolve_truth [OF d True])
    qed
    with first show ?thesis by (rule truth_trans)
  qed
qed

text \<open>The reconciler.\<close>

lemma settle_unknown_truth:
  assumes d: "Lookup tools n = Inr d" and s: "settle_unknown d eff now x = (r, x')"
  shows "keeps_truth ok did x x'"
proof (rule truth_from_ok, cases "KeyExpired d eff now \<or> td_Reconciler d = None")
  case True
  with s show ?thesis by (auto simp: settle_unknown_def split: if_splits)
next
  assume good: "ok (sys_outside x)"
  case False
  then obtain rec where rec: "td_Reconciler d = Some rec" "\<not> KeyExpired d eff now" by auto
  obtain a p where a: "rec eff (sys_outside x) = (a, p)" by fastforce
  let ?x = "x\<lparr>sys_outside := p\<rparr>"
  have first: "keeps_truth ok did x ?x" using d rec(1) a by (rule lookup_truth)
  have "keeps_truth ok did ?x x'"
  proof (cases a)
    case (Inl err)
    with s rec a show ?thesis by (simp add: settle_unknown_def)
  next
    case (Inr res)
    show ?thesis
    proof (cases "res_Kind res")
      case ResolvedCommitted
      obtain t y where t: "in_world (record_outcome eff EffectCommitted
          \<lparr>eo_Response = res_Response res, eo_ExternalRef = res_ExternalRef res, eo_Error = []\<rparr> (res_Detail res)) ?x = (t, y)" by fastforce
      have v: "did p (eff_Key eff) (res_ExternalRef res)"
        using lookup_honest [OF d rec(1) good a [unfolded Inr] ResolvedCommitted] by simp
      have "keeps_truth ok did ?x y" by (rule truth_adds [OF record_outcome_adds [OF t]]) (use v in \<open>auto simp: moved_def split: if_splits\<close>)
      moreover have "x' = y" using s rec a Inr ResolvedCommitted t by (simp add: settle_unknown_def)
      ultimately show ?thesis by simp
    next
      case ResolvedNotExecuted
      obtain t y where t: "in_world (record_outcome eff EffectFailed
          (no_outcome\<lparr>eo_Error := ''reconciled: the provider confirms this never happened''\<rparr>) (res_Detail res)) ?x = (t, y)" by fastforce
      have "adds {} ?x y" using record_outcome_adds [OF t] by simp
      moreover have "x' = y" using s rec a Inr ResolvedNotExecuted t by (simp add: settle_unknown_def)
      ultimately show ?thesis by (simp add: truth_none)
    qed (use s rec a Inr in \<open>simp_all add: settle_unknown_def\<close>)
  qed
  with first show ?thesis by (rule truth_trans)
qed

lemma settle_truth: "settle tools eff now x = (r, x') \<Longrightarrow> keeps_truth ok did x x'"
  by (auto simp: settle_def split: sum.splits if_splits prod.splits option.splits
      dest!: settle_unknown_truth markUnknown_adds [THEN truth_none] intro: truth_trans)

lemma settle_loop_truth: "settle_loop tools now n es x = (r, x') \<Longrightarrow> keeps_truth ok did x x'"
  by (induction es arbitrary: n x)
    (auto split: prod.splits option.splits if_splits dest!: settle_truth intro: truth_trans)

lemma ReconcileOnce_truth: "ReconcileOnce rc tools x = (r, x') \<Longrightarrow> keeps_truth ok did x x'"
  by (auto simp: ReconcileOnce_def Let_def dest!: settle_loop_truth)

end

section \<open>Any number of steps\<close>

text \<open>
  Executions, reconciliations and resolutions by an operator in any order; in between the rest of
  the system does what it likes to the other tables. What an operator who is honest records with
  \<open>--committed\<close> or \<open>--ref\<close> is on the provider's books under the key of the row.
\<close>

definition honest_resolution ::
    "('p \<Rightarrow> IdempotencyKey \<Rightarrow> string \<Rightarrow> bool) \<Rightarrow> resolve_flags \<Rightarrow> string list \<Rightarrow> 'p sys \<Rightarrow> bool" where
  "honest_resolution did f args y \<longleftrightarrow> (\<forall>key row. args = [key] \<longrightarrow> ledger y key = Some row
     \<longrightarrow> rf_committed f \<or> rf_ref f \<noteq> [] \<longrightarrow> did (sys_outside y) (eff_Key row) (rf_ref f))"

inductive ledger_steps :: "'p Registry \<Rightarrow> ('p \<Rightarrow> IdempotencyKey \<Rightarrow> string \<Rightarrow> bool) \<Rightarrow> 'p sys \<Rightarrow> 'p sys \<Rightarrow> bool"
  for tools did where
  start: "ledger_steps tools did x x"
| execute: "ledger_steps tools did x y \<Longrightarrow> Execute e tools task y = (r, z) \<Longrightarrow> ledger_steps tools did x z"
| reconcile: "ledger_steps tools did x y \<Longrightarrow> ReconcileOnce rc tools y = (r, z) \<Longrightarrow> ledger_steps tools did x z"
| operator: "ledger_steps tools did x y \<Longrightarrow> honest_resolution did f args y
    \<Longrightarrow> cmdEffectsResolve opened f args (sys_world y) = (r, w) \<Longrightarrow> ledger_steps tools did x (y\<lparr>sys_world := w\<rparr>)"
| elsewhere: "ledger_steps tools did x y \<Longrightarrow> st_effects (w_st (sys_world z)) = st_effects (w_st (sys_world y))
    \<Longrightarrow> sys_outside z = sys_outside y \<Longrightarrow> ledger_steps tools did x z"

context honest_provider
begin

lemma operator_truth:
  assumes honest: "honest_resolution did f args y" and c: "cmdEffectsResolve opened f args (sys_world y) = (r, w)"
  shows "keeps_truth ok did y (y\<lparr>sys_world := w\<rparr>)"
proof (cases "\<exists>key row a. args = [key] \<and> ledger y key = Some row
    \<and> in_tx (resolve_tx (w_now (sys_world y)) row (if rf_committed f then EffectCommitted else EffectFailed)
        (rf_ref f) (resolve_detail f)) (sys_world y) = (a, w)")
  case False
  then have "w = sys_world y"
    using c by (auto simp: cmdEffectsResolve_def Store_GetEffect_def ledger_def Let_def
        split: list.splits if_splits option.splits prod.splits sum.splits simp del: in_tx_ok)
  then show ?thesis by simp
next
  case True
  then obtain key row a where k: "args = [key]" "ledger y key = Some row"
    and tx: "in_tx (resolve_tx (w_now (sys_world y)) row (if rf_committed f then EffectCommitted else EffectFailed)
        (rf_ref f) (resolve_detail f)) (sys_world y) = (a, w)" by blast
  let ?c = "if rf_committed f \<or> rf_ref f \<noteq> [] then {(eff_Key row, rf_ref f)} else {}"
  have "adds ?c y (y\<lparr>sys_world := w\<rparr>)"
  proof (rule in_tx_claims [OF tx])
    fix s' u assume "resolve_tx (w_now (sys_world y)) row (if rf_committed f then EffectCommitted else EffectFailed)
        (rf_ref f) (resolve_detail f) (w_st (sys_world y)) = (Inr u, s')"
    from resolve_tx_claims [OF this] show "claims_of (st_effects s') \<subseteq> claims y \<union> ?c"
      by (auto simp: claims_def split: if_splits)
  qed
  then show ?thesis
    by (rule truth_adds) (use honest k in \<open>auto simp: honest_resolution_def split: if_splits\<close>)
qed

lemma ledger_steps_truth: "ledger_steps tools did x x' \<Longrightarrow> truthful ok did x \<Longrightarrow> truthful ok did x'"
proof (induction rule: ledger_steps.induct)
  case (execute x y e task r z)
  then show ?case using Execute_truth by (simp add: keeps_truth_def)
next
  case (reconcile x y rc r z)
  then show ?case using ReconcileOnce_truth by (simp add: keeps_truth_def)
next
  case (operator x y f args opened r w)
  then show ?case using operator_truth by (simp add: keeps_truth_def)
qed (simp_all add: truthful_def claims_def)

lemma committed_rows_vouched:
  assumes "ledger_steps tools did x x'" and "truthful ok did x"
    and "ledger x' k = Some row" and "eff_Status row = EffectCommitted"
  shows "did (sys_outside x') k (eff_ExternalRef row)"
  using ledger_steps_truth [OF assms(1,2)] assms(3,4)
  by (auto simp: truthful_def claims_def claims_of_def ledger_def)

end

section \<open>The demonstration's providers are honest\<close>

lemma meeting_tools_are: "meeting_tools =
     [(''fetch_meeting'', \<lparr>td_Name = ''fetch_meeting'', td_Class = ClassNone, td_Handler = fetch_meeting,
         td_Reconciler = None, td_KeyTTL = 0\<rparr>),
      (''summarize'', \<lparr>td_Name = ''summarize'', td_Class = ClassIdempotentByKey, td_Handler = summarize,
         td_Reconciler = None, td_KeyTTL = day\<rparr>),
      (''send_summary'', \<lparr>td_Name = ''send_summary'', td_Class = ClassQueryable, td_Handler = send_summary,
         td_Reconciler = Some ask_mailbox, td_KeyTTL = day\<rparr>)]"
  by (simp add: meeting_tools_def NewTools_registers)

lemma meeting_lookup:
  assumes "Lookup meeting_tools n = Inr d"
  obtains "td_Class d = ClassNone" "td_Handler d = fetch_meeting" "td_Reconciler d = None"
  | "td_Handler d = summarize" "td_Reconciler d = None"
  | "td_Handler d = send_summary" "td_Reconciler d = Some ask_mailbox"
  using assms by (auto simp: Lookup_def meeting_tools_are split: if_splits)

text \<open>The invariant of the providers, and what they vouch for.\<close>

definition providers_ok :: "providers \<Rightarrow> bool" where
  "providers_ok p \<longleftrightarrow> mailbox_ok (pv_mailbox p) \<and> (\<forall>k ref. vouches p k ref \<longrightarrow> ref \<noteq> [])"

lemma Mailbox_send_honest:
  assumes "Mailbox_send key channel m = (answer, m')"
  shows "\<exists>ref. answer = send_answer channel ref \<and> map_of (mb_sent m') = (map_of (mb_sent m))(key \<mapsto> ref)
    \<and> (map_of (mb_sent m) key = Some ref \<or> map_of (mb_sent m) key = None \<and> ref \<noteq> [])"
  using assms by (auto simp: Mailbox_send_def Let_def update_conv' split: option.splits)

lemma Model_complete_honest:
  assumes "Model_complete key m = (answer, m')"
  shows "\<exists>ref already. answer = RawJSON (JObj [(''reference'', JStr ref), (''replayed'', JBool already),
      (''summary'', JStr ''Layer 3 ships. Benchmarks next.'')]) \<and> map_of (md_calls m') = (map_of (md_calls m))(key \<mapsto> ref)
    \<and> (map_of (md_calls m) key = Some ref \<or> map_of (md_calls m) key = None \<and> ref \<noteq> [])"
  using assms by (auto simp: Model_complete_def Let_def update_conv' split: option.splits)

lemma externalRef_answers:
  "externalRef (send_answer channel ref) = ref"
  "externalRef (RawJSON (JObj [(''reference'', JStr ref), (''replayed'', JBool already), (''summary'', JStr m)])) = ref"
  by (simp_all add: send_answer_def externalRef_def struct_of_def jget_def)

lemma send_summary_honest:
  assumes ok: "providers_ok p" and s: "send_summary c p = (r, p')"
  shows "providers_ok p' \<and> (vouches p k ref \<longrightarrow> vouches p' k ref)
    \<and> (\<forall>result. r = Returned result None \<longrightarrow> externalRef result \<noteq> [] \<and> vouches p' (call_Key c) (externalRef result))"
proof (cases "payload_field ''send_summary'' ''channel'' (call_Payload c)")
  case (Inl err)
  with ok s show ?thesis by (auto simp: send_summary_def)
next
  case (Inr channel)
  obtain answer m where m: "Mailbox_send (call_Key c) channel (pv_mailbox p) = (answer, m)" by fastforce
  with s Inr have p': "p' = p\<lparr>pv_mailbox := m\<rparr>" "r = Returned answer None" by (simp_all add: send_summary_def)
  have mok: "mailbox_ok m" using ok m mailbox_sends_once by (auto simp: providers_ok_def)
  from Mailbox_send_honest [OF m] obtain new where new: "answer = send_answer channel new"
    "map_of (mb_sent m) = (map_of (mb_sent (pv_mailbox p)))(call_Key c \<mapsto> new)"
    "map_of (mb_sent (pv_mailbox p)) (call_Key c) = Some new \<or> map_of (mb_sent (pv_mailbox p)) (call_Key c) = None \<and> new \<noteq> []"
    by blast
  have "new \<noteq> []" using new(3) ok by (auto simp: providers_ok_def vouches_def)
  with ok mok new p' show ?thesis
    by (auto simp: providers_ok_def vouches_def externalRef_answers)
qed

lemma summarize_honest:
  assumes ok: "providers_ok p" and s: "summarize c p = (r, p')"
  shows "providers_ok p' \<and> (vouches p k ref \<longrightarrow> vouches p' k ref)
    \<and> (\<forall>result. r = Returned result None \<longrightarrow> externalRef result \<noteq> [] \<and> vouches p' (call_Key c) (externalRef result))"
proof -
  obtain answer m where m: "Model_complete (call_Key c) (pv_model p) = (answer, m)" by fastforce
  with s have p': "p' = p\<lparr>pv_model := m\<rparr>" "r = Returned answer None" by (simp_all add: summarize_def)
  from Model_complete_honest [OF m] obtain new already where new:
    "answer = RawJSON (JObj [(''reference'', JStr new), (''replayed'', JBool already),
      (''summary'', JStr ''Layer 3 ships. Benchmarks next.'')])"
    "map_of (md_calls m) = (map_of (md_calls (pv_model p)))(call_Key c \<mapsto> new)"
    "map_of (md_calls (pv_model p)) (call_Key c) = Some new \<or> map_of (md_calls (pv_model p)) (call_Key c) = None \<and> new \<noteq> []"
    by blast
  have "new \<noteq> []" using new(3) ok by (auto simp: providers_ok_def vouches_def)
  with ok new p' show ?thesis
    by (auto simp: providers_ok_def vouches_def externalRef_answers)
qed

lemma fetch_meeting_quiet: "fetch_meeting c p = (r, p') \<Longrightarrow> p' = p"
  by (auto simp: fetch_meeting_def split: sum.splits)

lemma ask_mailbox_quiet: "ask_mailbox e p = (a, p') \<Longrightarrow> p' = p"
  by (simp add: ask_mailbox_def)

lemma ask_mailbox_honest:
  "providers_ok p \<Longrightarrow> ask_mailbox e p = (Inr res, p') \<Longrightarrow> res_Kind res = ResolvedCommitted
     \<Longrightarrow> res_ExternalRef res \<noteq> [] \<and> vouches p' (eff_Key e) (res_ExternalRef res)"
  by (auto simp: ask_mailbox_def Mailbox_lookup_def providers_ok_def vouches_def split: option.splits)

lemma handlers_honest:
  assumes "Lookup meeting_tools n = Inr d" and ok: "providers_ok p" and h: "td_Handler d c p = (r, p')"
  shows "providers_ok p' \<and> (vouches p k ref \<longrightarrow> vouches p' k ref)
    \<and> (EffectClass_HasConsequence (td_Class d) \<longrightarrow> (\<forall>result. r = Returned result None
         \<longrightarrow> externalRef result \<noteq> [] \<and> vouches p' (call_Key c) (externalRef result)))"
  using assms(1)
proof (cases rule: meeting_lookup)
  case 1
  then have "p' = p" using h by (simp add: fetch_meeting_quiet)
  with 1 ok show ?thesis by (simp add: EffectClass_HasConsequence_def)
next
  case 2
  with h have "summarize c p = (r, p')" by simp
  with ok show ?thesis using summarize_honest by blast
next
  case 3
  with h have "send_summary c p = (r, p')" by simp
  with ok show ?thesis using send_summary_honest by blast
qed

lemma lookups_honest:
  assumes "Lookup meeting_tools n = Inr d" and rec: "td_Reconciler d = Some rec"
  shows "rec = ask_mailbox"
  using assms(1) by (cases rule: meeting_lookup) (use rec in simp_all)

interpretation demo: honest_provider meeting_tools providers_ok vouches
proof unfold_locales
  fix n d p c r p' k ref
  assume "Lookup meeting_tools n = Inr d" "providers_ok p" "td_Handler d c p = (r, p')"
  then show "providers_ok p' \<and> (vouches p k ref \<longrightarrow> vouches p' k ref)" using handlers_honest by blast
next
  fix n d p c result p'
  assume "Lookup meeting_tools n = Inr d" "EffectClass_HasConsequence (td_Class d)" "providers_ok p"
    "td_Handler d c p = (Returned result None, p')"
  then show "vouches p' (call_Key c) (externalRef result)" using handlers_honest by blast
next
  fix n d rec p eff a p' k ref
  assume "Lookup meeting_tools n = Inr d" "td_Reconciler d = Some rec" "providers_ok p" "rec eff p = (a, p')"
  then show "providers_ok p' \<and> (vouches p k ref \<longrightarrow> vouches p' k ref)"
    using lookups_honest ask_mailbox_quiet by blast
next
  fix n d rec p eff res p'
  assume "Lookup meeting_tools n = Inr d" "td_Reconciler d = Some rec" "providers_ok p" "rec eff p = (Inr res, p')"
    "res_Kind res = ResolvedCommitted"
  then show "vouches p' (eff_Key eff) (res_ExternalRef res)"
    using lookups_honest ask_mailbox_honest by blast
qed

lemma providers_start: "providers_ok (snd NewTools)"
  by (simp add: NewTools_def providers_ok_def mailbox_ok_def vouches_def newFakeMailbox_def newFakeModel_def)

end
