(* ===== verification/Settling.thy ===== *)
theory Settling
  imports OperatorLaws LedgerTruth
begin

text \<open>
  What recovery achieves: the conditions under which the executor's transactions on the ledger do
  commit, and the outcome that was lost in a crash but is on the provider's books: it is recorded
  and answered, and the tool is not called again.
\<close>

section \<open>The ledger's transactions go through\<close>

text \<open>An answer that is absent or a document, which is what an event can carry.\<close>

definition documented :: "raw \<Rightarrow> bool" where
  "documented r \<longleftrightarrow> r = RawNil \<or> (\<exists>j. r = RawJSON j)"

lemma marshals_effect [simp]: "documented (eff_Response e) \<Longrightarrow> marshals (effectData e detail)"
  by (auto simp: documented_def marshals_def marshal_data_def effectData_def struct_def field_defs raw_empty_def)

lemma effect_tx_total:
  assumes row: "map_of (st_effects s) (eff_Key eff) = Some row" "eff_Status row = frm" "EffectStatus_CanTransitionTo frm to"
    and r: "room s rid (Suc n)" and d: "documented (eo_Response out)"
  shows "\<exists>m. effect_tx now rid step eff frm to out (Some ev) detail s =
      (Inr (), s\<lparr>st_effects := AList.update (eff_Key eff) (move_effect now to out row) (st_effects s), st_events := m\<rparr>)
    \<and> room (s\<lparr>st_events := m\<rparr>) rid n"
proof -
  let ?s1 = "s\<lparr>st_effects := AList.update (eff_Key eff) (move_effect now to out row) (st_effects s)\<rparr>"
  let ?data = "effectData (eff\<lparr>eff_Status := to, eff_Response := eo_Response out, eff_ExternalRef := eo_ExternalRef out,
    eff_LastError := eo_Error out\<rparr>) detail"
  have "TransitionEffect now (eff_Key eff) frm to out s = (Inr (), ?s1)"
    using row by (simp add: TransitionEffect_ok)
  moreover obtain m where "Append now rid ev step ?data ?s1 = (Inr (), ?s1\<lparr>st_events := m\<rparr>)"
    "room (?s1\<lparr>st_events := m\<rparr>) rid n"
    using Append_total [of ?s1 rid n ?data, OF _ marshals_effect] r d by (simp only: room_cong) fastforce
  moreover have "?s1\<lparr>st_events := m\<rparr> = (s\<lparr>st_events := m\<rparr>)\<lparr>st_effects := AList.update (eff_Key eff) (move_effect now to out row) (st_effects s)\<rparr>" for m
    by simp
  ultimately show ?thesis by (intro exI [of _ m]) (simp add: effect_tx_def)
qed

lemma transition_total:
  assumes row: "ledger x (eff_Key eff) = Some row" "eff_Status row = frm" "EffectStatus_CanTransitionTo frm to"
    and r: "room (w_st (sys_world x)) (task_RunID task) (Suc n)" and d: "documented (eo_Response out)"
  shows "\<exists>y. transition task eff frm to out (Some ev) x = (Inr (), y)
    \<and> ledger y (eff_Key eff) = Some (move_effect (w_now (sys_world x)) to out row)
    \<and> room (w_st (sys_world y)) (task_RunID task) n \<and> w_now (sys_world y) = w_now (sys_world x)
    \<and> sys_calls y = sys_calls x \<and> sys_outside y = sys_outside x"
proof -
  let ?s = "w_st (sys_world x)" and ?now = "w_now (sys_world x)"
  obtain m where m: "effect_tx ?now (task_RunID task) (task_StepID task) eff frm to out (Some ev) [] ?s =
      (Inr (), ?s\<lparr>st_effects := AList.update (eff_Key eff) (move_effect ?now to out row) (st_effects ?s), st_events := m\<rparr>)"
    "room (?s\<lparr>st_events := m\<rparr>) (task_RunID task) n"
    using effect_tx_total [OF row [unfolded ledger_def] r d] by blast
  let ?s' = "?s\<lparr>st_effects := AList.update (eff_Key eff) (move_effect ?now to out row) (st_effects ?s), st_events := m\<rparr>"
  have "room ?s' (task_RunID task) n"
  proof -
    have "?s' = (?s\<lparr>st_events := m\<rparr>)\<lparr>st_effects := AList.update (eff_Key eff) (move_effect ?now to out row) (st_effects ?s)\<rparr>" by simp
    then show ?thesis using m(2) by (metis room_cong(3))
  qed
  moreover have "transition task eff frm to out (Some ev) x = (Inr (), x\<lparr>sys_world := (sys_world x)\<lparr>w_st := ?s'\<rparr>\<rparr>)"
    using m(1) by (simp add: transition_def in_world_def in_tx_def RunInTx_def)
  ultimately show ?thesis by (simp add: ledger_def)
qed

section \<open>An outcome that was lost is settled from the provider's books\<close>

lemma query_commits:
  assumes rec: "td_Reconciler d = Some rec" "rec eff (sys_outside x) = (Inr res, p)" "res_Kind res = ResolvedCommitted"
    and row: "ledger x (eff_Key eff) = Some row" "eff_Status row = EffectUnknown"
    and r: "room (w_st (sys_world x)) (task_RunID task) 1" and doc: "documented (res_Response res)"
  shows "\<exists>x' now. query task d eff x = (Inr (res_Response res), x') \<and> sys_calls x' = sys_calls x \<and> sys_outside x' = p
    \<and> ledger x' (eff_Key eff) = Some (move_effect now EffectCommitted
        \<lparr>eo_Response = res_Response res, eo_ExternalRef = res_ExternalRef res, eo_Error = []\<rparr> row)"
proof -
  let ?x = "x\<lparr>sys_outside := p\<rparr>" and ?out = "\<lparr>eo_Response = res_Response res, eo_ExternalRef = res_ExternalRef res, eo_Error = []\<rparr>"
  have "ledger ?x (eff_Key eff) = Some row" using row(1) by (simp add: ledger_def)
  from transition_total [OF this row(2), of EffectCommitted task 0 ?out EventEffectReconciled] r doc
  obtain y where "transition task eff EffectUnknown EffectCommitted ?out (Some EventEffectReconciled) ?x = (Inr (), y)"
    "ledger y (eff_Key eff) = Some (move_effect (w_now (sys_world x)) EffectCommitted ?out row)"
    "sys_calls y = sys_calls x" "sys_outside y = p"
    by (auto simp: EffectStatus_CanTransitionTo_def)
  then show ?thesis using rec by (auto simp: query_def)
qed

lemma settle_class_commits:
  assumes "td_Class d = ClassQueryable" "\<not> KeyExpired d eff (w_now (sys_world x))"
    and "td_Reconciler d = Some rec" "rec eff (sys_outside x) = (Inr res, p)" "res_Kind res = ResolvedCommitted"
    and "ledger x (eff_Key eff) = Some row" "eff_Status row = EffectUnknown"
    and "room (w_st (sys_world x)) (task_RunID task) 1" "documented (res_Response res)"
  shows "\<exists>x' now. settle_class task d eff x = (Inr (res_Response res), x') \<and> sys_calls x' = sys_calls x \<and> sys_outside x' = p
    \<and> ledger x' (eff_Key eff) = Some (move_effect now EffectCommitted
        \<lparr>eo_Response = res_Response res, eo_ExternalRef = res_ExternalRef res, eo_Error = []\<rparr> row)"
  using query_commits [OF assms(3-9)] assms(1,2) by (simp add: settle_class_def)

text \<open>The row after it was settled with the answer \<open>res\<close>.\<close>

definition settled_by :: "Resolution \<Rightarrow> Effect \<Rightarrow> Effect \<Rightarrow> bool" where
  "settled_by res row row' \<longleftrightarrow> eff_Status row' = EffectCommitted \<and> eff_Key row' = eff_Key row
     \<and> eff_Response row' = (if res_Response res = RawNil then eff_Response row else res_Response res)
     \<and> eff_ExternalRef row' = (if res_ExternalRef res = [] then eff_ExternalRef row else res_ExternalRef res)"

lemma move_settles:
  "eff_Key row1 = eff_Key row \<Longrightarrow> eff_Response row1 = eff_Response row \<Longrightarrow> eff_ExternalRef row1 = eff_ExternalRef row
     \<Longrightarrow> settled_by res row (move_effect now EffectCommitted
        \<lparr>eo_Response = res_Response res, eo_ExternalRef = res_ExternalRef res, eo_Error = []\<rparr> row1)"
  by (simp add: settled_by_def move_effect_def)

lemma lost_outcome:
  assumes h: "hosted tools task d x" and l: "ledger x (effect_key task) = Some row" and key: "eff_Key row = effect_key task"
    and st: "eff_Status row = EffectRunning \<or> eff_Status row = EffectUnknown"
    and d: "td_Class d = ClassQueryable" "td_Reconciler d = Some rec" "\<not> KeyExpired d row (w_now (sys_world x))"
    and ans: "\<And>asked. eff_Key asked = effect_key task \<Longrightarrow> rec asked (sys_outside x) = (Inr res, p)"
    and res: "res_Kind res = ResolvedCommitted" "documented (res_Response res)"
    and r: "room (w_st (sys_world x)) (task_RunID task) 2"
  shows "\<exists>x' row'. Execute e tools task x = (Inr (res_Response res), x') \<and> sys_calls x' = sys_calls x \<and> sys_outside x' = p
    \<and> ledger x' (effect_key task) = Some row' \<and> settled_by res row row'"
proof -
  let ?x = "drew_effect_id x"
  have "RecoveryFor True (eff_Status row) (td_Class d) = RecoverReconcile"
    using d(1) st by (auto simp: RecoveryFor_def EffectClass_CanAutoResolve_def)
  then have E: "Execute e tools task x = resolve task d row ?x" by (simp add: Execute_existing [OF h l])
  have lx: "ledger ?x (eff_Key row) = Some row" using l key by simp
  have same: "sys_outside ?x = sys_outside x" "w_now (sys_world ?x) = w_now (sys_world x)"
    "w_st (sys_world ?x) = w_st (sys_world x)" by (simp_all add: drew_effect_id_def)
  show ?thesis
  proof (cases "eff_Status row = EffectRunning")
    case False
    with st have unk: "eff_Status row = EffectUnknown" by simp
    have "room (w_st (sys_world ?x)) (task_RunID task) 1" using r same room_less by fastforce
    from settle_class_commits [OF d(1) _ d(2) _ res(1) lx unk this res(2), of p] d(3) ans [OF key] same
    obtain x' now where "settle_class task d row ?x = (Inr (res_Response res), x')" "sys_calls x' = sys_calls x" "sys_outside x' = p"
      "ledger x' (eff_Key row) = Some (move_effect now EffectCommitted
        \<lparr>eo_Response = res_Response res, eo_ExternalRef = res_ExternalRef res, eo_Error = []\<rparr> row)" by auto
    then show ?thesis using E False key move_settles [of row row res now] by (auto simp: resolve_def)
  next
    case True
    let ?r = "row\<lparr>eff_Status := EffectUnknown, eff_LastError := eo_Error owner_stopped\<rparr>"
    have "documented (eo_Response owner_stopped)" by (simp add: documented_def owner_stopped_def no_outcome_def)
    from transition_total [OF lx True, of EffectUnknown task 1 owner_stopped EventEffectUnknown, OF _ _ this] r same
    obtain y where t: "transition task row EffectRunning EffectUnknown owner_stopped (Some EventEffectUnknown) ?x = (Inr (), y)"
      and y: "ledger y (eff_Key ?r) = Some (move_effect (w_now (sys_world x)) EffectUnknown owner_stopped row)"
        "room (w_st (sys_world y)) (task_RunID task) 1" "w_now (sys_world y) = w_now (sys_world x)"
        "sys_calls y = sys_calls x" "sys_outside y = sys_outside x"
      by (auto simp: EffectStatus_CanTransitionTo_def numeral_2_eq_2)
    have exp: "\<not> KeyExpired d ?r (w_now (sys_world y))" using d(3) y(3) by (auto simp: KeyExpired_def split: if_splits)
    have answer: "rec ?r (sys_outside y) = (Inr res, p)" using ans key y(5) by simp
    have unk: "eff_Status (move_effect (w_now (sys_world x)) EffectUnknown owner_stopped row) = EffectUnknown"
      by (simp add: move_effect_def)
    from settle_class_commits [OF d(1) exp d(2) answer res(1) y(1) unk y(2) res(2)]
    obtain x' now where "settle_class task d ?r y = (Inr (res_Response res), x')" "sys_calls x' = sys_calls y" "sys_outside x' = p"
      "ledger x' (eff_Key ?r) = Some (move_effect now EffectCommitted
        \<lparr>eo_Response = res_Response res, eo_ExternalRef = res_ExternalRef res, eo_Error = []\<rparr>
        (move_effect (w_now (sys_world x)) EffectUnknown owner_stopped row))" by blast
    moreover have "eff_Key (move_effect (w_now (sys_world x)) EffectUnknown owner_stopped row) = eff_Key row"
      by (simp add: move_effect_def)
    ultimately show ?thesis
      using E True t y(4) key move_settles [of "move_effect (w_now (sys_world x)) EffectUnknown owner_stopped row" row res now]
      by (auto simp: resolve_def)
  qed
qed

end
