(* ===== verification/Loops.thy ===== *)
theory Loops
  imports Worker
begin

text \<open>
  The loops that run the components until their context ends: Run of engine/runtime.go,
  lease/reaper.go, outbox/relay.go, effects/reconciler.go and worker/worker.go, and the wait of
  the demonstration in cmd/veya-runtime/main.go. A loop is a function of the rounds it goes
  through; what the rest of the system does before a round, the passing of time included, is part
  of the round.
\<close>

section \<open>Rounds\<close>

text \<open>
  One select of a loop: the timer (or the wake slot) fires after the rest of the system has acted,
  or the context is done. When both are ready either may be taken, so both are allowed.
\<close>

datatype 'x round = Fired "'x \<Rightarrow> 'x" | Ended go_error

text \<open>
  The rounds of a loop around \<open>sweep\<close>; the error is the one the loop returns, \<open>None\<close> while it
  still runs. A sweep that never returns makes the whole \<open>None\<close>.
\<close>

fun ticks :: "('x \<Rightarrow> 'x option) \<Rightarrow> 'x round list \<Rightarrow> 'x \<Rightarrow> (go_error option \<times> 'x) option" where
  "ticks sweep [] x = Some (None, x)"
| "ticks sweep (Ended err # rs) x = Some (Some err, x)"
| "ticks sweep (Fired gap # rs) x = (case sweep (gap x) of None \<Rightarrow> None | Some x \<Rightarrow> ticks sweep rs x)"

section \<open>The recovery loop (engine/runtime.go)\<close>

text \<open>Beside the error, the delays the timer has been set to.\<close>

fun scan_ticks :: "engine \<Rightarrow> Runtime \<Rightarrow> world round list \<Rightarrow> world \<Rightarrow> ((go_error option \<times> duration list) \<times> world) option" where
  "scan_ticks e r [] w = Some ((None, []), w)"
| "scan_ticks e r (Ended err # rs) w = Some ((Some err, []), w)"
| "scan_ticks e r (Fired gap # rs) w =
     (case ScanOnce e r (gap w) of
        None \<Rightarrow> None
      | Some w \<Rightarrow> map_option (apfst (apsnd (\<lambda>ds. nextDelay r w # ds))) (scan_ticks e r rs w))"

definition Runtime_Run :: "engine \<Rightarrow> Runtime \<Rightarrow> world round list \<Rightarrow> world
    \<Rightarrow> ((go_error option \<times> duration list) \<times> world) option" where
  "Runtime_Run e r rs w = scan_ticks e r (Fired id # rs) w"

section \<open>The reaper, the relay and the reconciler\<close>

text \<open>Their sweeps log what went wrong and go on.\<close>

definition Reaper_sweep :: "Reaper \<times> world \<Rightarrow> Reaper \<times> world" where
  "Reaper_sweep x = snd (ReapOnce (fst x) (snd x))"

definition Reaper_Run :: "Reaper \<Rightarrow> (Reaper \<times> world) round list \<Rightarrow> world \<Rightarrow> (go_error option \<times> (Reaper \<times> world)) option" where
  "Reaper_Run r rs w =
     (case ensureRegistered r w of
        (Some err, x) \<Rightarrow> Some (Some err, x)
      | (None, x) \<Rightarrow> ticks (\<lambda>x. Some (Reaper_sweep x)) rs (Reaper_sweep x))"

definition Relay_sweep :: "engine \<Rightarrow> Relay \<Rightarrow> world \<Rightarrow> world" where
  "Relay_sweep e r w = snd (RelayOnce e r w)"

definition Relay_Run :: "engine \<Rightarrow> Relay \<Rightarrow> world round list \<Rightarrow> world \<Rightarrow> (go_error option \<times> world) option" where
  "Relay_Run e r rs w = ticks (\<lambda>w. Some (Relay_sweep e r w)) rs (Relay_sweep e r w)"

definition Reconciler_Run :: "Reconciler \<Rightarrow> 'p Registry \<Rightarrow> 'p sys round list \<Rightarrow> 'p sys \<Rightarrow> (go_error option \<times> 'p sys) option" where
  "Reconciler_Run r tools rs x = ticks (\<lambda>x. Some (snd (ReconcileOnce r tools x))) rs x"

section \<open>The worker loop (worker/worker.go)\<close>

text \<open>
  One round of a worker: what the rest of the system does while it waits, how \<open>Claim\<close> of the
  dispatcher ends, and what goes on between the beats before and after the tool is called.
\<close>

record 'p claim_round =
  cr_gap :: "'p sys \<Rightarrow> 'p sys"
  cr_claim :: "go_error + TaskID"
  cr_before :: "(world \<Rightarrow> world) list"
  cr_after :: "(world \<Rightarrow> world) list"

text \<open>What \<open>Run\<close> returns: \<open>None\<close> while it runs, \<open>Some None\<close> for no error.\<close>

fun worker_loop :: "engine \<Rightarrow> 'p Registry \<Rightarrow> string \<Rightarrow> 'p claim_round list \<Rightarrow> 'p sys
    \<Rightarrow> (go_error option option \<times> 'p sys) option" where
  "worker_loop e tools wid [] x = Some (None, x)"
| "worker_loop e tools wid (c # cs) x =
     (case cr_claim c of
        Inl err \<Rightarrow>
          if Is err ErrDispatcherClosed \<or> isShutdown err then Some (Some None, cr_gap c x)
          else Some (Some (Some (wrap_err (''worker '' @ wid @ '': claim'') err)), cr_gap c x)
      | Inr tid \<Rightarrow>
          (case worker_execute e tools wid (cr_before c) (cr_after c) tid (cr_gap c x) of
             None \<Rightarrow> None
           | Some x \<Rightarrow> worker_loop e tools wid cs x))"

definition Worker_Run :: "engine \<Rightarrow> 'p Registry \<Rightarrow> string \<Rightarrow> 'p claim_round list \<Rightarrow> 'p sys
    \<Rightarrow> (go_error option option \<times> 'p sys) option" where
  "Worker_Run e tools wid cs x =
     (case in_world (RegisterWorker wid ''go'') x of
        (Some err, x) \<Rightarrow> Some (Some (Some (wrap_err (''worker '' @ wid @ '': register'') err)), x)
      | (None, x) \<Rightarrow> worker_loop e tools wid cs x)"

section \<open>Waiting for a run (cmd/veya-runtime/main.go)\<close>

text \<open>\<open>Inr None\<close>: it still waits.\<close>

fun awaitTerminal :: "RunID \<Rightarrow> world round list \<Rightarrow> world \<Rightarrow> (go_error + Run option) \<times> world" where
  "awaitTerminal rid [] w = (Inr None, w)"
| "awaitTerminal rid (Ended err # rs) w = (Inl (wrap_err (''waiting for run '' @ rid) err), w)"
| "awaitTerminal rid (Fired gap # rs) w =
     (case GetRun (w_st (gap w)) rid of
        Inl err \<Rightarrow> (Inl err, gap w)
      | Inr run \<Rightarrow> if RunStatus_IsTerminal (run_Status run) then (Inr (Some run), gap w) else awaitTerminal rid rs (gap w))"

text \<open>
  The demonstration, with the input it takes by default: start a run, wait for its end beside the loops of the process, and read what
  it has left. \<open>ErrUnavailable\<close> at the start is a worker that has not connected yet. The last
  component is the error \<open>runDemo\<close> returns; a demonstration that still waits is \<open>None\<close>.
\<close>

definition demo_input :: raw where "demo_input = RawJSON (JObj [(''meeting_id'', JStr ''M-1042'')])"

record demo =
  demo_run :: Run
  demo_history :: "Event list"
  demo_effects :: "Effect list"

definition demo_wait :: "RunID \<Rightarrow> world round list \<Rightarrow> world \<Rightarrow> (demo option \<times> go_error option) option \<times> world" where
  "demo_wait rid rs w =
     (case awaitTerminal rid rs w of
        (Inl err, w) \<Rightarrow> (Some (None, Some err), w)
      | (Inr None, w) \<Rightarrow> (None, w)
      | (Inr (Some run), w) \<Rightarrow>
          (Some (Some \<lparr>demo_run = run, demo_history = History (w_st w) rid, demo_effects = ListEffects (w_st w) rid\<rparr>,
             if run_Status run \<noteq> RunCompleted
             then Some (errors_New (''demo run finished '' @ RunStatus_text (run_Status run) @ '', want COMPLETED''))
             else None), w))"

definition runDemo :: "engine \<Rightarrow> raw \<Rightarrow> world round list \<Rightarrow> world \<Rightarrow> ((demo option \<times> go_error option) option \<times> world) option" where
  "runDemo e input rs w =
     (case StartRun e input w of
        None \<Rightarrow> None
      | Some ((rid, err), w) \<Rightarrow>
          Some (case err of
            Some er \<Rightarrow>
              if Is er ErrUnavailable then demo_wait rid rs w
              else (Some (None, Some (wrap_err ''start demo run'' er)), w)
          | None \<Rightarrow> demo_wait rid rs w))"

end
