(* ===== verification/LoopLaws.thy ===== *)
theory LoopLaws
  imports Loops Reach
begin

text \<open>
  What holds of the loops: the recovery loop never sleeps past its interval nor past the next
  wake-up, every loop moves the store along a relation its transactions respect, and a loop ends
  only with the error of its context.
\<close>

section \<open>The delays of the recovery loop\<close>

lemma nextDelay_bounds:
  "min (rt_interval r) minScanDelay \<le> nextDelay r w \<and> nextDelay r w \<le> rt_interval r"
  by (auto simp: nextDelay_def Let_def min_def split: option.split)

lemma nextDelay_wakes:
  "NextWakeUp (w_st w) (w_now w) = Some t
     \<Longrightarrow> nextDelay r w \<le> max (min (rt_interval r) minScanDelay) (time_Sub t (w_now w))"
  by (auto simp: nextDelay_def Let_def min_def max_def)

lemma scan_ticks_delays:
  "scan_ticks e r rs w = Some ((err, ds), w') \<Longrightarrow> d \<in> set ds
     \<Longrightarrow> min (rt_interval r) minScanDelay \<le> d \<and> d \<le> rt_interval r"
proof (induction e r rs w arbitrary: err ds rule: scan_ticks.induct)
  case (3 e r gap rs w)
  then obtain v err' ds' where v: "ScanOnce e r (gap w) = Some v"
    "scan_ticks e r rs v = Some ((err', ds'), w')" "ds = nextDelay r v # ds'"
    by (auto split: option.splits)
  then show ?case using 3 nextDelay_bounds [of r v] by auto
qed auto

section \<open>Invariants of a loop\<close>

text \<open>A fact about the first and the last state that a sweep and the gaps of the rounds compose.\<close>

lemma ticks_along:
  assumes refl: "\<And>x. Q x x" and trans: "\<And>x y z. Q x y \<Longrightarrow> Q y z \<Longrightarrow> Q x z"
    and step: "\<And>x y. sweep x = Some y \<Longrightarrow> Q x y"
    and gaps: "\<And>gap x. Fired gap \<in> set rs \<Longrightarrow> Q x (gap x)"
  shows "ticks sweep rs x = Some (err, x') \<Longrightarrow> Q x x'"
  using gaps
proof (induction rs arbitrary: x)
  case (Cons r rs)
  show ?case
  proof (cases r)
    case (Fired gap)
    then obtain y where y: "sweep (gap x) = Some y" "ticks sweep rs y = Some (err, x')"
      using Cons.prems(1) by (auto split: option.splits)
    have "Q x (gap x)" using Cons.prems(2) Fired by simp
    moreover have "Q (gap x) y" using y(1) by (rule step)
    moreover have "Q y x'" using Cons.IH [OF y(2)] Cons.prems(2) by simp
    ultimately show ?thesis by (meson trans)
  qed (use Cons.prems(1) refl in auto)
qed (simp add: refl)

lemma scan_ticks_sweeps:
  "scan_ticks e r rs w = Some ((err, ds), w') \<Longrightarrow> ticks (ScanOnce e r) rs w = Some (err, w')"
proof (induction e r rs w arbitrary: err ds rule: scan_ticks.induct)
  case (3 e r gap rs w)
  then show ?case by (auto split: option.splits)
qed auto

lemma ticks_ended: "ticks sweep rs x = Some (Some err, x') \<Longrightarrow> Ended err \<in> set rs"
  by (induction sweep rs x rule: ticks.induct) (auto split: option.splits)

text \<open>Between the rounds of a worker, and between its heartbeats, the system may move as it likes.\<close>

definition round_moves :: "(state \<Rightarrow> state \<Rightarrow> bool) \<Rightarrow> 'p claim_round \<Rightarrow> bool" where
  "round_moves R c \<longleftrightarrow> (\<forall>x. along R (w_st (sys_world x)) (w_st (sys_world (cr_gap c x))))
     \<and> (\<forall>gap \<in> set (cr_before c @ cr_after c). \<forall>v. along R (w_st v) (w_st (gap v)))"

context system_relation
begin

lemma Runtime_Run_R:
  assumes "Runtime_Run e rt rs w = Some ((err, ds), w')"
    and "\<And>gap v. Fired gap \<in> set rs \<Longrightarrow> along R (w_st v) (w_st (gap v))"
  shows "along R (w_st w) (w_st w')"
proof (rule ticks_along [where Q = "\<lambda>w w'. along R (w_st w) (w_st w')"])
  show "ticks (ScanOnce e rt) (Fired id # rs) w = Some (err, w')"
    using assms(1) unfolding Runtime_Run_def by (rule scan_ticks_sweeps)
qed (use assms(2) in \<open>auto intro: along_trans ScanOnce_R\<close>)

lemma Reaper_sweep_R: "along R (w_st (snd x)) (w_st (snd (Reaper_sweep x)))"
  unfolding Reaper_sweep_def by (metis ReapOnce_R prod.collapse)

lemma Reaper_Run_R:
  assumes "Reaper_Run rp rs w = Some (err, rp', w')"
    and gaps: "\<And>gap v. Fired gap \<in> set rs \<Longrightarrow> along R (w_st (snd v)) (w_st (snd (gap v)))"
  shows "along R (w_st w) (w_st w')"
proof -
  obtain er x where reg: "ensureRegistered rp w = (er, x)" by (cases "ensureRegistered rp w") auto
  then have first: "along R (w_st w) (w_st (snd x))" by (metis ensureRegistered_R prod.collapse)
  show ?thesis
  proof (cases er)
    case None
    have "along R (w_st (snd (Reaper_sweep x))) (w_st (snd (rp', w')))"
    proof (rule ticks_along [where Q = "\<lambda>x y. along R (w_st (snd x)) (w_st (snd y))"])
      show "ticks (\<lambda>x. Some (Reaper_sweep x)) rs (Reaper_sweep x) = Some (err, rp', w')"
        using assms(1) None reg by (simp add: Reaper_Run_def)
    qed (use gaps Reaper_sweep_R in \<open>auto intro: along_trans\<close>)
    then show ?thesis using first Reaper_sweep_R [of x] by (auto intro: along_trans)
  qed (use assms(1) reg first in \<open>auto simp: Reaper_Run_def\<close>)
qed

lemma Relay_sweep_R: "along R (w_st w) (w_st (Relay_sweep e rl w))"
  unfolding Relay_sweep_def by (metis RelayOnce_R prod.collapse)

lemma Relay_Run_R:
  assumes "Relay_Run e rl rs w = Some (err, w')"
    and gaps: "\<And>gap v. Fired gap \<in> set rs \<Longrightarrow> along R (w_st v) (w_st (gap v))"
  shows "along R (w_st w) (w_st w')"
proof -
  have "along R (w_st (Relay_sweep e rl w)) (w_st w')"
  proof (rule ticks_along [where Q = "\<lambda>x y. along R (w_st x) (w_st y)"])
    show "ticks (\<lambda>w. Some (Relay_sweep e rl w)) rs (Relay_sweep e rl w) = Some (err, w')"
      using assms(1) by (simp add: Relay_Run_def)
  qed (use gaps Relay_sweep_R in \<open>auto intro: along_trans\<close>)
  with Relay_sweep_R show ?thesis by (rule along_trans)
qed

lemma Reconciler_Run_R:
  assumes "Reconciler_Run rc tools rs x = Some (err, x')"
    and gaps: "\<And>gap v. Fired gap \<in> set rs \<Longrightarrow> along R (w_st (sys_world v)) (w_st (sys_world (gap v)))"
  shows "along R (w_st (sys_world x)) (w_st (sys_world x'))"
proof (rule ticks_along [where Q = "\<lambda>x y. along R (w_st (sys_world x)) (w_st (sys_world y))"])
  show "ticks (\<lambda>x. Some (snd (ReconcileOnce rc tools x))) rs x = Some (err, x')"
    using assms(1) by (simp add: Reconciler_Run_def)
next
  fix x y assume "Some (snd (ReconcileOnce rc tools x)) = Some y"
  then show "along R (w_st (sys_world x)) (w_st (sys_world y))" by (metis ReconcileOnce_R option.inject prod.collapse)
qed (use gaps in \<open>auto intro: along_trans\<close>)

lemma worker_loop_R:
  "worker_loop e tools wid cs x = Some (r, x') \<Longrightarrow> (\<And>c. c \<in> set cs \<Longrightarrow> round_moves R c)
     \<Longrightarrow> along R (w_st (sys_world x)) (w_st (sys_world x'))"
proof (induction cs arbitrary: x)
  case (Cons c cs)
  have mv: "round_moves R c" using Cons.prems(2) by simp
  then have gap: "along R (w_st (sys_world x)) (w_st (sys_world (cr_gap c x)))" by (simp add: round_moves_def)
  show ?case
  proof (cases "cr_claim c")
    case (Inl err)
    then show ?thesis using Cons.prems(1) gap by (auto split: if_splits)
  next
    case (Inr tid)
    then obtain y where y: "worker_execute e tools wid (cr_before c) (cr_after c) tid (cr_gap c x) = Some y"
      "worker_loop e tools wid cs y = Some (r, x')"
      using Cons.prems(1) by (auto split: option.splits)
    have "along R (w_st (sys_world (cr_gap c x))) (w_st (sys_world y))"
      using y(1) by (rule worker_execute_R) (use mv in \<open>auto simp: round_moves_def\<close>)
    moreover have "along R (w_st (sys_world y)) (w_st (sys_world x'))"
      using Cons.IH [OF y(2)] Cons.prems(2) by simp
    ultimately show ?thesis using gap by (meson along_trans)
  qed
qed simp

lemma Worker_Run_R:
  assumes "Worker_Run e tools wid cs x = Some (r, x')" and "\<And>c. c \<in> set cs \<Longrightarrow> round_moves R c"
  shows "along R (w_st (sys_world x)) (w_st (sys_world x'))"
proof -
  obtain er y where reg: "in_world (RegisterWorker wid ''go'') x = (er, y)" by (cases "in_world (RegisterWorker wid ''go'') x") auto
  then have first: "along R (w_st (sys_world x)) (w_st (sys_world y))"
    by (rule in_world_R) (rule RegisterWorker_R)
  show ?thesis
  proof (cases er)
    case None
    then have "worker_loop e tools wid cs y = Some (r, x')" using assms(1) reg by (simp add: Worker_Run_def)
    then have "along R (w_st (sys_world y)) (w_st (sys_world x'))" by (rule worker_loop_R) (rule assms(2))
    with first show ?thesis by (rule along_trans)
  qed (use assms(1) reg first in \<open>auto simp: Worker_Run_def\<close>)
qed

end

end
