(* ===== verification/DemoRun.thy ===== *)
theory DemoRun
  imports Settling LoopLaws Samples
begin

text \<open>
  The demonstration's agent and tools as a concrete system, for the evaluation of the loops: a run
  of the meeting agent is started and a worker takes it through its three tasks while other
  components act between its rounds; and a send whose answer is lost on the way.
\<close>

text \<open>Decimal printing over integers, for the evaluation of the numbers the providers hand out.\<close>

fun int_digits :: "nat \<Rightarrow> int \<Rightarrow> string" where
  "int_digits 0 i = []"
| "int_digits (Suc n) i = (if i < 10 then [digit (nat i)] else int_digits n (i div 10) @ [digit (nat (i mod 10))])"

lemma int_digits_show: "0 \<le> i \<Longrightarrow> i < 10 ^ Suc n \<Longrightarrow> int_digits (Suc n) i = show_nat (nat i)"
proof (induction n arbitrary: i)
  case 0
  then have "nat i < 10 \<longleftrightarrow> i < 10" by linarith
  with 0 show ?case by (simp add: show_nat.simps [of "nat i"])
next
  case (Suc n)
  define B :: int where "B = 10 ^ Suc n"
  have "i < 10 * B" using Suc.prems(2) by (simp add: B_def)
  then have "i div 10 < 10 ^ Suc n" unfolding B_def [symmetric] by presburger
  moreover have "nat i < 10 \<longleftrightarrow> i < 10" using Suc.prems(1) by linarith
  ultimately show ?case using Suc.IH [of "i div 10"] Suc.prems(1)
    by (simp add: show_nat.simps [of "nat i"] nat_div_distrib nat_mod_distrib)
qed

lemma show_int_code [code]:
  "show_int i = (if 0 \<le> i \<and> i < 10000000000 then int_digits 10 i
     else if i < 0 then CHR ''-'' # show_nat (nat (- i)) else show_nat (nat i))"
  using int_digits_show [of i 9] by (simp add: show_int_def eval_nat_numeral)

definition demo_engine :: engine where
  "demo_engine = (sample_engine pay_agent)\<lparr>e_agent := meeting_Name, e_agentVersion := meeting_Version,
     e_decide := (\<lambda>_. NewDecider)\<rparr>"

definition demo_started :: world where
  "demo_started = (case StartRun demo_engine demo_input world0 of None \<Rightarrow> world0 | Some (_, w) \<Rightarrow> w)"

definition demo_sys :: "providers sys" where
  "demo_sys = \<lparr>sys_world = demo_started, sys_outside = snd NewTools, sys_calls = []\<rparr>"

text \<open>
  A worker that is handed the three tasks one after the other and then finds the dispatcher
  closed. While it waits, and between its heartbeats, other workers register.
\<close>

definition joins :: "string \<Rightarrow> world \<Rightarrow> world" where
  "joins wid w = snd (RegisterWorker wid ''go'' w)"

definition busy_round :: "go_error + TaskID \<Rightarrow> providers claim_round" where
  "busy_round claimed = \<lparr>cr_gap = (\<lambda>x. x\<lparr>sys_world := joins ''w2'' (sys_world x)\<rparr>), cr_claim = claimed,
     cr_before = [joins ''w3''], cr_after = [joins ''w4'']\<rparr>"

definition demo_rounds :: "providers claim_round list" where
  "demo_rounds = map busy_round [Inr ''t'', Inr ''ti'', Inr ''tii'', Inl (sentinel_err ErrDispatcherClosed)]"

definition demo_worked :: "providers sys" where
  "demo_worked = (case Worker_Run demo_engine meeting_tools ''w'' demo_rounds demo_sys of None \<Rightarrow> demo_sys | Some (_, x) \<Rightarrow> x)"

text \<open>What a run has come to: its status, its output and the types of its events.\<close>

definition run_report :: "state \<Rightarrow> RunID \<Rightarrow> (RunStatus \<times> raw) option \<times> EventType list" where
  "run_report s rid = (map_option (\<lambda>r. (run_Status r, run_Output r)) (map_of (st_runs s) rid), map ev_Type (events_of s rid))"

lemma demo_works:
  "map_option fst (Worker_Run demo_engine meeting_tools ''w'' demo_rounds demo_sys) = Some (Some None)
   \<and> run_report (w_st (sys_world demo_worked)) ''r'' =
     (Some (RunCompleted, send_answer ''email'' ''msg_EMAIL_98375''),
       [EventRunStarted, EventTaskCreated, EventTaskClaimed, EventTaskCompleted,
        EventTaskCreated, EventTaskClaimed, EventEffectCreated, EventEffectCommitted, EventTaskCompleted,
        EventTaskCreated, EventTaskClaimed, EventEffectCreated, EventEffectCommitted, EventTaskCompleted,
        EventRunCompleted])
   \<and> map fst (st_workers (w_st (sys_world demo_worked))) = [''w'', ''w2'', ''w3'', ''w4'']"
  by code_simp

lemma joins_moves: "along extends (w_st w) (w_st (joins wid w))"
  unfolding joins_def by (rule interleaving.RegisterWorker_R) (rule surjective_pairing)

lemma busy_moves: "c \<in> set demo_rounds \<Longrightarrow> round_moves extends c"
  by (auto simp: demo_rounds_def busy_round_def round_moves_def joins_moves)

lemma demo_trace: "\<exists>ss. trace (w_st (sys_world demo_sys) # ss) \<and> newState \<in> set (w_st (sys_world demo_sys) # ss)"
proof -
  have "StartRun demo_engine demo_input world0 \<noteq> None" by code_simp
  then obtain r w where w: "StartRun demo_engine demo_input world0 = Some (r, w)" by auto
  have "continues [newState] (w_st w)"
    by (rule along_continues [OF interleaving.StartRun_R [OF w], unfolded world0_def world.select_convs]) (rule trace.initial)
  then show ?thesis using w by (auto simp: continues_def demo_sys_def demo_started_def)
qed

lemma continues_start: "continues ss s \<Longrightarrow> newState \<in> set ss \<Longrightarrow> continues [newState] s"
  unfolding continues_def by auto

section \<open>The background loops, round after round\<close>

text \<open>
  Each loop sweeps, lets a round of the others pass, sweeps again and is told to stop. In the gap of
  the relay and of the recovery scan a worker joins; in the one of the reaper that worker claims the
  first task and is silent until its lease has run out.
\<close>

definition passes :: "duration \<Rightarrow> world \<Rightarrow> world" where
  "passes d w = w\<lparr>w_now := time_Add (w_now w) d\<rparr>"

definition stop :: "'x round" where "stop = Ended (sentinel_err CtxCanceled)"

definition silent_claim :: "Reaper \<times> world \<Rightarrow> Reaper \<times> world" where
  "silent_claim v = (fst v, passes 100 (snd (ClaimTask demo_engine ''t'' ''w5'' (joins ''w5'' (snd v)))))"

definition relayed :: "(go_error option \<times> world) option" where
  "relayed = Relay_Run demo_engine (NewRelay 1 10) [Fired (joins ''w5''), stop] demo_started"

definition scanned :: "((go_error option \<times> duration list) \<times> world) option" where
  "scanned = Runtime_Run demo_engine (NewRuntime 1 10) [Fired (joins ''w5''), stop] demo_started"

definition reaped :: "(go_error option \<times> (Reaper \<times> world)) option" where
  "reaped = Reaper_Run (NewReaper 1 10) [Fired silent_claim, stop] demo_started"

lemma passes_st [simp]: "w_st (passes d w) = w_st w"
  by (simp add: passes_def)

lemma silent_claim_moves: "along extends (w_st (snd v)) (w_st (snd (silent_claim v)))"
proof -
  have "along extends (w_st (joins ''w5'' (snd v))) (w_st (snd (ClaimTask demo_engine ''t'' ''w5'' (joins ''w5'' (snd v)))))"
    by (rule interleaving.ClaimTask_R) (rule surjective_pairing)
  then show ?thesis using interleaving.along_trans [OF joins_moves] by (simp add: silent_claim_def)
qed

lemma gaps_move:
  "Fired gap \<in> set [Fired (joins ''w5''), stop] \<Longrightarrow> along extends (w_st w) (w_st (gap w))"
  "Fired gap' \<in> set [Fired silent_claim, stop] \<Longrightarrow> along extends (w_st (snd v)) (w_st (snd (gap' v)))"
  by (auto simp: stop_def joins_moves silent_claim_moves)

lemma loops_run:
  "map_option (\<lambda>(err, w). (map_option err_chain err, is_published (w_st w) 1)) relayed = Some (Some [CtxCanceled], True)"
  "map_option (\<lambda>((err, ds), w). (map_option err_chain err, w_sent w, map fst (st_workers (w_st w)))) scanned
     = Some (Some [CtxCanceled], [''t'', ''t''], [''w5''])"
  "map_option (\<lambda>(err, rp, w). (map_option err_chain err, map_option task_Status (map_of (st_tasks (w_st w)) ''t''))) reaped
     = Some (Some [CtxCanceled], Some TaskDeadLetter)"
  by code_simp+

text \<open>The third step alone, executed for the first task of the run.\<close>

definition demo_send :: Task where
  "demo_send = new_task demo_engine ''r'' ''t'' ''S1'' ''send_summary'' (RawJSON (JObj [(''channel'', JStr ''email'')]))"

section \<open>A send whose answer is lost\<close>

text \<open>The mailbox takes the message, and the connection breaks before its answer arrives.\<close>

definition cut_off :: "(ToolCall \<Rightarrow> providers \<Rightarrow> handler_result \<times> providers) \<Rightarrow> ToolCall \<Rightarrow> providers \<Rightarrow> handler_result \<times> providers" where
  "cut_off h c p = (Returned RawNil (Some (errors_New ''connection reset'')), snd (h c p))"

definition flaky_tools :: "providers Registry" where
  "flaky_tools = map (\<lambda>(n, d). (n, d\<lparr>td_Handler := cut_off (td_Handler d)\<rparr>)) meeting_tools"

definition lost_sys :: "providers sys" where
  "lost_sys = snd (Execute demo_engine flaky_tools demo_send demo_sys)"

lemma lost_send:
  "map_option (\<lambda>row. (eff_Status row, eff_ExternalRef row, eff_Key row)) (ledger lost_sys ''r:S1:E1'') = Some (EffectUnknown, [], ''r:S1:E1'')
   \<and> mb_sent (pv_mailbox (sys_outside lost_sys)) = [(''r:S1:E1'', ''msg_EMAIL_98375'')]
   \<and> length (sys_calls lost_sys) = 1"
  by code_simp

definition send_tool :: "providers ToolDescriptor" where
  "send_tool = \<lparr>td_Name = ''send_summary'', td_Class = ClassQueryable, td_Handler = send_summary,
     td_Reconciler = Some ask_mailbox, td_KeyTTL = day\<rparr>"

lemma lost_facts:
  "has (st_runs (w_st (sys_world lost_sys))) ''r''" "has (st_tasks (w_st (sys_world lost_sys))) ''t''"
  "length (events_of (w_st (sys_world lost_sys)) ''r'') = 4" "effect_key demo_send = ''r:S1:E1''"
  "map_option (\<lambda>row. KeyExpired send_tool row (w_now (sys_world lost_sys))) (ledger lost_sys ''r:S1:E1'') = Some False"
  by code_simp+

lemma lost_hosted: "hosted meeting_tools demo_send send_tool lost_sys"
  using lost_facts(1,2)
  by (simp add: hosted_def demo_send_def new_task_def Lookup_def meeting_tools_are send_tool_def
      EffectClass_HasConsequence_def EffectClass_Valid_def)

text \<open>What the mailbox says when it is asked.\<close>

definition lost_answer :: Resolution where
  "lost_answer = \<lparr>res_Kind = ResolvedCommitted, res_Response = RawNil, res_ExternalRef = ''msg_EMAIL_98375'',
     res_Detail = ''found by idempotency key''\<rparr>"

lemma lost_asked: "eff_Key asked = ''r:S1:E1'' \<Longrightarrow> ask_mailbox asked (sys_outside lost_sys) = (Inr lost_answer, sys_outside lost_sys)"
  using lost_send by (simp add: ask_mailbox_def Mailbox_lookup_def lost_answer_def)

lemma lost_trace: "\<exists>ls. trace (w_st (sys_world lost_sys) # ls) \<and> newState \<in> set (w_st (sys_world lost_sys) # ls)"
proof -
  obtain ss where ss: "trace (w_st (sys_world demo_sys) # ss)" "newState \<in> set (w_st (sys_world demo_sys) # ss)"
    using demo_trace by blast
  have "along extends (w_st (sys_world demo_sys)) (w_st (sys_world lost_sys))"
    unfolding lost_sys_def by (rule interleaving.Execute_R) (rule surjective_pairing)
  from continues_start [OF along_continues [OF this ss(1)] ss(2)] show ?thesis by (auto simp: continues_def)
qed

lemma lost_ok: "store_ok (w_st (sys_world lost_sys))"
  using lost_trace trace_ok by fastforce

text \<open>The reconciler finds the row stale after the gap and settles it.\<close>

definition later_join :: "providers sys \<Rightarrow> providers sys" where
  "later_join x = x\<lparr>sys_world := passes 100 (joins ''w5'' (sys_world x))\<rparr>"

definition reconciled :: "(go_error option \<times> providers sys) option" where
  "reconciled = Reconciler_Run (NewReconciler 1 1 10) meeting_tools [Fired later_join, stop] lost_sys"

lemma later_join_moves:
  "Fired gap \<in> set [Fired later_join, stop] \<Longrightarrow> along extends (w_st (sys_world v)) (w_st (sys_world (gap v)))"
  by (auto simp: stop_def later_join_def joins_moves)

lemma reconciler_runs:
  "map_option (\<lambda>(err, x). (map_option err_chain err, map_option (\<lambda>row. (eff_Status row, eff_ExternalRef row)) (ledger x ''r:S1:E1''))) reconciled
     = Some (Some [CtxCanceled], Some (EffectCommitted, ''msg_EMAIL_98375''))"
  by code_simp

end
