(* ===== verification/Clients.thy ===== *)
theory Clients
  imports Interchange StoreReads
begin

text \<open>
  Clients of core.Store: programs that open transactions and read, and choose what they do next
  by what they have been told. A client is run on the in-memory store and on the PostgreSQL
  store; when its arguments fit the columns it is told the same on both, up to what a JSONB
  column makes of a document, and so it ends the same way.
\<close>

section \<open>Programs\<close>

text \<open>
  The function a caller gives to \<open>RunInTx\<close>, as the calls it makes. A call that fails ends it with
  that error; \<open>Commit\<close> is \<open>return nil\<close> with the lease the caller has kept, and \<open>Raise m\<close> returns an
  error of the caller's own. \<open>Do\<close> runs an operation at the instant the store's clock shows, \<open>DoAt\<close>
  at the one the caller passes.
\<close>

datatype body =
    Commit "Lease option"
  | Raise string
  | Do txop body
  | DoAt time txop body
  | Acquire TaskID string time time "Lease \<Rightarrow> body"
  | ReadLease TaskID "Lease \<Rightarrow> body"
  | ReadSeq RunID "int \<Rightarrow> body"
  | Record Event body

text \<open>
  A client ends with or without a complaint. Of an error it is told the sentinels in its chain,
  which is what \<open>errors.Is\<close> can ask for.
\<close>

datatype client =
    Pass
  | Fatal string
  | InTx body "sentinel list + Lease option \<Rightarrow> client"
  | AskRun RunID "sentinel list + Run \<Rightarrow> client"
  | AskTask TaskID "sentinel list + Task \<Rightarrow> client"
  | AskEffect IdempotencyKey "sentinel list + Effect \<Rightarrow> client"
  | AskHistory RunID "Event list \<Rightarrow> client"
  | AskTasks RunID "Task list \<Rightarrow> client"
  | AskEffects RunID "Effect list \<Rightarrow> client"
  | AskPendingTasks int "Task list \<Rightarrow> client"
  | AskAwaiting time int "RunID list \<Rightarrow> client"
  | AskUnresolved time int "Effect list \<Rightarrow> client"
  | AskSignals RunID string "Signal list \<Rightarrow> client"
  | AskNextWakeUp time "time option \<Rightarrow> client"
  | AskDeliveries time int "Delivery list \<Rightarrow> client"
  | AskExpired time int "Lease list \<Rightarrow> client"

datatype verdict = Passed | Complained string

text \<open>The clock of storetest.TickingClock: a millisecond between two readings.\<close>

definition ticking_Now :: "time \<Rightarrow> time" where
  "ticking_Now t = time_Add t 1000000"

definition chain_of :: "go_error + 'a \<Rightarrow> sentinel list + 'a" where
  "chain_of r = (case r of Inl e \<Rightarrow> Inl (err_chain e) | Inr x \<Rightarrow> Inr x)"

section \<open>On the in-memory store\<close>

text \<open>
  The clock moves with every operation that is given its reading. What a rolled-back transaction
  has read from the clock is in no record, so the next one takes the clock up from where that
  transaction found it.
\<close>

primrec mem_body :: "body \<Rightarrow> time \<Rightarrow> (Lease option \<times> time) tx" where
  "mem_body (Commit l) t = tx_return (l, t)"
| "mem_body (Raise m) t = tx_error (sentinel_err (OwnSentinel m))"
| "mem_body (Do op b) t = tx_bind (mem_op (ticking_Now t) op) (\<lambda>_. mem_body b (ticking_Now t))"
| "mem_body (DoAt now op b) t = tx_bind (mem_op now op) (\<lambda>_. mem_body b t)"
| "mem_body (Acquire tid wid now expiresAt k) t = tx_bind (AcquireLease tid wid now expiresAt) (\<lambda>l. mem_body (k l) t)"
| "mem_body (ReadLease tid k) t = tx_bind (GetLease tid) (\<lambda>l. mem_body (k l) t)"
| "mem_body (ReadSeq rid k) t = tx_bind (NextSeq rid) (\<lambda>n. mem_body (k n) t)"
| "mem_body (Record ev b) t = tx_bind (AppendEvent (ticking_Now t) ev) (\<lambda>_. mem_body b (ticking_Now t))"

text \<open>
  How a client sees the records: as they are, or as the columns of a dialect give them back.
\<close>

record view =
  vw_run :: "Run \<Rightarrow> Run"
  vw_task :: "Task \<Rightarrow> Task"
  vw_event :: "Event \<Rightarrow> Event"
  vw_effect :: "Effect \<Rightarrow> Effect"
  vw_signal :: "Signal \<Rightarrow> Signal"

definition as_stored :: view where
  "as_stored = \<lparr>vw_run = (\<lambda>r. r), vw_task = (\<lambda>t. t), vw_event = (\<lambda>e. e), vw_effect = (\<lambda>e. e), vw_signal = (\<lambda>x. x)\<rparr>"

definition as_columns :: "dialect \<Rightarrow> view" where
  "as_columns D = \<lparr>vw_run = canon_run D, vw_task = canon_task D, vw_event = canon_event D,
     vw_effect = canon_effect D, vw_signal = canon_signal D\<rparr>"

primrec mem_client :: "view \<Rightarrow> client \<Rightarrow> time \<Rightarrow> state \<Rightarrow> verdict \<times> state" where
  "mem_client V Pass t s = (Passed, s)"
| "mem_client V (Fatal m) t s = (Complained m, s)"
| "mem_client V (InTx b k) t s =
     (case RunInTx (mem_body b t) s of
        (Inl e, s) \<Rightarrow> mem_client V (k (Inl (err_chain e))) t s
      | (Inr (l, t), s) \<Rightarrow> mem_client V (k (Inr l)) t s)"
| "mem_client V (AskRun rid k) t s = mem_client V (k (map_sum id (vw_run V) (chain_of (GetRun s rid)))) t s"
| "mem_client V (AskTask tid k) t s = mem_client V (k (map_sum id (vw_task V) (chain_of (Store_GetTask s tid)))) t s"
| "mem_client V (AskEffect key k) t s = mem_client V (k (map_sum id (vw_effect V) (chain_of (Store_GetEffect s key)))) t s"
| "mem_client V (AskHistory rid k) t s = mem_client V (k (map (vw_event V) (History s rid))) t s"
| "mem_client V (AskTasks rid k) t s = mem_client V (k (map (vw_task V) (ListTasks s rid))) t s"
| "mem_client V (AskEffects rid k) t s = mem_client V (k (map (vw_effect V) (ListEffects s rid))) t s"
| "mem_client V (AskPendingTasks n k) t s = mem_client V (k (map (vw_task V) (PendingTasks s n))) (ticking_Now t) s"
| "mem_client V (AskAwaiting now n k) t s = mem_client V (k (RunsAwaitingAdvance s now n)) t s"
| "mem_client V (AskUnresolved before n k) t s = mem_client V (k (map (vw_effect V) (UnresolvedEffects s before n))) t s"
| "mem_client V (AskSignals rid name k) t s = mem_client V (k (map (vw_signal V) (Signals s rid name))) t s"
| "mem_client V (AskNextWakeUp after k) t s = mem_client V (k (NextWakeUp s after)) t s"
| "mem_client V (AskDeliveries now n k) t s = mem_client V (k (PendingDeliveries s now n)) t s"
| "mem_client V (AskExpired now n k) t s = mem_client V (k (ExpiredLeases s now n)) t s"

section \<open>On the PostgreSQL store\<close>

primrec pg_body :: "dialect \<Rightarrow> body \<Rightarrow> time \<Rightarrow> (Lease option \<times> time) ptx" where
  "pg_body D (Commit l) t = preturn (l, t)"
| "pg_body D (Raise m) t = perror (sentinel_err (OwnSentinel m))"
| "pg_body D (Do op b) t = pbind (pg_op D (ticking_Now t) op) (\<lambda>_. pg_body D b (ticking_Now t))"
| "pg_body D (DoAt now op b) t = pbind (pg_op D now op) (\<lambda>_. pg_body D b t)"
| "pg_body D (Acquire tid wid now expiresAt k) t = pbind (Pg_AcquireLease D tid wid now expiresAt) (\<lambda>l. pg_body D (k l) t)"
| "pg_body D (ReadLease tid k) t = pbind (Pg_GetLease tid) (\<lambda>l. pg_body D (k l) t)"
| "pg_body D (ReadSeq rid k) t = pbind (Pg_NextSeq rid) (\<lambda>n. pg_body D (k n) t)"
| "pg_body D (Record ev b) t = pbind (Pg_AppendEvent D (ticking_Now t) ev) (\<lambda>_. pg_body D b (ticking_Now t))"

primrec pg_client :: "dialect \<Rightarrow> client \<Rightarrow> time \<Rightarrow> pgstate \<Rightarrow> verdict \<times> pgstate" where
  "pg_client D Pass t p = (Passed, p)"
| "pg_client D (Fatal m) t p = (Complained m, p)"
| "pg_client D (InTx b k) t p =
     (case Pg_RunInTx (pg_body D b t) p of
        (Inl e, p) \<Rightarrow> pg_client D (k (Inl (err_chain e))) t p
      | (Inr (l, t), p) \<Rightarrow> pg_client D (k (Inr l)) t p)"
| "pg_client D (AskRun rid k) t p = pg_client D (k (chain_of (Pg_GetRun p rid))) t p"
| "pg_client D (AskTask tid k) t p = pg_client D (k (chain_of (Pg_Store_GetTask p tid))) t p"
| "pg_client D (AskEffect key k) t p = pg_client D (k (chain_of (Pg_Store_GetEffect p key))) t p"
| "pg_client D (AskHistory rid k) t p = pg_client D (k (Pg_History p rid)) t p"
| "pg_client D (AskTasks rid k) t p = pg_client D (k (Pg_ListTasks D p rid)) t p"
| "pg_client D (AskEffects rid k) t p = pg_client D (k (Pg_ListEffects D p rid)) t p"
| "pg_client D (AskPendingTasks n k) t p = pg_client D (k (Pg_PendingTasks D p (ticking_Now t) n)) (ticking_Now t) p"
| "pg_client D (AskAwaiting now n k) t p = pg_client D (k (Pg_RunsAwaitingAdvance D p now n)) t p"
| "pg_client D (AskUnresolved before n k) t p = pg_client D (k (Pg_UnresolvedEffects D p before n)) t p"
| "pg_client D (AskSignals rid name k) t p = pg_client D (k (Pg_Signals D p rid name)) t p"
| "pg_client D (AskNextWakeUp after k) t p = pg_client D (k (Pg_NextWakeUp D p after)) t p"
| "pg_client D (AskDeliveries now n k) t p = pg_client D (k (Pg_PendingDeliveries D p now n)) t p"
| "pg_client D (AskExpired now n k) t p = pg_client D (k (Pg_ExpiredLeases D p now n)) t p"

section \<open>The stores cannot be told apart\<close>

text \<open>What the columns ask of the arguments of a transaction and of a client, along its run in memory.\<close>

definition goes_on :: "'a tx \<Rightarrow> ('a \<Rightarrow> state \<Rightarrow> bool) \<Rightarrow> state \<Rightarrow> bool" where
  "goes_on m Q s = (case m s of (Inl _, _) \<Rightarrow> True | (Inr x, s') \<Rightarrow> Q x s')"

primrec body_fits :: "dialect \<Rightarrow> body \<Rightarrow> time \<Rightarrow> state \<Rightarrow> bool" where
  "body_fits D (Commit l) t s = True"
| "body_fits D (Raise m) t s = True"
| "body_fits D (Do op b) t s = (op_fits D (ticking_Now t) op s
     \<and> goes_on (mem_op (ticking_Now t) op) (\<lambda>_. body_fits D b (ticking_Now t)) s)"
| "body_fits D (DoAt now op b) t s = (op_fits D now op s \<and> goes_on (mem_op now op) (\<lambda>_. body_fits D b t) s)"
| "body_fits D (Acquire tid wid now expiresAt k) t s = (claim_fits D tid wid now expiresAt s
     \<and> goes_on (AcquireLease tid wid now expiresAt) (\<lambda>l. body_fits D (k l) t) s)"
| "body_fits D (ReadLease tid k) t s = goes_on (GetLease tid) (\<lambda>l. body_fits D (k l) t) s"
| "body_fits D (ReadSeq rid k) t s = (seq_fits rid s \<and> goes_on (NextSeq rid) (\<lambda>n. body_fits D (k n) t) s)"
| "body_fits D (Record ev b) t s = (event_fits D (ticking_Now t) ev
     \<and> goes_on (AppendEvent (ticking_Now t) ev) (\<lambda>_. body_fits D b (ticking_Now t)) s)"

definition small_store :: "state \<Rightarrow> bool" where
  "small_store s \<longleftrightarrow> int (length (st_runs s)) \<le> 1073741824 \<and> int (length (st_tasks s)) \<le> 1073741824
     \<and> int (length (st_effects s)) \<le> 1073741824 \<and> int (length (st_deliveries s)) \<le> 1073741824
     \<and> int (length (st_leases s)) \<le> 1073741824"

text \<open>
  The recovery scan of the PostgreSQL store leaves out tasks a poller has put off; a client has
  no poller, but the instant its tasks became available is not in the maps.
\<close>

primrec client_fits :: "dialect \<Rightarrow> client \<Rightarrow> time \<Rightarrow> pgstate \<Rightarrow> state \<Rightarrow> bool" where
  "client_fits D Pass t p s = True"
| "client_fits D (Fatal m) t p s = True"
| "client_fits D (InTx b k) t p s = (body_fits D b t s \<and>
     (case RunInTx (mem_body b t) s of
        (Inl e, s') \<Rightarrow> client_fits D (k (Inl (err_chain e))) t (snd (Pg_RunInTx (pg_body D b t) p)) s'
      | (Inr (l, t'), s') \<Rightarrow> client_fits D (k (Inr l)) t' (snd (Pg_RunInTx (pg_body D b t) p)) s'))"
| "client_fits D (AskRun rid k) t p s = client_fits D (k (map_sum id (canon_run D) (chain_of (GetRun s rid)))) t p s"
| "client_fits D (AskTask tid k) t p s = client_fits D (k (map_sum id (canon_task D) (chain_of (Store_GetTask s tid)))) t p s"
| "client_fits D (AskEffect key k) t p s =
     client_fits D (k (map_sum id (canon_effect D) (chain_of (Store_GetEffect s key)))) t p s"
| "client_fits D (AskHistory rid k) t p s = client_fits D (k (map (canon_event D) (History s rid))) t p s"
| "client_fits D (AskTasks rid k) t p s = client_fits D (k (map (canon_task D) (ListTasks s rid))) t p s"
| "client_fits D (AskEffects rid k) t p s = client_fits D (k (map (canon_effect D) (ListEffects s rid))) t p s"
| "client_fits D (AskPendingTasks n k) t p s = (small_store s \<and> whole D (ticking_Now t)
     \<and> list_all (\<lambda>r. tr_available_at r \<le> ticking_Now t) (pg_tasks p)
     \<and> client_fits D (k (map (canon_task D) (PendingTasks s n))) (ticking_Now t) p s)"
| "client_fits D (AskAwaiting now n k) t p s = (small_store s \<and> whole D now
     \<and> client_fits D (k (RunsAwaitingAdvance s now n)) t p s)"
| "client_fits D (AskUnresolved before n k) t p s = (small_store s \<and> whole D before
     \<and> client_fits D (k (map (canon_effect D) (UnresolvedEffects s before n))) t p s)"
| "client_fits D (AskSignals rid name k) t p s = client_fits D (k (map (canon_signal D) (Signals s rid name))) t p s"
| "client_fits D (AskNextWakeUp after k) t p s = (whole D after \<and> client_fits D (k (NextWakeUp s after)) t p s)"
| "client_fits D (AskDeliveries now n k) t p s = (small_store s \<and> whole D now \<and> 0 \<le> now
     \<and> client_fits D (k (PendingDeliveries s now n)) t p s)"
| "client_fits D (AskExpired now n k) t p s = (small_store s \<and> whole D now
     \<and> client_fits D (k (ExpiredLeases s now n)) t p s)"

lemma goes_onD: "goes_on m Q s \<Longrightarrow> m s = (Inr x, s') \<Longrightarrow> Q x s'"
  by (simp add: goes_on_def)

lemma body_agrees:
  "mirrors D p s \<Longrightarrow> body_fits D b t s \<Longrightarrow> agrees D (=) (pg_body D b t) (mem_body b t) p s"
proof (induction b arbitrary: t p s)
  case (Raise m)
  then show ?case by (simp add: agrees_def tx_error_def mirrorsD)
next
  case (Do op b)
  then show ?case by (auto intro!: agrees_bind [OF op_agrees] dest: goes_onD)
next
  case (DoAt now op b)
  then show ?case by (auto intro!: agrees_bind [OF op_agrees] dest: goes_onD)
next
  case (Acquire tid wid now expiresAt k)
  then show ?case by (auto intro!: agrees_bind [OF AcquireLease_agrees] dest: goes_onD)
next
  case (ReadLease tid k)
  then show ?case by (auto intro!: agrees_bind [OF Pg_GetLease_agrees] dest: goes_onD)
next
  case (ReadSeq rid k)
  then show ?case by (auto intro!: agrees_bind [OF NextSeq_agrees] dest: goes_onD)
next
  case (Record ev b)
  then show ?case by (auto intro!: agrees_bind [OF AppendEvent_agrees] dest: goes_onD)
qed simp

lemma same_table_length: "same_table key scan c rows m \<Longrightarrow> length rows = length m"
  unfolding same_table_def canon_map_def by (metis length_map)

lemma mirrors_small: "mirrors D p s \<Longrightarrow> small_store s \<Longrightarrow> small_tables p"
  unfolding mirrors_def runs_shown_def tasks_shown_def outbox_shown_def small_store_def small_tables_def
  by (auto dest!: same_table_length)

lemma chain_of_reads:
  "(case r of Inr x \<Rightarrow> q = Inr (c x) | Inl e \<Rightarrow> (\<exists>e'. q = Inl e' \<and> err_chain e' = err_chain e))
     \<Longrightarrow> chain_of q = map_sum id c (chain_of r)"
  by (auto simp: chain_of_def split: sum.splits)

lemma as_columns_simps [simp]:
  "vw_run (as_columns D) = canon_run D" "vw_task (as_columns D) = canon_task D"
  "vw_event (as_columns D) = canon_event D" "vw_effect (as_columns D) = canon_effect D"
  "vw_signal (as_columns D) = canon_signal D"
  by (simp_all add: as_columns_def)

text \<open>A transaction of a client: the same answer, and stores that mirror each other again.\<close>

lemma InTx_agrees:
  assumes m: "mirrors D p s" and fits: "body_fits D b t s"
  shows "mirrors D (snd (Pg_RunInTx (pg_body D b t) p)) (snd (RunInTx (mem_body b t) s))"
    and "chain_of (fst (Pg_RunInTx (pg_body D b t) p)) = chain_of (fst (RunInTx (mem_body b t) s))"
  using agrees_RunInTx [OF m body_agrees [OF m fits]]
  by (cases "Pg_RunInTx (pg_body D b t) p"; cases "RunInTx (mem_body b t) s"; auto simp: chain_of_def split: sum.splits)+

lemma clients_agree:
  assumes order: "byte_order D"
  shows "mirrors D p s \<Longrightarrow> client_fits D c t p s \<Longrightarrow>
    fst (pg_client D c t p) = fst (mem_client (as_columns D) c t s)
    \<and> mirrors D (snd (pg_client D c t p)) (snd (mem_client (as_columns D) c t s))"
proof (induction c arbitrary: t p s)
  case (InTx b k)
  obtain r p' where pg: "Pg_RunInTx (pg_body D b t) p = (r, p')" by fastforce
  obtain r' s' where mem: "RunInTx (mem_body b t) s = (r', s')" by fastforce
  from InTx.prems have fits: "body_fits D b t s" by simp
  have same: "mirrors D p' s'" "chain_of r = chain_of r'"
    using InTx_agrees [OF InTx.prems(1) fits] pg mem by simp_all
  show ?case
  proof (cases r')
    case (Inl e)
    with same(2) obtain e' where "r = Inl e'" "err_chain e' = err_chain e"
      by (auto simp: chain_of_def split: sum.splits)
    with Inl InTx.IH [OF rangeI same(1), of "Inl (err_chain e)" t] InTx.prems(2) pg mem show ?thesis by auto
  next
    case (Inr lt)
    with same(2) have "r = Inr lt" by (auto simp: chain_of_def split: sum.splits)
    with Inr InTx.IH [OF rangeI same(1), of "Inr (fst lt)" "snd lt"] InTx.prems(2) pg mem show ?thesis
      by (cases lt) auto
  qed
next
  case (AskRun rid k)
  then show ?case using chain_of_reads [OF GetRun_reads [OF AskRun.prems(1)]] by simp
next
  case (AskTask tid k)
  then show ?case using chain_of_reads [OF GetTask_reads [OF AskTask.prems(1)]] by simp
next
  case (AskEffect key k)
  then show ?case using chain_of_reads [OF GetEffect_reads [OF AskEffect.prems(1)]] by simp
next
  case (AskHistory rid k)
  then show ?case by (simp add: History_reads)
next
  case (AskTasks rid k)
  then show ?case by (simp add: ListTasks_reads [OF AskTasks.prems(1) order])
next
  case (AskEffects rid k)
  then show ?case by (simp add: ListEffects_reads [OF AskEffects.prems(1) order])
next
  case (AskPendingTasks n k)
  then show ?case by (simp add: PendingTasks_reads [OF AskPendingTasks.prems(1) order] mirrors_small)
next
  case (AskAwaiting now n k)
  then show ?case by (simp add: RunsAwaitingAdvance_reads [OF AskAwaiting.prems(1) order] mirrors_small)
next
  case (AskUnresolved before n k)
  then show ?case by (simp add: UnresolvedEffects_reads [OF AskUnresolved.prems(1) order] mirrors_small)
next
  case (AskSignals rid name k)
  then show ?case by (simp add: Signals_reads [OF AskSignals.prems(1) order])
next
  case (AskNextWakeUp after k)
  then show ?case by (simp add: NextWakeUp_reads)
next
  case (AskDeliveries now n k)
  then show ?case by (simp add: PendingDeliveries_reads [OF AskDeliveries.prems(1)] mirrors_small)
next
  case (AskExpired now n k)
  then show ?case by (simp add: ExpiredLeases_reads [OF AskExpired.prems(1) order] mirrors_small)
qed simp_all

text \<open>
  A client that only reads records in the form a column gives back: no document that JSONB would
  write another way (an absent payload is one of them), no instant finer than a microsecond. Along
  its run in memory, it sees on PostgreSQL what the in-memory store holds.
\<close>

primrec client_plain :: "dialect \<Rightarrow> client \<Rightarrow> time \<Rightarrow> state \<Rightarrow> bool" where
  "client_plain D Pass t s = True"
| "client_plain D (Fatal m) t s = True"
| "client_plain D (InTx b k) t s =
     (case RunInTx (mem_body b t) s of
        (Inl e, s') \<Rightarrow> client_plain D (k (Inl (err_chain e))) t s'
      | (Inr (l, t'), s') \<Rightarrow> client_plain D (k (Inr l)) t' s')"
| "client_plain D (AskRun rid k) t s = (let a = chain_of (GetRun s rid) in
     map_sum id (canon_run D) a = a \<and> client_plain D (k a) t s)"
| "client_plain D (AskTask tid k) t s = (let a = chain_of (Store_GetTask s tid) in
     map_sum id (canon_task D) a = a \<and> client_plain D (k a) t s)"
| "client_plain D (AskEffect key k) t s = (let a = chain_of (Store_GetEffect s key) in
     map_sum id (canon_effect D) a = a \<and> client_plain D (k a) t s)"
| "client_plain D (AskHistory rid k) t s = (let a = History s rid in
     map (canon_event D) a = a \<and> client_plain D (k a) t s)"
| "client_plain D (AskTasks rid k) t s = (let a = ListTasks s rid in
     map (canon_task D) a = a \<and> client_plain D (k a) t s)"
| "client_plain D (AskEffects rid k) t s = (let a = ListEffects s rid in
     map (canon_effect D) a = a \<and> client_plain D (k a) t s)"
| "client_plain D (AskPendingTasks n k) t s = (let a = PendingTasks s n in
     map (canon_task D) a = a \<and> client_plain D (k a) (ticking_Now t) s)"
| "client_plain D (AskAwaiting now n k) t s = client_plain D (k (RunsAwaitingAdvance s now n)) t s"
| "client_plain D (AskUnresolved before n k) t s = (let a = UnresolvedEffects s before n in
     map (canon_effect D) a = a \<and> client_plain D (k a) t s)"
| "client_plain D (AskSignals rid name k) t s = (let a = Signals s rid name in
     map (canon_signal D) a = a \<and> client_plain D (k a) t s)"
| "client_plain D (AskNextWakeUp after k) t s = client_plain D (k (NextWakeUp s after)) t s"
| "client_plain D (AskDeliveries now n k) t s = client_plain D (k (PendingDeliveries s now n)) t s"
| "client_plain D (AskExpired now n k) t s = client_plain D (k (ExpiredLeases s now n)) t s"

lemma map_sum_same: "map_sum id (\<lambda>x. x) a = a"
  by (cases a) simp_all

lemma plain_client:
  "client_plain D c t s \<Longrightarrow> mem_client (as_columns D) c t s = mem_client as_stored c t s"
proof (induction c arbitrary: t s)
  case (InTx b k)
  then show ?case by (auto split: prod.splits sum.splits)
qed (simp_all add: as_stored_def Let_def map_sum_same)

lemma plain_clients_agree:
  assumes "byte_order D" and "mirrors D p s" and "client_fits D c t p s" and "client_plain D c t s"
  shows "fst (pg_client D c t p) = fst (mem_client as_stored c t s)
    \<and> mirrors D (snd (pg_client D c t p)) (snd (mem_client as_stored c t s))"
  using clients_agree [OF assms(1-3)] plain_client [OF assms(4)] by simp

end
