(* ===== verification/Suite.thy ===== *)
theory Suite
  imports Clients
begin

text \<open>
  The contract suite every adapter of core.Store has to pass (core/storetest/storetest.go): its
  helpers and the tests of runs, tasks and history, as clients. A test that reaches its end has
  passed; \<open>t.Fatalf\<close> ends it with a complaint.
\<close>

section \<open>Dates\<close>

text \<open>\<open>time.Date\<close> in UTC, for dates and times of day in range; the inverse of \<open>civil\<close>.\<close>

definition time_Date :: "int \<Rightarrow> int \<Rightarrow> int \<Rightarrow> int \<Rightarrow> int \<Rightarrow> int \<Rightarrow> time" where
  "time_Date year month day hour minute sec =
     (let y = (if month \<le> 2 then year - 1 else year); era = y div 400; yoe = y mod 400;
          mp = (if 2 < month then month - 3 else month + 9);
          doy = (153 * mp + 2) div 5 + day - 1;
          doe = yoe * 365 + yoe div 4 - yoe div 100 + doy;
          days = era * 146097 + doe - 306
      in (((days * 24 + hour) * 60 + minute) * 60 + sec) * second)"

lemma time_Date_samples:
  "time_RFC3339 (time_Date 2026 9 22 9 30 0) = ''2026-09-22T09:30:00Z''"
  "time_RFC3339 (time_Date 2100 1 1 0 0 0) = ''2100-01-01T00:00:00Z''"
  "time_Date 1970 1 1 0 0 0 = unix_epoch"
  by code_simp+

definition TickingClock :: time where "TickingClock = time_Date 2026 1 1 0 0 0"

definition farFuture :: time where "farFuture = time_Date 2100 1 1 0 0 0"

definition millisecond :: duration where "millisecond = 1000000"
definition minute :: duration where "minute = 60 * second"
definition hour :: duration where "hour = 60 * minute"

section \<open>Helpers\<close>

definition expect :: "bool \<Rightarrow> string \<Rightarrow> client \<Rightarrow> client" where
  "expect ok complaint c = (if ok then c else Fatal complaint)"

text \<open>\<open>if !errors.Is (err, s) { t.Fatalf }\<close>\<close>

definition wants :: "sentinel \<Rightarrow> string \<Rightarrow> client \<Rightarrow> sentinel list + 'a \<Rightarrow> client" where
  "wants s complaint c r = (case r of Inl ss \<Rightarrow> expect (s \<in> set ss) complaint c | Inr _ \<Rightarrow> Fatal complaint)"

text \<open>\<open>if err != nil { t.Fatalf }\<close>\<close>

definition gets :: "string \<Rightarrow> ('a \<Rightarrow> client) \<Rightarrow> sentinel list + 'a \<Rightarrow> client" where
  "gets complaint k r = (case r of Inl _ \<Rightarrow> Fatal complaint | Inr x \<Rightarrow> k x)"

definition one_op :: "txop \<Rightarrow> body" where "one_op op = Do op (Commit None)"

definition newTask :: "TaskID \<Rightarrow> RunID \<Rightarrow> StepID \<Rightarrow> Task" where
  "newTask tid rid step = \<lparr>task_ID = tid, task_RunID = rid, task_StepID = step, task_Type = ''noop'',
     task_Payload = RawJSON (JObj []), task_Status = TaskPending, task_Attempt = 0, task_MaxAttempts = 3,
     task_LastError = [], task_CreatedAt = zero_time, task_UpdatedAt = zero_time, task_CompletedAt = None\<rparr>"

definition suite_run :: "RunID \<Rightarrow> Run" where
  "suite_run rid = \<lparr>run_ID = rid, run_AgentName = ''suite'', run_AgentVersion = ''v1'', run_Status = RunRunning,
     run_Version = 0, run_Input = RawJSON (JObj []), run_Output = RawNil, run_LastError = [],
     run_AvailableAt = None, run_CreatedAt = zero_time, run_UpdatedAt = zero_time, run_CompletedAt = None\<rparr>"

definition mustTx :: "body \<Rightarrow> (Lease option \<Rightarrow> client) \<Rightarrow> client" where
  "mustTx b k = InTx b (gets ''RunInTx'' k)"

definition mustDo :: "txop \<Rightarrow> client \<Rightarrow> client" where "mustDo op c = mustTx (one_op op) (\<lambda>_. c)"

definition mustCreateRun :: "RunID \<Rightarrow> client \<Rightarrow> client" where
  "mustCreateRun rid c = mustDo (OpCreateRun (suite_run rid)) c"

definition mustGetRun :: "RunID \<Rightarrow> (Run \<Rightarrow> client) \<Rightarrow> client" where
  "mustGetRun rid k = AskRun rid (gets ''GetRun'' k)"

definition to_status :: "RunStatus \<Rightarrow> RunState" where
  "to_status st = \<lparr>rs_Status = st, rs_Output = RawNil, rs_LastError = [], rs_AvailableAt = None\<rparr>"

definition no_error :: TaskOutcome where "no_error = \<lparr>to_Error = []\<rparr>"

text \<open>
  Documents by value: the members of an object as a map, of which the last of a repeated name
  counts. Numbers are compared exactly.
\<close>

fun json_value :: "json \<Rightarrow> json" where
  "json_value (JArr js) = JArr (map json_value js)"
| "json_value (JObj kvs) = JObj (sort_key fst (AList.clearjunk (rev (map (\<lambda>(k, j). (k, json_value j)) kvs))))"
| "json_value j = j"

definition assertJSONEqual :: "string \<Rightarrow> raw \<Rightarrow> raw \<Rightarrow> client \<Rightarrow> client" where
  "assertJSONEqual field got want c =
     (case (got, want) of
        (RawJSON g, RawJSON w) \<Rightarrow> expect (json_value g = json_value w) (field @ '' differs'') c
      | _ \<Rightarrow> Fatal (field @ '': not valid JSON''))"

definition ids :: "Task list \<Rightarrow> TaskID list" where "ids ts = map task_ID ts"

section \<open>Runs\<close>

definition testRunLifecycle :: client where
  "testRunLifecycle =
     (let rid = ''run-lifecycle''; out = RawJSON (JObj [(''ok'', JBool True)]) in
      mustCreateRun rid (
      mustGetRun rid (\<lambda>got.
      expect (run_Status got = RunRunning) ''new run status'' (
      expect (run_Version got = 0) ''new run version'' (
      expect (\<not> time_IsZero (run_CreatedAt got)) ''new run has zero CreatedAt'' (
      mustDo (OpAdvanceRun rid 0 ((to_status RunCompleted)\<lparr>rs_Output := out\<rparr>)) (
      mustGetRun rid (\<lambda>got.
      expect (run_Status got = RunCompleted) ''status'' (
      expect (run_Version got = 1) ''version after one advance'' (
      assertJSONEqual ''output'' (run_Output got) out (
      expect (run_CompletedAt got \<noteq> None) ''terminal run must have CompletedAt set'' Pass)))))))))))"

definition testAdvanceRunCAS :: client where
  "testAdvanceRunCAS =
     (let rid = ''run-cas'' in
      mustCreateRun rid (
      mustDo (OpAdvanceRun rid 0 (to_status RunRunning)) (
      InTx (one_op (OpAdvanceRun rid 0 (to_status RunCompleted))) (wants ErrConflict ''stale advance error'' (
      mustGetRun rid (\<lambda>got.
      expect (run_Version got = 1) ''the losing advance must not have applied'' Pass))))))"

definition testAdvanceRunTerminal :: client where
  "testAdvanceRunTerminal =
     (let rid = ''run-terminal'' in
      mustCreateRun rid (
      mustDo (OpAdvanceRun rid 0 (to_status RunCompleted)) (
      InTx (one_op (OpAdvanceRun rid 1 ((to_status RunFailed)\<lparr>rs_LastError := ''too late''\<rparr>)))
        (wants ErrInvalidTransition ''advancing a completed run'' Pass))))"

section \<open>Tasks\<close>

definition testCreateTaskIdempotent :: client where
  "testCreateTaskIdempotent =
     (let rid = ''run-dup-step'' in
      mustCreateRun rid (
      mustDo (OpCreateTask (newTask ''task-a'' rid (Step 1))) (
      InTx (one_op (OpCreateTask (newTask ''task-b'' rid (Step 1)))) (wants ErrTaskExists ''duplicate step error'' (
      AskTasks rid (\<lambda>tasks. expect (length tasks = 1) ''want 1 task'' Pass)))))) "

definition testClaimExclusive :: client where
  "testClaimExclusive =
     (let rid = ''run-claim''; tid = ''task-claim'';
          claim = InTx (one_op (OpTransitionTask tid TaskPending TaskRunning no_error)) in
      mustCreateRun rid (
      mustDo (OpCreateTask (newTask tid rid (Step 1))) (
      claim (gets ''first claim'' (\<lambda>_.
      claim (wants ErrConflict ''second claim'' (
      AskTask tid (gets ''GetTask'' (\<lambda>got.
      expect (task_Status got = TaskRunning) ''status'' (
      expect (task_Attempt got = 1) ''the losing claim must not have counted'' Pass))))))))))"

definition testPendingTasks :: client where
  "testPendingTasks =
     (let rid = ''run-pending''; pending = newTask ''task-pending'' rid (Step 1);
          claimed = newTask ''task-claimed'' rid (Step 2) in
      mustCreateRun rid (
      mustTx (Do (OpCreateTask pending) (Do (OpCreateTask claimed)
        (one_op (OpTransitionTask (task_ID claimed) TaskPending TaskRunning no_error)))) (\<lambda>_.
      AskPendingTasks 10 (\<lambda>got. expect (ids got = [task_ID pending]) ''PendingTasks'' Pass))))"

definition testAwaitingAdvance :: client where
  "testAwaitingAdvance =
     (let idle = ''run-idle''; busy = ''run-busy'' in
      mustCreateRun idle (
      mustCreateRun busy (
      mustDo (OpCreateTask (newTask ''task-busy'' busy (Step 1))) (
      AskAwaiting farFuture 10 (\<lambda>got.
      expect (got = [idle]) ''RunsAwaitingAdvance'' (
      mustDo (OpTransitionTask ''task-busy'' TaskPending TaskRunning no_error) (
      mustDo (OpTransitionTask ''task-busy'' TaskRunning TaskCompleted no_error) (
      AskAwaiting farFuture 10 (\<lambda>got.
      expect (length got = 2) ''want 2 runs awaiting advance'' Pass)))))))))"

section \<open>History\<close>

definition testAppendEventConditional :: client where
  "testAppendEventConditional =
     (let rid = ''run-events'' in
      mustCreateRun rid (
      case NewEvent rid 1 EventRunStarted [] (RunStartedData ''a'' [] RawNil) of
        Inl err \<Rightarrow> Fatal ''NewEvent''
      | Inr ev \<Rightarrow>
          mustTx (Record ev (Commit None)) (\<lambda>_.
          case NewEvent rid 1 EventTaskCreated (Step 1) (TaskCreatedData ''x'' [] RawNil) of
            Inl err \<Rightarrow> Fatal ''NewEvent''
          | Inr dup \<Rightarrow>
              InTx (Record dup (Commit None)) (wants ErrSeqConflict ''duplicate seq error'' Pass))))"

text \<open>\<open>core.NewEvent\<close> of a \<open>map[string]string\<close> with one entry, and \<open>Decode\<close> back into such a map.\<close>

definition map_event :: "RunID \<Rightarrow> int \<Rightarrow> EventType \<Rightarrow> string \<Rightarrow> string \<Rightarrow> Event" where
  "map_event rid seq typ k v = \<lparr>ev_RunID = rid, ev_Seq = seq, ev_Type = typ, ev_StepID = [],
     ev_Payload = RawJSON (JObj [(''v'', JNum PayloadVersion), (''data'', JObj [(k, JStr v)])]),
     ev_CreatedAt = zero_time\<rparr>"

definition Decode_strings :: "Event \<Rightarrow> go_error + (string \<times> json) list" where
  "Decode_strings e = (case Decode_body e of Inl err \<Rightarrow> Inl err
     | Inr kvs \<Rightarrow> if list_all (\<lambda>(k, j). case j of JStr _ \<Rightarrow> True | JNull \<Rightarrow> True | _ \<Rightarrow> False) kvs
                 then Inr kvs else Inl (decode_err e))"

fun append_all :: "RunID \<Rightarrow> EventType list \<Rightarrow> body" where
  "append_all rid [] = Commit None"
| "append_all rid (typ # typs) =
     ReadSeq rid (\<lambda>seq. Record (map_event rid seq typ ''t'' (EventType_text typ)) (append_all rid typs))"

definition testHistoryOrdered :: client where
  "testHistoryOrdered =
     (let rid = ''run-history'';
          types = [EventRunStarted, EventTaskCreated, EventTaskClaimed, EventTaskCompleted, EventRunCompleted] in
      mustCreateRun rid (
      mustTx (append_all rid types) (\<lambda>_.
      AskHistory rid (\<lambda>history.
      expect (length history = length types) ''number of events'' (
      expect (map ev_Seq history = map (\<lambda>i. int i + 1) [0..<length history])
        ''history must be gapless and ordered'' (
      expect (map ev_Type history = types) ''event type'' (
      case Decode_strings (hd history) of
        Inl err \<Rightarrow> Fatal ''Decode''
      | Inr decoded \<Rightarrow>
          expect (fst (g_str decoded ''t'') = EventType_text EventRunStarted) ''decoded payload'' Pass)))))))"

definition testRollback :: client where
  "testRollback =
     (let rid = ''run-rollback''; sentinel = ''deliberate failure'';
          task = newTask ''task-doomed'' rid (Step 9) in
      mustCreateRun rid (
      InTx (Do (OpCreateTask task)
             (case NewEvent rid 1 EventTaskCreated (Step 9) (TaskCreatedData (task_ID task) [] RawNil) of
                Inl err \<Rightarrow> Raise (err_text err)
              | Inr ev \<Rightarrow> Record ev (Raise sentinel)))
        (wants (OwnSentinel sentinel) ''want the sentinel'' (
      AskTasks rid (\<lambda>tasks.
      expect (length tasks = 0) ''rolled-back transaction left tasks behind'' (
      AskHistory rid (\<lambda>history.
      expect (length history = 0) ''rolled-back transaction left events behind'' Pass)))))))"

definition testNotFound :: client where
  "testNotFound =
     AskRun ''absent'' (wants ErrNotFound ''GetRun'' (
     AskTask ''absent'' (wants ErrNotFound ''GetTask'' (
     InTx (one_op (OpAdvanceRun ''absent'' 0 (to_status RunCompleted))) (wants ErrNotFound ''AdvanceRun'' Pass)))))"

end
