(* ===== verification/SuiteEffects.thy ===== *)
theory SuiteEffects
  imports Suite
begin

text \<open>The contract suite, continued: the effect ledger (core/storetest/effects.go).\<close>

section \<open>Helpers\<close>

definition newEffect :: "EffectID \<Rightarrow> IdempotencyKey \<Rightarrow> RunID \<Rightarrow> TaskID \<Rightarrow> Effect" where
  "newEffect i key rid tid = \<lparr>eff_ID = i, eff_TaskID = tid, eff_RunID = rid, eff_Type = ''send_email'',
     eff_Class = ClassIdempotentByKey, eff_Key = key, eff_Status = EffectPending,
     eff_Request = RawJSON (JObj [(''to'', JStr ''ana@example.com'')]), eff_Response = RawNil,
     eff_ExternalRef = [], eff_LastError = [], eff_CreatedAt = zero_time, eff_UpdatedAt = zero_time,
     eff_CommittedAt = None\<rparr>"

definition seedTask :: "RunID \<Rightarrow> TaskID \<Rightarrow> client \<Rightarrow> client" where
  "seedTask rid tid c = mustCreateRun rid (mustDo (OpCreateTask (newTask tid rid (Step 1))) c)"

definition seedEffect :: "RunID \<Rightarrow> TaskID \<Rightarrow> EffectClass \<Rightarrow> (IdempotencyKey \<Rightarrow> client) \<Rightarrow> client" where
  "seedEffect rid tid class k =
     (let key = NewIdempotencyKey rid (Step 1) 1 in
      seedTask rid tid (
      mustDo (OpReserveEffect ((newEffect ''effect-seed'' key rid tid)\<lparr>eff_Class := class\<rparr>)) (k key)))"

definition keysOf :: "Effect list \<Rightarrow> IdempotencyKey list" where "keysOf es = map eff_Key es"

definition idFor :: "int \<Rightarrow> string" where "idFor n = ''effect-'' @ show_int n"

definition no_answer :: EffectOutcome where
  "no_answer = \<lparr>eo_Response = RawNil, eo_ExternalRef = [], eo_Error = []\<rparr>"

definition move :: "IdempotencyKey \<Rightarrow> EffectStatus \<Rightarrow> EffectStatus \<Rightarrow> txop" where
  "move key frm to = OpTransitionEffect key frm to no_answer"

section \<open>Reservations\<close>

definition testReserveExclusive :: client where
  "testReserveExclusive =
     (let rid = ''run-reserve''; tid = ''task-reserve''; key = NewIdempotencyKey rid (Step 1) 1;
          first = newEffect ''effect-1'' key rid tid; second = newEffect ''effect-2'' key rid tid in
      seedTask rid tid (
      mustDo (OpReserveEffect first) (
      InTx (one_op (OpReserveEffect second)) (wants ErrEffectExists ''second reservation'' (
      AskEffect key (gets ''GetEffect after conflict'' (\<lambda>got.
      expect (eff_ID got = eff_ID first) ''want the first reservation'' (
      expect (eff_Status got = EffectPending) ''want PENDING'' Pass))))))))"

text \<open>
  Goroutines race to reserve one key. Their transactions take effect one after the other, in the
  order given; the counters are those of the test.
\<close>

fun race :: "IdempotencyKey \<Rightarrow> RunID \<Rightarrow> TaskID \<Rightarrow> int list \<Rightarrow> nat \<Rightarrow> nat \<Rightarrow> nat \<Rightarrow> (nat \<Rightarrow> nat \<Rightarrow> nat \<Rightarrow> client) \<Rightarrow> client" where
  "race key rid tid [] won lost unexpected k = k won lost unexpected"
| "race key rid tid (i # is) won lost unexpected k =
     InTx (one_op (OpReserveEffect (newEffect (idFor i) key rid tid))) (\<lambda>r. case r of
       Inr _ \<Rightarrow> race key rid tid is (Suc won) lost unexpected k
     | Inl ss \<Rightarrow>
         if ErrEffectExists \<in> set ss then race key rid tid is won (Suc lost) unexpected k
         else race key rid tid is won lost (Suc unexpected) k)"

definition attempts :: nat where "attempts = 24"

definition testReserveConcurrent :: "int list \<Rightarrow> client" where
  "testReserveConcurrent order =
     (let rid = ''run-race''; tid = ''task-race'' in
      seedTask rid tid (
      race (NewIdempotencyKey rid (Step 1) 1) rid tid order 0 0 0 (\<lambda>won lost unexpected.
      expect (unexpected = 0) ''unexpected errors racing to reserve'' (
      expect (won = 1) ''exactly 1 may reserve'' (
      expect (lost = attempts - 1) ''losers'' Pass)))))"

definition testReserveUnknownParents :: client where
  "testReserveUnknownParents =
     (let rid = ''run-parents''; tid = ''task-parents'' in
      seedTask rid tid (
      InTx (one_op (OpReserveEffect (newEffect ''e-orphan-run'' ''K:orphan:E1'' ''no-such-run'' tid)))
        (wants ErrNotFound ''effect on a missing run'' (
      InTx (one_op (OpReserveEffect (newEffect ''e-orphan-task'' ''K:orphan:E2'' rid ''no-such-task'')))
        (wants ErrNotFound ''effect on a missing task'' Pass)))))"

section \<open>Transitions\<close>

definition testEffectTransitionConditional :: client where
  "testEffectTransitionConditional =
     seedEffect ''run-cond'' ''task-cond'' ClassIdempotentByKey (\<lambda>key.
     mustDo (move key EffectPending EffectRunning) (
     InTx (one_op (move key EffectPending EffectRunning)) (wants ErrConflict ''stale transition'' Pass)))"

definition testEffectIllegalEdges :: client where
  "testEffectIllegalEdges =
     seedEffect ''run-edges'' ''task-edges'' ClassQueryable (\<lambda>key.
     InTx (one_op (move key EffectPending EffectCommitted)) (wants ErrInvalidTransition ''PENDING -> COMMITTED'' (
     InTx (one_op (move key EffectPending EffectUnknown)) (wants ErrInvalidTransition ''PENDING -> UNKNOWN'' Pass))))"

fun refuse_all :: "IdempotencyKey \<Rightarrow> EffectStatus list \<Rightarrow> client \<Rightarrow> client" where
  "refuse_all key [] c = c"
| "refuse_all key (to # tos) c =
     InTx (one_op (move key EffectCommitted to)) (wants ErrInvalidTransition ''COMMITTED -> other'' (refuse_all key tos c))"

definition testCommittedTerminal :: client where
  "testCommittedTerminal =
     seedEffect ''run-terminal'' ''task-terminal'' ClassIdempotentByKey (\<lambda>key.
     mustDo (move key EffectPending EffectRunning) (
     mustDo (OpTransitionEffect key EffectRunning EffectCommitted (no_answer\<lparr>eo_ExternalRef := ''pay_1''\<rparr>)) (
     refuse_all key [EffectRunning, EffectUnknown, EffectFailed] Pass)))"

definition testCommitRecordsResponse :: client where
  "testCommitRecordsResponse =
     (let response = RawJSON (JObj [(''reference'', JStr ''pay_98374'')]) in
      seedEffect ''run-commit'' ''task-commit'' ClassIdempotentByKey (\<lambda>key.
      mustDo (move key EffectPending EffectRunning) (
      mustDo (OpTransitionEffect key EffectRunning EffectCommitted
        \<lparr>eo_Response = response, eo_ExternalRef = ''pay_98374'', eo_Error = []\<rparr>) (
      AskEffect key (gets ''GetEffect'' (\<lambda>got.
      expect (eff_Status got = EffectCommitted) ''want COMMITTED'' (
      expect (eff_ExternalRef got = ''pay_98374'') ''external ref'' (
      assertJSONEqual ''response'' (eff_Response got) response (
      expect (eff_CommittedAt got \<noteq> None) ''a committed effect must record when the world changed'' Pass)))))))))"

section \<open>Reading the ledger\<close>

definition mk_effect :: "RunID \<Rightarrow> TaskID \<Rightarrow> int \<Rightarrow> EffectStatus \<Rightarrow> (IdempotencyKey \<Rightarrow> client) \<Rightarrow> client" where
  "mk_effect rid tid n target k =
     (let key = NewIdempotencyKey rid (Step n) 1 in
      mustDo (OpReserveEffect (newEffect (idFor n) key rid tid)) (
      if target = EffectPending then k key
      else mustDo (move key EffectPending EffectRunning) (
        if target \<noteq> EffectRunning then mustDo (move key EffectRunning target) (k key) else k key)))"

definition testUnresolvedEffects :: "time \<Rightarrow> client" where
  "testUnresolvedEffects wall =
     (let rid = ''run-unresolved''; tid = ''task-unresolved'' in
      seedTask rid tid (
      mk_effect rid tid 1 EffectRunning (\<lambda>running.
      mk_effect rid tid 2 EffectUnknown (\<lambda>unknown.
      mk_effect rid tid 3 EffectCommitted (\<lambda>_.
      mk_effect rid tid 4 EffectFailed (\<lambda>_.
      mk_effect rid tid 5 EffectPending (\<lambda>_.
      AskUnresolved (time_Add wall (24 * hour)) 10 (\<lambda>got.
      expect (running \<in> set (keysOf got) \<and> unknown \<in> set (keysOf got))
        ''RUNNING and UNKNOWN must both be found'' (
      expect (length got = 2) ''want exactly the RUNNING and UNKNOWN effects'' (
      AskUnresolved (time_Unix 0) 10 (\<lambda>got.
      expect (length got = 0) ''effects newer than the cutoff must be left alone'' Pass)))))))))))"

fun reserve_steps :: "RunID \<Rightarrow> TaskID \<Rightarrow> int list \<Rightarrow> IdempotencyKey list \<Rightarrow> (IdempotencyKey list \<Rightarrow> client) \<Rightarrow> client" where
  "reserve_steps rid tid [] want k = k want"
| "reserve_steps rid tid (i # is) want k =
     (let key = NewIdempotencyKey rid (Step i) 1 in
      mustDo (OpReserveEffect (newEffect (idFor i) key rid tid)) (reserve_steps rid tid is (want @ [key]) k))"

definition testListEffects :: client where
  "testListEffects =
     (let rid = ''run-audit''; tid = ''task-audit'' in
      seedTask rid tid (
      reserve_steps rid tid [1, 2, 3] [] (\<lambda>want.
      AskEffects rid (\<lambda>got.
      expect (length got = length want) ''number of effects'' (
      expect (keysOf got = want) ''audit order is creation order'' Pass)))))"

text \<open>The children of one decision, reserved back to front in one transaction.\<close>

fun reserve_children :: "RunID \<Rightarrow> TaskID \<Rightarrow> (nat \<times> StepID) list \<Rightarrow> body" where
  "reserve_children rid tid [] = Commit None"
| "reserve_children rid tid ((i, step) # rest) =
     Do (OpReserveEffect (newEffect (idFor (int i)) (NewIdempotencyKey rid step 1) rid tid)) (reserve_children rid tid rest)"

fun audit_sorted :: "Effect list \<Rightarrow> client \<Rightarrow> client" where
  "audit_sorted (prev # cur # rest) c =
     (if eff_CreatedAt cur < eff_CreatedAt prev then Fatal ''created before but comes after''
      else if eff_CreatedAt cur = eff_CreatedAt prev \<and> eff_Key cur < eff_Key prev then
        Fatal ''share a timestamp and are not in key order''
      else audit_sorted (cur # rest) c)"
| "audit_sorted _ c = c"

text \<open>The reads after the first, each compared with it.\<close>

fun read_again :: "RunID \<Rightarrow> nat \<Rightarrow> nat \<Rightarrow> IdempotencyKey list \<Rightarrow> client \<Rightarrow> client" where
  "read_again rid n 0 first c = c"
| "read_again rid n (Suc reads) first c =
     AskEffects rid (\<lambda>got.
     expect (length got = n) ''number of effects'' (
     expect (keysOf got = first) ''the audit trail must not reorder between reads'' (
     read_again rid n reads first c)))"

definition testAuditTrailStableUnderSiblings :: client where
  "testAuditTrailStableUnderSiblings =
     (let rid = ''run-siblings''; tid = ''task-siblings''; children = StepID_Children (Step 4) 5 in
      seedTask rid tid (
      mustTx (reserve_children rid tid (rev (enumerate 0 children))) (\<lambda>_.
      AskEffects rid (\<lambda>got.
      expect (length got = length children) ''number of effects'' (
      read_again rid (length children) 2 (keysOf got) (
      AskEffects rid (\<lambda>rows. audit_sorted rows Pass)))))))"

definition testEffectNotFound :: client where
  "testEffectNotFound =
     AskEffect ''R0:S0:E0'' (wants ErrNotFound ''GetEffect'' (
     InTx (one_op (move ''R0:S0:E0'' EffectPending EffectRunning)) (wants ErrNotFound ''TransitionEffect'' Pass)))"

end
