(* ===== verification/SuiteLeases.thy ===== *)
theory SuiteLeases
  imports SuiteEffects
begin

text \<open>The contract suite, continued: leases and fencing tokens (core/storetest/leases.go).\<close>

section \<open>Helpers\<close>

definition mustRegisterWorker :: "string \<Rightarrow> client \<Rightarrow> client" where
  "mustRegisterWorker wid c =
     mustDo (OpRegisterWorker \<lparr>worker_ID = wid, worker_Type = ''suite'', worker_Status = WorkerActive,
       worker_LastHeartbeat = None, worker_RegisteredAt = zero_time\<rparr>) c"

text \<open>The transaction commits with the lease it has acquired.\<close>

definition mustAcquire :: "TaskID \<Rightarrow> string \<Rightarrow> time \<Rightarrow> time \<Rightarrow> (Lease \<Rightarrow> client) \<Rightarrow> client" where
  "mustAcquire tid wid now expiresAt k =
     mustTx (Acquire tid wid now expiresAt (\<lambda>l. Commit (Some l)))
       (\<lambda>l. case l of Some lease \<Rightarrow> k lease | None \<Rightarrow> Fatal ''no lease'')"

definition two_workers :: "client \<Rightarrow> client" where
  "two_workers c = mustRegisterWorker ''worker-a'' (mustRegisterWorker ''worker-b'' c)"

section \<open>Ownership\<close>

definition testLeaseExclusive :: "time \<Rightarrow> client" where
  "testLeaseExclusive now =
     (let tid = ''task-lease'' in
      seedTask ''run-lease'' tid (
      two_workers (
      mustAcquire tid ''worker-a'' now (time_Add now minute) (\<lambda>lease.
      expect (lease_Token lease = 1) ''first token'' (
      InTx (Acquire tid ''worker-b'' now (time_Add now minute) (\<lambda>_. Commit None))
        (wants ErrLeaseHeld ''stealing a live lease'' Pass))))))"

definition testLeaseTakeover :: "time \<Rightarrow> client" where
  "testLeaseTakeover start =
     (let tid = ''task-takeover''; later = time_Add start (11 * second) in
      seedTask ''run-takeover'' tid (
      two_workers (
      mustAcquire tid ''worker-a'' start (time_Add start (10 * second)) (\<lambda>first.
      mustAcquire tid ''worker-b'' later (time_Add later minute) (\<lambda>second_lease.
      expect (lease_WorkerID second_lease = ''worker-b'') ''owner'' (
      expect (lease_Token first < lease_Token second_lease)
        ''a takeover must issue a strictly higher token'' Pass))))))"

fun reacquire :: "TaskID \<Rightarrow> nat \<Rightarrow> time \<Rightarrow> int \<Rightarrow> client \<Rightarrow> client" where
  "reacquire tid 0 t previous c = c"
| "reacquire tid (Suc n) t previous c =
     mustAcquire tid ''worker-a'' t (time_Add t second) (\<lambda>lease.
     expect (previous < lease_Token lease) ''tokens must strictly increase'' (
     reacquire tid n (time_Add t (2 * second)) (lease_Token lease) c))"

definition testTokenMonotonic :: "time \<Rightarrow> client" where
  "testTokenMonotonic now =
     (let tid = ''task-monotonic'' in
      seedTask ''run-monotonic'' tid (
      mustRegisterWorker ''worker-a'' (
      reacquire tid 5 now 0 Pass)))"

definition testStaleHeartbeat :: "time \<Rightarrow> client" where
  "testStaleHeartbeat start =
     (let tid = ''task-heartbeat''; later = time_Add start (2 * second) in
      seedTask ''run-heartbeat'' tid (
      two_workers (
      mustAcquire tid ''worker-a'' start (time_Add start second) (\<lambda>stale.
      mustAcquire tid ''worker-b'' later (time_Add later minute) (\<lambda>fresh.
      InTx (one_op (OpExtendLease tid (lease_Token stale) (time_Add later hour))) (wants ErrFenced ''stale heartbeat'' (
      mustDo (OpExtendLease tid (lease_Token fresh) (time_Add later hour)) Pass)))))))"

definition testStaleRelease :: "time \<Rightarrow> client" where
  "testStaleRelease start =
     (let tid = ''task-release''; later = time_Add start (2 * second) in
      seedTask ''run-release'' tid (
      two_workers (
      mustAcquire tid ''worker-a'' start (time_Add start second) (\<lambda>stale.
      mustAcquire tid ''worker-b'' later (time_Add later minute) (\<lambda>_.
      InTx (DoAt later (OpReleaseLease tid (lease_Token stale)) (Commit None)) (wants ErrFenced ''stale release'' Pass))))))"

definition testReleaseKeepsToken :: "time \<Rightarrow> client" where
  "testReleaseKeepsToken now =
     (let tid = ''task-keep'' in
      seedTask ''run-keep'' tid (
      two_workers (
      mustAcquire tid ''worker-a'' now (time_Add now hour) (\<lambda>first.
      mustTx (DoAt now (OpReleaseLease tid (lease_Token first)) (Commit None)) (\<lambda>_.
      mustAcquire tid ''worker-b'' now (time_Add now hour) (\<lambda>second_lease.
      expect (lease_Token first < lease_Token second_lease) ''releasing must not reset the counter'' Pass))))))"

definition testExpiredLeasesFiltering :: "time \<Rightarrow> client" where
  "testExpiredLeasesFiltering start =
     (let rid = ''run-reap''; open_task = ''task-open''; done_task = ''task-done'' in
      mustCreateRun rid (
      mustRegisterWorker ''worker-a'' (
      mustTx (Do (OpCreateTask (newTask open_task rid (Step 1)))
        (one_op (OpCreateTask (newTask done_task rid (Step 2))))) (\<lambda>_.
      mustAcquire open_task ''worker-a'' start (time_Add start second) (\<lambda>_.
      mustAcquire done_task ''worker-a'' start (time_Add start second) (\<lambda>_.
      mustDo (OpTransitionTask done_task TaskPending TaskRunning no_error) (
      mustDo (OpTransitionTask done_task TaskRunning TaskCompleted no_error) (
      AskExpired (time_Add start minute) 10 (\<lambda>expired.
      expect (map lease_TaskID expired = [open_task]) ''expired leases'' Pass)))))))))"

definition testClockSkewIsSurvivable :: "time \<Rightarrow> client" where
  "testClockSkewIsSurvivable start =
     (let tid = ''task-skew''; later = time_Add start (6 * second) in
      seedTask ''run-skew'' tid (
      mustRegisterWorker ''frozen-worker'' (
      mustRegisterWorker ''replacement'' (
      mustAcquire tid ''frozen-worker'' start (time_Add start (5 * second)) (\<lambda>frozen.
      mustAcquire tid ''replacement'' later (time_Add later minute) (\<lambda>replacement.
      expect (lease_WorkerID frozen \<noteq> lease_WorkerID replacement) ''the two owners must differ'' (
      InTx (one_op (OpExtendLease tid (lease_Token frozen) (time_Add later hour)))
        (wants ErrFenced ''frozen worker's heartbeat'' (
      InTx (DoAt later (OpReleaseLease tid (lease_Token frozen)) (Commit None))
        (wants ErrFenced ''frozen worker's release'' (
      mustTx (ReadLease tid (\<lambda>l. Commit (Some l))) (\<lambda>current. case current of
        None \<Rightarrow> Fatal ''no lease''
      | Some current \<Rightarrow>
          expect (lease_WorkerID current = ''replacement'' \<and> lease_Token current = lease_Token replacement)
            ''ownership'' Pass))))))))))))"

definition testLeaseNotFound :: "time \<Rightarrow> client" where
  "testLeaseNotFound now =
     (let tid = ''task-noleases'' in
      seedTask ''run-noleases'' tid (
      InTx (ReadLease tid (\<lambda>_. Commit None)) (wants ErrNotFound ''GetLease on an unclaimed task'' (
      InTx (one_op (OpExtendLease tid 1 (time_Add now minute)))
        (wants ErrNotFound ''ExtendLease on an unclaimed task'' Pass)))))"

end
