(* ===== verification/SuiteEvents.thy ===== *)
theory SuiteEvents
  imports SuiteLeases
begin

text \<open>
  The contract suite, continued: the outbox (core/storetest/outbox.go), parked runs
  (suspension.go) and signals (signals.go); and the whole suite.
\<close>

section \<open>The outbox\<close>

definition mustPendingAt :: "time \<Rightarrow> int \<Rightarrow> (Delivery list \<Rightarrow> client) \<Rightarrow> client" where
  "mustPendingAt now limit k = AskDeliveries now limit k"

definition mustPending :: "int \<Rightarrow> (Delivery list \<Rightarrow> client) \<Rightarrow> client" where
  "mustPending limit k = mustPendingAt farFuture limit k"

definition with_delivery :: "Task \<Rightarrow> time \<Rightarrow> body \<Rightarrow> body" where
  "with_delivery task availableAt b = Do (OpCreateTask task) (Do (OpEnqueueDelivery (task_ID task) availableAt) b)"

definition testDeliveryPending :: client where
  "testDeliveryPending =
     (let rid = ''run-outbox''; task = newTask ''task-outbox'' rid (Step 1) in
      mustCreateRun rid (
      mustTx (with_delivery task zero_time (Commit None)) (\<lambda>_.
      mustPending 10 (\<lambda>pending.
      expect (length pending = 1) ''want 1 pending delivery'' (
      expect (del_TaskID (pending ! 0) = task_ID task) ''delivery is for another task'' (
      expect (del_ID (pending ! 0) \<noteq> 0) ''delivery has no ID'' (
      expect (\<not> time_IsZero (del_CreatedAt (pending ! 0))) ''delivery has zero CreatedAt'' (
      expect (del_Attempts (pending ! 0) = 0) ''new delivery has attempts'' Pass))))))))"

definition testDeliveryAtomicWithTask :: client where
  "testDeliveryAtomicWithTask =
     (let rid = ''run-outbox-atomic''; boom = ''deliberate failure after enqueue'' in
      mustCreateRun rid (
      InTx (with_delivery (newTask ''task-doomed-delivery'' rid (Step 1)) zero_time (Raise boom))
        (wants (OwnSentinel boom) ''want the sentinel'' (
      mustPending 10 (\<lambda>pending.
      expect (length pending = 0) ''rolled-back transaction left deliveries behind'' (
      AskTasks rid (\<lambda>tasks.
      expect (length tasks = 0) ''rolled-back transaction left tasks behind'' Pass)))))))"

definition testMarkDelivered :: client where
  "testMarkDelivered =
     (let rid = ''run-outbox-mark''; first = newTask ''task-mark-1'' rid (Step 1);
          second_task = newTask ''task-mark-2'' rid (Step 2) in
      mustCreateRun rid (
      mustTx (with_delivery first zero_time (with_delivery second_task zero_time (Commit None))) (\<lambda>_.
      mustPending 10 (\<lambda>pending.
      expect (length pending = 2) ''want 2 pending deliveries'' (
      mustDo (OpMarkDelivered [del_ID (pending ! 0)]) (
      mustPending 10 (\<lambda>left.
      expect (length left = 1) ''want 1 after marking one'' (
      expect (del_ID (left ! 0) = del_ID (pending ! 1)) ''wrong delivery left pending'' (
      mustDo (OpMarkDelivered [del_ID (pending ! 0)]) (
      mustDo (OpMarkDelivered []) Pass))))))))))"

definition testFailDelivery :: client where
  "testFailDelivery =
     (let rid = ''run-outbox-fail''; task = newTask ''task-fail-delivery'' rid (Step 1) in
      mustCreateRun rid (
      mustTx (with_delivery task zero_time (Commit None)) (\<lambda>_.
      mustPending 10 (\<lambda>pending.
      mustDo (OpFailDelivery (del_ID (pending ! 0)) ''broker unreachable'') (
      mustPending 10 (\<lambda>failed.
      expect (length failed = 1) ''a failed publish must not drop the task'' (
      expect (del_Attempts (failed ! 0) = 1) ''attempts'' (
      expect (del_LastError (failed ! 0) = ''broker unreachable'') ''last error'' (
      mustDo (OpFailDelivery (del_ID (pending ! 0)) ''still unreachable'') (
      mustPending 10 (\<lambda>again.
      expect (del_Attempts (again ! 0) = 2) ''failures accumulate'' Pass)))))))))))"

fun announce_tasks :: "RunID \<Rightarrow> (nat \<times> TaskID) list \<Rightarrow> client \<Rightarrow> client" where
  "announce_tasks rid [] c = c"
| "announce_tasks rid ((i, tid) # rest) c =
     mustTx (with_delivery (newTask tid rid (Step (int i + 1))) zero_time (Commit None)) (\<lambda>_. announce_tasks rid rest c)"

definition testDeliveryOrder :: client where
  "testDeliveryOrder =
     (let rid = ''run-outbox-order''; want = [''task-o1'', ''task-o2'', ''task-o3''] in
      mustCreateRun rid (
      announce_tasks rid (enumerate 0 want) (
      mustPending 2 (\<lambda>pending.
      expect (length pending = 2) ''want 2 deliveries for limit 2'' (
      expect (map del_TaskID pending = take 2 want) ''oldest first'' Pass)))))"

definition testDeliveryNeedsTask :: client where
  "testDeliveryNeedsTask =
     InTx (one_op (OpEnqueueDelivery ''task-that-does-not-exist'' zero_time))
       (wants ErrNotFound ''EnqueueDelivery for an absent task'' Pass)"

definition testDelayedDelivery :: client where
  "testDelayedDelivery =
     (let rid = ''run-outbox-delayed''; task = newTask ''task-delayed'' rid (Step 1);
          readyAt = time_Date 2030 1 1 0 0 0 in
      mustCreateRun rid (
      mustTx (with_delivery task readyAt (Commit None)) (\<lambda>_.
      mustPendingAt (time_Add readyAt (- second)) 10 (\<lambda>pending.
      expect (length pending = 0) ''before their instant'' (
      mustPendingAt (time_Add readyAt second) 10 (\<lambda>pending.
      expect (length pending = 1) ''after their instant'' (
      expect (del_TaskID (pending ! 0) = task_ID task) ''delivery is for another task'' (
      mustPendingAt readyAt 10 (\<lambda>pending.
      expect (length pending = 1) ''exactly at their instant'' Pass)))))))))"

section \<open>Parked runs\<close>

definition parked_until :: "time \<Rightarrow> RunState" where
  "parked_until t = (to_status RunRunning)\<lparr>rs_AvailableAt := Some t\<rparr>"

definition testAvailableAtRoundTrips :: client where
  "testAvailableAtRoundTrips =
     (let rid = ''run-parked''; wake_at = time_Date 2026 9 22 9 30 0 in
      mustCreateRun rid (
      mustGetRun rid (\<lambda>got.
      expect (run_AvailableAt got = None) ''nil is what ready means'' (
      mustDo (OpAdvanceRun rid 0 (parked_until wake_at)) (
      mustGetRun rid (\<lambda>got.
      expect (run_AvailableAt got \<noteq> None) ''AvailableAt was not persisted'' (
      expect (run_AvailableAt got = Some wake_at) ''AvailableAt'' (
      expect (Run_IsWaiting got (time_Add wake_at (- second))) ''does not read as waiting'' (
      expect (\<not> Run_IsWaiting got (time_Add wake_at second)) ''a past park means ready, not late'' (
      mustDo (OpAdvanceRun rid 1 (parked_until Indefinite)) (
      mustGetRun rid (\<lambda>got.
      expect (case run_AvailableAt got of None \<Rightarrow> False | Some t \<Rightarrow> IsIndefinite t)
        ''want an indefinite park'' Pass))))))))))))"

definition testAdvancingClearsThePark :: client where
  "testAdvancingClearsThePark =
     (let rid = ''run-unparked''; wake_at = time_Date 2026 9 22 9 30 0 in
      mustCreateRun rid (
      mustDo (OpAdvanceRun rid 0 (parked_until wake_at)) (
      mustDo (OpAdvanceRun rid 1 (to_status RunRunning)) (
      mustGetRun rid (\<lambda>got.
      expect (run_AvailableAt got = None) ''AvailableAt after an ordinary advance'' Pass)))))"

definition testScanLeavesAWaitingRunAlone :: client where
  "testScanLeavesAWaitingRunAlone =
     (let now = time_Date 2026 9 20 12 0 0; ready = ''run-ready''; sleeping = ''run-sleeping'';
          parked = ''run-parked-forever'' in
      mustCreateRun ready (
      mustCreateRun sleeping (
      mustCreateRun parked (
      mustDo (OpAdvanceRun sleeping 0 (parked_until (time_Add now (24 * hour)))) (
      mustDo (OpAdvanceRun parked 0 (parked_until Indefinite)) (
      AskAwaiting now 10 (\<lambda>got.
      expect (got = [ready]) ''a parked run must not be swept up'' Pass)))))))"

definition testExpiredParkIsPickedUpNormally :: client where
  "testExpiredParkIsPickedUpNormally =
     (let now = time_Date 2026 9 20 12 0 0; rid = ''run-overdue'' in
      mustCreateRun rid (
      mustDo (OpAdvanceRun rid 0 (parked_until (time_Add now (- (72 * hour))))) (
      AskAwaiting now 10 (\<lambda>got.
      expect (got = [rid]) ''a park in the past means ready, not late'' (
      mustDo (OpAdvanceRun rid 1 (parked_until now)) (
      AskAwaiting now 10 (\<lambda>got.
      expect (length got = 1) ''the comparison must be inclusive'' Pass)))))))"

text \<open>The test ranges over a Go map of two runs, so in either order.\<close>

fun park_runs :: "(RunID \<times> time) list \<Rightarrow> client \<Rightarrow> client" where
  "park_runs [] c = c"
| "park_runs ((rid, t) # rest) c = mustCreateRun rid (mustDo (OpAdvanceRun rid 0 (parked_until t)) (park_runs rest c))"

definition testNextWakeUpFindsTheEarliestPark :: "bool \<Rightarrow> client" where
  "testNextWakeUpFindsTheEarliestPark soon_first =
     (let now = time_Date 2026 9 20 12 0 0; soon = time_Add now second; later = time_Add now (7 * 24 * hour);
          parks = (if soon_first then [(''run-soon'', soon), (''run-later'', later)]
                   else [(''run-later'', later), (''run-soon'', soon)]) in
      AskNextWakeUp now (\<lambda>got.
      expect (got = None) ''NextWakeUp on an empty store'' (
      park_runs parks (
      AskNextWakeUp now (\<lambda>got.
      expect (got = Some soon) ''want the earliest park'' (
      AskNextWakeUp later (\<lambda>got.
      expect (got = None) ''NextWakeUp past every park'' (
      AskNextWakeUp soon (\<lambda>got.
      expect (got \<noteq> None) ''the later one is still ahead'' Pass)))))))))"

definition testNextWakeUpIgnoresFinishedRuns :: client where
  "testNextWakeUpIgnoresFinishedRuns =
     (let now = time_Date 2026 9 20 12 0 0; wake_at = time_Add now hour; rid = ''run-done-but-parked'' in
      mustCreateRun rid (
      mustDo (OpAdvanceRun rid 0 (parked_until wake_at)) (
      mustDo (OpAdvanceRun rid 1 ((to_status RunCompleted)\<lparr>rs_AvailableAt := Some wake_at\<rparr>)) (
      AskNextWakeUp now (\<lambda>got.
      expect (got = None) ''a finished run must not wake the loop'' Pass)))))"

section \<open>Signals\<close>

definition suite_signal :: "RunID \<Rightarrow> SignalID \<Rightarrow> string \<Rightarrow> raw \<Rightarrow> Signal" where
  "suite_signal rid sid name payload =
     \<lparr>sig_RunID = rid, sig_ID = sid, sig_Name = name, sig_Payload = payload, sig_CreatedAt = zero_time\<rparr>"

definition testSignalsRoundTrip :: client where
  "testSignalsRoundTrip =
     (let rid = ''run-signalled''; payload = RawJSON (JObj [(''approved_by'', JStr ''ops'')]) in
      mustCreateRun rid (
      AskSignals rid ''approval'' (\<lambda>got.
      expect (length got = 0) ''want none'' (
      mustDo (OpRecordSignal (suite_signal rid ''cb-1'' ''approval'' payload)) (
      AskSignals rid ''approval'' (\<lambda>got.
      expect (length got = 1) ''want 1'' (
      expect (sig_ID (got ! 0) = ''cb-1'' \<and> sig_Name (got ! 0) = ''approval'') ''got another signal'' (
      expect (\<not> time_IsZero (sig_CreatedAt (got ! 0))) ''a stored signal has no CreatedAt'' (
      assertJSONEqual ''payload'' (sig_Payload (got ! 0)) payload (
      AskSignals rid ''cancellation'' (\<lambda>other.
      expect (length other = 0) ''a signal named approval answered a read for cancellation'' Pass)))))))))))"

definition testSignalDedup :: client where
  "testSignalDedup =
     (let rid = ''run-retried-callback'';
          record_it = InTx (one_op (OpRecordSignal (suite_signal rid ''cb-1'' ''approval'' (RawJSON (JObj [(''n'', JNum 1)]))))) in
      mustCreateRun rid (
      record_it (gets ''first arrival'' (\<lambda>_.
      record_it (wants ErrSignalExists ''second arrival under the same id'' (
      AskSignals rid ''approval'' (\<lambda>got.
      expect (length got = 1) ''want 1'' Pass)))))))"

fun record_all :: "RunID \<Rightarrow> SignalID list \<Rightarrow> client \<Rightarrow> client" where
  "record_all rid [] c = c"
| "record_all rid (sid # rest) c = mustDo (OpRecordSignal (suite_signal rid sid ''tick'' RawNil)) (record_all rid rest c)"

fun read_signals :: "RunID \<Rightarrow> nat \<Rightarrow> client \<Rightarrow> client" where
  "read_signals rid 0 c = c"
| "read_signals rid (Suc n) c =
     AskSignals rid ''tick'' (\<lambda>got.
     expect (length got = 3) ''want 3'' (
     expect (map sig_ID got = [''c'', ''a'', ''b'']) ''arrival order'' (read_signals rid n c)))"

definition testSignalOrder :: client where
  "testSignalOrder =
     (let rid = ''run-many-signals'' in
      mustCreateRun rid (
      record_all rid [''c'', ''a'', ''b''] (
      read_signals rid 3 Pass)))"

definition testReleaseRun :: "time \<Rightarrow> client" where
  "testReleaseRun now =
     (let rid = ''run-released'' in
      mustCreateRun rid (
      mustDo (OpAdvanceRun rid 0 (parked_until Indefinite)) (
      mustGetRun rid (\<lambda>before.
      expect (run_AvailableAt before \<noteq> None) ''the run did not park'' (
      mustDo (OpReleaseRun rid) (
      mustGetRun rid (\<lambda>after.
      expect (run_AvailableAt after = None) ''AvailableAt after release'' (
      expect (run_Version after = run_Version before) ''releasing is not advancing'' (
      expect (run_Status after = RunRunning) ''status after release'' (
      AskAwaiting now 10 (\<lambda>awaiting.
      expect (awaiting = [rid]) ''want the released run'' (
      InTx (one_op (OpReleaseRun ''run-that-does-not-exist'')) (wants ErrNotFound ''releasing an unknown run'' Pass)))))))))))))"

definition testSignalAndReleaseAreAtomic :: client where
  "testSignalAndReleaseAreAtomic =
     (let rid = ''run-atomic-signal''; boom = ''the process died here'';
          arrive = (\<lambda>sid b. Do (OpRecordSignal (suite_signal rid sid ''approval'' RawNil)) (Do (OpReleaseRun rid) b)) in
      mustCreateRun rid (
      mustDo (OpAdvanceRun rid 0 (parked_until Indefinite)) (
      InTx (arrive ''cb-doomed'' (Raise boom)) (wants (OwnSentinel boom) ''want the caller's error'' (
      AskSignals rid ''approval'' (\<lambda>got.
      expect (length got = 0) ''a rolled-back signal survived'' (
      mustGetRun rid (\<lambda>run.
      expect (run_AvailableAt run \<noteq> None) ''a rolled-back release un-parked the run anyway'' (
      mustTx (arrive ''cb-real'' (Commit None)) (\<lambda>_.
      AskSignals rid ''approval'' (\<lambda>got.
      expect (length got = 1) ''want 1'' (
      mustGetRun rid (\<lambda>run.
      expect (run_AvailableAt run = None) ''the signal landed but the run is still parked'' Pass)))))))))))))"

section \<open>The suite\<close>

text \<open>
  The contracts in the order of the files; \<open>wall\<close> is what \<open>time.Now\<close> shows, \<open>order\<close> the order in
  which the racing goroutines get through and \<open>soon_first\<close> that of the map of parked runs.
\<close>

definition suspensionContracts :: "bool \<Rightarrow> (string \<times> client) list" where
  "suspensionContracts soon_first =
     [(''AvailableAtRoundTrips'', testAvailableAtRoundTrips),
      (''AdvancingClearsThePark'', testAdvancingClearsThePark),
      (''TheScanLeavesAWaitingRunAlone'', testScanLeavesAWaitingRunAlone),
      (''AnExpiredParkIsPickedUpNormally'', testExpiredParkIsPickedUpNormally),
      (''NextWakeUpFindsTheEarliestPark'', testNextWakeUpFindsTheEarliestPark soon_first),
      (''NextWakeUpIgnoresFinishedRuns'', testNextWakeUpIgnoresFinishedRuns)]"

definition signalContracts :: "time \<Rightarrow> (string \<times> client) list" where
  "signalContracts wall =
     [(''SignalsRoundTrip'', testSignalsRoundTrip),
      (''ASignalIsDedupedBySenderID'', testSignalDedup),
      (''SignalsComeBackInArrivalOrder'', testSignalOrder),
      (''ReleaseRunClearsTheParkWithoutAdvancing'', testReleaseRun wall),
      (''RecordingAndReleasingCommitTogether'', testSignalAndReleaseAreAtomic)]"

definition effectContracts :: "time \<Rightarrow> int list \<Rightarrow> (string \<times> client) list" where
  "effectContracts wall order =
     [(''ReserveIsExclusive'', testReserveExclusive),
      (''ReserveUnderConcurrencyAdmitsOne'', testReserveConcurrent order),
      (''ReserveRejectsUnknownParents'', testReserveUnknownParents),
      (''TransitionIsConditional'', testEffectTransitionConditional),
      (''TransitionRejectsIllegalEdges'', testEffectIllegalEdges),
      (''CommittedIsTerminal'', testCommittedTerminal),
      (''CommitRecordsTheProvidersAnswer'', testCommitRecordsResponse),
      (''UnresolvedFindsAmbiguousEffects'', testUnresolvedEffects wall),
      (''ListEffectsIsTheAuditTrail'', testListEffects),
      (''TheAuditTrailIsStableUnderSiblings'', testAuditTrailStableUnderSiblings),
      (''MissingEffectReportsNotFound'', testEffectNotFound)]"

definition leaseContracts :: "time \<Rightarrow> (string \<times> client) list" where
  "leaseContracts wall =
     [(''LeaseIsExclusiveWhileLive'', testLeaseExclusive wall),
      (''ExpiredLeaseCanBeTakenOver'', testLeaseTakeover wall),
      (''FencingTokenOnlyEverIncreases'', testTokenMonotonic wall),
      (''StaleWorkerCannotHeartbeat'', testStaleHeartbeat wall),
      (''StaleWorkerCannotRelease'', testStaleRelease wall),
      (''ReleaseMakesTaskReclaimableButKeepsTheToken'', testReleaseKeepsToken wall),
      (''ExpiredLeasesExcludeFinishedTasks'', testExpiredLeasesFiltering wall),
      (''TwoWorkersCanBelieveTheyHoldOneLease'', testClockSkewIsSurvivable wall),
      (''MissingLeaseReportsNotFound'', testLeaseNotFound wall)]"

definition outboxContracts :: "(string \<times> client) list" where
  "outboxContracts =
     [(''EnqueuedDeliveryIsPending'', testDeliveryPending),
      (''DeliveryCommitsWithItsTask'', testDeliveryAtomicWithTask),
      (''MarkDeliveredClearsItFromPending'', testMarkDelivered),
      (''FailedDeliveryStaysPendingAndCounts'', testFailDelivery),
      (''PendingDeliveriesAreOldestFirst'', testDeliveryOrder),
      (''DeliveryRequiresARealTask'', testDeliveryNeedsTask),
      (''ADelayedDeliveryIsNotPendingUntilItsInstant'', testDelayedDelivery)]"

definition coreContracts :: "(string \<times> client) list" where
  "coreContracts =
     [(''RunLifecycle'', testRunLifecycle),
      (''AdvanceRunIsCompareAndSwap'', testAdvanceRunCAS),
      (''AdvanceRunRejectsTerminal'', testAdvanceRunTerminal),
      (''CreateTaskIsIdempotentPerStep'', testCreateTaskIdempotent),
      (''ClaimIsExclusive'', testClaimExclusive),
      (''AppendEventIsConditional'', testAppendEventConditional),
      (''HistoryIsOrderedAndGapless'', testHistoryOrdered),
      (''RollbackLeavesNothing'', testRollback),
      (''MissingRecordsReportNotFound'', testNotFound),
      (''PendingTasksReturnsDispatchable'', testPendingTasks),
      (''RunsAwaitingAdvanceExcludesInFlight'', testAwaitingAdvance)]"

text \<open>Every test gets a store of its own: \<open>fresh\<close> runs a client on an empty one.\<close>

definition RunStoreSuite :: "(client \<Rightarrow> verdict) \<Rightarrow> time \<Rightarrow> int list \<Rightarrow> bool \<Rightarrow> (string \<times> verdict) list" where
  "RunStoreSuite fresh wall order soon_first =
     map (\<lambda>(name, c). (name, fresh c))
       (coreContracts @ suspensionContracts soon_first @ signalContracts wall @ effectContracts wall order
        @ leaseContracts wall @ outboxContracts)"

definition on_memory :: "client \<Rightarrow> verdict" where
  "on_memory c = fst (mem_client as_stored c TickingClock newState)"

definition on_postgres :: "dialect \<Rightarrow> client \<Rightarrow> verdict" where
  "on_postgres D c = fst (pg_client D c TickingClock empty_database)"

definition suite_passes :: "(string \<times> verdict) list \<Rightarrow> bool" where
  "suite_passes rs \<longleftrightarrow> list_all (\<lambda>(name, v). v = Passed) rs"

end
