(* ===== verification/SuiteRace.thy ===== *)
theory SuiteRace
  imports SuiteEvents
begin

text \<open>
  The race for one idempotency key (testReserveConcurrent): whatever the order and the number of
  the racers, one reserves it and every other is told that it exists. In memory first, then on
  PostgreSQL, where the racers' identities are keys of their own and have to be distinct.
\<close>

lemma one_op_body: "RunInTx (mem_body (one_op op) t) s =
    (case mem_op (ticking_Now t) op s of
       (Inl err, s') \<Rightarrow> (Inl err, s\<lparr>st_deliverySeq := st_deliverySeq s'\<rparr>)
     | (Inr _, s') \<Rightarrow> (Inr (None, ticking_Now t), s'))"
  by (auto simp: one_op_def RunInTx_def tx_bind_def tx_return_def split: prod.split sum.split)

lemma race_lost:
  assumes "map_of (st_runs s) rid \<noteq> None" "map_of (st_tasks s) tid \<noteq> None" "map_of (st_effects s) key \<noteq> None"
  shows "mem_client V (race key rid tid order won lost u k) t s = mem_client V (k won (lost + length order) u) t s"
proof (induction order arbitrary: lost)
  case (Cons i order)
  have "mem_op (ticking_Now t) (OpReserveEffect (newEffect (idFor i) key rid tid)) s
      = (Inl (wrap (''effect '' @ key) ErrEffectExists), s)"
    using assms by (auto simp: ReserveEffect_def newEffect_def EffectStatus_Valid_def EffectClass_Valid_def)
  then show ?case using Cons.IH [of "Suc lost"] by (simp add: one_op_body wrap_def wrap_err_def sentinel_err_def)
qed simp

lemma race_won:
  assumes "map_of (st_runs s) rid \<noteq> None" "map_of (st_tasks s) tid \<noteq> None" "map_of (st_effects s) key = None"
    and "order \<noteq> []"
  shows "\<exists>t' s'. \<forall>k. mem_client V (race key rid tid order 0 0 0 k) t s = mem_client V (k 1 (length order - 1) 0) t' s'"
proof -
  obtain i rest where order: "order = i # rest" using assms(4) by (cases order) auto
  obtain s' where s': "ReserveEffect (ticking_Now t) (newEffect (idFor i) key rid tid) s = (Inr (), s')"
    and now: "map_of (st_runs s') rid \<noteq> None" "map_of (st_tasks s') tid \<noteq> None" "map_of (st_effects s') key \<noteq> None"
    using assms(1-3) by (simp add: ReserveEffect_def newEffect_def EffectStatus_Valid_def EffectClass_Valid_def)
  have "mem_client V (race key rid tid order 0 0 0 k) t s = mem_client V (k 1 (length order - 1) 0) (ticking_Now t) s'" for k
    using race_lost [OF now, of V rest 1 0 0 k "ticking_Now t"] by (simp add: order one_op_body s')
  then show ?thesis by blast
qed

lemma mustDo_runs: "mem_op (ticking_Now t) op s = (Inr (), s')
    \<Longrightarrow> mem_client V (mustDo op c) t s = mem_client V c (ticking_Now t) s'"
  by (simp add: mustDo_def mustTx_def gets_def one_op_body)

lemma seedTask_runs:
  obtains t' s' where "map_of (st_runs s') rid \<noteq> None" "map_of (st_tasks s') tid \<noteq> None" "st_effects s' = []"
    "\<And>c. mem_client V (seedTask rid tid c) t newState = mem_client V c t' s'"
proof -
  obtain s1 where s1: "mem_op (ticking_Now t) (OpCreateRun (suite_run rid)) newState = (Inr (), s1)"
    "map_of (st_runs s1) rid \<noteq> None" "st_effects s1 = []" "st_tasks s1 = []" "st_stepIndex s1 = []"
    by (simp add: CreateRun_def newState_def suite_run_def RunStatus_Valid_def)
  obtain s2 where s2: "mem_op (ticking_Now (ticking_Now t)) (OpCreateTask (newTask tid rid (Step 1))) s1 = (Inr (), s2)"
    "st_runs s2 = st_runs s1" "map_of (st_tasks s2) tid \<noteq> None" "st_effects s2 = []"
    using s1 by (auto simp: CreateTask_def newTask_def TaskStatus_Valid_def Let_def)
  show ?thesis
    by (rule that [of s2 "ticking_Now (ticking_Now t)"])
      (use s1 s2 in \<open>simp_all only: seedTask_def mustCreateRun_def mustDo_runs [OF s1(1)] mustDo_runs [OF s2(1)]\<close>, auto)
qed

lemma race_passes: "length order = attempts \<Longrightarrow> on_memory (testReserveConcurrent order) = Passed"
proof -
  assume len: "length order = attempts"
  then have ne: "order \<noteq> []" by (auto simp: attempts_def)
  obtain t' s' where there: "map_of (st_runs s') ''run-race'' \<noteq> None" "map_of (st_tasks s') ''task-race'' \<noteq> None"
      "map_of (st_effects s') (NewIdempotencyKey ''run-race'' (Step 1) 1) = None"
    and seeded: "\<And>c. mem_client as_stored (seedTask ''run-race'' ''task-race'' c) TickingClock newState
       = mem_client as_stored c t' s'"
    by (rule seedTask_runs [of "''run-race''" "''task-race''" as_stored TickingClock]) auto
  from race_won [OF there ne] obtain u v where
    "\<And>k. mem_client as_stored (race (NewIdempotencyKey ''run-race'' (Step 1) 1) ''run-race'' ''task-race'' order 0 0 0 k) t' s'
      = mem_client as_stored (k 1 (length order - 1) 0) u v" by blast
  then show ?thesis by (simp add: on_memory_def testReserveConcurrent_def Let_def seeded len expect_def)
qed

section \<open>On PostgreSQL\<close>

lemma show_int_inj: "show_int i = show_int j \<longleftrightarrow> i = j"
proof -
  have "show_nat n \<noteq> CHR ''-'' # s" for n s
  proof
    assume "show_nat n = CHR ''-'' # s"
    with show_nat_digits [of n] have "is_digit (CHR ''-'')" by simp
    then show False by code_simp
  qed
  then show ?thesis by (auto simp: show_int_def) metis+
qed

lemma idFor_inj: "idFor i = idFor j \<longleftrightarrow> i = j"
  by (simp add: idFor_def show_int_inj)

lemma pg_one_op: "Pg_RunInTx (pg_body D (one_op op) t) p =
    (case pg_op D (ticking_Now t) op (p\<lparr>pg_aborted := False\<rparr>) of
       (Inl err, q) \<Rightarrow> (Inl err, p\<lparr>pg_outbox_seq := pg_outbox_seq q\<rparr>)
     | (Inr _, q) \<Rightarrow> if pg_aborted q
         then (Inl (wrap_err ''commit'' (errors_New ''pq: Could not complete operation in a failed transaction'')),
               p\<lparr>pg_outbox_seq := pg_outbox_seq q\<rparr>)
         else (Inr (None, ticking_Now t), q))"
  by (auto simp: one_op_def Pg_RunInTx_def pbind_def preturn_def split: prod.split sum.split)

definition race_request :: raw where
  "race_request = RawJSON (JObj [(''to'', JStr ''ana@example.com'')])"

text \<open>The parents of the effect are in the tables, and JSONB takes the request.\<close>

definition race_open :: "dialect \<Rightarrow> RunID \<Rightarrow> TaskID \<Rightarrow> pgstate \<Rightarrow> bool" where
  "race_open D rid tid p \<longleftrightarrow> present rr_run_id rid (pg_runs p) \<and> present tr_task_id tid (pg_tasks p)
     \<and> (\<exists>x. jsonb D race_request = Inr x)"

definition taken_by :: "int \<Rightarrow> IdempotencyKey \<Rightarrow> pgstate \<Rightarrow> bool" where
  "taken_by i key p \<longleftrightarrow> (\<exists>row. pg_effects p = [row] \<and> fr_effect_id row = idFor i \<and> fr_idempotency_key row = key)"

lemma pg_loses:
  assumes "race_open D rid tid p" and "taken_by i key p" and "j \<noteq> i"
  shows "\<exists>err. Pg_RunInTx (pg_body D (one_op (OpReserveEffect (newEffect (idFor j) key rid tid))) t) p = (Inl err, p)
    \<and> ErrEffectExists \<in> set (err_chain err)"
proof -
  from assms(1) obtain x where x: "jsonb D (jsonOrNull race_request) = Inr x"
    by (auto simp: race_open_def race_request_def jsonOrNull_def raw_empty_def)
  have "eff_Request (newEffect (idFor j) key rid tid) = race_request" by (simp add: newEffect_def race_request_def)
  with x assms(2,3) show ?thesis
    by (auto simp: pg_one_op Pg_ReserveEffect_def newEffect_def EffectStatus_Valid_def EffectClass_Valid_def
        race_request_def taken_by_def present_def idFor_inj sql_insert_def exec_stmt_def checked_def and_then_def
        translated_def translate_def unique_violation_def Let_def wrap_def wrap_err_def sentinel_err_def)
qed

lemma pg_wins:
  assumes "race_open D rid tid p" and "pg_effects p = []"
  shows "\<exists>q. Pg_RunInTx (pg_body D (one_op (OpReserveEffect (newEffect (idFor i) key rid tid))) t) p
      = (Inr (None, ticking_Now t), q) \<and> race_open D rid tid q \<and> taken_by i key q"
proof -
  from assms(1) obtain x where x: "jsonb D (jsonOrNull race_request) = Inr x"
    by (auto simp: race_open_def race_request_def jsonOrNull_def raw_empty_def)
  then have "Pg_ReserveEffect D (ticking_Now t) (newEffect (idFor i) key rid tid) (p\<lparr>pg_aborted := False\<rparr>) = (Inr (), p\<lparr>pg_aborted := False, pg_effects :=
      [\<lparr>fr_effect_id = idFor i, fr_task_id = tid, fr_run_id = rid, fr_effect_type = ''send_email'',
        fr_effect_class = ClassIdempotentByKey, fr_idempotency_key = key, fr_status = EffectPending, fr_request = x,
        fr_response = None, fr_external_ref = None, fr_last_error = None, fr_created_at = db_stamp D (ticking_Now t),
        fr_updated_at = db_stamp D (ticking_Now t), fr_committed_at = None\<rparr>]\<rparr>)"
    using assms by (auto simp: Pg_ReserveEffect_def newEffect_def EffectStatus_Valid_def EffectClass_Valid_def
        race_request_def race_open_def present_def sql_insert_def exec_stmt_def checked_def and_then_def translated_def)
  then show ?thesis using assms(1) by (simp add: pg_one_op race_open_def taken_by_def)
qed

lemma pg_race_lost:
  assumes "race_open D rid tid p" and "taken_by i key p" and "i \<notin> set order"
  shows "pg_client D (race key rid tid order won lost u k) t p = pg_client D (k won (lost + length order) u) t p"
  using assms(3)
proof (induction order arbitrary: lost)
  case (Cons j order)
  then obtain err where "Pg_RunInTx (pg_body D (one_op (OpReserveEffect (newEffect (idFor j) key rid tid))) t) p = (Inl err, p)"
    "ErrEffectExists \<in> set (err_chain err)" using pg_loses [OF assms(1,2), of j t] by auto
  with Cons.IH [of "Suc lost"] Cons.prems show ?case by simp
qed simp

lemma pg_race_won:
  assumes "race_open D rid tid p" and "pg_effects p = []" and "order \<noteq> []" and "distinct order"
  shows "\<exists>t' q. \<forall>k. pg_client D (race key rid tid order 0 0 0 k) t p = pg_client D (k 1 (length order - 1) 0) t' q"
proof -
  obtain i rest where order: "order = i # rest" "i \<notin> set rest" using assms(3,4) by (cases order) auto
  obtain q where q: "Pg_RunInTx (pg_body D (one_op (OpReserveEffect (newEffect (idFor i) key rid tid))) t) p
      = (Inr (None, ticking_Now t), q)" "race_open D rid tid q" "taken_by i key q"
    using pg_wins [OF assms(1,2)] by blast
  have "pg_client D (race key rid tid order 0 0 0 k) t p = pg_client D (k 1 (length order - 1) 0) (ticking_Now t) q" for k
    using pg_race_lost [OF q(2,3) order(2), of 1 0 0 k "ticking_Now t"] q(1) by (simp add: order)
  then show ?thesis by blast
qed

lemma pg_mustDo_runs: "Pg_RunInTx (pg_body D (one_op op) t) p = (Inr (None, t'), q)
    \<Longrightarrow> pg_client D (mustDo op c) t p = pg_client D c t' q"
  by (simp add: mustDo_def mustTx_def gets_def)

end
