(* ===== verification/SuiteRuns.thy ===== *)
theory SuiteRuns
  imports SuiteRace PgSamples
begin

text \<open>The contract suite run on both stores, group by group.\<close>

definition suite_wall :: time where "suite_wall = time_Date 2026 6 15 8 30 0"

section \<open>Group by group\<close>

definition group_passes :: "(client \<Rightarrow> verdict) \<Rightarrow> (string \<times> client) list \<Rightarrow> bool" where
  "group_passes fresh g \<longleftrightarrow> list_all (\<lambda>(name, c). fresh c = Passed) g"

lemma suite_by_groups:
  "suite_passes (RunStoreSuite fresh wall order soon_first) \<longleftrightarrow>
     group_passes fresh coreContracts \<and> group_passes fresh (suspensionContracts soon_first)
     \<and> group_passes fresh (signalContracts wall) \<and> group_passes fresh (effectContracts wall order)
     \<and> group_passes fresh (leaseContracts wall) \<and> group_passes fresh outboxContracts"
  by (simp add: suite_passes_def RunStoreSuite_def group_passes_def list_all_iff case_prod_beta ball_Un)

lemma memory_core: "group_passes on_memory coreContracts" by code_simp
lemma memory_suspension: "group_passes on_memory (suspensionContracts b)" by (cases b; simp; code_simp)
lemma memory_signal: "group_passes on_memory (signalContracts suite_wall)" by code_simp

definition unraced :: "(string \<times> client) list \<Rightarrow> (string \<times> client) list" where
  "unraced g = filter (\<lambda>(name, c). name \<noteq> ''ReserveUnderConcurrencyAdmitsOne'') g"

lemma unraced_effects: "unraced (effectContracts wall order) = unraced (effectContracts wall [])"
  by (simp add: unraced_def effectContracts_def)

lemma effect_group: "group_passes fresh (effectContracts wall order)
    \<longleftrightarrow> fresh (testReserveConcurrent order) = Passed \<and> group_passes fresh (unraced (effectContracts wall order))"
  by (auto simp: group_passes_def effectContracts_def unraced_def)

lemma memory_unraced: "group_passes on_memory (unraced (effectContracts suite_wall []))" by code_simp

lemma memory_effect:
  "length order = attempts \<Longrightarrow> group_passes on_memory (effectContracts suite_wall order)"
  unfolding effect_group unraced_effects [of _ order] by (simp add: race_passes memory_unraced)

lemma memory_lease: "group_passes on_memory (leaseContracts suite_wall)" by code_simp
lemma memory_outbox: "group_passes on_memory outboxContracts" by code_simp

lemma postgres_core: "group_passes (on_postgres sample_dialect) coreContracts" by code_simp
lemma postgres_suspension: "group_passes (on_postgres sample_dialect) (suspensionContracts b)" by (cases b; simp; code_simp)
lemma postgres_signal: "group_passes (on_postgres sample_dialect) (signalContracts suite_wall)" by code_simp

text \<open>The race, from the tables its test has prepared: for every order of the goroutines.\<close>

definition race_run :: "(go_error + Lease option \<times> time) \<times> pgstate" where
  "race_run = Pg_RunInTx (pg_body sample_dialect (one_op (txop.OpCreateRun (suite_run ''run-race''))) TickingClock) empty_database"

definition race_task :: "(go_error + Lease option \<times> time) \<times> pgstate" where
  "race_task = Pg_RunInTx (pg_body sample_dialect (one_op (txop.OpCreateTask (newTask ''task-race'' ''run-race'' (Step 1))))
     (ticking_Now TickingClock)) (snd race_run)"

lemma race_seeded:
  "fst race_run = Inr (None, ticking_Now TickingClock)" "fst race_task = Inr (None, ticking_Now (ticking_Now TickingClock))"
  "pg_effects (snd race_task) = []" "present rr_run_id ''run-race'' (pg_runs (snd race_task))"
  "present tr_task_id ''task-race'' (pg_tasks (snd race_task))"
  "(case jsonb sample_dialect race_request of Inr _ \<Rightarrow> True | Inl _ \<Rightarrow> False)"
  by code_simp+

lemma race_ready: "race_open sample_dialect ''run-race'' ''task-race'' (snd race_task)"
  using race_seeded(4-6) by (auto simp: race_open_def split: sum.splits)

lemma pg_race_passes:
  assumes "length order = attempts" and "distinct order"
  shows "on_postgres sample_dialect (testReserveConcurrent order) = Passed"
proof -
  have ne: "order \<noteq> []" using assms(1) by (auto simp: attempts_def)
  have run: "Pg_RunInTx (pg_body sample_dialect (one_op (txop.OpCreateRun (suite_run ''run-race''))) TickingClock) empty_database
      = (Inr (None, ticking_Now TickingClock), snd race_run)"
    using race_seeded(1) by (metis prod.collapse race_run_def)
  have task: "Pg_RunInTx (pg_body sample_dialect (one_op (txop.OpCreateTask (newTask ''task-race'' ''run-race'' (Step 1))))
      (ticking_Now TickingClock)) (snd race_run) = (Inr (None, ticking_Now (ticking_Now TickingClock)), snd race_task)"
    using race_seeded(2) by (metis prod.collapse race_task_def)
  obtain u v where
    "\<And>k. pg_client sample_dialect (race (NewIdempotencyKey ''run-race'' (Step 1) 1) ''run-race'' ''task-race'' order 0 0 0 k)
        (ticking_Now (ticking_Now TickingClock)) (snd race_task) = pg_client sample_dialect (k 1 (length order - 1) 0) u v"
    using pg_race_won [OF race_ready race_seeded(3) ne assms(2)] by blast
  then show ?thesis
    by (simp add: on_postgres_def testReserveConcurrent_def Let_def seedTask_def mustCreateRun_def
        pg_mustDo_runs [OF run] pg_mustDo_runs [OF task] assms(1) expect_def)
qed

lemma postgres_unraced: "group_passes (on_postgres sample_dialect) (unraced (effectContracts suite_wall []))" by code_simp

lemma postgres_effect:
  "length order = attempts \<Longrightarrow> distinct order
     \<Longrightarrow> group_passes (on_postgres sample_dialect) (effectContracts suite_wall order)"
  unfolding effect_group unraced_effects [of _ order] by (simp add: pg_race_passes postgres_unraced)

lemma postgres_lease: "group_passes (on_postgres sample_dialect) (leaseContracts suite_wall)" by code_simp
lemma postgres_outbox: "group_passes (on_postgres sample_dialect) outboxContracts" by code_simp

end
