(* ===== verification/Serving.thy ===== *)
theory Serving
  imports Gateway
begin

text \<open>
  The life of a worker's connection: \<open>pump\<close> and \<open>serve\<close> of internal/sdk/gateway/gateway.go, the
  servers that listen (internal/sdk/gateway/server.go, internal/signalhttp/server.go), and every
  interleaving of connections, calls and answers, with what the session tables keep through it.
\<close>

section \<open>The reader of a stream (gateway.go)\<close>

definition io_EOF :: sentinel where "io_EOF = OwnSentinel ''EOF''"

definition on_session :: "string \<Rightarrow> (session \<Rightarrow> session) \<Rightarrow> Gateway \<Rightarrow> Gateway" where
  "on_session sid f g =
     (case map_of (gw_sessions g) sid of
        None \<Rightarrow> g
      | Some s \<Rightarrow> g\<lparr>gw_sessions := AList.update sid (f s) (gw_sessions g)\<rparr>)"

text \<open>One message: handed to whoever waits for it, or dropped.\<close>

definition receive_msg :: "string \<Rightarrow> pb_ClientMessage \<Rightarrow> Gateway \<Rightarrow> Gateway" where
  "receive_msg sid m g =
     (case callIDOf m of
        None \<Rightarrow> g
      | Some c \<Rightarrow> on_session sid (\<lambda>s. snd (deliver c m s)) g)"

definition end_cause :: "go_error \<Rightarrow> go_error" where
  "end_cause err = (if Is err io_EOF then sentinel_err ErrWorkerGone else err)"

text \<open>
  What \<open>Recv\<close> returns round after round, each after the rest of the gateway has acted. \<open>None\<close>
  while it still reads, \<open>Some None\<close> for an orderly goodbye.
\<close>

type_synonym rounds_of = "((Gateway \<Rightarrow> Gateway) \<times> (go_error + pb_ClientMessage)) list"

fun pump :: "string \<Rightarrow> rounds_of \<Rightarrow> Gateway \<Rightarrow> go_error option option \<times> Gateway" where
  "pump sid [] g = (None, g)"
| "pump sid ((gap, Inr m) # rs) g = pump sid rs (receive_msg sid m (gap g))"
| "pump sid ((gap, Inl err) # rs) g =
     (Some (if Is err io_EOF then None else Some err), on_session sid (close (end_cause err)) (gap g))"

text \<open>A refused registration is a gRPC status, which wraps nothing.\<close>

definition serve :: "go_error + pb_ClientMessage \<Rightarrow> go_error option \<Rightarrow> rounds_of \<Rightarrow> Gateway
    \<Rightarrow> go_error option option \<times> Gateway" where
  "serve first ack rs g =
     (case register first ack g of
        (Inl err, g) \<Rightarrow>
          (Some (Some (errors_New (''rpc error: code = InvalidArgument desc = '' @ err_text err))), g)
      | (Inr sid, g) \<Rightarrow>
          (case pump sid rs g of
             (None, g) \<Rightarrow> (None, g)
           | (Some r, g) \<Rightarrow> (Some r, remove sid g)))"

section \<open>The servers\<close>

text \<open>
  What \<open>Listen\<close> needs, and the address it binds: the outcome of \<open>net.Listen\<close> is a function of
  the address.
\<close>

definition gateway_DefaultAddr :: string where "gateway_DefaultAddr = ''127.0.0.1:50551''"

definition gateway_Listen :: "string \<Rightarrow> Gateway option \<Rightarrow> (string \<Rightarrow> go_error + string) \<Rightarrow> go_error + string" where
  "gateway_Listen addr gw bind =
     (if gw = None then Inl (errors_New ''gateway: a Server needs a Gateway'')
      else let addr = (if addr = [] then gateway_DefaultAddr else addr) in
           case bind addr of
             Inl err \<Rightarrow> Inl (wrap_err (''gateway: listen on '' @ addr) err)
           | Inr bound \<Rightarrow> Inr bound)"

definition DrainTimeout :: duration where "DrainTimeout = 5 * second"

text \<open>The calls a shutdown makes on the server of the transport.\<close>

datatype stop_call = GracefulStop | HardStop

definition drainAndStop :: "bool \<Rightarrow> stop_call list" where
  "drainAndStop in_time = (if in_time then [GracefulStop] else [GracefulStop, HardStop])"

text \<open>How the select of \<open>Run\<close> ends: \<open>Serve\<close> has returned, or the context is done.\<close>

datatype served = ServeReturned go_error | Stopping bool

definition ErrServerStopped :: sentinel where
  "ErrServerStopped = OwnSentinel ''grpc: the server has been stopped''"

definition gateway_Run :: "served \<Rightarrow> go_error option \<times> stop_call list" where
  "gateway_Run e =
     (case e of
        ServeReturned err \<Rightarrow>
          (if Is err ErrServerStopped then None else Some (wrap_err ''gateway: serve'' err), [])
      | Stopping in_time \<Rightarrow> (None, drainAndStop in_time))"

definition signalhttp_DefaultAddr :: string where "signalhttp_DefaultAddr = ''127.0.0.1:8089''"

definition signalhttp_Listen :: "string \<Rightarrow> bool \<Rightarrow> (string \<Rightarrow> go_error + string) \<Rightarrow> go_error + string" where
  "signalhttp_Listen addr has_engine bind =
     (if \<not> has_engine then Inl (errors_New ''signalhttp: an Engine is required'')
      else let addr = (if addr = [] then signalhttp_DefaultAddr else addr) in
           case bind addr of
             Inl err \<Rightarrow> Inl (wrap_err (''signalhttp: listen on '' @ addr) err)
           | Inr bound \<Rightarrow> Inr bound)"

definition ErrServerClosed :: sentinel where "ErrServerClosed = OwnSentinel ''http: Server closed''"

text \<open>\<open>Shutdown\<close> within its timeout, and \<open>Close\<close> when that was not enough.\<close>

definition signalhttp_Run :: "served \<Rightarrow> go_error option \<times> stop_call list" where
  "signalhttp_Run e =
     (case e of
        ServeReturned err \<Rightarrow>
          (if Is err ErrServerClosed then None else Some (wrap_err ''signalhttp: serve'' err), [])
      | Stopping in_time \<Rightarrow> (None, if in_time then [GracefulStop] else [GracefulStop, HardStop]))"

lemma shutdown_returns_nil:
  "fst (gateway_Run (Stopping b)) = None" "fst (signalhttp_Run (Stopping b)) = None"
  "last (snd (gateway_Run (Stopping False))) = HardStop"
  by (simp_all add: gateway_Run_def signalhttp_Run_def drainAndStop_def)

section \<open>What the tables keep\<close>

text \<open>
  A session's slots are for calls it has numbered, hold only answers that carry the number of
  the slot, and are gone when it is closed.
\<close>

definition call_numbered :: "string \<Rightarrow> nat \<Rightarrow> string \<Rightarrow> bool" where
  "call_numbered sid n c \<longleftrightarrow> (\<exists>k \<le> n. c = sid @ CHR ''.'' # show_nat k)"

definition session_numbered :: "nat \<Rightarrow> string \<Rightarrow> bool" where
  "session_numbered n sid \<longleftrightarrow> (\<exists>k \<le> n. sid = CHR ''s'' # show_nat k)"

lemma numbered_later:
  "call_numbered sid n c \<Longrightarrow> call_numbered sid (Suc n) c" "session_numbered n sid \<Longrightarrow> session_numbered (Suc n) sid"
  by (auto simp: call_numbered_def session_numbered_def intro: le_SucI)

lemma numbered_now [simp]:
  "call_numbered sid (Suc n) (sid @ CHR ''.'' # show_nat (Suc n))" "session_numbered (Suc n) (CHR ''s'' # show_nat (Suc n))"
  by (auto simp: call_numbered_def session_numbered_def)

lemma numbered_fresh [simp]:
  "\<not> call_numbered sid n (sid @ CHR ''.'' # show_nat (Suc n))" "\<not> session_numbered n (CHR ''s'' # show_nat (Suc n))"
  by (auto simp: call_numbered_def session_numbered_def)

definition session_ok :: "session \<Rightarrow> bool" where
  "session_ok s \<longleftrightarrow> (\<forall>c slot. map_of (se_pending s) c = Some slot \<longrightarrow>
       call_numbered (se_id s) (se_seq s) c \<and> (\<forall>m. slot = Some m \<longrightarrow> callIDOf m = Some c))
     \<and> (se_closed s \<longrightarrow> se_pending s = [])"

text \<open>
  Every session is under its own identity, which the gateway has numbered, and listed with its
  agent; an agent that is listed has a session, and lists each of its sessions once.
\<close>

definition gateway_ok :: "Gateway \<Rightarrow> bool" where
  "gateway_ok g \<longleftrightarrow>
     (\<forall>sid s. map_of (gw_sessions g) sid = Some s \<longrightarrow> se_id s = sid \<and> session_ok s
        \<and> session_numbered (gw_nextID g) sid \<and> sid \<in> set (agent_ids g (se_agent s)))
   \<and> (\<forall>agent ids. map_of (gw_byAgent g) agent = Some ids \<longrightarrow> ids \<noteq> [] \<and> distinct ids
        \<and> (\<forall>i \<in> set ids. \<exists>s. map_of (gw_sessions g) i = Some s \<and> se_agent s = agent))"

definition max_uint64 :: nat where "max_uint64 = 18446744073709551615"

text \<open>The fields of a session that its registration fixes.\<close>

definition same_worker :: "session \<Rightarrow> session \<Rightarrow> bool" where
  "same_worker s s' \<longleftrightarrow> se_id s' = se_id s \<and> se_agent s' = se_agent s \<and> se_version s' = se_version s
     \<and> se_worker s' = se_worker s \<and> se_decides s' = se_decides s \<and> se_tools s' = se_tools s"

lemma call_begin_ok:
  assumes "call_begin s = (Inr c, s')" and "session_ok s" and "se_seq s < max_uint64"
  shows "session_ok s' \<and> same_worker s s' \<and> map_of (se_pending s) c = None \<and> \<not> se_closed s
    \<and> c = se_id s @ CHR ''.'' # show_nat (Suc (se_seq s)) \<and> s' = s\<lparr>se_seq := Suc (se_seq s), se_pending := AList.update c None (se_pending s)\<rparr>"
proof -
  have m: "Suc (se_seq s) mod 18446744073709551616 = Suc (se_seq s)" using assms(3) by (simp add: max_uint64_def)
  have c: "c = se_id s @ CHR ''.'' # show_nat (Suc (se_seq s))" "\<not> se_closed s"
    "s' = s\<lparr>se_seq := Suc (se_seq s), se_pending := AList.update c None (se_pending s)\<rparr>"
    using assms(1) by (auto simp: call_begin_def nextCallID_def Let_def m split: if_splits)
  have "map_of (se_pending s) c = None"
  proof (rule ccontr)
    assume "map_of (se_pending s) c \<noteq> None"
    then obtain slot where "map_of (se_pending s) c = Some slot" by blast
    with assms(2) have "call_numbered (se_id s) (se_seq s) c" unfolding session_ok_def by blast
    with c(1) show False by simp
  qed
  with c assms(2) show ?thesis
    by (auto simp: session_ok_def same_worker_def update_conv' numbered_later split: if_splits)
qed

lemma call_begin_refused:
  "call_begin s = (Inl err, s') \<Longrightarrow> session_ok s \<Longrightarrow> session_ok s' \<and> same_worker s s' \<and> se_closed s \<and> se_pending s' = se_pending s \<and> se_closed s'"
  by (auto simp: call_begin_def nextCallID_def Let_def session_ok_def same_worker_def split: if_splits)

lemma call_end_ok: "session_ok s \<Longrightarrow> session_ok (call_end c s) \<and> same_worker s (call_end c s)"
  by (auto simp: call_end_def session_ok_def same_worker_def delete_conv' split: if_splits)

lemma deliver_ok:
  "callIDOf m = Some c \<Longrightarrow> session_ok s \<Longrightarrow> session_ok (snd (deliver c m s)) \<and> same_worker s (snd (deliver c m s))"
  by (auto simp: deliver_def session_ok_def same_worker_def update_conv' split: option.splits if_splits)

lemma close_ok: "session_ok s \<Longrightarrow> session_ok (close e s) \<and> same_worker s (close e s)"
  by (auto simp: close_def session_ok_def same_worker_def)

lemma gateway_okI:
  assumes "\<And>sid s. map_of (gw_sessions g) sid = Some s \<Longrightarrow> se_id s = sid \<and> session_ok s
      \<and> session_numbered (gw_nextID g) sid \<and> sid \<in> set (agent_ids g (se_agent s))"
    and "\<And>agent ids. map_of (gw_byAgent g) agent = Some ids \<Longrightarrow> ids \<noteq> [] \<and> distinct ids
      \<and> (\<forall>i \<in> set ids. \<exists>s. map_of (gw_sessions g) i = Some s \<and> se_agent s = agent)"
  shows "gateway_ok g"
  unfolding gateway_ok_def using assms by blast

lemma session_at:
  "gateway_ok g \<Longrightarrow> map_of (gw_sessions g) sid = Some s \<Longrightarrow> se_id s = sid \<and> session_ok s
     \<and> session_numbered (gw_nextID g) sid \<and> sid \<in> set (agent_ids g (se_agent s))"
  unfolding gateway_ok_def by blast

lemma listed_at:
  "gateway_ok g \<Longrightarrow> map_of (gw_byAgent g) agent = Some ids \<Longrightarrow> ids \<noteq> [] \<and> distinct ids
     \<and> (\<forall>i \<in> set ids. \<exists>s. map_of (gw_sessions g) i = Some s \<and> se_agent s = agent)"
  unfolding gateway_ok_def by blast

lemma on_session_ok:
  assumes "gateway_ok g" and "\<And>s. map_of (gw_sessions g) sid = Some s \<Longrightarrow> session_ok s \<Longrightarrow> session_ok (f s) \<and> same_worker s (f s)"
  shows "gateway_ok (on_session sid f g)"
proof (cases "map_of (gw_sessions g) sid")
  case (Some s)
  let ?g = "g\<lparr>gw_sessions := AList.update sid (f s) (gw_sessions g)\<rparr>"
  have at: "map_of (gw_sessions ?g) i = (if i = sid then Some (f s) else map_of (gw_sessions g) i)" for i
    by (simp add: update_conv')
  have ids: "agent_ids ?g a = agent_ids g a" for a by (simp add: agent_ids_def)
  have f: "session_ok (f s)" "se_id (f s) = sid" "se_agent (f s) = se_agent s"
    using assms(2) [OF Some] session_at [OF assms(1) Some] by (simp_all add: same_worker_def)
  have "gateway_ok ?g"
  proof (rule gateway_okI)
    fix i s' assume "map_of (gw_sessions ?g) i = Some s'"
    then have "i = sid \<and> s' = f s \<or> map_of (gw_sessions g) i = Some s'" by (auto simp: at split: if_splits)
    then show "se_id s' = i \<and> session_ok s' \<and> session_numbered (gw_nextID ?g) i \<and> i \<in> set (agent_ids ?g (se_agent s'))"
      unfolding ids using f session_at [OF assms(1) Some] session_at [OF assms(1), of i s'] by auto
  next
    fix a l assume "map_of (gw_byAgent ?g) a = Some l"
    then have "map_of (gw_byAgent g) a = Some l" by simp
    from listed_at [OF assms(1) this] show "l \<noteq> [] \<and> distinct l \<and> (\<forall>i \<in> set l. \<exists>s. map_of (gw_sessions ?g) i = Some s \<and> se_agent s = a)"
      unfolding at using Some f(3) by fastforce
  qed
  then show ?thesis using Some by (simp add: on_session_def)
qed (simp add: on_session_def assms(1))

lemma Gateway_New_ok [simp]: "gateway_ok Gateway_New"
  by (simp add: gateway_ok_def Gateway_New_def)

lemma agent_ids_ok:
  assumes "gateway_ok g"
  shows "distinct (agent_ids g agent) \<and> (\<forall>i \<in> set (agent_ids g agent). \<exists>s. map_of (gw_sessions g) i = Some s \<and> se_agent s = agent)"
proof (cases "map_of (gw_byAgent g) agent")
  case (Some l)
  then show ?thesis using listed_at [OF assms Some] unfolding agent_ids_def by simp
qed (simp add: agent_ids_def)

text \<open>The sessions of an agent are exactly those a pick chooses from; none is missing and none is stale.\<close>

lemma agent_sessions_exact:
  assumes "gateway_ok g"
  shows "set (agent_sessions g agent) = {s. map_of (gw_sessions g) (se_id s) = Some s \<and> se_agent s = agent}"
proof -
  have l: "set (List.map_filter f xs) = {y. \<exists>x \<in> set xs. f x = Some y}" for f :: "string \<Rightarrow> session option" and xs
    by (induction xs) (auto simp: map_filter_simps split: option.splits)
  have "s \<in> set (agent_sessions g agent) \<longleftrightarrow> map_of (gw_sessions g) (se_id s) = Some s \<and> se_agent s = agent" for s
  proof -
    have "(\<exists>i \<in> set (agent_ids g agent). map_of (gw_sessions g) i = Some s)
      \<longleftrightarrow> map_of (gw_sessions g) (se_id s) = Some s \<and> se_agent s = agent" (is "?l \<longleftrightarrow> ?r")
    proof
      assume ?l
      then obtain i where i: "i \<in> set (agent_ids g agent)" "map_of (gw_sessions g) i = Some s" by blast
      then obtain s' where "map_of (gw_sessions g) i = Some s'" "se_agent s' = agent"
        using agent_ids_ok [OF assms, of agent] by blast
      with i(2) session_at [OF assms i(2)] show ?r by simp
    next
      assume ?r
      with session_at [OF assms, of "se_id s" s] show ?l by blast
    qed
    then show ?thesis unfolding agent_sessions_def l by simp
  qed
  then show ?thesis by blast
qed

lemma remove_ok:
  assumes "gateway_ok g"
  shows "gateway_ok (remove sid g)" and "map_of (gw_sessions (remove sid g)) = (map_of (gw_sessions g))(sid := None)"
proof -
  show map: "map_of (gw_sessions (remove sid g)) = (map_of (gw_sessions g))(sid := None)"
    by (auto simp: remove_def Let_def delete_conv' split: option.splits)
  show "gateway_ok (remove sid g)"
  proof (cases "map_of (gw_sessions g) sid")
    case (Some s)
    let ?rest = "filter (\<lambda>i. i \<noteq> sid) (agent_ids g (se_agent s))"
    have ids: "agent_ids (remove sid g) a = (if a = se_agent s then ?rest else agent_ids g a)" for a
      using Some by (auto simp: remove_def Let_def agent_ids_def delete_conv' update_conv')
    have by_agent: "map_of (gw_byAgent (remove sid g)) a = Some l \<Longrightarrow> l \<noteq> [] \<and> l = agent_ids (remove sid g) a" for a l
      using Some listed_at [OF assms, of a l] unfolding ids
      by (auto simp: remove_def Let_def delete_conv' update_conv' agent_ids_def split: if_splits)
    have unchanged: "gw_nextID (remove sid g) = gw_nextID g" using Some by (simp add: remove_def Let_def)
    have other: "i \<noteq> sid" if "i \<in> set (agent_ids g a)" "a \<noteq> se_agent s" for i a
      using that agent_ids_ok [OF assms, of a] Some by auto
    show ?thesis
    proof (rule gateway_okI)
      fix i s' assume "map_of (gw_sessions (remove sid g)) i = Some s'"
      then have i: "i \<noteq> sid" "map_of (gw_sessions g) i = Some s'" by (auto simp: map split: if_splits)
      from session_at [OF assms i(2)] have "se_id s' = i" "session_ok s'" "session_numbered (gw_nextID g) i"
        "i \<in> set (agent_ids g (se_agent s'))" by blast+
      with i(1) show "se_id s' = i \<and> session_ok s' \<and> session_numbered (gw_nextID (remove sid g)) i
          \<and> i \<in> set (agent_ids (remove sid g) (se_agent s'))"
        unfolding unchanged ids by (cases "se_agent s' = se_agent s") simp_all
    next
      fix a l assume "map_of (gw_byAgent (remove sid g)) a = Some l"
      from by_agent [OF this] have l: "l \<noteq> []" "l = (if a = se_agent s then ?rest else agent_ids g a)"
        unfolding ids by blast+
      then show "l \<noteq> [] \<and> distinct l \<and> (\<forall>i \<in> set l. \<exists>s. map_of (gw_sessions (remove sid g)) i = Some s \<and> se_agent s = a)"
        using agent_ids_ok [OF assms, of a] other [of _ a] by (auto simp: map split: if_splits)
    qed
  qed (use assms in \<open>simp add: remove_def\<close>)
qed

lemma register_ok:
  assumes "gateway_ok g" and "register first ack g = (r, g')" and "gw_nextID g < max_uint64"
  shows "gateway_ok g'" and "gw_nextID g' = gw_nextID g \<or> gw_nextID g' = Suc (gw_nextID g)"
    and "map_of (gw_sessions g') sid = Some s \<Longrightarrow> map_of (gw_sessions g) sid = Some s
      \<or> (\<not> session_numbered (gw_nextID g) sid \<and> se_pending s = [] \<and> \<not> se_closed s)"
    and "map_of (gw_sessions g) sid = Some s \<Longrightarrow> map_of (gw_sessions g') sid = Some s"
proof -
  let ?sid = "CHR ''s'' # show_nat (Suc (gw_nextID g))"
  have m: "Suc (gw_nextID g) mod 18446744073709551616 = Suc (gw_nextID g)" using assms(3) by (simp add: max_uint64_def)
  define new where "new s = g\<lparr>gw_nextID := Suc (gw_nextID g), gw_sessions := AList.update ?sid s (gw_sessions g),
      gw_byAgent := AList.update (se_agent s) (agent_ids g (se_agent s) @ [?sid]) (gw_byAgent g)\<rparr>" for s
  have fresh: "map_of (gw_sessions g) ?sid = None"
    using session_at [OF assms(1)] numbered_fresh(2) by (metis option.exhaust)
  have unlisted: "?sid \<notin> set (agent_ids g a)" for a
    using agent_ids_ok [OF assms(1), of a] fresh by fastforce
  have cases: "g' = g \<or> (\<exists>s. se_id s = ?sid \<and> se_pending s = [] \<and> \<not> se_closed s \<and> (g' = new s \<or> g' = remove ?sid (new s)))"
  proof (cases "\<exists>agent version worker runtime decides pts tools. first = Inr (CM_Register agent version worker runtime decides pts 1)
      \<and> agent \<noteq> [] \<and> version \<noteq> [] \<and> toolsOf agent pts [] = Inr tools")
    case True
    then obtain agent version worker runtime decides pts tools where f: "first = Inr (CM_Register agent version worker runtime decides pts 1)"
      "agent \<noteq> []" "version \<noteq> []" "toolsOf agent pts [] = Inr tools" by blast
    let ?s = "\<lparr>se_id = ?sid, se_agent = agent, se_version = version, se_worker = worker, se_runtime = runtime,
      se_decides = decides, se_tools = tools, se_seq = 0, se_pending = [], se_closed = False, se_cause = None\<rparr>"
    have "g' = new ?s \<or> g' = remove ?sid (new ?s)"
      using assms(2) by (auto simp: register_def f m Let_def new_def split: option.splits)
    then show ?thesis by (intro disjI2 exI [of _ ?s]) simp
  next
    case False
    with assms(2) show ?thesis
      by (auto simp: register_def split: sum.splits pb_ClientMessage.splits if_splits)
  qed
  have at: "map_of (gw_sessions (new s)) i = (if i = ?sid then Some s else map_of (gw_sessions g) i)" for s i
    by (simp add: new_def update_conv')
  have ids: "agent_ids (new s) a = (if a = se_agent s then agent_ids g a @ [?sid] else agent_ids g a)" for s a
    by (simp add: new_def agent_ids_def update_conv')
  have ok: "gateway_ok (new s)" if s: "se_id s = ?sid" "se_pending s = []" for s
  proof (rule gateway_okI)
    fix i s' assume "map_of (gw_sessions (new s)) i = Some s'"
    then consider "i = ?sid" "s' = s" | "i \<noteq> ?sid" "map_of (gw_sessions g) i = Some s'" by (auto simp: at split: if_splits)
    then show "se_id s' = i \<and> session_ok s' \<and> session_numbered (gw_nextID (new s)) i \<and> i \<in> set (agent_ids (new s) (se_agent s'))"
    proof cases
      case 1
      then show ?thesis using s by (simp add: ids session_ok_def) (simp add: new_def)
    next
      case 2
      from session_at [OF assms(1) 2(2)] show ?thesis unfolding ids
        by (cases "se_agent s' = se_agent s") (simp_all add: new_def numbered_later)
    qed
  next
    fix a l assume "map_of (gw_byAgent (new s)) a = Some l"
    then consider "a = se_agent s" "l = agent_ids g a @ [?sid]" | "a \<noteq> se_agent s" "map_of (gw_byAgent g) a = Some l"
      by (auto simp: new_def update_conv' split: if_splits)
    then show "l \<noteq> [] \<and> distinct l \<and> (\<forall>i \<in> set l. \<exists>s'. map_of (gw_sessions (new s)) i = Some s' \<and> se_agent s' = a)"
    proof cases
      case 1
      from agent_ids_ok [OF assms(1), of a] unlisted [of a] show ?thesis unfolding 1(2) at using 1(1) by auto
    next
      case 2
      from listed_at [OF assms(1) 2(2)] fresh show ?thesis unfolding at by fastforce
    qed
  qed
  have kept: "gw_nextID (remove i h) = gw_nextID h" for i h by (simp add: remove_def Let_def split: option.splits)
  show "gateway_ok g'" using cases assms(1) ok remove_ok(1) by metis
  show "gw_nextID g' = gw_nextID g \<or> gw_nextID g' = Suc (gw_nextID g)" using cases by (auto simp: kept new_def)
  show "map_of (gw_sessions g') sid = Some s \<Longrightarrow> map_of (gw_sessions g) sid = Some s
      \<or> (\<not> session_numbered (gw_nextID g) sid \<and> se_pending s = [] \<and> \<not> se_closed s)"
    using cases by (auto simp: remove_ok(2) [OF ok] at split: if_splits)
  show "map_of (gw_sessions g) sid = Some s \<Longrightarrow> map_of (gw_sessions g') sid = Some s"
    using cases fresh by (auto simp: remove_ok(2) [OF ok] at)
qed

text \<open>A pick only moves a cursor.\<close>

definition moves_cursor :: "Gateway \<Rightarrow> Gateway \<Rightarrow> bool" where
  "moves_cursor g g' \<longleftrightarrow> gw_sessions g' = gw_sessions g \<and> gw_byAgent g' = gw_byAgent g \<and> gw_nextID g' = gw_nextID g"

lemma picks_move_cursors:
  "pick agent g = (r, g') \<Longrightarrow> moves_cursor g g'"
  "pickDecider agent version g = (r', g') \<Longrightarrow> moves_cursor g g'"
  "pickForTool agent tool class g = (r, g') \<Longrightarrow> moves_cursor g g'"
  by (auto simp: pick_def pickDecider_def pickForTool_def Let_def round_robin_def moves_cursor_def
      split: if_splits sum.splits list.splits)

lemma cursor_ok: "moves_cursor g g' \<Longrightarrow> gateway_ok g \<Longrightarrow> gateway_ok g'"
  by (rule gateway_okI) (auto simp: moves_cursor_def agent_ids_def dest: session_at listed_at)

lemma receive_msg_ok: "gateway_ok g \<Longrightarrow> gateway_ok (receive_msg sid m g)"
  by (auto simp: receive_msg_def split: option.splits intro!: on_session_ok deliver_ok)

lemma pump_ok:
  "gateway_ok g \<Longrightarrow> (\<forall>(gap, got) \<in> set rs. \<forall>h. gateway_ok h \<longrightarrow> gateway_ok (gap h)) \<Longrightarrow> gateway_ok (snd (pump sid rs g))"
proof (induction sid rs g rule: pump.induct)
  case (2 sid gap m rs g)
  then show ?case by (auto intro!: receive_msg_ok)
next
  case (3 sid gap err rs g)
  then show ?case by (auto intro!: on_session_ok close_ok)
qed simp

text \<open>A connection from its registration to its end: the tables stay in order, and its session is gone.\<close>

lemma serve_ok:
  assumes "gateway_ok g" and "gw_nextID g < max_uint64"
    and "\<forall>(gap, got) \<in> set rs. \<forall>h. gateway_ok h \<longrightarrow> gateway_ok (gap h)"
  shows "gateway_ok (snd (serve first ack rs g))"
    and "serve first ack rs g = (Some r, g') \<Longrightarrow> register first ack g = (Inr sid, h) \<Longrightarrow> map_of (gw_sessions g') sid = None"
proof -
  obtain r0 g0 where r0: "register first ack g = (r0, g0)" by fastforce
  have g0: "gateway_ok g0" using register_ok(1) [OF assms(1) r0 assms(2)] .
  have p: "gateway_ok (snd (pump sid rs g0))" for sid using pump_ok [OF g0 assms(3)] .
  show "gateway_ok (snd (serve first ack rs g))"
  proof (cases r0)
    case (Inl err)
    then show ?thesis using r0 g0 by (simp add: serve_def)
  next
    case (Inr sid)
    with p [of sid] show ?thesis
      by (cases "pump sid rs g0") (auto simp: serve_def r0 split: option.splits intro: remove_ok(1))
  qed
  show "map_of (gw_sessions g') sid = None" if "serve first ack rs g = (Some r, g')" "register first ack g = (Inr sid, h)"
    using that r0 p [of sid] by (cases "pump sid rs g0") (auto simp: serve_def remove_ok(2) split: option.splits)
qed

end
