(* ===== verification/Traffic.thy ===== *)
theory Traffic
  imports Serving
begin

text \<open>
  Every interleaving of what goes on in a gateway (internal/sdk/gateway/): workers connect and
  leave, sessions are picked, calls start and end, answers arrive. A call keeps the channel it
  waits on, with the answer in it if there is one, and whether it has been closed. What has been
  heard from each worker and how each call has ended is recorded beside.
\<close>

type_synonym channel = "pb_ClientMessage option \<times> bool"

record traffic =
  tf_gateway :: Gateway
  tf_calls :: "((string \<times> string) \<times> channel) list"
  tf_over :: "string list"
  tf_heard :: "(string \<times> pb_ClientMessage) list"
  tf_ended :: "((string \<times> string) \<times> ending) list"

definition no_traffic :: traffic where
  "no_traffic = \<lparr>tf_gateway = Gateway_New, tf_calls = [], tf_over = [], tf_heard = [], tf_ended = []\<rparr>"

text \<open>An answer reaches the channel of the call it is for; a closed session closes the channels of its slots.\<close>

definition hand :: "string \<Rightarrow> pb_ClientMessage \<Rightarrow> session \<Rightarrow> ((string \<times> string) \<times> channel) list \<Rightarrow> ((string \<times> string) \<times> channel) list" where
  "hand sid m s calls =
     (case callIDOf m of
        None \<Rightarrow> calls
      | Some c \<Rightarrow> if fst (deliver c m s) then AList.update (sid, c) (Some m, False) calls else calls)"

definition hang_up :: "string \<Rightarrow> session \<Rightarrow> ((string \<times> string) \<times> channel) list \<Rightarrow> ((string \<times> string) \<times> channel) list" where
  "hang_up sid s = map (\<lambda>((i, c), (buf, gone)). ((i, c), (buf, gone \<or> (i = sid \<and> map_of (se_pending s) c \<noteq> None))))"

text \<open>
  How a wait may end: the send fails, the context ends, the channel holds an answer or is closed
  (a buffered answer comes first), or the stream is over.
\<close>

definition may_end :: "string list \<Rightarrow> string \<Rightarrow> channel \<Rightarrow> ending \<Rightarrow> bool" where
  "may_end over sid ch w =
     (case w of
        SendFailed _ \<Rightarrow> True
      | CtxDone _ \<Rightarrow> True
      | Received m \<Rightarrow> (case fst ch of Some m' \<Rightarrow> m = Some m' | None \<Rightarrow> snd ch \<and> m = None)
      | StreamDone \<Rightarrow> sid \<in> set over)"

inductive traffic_step :: "traffic \<Rightarrow> traffic \<Rightarrow> bool" where
  joins: "register first ack (tf_gateway x) = (r, g) \<Longrightarrow> gw_nextID (tf_gateway x) < max_uint64
    \<Longrightarrow> traffic_step x (x\<lparr>tf_gateway := g\<rparr>)"
| picks: "pick agent (tf_gateway x) = (r, g) \<or> pickDecider agent version (tf_gateway x) = (r, g)
      \<or> pickForTool agent tool class (tf_gateway x) = (r, g)
    \<Longrightarrow> traffic_step x (x\<lparr>tf_gateway := g\<rparr>)"
| calls: "map_of (gw_sessions (tf_gateway x)) sid = Some s \<Longrightarrow> se_seq s < max_uint64 \<Longrightarrow> call_begin s = (Inr c, s')
    \<Longrightarrow> traffic_step x (x\<lparr>tf_gateway := on_session sid (\<lambda>_. s') (tf_gateway x),
          tf_calls := AList.update (sid, c) (None, False) (tf_calls x)\<rparr>)"
| refused: "map_of (gw_sessions (tf_gateway x)) sid = Some s \<Longrightarrow> call_begin s = (Inl err, s')
    \<Longrightarrow> traffic_step x (x\<lparr>tf_gateway := on_session sid (\<lambda>_. s') (tf_gateway x)\<rparr>)"
| hears: "map_of (gw_sessions (tf_gateway x)) sid = Some s \<Longrightarrow> \<not> se_closed s
    \<Longrightarrow> traffic_step x (x\<lparr>tf_gateway := receive_msg sid m (tf_gateway x), tf_calls := hand sid m s (tf_calls x),
          tf_heard := tf_heard x @ [(sid, m)]\<rparr>)"
| loses: "map_of (gw_sessions (tf_gateway x)) sid = Some s \<Longrightarrow> \<not> se_closed s
    \<Longrightarrow> traffic_step x (x\<lparr>tf_gateway := on_session sid (close (end_cause err)) (tf_gateway x),
          tf_calls := hang_up sid s (tf_calls x)\<rparr>)"
| leaves: "map_of (gw_sessions (tf_gateway x)) sid = Some s \<Longrightarrow> se_closed s
    \<Longrightarrow> traffic_step x (x\<lparr>tf_gateway := remove sid (tf_gateway x), tf_over := sid # tf_over x\<rparr>)"
| breaks: "traffic_step x (x\<lparr>tf_over := sid # tf_over x\<rparr>)"
| ends: "map_of (tf_calls x) (sid, c) = Some ch \<Longrightarrow> may_end (tf_over x) sid ch w
    \<Longrightarrow> traffic_step x (x\<lparr>tf_gateway := on_session sid (call_end c) (tf_gateway x),
          tf_calls := AList.delete (sid, c) (tf_calls x), tf_ended := tf_ended x @ [((sid, c), w)]\<rparr>)"

inductive_cases traffic_step_cases: "traffic_step x y"

section \<open>What every interleaving keeps\<close>

text \<open>
  A call waits on an open slot of an open session, or its channel has been closed and its session
  is gone; what is in a channel was heard from that session under that number. A session's slots
  all have a waiting call.
\<close>

definition waits_on :: "Gateway \<Rightarrow> string \<Rightarrow> string \<Rightarrow> pb_ClientMessage option \<Rightarrow> bool" where
  "waits_on g sid c buf \<longleftrightarrow>
     (\<exists>s. map_of (gw_sessions g) sid = Some s \<and> \<not> se_closed s \<and> map_of (se_pending s) c = Some buf)"

definition worker_gone :: "Gateway \<Rightarrow> string \<Rightarrow> bool" where
  "worker_gone g sid \<longleftrightarrow> session_numbered (gw_nextID g) sid \<and> (\<forall>s. map_of (gw_sessions g) sid = Some s \<longrightarrow> se_closed s)"

definition heard_for :: "(string \<times> pb_ClientMessage) list \<Rightarrow> string \<Rightarrow> string \<Rightarrow> pb_ClientMessage option \<Rightarrow> bool" where
  "heard_for heard sid c buf \<longleftrightarrow> (\<forall>m. buf = Some m \<longrightarrow> callIDOf m = Some c \<and> (sid, m) \<in> set heard)"

definition call_ok :: "Gateway \<Rightarrow> (string \<times> pb_ClientMessage) list \<Rightarrow> string \<Rightarrow> string \<Rightarrow> channel \<Rightarrow> bool" where
  "call_ok g heard sid c ch \<longleftrightarrow> heard_for heard sid c (fst ch)
     \<and> (if snd ch then worker_gone g sid else waits_on g sid c (fst ch))"

definition ending_ok :: "Gateway \<Rightarrow> (string \<times> pb_ClientMessage) list \<Rightarrow> string \<Rightarrow> string \<Rightarrow> ending \<Rightarrow> bool" where
  "ending_ok g heard sid c w =
     (case w of
        Received (Some m) \<Rightarrow> heard_for heard sid c (Some m)
      | Received None \<Rightarrow> worker_gone g sid
      | _ \<Rightarrow> True)"

definition calls_ok :: "traffic \<Rightarrow> bool" where
  "calls_ok x \<longleftrightarrow> (\<forall>sid c ch. map_of (tf_calls x) (sid, c) = Some ch \<longrightarrow> call_ok (tf_gateway x) (tf_heard x) sid c ch)"

definition slots_ok :: "traffic \<Rightarrow> bool" where
  "slots_ok x \<longleftrightarrow> (\<forall>sid c buf. waits_on (tf_gateway x) sid c buf \<longrightarrow> map_of (tf_calls x) (sid, c) = Some (buf, False))"

definition endings_ok :: "traffic \<Rightarrow> bool" where
  "endings_ok x \<longleftrightarrow> (\<forall>((sid, c), w) \<in> set (tf_ended x). ending_ok (tf_gateway x) (tf_heard x) sid c w)"

definition traffic_ok :: "traffic \<Rightarrow> bool" where
  "traffic_ok x \<longleftrightarrow> gateway_ok (tf_gateway x) \<and> calls_ok x \<and> slots_ok x \<and> endings_ok x"

lemma no_traffic_ok: "traffic_ok no_traffic"
  by (simp add: traffic_ok_def calls_ok_def slots_ok_def endings_ok_def no_traffic_def waits_on_def)
    (simp add: Gateway_New_def)

lemma heard_more: "heard_for h sid c buf \<Longrightarrow> set h \<subseteq> set h' \<Longrightarrow> heard_for h' sid c buf"
  by (auto simp: heard_for_def)

lemma ending_kept:
  "ending_ok g h sid c w \<Longrightarrow> (worker_gone g sid \<Longrightarrow> worker_gone g' sid) \<Longrightarrow> set h \<subseteq> set h' \<Longrightarrow> ending_ok g' h' sid c w"
  by (auto simp: ending_ok_def heard_more split: ending.splits option.splits)

lemma call_kept:
  "call_ok g h sid c ch \<Longrightarrow> (worker_gone g sid \<Longrightarrow> worker_gone g' sid)
     \<Longrightarrow> (waits_on g sid c (fst ch) \<Longrightarrow> waits_on g' sid c (fst ch)) \<Longrightarrow> set h \<subseteq> set h' \<Longrightarrow> call_ok g' h' sid c ch"
  by (auto simp: call_ok_def heard_more split: if_splits)

text \<open>
  What a step has to show: the tables stay in order, a worker that is gone stays gone, and the
  calls whose wait it does not touch are as they were.
\<close>

lemma traffic_okI:
  assumes "traffic_ok x" and "gateway_ok g" and "set (tf_heard x) \<subseteq> set heard"
    and "\<And>sid. worker_gone (tf_gateway x) sid \<Longrightarrow> worker_gone g sid"
    and "\<And>sid c ch. map_of cs (sid, c) = Some ch \<Longrightarrow> map_of (tf_calls x) (sid, c) = Some ch
      \<and> (waits_on (tf_gateway x) sid c (fst ch) \<longrightarrow> waits_on g sid c (fst ch)) \<or> call_ok g heard sid c ch"
    and "\<And>sid c buf. waits_on g sid c buf \<Longrightarrow> map_of cs (sid, c) = Some (buf, False)"
    and "\<And>sid c w. ((sid, c), w) \<in> set ended \<Longrightarrow> ((sid, c), w) \<in> set (tf_ended x) \<or> ending_ok g heard sid c w"
  shows "traffic_ok \<lparr>tf_gateway = g, tf_calls = cs, tf_over = over, tf_heard = heard, tf_ended = ended\<rparr>"
proof -
  have "call_ok g heard sid c ch" if "map_of cs (sid, c) = Some ch" for sid c ch
    using assms(5) [OF that] assms(1,3,4) call_kept [of "tf_gateway x" "tf_heard x" sid c ch g heard]
    unfolding traffic_ok_def calls_ok_def by blast
  moreover have "ending_ok g heard sid c w" if "((sid, c), w) \<in> set ended" for sid c w
    using assms(7) [OF that] assms(1,3,4) ending_kept [of "tf_gateway x" "tf_heard x" sid c w g heard]
    unfolding traffic_ok_def endings_ok_def by blast
  ultimately show ?thesis using assms(2,6)
    unfolding traffic_ok_def calls_ok_def slots_ok_def endings_ok_def by auto
qed

lemma slot_called: "traffic_ok x \<Longrightarrow> waits_on (tf_gateway x) sid c buf \<Longrightarrow> map_of (tf_calls x) (sid, c) = Some (buf, False)"
  unfolding traffic_ok_def slots_ok_def by blast

lemma called_ok: "traffic_ok x \<Longrightarrow> map_of (tf_calls x) (sid, c) = Some ch \<Longrightarrow> call_ok (tf_gateway x) (tf_heard x) sid c ch"
  unfolding traffic_ok_def calls_ok_def by blast

text \<open>A step that leaves every wait as it is.\<close>

lemma traffic_ok_same:
  assumes "traffic_ok x" and "gateway_ok g"
    and "\<And>sid c buf. waits_on g sid c buf \<longleftrightarrow> waits_on (tf_gateway x) sid c buf"
    and "\<And>sid. worker_gone (tf_gateway x) sid \<Longrightarrow> worker_gone g sid"
  shows "traffic_ok (x\<lparr>tf_gateway := g, tf_over := over\<rparr>)"
proof -
  have "traffic_ok \<lparr>tf_gateway = g, tf_calls = tf_calls x, tf_over = over, tf_heard = tf_heard x, tf_ended = tf_ended x\<rparr>"
    by (rule traffic_okI [OF assms(1,2)]) (auto simp: assms(3,4) slot_called [OF assms(1)])
  then show ?thesis by (cases x) simp
qed

lemma on_session_at:
  "map_of (gw_sessions g) sid = Some s \<Longrightarrow>
     map_of (gw_sessions (on_session sid f g)) = (map_of (gw_sessions g))(sid \<mapsto> f s) \<and> gw_nextID (on_session sid f g) = gw_nextID g"
  by (simp add: on_session_def update_conv')

lemma waits_on_session:
  assumes "map_of (gw_sessions g) sid = Some s"
  shows "waits_on (on_session sid f g) i c buf
      \<longleftrightarrow> (if i = sid then \<not> se_closed (f s) \<and> map_of (se_pending (f s)) c = Some buf else waits_on g i c buf)"
    and "worker_gone (on_session sid f g) i
      \<longleftrightarrow> (if i = sid then session_numbered (gw_nextID g) sid \<and> se_closed (f s) else worker_gone g i)"
    and "waits_on g sid c buf \<longleftrightarrow> \<not> se_closed s \<and> map_of (se_pending s) c = Some buf"
    and "worker_gone g sid \<longleftrightarrow> session_numbered (gw_nextID g) sid \<and> se_closed s"
  using assms by (auto simp: waits_on_def worker_gone_def on_session_at)

lemma joins_ok:
  assumes "traffic_ok x" and r: "register first ack (tf_gateway x) = (r, g)" "gw_nextID (tf_gateway x) < max_uint64"
  shows "traffic_ok (x\<lparr>tf_gateway := g\<rparr>)"
proof -
  let ?g = "tf_gateway x"
  have ok: "gateway_ok ?g" using assms(1) by (simp add: traffic_ok_def)
  note new = register_ok [OF ok r]
  have "waits_on g sid c buf \<longleftrightarrow> waits_on ?g sid c buf" for sid c buf
    using new(3,4) unfolding waits_on_def by fastforce
  moreover have "worker_gone g sid" if "worker_gone ?g sid" for sid
    using that new(2) new(3) [of sid] unfolding worker_gone_def by (auto simp: numbered_later)
  ultimately have "traffic_ok (x\<lparr>tf_gateway := g, tf_over := tf_over x\<rparr>)"
    by (intro traffic_ok_same [OF assms(1) new(1)]) simp_all
  then show ?thesis by simp
qed

lemma picks_ok:
  assumes "traffic_ok x" and m: "moves_cursor (tf_gateway x) g"
  shows "traffic_ok (x\<lparr>tf_gateway := g\<rparr>)"
proof -
  have "gateway_ok g" using cursor_ok [OF m] assms(1) by (simp add: traffic_ok_def)
  then have "traffic_ok (x\<lparr>tf_gateway := g, tf_over := tf_over x\<rparr>)"
    by (rule traffic_ok_same [OF assms(1)]) (use m in \<open>simp_all add: moves_cursor_def waits_on_def worker_gone_def\<close>)
  then show ?thesis by simp
qed

lemma calls_ok_step:
  assumes x: "traffic_ok x" and s: "map_of (gw_sessions (tf_gateway x)) sid = Some s" "se_seq s < max_uint64"
    and b: "call_begin s = (Inr c, s')"
  shows "traffic_ok (x\<lparr>tf_gateway := on_session sid (\<lambda>_. s') (tf_gateway x), tf_calls := AList.update (sid, c) (None, False) (tf_calls x)\<rparr>)"
proof -
  let ?g = "on_session sid (\<lambda>_. s') (tf_gateway x)"
  have ok: "gateway_ok (tf_gateway x)" using x by (simp add: traffic_ok_def)
  from session_at [OF ok s(1)] have "session_ok s" by blast
  note b' = call_begin_ok [OF b this s(2)]
  note w = waits_on_session [OF s(1)]
  have s': "\<not> se_closed s'" "\<And>k. map_of (se_pending s') k = (if k = c then Some None else map_of (se_pending s) k)"
    using b' by (auto simp: update_conv')
  have live: "\<not> se_closed s" using b' by blast
  have "traffic_ok \<lparr>tf_gateway = ?g, tf_calls = AList.update (sid, c) (None, False) (tf_calls x), tf_over = tf_over x,
      tf_heard = tf_heard x, tf_ended = tf_ended x\<rparr>"
  proof (rule traffic_okI [OF x])
    show "gateway_ok ?g" using b' s(1) by (intro on_session_ok [OF ok]) auto
  next
    fix i k ch assume "map_of (AList.update (sid, c) (None, False) (tf_calls x)) (i, k) = Some ch"
    then show "map_of (tf_calls x) (i, k) = Some ch \<and> (waits_on (tf_gateway x) i k (fst ch) \<longrightarrow> waits_on ?g i k (fst ch))
        \<or> call_ok ?g (tf_heard x) i k ch"
      using s' w(1,3) by (auto simp: update_conv' call_ok_def heard_for_def split: if_splits)
  next
    fix i k buf assume "waits_on ?g i k buf"
    then show "map_of (AList.update (sid, c) (None, False) (tf_calls x)) (i, k) = Some (buf, False)"
      using s' w(1,3) live slot_called [OF x, of i k buf] by (auto simp: update_conv' split: if_splits)
  next
    fix i assume "worker_gone (tf_gateway x) i"
    then show "worker_gone ?g i" using w(2,4) live by (cases "i = sid") simp_all
  qed simp_all
  then show ?thesis by (cases x) simp
qed

lemma refused_ok:
  assumes x: "traffic_ok x" and s: "map_of (gw_sessions (tf_gateway x)) sid = Some s" and b: "call_begin s = (Inl err, s')"
  shows "traffic_ok (x\<lparr>tf_gateway := on_session sid (\<lambda>_. s') (tf_gateway x)\<rparr>)"
proof -
  have ok: "gateway_ok (tf_gateway x)" using x by (simp add: traffic_ok_def)
  from session_at [OF ok s(1)] have "session_ok s" by blast
  note b' = call_begin_refused [OF b this]
  note w = waits_on_session [OF s]
  have "traffic_ok (x\<lparr>tf_gateway := on_session sid (\<lambda>_. s') (tf_gateway x), tf_over := tf_over x\<rparr>)"
  proof (rule traffic_ok_same [OF x])
    show "gateway_ok (on_session sid (\<lambda>_. s') (tf_gateway x))" using b' s by (intro on_session_ok [OF ok]) auto
    show "waits_on (on_session sid (\<lambda>_. s') (tf_gateway x)) i c buf \<longleftrightarrow> waits_on (tf_gateway x) i c buf" for i c buf
      using b' w(1,3) by (cases "i = sid") simp_all
    show "worker_gone (tf_gateway x) i \<Longrightarrow> worker_gone (on_session sid (\<lambda>_. s') (tf_gateway x)) i" for i
      using b' w(2,4) by (cases "i = sid") simp_all
  qed
  then show ?thesis by simp
qed

lemma loses_ok:
  assumes x: "traffic_ok x" and s: "map_of (gw_sessions (tf_gateway x)) sid = Some s" "\<not> se_closed s"
  shows "traffic_ok (x\<lparr>tf_gateway := on_session sid (close e) (tf_gateway x), tf_calls := hang_up sid s (tf_calls x)\<rparr>)"
proof -
  let ?g = "on_session sid (close e) (tf_gateway x)"
  have ok: "gateway_ok (tf_gateway x)" using x by (simp add: traffic_ok_def)
  from session_at [OF ok s(1)] have num: "session_numbered (gw_nextID (tf_gateway x)) sid" by blast
  note w = waits_on_session [OF s(1)]
  have at: "map_of (hang_up sid s cs) (i, k) =
      map_option (\<lambda>(buf, gone). (buf, gone \<or> (i = sid \<and> map_of (se_pending s) k \<noteq> None))) (map_of cs (i, k))" for cs i k
    by (induction cs) (auto simp: hang_up_def split: prod.splits)
  have closed: "se_closed (close e s)" "se_pending (close e s) = []" using s(2) by (simp_all add: close_def)
  have "traffic_ok \<lparr>tf_gateway = ?g, tf_calls = hang_up sid s (tf_calls x), tf_over = tf_over x,
      tf_heard = tf_heard x, tf_ended = tf_ended x\<rparr>"
  proof (rule traffic_okI [OF x])
    show "gateway_ok ?g" by (intro on_session_ok [OF ok] close_ok)
  next
    fix i k ch assume "map_of (hang_up sid s (tf_calls x)) (i, k) = Some ch"
    then obtain old where old: "map_of (tf_calls x) (i, k) = Some old"
      "ch = (fst old, snd old \<or> (i = sid \<and> map_of (se_pending s) k \<noteq> None))"
      by (auto simp: at)
    from called_ok [OF x old(1)] s(2) closed num
    show "map_of (tf_calls x) (i, k) = Some ch \<and> (waits_on (tf_gateway x) i k (fst ch) \<longrightarrow> waits_on ?g i k (fst ch))
        \<or> call_ok ?g (tf_heard x) i k ch"
      unfolding old(1) old(2) call_ok_def by (cases old; cases "i = sid") (auto simp: w split: if_splits)
  next
    fix i k buf assume "waits_on ?g i k buf"
    then have "i \<noteq> sid" "waits_on (tf_gateway x) i k buf" using closed by (auto simp: w(1) split: if_splits)
    then show "map_of (hang_up sid s (tf_calls x)) (i, k) = Some (buf, False)" using slot_called [OF x] by (simp add: at)
  next
    fix i assume "worker_gone (tf_gateway x) i"
    then show "worker_gone ?g i" using s(2) w(2,4) by (cases "i = sid") simp_all
  qed simp_all
  then show ?thesis by (cases x) simp
qed

lemma leaves_ok:
  assumes x: "traffic_ok x" and s: "map_of (gw_sessions (tf_gateway x)) sid = Some s" "se_closed s"
  shows "traffic_ok (x\<lparr>tf_gateway := remove sid (tf_gateway x), tf_over := over\<rparr>)"
proof (rule traffic_ok_same [OF x])
  have ok: "gateway_ok (tf_gateway x)" using x by (simp add: traffic_ok_def)
  note at = remove_ok(2) [OF ok, of sid]
  have num: "gw_nextID (remove sid (tf_gateway x)) = gw_nextID (tf_gateway x)"
    by (simp add: remove_def Let_def split: option.splits)
  show "gateway_ok (remove sid (tf_gateway x))" using ok by (rule remove_ok(1))
  show "waits_on (remove sid (tf_gateway x)) i c buf \<longleftrightarrow> waits_on (tf_gateway x) i c buf" for i c buf
    using s by (auto simp: waits_on_def at)
  show "worker_gone (tf_gateway x) i \<Longrightarrow> worker_gone (remove sid (tf_gateway x)) i" for i
    by (auto simp: worker_gone_def at num)
qed

lemma ends_ok:
  assumes x: "traffic_ok x" and ch: "map_of (tf_calls x) (sid, c) = Some ch" and w: "may_end (tf_over x) sid ch w"
  shows "traffic_ok (x\<lparr>tf_gateway := on_session sid (call_end c) (tf_gateway x), tf_calls := AList.delete (sid, c) (tf_calls x),
      tf_ended := tf_ended x @ [((sid, c), w)]\<rparr>)"
proof -
  let ?g = "on_session sid (call_end c) (tf_gateway x)"
  have ok: "gateway_ok (tf_gateway x)" using x by (simp add: traffic_ok_def)
  have waits: "waits_on ?g i k buf \<longleftrightarrow> (i, k) \<noteq> (sid, c) \<and> waits_on (tf_gateway x) i k buf" for i k buf
  proof (cases "map_of (gw_sessions (tf_gateway x)) sid")
    case (Some s)
    then show ?thesis by (auto simp: waits_on_session [OF Some] call_end_def delete_conv')
  next
    case None
    then have g: "?g = tf_gateway x" by (simp add: on_session_def)
    show ?thesis unfolding g using None by (auto simp: waits_on_def)
  qed
  have gone: "worker_gone ?g i \<longleftrightarrow> worker_gone (tf_gateway x) i" for i
  proof (cases "map_of (gw_sessions (tf_gateway x)) sid")
    case (Some s)
    then show ?thesis by (auto simp: waits_on_session [OF Some] call_end_def)
  qed (simp add: on_session_def)
  have "ending_ok ?g (tf_heard x) sid c w"
    using called_ok [OF x ch] w
    by (auto simp: ending_ok_def may_end_def call_ok_def gone split: ending.splits option.splits if_splits)
  then have "traffic_ok \<lparr>tf_gateway = ?g, tf_calls = AList.delete (sid, c) (tf_calls x), tf_over = tf_over x,
      tf_heard = tf_heard x, tf_ended = tf_ended x @ [((sid, c), w)]\<rparr>"
  proof (intro traffic_okI [OF x])
    show "gateway_ok ?g" by (intro on_session_ok [OF ok] call_end_ok)
  qed (auto simp: waits gone delete_conv' slot_called [OF x] split: if_splits)
  then show ?thesis by (cases x) simp
qed

lemma hears_ok:
  assumes x: "traffic_ok x" and s: "map_of (gw_sessions (tf_gateway x)) sid = Some s" "\<not> se_closed s"
  shows "traffic_ok (x\<lparr>tf_gateway := receive_msg sid m (tf_gateway x), tf_calls := hand sid m s (tf_calls x),
      tf_heard := tf_heard x @ [(sid, m)]\<rparr>)"
proof -
  let ?g = "receive_msg sid m (tf_gateway x)" and ?cs = "hand sid m s (tf_calls x)" and ?h = "tf_heard x @ [(sid, m)]"
  have ok: "gateway_ok (tf_gateway x)" using x by (simp add: traffic_ok_def)
  note w = waits_on_session [OF s(1)]
  have "traffic_ok \<lparr>tf_gateway = ?g, tf_calls = ?cs, tf_over = tf_over x, tf_heard = ?h, tf_ended = tf_ended x\<rparr>"
  proof (cases "\<exists>c. callIDOf m = Some c \<and> map_of (se_pending s) c = Some None")
    case True
    then obtain c where c: "callIDOf m = Some c" "map_of (se_pending s) c = Some None" by blast
    let ?s = "s\<lparr>se_pending := AList.update c (Some m) (se_pending s)\<rparr>"
    have d: "deliver c m s = (True, ?s)" using c(2) by (simp add: deliver_def)
    have cs: "?cs = AList.update (sid, c) (Some m, False) (tf_calls x)" by (simp add: hand_def c(1) d)
    have waits: "waits_on ?g i k buf \<longleftrightarrow> (if i = sid then (if k = c then buf = Some m else map_of (se_pending s) k = Some buf) else waits_on (tf_gateway x) i k buf)" for i k buf
      using s(2) by (auto simp: receive_msg_def c(1) w(1) d update_conv')
    show ?thesis unfolding cs
    proof (rule traffic_okI [OF x])
      show "gateway_ok ?g" using ok by (rule receive_msg_ok)
    next
      fix i k ch assume "map_of (AList.update (sid, c) (Some m, False) (tf_calls x)) (i, k) = Some ch"
      then show "map_of (tf_calls x) (i, k) = Some ch \<and> (waits_on (tf_gateway x) i k (fst ch) \<longrightarrow> waits_on ?g i k (fst ch))
          \<or> call_ok ?g ?h i k ch"
        using c s(2) by (auto simp: update_conv' call_ok_def heard_for_def waits w(3) split: if_splits)
    next
      fix i k buf assume "waits_on ?g i k buf"
      then show "map_of (AList.update (sid, c) (Some m, False) (tf_calls x)) (i, k) = Some (buf, False)"
        using s(2) slot_called [OF x, of i k buf] by (auto simp: update_conv' waits w(3) split: if_splits)
    next
      fix i assume "worker_gone (tf_gateway x) i"
      then show "worker_gone ?g i" using s(2) w(4) by (cases "i = sid") (simp_all add: receive_msg_def c(1) w(2))
    qed auto
  next
    case False
    then have d: "deliver c m s = (False, s)" if "callIDOf m = Some c" for c
      using that by (auto simp: deliver_def split: option.splits)
    then have cs: "?cs = tf_calls x" by (simp add: hand_def split: option.splits)
    have g: "waits_on ?g i k buf \<longleftrightarrow> waits_on (tf_gateway x) i k buf" "worker_gone ?g i \<longleftrightarrow> worker_gone (tf_gateway x) i" for i k buf
      using d by (auto simp: receive_msg_def w split: option.splits)
    show ?thesis unfolding cs
      by (rule traffic_okI [OF x receive_msg_ok [OF ok]]) (auto simp: g slot_called [OF x])
  qed
  then show ?thesis by (cases x) simp
qed

lemma traffic_step_ok: "traffic_step x y \<Longrightarrow> traffic_ok x \<Longrightarrow> traffic_ok y"
proof (induction rule: traffic_step.induct)
  case (picks agent x r g version tool kind)
  then have "moves_cursor (tf_gateway x) g" using picks_move_cursors by blast
  with picks show ?case by (blast intro: picks_ok)
next
  case (breaks x sid)
  have "traffic_ok (x\<lparr>tf_gateway := tf_gateway x, tf_over := sid # tf_over x\<rparr>)"
    by (rule traffic_ok_same [OF breaks]) (use breaks in \<open>simp_all add: traffic_ok_def\<close>)
  then show ?case by simp
qed (blast intro: joins_ok calls_ok_step refused_ok hears_ok loses_ok leaves_ok ends_ok)+

section \<open>Reachable traffic\<close>

inductive traffic_reachable :: "traffic \<Rightarrow> bool" where
  quiet: "traffic_reachable no_traffic"
| step: "traffic_reachable x \<Longrightarrow> traffic_step x y \<Longrightarrow> traffic_reachable y"

lemma reachable_traffic_ok: "traffic_reachable x \<Longrightarrow> traffic_ok x"
  by (induction rule: traffic_reachable.induct) (auto intro: no_traffic_ok traffic_step_ok)

text \<open>A call that still waits can be answered, or its wait can end without one.\<close>

lemma no_call_is_stranded:
  assumes "traffic_reachable x" and "map_of (tf_calls x) (sid, c) = Some ch"
  shows "waits_on (tf_gateway x) sid c (fst ch) \<or> may_end (tf_over x) sid ch (Received (fst ch))"
  using called_ok [OF reachable_traffic_ok [OF assms(1)] assms(2)]
  by (auto simp: call_ok_def may_end_def split: if_splits option.splits)

section \<open>An example\<close>

text \<open>A worker connects, is asked to execute a tool, answers, and the caller takes the answer.\<close>

definition sample_session :: session where
  "sample_session = \<lparr>se_id = ''s1'', se_agent = ''shop'', se_version = ''v1'', se_worker = ''w'', se_runtime = ''python'',
     se_decides = True, se_tools = [], se_seq = 0, se_pending = [], se_closed = False, se_cause = None\<rparr>"

definition sample_answer :: pb_ClientMessage where
  "sample_answer = CM_ExecuteResult ''s1.1'' None (RawJSON (JObj []))"

definition sample_joined :: traffic where
  "sample_joined = no_traffic\<lparr>tf_gateway := \<lparr>gw_sessions = [(''s1'', sample_session)], gw_byAgent = [(''shop'', [''s1''])],
     gw_nextID = 1, gw_rr = []\<rparr>\<rparr>"

definition sample_called :: traffic where
  "sample_called = sample_joined\<lparr>
     tf_gateway := on_session ''s1'' (\<lambda>_. snd (call_begin sample_session)) (tf_gateway sample_joined),
     tf_calls := AList.update (''s1'', ''s1.1'') (None, False) (tf_calls sample_joined)\<rparr>"

definition sample_heard :: traffic where
  "sample_heard = sample_called\<lparr>tf_gateway := receive_msg ''s1'' sample_answer (tf_gateway sample_called),
     tf_calls := hand ''s1'' sample_answer (snd (call_begin sample_session)) (tf_calls sample_called),
     tf_heard := tf_heard sample_called @ [(''s1'', sample_answer)]\<rparr>"

definition sample_answered :: traffic where
  "sample_answered = sample_heard\<lparr>tf_gateway := on_session ''s1'' (call_end ''s1.1'') (tf_gateway sample_heard),
     tf_calls := AList.delete (''s1'', ''s1.1'') (tf_calls sample_heard),
     tf_ended := tf_ended sample_heard @ [((''s1'', ''s1.1''), Received (Some sample_answer))]\<rparr>"

lemma show_one: "show_nat (Suc 0) = ''1''"
  by code_simp

lemma sample_registers:
  "register (Inr (CM_Register ''shop'' ''v1'' ''w'' ''python'' True [] 1)) None Gateway_New = (Inr ''s1'', tf_gateway sample_joined)"
  by (simp add: register_def Gateway_New_def sample_joined_def no_traffic_def sample_session_def agent_ids_def show_one Let_def)

lemma sample_begins:
  "call_begin sample_session = (Inr ''s1.1'', sample_session\<lparr>se_seq := 1, se_pending := [(''s1.1'', None)]\<rparr>)"
  by (simp add: call_begin_def nextCallID_def sample_session_def show_one Let_def)

lemma sample_room: "se_seq sample_session < max_uint64"
  by (simp add: sample_session_def max_uint64_def)

lemmas sample_traffic = sample_answered_def sample_heard_def sample_called_def sample_joined_def no_traffic_def
  sample_begins sample_answer_def on_session_def receive_msg_def callIDOf_def deliver_def hand_def

lemma sample_sessions:
  "map_of (gw_sessions (tf_gateway sample_joined)) ''s1'' = Some sample_session"
  "map_of (gw_sessions (tf_gateway sample_called)) ''s1'' = Some (snd (call_begin sample_session))"
  "se_closed (snd (call_begin sample_session)) = False"
  "map_of (tf_calls sample_heard) (''s1'', ''s1.1'') = Some (Some sample_answer, False)"
  by (simp_all add: sample_traffic) (simp add: sample_session_def)

lemma sample_answered_reachable: "traffic_reachable sample_answered"
proof -
  have "traffic_step no_traffic (no_traffic\<lparr>tf_gateway := tf_gateway sample_joined\<rparr>)"
    by (rule traffic_step.joins [where first = "Inr (CM_Register ''shop'' ''v1'' ''w'' ''python'' True [] 1)" and ack = None and r = "Inr ''s1''"])
      (simp_all add: no_traffic_def sample_registers, simp add: Gateway_New_def max_uint64_def)
  then have 1: "traffic_reachable sample_joined" using traffic_reachable.intros by (simp add: sample_joined_def)
  have "traffic_step sample_joined sample_called" unfolding sample_called_def
    by (rule traffic_step.calls [OF sample_sessions(1) sample_room]) (simp add: sample_begins)
  with 1 have 2: "traffic_reachable sample_called" by (rule traffic_reachable.step)
  have "traffic_step sample_called sample_heard" unfolding sample_heard_def
    by (rule traffic_step.hears [OF sample_sessions(2)]) (simp add: sample_sessions(3))
  with 2 have 3: "traffic_reachable sample_heard" by (rule traffic_reachable.step)
  have "traffic_step sample_heard sample_answered" unfolding sample_answered_def
    by (rule traffic_step.ends [OF sample_sessions(4)]) (simp add: may_end_def)
  with 3 show ?thesis by (rule traffic_reachable.step)
qed

lemma sample_answered_ends: "((''s1'', ''s1.1''), Received (Some sample_answer)) \<in> set (tf_ended sample_answered)"
  by (simp add: sample_answered_def)

end
