(* ===== verification/Startup.thy ===== *)
theory Startup
  imports Wiring Loops
begin

text \<open>
  How the processes start: the connection to a broker (Open and Close of
  internal/dispatch/jetstream/jetstream.go), and the two long-running binaries over their parsed
  flags (cmd/veya-runtime/main.go, cmd/veya-worker/main.go). What the broker's client and the
  system answer are arguments.
\<close>

section \<open>Opening a broker (jetstream.go)\<close>

record JetConfig =
  jc_URL :: string
  jc_Stream :: string
  jc_Durable :: string
  jc_Subject :: string
  jc_MaxAge :: duration
  jc_FetchWait :: duration

text \<open>What is asked of the broker; policies are named as in its client.\<close>

record StreamConfig =
  sc_Name :: string
  sc_Subjects :: "string list"
  sc_Retention :: string
  sc_Storage :: string
  sc_Discard :: string
  sc_MaxAge :: duration

record ConsumerConfig =
  cc_Durable :: string
  cc_AckPolicy :: string
  cc_AckWait :: duration

record JetDispatcher =
  jd_subject :: string
  jd_fetchWait :: duration

text \<open>What the client answers, \<open>None\<close> for success.\<close>

record broker_answers =
  ba_connect :: "string \<Rightarrow> go_error option"
  ba_new :: "go_error option"
  ba_stream :: "StreamConfig \<Rightarrow> go_error option"
  ba_consumer :: "string \<Rightarrow> ConsumerConfig \<Rightarrow> go_error option"

definition DeliverySubject :: string where "DeliverySubject = ''veya.tasks.work''"

definition or_text :: "string \<Rightarrow> string \<Rightarrow> string" where "or_text v def = (if v = [] then def else v)"

definition or_wait :: "duration \<Rightarrow> duration \<Rightarrow> duration" where "or_wait v def = (if v \<le> 0 then def else v)"

definition jet_defaults :: "JetConfig \<Rightarrow> JetConfig" where
  "jet_defaults cfg =
     \<lparr>jc_URL = or_text (jc_URL cfg) ''nats://127.0.0.1:4222'', jc_Stream = or_text (jc_Stream cfg) ''VEYA_TASKS'',
      jc_Durable = or_text (jc_Durable cfg) ''veya-workers'', jc_Subject = or_text (jc_Subject cfg) DeliverySubject,
      jc_MaxAge = or_wait (jc_MaxAge cfg) (24 * 60 * 60 * second), jc_FetchWait = or_wait (jc_FetchWait cfg) (2 * second)\<rparr>"

definition jet_stream :: "JetConfig \<Rightarrow> StreamConfig" where
  "jet_stream c = \<lparr>sc_Name = jc_Stream c, sc_Subjects = [jc_Subject c], sc_Retention = ''WorkQueuePolicy'',
     sc_Storage = ''FileStorage'', sc_Discard = ''DiscardOld'', sc_MaxAge = jc_MaxAge c\<rparr>"

definition jet_consumer :: "JetConfig \<Rightarrow> ConsumerConfig" where
  "jet_consumer c = \<lparr>cc_Durable = jc_Durable c, cc_AckPolicy = ''AckExplicitPolicy'', cc_AckWait = 30 * second\<rparr>"

text \<open>The dispatcher or an error, and whether a connection stays open.\<close>

definition Jet_Open :: "broker_answers \<Rightarrow> JetConfig \<Rightarrow> (go_error + JetDispatcher) \<times> bool" where
  "Jet_Open a cfg =
     (let c = jet_defaults cfg in
      case ba_connect a (jc_URL c) of
        Some err \<Rightarrow> (Inl (wrap_err (''jetstream: connect '' @ jc_URL c) err), False)
      | None \<Rightarrow>
          (case ba_new a of
             Some err \<Rightarrow> (Inl (wrap_err ''jetstream: open'' err), False)
           | None \<Rightarrow>
               (case ba_stream a (jet_stream c) of
                  Some err \<Rightarrow> (Inl (wrap_err (''jetstream: create stream '' @ jc_Stream c) err), False)
                | None \<Rightarrow>
                    (case ba_consumer a (jc_Stream c) (jet_consumer c) of
                       Some err \<Rightarrow> (Inl (wrap_err (''jetstream: create consumer '' @ jc_Durable c) err), False)
                     | None \<Rightarrow> (Inr \<lparr>jd_subject = jc_Subject c, jd_fetchWait = jc_FetchWait c\<rparr>, True)))))"

text \<open>The calls of \<open>Close\<close> on the connection, by whether it was closed before and whether draining fails.\<close>

datatype conn_call = Drain | CloseConn

definition Jet_Close :: "bool \<Rightarrow> bool \<Rightarrow> conn_call list \<times> bool" where
  "Jet_Close again drain_fails =
     (if again then [] else if drain_fails then [Drain, CloseConn] else [Drain], True)"

lemma Jet_Open_leaks_nothing:
  assumes "Jet_Open a cfg = (r, still)"
  shows "still \<longleftrightarrow> (\<exists>d. r = Inr d)" and "r = Inr d \<Longrightarrow> jd_subject d \<noteq> [] \<and> 0 < jd_fetchWait d"
  using assms
  by (auto simp: Jet_Open_def Let_def jet_defaults_def or_text_def or_wait_def DeliverySubject_def second_def
      split: option.splits if_splits)

section \<open>The worker binary (cmd/veya-worker/main.go)\<close>

text \<open>A flag that is not given is \<open>None\<close> and leaves its default.\<close>

definition flag_or :: "'a option \<Rightarrow> 'a \<Rightarrow> 'a" where
  "flag_or f def = (case f of None \<Rightarrow> def | Some v \<Rightarrow> v)"

record worker_flags =
  wf_dsn :: "string option"
  wf_dispatch :: "string option"
  wf_nats :: "string option"
  wf_workers :: "int option"
  wf_leaseTTL :: "duration option"
  wf_logLevel :: "string option"
  wf_name :: "string option"
  wf_grpc :: "string option"
  wf_agent :: "string option"
  wf_agentVersion :: "string option"

definition hostname :: "string option \<Rightarrow> string" where
  "hostname host = (case host of None \<Rightarrow> ''worker'' | Some h \<Rightarrow> if h = [] then ''worker'' else h)"

definition worker_config :: "string option \<Rightarrow> worker_flags \<Rightarrow> Config" where
  "worker_config host f =
     (let c = DefaultConfig\<lparr>cfg_Role := ''worker'', cfg_Dispatch := ''postgres''\<rparr> in
      c\<lparr>cfg_DSN := flag_or (wf_dsn f) (cfg_DSN c), cfg_Dispatch := flag_or (wf_dispatch f) (cfg_Dispatch c),
        cfg_NATSURL := flag_or (wf_nats f) (cfg_NATSURL c), cfg_Workers := flag_or (wf_workers f) (cfg_Workers c),
        cfg_LeaseTTL := flag_or (wf_leaseTTL f) (cfg_LeaseTTL c), cfg_LogLevel := flag_or (wf_logLevel f) (cfg_LogLevel c),
        cfg_GatewayAddr := flag_or (wf_grpc f) (cfg_GatewayAddr c), cfg_WorkerPrefix := flag_or (wf_name f) (hostname host)\<rparr>)"

text \<open>The error the process ends with, or the loops it runs.\<close>

definition veya_worker_run :: "'d \<Rightarrow> 't \<Rightarrow> (string \<Rightarrow> 'd \<times> 't) \<Rightarrow> outcomes \<Rightarrow> string option \<Rightarrow> worker_flags
    \<Rightarrow> go_error + loop list" where
  "veya_worker_run decider tools gateway oc host f =
     (let c = worker_config host f in
      case Select decider tools (flag_or (wf_agent f) meeting_name) (flag_or (wf_agentVersion f) []) (cfg_GatewayAddr c) of
        Inl err \<Rightarrow> Inl err
      | Inr agent \<Rightarrow>
          (case fst (Build gateway oc host c agent) of
             Inl err \<Rightarrow> Inl err
           | Inr stack \<Rightarrow> Inr (Serve stack)))"

section \<open>The runtime binary (cmd/veya-runtime/main.go)\<close>

record runtime_flags =
  rf_store :: "string option"
  rf_dsn :: "string option"
  rf_dispatch :: "string option"
  rf_nats :: "string option"
  rf_workers :: "int option"
  rf_scanInterval :: "duration option"
  rf_relayInterval :: "duration option"
  rf_logLevel :: "string option"
  rf_grpc :: "string option"
  rf_signalHTTP :: "string option"
  rf_agent :: "string option"
  rf_agentVersion :: "string option"
  rf_demo :: bool
  rf_demoInput :: "raw option"

definition runtime_config :: "runtime_flags \<Rightarrow> Config" where
  "runtime_config f =
     (let c = DefaultConfig in
      c\<lparr>cfg_Role := ''runtime'', cfg_Store := flag_or (rf_store f) (cfg_Store c), cfg_DSN := flag_or (rf_dsn f) (cfg_DSN c),
        cfg_Dispatch := flag_or (rf_dispatch f) (cfg_Dispatch c), cfg_NATSURL := flag_or (rf_nats f) (cfg_NATSURL c),
        cfg_Workers := flag_or (rf_workers f) (cfg_Workers c), cfg_ScanInterval := flag_or (rf_scanInterval f) (cfg_ScanInterval c),
        cfg_RelayInterval := flag_or (rf_relayInterval f) (cfg_RelayInterval c),
        cfg_LogLevel := flag_or (rf_logLevel f) (cfg_LogLevel c), cfg_GatewayAddr := flag_or (rf_grpc f) (cfg_GatewayAddr c),
        cfg_SignalAddr := flag_or (rf_signalHTTP f) (cfg_SignalAddr c)\<rparr>)"

text \<open>
  The demonstration serves the same loops beside its run, so both modes are the stack, with the
  input of the demonstration when it is asked for.
\<close>

definition veya_runtime_run :: "'d \<Rightarrow> 't \<Rightarrow> (string \<Rightarrow> 'd \<times> 't) \<Rightarrow> outcomes \<Rightarrow> string option \<Rightarrow> runtime_flags
    \<Rightarrow> go_error + (('d, 't) Stack \<times> raw option)" where
  "veya_runtime_run decider tools gateway oc host f =
     (let c = runtime_config f in
      case Select decider tools (flag_or (rf_agent f) meeting_name) (flag_or (rf_agentVersion f) []) (cfg_GatewayAddr c) of
        Inl err \<Rightarrow> Inl err
      | Inr agent \<Rightarrow>
          (case fst (Build gateway oc host c agent) of
             Inl err \<Rightarrow> Inl err
           | Inr stack \<Rightarrow> Inr (stack, if rf_demo f then Some (flag_or (rf_demoInput f) demo_input) else None)))"

section \<open>What a process runs\<close>

lemma Build_stack:
  assumes "fst (Build gateway oc host c agent) = Inr stack"
  obtains c' store d agent' where "Validate host c = Inr c'" "stack = assemble c' agent' store d"
proof -
  from assms obtain c' where v: "Validate host c = Inr c'"
    by (auto simp: Build_def split: sum.splits if_splits)
  with assms have "\<exists>store d agent'. stack = assemble c' agent' store d"
    by (auto simp: Build_def Let_def split: sum.splits if_splits)
  with v that show ?thesis by blast
qed

lemma Validate_keeps:
  assumes "Validate host c = Inr c'"
  shows "cfg_Role c \<noteq> [] \<Longrightarrow> cfg_Role c' = cfg_Role c" and "cfg_SignalAddr c' = cfg_SignalAddr c"
proof -
  obtain c1 c2 c3 c4 c5 where c: "check_role c = Inr c1" "check_store c1 = Inr c2" "check_dispatch c2 = Inr c3"
      "check_worker c3 = Inr c4" "check_workers c4 = Inr c5" "check_level (fill_defaults host c5) = Inr c'"
    using assms by (auto simp: Validate_def and_then_Inr)
  have s1: "(cfg_Role c \<noteq> [] \<longrightarrow> cfg_Role c1 = cfg_Role c) \<and> cfg_SignalAddr c1 = cfg_SignalAddr c"
    using c(1) by (auto simp: check_role_def split: if_splits)
  have s2: "c2 = c1" using c(2) by (auto simp: check_store_def split: if_splits)
  have s3: "cfg_Role c3 = cfg_Role c2 \<and> cfg_SignalAddr c3 = cfg_SignalAddr c2"
    using c(3) by (auto simp: check_dispatch_def split: if_splits)
  have s4: "c4 = c3" using c(4) by (auto simp: check_worker_def split: if_splits)
  have s5: "cfg_Role c5 = cfg_Role c4 \<and> cfg_SignalAddr c5 = cfg_SignalAddr c4"
    using c(5) by (auto simp: check_workers_def Let_def split: if_splits)
  have "c' = fill_defaults host c5" using c(6) by (auto simp: check_level_def split: sum.splits)
  with s1 s2 s3 s4 s5 show "cfg_Role c \<noteq> [] \<Longrightarrow> cfg_Role c' = cfg_Role c" "cfg_SignalAddr c' = cfg_SignalAddr c"
    by (simp_all add: fill_defaults_def)
qed

text \<open>
  A worker process executes tasks and coordinates nothing: whatever its flags, it runs its workers
  and at most the gateway, on the PostgreSQL store, and it has at least one worker.
\<close>

lemma worker_never_coordinates:
  assumes "veya_worker_run decider tools gateway oc host f = Inr loops"
  shows "(\<exists>wid. WorkerLoop wid \<in> set loops) \<and> (\<forall>l \<in> set loops. l = GatewayLoop \<or> (\<exists>wid. l = WorkerLoop wid))"
proof -
  let ?c = "worker_config host f"
  have role: "cfg_Role ?c = ''worker''" "cfg_SignalAddr ?c = []"
    by (simp_all add: worker_config_def Let_def DefaultConfig_def)
  from assms obtain agent stack where "fst (Build gateway oc host ?c agent) = Inr stack" and loops: "loops = Serve stack"
    by (auto simp: veya_worker_run_def Let_def split: sum.splits)
  then obtain c' store d agent' where v: "Validate host ?c = Inr c'" and stack: "stack = assemble c' agent' store d"
    by (auto elim: Build_stack)
  have c': "cfg_Role c' = ''worker''" "1 \<le> cfg_Workers c'"
    using Validate_keeps(1) [OF v] role(1) Validate_valid [OF v] by (simp_all add: valid_config_def)
  have "cfg_SignalAddr c' = []" using Validate_keeps(2) [OF v] role(2) by simp
  moreover have "worker_ids c' \<noteq> []" using c'(2) by (simp add: worker_ids_def)
  ultimately show ?thesis using c'(1)
    by (cases "worker_ids c'") (auto simp: loops stack Serve_def assemble_def)
qed

text \<open>A runtime process always runs the four loops that recover what others have left.\<close>

lemma runtime_recovers:
  assumes "veya_runtime_run decider tools gateway oc host f = Inr (stack, demo)"
  shows "{RelayLoop, RecoveryLoop, ReaperLoop, ReconcilerLoop} \<subseteq> set (Serve stack)"
proof -
  let ?c = "runtime_config f"
  have role: "cfg_Role ?c = ''runtime''" by (simp add: runtime_config_def Let_def)
  from assms obtain agent where "fst (Build gateway oc host ?c agent) = Inr stack"
    by (auto simp: veya_runtime_run_def Let_def split: sum.splits)
  then obtain c' store d agent' where v: "Validate host ?c = Inr c'" and stack: "stack = assemble c' agent' store d"
    by (auto elim: Build_stack)
  from Validate_keeps(1) [OF v] role have "cfg_Role c' = ''runtime''" by simp
  then show ?thesis by (simp add: stack Serve_def assemble_def)
qed

end
