(* ===== verification/Spec2Isabelle.thy ===== *)
theory Spec2Isabelle
  imports Remarks DemoRun SuiteRuns Traffic Startup
begin

text \<open>
  A verification library for Veya, a durable runtime for agents (Go, under src/). A run of an
  agent is driven by a history of events: an engine reads the history, asks a decider what comes
  next, and commits the answer in one transaction; workers claim the tasks that come of it, call
  tools through an effect ledger, and report; background loops recover what others left behind.

  The parts and where they are modelled

    Prelude    Go's int64, decimal printing and scanning, association lists for Go maps
    GoBase     sentinel errors and wrapping (core/errors.go), instants, JSON documents
    Ids        identities and step names (core/ids.go, idgen/), idempotency keys (core/effect.go)
    Domain     runs, tasks, effects, leases, signals, deliveries and their status machines (core/)
    Events     event types, payload bodies, the versioned envelope (core/event.go)
    Decision   decisions and join policies (core/decision.go)
    Wait       suspensions read from history (core/wait.go)
    Join       fan-outs read from history (core/join.go)
    Store      the transactional store (store/memory/, core/append.go)
    Engine     advancing a run: engine/engine.go, engine/fanout.go, the waits of engine/signals.go,
               the backoff of core/tool.go
    Tasks      claims, reports, signals, the recovery scan (engine/tasks.go, signals.go, runtime.go)
    Effects    tool registry, executor, reconciliation (tool/, effects/)
    Recovery   lease reaper (lease/reaper.go) and outbox relay (outbox/relay.go)
    Wire       the worker protocol's conversions (sdk/wire/wire.go)
    Gateway    sessions, version pinning, remote calls (sdk/gateway/)
    Serving    the reader of a worker's stream and the life of a connection (sdk/gateway/gateway.go),
               listening and stopping (sdk/gateway/server.go, signalhttp/server.go)
    Worker     the worker loop, the in-process dispatcher, the fixed-list decider, the virtual
               clock, signals over HTTP
    Sql        the tables of store/migrations/*.sql, statements and their errors, the scans and
               conversions of store/postgres/
    Postgres   the operations and reads of the PostgreSQL store (store/postgres/)
    Migrations the runner of migrations and the files it runs (store/migrations/)
    Transports the dispatcher over the tasks table and the one over JetStream (dispatch/postgres/,
               dispatch/jetstream/)
    Operator   the operator's commands (cmd/veya/)
    Wiring     configuration, what is built from it and which loops run (wiring/, agents/)
    Loops      the Run loops of the recovery scan, the reconciler, the reaper, the relay and the
               workers, and the demonstration of cmd/veya-runtime/
    Startup    opening a broker (dispatch/jetstream/) and what the two long-running binaries make of
               their flags (cmd/veya-runtime/, cmd/veya-worker/)
    Meeting    the demonstration agent, its tools and its providers (agents/meeting/)
    Clients    programs over a store, run on either store
    Suite, SuiteEffects, SuiteLeases, SuiteEvents   the conformance suite of the stores
               (core/storetest/), each test a client; the race for one effect is given the order in
               which its goroutines get their turn

  The state is explicit. A Go struct is a record, a Go map an association list, a status a
  datatype whose last constructor stands for every other string. A transaction is a function
  from the store to a result and a store (theory Store: tx_bind, RunInTx); a failed one is rolled
  back, except that the sequence of delivery identities is not reset, as in the code. What the
  code gets from outside is an argument: the decider, the source of identities, the outcome of a
  publish, the float rounding and the random numbers (record engine), the tools and the services
  behind them (type parameter of Effects), the stream of a worker (Gateway). A call that never
  returns is None (Advance is a partial_function).

  What the lemmas show

    StoreLaws, SystemLaws   a relation that every primitive operation of the store respects is
               respected by every transaction (locale tx_relation) and by every component (locale
               system_relation); interpreted for how records evolve, for referential integrity and
               gapless history (store_ok)
    TxRules, Restricted, TaskRules   what a transaction has done when it committed, and which
               primitive operations it is made of
    Reach      traces: every interleaving of the transactions, where a transaction that resumes a
               wait is built on any earlier reading; each component's operations move along a trace
    Stamps     the version of a run as a stamp, signals consumed at most once
    Fencing    fencing tokens, the attempts and leases of tasks
    Reports    stale and repeated reports, claims, signals
    Advancing  runs left alone, dispatches whole or not at all, termination of Advance
    Ledger     write-ahead calls, committed results, recovery by effect class
    Settling   an effect whose answer was lost: when the ledger's transactions commit, and the next
               execution of a queryable tool as one step that settles the row without a call
    Routing    reaper, relay, round robin, version pinning; a join of all children stays open while
               one of them is not settled
    Traffic    every interleaving of connections, calls and answers in a gateway: answers reach the
               calls they were sent for, and no call waits for a worker that is gone
    Progress   when transactions do commit: claims, reports, dispatches, final failures with their
               reason; a run that has ended can be ended once more the same way (ended_again)
    Rounds     what Advance and a decision rest on outside the engine
    Adapters, Agreement, AgreementOps   the tables mirror the maps (mirrors); an operation of the
               PostgreSQL store and its counterpart in memory, started from mirroring stores, end in
               mirroring stores with the same answer or the same sentinel (agrees)
    Interchange, StoreReads   the transactions of the runtime as sequences of operations, whole
               histories on both stores, and the reads on stores that mirror each other
    RetryBounds   the range of a backoff under any rounding with the laws of float64 (predicate
               float64: monotone, exact on 53-bit integers, off by at most half a unit in the last
               place; rounding to 53 binary places satisfies it); and how the range is left without a cap
    Backoffs   a backoff holds back the relay and not the recovery scan
    LoopLaws   how long the recovery scan sleeps; a loop round after round moves along a trace
    Clients    also shows that a client is told the same by both stores, when what it reads is in
               the form the columns give back (client_plain)
    SuiteRace, SuiteRuns   the suite evaluated: the race for one effect in any order of its
               goroutines, on both stores, then every other group of tests on each store
    LedgerTruth   honest providers (a locale, interpreted by the demonstration's tools) and honest
               operators: a COMMITTED row stands for work on the provider's books, under the row's
               key and its reference, which may be empty
    DemoRun    the demonstration taken through by a worker, each background loop evaluated round
               after round, and a send whose answer is lost, as the reconciler finds it
    Remarks    smaller properties: dotted step names, the relay's marks, a worker lost while it
               decides, the wait that a history leaves open
    OperatorLaws   when an operator can settle an effect, and what that records
    Migrations, Transports, Wiring   also hold their own lemmas: migrations run once and in order,
               poison messages, what a poller takes and when it is offered again, valid
               configurations
    Samples, PgSamples, OpsSamples   concrete worlds, computed from the empty store, for the witnesses

  Bounds. Sequence numbers, versions, tokens and attempts are int64 in the code and wrap round in
  the model; the theorems that need room say so (a trace or a history shorter than max_int64, which
  is 2^63 - 1). There is no fuel: loops over lists are structural, and Advance is total under the
  hypotheses of advance_terminates.

  Simplified renderings. The texts of error messages keep the words of the code but not its
  quoting (%q) and durations; sentinels and wrapping are exact. The two calls of an executor within
  one worker step are one after the other; the interleaving of transactions is in Reach. A pass of
  Advance, and the rule of Reach for a resumed wait, read the run, its history and its signals from
  one state, where the code has a query for each: what another component commits in between either
  bumps the version of the run, and AdvanceRun refuses a decision on a version that is no longer
  current, or only adds to what the later queries read.

  The PostgreSQL store is given by the statements of its Go files over tables of rows, with the
  primary keys, unique constraints, foreign keys, enumerations and integer columns of the
  migrations. What the server brings is a record of parameters (dialect of theory Sql): the
  document a JSONB column gives back (db_json), the instant a TIMESTAMPTZ keeps (db_stamp), the
  order of its texts (db_key). An error inside a transaction makes every later statement fail until
  the rollback, as in the server; a rolled-back insertion into the outbox has used up its
  BIGSERIAL value. The columns the code never writes nor reads (context, deadline_at, parent_step,
  capabilities, metadata) are left out.

  The poller of the tasks table may take any row its query may lock, so a take is the list of all
  outcomes; its column tasks.available_at is read by nothing else but the recovery scan's query
  (PendingTasks), whose agreement with the in-memory store is stated for rows that are due. The
  messages of JetStream, the driver's errors, and how a select ends are arguments. The catalog of
  Migrations holds types, tables with their columns, and indexes; it refuses what exists already
  and what refers to something missing.

  A connection's registration and its acknowledgement are one step of the gateway; its counters of
  sessions and calls are uint64, and the steps of Traffic have room in them. A Run loop is given
  the list of its rounds: how the select of each round ended (the ticker, the wake channel, the
  end of the context) and what the rest of the process did to the store in between; a loop whose
  list ends has not returned. The goroutines of the suite's race are an arbitrary order of the
  attempts. A client of the suite ends with the first complaint, as t.Fatalf ends a test; a
  t.Errorf that lets the test go on ends it too, which changes what is printed and not whether the
  test passes. The instants that a rolled-back transaction has read from the ticking clock are not
  counted, since no record keeps them.

  Not modelled. The ports (core/ports.go) and the generated protocol code declare and do not
  compute. The scheduling of goroutines beyond the interleavings above, the gRPC and HTTP
  libraries, signals of processes, the parsing of a command line and the layout of printed text.
  Of PostgreSQL, transactions that overlap (row locks, serialization failures and deadlocks, which
  translate maps to ErrConflict), the connection pool, NUL bytes and invalid UTF-8 in texts. Of
  JetStream, the connection and what its broker does with a configuration. The helper that opens a
  test database and the Python SDK, which is a client in another language.
\<close>

section \<open>Every interleaving of the components\<close>

text \<open>
  C1. Whatever the components do and however their transactions interleave, the store stays
  sound: every record sits under its own key, nothing points at a record that is not there, a
  run has at most one task per step, and the events of a run are numbered 1, 2, 3 and so on.
\<close>

theorem reachable_store_sound:
  assumes "trace (s # ss)"
  shows "store_ok s \<and> (\<forall>r i. i < length (events_of s r) \<longrightarrow> int i < max_int64 \<longrightarrow> ev_Seq (events_of s r ! i) = int i + 1)"
  using trace_ok [OF assms] store_ok_history by (auto simp: history_ok_def gapless_def)

theorem reachable_store_sound_witness:
  "store_ok sample_finished \<and> ev_Seq (events_of sample_finished ''r'' ! 6) = 7"
proof -
  have "length (events_of sample_finished ''r'') = 7" by code_simp
  then show ?thesis using reachable_store_sound [OF sample_trace [unfolded sample_trace_def]] by (simp add: max_int64_def)
qed

text \<open>
  C2. What a state of the store has recorded, every later state keeps: each history is a
  prefix of the later one; every run is still there with its identity, agent, pinned version, input
  and creation, and a run that has ended keeps its status; a task that has ended, an effect that is
  COMMITTED and a signal stay as they are, and a published delivery stays published. The output, the
  error and the instants of an ended run are not in the list: they are held by its version
  (version_is_a_stamp), but a decision to end it once more the same way is not refused (lemma
  ended_again of theory Progress), and a signal that races with the end stamps it.
\<close>

theorem recorded_is_kept:
  assumes "trace (s # ss)" and "s0 \<in> set (s # ss)"
  shows "(\<forall>r. \<exists>later. events_of s r = events_of s0 r @ later)
    \<and> (\<forall>k r. map_of (st_runs s0) k = Some r \<longrightarrow> (\<exists>r'. map_of (st_runs s) k = Some r' \<and> run_ID r' = run_ID r
         \<and> run_AgentName r' = run_AgentName r \<and> run_AgentVersion r' = run_AgentVersion r \<and> run_Input r' = run_Input r
         \<and> run_CreatedAt r' = run_CreatedAt r \<and> (RunStatus_IsTerminal (run_Status r) \<longrightarrow> run_Status r' = run_Status r)))
    \<and> (\<forall>k t. map_of (st_tasks s0) k = Some t \<longrightarrow> TaskStatus_IsTerminal (task_Status t) \<longrightarrow> map_of (st_tasks s) k = Some t)
    \<and> (\<forall>k e. map_of (st_effects s0) k = Some e \<longrightarrow> eff_Status e = EffectCommitted \<longrightarrow> map_of (st_effects s) k = Some e)
    \<and> (\<forall>k g. map_of (st_signals s0) k = Some g \<longrightarrow> map_of (st_signals s) k = Some g)
    \<and> (\<forall>d. is_published s0 d \<longrightarrow> is_published s d)"
proof (intro conjI allI impI)
  have e: "evolves s0 s" by (rule trace_evolves [OF assms])
  note kept = evolvesD [OF e]
  show "\<exists>later. events_of s r = events_of s0 r @ later" for r by (rule kept(1))
  show "\<exists>r'. map_of (st_runs s) k = Some r' \<and> run_ID r' = run_ID r
      \<and> run_AgentName r' = run_AgentName r \<and> run_AgentVersion r' = run_AgentVersion r \<and> run_Input r' = run_Input r
      \<and> run_CreatedAt r' = run_CreatedAt r \<and> (RunStatus_IsTerminal (run_Status r) \<longrightarrow> run_Status r' = run_Status r)"
    if r: "map_of (st_runs s0) k = Some r" for k r
  proof -
    obtain r' where "map_of (st_runs s) k = Some r'" and r': "run_evolves r r'" using kept(2) [OF r] by blast
    moreover have "run_ID r' = run_ID r \<and> run_AgentName r' = run_AgentName r \<and> run_AgentVersion r' = run_AgentVersion r
        \<and> run_Input r' = run_Input r \<and> run_CreatedAt r' = run_CreatedAt r"
      using r' by (simp add: run_evolves_def)
    ultimately show ?thesis using run_evolves_final [OF r'] by blast
  qed
qed (rule evolvesD [OF trace_evolves [OF assms]]; assumption)+

theorem recorded_is_kept_witness:
  "\<exists>later. events_of sample_finished ''r'' = events_of sample_parked ''r'' @ later"
  using recorded_is_kept [OF sample_trace [unfolded sample_trace_def], of sample_parked] by simp

text \<open>
  C3. However the components interleave, a run consumes a signal at most once: the identities
  in its SIGNAL_RECEIVED events are distinct. The bound is on the length of the trace, so that the
  version of a run, an int64, does not wrap round.
\<close>

theorem signals_consumed_once:
  assumes "trace (s # ss)" and "int (length (s # ss)) < max_int64"
  shows "distinct (ConsumedSignals (events_of s r))"
  using trace_stamped_once [OF assms] by (auto simp: once_def consumed_def)

theorem signals_consumed_once_witness:
  "distinct (ConsumedSignals (events_of sample_finished ''r'')) \<and> ConsumedSignals (events_of sample_finished ''r'') = [''s1'']"
  using signals_consumed_once [OF sample_trace [unfolded sample_trace_def], of "''r''"] by (simp add: max_int64_def, code_simp)

text \<open>
  C4. The version of a run never goes down, and as long as it is the same, so are the run's
  status, output and error and the signals it has consumed: a decision made from a reading is
  valid exactly as long as the version it read.
\<close>

theorem version_is_a_stamp:
  assumes "trace (s # ss)" and "int (length (s # ss)) < max_int64" and "s0 \<in> set (s # ss)"
    and "map_of (st_runs s0) k = Some r0"
  shows "\<exists>r. map_of (st_runs s) k = Some r \<and> run_Version r0 \<le> run_Version r
    \<and> (run_Version r = run_Version r0 \<longrightarrow> run_Status r = run_Status r0 \<and> run_Output r = run_Output r0
         \<and> run_LastError r = run_LastError r0 \<and> ConsumedSignals (events_of s k) = ConsumedSignals (events_of s0 k))"
  using trace_stamp [OF assms] by (auto simp: same_run_def consumed_def)

theorem version_is_a_stamp_witness:
  "\<exists>r. map_of (st_runs sample_finished) ''r'' = Some r \<and> run_Version (sample_run sample_parked) \<le> run_Version r"
  using version_is_a_stamp [OF sample_trace [unfolded sample_trace_def], of sample_parked "''r''" "sample_run sample_parked"]
    sample_runs by (simp add: max_int64_def) blast

text \<open>
  C5. The fencing token of a task never goes down, no lease is forgotten, and two leases with
  the same token have the same holder: a token that was handed out once is never handed to
  somebody else.
\<close>

theorem tokens_fence:
  assumes "trace (s # ss)" and "int (length (s # ss)) < max_int64" and "s0 \<in> set (s # ss)"
    and "map_of (st_leases s0) k = Some l0"
  shows "\<exists>l. map_of (st_leases s) k = Some l \<and> 1 \<le> lease_Token l0 \<and> lease_Token l0 \<le> lease_Token l
    \<and> (lease_Token l = lease_Token l0 \<longrightarrow> lease_WorkerID l = lease_WorkerID l0 \<and> lease_AcquiredAt l = lease_AcquiredAt l0)"
  using trace_tokens [OF assms] by (auto simp: same_owner_def)

theorem tokens_fence_witness:
  "\<exists>l. map_of (st_leases sample_finished) ''t'' = Some l \<and> 1 \<le> lease_Token l"
  using tokens_fence [OF sample_trace [unfolded sample_trace_def], of sample_claimed "''t''"] sample_lease
  by (simp add: max_int64_def) fastforce

text \<open>
  C6. At every moment, for every task: its attempts lie between 0 and its maximum, a PENDING
  task has an attempt left, a RUNNING one has used one and has a lease, a COMPLETED one has used
  one, and it has an end time exactly when its status is terminal.
\<close>

theorem task_attempts_bounded:
  assumes "trace (s # ss)" and "int (length (s # ss)) < max_int64" and "map_of (st_tasks s) k = Some t"
  shows "0 \<le> task_Attempt t \<and> task_Attempt t \<le> task_MaxAttempts t
    \<and> (task_Status t = TaskPending \<longrightarrow> task_Attempt t < task_MaxAttempts t)
    \<and> (task_Status t = TaskRunning \<longrightarrow> 0 < task_Attempt t \<and> map_of (st_leases s) k \<noteq> None)
    \<and> (task_Status t = TaskCompleted \<longrightarrow> 0 < task_Attempt t)
    \<and> (task_CompletedAt t = None \<longleftrightarrow> \<not> TaskStatus_IsTerminal (task_Status t))"
  using tasks_invD [OF trace_tasks_inv [OF assms(1,2)], simplified, OF assms(3)] by (simp add: task_inv_def has_def)

theorem task_attempts_bounded_witness:
  "\<exists>t. map_of (st_tasks sample_claimed) ''t'' = Some t \<and> task_Status t = TaskRunning \<and> task_Attempt t \<le> task_MaxAttempts t"
  using task_attempts_bounded [OF sample_traces(2), of "''t''"] sample_claim by (simp add: max_int64_def) fastforce

text \<open>
  C7. The engine refines the system of transactions: whatever an operation of the engine does
  to the store, it does by transactions of the system, so every invariant of the traces holds of
  the state it leaves.
\<close>

theorem engine_refines_transactions:
  assumes "trace (w_st w # ss)"
  shows "(\<forall>r w'. StartRun e input w = Some (r, w') \<longrightarrow> continues (w_st w # ss) (w_st w'))
    \<and> (\<forall>r w'. Advance e rid w = Some (r, w') \<longrightarrow> continues (w_st w # ss) (w_st w'))
    \<and> (\<forall>r w'. ClaimTask e tid wid w = (r, w') \<longrightarrow> continues (w_st w # ss) (w_st w'))
    \<and> (\<forall>r w'. Heartbeat e tid token w = (r, w') \<longrightarrow> continues (w_st w # ss) (w_st w'))
    \<and> (\<forall>r w'. CompleteTask e tid token result w = Some (r, w') \<longrightarrow> continues (w_st w # ss) (w_st w'))
    \<and> (\<forall>r w'. FailTask e tid token cause w = Some (r, w') \<longrightarrow> continues (w_st w # ss) (w_st w'))
    \<and> (\<forall>r w'. RegisterWorker wid ty w = (r, w') \<longrightarrow> continues (w_st w # ss) (w_st w'))
    \<and> (\<forall>r w'. DeliverSignal sg w = (r, w') \<longrightarrow> continues (w_st w # ss) (w_st w'))
    \<and> (\<forall>r w'. Engine_Signal e sg w = Some (r, w') \<longrightarrow> continues (w_st w # ss) (w_st w'))
    \<and> (\<forall>w'. ScanOnce e rt w = Some w' \<longrightarrow> continues (w_st w # ss) (w_st w'))"
  by (intro conjI allI impI; rule along_continues [OF _ assms])
    (erule interleaving.StartRun_R interleaving.Advance_R interleaving.ClaimTask_R interleaving.Heartbeat_R
      interleaving.CompleteTask_R interleaving.FailTask_R interleaving.RegisterWorker_R interleaving.DeliverSignal_R
      interleaving.Engine_Signal_R interleaving.ScanOnce_R)+

theorem engine_refines_transactions_witness:
  "\<exists>r w'. StartRun (sample_engine pay_agent) RawNil world0 = Some (r, w') \<and> continues [newState] (w_st w')"
proof -
  have "StartRun (sample_engine pay_agent) RawNil world0 \<noteq> None" by code_simp
  then show ?thesis
    using engine_refines_transactions [of world0 "[]"] trace.initial by (auto simp: world0_def)
qed

text \<open>
  C8. The effect executor, the operator's resolution of an effect and the Run loops of the reconciler,
  the reaper, the relay, the recovery scan and the workers refine the same system: what they do to
  the store, whatever the tools and the dispatcher answer, however often a loop goes round and
  whatever the rest of the system does between two rounds or two heartbeats, is a sequence of its
  transactions.
\<close>

theorem background_refines_transactions:
  assumes "trace (w_st (sys_world x) # ss)"
  shows "(\<forall>r x'. Execute e tools task x = (r, x') \<longrightarrow> continues (w_st (sys_world x) # ss) (w_st (sys_world x')))
    \<and> (\<forall>f args r w'. cmdEffectsResolve None f args (sys_world x) = (r, w') \<longrightarrow> continues (w_st (sys_world x) # ss) (w_st w'))
    \<and> (\<forall>rs err x'. (\<forall>gap. Fired gap \<in> set rs \<longrightarrow> (\<forall>v. along extends (w_st (sys_world v)) (w_st (sys_world (gap v)))))
         \<longrightarrow> Reconciler_Run rc tools rs x = Some (err, x') \<longrightarrow> continues (w_st (sys_world x) # ss) (w_st (sys_world x')))
    \<and> (\<forall>rs err rp' w'. (\<forall>gap. Fired gap \<in> set rs \<longrightarrow> (\<forall>v. along extends (w_st (snd v)) (w_st (snd (gap v)))))
         \<longrightarrow> Reaper_Run rp rs (sys_world x) = Some (err, rp', w') \<longrightarrow> continues (w_st (sys_world x) # ss) (w_st w'))
    \<and> (\<forall>rs err w'. (\<forall>gap. Fired gap \<in> set rs \<longrightarrow> (\<forall>v. along extends (w_st v) (w_st (gap v))))
         \<longrightarrow> Relay_Run e rl rs (sys_world x) = Some (err, w') \<longrightarrow> continues (w_st (sys_world x) # ss) (w_st w'))
    \<and> (\<forall>rs err ds w'. (\<forall>gap. Fired gap \<in> set rs \<longrightarrow> (\<forall>v. along extends (w_st v) (w_st (gap v))))
         \<longrightarrow> Runtime_Run e rt rs (sys_world x) = Some ((err, ds), w') \<longrightarrow> continues (w_st (sys_world x) # ss) (w_st w'))
    \<and> (\<forall>cs r x'. (\<forall>c \<in> set cs. round_moves extends c)
         \<longrightarrow> Worker_Run e tools wid cs x = Some (r, x') \<longrightarrow> continues (w_st (sys_world x) # ss) (w_st (sys_world x')))"
  by (intro conjI allI impI; rule along_continues [OF _ assms])
    (erule interleaving.Execute_R interleaving.cmdEffectsResolve_R interleaving.Reconciler_Run_R
      interleaving.Reaper_Run_R interleaving.Relay_Run_R interleaving.Runtime_Run_R interleaving.Worker_Run_R, blast?)+

theorem background_refines_transactions_witness:
  "(\<exists>r x. Worker_Run demo_engine meeting_tools ''w'' demo_rounds demo_sys = Some (r, x) \<and> continues [newState] (w_st (sys_world x))
      \<and> map_option run_Status (map_of (st_runs (w_st (sys_world x))) ''r'') = Some RunCompleted)
   \<and> (\<exists>err x. reconciled = Some (err, x) \<and> continues [newState] (w_st (sys_world x))
      \<and> map_option eff_Status (ledger x ''r:S1:E1'') = Some EffectCommitted)
   \<and> (\<exists>err rp w. reaped = Some (err, rp, w) \<and> continues [newState] (w_st w)
      \<and> map_option task_Status (map_of (st_tasks (w_st w)) ''t'') = Some TaskDeadLetter)
   \<and> (\<exists>err w. relayed = Some (err, w) \<and> continues [newState] (w_st w) \<and> is_published (w_st w) 1)
   \<and> (\<exists>r w. scanned = Some (r, w) \<and> continues [newState] (w_st w) \<and> w_sent w = [''t'', ''t''])"
proof (intro conjI)
  obtain ss where ss: "trace (w_st (sys_world demo_sys) # ss)" "newState \<in> set (w_st (sys_world demo_sys) # ss)"
    using demo_trace by blast
  obtain ls where ls: "trace (w_st (sys_world lost_sys) # ls)" "newState \<in> set (w_st (sys_world lost_sys) # ls)"
    using lost_trace by blast
  note loops = background_refines_transactions [OF ss(1), THEN conjunct2, THEN conjunct2, THEN conjunct2]
    and reconciling = background_refines_transactions [OF ls(1), THEN conjunct2, THEN conjunct2, THEN conjunct1, rule_format]
  note reaping = loops [THEN conjunct1, rule_format] and relaying = loops [THEN conjunct2, THEN conjunct1, rule_format]
    and scanning = loops [THEN conjunct2, THEN conjunct2, THEN conjunct1, rule_format]
    and working = loops [THEN conjunct2, THEN conjunct2, THEN conjunct2, rule_format]
    and from_start = continues_start [OF _ ss(2)]
  have st: "sys_world demo_sys = demo_started" by (simp add: demo_sys_def)
  obtain r x where x: "Worker_Run demo_engine meeting_tools ''w'' demo_rounds demo_sys = Some (r, x)" "demo_worked = x"
    using demo_works by (auto simp: demo_worked_def)
  have "continues [newState] (w_st (sys_world x))"
    by (rule from_start, rule working [OF _ x(1)]) (erule busy_moves)
  then show "\<exists>r x. Worker_Run demo_engine meeting_tools ''w'' demo_rounds demo_sys = Some (r, x) \<and> continues [newState] (w_st (sys_world x))
      \<and> map_option run_Status (map_of (st_runs (w_st (sys_world x))) ''r'') = Some RunCompleted"
    using x demo_works by (auto simp: run_report_def)
  obtain err y where y: "reconciled = Some (err, y)" "map_option eff_Status (ledger y ''r:S1:E1'') = Some EffectCommitted"
    using reconciler_runs by auto
  have "continues [newState] (w_st (sys_world y))"
    by (rule continues_start [OF _ ls(2)], rule reconciling [OF _ y(1) [unfolded reconciled_def]]) (erule later_join_moves)
  with y show "\<exists>err x. reconciled = Some (err, x) \<and> continues [newState] (w_st (sys_world x))
      \<and> map_option eff_Status (ledger x ''r:S1:E1'') = Some EffectCommitted" by blast
  obtain err rp w where w: "reaped = Some (err, rp, w)" "map_option task_Status (map_of (st_tasks (w_st w)) ''t'') = Some TaskDeadLetter"
    using loops_run(3) by auto
  have "continues [newState] (w_st w)"
    by (rule from_start, rule reaping [OF _ w(1) [unfolded reaped_def st [symmetric]]]) (erule gaps_move(2))
  with w show "\<exists>err rp w. reaped = Some (err, rp, w) \<and> continues [newState] (w_st w)
      \<and> map_option task_Status (map_of (st_tasks (w_st w)) ''t'') = Some TaskDeadLetter" by blast
  obtain err u where u: "relayed = Some (err, u)" "is_published (w_st u) 1" using loops_run(1) by auto
  have "continues [newState] (w_st u)"
    by (rule from_start, rule relaying [OF _ u(1) [unfolded relayed_def st [symmetric]]]) (erule gaps_move(1))
  with u show "\<exists>err w. relayed = Some (err, w) \<and> continues [newState] (w_st w) \<and> is_published (w_st w) 1" by blast
  obtain err ds v where v: "scanned = Some ((err, ds), v)" "w_sent v = [''t'', ''t'']" using loops_run(2) by auto
  have "continues [newState] (w_st v)"
    by (rule from_start, rule scanning [OF _ v(1) [unfolded scanned_def st [symmetric]]]) (erule gaps_move(1))
  with v show "\<exists>r w. scanned = Some (r, w) \<and> continues [newState] (w_st w) \<and> w_sent w = [''t'', ''t'']" by blast
qed

text \<open>
  C9. The PostgreSQL adapter implements the in-memory store. From empty stores, run any sequence of
  transactions made of the operations of core.Tx (those of the engine, the executor, the
  reconciler and the relay are: lemmas engine_scripts of theory Interchange) on both: each transaction commits on both or
  fails on both with the same sentinels, and the tables then hold what the maps hold. The
  arguments have to fit the columns: documents JSONB accepts, instants of whole microseconds,
  integers in range, and fresh identities where the code generates them.
\<close>

theorem stores_interchangeable:
  assumes "history_fits D xs newState"
  shows "fst (pg_history D xs empty_database) = fst (mem_history xs newState)
    \<and> mirrors D (snd (pg_history D xs empty_database)) (snd (mem_history xs newState))"
  using histories_agree [OF mirrors_empty assms] .

theorem stores_interchangeable_witness:
  "fst (pg_history sample_dialect sample_history empty_database)
     = [None, None, Some [ErrConflict], None, None, None, Some [ErrSignalExists], None, None]"
  using stores_interchangeable [OF sample_history_fits] sample_history_outcomes by simp

text \<open>
  C10. What the runtime reads from PostgreSQL is what it would read from memory: the same rows in the
  same order, cut off at the same limit. Documents are what a JSONB column reads back; texts are
  ordered by bytes, the clock shows whole microseconds, and no task is held back by the PostgreSQL
  dispatcher.
\<close>

theorem stores_read_alike:
  assumes "mirrors D p s" and "byte_order D" and "small_tables p" and "whole D now" and "0 \<le> now"
    and "list_all (\<lambda>r. tr_available_at r \<le> now) (pg_tasks p)"
  shows "Pg_History p rid = map (canon_event D) (History s rid)
    \<and> Pg_ListTasks D p rid = map (canon_task D) (ListTasks s rid)
    \<and> Pg_PendingTasks D p now n = map (canon_task D) (PendingTasks s n)
    \<and> Pg_RunsAwaitingAdvance D p now n = RunsAwaitingAdvance s now n
    \<and> Pg_NextWakeUp D p now = NextWakeUp s now
    \<and> Pg_UnresolvedEffects D p now n = map (canon_effect D) (UnresolvedEffects s now n)
    \<and> Pg_Signals D p rid name = map (canon_signal D) (Signals s rid name)
    \<and> Pg_PendingDeliveries D p now n = PendingDeliveries s now n
    \<and> Pg_ExpiredLeases D p now n = ExpiredLeases s now n
    \<and> map_sum err_chain (canon_run D) (GetRun s rid) = map_sum err_chain (\<lambda>r. r) (Pg_GetRun p rid)"
proof -
  have "map_sum err_chain (canon_run D) (GetRun s rid) = map_sum err_chain (\<lambda>r. r) (Pg_GetRun p rid)"
    using GetRun_reads [OF assms(1), of rid] by (auto split: sum.splits)
  with assms show ?thesis
    by (simp add: History_reads ListTasks_reads PendingTasks_reads RunsAwaitingAdvance_reads NextWakeUp_reads
        UnresolvedEffects_reads Signals_reads PendingDeliveries_reads ExpiredLeases_reads)
qed

theorem stores_read_alike_witness:
  "map ev_Type (Pg_History (snd (pg_history sample_dialect sample_history empty_database)) ''r'')
     = [EventRunStarted, EventTaskCreated, EventTaskClaimed, EventTaskCompleted]"
proof -
  let ?p = "snd (pg_history sample_dialect sample_history empty_database)"
  let ?s = "snd (mem_history sample_history newState)"
  have "mirrors sample_dialect ?p ?s"
    using histories_agree [OF mirrors_empty sample_history_fits] by blast
  from stores_read_alike [OF this sample_byte_order sample_small sample_whole _ sample_due, of "''r''"]
  have "Pg_History ?p ''r'' = map (canon_event sample_dialect) (History ?s ''r'')" by simp
  then show ?thesis using sample_history_types by (simp add: canon_event_def comp_def)
qed



text \<open>
  C12. The two stores meet the written contract of the repository: each of the tests of RunStoreSuite,
  translated as a client, passes on the in-memory store and on the PostgreSQL adapter, for every
  order in which the goroutines of the race for one effect get their turn. What the adapter leaves to
  the server is fixed to what PostgreSQL does with the documents and instants of the suite
  (sample_dialect), and the wall clock of the signal and lease tests to one date.
\<close>

theorem contract_suite_passes:
  assumes "length order = attempts" and "distinct order"
  shows "suite_passes (RunStoreSuite on_memory suite_wall order soon_first)
    \<and> suite_passes (RunStoreSuite (on_postgres sample_dialect) suite_wall order soon_first)"
  by (simp add: suite_by_groups memory_core memory_suspension memory_signal memory_lease memory_outbox
      memory_effect [OF assms(1)] postgres_core postgres_suspension postgres_signal postgres_effect [OF assms]
      postgres_lease postgres_outbox)

theorem contract_suite_passes_witness:
  "suite_passes (RunStoreSuite (on_postgres sample_dialect) suite_wall (map int (rev [0..<attempts])) True)"
  using contract_suite_passes [of "map int (rev [0..<attempts])" True] by (simp add: distinct_map)

section \<open>Ownership of tasks\<close>

text \<open>
  C13. A worker whose lease has been taken over cannot write, and a settled task takes no second
  report: with a token that is not the current one, or about a task that is not RUNNING,
  CompleteTask and FailTask report success and leave the store as it is; and with such a token
  Heartbeat tells the worker that it is fenced.
\<close>

theorem stale_worker_is_fenced:
  assumes "map_of (st_tasks (w_st w)) tid = Some t" and "map_of (st_leases (w_st w)) tid = Some l"
    and "lease_Token l \<noteq> token \<or> task_Status t \<noteq> TaskRunning"
  shows "CompleteTask e tid token result w = Some (None, w)
    \<and> (\<exists>w'. FailTask e tid token cause w = Some (None, w') \<and> w_st w' = w_st w)
    \<and> (lease_Token l \<noteq> token \<longrightarrow> (\<exists>err. Heartbeat e tid token w = (Some err, w) \<and> Is err ErrFenced))"
proof (cases "lease_Token l = token")
  case True
  with assms(3) have "task_Status t \<noteq> TaskRunning" by simp
  from CompleteTask_settled [OF assms(1) this assms(2)] FailTask_settled [OF assms(1) this assms(2)] True show ?thesis by simp
next
  case False
  from CompleteTask_stale [OF assms(1,2) False] FailTask_stale [OF assms(1,2) False] Heartbeat_stale [OF assms(2) False]
  show ?thesis by simp
qed

theorem stale_worker_is_fenced_witness:
  "CompleteTask (sample_engine pay_agent) ''t'' 7 RawNil (world_at sample_claimed) = Some (None, world_at sample_claimed)"
proof -
  obtain t l where "map_of (st_tasks sample_claimed) ''t'' = Some t" "map_of (st_leases sample_claimed) ''t'' = Some l" "lease_Token l = 1"
    using sample_claim sample_lease by blast
  then show ?thesis using stale_worker_is_fenced [of "world_at sample_claimed" "''t''" t l 7] by (simp add: world_at_def)
qed

text \<open>
  C14. In a sound store whose history has room for one more number, a claim succeeds exactly when the
  task is PENDING, the worker is registered and no lease on the task is live. It then moves the task
  to RUNNING with one more attempt, grants the worker a lease under a fresh token, and records
  TASK_CLAIMED; no other record changes.
\<close>

theorem claims_are_exact:
  assumes "store_ok (w_st w)" and "map_of (st_tasks (w_st w)) tid = Some t"
    and "int (length (events_of (w_st w) (task_RunID t))) < max_int64"
  shows "((\<exists>c w'. ClaimTask e tid wid w = (Inr c, w')) \<longleftrightarrow> task_Status t = TaskPending \<and> has (st_workers (w_st w)) wid
        \<and> (\<forall>l. map_of (st_leases (w_st w)) tid = Some l \<longrightarrow> Lease_Expired l (w_now w)))
    \<and> (\<forall>c w'. ClaimTask e tid wid w = (Inr c, w')
        \<longrightarrow> cl_Lease c = granted (w_st w) tid wid (w_now w) (time_Add (w_now w) (e_leaseTTL e))
          \<and> task_writes (w_st w) (w_st w') tid (move_task (w_now w) TaskRunning \<lparr>to_Error = []\<rparr> t) (cl_Lease c)
              (task_RunID t) [(EventTaskClaimed, task_StepID t)]
          \<and> st_deliveries (w_st w') = st_deliveries (w_st w))"
proof -
  let ?claim = "claim_tx (w_now w) (e_leaseTTL e) tid wid (w_st w)"
  have outcome: "task_Status t = TaskPending \<and> has (st_workers (w_st w)) wid
      \<and> (\<forall>l. map_of (st_leases (w_st w)) tid = Some l \<longrightarrow> Lease_Expired l (w_now w))
      \<and> cl_Lease c = granted (w_st w) tid wid (w_now w) (time_Add (w_now w) (e_leaseTTL e))
      \<and> task_writes (w_st w) (w_st w') tid (move_task (w_now w) TaskRunning \<lparr>to_Error = []\<rparr> t) (cl_Lease c)
          (task_RunID t) [(EventTaskClaimed, task_StepID t)]
      \<and> st_deliveries (w_st w') = st_deliveries (w_st w)"
    if "ClaimTask e tid wid w = (Inr c, w')" for c w'
  proof -
    from ClaimTask_ok [OF that] obtain s' where "?claim = (Inr c, s')" "w' = w\<lparr>w_st := s'\<rparr>" by blast
    then show ?thesis using assms(2) by (elim claim_tx_ok) auto
  qed
  have "room (w_st w) (task_RunID t) 1" using task_has_run [OF assms(1,2)] assms(1,3) by (intro roomI) (auto simp: has_def)
  then have "\<exists>c w'. ClaimTask e tid wid w = (Inr c, w')" if ready: "task_Status t = TaskPending" "has (st_workers (w_st w)) wid"
    "\<forall>l. map_of (st_leases (w_st w)) tid = Some l \<longrightarrow> Lease_Expired l (w_now w)"
  proof -
    obtain c s' where "?claim = (Inr c, s')"
      using claim_total [OF assms(2) ready(1,2)] ready(3) \<open>room (w_st w) (task_RunID t) 1\<close> by blast
    then show ?thesis by (simp add: ClaimTask_def in_tx_def RunInTx_def)
  qed
  with outcome show ?thesis by blast
qed

theorem claims_are_exact_witness:
  "\<exists>c w'. ClaimTask (sample_engine pay_agent) ''t'' ''w'' (world_at sample_registered) = (Inr c, w')
     \<and> map_of (st_leases (w_st w')) ''t'' = Some (cl_Lease c)"
proof -
  obtain t where "map_of (st_tasks sample_registered) ''t'' = Some t" "task_Status t = TaskPending" "task_RunID t = ''r''"
    "has (st_workers sample_registered) ''w''" "map_of (st_leases sample_registered) ''t'' = None"
    "length (events_of sample_registered ''r'') = 4" using sample_pending by blast
  then show ?thesis using claims_are_exact [of "world_at sample_registered" "''t''" t "sample_engine pay_agent" "''w''"] sample_ok
    by (fastforce simp: world_at_def max_int64_def task_writes_def)
qed

text \<open>
  C15. The transaction of FailTask, when it commits: the task was RUNNING and the token current;
  with an attempt left and no escalation it is PENDING again and announced for delivery after its
  backoff, otherwise it is a dead letter and announced to nobody; the lease is released, and two
  events say so.
\<close>

theorem fail_outcome:
  assumes "fail_tx e now rnd tid token reason escalated s = (Inr v, s')"
  shows "\<exists>t l again. map_of (st_tasks s) tid = Some t \<and> task_Status t = TaskRunning \<and> map_of (st_leases s) tid = Some l
    \<and> lease_Token l = token \<and> again = (\<not> Task_Exhausted t \<and> \<not> escalated)
    \<and> task_writes s s' tid (move_task now (if again then TaskPending else TaskDeadLetter) \<lparr>to_Error = reason\<rparr> t)
        (l\<lparr>lease_ExpiresAt := now\<rparr>) (task_RunID t)
        [(EventTaskFailed, task_StepID t), (if again then EventTaskRetryScheduled else EventTaskDeadLettered, task_StepID t)]
    \<and> st_deliveries s' = (if again then announced s tid now (not_before e now rnd t True) else st_deliveries s)"
  using assms by (rule fail_tx_ok) (auto simp: retries_def)

theorem fail_outcome_witness:
  "map_option task_Status (map_of (st_tasks (snd (fail_tx (sample_engine pay_agent) 100 0 ''t'' 1 ''no'' False sample_claimed))) ''t'')
     = Some TaskDeadLetter"
proof -
  obtain v s' where f: "fail_tx (sample_engine pay_agent) 100 0 ''t'' 1 ''no'' False sample_claimed = (Inr v, s')"
    using sample_fails by blast
  from fail_outcome [OF f] sample_claim show ?thesis using f by (auto simp: task_writes_def move_task_def)
qed

text \<open>
  C16. The backoff of a policy with a cap is never negative and never more than the cap, for any attempt
  and any random number in the unit interval. The arithmetic is rounded: fl is any rounding that is
  monotone, exact on integers of 53 bits and off by at most half a unit in the last place, as float64
  is. The five roundings of the jitter together are off by less than a nanosecond while the cap is at
  most 2^50 nanoseconds, and the conversion to a duration truncates that; without jitter any cap that
  a float64 holds exactly is kept.
\<close>

theorem backoff_within_cap:
  assumes "float64 fl" and "0 < rp_MaxBackoff p" and "rp_MaxBackoff p \<le> max_int64"
    and "rp_MaxBackoff p \<le> 2 ^ 50 \<or> rp_Jitter p \<le> 0 \<and> fl (of_int (rp_MaxBackoff p)) = of_int (rp_MaxBackoff p)"
    and "0 \<le> rnd" and "rnd \<le> 1"
  shows "0 \<le> Backoff fl rnd p attempt \<and> Backoff fl rnd p attempt \<le> rp_MaxBackoff p"
  by (rule capped_backoff [OF assms])

theorem backoff_within_cap_witness:
  "Backoff fixed53 (1 / 3) \<lparr>rp_MaxAttempts = 5, rp_InitialBackoff = 1000, rp_MaxBackoff = 3000, rp_Multiplier = 2,
     rp_Jitter = 1 / 10\<rparr> 7 \<le> 3000"
  using backoff_within_cap [OF float64_fixed53, of "\<lparr>rp_MaxAttempts = 5, rp_InitialBackoff = 1000, rp_MaxBackoff = 3000,
      rp_Multiplier = 2, rp_Jitter = 1 / 10\<rparr>" "1 / 3" 7]
  by (simp add: max_int64_def)

text \<open>
  C17. A failure that will not be retried ends the run. When the holder reports that a task has
  failed for good (no attempt left, or an escalation) and the step is not a child of a fan-out, or
  is escalated, FailTask returns without an error, the task is a dead letter with the error of the
  tool, the run is FAILED with the reason of the failure as its error (which task, after how many
  attempts or for whose attention, and what the tool said), and the history ends with TASK_FAILED,
  TASK_DEAD_LETTERED and a RUN_FAILED that carries the same reason.
\<close>

theorem final_failure_ends_run:
  assumes "store_ok (w_st w)" and "map_of (st_tasks (w_st w)) tid = Some t" and "task_Status t = TaskRunning"
    and "map_of (st_leases (w_st w)) tid = Some l"
    and "Task_Exhausted t \<or> Is cause ErrEscalated" and "Is cause ErrEscalated \<or> StepID_Parent (task_StepID t) = None"
    and "map_of (st_runs (w_st w)) (task_RunID t) = Some run" and "run_Status run = RunRunning"
    and "int (length (events_of (w_st w) (task_RunID t))) + 3 \<le> max_int64"
  shows "\<exists>w' t'. FailTask e tid (lease_Token l) cause w = Some (None, w')
    \<and> map_of (st_runs (w_st w')) (task_RunID t) = Some (apply_state (w_now w) (failed_state (failure_reason t cause)) run)
    \<and> carries (last (events_of (w_st w') (task_RunID t))) (RunFailedData (failure_reason t cause))
    \<and> map_of (st_tasks (w_st w')) tid = Some t' \<and> task_Status t' = TaskDeadLetter \<and> (err_text cause \<noteq> [] \<longrightarrow> task_LastError t' = err_text cause)
    \<and> logs (task_RunID t) [(EventTaskFailed, task_StepID t), (EventTaskDeadLettered, task_StepID t), (EventRunFailed, [])]
        (events_of (w_st w)) (events_of (w_st w'))"
proof -
  have "\<not> retries t (Is cause ErrEscalated)" using assms(5) by (auto simp: retries_def)
  from FailTask_final [OF assms(1-4) this assms(6-9), of e] show ?thesis by (auto simp: move_task_status)
qed

theorem final_failure_ends_run_witness:
  "\<exists>w' run'. FailTask (sample_engine pay_agent) ''t'' 1 (errors_New ''no'') (world_at sample_claimed) = Some (None, w')
     \<and> map_of (st_runs (w_st w')) ''r'' = Some run' \<and> run_Status run' = RunFailed
     \<and> run_LastError run' = ''task t exhausted 1 attempts: no''"
proof -
  obtain t l where t: "map_of (st_tasks sample_claimed) ''t'' = Some t" "task_Status t = TaskRunning" "task_RunID t = ''r''"
    "task_StepID t = ''S1''" "Task_Exhausted t" and l: "map_of (st_leases sample_claimed) ''t'' = Some l" "lease_Token l = 1"
    using sample_claim sample_lease by blast
  have "map_option (\<lambda>t. failure_reason t (errors_New ''no'')) (map_of (st_tasks sample_claimed) ''t'')
      = Some ''task t exhausted 1 attempts: no''" by code_simp
  with t(1) have "failure_reason t (errors_New ''no'') = ''task t exhausted 1 attempts: no''" by simp
  moreover have "length (events_of sample_claimed ''r'') = 5" "StepID_Parent ''S1'' = None"
    "map_of (st_runs sample_claimed) ''r'' = Some (sample_run sample_claimed)" "run_Status (sample_run sample_claimed) = RunRunning"
    by code_simp+
  ultimately show ?thesis
    using final_failure_ends_run [of "world_at sample_claimed" "''t''" t l "errors_New ''no''" "sample_run sample_claimed"] sample_ok t l
    by (fastforce simp: world_at_def max_int64_def apply_state_def failed_state_def)
qed

section \<open>Advancing a run\<close>

text \<open>
  C18. A decision to call a tool commits as a whole: made from the current reading of a running
  run, for a step without a task, it bumps the run's version, and the task, its place in the step
  index, one TASK_CREATED event and one delivery intent are there together.
\<close>

theorem dispatch_commits_whole:
  assumes "store_ok (w_st w)" and "map_of (st_runs (w_st w)) (run_ID run) = Some run" and "run_Status run = RunRunning"
    and "map_of (st_stepIndex (w_st w)) (run_ID run, d_StepID d) = None"
    and "map_of (st_tasks (w_st w)) (e_newTaskID e (w_taskIDs w)) = None"
    and "int (length (events_of (w_st w) (run_ID run))) < max_int64"
    and "marshals (TaskCreatedData (e_newTaskID e (w_taskIDs w)) (d_TaskType d) (d_Payload d))"
  shows "\<exists>w'. dispatch e run d w = (None, w') \<and> dispatched (w_now w) run
    (new_task e (run_ID run) (e_newTaskID e (w_taskIDs w)) (d_StepID d) (d_TaskType d) (d_Payload d)) (w_st w) (w_st w')"
proof -
  have "room (w_st w) (run_ID run) 1" using assms(1,2,6) by (intro roomI) (auto simp: has_def)
  from dispatch_total [OF assms(2-5) this assms(7)] show ?thesis .
qed

theorem dispatch_commits_whole_witness:
  "\<exists>w'. dispatch (sample_engine pay_agent) (sample_run sample_resumed) (pay_agent []) (world_at sample_resumed) = (None, w')"
proof -
  have "run_ID (sample_run sample_resumed) = ''r''" "run_Status (sample_run sample_resumed) = RunRunning"
    "st_stepIndex sample_resumed = []" "st_tasks sample_resumed = []" "length (events_of sample_resumed ''r'') = 3" by code_simp+
  moreover have "marshals (TaskCreatedData tid ty RawNil)" for tid ty
    by (simp add: marshals_def marshal_data_def struct_def field_defs raw_empty_def)
  ultimately show ?thesis
    using dispatch_commits_whole [of "world_at sample_resumed" "sample_run sample_resumed" "pay_agent []" "sample_engine pay_agent"]
      sample_ok sample_runs(2) by (auto simp: world_at_def max_int64_def pay_agent_def seen_event_def zero_decision_def)
qed

text \<open>
  C19. Advance does nothing where there is nothing to decide: a run that has ended, a run of another
  agent, a run whose wait still holds, and a run whose fan-out has not been decided are left as they
  are, the whole world included, and no decider is asked.
\<close>

theorem advance_leaves_alone:
  assumes "map_of (st_runs (w_st w)) rid = Some run"
    and "RunStatus_IsTerminal (run_Status run) \<or> run_AgentName run \<noteq> e_agent e
      \<or> (PendingWait (History (w_st w) rid) = Some wt \<and> waitIsOver w run (History (w_st w) rid) wt = None \<and> run_AvailableAt run \<noteq> None)
      \<or> (PendingWait (History (w_st w) rid) = None \<and> PendingFanOut (History (w_st w) rid) = Some f)"
  shows "Advance e rid w = Some (None, w)"
  using assms Advance_terminal Advance_foreign Advance_parked Advance_joining by blast

theorem advance_leaves_alone_witness:
  "Advance (sample_engine pay_agent) ''r'' (world_at sample_parked) = Some (None, world_at sample_parked)"
proof -
  have "PendingWait (History sample_parked ''r'') = Some sample_wait"
    "waitIsOver (world_at sample_parked) (sample_run sample_parked) (History sample_parked ''r'') sample_wait = None"
    "run_AvailableAt (sample_run sample_parked) = Some Indefinite" by code_simp+
  then show ?thesis
    using advance_leaves_alone [of "world_at sample_parked" "''r''" "sample_run sample_parked" "sample_engine pay_agent" sample_wait]
      sample_runs(1) by (simp add: world_at_def)
qed

text \<open>
  C20. Advance returns. A pass that goes round again has parked the run on a signal, and the next
  pass goes on only if that signal is there and takes it, so the signals of the store bound the
  recursion. The hypothesis on the agent is needed: the deadlines of its waits must lie ahead.
\<close>

theorem advance_terminates:
  assumes "store_ok (w_st w)"
    and "w_now w < Indefinite"
    and "\<forall>n run h d. e_decide e n run h = Inr d \<longrightarrow> d_Kind d = DecideWaitForSignal
      \<longrightarrow> time_IsZero (sw_Deadline (d_Signal d)) \<or> w_now w < sw_Deadline (d_Signal d)"
    and "int (length (events_of (w_st w) rid)) + 2 * int (length (st_signals (w_st w))) + 3 < max_int64"
  shows "\<exists>r w'. Advance e rid w = Some (r, w')"
  using Advance_returns [OF assms(1) _ assms(4)] assms(2,3) by (auto simp: waits_ahead_def)

theorem advance_terminates_witness:
  "\<exists>r w'. Advance (sample_engine (wait_agent zero_time)) ''r'' (world_at sample_signalled) = Some (r, w')"
proof -
  have "length (events_of sample_signalled ''r'') = 2" "length (st_signals sample_signalled) = 1" by code_simp+
  then show ?thesis
    using advance_terminates [of "world_at sample_signalled" "sample_engine (wait_agent zero_time)" "''r''"] sample_ok
      sample_waits_ahead by (simp add: world_at_def max_int64_def Indefinite_def)
qed

section \<open>Signals\<close>

text \<open>
  C21. DeliverSignal on a run that exists: a new signal for a running run is recorded with the time
  of its arrival and makes the run due; a signal that was recorded before is success and changes
  nothing; a run that has ended refuses it with ErrInvalidTransition.
\<close>

theorem signal_delivery:
  assumes "map_of (st_runs (w_st w)) (sig_RunID sg) = Some run" and "sig_RunID sg \<noteq> []" and "sig_ID sg \<noteq> []" and "sig_Name sg \<noteq> []"
  shows "DeliverSignal sg w =
    (if RunStatus_IsTerminal (run_Status run) then (fst (DeliverSignal sg w), w)
     else if map_of (st_signals (w_st w)) (sig_RunID sg, sig_ID sg) \<noteq> None then (None, w)
     else (None, w\<lparr>w_st := (w_st w)
       \<lparr>st_signals := AList.update (sig_RunID sg, sig_ID sg) (sg\<lparr>sig_CreatedAt := w_now w\<rparr>) (st_signals (w_st w)),
        st_runs := AList.update (sig_RunID sg) (run\<lparr>run_AvailableAt := None, run_UpdatedAt := w_now w\<rparr>) (st_runs (w_st w))\<rparr>\<rparr>))
    \<and> (RunStatus_IsTerminal (run_Status run) \<longrightarrow> (\<exists>err. fst (DeliverSignal sg w) = Some err \<and> Is err ErrInvalidTransition))"
  using DeliverSignal_finished [OF assms(1)] DeliverSignal_again [OF assms(1)] DeliverSignal_new [OF assms(1)] assms(2-4)
  by (cases "RunStatus_IsTerminal (run_Status run)") auto

theorem signal_delivery_witness:
  "DeliverSignal sample_signal (world_at sample_signalled) = (None, world_at sample_signalled)"
proof -
  have "map_of (st_runs sample_signalled) ''r'' = Some (sample_run sample_signalled)"
    "\<not> RunStatus_IsTerminal (run_Status (sample_run sample_signalled))"
    "map_option sig_ID (map_of (st_signals sample_signalled) (''r'', ''s1'')) = Some ''s1''" by code_simp+
  then show ?thesis
    using signal_delivery [of "world_at sample_signalled" sample_signal "sample_run sample_signalled"]
    by (auto simp: sample_signal_def world_at_def)
qed

section \<open>Effects\<close>

text \<open>
  C22. Write ahead: one execution of a tool with an external consequence calls the tool at most once,
  with the key that the run, the step and the position determine, and at that moment the ledger holds
  a RUNNING row for that key. So whatever crashes afterwards, the possible call is on record.
\<close>

theorem effect_called_after_ledger:
  assumes "store_ok (w_st (sys_world x))" and "Lookup tools (task_Type task) = Inr d" and "EffectClass_HasConsequence (td_Class d)"
    and "Execute e tools task x = (r, x')"
  shows "sys_calls x' = sys_calls x \<or> (\<exists>s row. sys_calls x' = sys_calls x @ [(callFor task (effect_key task), s)]
    \<and> map_of (st_effects s) (effect_key task) = Some row \<and> eff_Status row = EffectRunning)"
  using Execute_once [OF assms] by (auto simp: at_most_once_def called_under_def)

theorem effect_called_after_ledger_witness:
  "length (sys_calls (snd (Execute (sample_engine pay_agent) [(''pay'', sample_tool ClassIdempotentByKey)] sample_task (sample_sys sample_claimed)))) = 1
   \<and> (\<exists>s row. sys_calls (snd (Execute (sample_engine pay_agent) [(''pay'', sample_tool ClassIdempotentByKey)] sample_task (sample_sys sample_claimed)))
        = [(callFor sample_task (effect_key sample_task), s)] \<and> map_of (st_effects s) (effect_key sample_task) = Some row)"
proof -
  have "length (sys_calls (snd (Execute (sample_engine pay_agent) [(''pay'', sample_tool ClassIdempotentByKey)] sample_task (sample_sys sample_claimed)))) = 1"
    by code_simp
  moreover have "Lookup [(''pay'', sample_tool ClassIdempotentByKey)] (task_Type sample_task) = Inr (sample_tool ClassIdempotentByKey)"
    "EffectClass_HasConsequence (td_Class (sample_tool ClassIdempotentByKey))"
    by (simp_all add: Lookup_def sample_task_def new_task_def sample_tool_def EffectClass_HasConsequence_def)
  ultimately show ?thesis
    using effect_called_after_ledger [of "sample_sys sample_claimed" "[(''pay'', sample_tool ClassIdempotentByKey)]" sample_task
      "sample_tool ClassIdempotentByKey" "sample_engine pay_agent", OF _ _ _ surjective_pairing] sample_ok
    by (auto simp: sample_sys_def world_at_def)
qed

text \<open>
  C23. After a crash the row decides. A COMMITTED row is answered from the ledger without a call. A row
  left RUNNING or UNKNOWN is never called again blindly: of an unreconcilable tool it is escalated
  without a call, and of a queryable tool a further call means that the
  reconciler, asked about this key, has answered NOT_EXECUTED.
\<close>

theorem recovery_never_repeats:
  assumes "hosted tools task d x" and "map_of (st_effects (w_st (sys_world x))) (effect_key task) = Some row"
    and "Execute e tools task x = (r, x')"
  shows "(eff_Status row = EffectCommitted \<longrightarrow> r = Inr (eff_Response row) \<and> sys_calls x' = sys_calls x)
    \<and> (eff_Status row = EffectRunning \<or> eff_Status row = EffectUnknown \<longrightarrow>
        (td_Class d = ClassUnreconcilable \<longrightarrow> (\<exists>err. r = Inl err \<and> Is err ErrEscalated) \<and> sys_calls x' = sys_calls x)
      \<and> (td_Class d = ClassQueryable \<longrightarrow> sys_calls x' \<noteq> sys_calls x \<longrightarrow>
          (\<exists>rec asked res p. td_Reconciler d = Some rec \<and> eff_Key asked = eff_Key row
             \<and> rec asked (sys_outside x) = (Inr res, p) \<and> res_Kind res = ResolvedNotExecuted)))"
proof -
  have l: "ledger x (effect_key task) = Some row" using assms(2) by (simp add: ledger_def)
  have "r = Inr (eff_Response row) \<and> sys_calls x' = sys_calls x" if "eff_Status row = EffectCommitted"
    using Execute_committed [OF assms(1) l that] assms(3) by auto
  moreover have "(\<exists>err. r = Inl err \<and> Is err ErrEscalated) \<and> sys_calls x' = sys_calls x"
    if "eff_Status row = EffectRunning \<or> eff_Status row = EffectUnknown" "td_Class d = ClassUnreconcilable"
    using Execute_unreconcilable [OF assms(1) l that(2,1), of e] assms(3) by auto
  moreover note Execute_queryable [OF assms(1) l _ _ assms(3)]
  ultimately show ?thesis by blast
qed

theorem recovery_never_repeats_witness:
  "fst (Execute (sample_engine pay_agent) [(''pay'', sample_tool ClassUnreconcilable)] sample_task sample_committed)
     = Inr (RawJSON (JStr ''receipt''))"
proof -
  obtain row where "map_of (st_effects (w_st (sys_world sample_committed))) (effect_key sample_task) = Some row"
    "eff_Status row = EffectCommitted" "eff_Response row = RawJSON (JStr ''receipt'')" using sample_row by blast
  with recovery_never_repeats [OF sample_hosted this(1) surjective_pairing] show ?thesis by simp
qed

text \<open>
  C24. The ledger tells the truth. Let the tools be honest: a tool that returns has done its work under
  the key it was given, a reference in its answer is the one on the provider's books, and a
  reconciler that says COMMITTED speaks of work that was done. A provider may give no reference: then
  the books hold the work under the key and an empty one. Let operators be honest too: what they record
  as committed, or with a reference, is on the books. Then after any number of executions,
  reconciliations and resolutions, with transactions of the rest of the system in between (which do not
  write the ledger), every COMMITTED row stands for work on the provider's books under its key and its
  reference. The tools of the demonstration agent are honest in this sense.
\<close>

theorem ledger_tells_the_truth:
  assumes "honest_provider tools ok did" and "ledger_steps tools did x x'"
    and "ok (sys_outside x)" and "st_effects (w_st (sys_world x)) = []"
    and "ledger x' k = Some row" and "eff_Status row = EffectCommitted"
  shows "did (sys_outside x') k (eff_ExternalRef row)"
  using honest_provider.committed_rows_vouched [OF assms(1,2) _ assms(5,6)] assms(3,4)
  by (simp add: truthful_def claims_def claims_of_def)

theorem ledger_tells_the_truth_witness:
  "\<exists>row. ledger (snd (Execute demo_engine meeting_tools demo_send demo_sys)) ''r:S1:E1'' = Some row
     \<and> eff_Status row = EffectCommitted
     \<and> vouches (sys_outside (snd (Execute demo_engine meeting_tools demo_send demo_sys))) ''r:S1:E1'' (eff_ExternalRef row)"
proof -
  have "map_option eff_Status (ledger (snd (Execute demo_engine meeting_tools demo_send demo_sys)) ''r:S1:E1'') = Some EffectCommitted"
    by code_simp
  then obtain row where row: "ledger (snd (Execute demo_engine meeting_tools demo_send demo_sys)) ''r:S1:E1'' = Some row"
    "eff_Status row = EffectCommitted" by auto
  have "ledger_steps meeting_tools vouches demo_sys (snd (Execute demo_engine meeting_tools demo_send demo_sys))"
    by (rule ledger_steps.execute [OF ledger_steps.start]) (rule surjective_pairing)
  moreover have "st_effects (w_st (sys_world demo_sys)) = []" by code_simp
  moreover have "providers_ok (sys_outside demo_sys)" using providers_start by (simp add: demo_sys_def)
  ultimately show ?thesis
    using ledger_tells_the_truth [OF demo.honest_provider_axioms _ _ _ row] row by blast
qed

text \<open>
  C25. A lost outcome is recovered. Let the row of a step be RUNNING or UNKNOWN (the process died or the
  answer was lost after the call), the tool be QUERYABLE, its key still be remembered and its
  reconciler, asked about this key, say COMMITTED. Then the next execution returns the provider's
  response, without calling the tool; the row is COMMITTED and holds the response and the reference
  (those it had where the provider gives none), and the provider is as the question left it.
\<close>

theorem lost_outcome_is_settled:
  assumes "store_ok (w_st (sys_world x))" and "hosted tools task d x"
    and "ledger x (effect_key task) = Some row" and "eff_Status row = EffectRunning \<or> eff_Status row = EffectUnknown"
    and "td_Class d = ClassQueryable" and "td_Reconciler d = Some rec" and "\<not> KeyExpired d row (w_now (sys_world x))"
    and "\<And>asked. eff_Key asked = effect_key task \<Longrightarrow> rec asked (sys_outside x) = (Inr res, p)"
    and "res_Kind res = ResolvedCommitted" and "documented (res_Response res)"
    and "int (length (events_of (w_st (sys_world x)) (task_RunID task))) + 2 \<le> max_int64"
  shows "\<exists>x' row'. Execute e tools task x = (Inr (res_Response res), x') \<and> sys_calls x' = sys_calls x \<and> sys_outside x' = p
    \<and> ledger x' (effect_key task) = Some row' \<and> eff_Status row' = EffectCommitted
    \<and> eff_Response row' = (if res_Response res = RawNil then eff_Response row else res_Response res)
    \<and> eff_ExternalRef row' = (if res_ExternalRef res = [] then eff_ExternalRef row else res_ExternalRef res)"
proof -
  have "room (w_st (sys_world x)) (task_RunID task) 2"
    using assms(1,2,11) by (intro roomI) (auto simp: hosted_def)
  moreover have "eff_Key row = effect_key task" using stored_effect assms(1,3) by (simp add: ledger_def)
  ultimately show ?thesis
    using lost_outcome [OF assms(2,3) _ assms(4-10), of e] by (auto simp: settled_by_def)
qed

theorem lost_outcome_is_settled_witness:
  "\<exists>x' row'. Execute demo_engine meeting_tools demo_send lost_sys = (Inr RawNil, x') \<and> length (sys_calls x') = 1
     \<and> ledger x' ''r:S1:E1'' = Some row' \<and> eff_Status row' = EffectCommitted \<and> eff_ExternalRef row' = ''msg_EMAIL_98375''"
proof -
  obtain row where row: "ledger lost_sys (effect_key demo_send) = Some row" "eff_Status row = EffectUnknown"
    and fresh: "\<not> KeyExpired send_tool row (w_now (sys_world lost_sys))"
    using lost_send lost_facts(4,5) by auto
  have tool: "td_Class send_tool = ClassQueryable" "td_Reconciler send_tool = Some ask_mailbox" by (simp_all add: send_tool_def)
  have answer: "res_Kind lost_answer = ResolvedCommitted" "documented (res_Response lost_answer)"
    "res_Response lost_answer = RawNil" "res_ExternalRef lost_answer = ''msg_EMAIL_98375''"
    by (simp_all add: lost_answer_def documented_def)
  have "task_RunID demo_send = ''r''" by (simp add: demo_send_def)
  then have room: "int (length (events_of (w_st (sys_world lost_sys)) (task_RunID demo_send))) + 2 \<le> max_int64"
    using lost_facts(3) by (simp add: max_int64_def)
  have asked: "ask_mailbox asked (sys_outside lost_sys) = (Inr lost_answer, sys_outside lost_sys)"
    if "eff_Key asked = effect_key demo_send" for asked
    using that lost_facts(4) by (simp add: lost_asked)
  from lost_outcome_is_settled [OF lost_ok lost_hosted row(1) disjI2 [OF row(2)] tool fresh asked answer(1,2) room, of demo_engine]
  show ?thesis using answer(3,4) lost_facts(4) lost_send by auto
qed

text \<open>
  C26. An operator's resolution (veya effects resolve) goes through exactly when one of the two verdicts
  is given, with a reference where it is "committed", and the row is RUNNING, UNKNOWN or, for "not
  executed", PENDING. It then leaves the row in the stated status with the reference found, adds one
  EFFECT_RECONCILED event, and touches nothing else; a refused one leaves the store as it is.
\<close>

theorem operator_resolution:
  assumes "store_ok (w_st w)" and "map_of (st_effects (w_st w)) key = Some e"
    and "int (length (events_of (w_st w) (eff_RunID e))) < max_int64"
  shows "((\<exists>t w'. cmdEffectsResolve None f [key] w = (Inr t, w')) \<longleftrightarrow>
        rf_committed f \<noteq> rf_notExecuted f \<and> (rf_committed f \<longrightarrow> rf_ref f \<noteq> [])
          \<and> (eff_Status e = EffectRunning \<or> eff_Status e = EffectUnknown \<or> eff_Status e = EffectPending \<and> \<not> rf_committed f))
    \<and> (\<forall>t w'. cmdEffectsResolve None f [key] w = (Inr t, w') \<longrightarrow>
        t = (if rf_committed f then EffectCommitted else EffectFailed) \<and> resolved_to t (rf_ref f) (w_st w) (w_st w') e)
    \<and> (\<forall>err w'. cmdEffectsResolve None f [key] w = (Inl err, w') \<longrightarrow> same_but_seq (w_st w) (w_st w'))"
proof -
  have "has (st_runs (w_st w)) (eff_RunID e)" using assms(1,2) by (auto simp: store_ok_def effect_ok_def dest: keyedD)
  with assms(1,3) have "room (w_st w) (eff_RunID e) 1" by (intro roomI) simp_all
  from cmdEffectsResolve_ok [OF assms(1,2) this] cmdEffectsResolve_done [OF assms(1)] cmdEffectsResolve_refused assms(2)
  show ?thesis unfolding settleable_def by (intro conjI allI impI; fastforce)
qed

theorem operator_resolution_witness:
  "\<exists>e w'. map_of (st_effects sample_stuck) ''k'' = Some e
     \<and> cmdEffectsResolve None found_sent [''k''] (world_at sample_stuck) = (Inr EffectCommitted, w')
     \<and> resolved_to EffectCommitted ''pay-7'' sample_stuck (w_st w') e"
proof -
  obtain e where e: "map_of (st_effects sample_stuck) ''k'' = Some e" "eff_Status e = EffectRunning" "eff_RunID e = ''r''"
    using sample_stuck_facts(1) by blast
  moreover have "store_ok sample_stuck" using sample_stuck_trace trace_ok by fastforce
  ultimately show ?thesis
    using operator_resolution [of "world_at sample_stuck" "''k''" e found_sent] sample_stuck_facts(2)
    by (fastforce simp: world_at_def max_int64_def found_sent_def)
qed

section \<open>Recovery\<close>

text \<open>
  C27. Reclaiming a task with attempts left fences its owner: afterwards the task is PENDING and
  announced for immediate delivery, the token is one higher and belongs to the reaper, and the new
  lease has already run out, so that any worker may claim.
\<close>

theorem reclaim_requeues_and_fences:
  assumes "store_ok (w_st w)" and "in_tx (reclaim_tx (w_now w) stale) w = (Inr True, w')"
    and "map_of (st_leases (w_st w)) (lease_TaskID stale) = Some l" and "1 \<le> lease_Token l" and "lease_Token l < max_int64"
  shows "\<exists>l' t. map_of (st_leases (w_st w')) (lease_TaskID stale) = Some l' \<and> lease_Token l' = lease_Token l + 1
    \<and> lease_WorkerID l' = ReaperWorkerID \<and> Lease_Expired l' (w_now w')
    \<and> map_of (st_tasks (w_st w')) (lease_TaskID stale) = Some t \<and> task_Status t = TaskPending
    \<and> (\<exists>d. d \<in> set (vals (st_deliveries (w_st w'))) \<and> del_TaskID d = lease_TaskID stale \<and> time_IsZero (del_AvailableAt d))"
  by (rule reclaim_fences [OF assms])

theorem reclaim_requeues_and_fences_witness:
  "\<exists>w' l'. in_tx (reclaim_tx 200 fan_lease) retry_world = (Inr True, w')
     \<and> map_of (st_leases (w_st w')) ''t'' = Some l' \<and> lease_Token l' = 2 \<and> lease_WorkerID l' = ReaperWorkerID"
proof -
  obtain w' where w': "in_tx (reclaim_tx 200 fan_lease) retry_world = (Inr True, w')" using retry_facts(1) by blast
  obtain l where l: "map_of (st_leases (w_st retry_world)) ''t'' = Some l" "lease_Token l = 1" using retry_facts(2) by blast
  show ?thesis
    using reclaim_requeues_and_fences [of retry_world fan_lease w' l] retry_ok w' l retry_now by (auto simp: fan_lease_def max_int64_def)
qed

text \<open>
  C28. A task that the reaper takes back after its last attempt is dead-lettered without a TASK_FAILED
  event, and a join is computed from TASK_COMPLETED and TASK_FAILED alone. So when it is a child of an
  open fan-out, the fan-out is as open as before, and Advance leaves the run alone, for every engine.
  A join of all children (ALL) stays open however the history goes on, unless a fan-out is started or
  an event settles that child; the other policies may still be satisfied by its siblings.
\<close>

theorem reaped_child_blocks_join:
  assumes "store_ok (w_st w)" and "map_of (st_tasks (w_st w)) (lease_TaskID stale) = Some t"
    and "task_Status t = TaskRunning" and "Task_Exhausted t"
    and "int (length (events_of (w_st w) (task_RunID t))) + 2 \<le> max_int64"
    and "PendingWait (History (w_st w) (task_RunID t)) = None" and "PendingFanOut (History (w_st w) (task_RunID t)) = Some f"
    and "in_tx (reclaim_tx (w_now w) stale) w = (Inr False, w')" and "w' \<noteq> w"
  shows "map_option task_Status (map_of (st_tasks (w_st w')) (lease_TaskID stale)) = Some TaskDeadLetter
    \<and> PendingFanOut (History (w_st w') (task_RunID t)) = Some f
    \<and> (\<forall>e. Advance e (task_RunID t) w' = Some (None, w'))
    \<and> (\<forall>c later. jp_Kind (fo_Join f) = JoinAll \<longrightarrow> c \<in> set (fo_Children f) \<longrightarrow> ch_StepID c = task_StepID t \<longrightarrow> \<not> ch_Settled c
         \<longrightarrow> (\<forall>x \<in> set later. ev_Type x \<noteq> EventFanOutStarted) \<longrightarrow> \<not> settled_in later (task_StepID t)
         \<longrightarrow> PendingFanOut (History (w_st w') (task_RunID t) @ later) \<noteq> None)"
  using reaped_child_stuck [OF assms] unsettled_child_blocks by blast

theorem reaped_child_blocks_join_witness:
  "\<exists>w'. in_tx (reclaim_tx 200 fan_lease) fan_world = (Inr False, w')
     \<and> Advance (sample_engine fan_agent) ''r'' w' = Some (None, w')"
proof -
  obtain t f s' where t: "map_of (st_tasks fan_held) ''t'' = Some t" "task_Status t = TaskRunning" "Task_Exhausted t" "task_RunID t = ''r''"
    and f: "PendingFanOut (History fan_held ''r'') = Some f" and s': "reclaim_tx 200 fan_lease fan_held = (Inr False, s')" "s' \<noteq> fan_held"
    using fan_facts by blast
  let ?w' = "fan_world\<lparr>w_st := s'\<rparr>"
  have st: "w_st fan_world = fan_held" "w_now fan_world = 200" "lease_TaskID fan_lease = ''t''"
    by (simp_all add: fan_world_def world_at_def fan_lease_def)
  have r: "in_tx (reclaim_tx (w_now fan_world) fan_lease) fan_world = (Inr False, ?w')" using s' st by simp
  have "?w' \<noteq> fan_world" using s'(2) st(1) by (metis world.select_convs(1) world.surjective world.update_convs(1))
  with reaped_child_blocks_join [of fan_world fan_lease t f ?w'] fan_held_ok t f r st fan_facts(2,4) show ?thesis
    by (auto simp: max_int64_def simp del: in_tx_ok)
qed

text \<open>
  C29. A retry's backoff holds back the relay and not the recovery scan. After a failed attempt that
  is retried with a positive backoff, the delivery intent is due when the backoff is over and no
  reading of the outbox before that returns it; but a scan in between, whose batch holds the pending
  tasks, publishes the task.
\<close>

theorem scan_ignores_backoff:
  assumes "store_ok (w_st w)" and "map_of (st_tasks (w_st w)) tid = Some t"
    and "task_Status t = TaskRunning \<and> \<not> Task_Exhausted t \<and> \<not> Is cause ErrEscalated"
    and "FailTask e tid token cause w = Some (r, w1)"
    and "map_of (st_tasks (w_st w1)) tid = Some t1" and "task_Status t1 = TaskPending"
    and "backoff = Backoff (e_float e) (e_rand e (w_rands w)) (e_retry e) (task_Attempt t)" and "due = time_Add (w_now w) backoff"
    and "0 < backoff" and "now < due" and "\<not> time_IsZero due" and "\<And>n tid. e_publish e n tid = None"
    and "length (filter (\<lambda>t. task_Status t = TaskPending) (vals (st_tasks (w_st w1)))) \<le> nat (rt_batch rt)"
    and "ScanOnce e rt (w1\<lparr>w_now := now\<rparr>) = Some w2"
  shows "(\<exists>i d. map_of (st_deliveries (w_st w1)) i = Some d \<and> del_TaskID d = tid \<and> del_AvailableAt d = due
        \<and> d \<notin> set (PendingDeliveries (w_st w1) now limit))
    \<and> tid \<in> set (drop (length (w_sent w)) (w_sent w2))"
proof -
  have "store_ok (w_st w1)" using interleaving.FailTask_R [OF assms(4)] assms(1) by (simp add: along_def)
  with assms show ?thesis by (intro backoff_bypassed [of e tid token cause w r w1 t t1 due now rt w2 limit]) simp_all
qed

theorem scan_ignores_backoff_witness:
  "''t'' \<in> set (w_sent patient_scanned)"
proof -
  let ?w = "world_at retry_held"
  have w: "w_st ?w = retry_held" "w_now ?w = 100" "w_sent ?w = []" "w_rands ?w = 0" by (simp_all add: world_at_def)
  have e: "e_float patient_engine = (\<lambda>x. x)" "e_rand patient_engine = (\<lambda>_. 0)" "e_publish patient_engine = (\<lambda>_ _. None)"
    by (simp_all add: patient_engine_def sample_engine_def)
  have no: "\<not> Is (errors_New ''no'') ErrEscalated" "\<not> time_IsZero 150" "time_Add 100 50 = 150" by code_simp+
  obtain t t1 where t: "map_of (st_tasks retry_held) ''t'' = Some t"
      "task_Status t = TaskRunning" "\<not> Task_Exhausted t" "task_Attempt t = 1"
    and t1: "map_of (st_tasks (w_st patient_failed)) ''t'' = Some t1" "task_Status t1 = TaskPending"
    using patient_facts(1,2) by blast
  have "''t'' \<in> set (drop (length (w_sent ?w)) (w_sent patient_scanned))"
    by (rule scan_ignores_backoff [OF _ _ _ patient_fails t1 _ _ _ _ _ _ patient_facts(5) patient_scans,
          where backoff = 50 and due = 150 and t = t, THEN conjunct2])
      (simp_all add: w e t no patient_facts(3,4))
  then show ?thesis by (simp add: w)
qed

text \<open>
  C30. The PostgreSQL dispatcher hands out tasks that are PENDING in the store. A take changes one column,
  tasks.available_at, of which the in-memory store has no counterpart; every record is what it was.
  Whatever transactions follow, pollers are offered the task again exactly when it is PENDING and the
  visibility timeout has passed, so that a lost identity is never a lost task; and until then the
  recovery scan, whose query filters on the same column, does not see it either (for a batch that holds
  the table). The instants in the outbox, where a retry's backoff is kept, have no part in it.
\<close>

theorem poller_offers_pending_tasks:
  assumes "mirrors D p s" and "(Inr (Some tid), p') \<in> set (take_task D d now locked fault p)" and "history_fits D xs s"
    and "length (pg_tasks (snd (pg_history D xs p'))) \<le> nat (limitOrAll n)"
  shows "(\<exists>t. map_of (st_tasks s) tid = Some t \<and> task_Status t = TaskPending) \<and> mirrors D p' s
    \<and> (tid \<in> tr_task_id ` set (offered D later (\<lambda>_. False) (snd (pg_history D xs p'))) \<longleftrightarrow>
        (\<exists>t. map_of (st_tasks (snd (mem_history xs s))) tid = Some t \<and> task_Status t = TaskPending)
          \<and> db_stamp D (time_Add now (pd_visibility d)) \<le> db_stamp D later)
    \<and> (tid \<in> task_ID ` set (Pg_PendingTasks D (snd (pg_history D xs p')) later n) \<longleftrightarrow>
        (\<exists>t. map_of (st_tasks (snd (mem_history xs s))) tid = Some t \<and> task_Status t = TaskPending)
          \<and> db_stamp D (time_Add now (pd_visibility d)) \<le> db_stamp D later)"
  using taken_pending [OF assms(1,2)] taken_offered_after [OF assms(1-3)] scan_offers [OF assms(4)] by simp

theorem poller_offers_pending_tasks_witness:
  "''t'' \<notin> task_ID ` set (Pg_PendingTasks sample_dialect (snd (pg_history sample_dialect polled_later polled_after)) 11000 100)
   \<and> ''t'' \<in> task_ID ` set (Pg_PendingTasks sample_dialect (snd (pg_history sample_dialect polled_later polled_after)) 12000 100)"
proof -
  have "mirrors sample_dialect polled_rows (snd (mem_history polled_history newState))"
    using histories_agree [OF mirrors_empty polled_fits(1)] by (simp add: polled_rows_def)
  moreover have "length (pg_tasks (snd (pg_history sample_dialect polled_later polled_after))) \<le> nat (limitOrAll 100)"
    by (simp add: polled_one limitOrAll_def)
  moreover have "\<not> db_stamp sample_dialect (time_Add 8000 (pd_visibility sample_poller)) \<le> db_stamp sample_dialect 11000"
    "db_stamp sample_dialect (time_Add 8000 (pd_visibility sample_poller)) \<le> db_stamp sample_dialect 12000" by code_simp+
  moreover have "map_option task_Status (map_of (st_tasks (snd (mem_history polled_later (snd (mem_history polled_history newState))))) ''t'')
      = Some TaskPending" by code_simp
  ultimately show ?thesis
    using poller_offers_pending_tasks [OF _ polled_takes polled_fits(2), of 100 11000]
      poller_offers_pending_tasks [OF _ polled_takes polled_fits(2), of 100 12000] by auto
qed

section \<open>The gateway\<close>

text \<open>
  C31. A run is decided by the version it is pinned to: the worker that is picked serves the agent,
  decides and has the run's version. When no such worker is connected, the decision fails with
  ErrUnavailable, and an engine that asks this decider leaves the run as it is.
\<close>

theorem decider_is_pinned_or_unavailable:
  assumes "e_decide e (w_asked w) run h = fst (remote_Decide ask agent run h g)"
  shows "(\<forall>s g'. pickDecider (run_AgentName run) (run_AgentVersion run) g = (Inr s, g')
        \<longrightarrow> s \<in> set (agent_sessions g (run_AgentName run)) \<and> se_decides s \<and> se_version s = run_AgentVersion run)
    \<and> ((\<forall>s \<in> set (agent_sessions g (run_AgentName run)). \<not> (se_decides s \<and> se_version s = run_AgentVersion run))
        \<longrightarrow> (\<exists>err. decide e run h w = (Return (Some err), w\<lparr>w_asked := Suc (w_asked w)\<rparr>) \<and> Is err ErrUnavailable))"
proof (intro conjI allI impI)
  fix s g'
  assume p: "pickDecider (run_AgentName run) (run_AgentVersion run) g = (Inr s, g')"
  show "s \<in> set (agent_sessions g (run_AgentName run))" "se_decides s" "se_version s = run_AgentVersion run"
    using pickDecider_pinned [OF p] by simp_all
next
  assume none: "\<forall>s \<in> set (agent_sessions g (run_AgentName run)). \<not> (se_decides s \<and> se_version s = run_AgentVersion run)"
  obtain r g' where r: "pickDecider (run_AgentName run) (run_AgentVersion run) g = (r, g')" by fastforce
  then obtain err where "r = Inl err" using pickDecider_pinned none by (cases r) blast+
  with r show "\<exists>err. decide e run h w = (Return (Some err), w\<lparr>w_asked := Suc (w_asked w)\<rparr>) \<and> Is err ErrUnavailable"
    using decide_without_worker [OF assms] by blast
qed

theorem decider_is_pinned_or_unavailable_witness:
  "\<exists>err. decide (gateway_engine (\<lambda>_ _ _. StreamDone) Gateway_New) (sample_run sample_started) [] (world_at sample_started)
      = (Return (Some err), (world_at sample_started)\<lparr>w_asked := 1\<rparr>) \<and> Is err ErrUnavailable"
  using decider_is_pinned_or_unavailable [of "gateway_engine (\<lambda>_ _ _. StreamDone) Gateway_New" "world_at sample_started"
      "sample_run sample_started" "[]" "\<lambda>_ _ _. StreamDone" "''shop''" Gateway_New]
  by (simp add: gateway_engine_def Gateway_New_def agent_sessions_def agent_ids_def map_filter_simps world_at_def)

text \<open>
  C32. Whatever workers connect, answer and leave, in whatever order, and however calls and picks
  interleave with them: a call that returns an answer returns one that its own worker has sent under
  the number of the call; one that is told nothing was waiting for a worker that is gone; a call
  that still waits has its slot in an open session, or can return at once; and the sessions a pick
  chooses from are exactly the connected ones of the agent.
\<close>

theorem answers_reach_their_callers:
  assumes "traffic_reachable x"
  shows "(\<forall>sid c m. ((sid, c), Received (Some m)) \<in> set (tf_ended x) \<longrightarrow> callIDOf m = Some c \<and> (sid, m) \<in> set (tf_heard x))
    \<and> (\<forall>sid c. ((sid, c), Received None) \<in> set (tf_ended x) \<longrightarrow> worker_gone (tf_gateway x) sid)
    \<and> (\<forall>sid c ch. map_of (tf_calls x) (sid, c) = Some ch
         \<longrightarrow> waits_on (tf_gateway x) sid c (fst ch) \<or> may_end (tf_over x) sid ch (Received (fst ch)))
    \<and> (\<forall>agent. set (agent_sessions (tf_gateway x) agent)
         = {s. map_of (gw_sessions (tf_gateway x)) (se_id s) = Some s \<and> se_agent s = agent})"
proof -
  have ok: "traffic_ok x" using assms by (rule reachable_traffic_ok)
  have ended: "ending_ok (tf_gateway x) (tf_heard x) sid c w" if "((sid, c), w) \<in> set (tf_ended x)" for sid c w
    using ok that unfolding traffic_ok_def endings_ok_def by blast
  have "callIDOf m = Some c \<and> (sid, m) \<in> set (tf_heard x)" if "((sid, c), Received (Some m)) \<in> set (tf_ended x)" for sid c m
    using ended [OF that] by (simp add: ending_ok_def heard_for_def)
  moreover have "worker_gone (tf_gateway x) sid" if "((sid, c), Received None) \<in> set (tf_ended x)" for sid c
    using ended [OF that] by (simp add: ending_ok_def)
  moreover have "gateway_ok (tf_gateway x)" using ok by (simp add: traffic_ok_def)
  ultimately show ?thesis
    by (intro conjI allI impI) (simp_all add: no_call_is_stranded [OF assms] agent_sessions_exact)
qed

theorem answers_reach_their_callers_witness:
  "((''s1'', ''s1.1''), Received (Some sample_answer)) \<in> set (tf_ended sample_answered)
     \<and> callIDOf sample_answer = Some ''s1.1'' \<and> (''s1'', sample_answer) \<in> set (tf_heard sample_answered)"
  using sample_answered_ends
    answers_reach_their_callers [OF sample_answered_reachable, THEN conjunct1, rule_format, OF sample_answered_ends] by simp

text \<open>
  C33. Why the termination of Advance needs deadlines that lie ahead: an agent that waits again with a
  deadline that is over keeps one call of Advance going, for as many passes as the event numbers last,
  though the store holds no signal at all.
\<close>

theorem overdue_waits_spin:
  assumes "\<forall>n run h. \<exists>d. e_decide e n run h = Inr d \<and> overdue_decision step name dl d"
    and "\<not> time_IsZero dl" and "time_marshalable dl" and "dl \<le> w_now w"
    and "spins e rid step name dl w" and "int (length (events_of (w_st w) rid)) + 2 * int n \<le> max_int64"
  shows "\<exists>w'. rounds e rid n w = (Again, w') \<and> st_signals (w_st w') = [] \<and> Advance e rid w = Advance e rid w'"
  using spins_rounds [OF assms(2-4) _ assms(5,6)] assms(1) rounds_Advance by blast

theorem overdue_waits_spin_witness:
  "\<exists>w'. rounds (sample_engine (\<lambda>_. wait_agent 50 [])) ''r'' 1000000 (world_at sample_started) = (Again, w') \<and> st_signals (w_st w') = []"
proof -
  have "length (events_of sample_started ''r'') = 1" by code_simp
  then show ?thesis
    using overdue_waits_spin [of "sample_engine (\<lambda>_. wait_agent 50 [])" "''S1''" "''go''" 50 "world_at sample_started" "''r''" 1000000]
      sample_spins by (auto simp: sample_engine_def wait_agent_def seen_event_def overdue_decision_def zero_decision_def time_IsZero_def
        zero_time_def time_marshalable_def world_at_def max_int64_def)
qed

text \<open>
  C34. What the runtime accepts from a worker is executable: a call names a tool and a step, a fan-out
  has calls and a policy that can be satisfied, a sleep and a bounded wait name an instant, a failure
  has a reason. Everything else is refused as a protocol error, which fails the run and is not taken
  for a missing worker.
\<close>

theorem wire_decisions_are_executable:
  shows "case wire_Decision m of Inr d \<Rightarrow> executable d | Inl err \<Rightarrow> Is err ErrProtocol \<and> \<not> Is err ErrUnavailable"
  using wire_Decision_executable wire_Decision_error by (auto split: sum.split)

section \<open>Setting up\<close>

text \<open>
  C35. A configuration that passes Validate is well formed and complete: validating it again changes
  nothing, and its store and dispatcher can be opened, when the services answer. A worker process
  gets the shared store and no dispatcher of its own.
\<close>

theorem validated_config_opens:
  assumes "Validate host c = Inr c'"
  shows "valid_config c' \<and> Validate host' c' = Inr c'
    \<and> (\<exists>store d. OpenStore None c' = Inr store \<and> OpenDispatcher None c' store = Inr d
        \<and> (cfg_Role c' = ''worker'' \<longrightarrow> (\<forall>b. d \<noteq> InprocDispatcher b) \<and> store = PostgresStore))"
  using Validate_valid [OF assms] valid_unchanged valid_opens by blast

theorem validated_config_opens_witness:
  "\<exists>c. Validate None DefaultConfig = Inr c \<and> valid_config c"
  using default_valid validated_config_opens by blast

text \<open>
  C36. Migrations are applied once and in order, whatever the files do. What a run has applied and
  what is pending after it make up, in order, what was pending before; it records exactly what it
  applied; it reports success exactly when nothing is left; and running it again after success
  applies nothing.
\<close>

theorem migrations_resume:
  assumes "Migrations_Apply exec files db = ((vs, err), db')" and "distinct (map fst files)"
  shows "Migrations_Pending files db = vs @ Migrations_Pending files db' \<and> appliedVersions db' = appliedVersions db @ vs
    \<and> (err = None \<longleftrightarrow> Migrations_Pending files db' = [])
    \<and> (err = None \<longrightarrow> Migrations_Apply exec files db' = (([], None), ensure_versions db'))"
  using Apply_ran [OF assms] Apply_again [of files db' exec] by simp

theorem migrations_resume_witness:
  "\<exists>db. Migrations_Apply exec_ddls schema_files fresh_database = ((map fst schema_files, None), db) \<and> appliedVersions db = map fst schema_files"
proof -
  obtain db where "Migrations_Apply exec_ddls schema_files fresh_database = ((map fst schema_files, None), db)"
    using schema_applies by (metis prod.collapse)
  moreover have "distinct (map fst schema_files)" "appliedVersions fresh_database = []" by code_simp+
  ultimately show ?thesis using migrations_resume [of exec_ddls schema_files fresh_database] by auto
qed

section \<open>What history says\<close>

text \<open>
  C37. After the last fan-out of a history, whatever came before it could be read: PendingFanOut gives
  nothing when the policy is satisfied and the fan-out otherwise; its children are the children of the
  step, in order; child i is settled when an event of its own step completed it or failed it for good,
  and has succeeded when the completion was not followed by a final failure.
\<close>

theorem pending_fan_out_reads_children:
  assumes "fan_loop fan_init before \<noteq> None" and "ev_Type e = EventFanOutStarted"
    and "Decode_FanOutStarted e = ((calls, join), None)" and "\<forall>x \<in> set es. ev_Type x \<noteq> EventFanOutStarted"
  shows "\<exists>f. PendingFanOut (before @ e # es) = (if FanOut_Satisfied f then None else Some f)
    \<and> fo_StepID f = ev_StepID e \<and> fo_Join f = joinFrom join
    \<and> map ch_StepID (fo_Children f) = StepID_Children (ev_StepID e) (length calls) \<and> map ch_Tool (fo_Children f) = calls
    \<and> (\<forall>i < length calls. (ch_Settled (fo_Children f ! i) \<longleftrightarrow> settled_in es (StepID_Child (ev_StepID e) (int i)))
        \<and> (ch_Succeeded (fo_Children f ! i) \<longleftrightarrow> succeeded_in es (StepID_Child (ev_StepID e) (int i))))"
  using PendingFanOut_last [OF assms] fan_result_shape fan_result_child
  by (intro exI [of _ "fan_result e calls join es"]) simp

theorem pending_fan_out_reads_children_witness:
  "\<exists>before e es f. History fan_held ''r'' = before @ e # es \<and> PendingFanOut (History fan_held ''r'') = Some f
     \<and> fo_StepID f = ev_StepID e \<and> length (fo_Children f) = 2"
proof -
  obtain before e es where h: "History fan_held ''r'' = before @ e # es" "fan_loop fan_init before \<noteq> None" "ev_Type e = EventFanOutStarted"
    "Decode_FanOutStarted e = (([''pay'', ''pay''], ''ALL''), None)" "\<forall>x \<in> set es. ev_Type x \<noteq> EventFanOutStarted"
    using fan_history by blast
  obtain f where f: "PendingFanOut (History fan_held ''r'') = (if FanOut_Satisfied f then None else Some f)" "fo_StepID f = ev_StepID e"
    "map ch_Tool (fo_Children f) = [''pay'', ''pay'']" using pending_fan_out_reads_children [OF h(2-5)] h(1) by auto
  from f(1) fan_facts(3) have "PendingFanOut (History fan_held ''r'') = Some f" by (auto split: if_splits)
  moreover have "length (fo_Children f) = 2" using f(3) by (metis length_map length_Cons list.size(3) numeral_2_eq_2)
  ultimately show ?thesis using h(1) f(2) by blast
qed

text \<open>
  C38. The early decision of a quorum is exact: the join is satisfied when and only when every way in
  which the children that are still running may settle gives the same answer to whether the quorum was
  reached.
\<close>

theorem quorum_join_is_exact:
  assumes "jp_Kind (fo_Join f) = JoinQuorum"
  shows "FanOut_Satisfied f \<longleftrightarrow> (\<forall>a b. completion (fo_Children f) a \<longrightarrow> completion (fo_Children f) b
    \<longrightarrow> (jp_Quorum (fo_Join f) \<le> successes a \<longleftrightarrow> jp_Quorum (fo_Join f) \<le> successes b))"
  using assms quorum_decided by (simp add: FanOut_Satisfied_alt)

theorem quorum_join_is_exact_witness:
  "\<not> FanOut_Satisfied sample_fan"
proof
  have k: "jp_Kind (fo_Join sample_fan) = JoinQuorum" "jp_Quorum (fo_Join sample_fan) = 2" by (simp_all add: sample_fan_def)
  assume "FanOut_Satisfied sample_fan"
  with quorum_join_is_exact [OF k(1)] have "2 \<le> successes (settle_all True (fo_Children sample_fan))
      \<longleftrightarrow> 2 \<le> successes (settle_all False (fo_Children sample_fan))"
    unfolding k using completion_settle_all by blast
  then show False by (simp add: sample_fan_def settle_all_def)
qed

text \<open>
  C39. What a fan-out was is recovered from its event: recording it and decoding the event gives the
  calls, and the policy printed as text and scanned back is the policy (its quorum, where it has one).
\<close>

theorem fan_out_survives_recording:
  assumes "NewEvent r q ty s (FanOutStartedData calls (JoinPolicy_String p)) = Inr e"
    and "JoinPolicy_Valid p n = None" and "jp_Quorum p \<le> max_int64"
  shows "\<exists>join. Decode_FanOutStarted e = ((calls, join), None)
    \<and> joinFrom join = (if jp_Kind p = JoinQuorum then p else p\<lparr>jp_Quorum := 0\<rparr>)"
  using Decode_FanOutStarted_NewEvent [OF assms(1)] joinFrom_String [OF assms(2,3)] by blast

theorem fan_out_survives_recording_witness:
  "\<exists>e. NewEvent ''r'' 3 EventFanOutStarted ''S1'' (FanOutStartedData [''pay''] ''QUORUM(1)'') = Inr e
     \<and> (\<exists>join. Decode_FanOutStarted e = (([''pay''], join), None) \<and> joinFrom join = \<lparr>jp_Kind = JoinQuorum, jp_Quorum = 1\<rparr>)"
proof -
  let ?p = "\<lparr>jp_Kind = JoinQuorum, jp_Quorum = 1\<rparr>"
  have p: "JoinPolicy_String ?p = ''QUORUM(1)''" "JoinPolicy_Valid ?p 1 = None" by code_simp+
  have "marshal_data (FanOutStartedData [''pay''] ''QUORUM(1)'') \<noteq> None" by (simp add: marshal_data_def struct_def field_defs)
  then obtain e where e: "NewEvent ''r'' 3 EventFanOutStarted ''S1'' (FanOutStartedData [''pay''] ''QUORUM(1)'') = Inr e"
    using NewEvent_iff_marshal by blast
  with fan_out_survives_recording [of "''r''" 3 EventFanOutStarted "''S1''" "[''pay'']" ?p e 1] p show ?thesis
    by (simp add: max_int64_def)
qed

section \<open>Identities\<close>

text \<open>
  C40. Idempotency keys do not collide: for runs named by the runtime's generator, two keys are the same
  only when the run, the step and the position of the effect are.
\<close>

theorem idempotency_keys_injective:
  assumes "\<forall>b \<in> set bs. b < 256" and "\<forall>b \<in> set bs'. b < 256"
  shows "NewIdempotencyKey (uuidv4 bs) step (int m) = NewIdempotencyKey (uuidv4 bs') step' (int n)
    \<longleftrightarrow> uuidv4 bs = uuidv4 bs' \<and> step = step' \<and> m = n"
  using NewIdempotencyKey_inject colon_uuidv4 assms by blast

theorem idempotency_keys_injective_witness:
  "NewIdempotencyKey (uuidv4 (replicate 16 7)) ''S1'' (int 1) \<noteq> NewIdempotencyKey (uuidv4 (replicate 16 7)) ''S2'' (int 1)"
  using idempotency_keys_injective [of "replicate 16 7" "replicate 16 7" "''S1''" 1 "''S2''" 1] by simp

end
